(* ===== verification/Go_Prelude.thy ===== *)
theory Go_Prelude
  imports Complex_Main "HOL-Library.Word"
begin

text \<open>
  What every component of the model shares: the errors and the response record of the
  service layer (\<open>model/model.go\<close>), the parts of Go's standard library that the source
  uses on strings, integers, durations and 32-bit floats, and the lemmas about them that
  the component theories rely on.

  Strings are byte strings (\<open>char list\<close>). \<open>to_lower\<close> and \<open>trim_space\<close> are Go's
  \<open>strings.ToLower\<close> and \<open>strings.TrimSpace\<close> on ASCII input. A Go \<open>int\<close> is 64 bits wide:
  the model uses \<open>int\<close> and wraps with \<open>go_int64\<close> where a value can leave the range.
  Times are nanoseconds since the Unix epoch, durations are nanoseconds.
\<close>

named_theorems go_simps \<open>simplification rules for the Go library functions\<close>

subsection \<open>Errors and responses\<close>

text \<open>An \<open>error\<close> value of Go, or a run-time panic (index out of range, nil dereference).\<close>

datatype go_error = Err string | Panic string

record 'd api_response =
  resp_data :: "'d option"
  resp_status :: int
  resp_message :: string
  resp_error :: string

definition StatusOK :: int where "StatusOK = 200"
definition StatusBadRequest :: int where "StatusBadRequest = 400"
definition StatusUnauthorized :: int where "StatusUnauthorized = 401"

fun err_text :: "go_error \<Rightarrow> string" where
  "err_text (Err e) = e"
| "err_text (Panic e) = e"

definition NewSuccessResponse :: "string \<Rightarrow> 'd option \<Rightarrow> 'd api_response" where
  "NewSuccessResponse msg d =
     \<lparr>resp_data = d, resp_status = StatusOK, resp_message = msg, resp_error = []\<rparr>"

definition NewErrorResponse :: "int \<Rightarrow> string \<Rightarrow> go_error \<Rightarrow> 'd api_response" where
  "NewErrorResponse code msg e =
     \<lparr>resp_data = None, resp_status = code, resp_message = msg, resp_error = err_text e\<rparr>"

lemmas response_defs = NewSuccessResponse_def NewErrorResponse_def

lemma status_distinct [simp]:
  "StatusOK \<noteq> StatusBadRequest" "StatusBadRequest \<noteq> StatusOK"
  "StatusOK \<noteq> StatusUnauthorized" "StatusUnauthorized \<noteq> StatusOK"
  "StatusBadRequest \<noteq> StatusUnauthorized" "StatusUnauthorized \<noteq> StatusBadRequest"
  by (simp_all add: StatusOK_def StatusBadRequest_def StatusUnauthorized_def)

lemma resp_status_simps [simp]:
  "resp_status (NewSuccessResponse m d) = StatusOK"
  "resp_status (NewErrorResponse c m e) = c"
  "resp_data (NewSuccessResponse m d) = d"
  "resp_data (NewErrorResponse c m e) = None"
  by (simp_all add: response_defs)

subsection \<open>Strings\<close>

definition is_space :: "char \<Rightarrow> bool" where
  "is_space c \<longleftrightarrow> (let n = of_char c :: nat in n = 32 \<or> (9 \<le> n \<and> n \<le> 13))"

definition trim_space :: "string \<Rightarrow> string" where
  "trim_space s = rev (dropWhile is_space (rev (dropWhile is_space s)))"

lemma trim_space_idem [simp]: "trim_space (trim_space s) = trim_space s"
proof -
  let ?u = "dropWhile is_space s" and ?t = "trim_space s"
  have "?u = ?t @ rev (takeWhile is_space (rev ?u))"
    unfolding trim_space_def rev_append [symmetric] takeWhile_dropWhile_id by simp
  then have "?t \<noteq> [] \<Longrightarrow> hd ?t = hd ?u \<and> ?u \<noteq> []" by (metis Nil_is_append_conv hd_append2)
  then have "dropWhile is_space ?t = ?t" using hd_dropWhile [of is_space s] by (cases ?t) auto
  moreover have "dropWhile is_space (rev ?t) = rev ?t" by (simp add: trim_space_def)
  ultimately show ?thesis by (simp add: trim_space_def [of ?t])
qed

definition lower_char :: "char \<Rightarrow> char" where
  "lower_char c = (let n = of_char c :: nat in if 65 \<le> n \<and> n \<le> 90 then char_of (n + 32) else c)"

definition to_lower :: "string \<Rightarrow> string" where
  "to_lower s = map lower_char s"

definition has_prefix :: "string \<Rightarrow> string \<Rightarrow> bool" where
  "has_prefix s p \<longleftrightarrow> take (length p) s = p"

fun contains :: "string \<Rightarrow> string \<Rightarrow> bool" where
  "contains [] p = (p = [])"
| "contains (c # s) p = (has_prefix (c # s) p \<or> contains s p)"

text \<open>\<open>strings.Split\<close> with a one-byte separator.\<close>

fun split_on :: "char \<Rightarrow> string \<Rightarrow> string list" where
  "split_on d [] = [[]]"
| "split_on d (c # s) =
     (if c = d then [] # split_on d s
      else (case split_on d s of [] \<Rightarrow> [[c]] | p # ps \<Rightarrow> (c # p) # ps))"

lemma split_on_nonempty: "split_on c s \<noteq> []"
  by (induction s) (auto split: list.splits)

lemma split_on_field: "c \<notin> set x \<Longrightarrow> split_on c (x @ c # y) = x # split_on c y"
  by (induction x) (auto split: list.splits)

lemma split_on_one: "c \<notin> set x \<Longrightarrow> split_on c x = [x]"
  by (induction x) auto

lemma split_on_length: "length (split_on d s) = Suc (count_list s d)"
  by (induction s) (auto split: list.splits)

lemma split_lines:
  "\<forall>l \<in> set ls. d \<notin> set l \<Longrightarrow> split_on d (concat (map (\<lambda>l. l @ [d]) ls)) = ls @ [[]]"
  by (induction ls) (simp_all add: split_on_field)

lemma split_on_parts: "p \<in> set (split_on d s) \<Longrightarrow> d \<notin> set p"
  by (induction s arbitrary: p) (auto split: list.splits if_splits)

lemma trim_space_blank: "trim_space s = [] \<longleftrightarrow> list_all is_space s"
proof (cases "list_all is_space s")
  case True
  then have none: "dropWhile is_space s = []" by (simp add: list_all_iff)
  show ?thesis unfolding trim_space_def none using True by simp
next
  case False
  let ?u = "dropWhile is_space s"
  have ne: "?u \<noteq> []" using False by (simp add: list_all_iff)
  then have "\<not> is_space (hd ?u)" by (rule hd_dropWhile)
  with ne have "\<exists>x \<in> set (rev ?u). \<not> is_space x" by (intro bexI [of _ "hd ?u"]) simp_all
  then have "dropWhile is_space (rev ?u) \<noteq> []" by (simp only: dropWhile_eq_Nil_conv) blast
  with False show ?thesis by (simp add: trim_space_def)
qed

text \<open>\<open>filepath.Ext\<close>: the suffix from the last dot of the last path element.\<close>

fun ext_scan :: "string \<Rightarrow> string \<Rightarrow> string" where
  "ext_scan [] acc = []"
| "ext_scan (c # s) acc =
     (if c = CHR ''/'' then [] else if c = CHR ''.'' then c # acc else ext_scan s (c # acc))"

definition filepath_ext :: "string \<Rightarrow> string" where
  "filepath_ext path = ext_scan (rev path) []"

subsection \<open>Integers\<close>

definition go_int64 :: "int \<Rightarrow> int" where
  "go_int64 x = sint (word_of_int x :: 64 word)"

abbreviation max_int64 :: int where "max_int64 \<equiv> 9223372036854775807"
abbreviation min_int64 :: int where "min_int64 \<equiv> - 9223372036854775808"

lemma go_int64_id: "min_int64 \<le> x \<Longrightarrow> x \<le> max_int64 \<Longrightarrow> go_int64 x = x"
  by (simp add: go_int64_def sint_sbintrunc' signed_take_bit_int_eq_self)

definition is_digit :: "char \<Rightarrow> bool" where
  "is_digit c \<longleftrightarrow> (let n = of_char c :: nat in 48 \<le> n \<and> n \<le> 57)"

definition digit_val :: "char \<Rightarrow> int" where
  "digit_val c = int (of_char c) - 48"

fun digits_val :: "int \<Rightarrow> string \<Rightarrow> int option" where
  "digits_val acc [] = Some acc"
| "digits_val acc (c # s) =
     (if is_digit c then digits_val (acc * 10 + digit_val c) s else None)"

definition in_int64 :: "int \<Rightarrow> int option" where
  "in_int64 x = (if min_int64 \<le> x \<and> x \<le> max_int64 then Some x else None)"

text \<open>\<open>strconv.Atoi\<close> (and \<open>ParseInt(_, 10, 64)\<close>): \<open>None\<close> is a syntax or range error.\<close>

definition atoi :: "string \<Rightarrow> int option" where
  "atoi s = (case s of
       [] \<Rightarrow> None
     | c # r \<Rightarrow>
         if c = CHR ''-'' then
           (if r = [] then None else Option.bind (digits_val 0 r) (\<lambda>x. in_int64 (- x)))
         else if c = CHR ''+'' then
           (if r = [] then None else Option.bind (digits_val 0 r) in_int64)
         else Option.bind (digits_val 0 s) in_int64)"

text \<open>\<open>fmt.Sprintf\<close> with \<open>%d\<close>.\<close>

definition digit_char :: "nat \<Rightarrow> char" where
  "digit_char d = char_of (48 + d)"

fun show_nat :: "nat \<Rightarrow> string" where
  "show_nat n = (if n < 10 then [digit_char n] else show_nat (n div 10) @ [digit_char (n mod 10)])"

declare show_nat.simps [simp del]

definition show_int :: "int \<Rightarrow> string" where
  "show_int x = (if x < 0 then CHR ''-'' # show_nat (nat (- x)) else show_nat (nat x))"

lemma digit_char_props:
  assumes "d < 10"
  shows "is_digit (digit_char d)" "digit_val (digit_char d) = int d"
    "digit_char d \<noteq> CHR ''-''" "digit_char d \<noteq> CHR ''+''"
proof -
  have code: "(of_char (digit_char d) :: nat) = 48 + d"
    using assms by (simp add: digit_char_def)
  then show "is_digit (digit_char d)" "digit_val (digit_char d) = int d"
    using assms by (simp_all add: is_digit_def digit_val_def Let_def)
  show "digit_char d \<noteq> CHR ''-''"
  proof
    assume "digit_char d = CHR ''-''"
    then have "(48 + d :: nat) = of_char (CHR ''-'')" using code by simp
    then show False by simp
  qed
  show "digit_char d \<noteq> CHR ''+''"
  proof
    assume "digit_char d = CHR ''+''"
    then have "(48 + d :: nat) = of_char (CHR ''+'')" using code by simp
    then show False by simp
  qed
qed

lemma digits_val_append:
  "digits_val acc (s @ t) = Option.bind (digits_val acc s) (\<lambda>a. digits_val a t)"
  by (induction acc s rule: digits_val.induct) auto

lemma digits_val_show_nat: "digits_val 0 (show_nat n) = Some (int n)"
proof (induction n rule: show_nat.induct)
  case (1 n)
  show ?case
  proof (cases "n < 10")
    case True
    then show ?thesis by (subst show_nat.simps) (simp add: digit_char_props)
  next
    case False
    with "1.IH" have ih: "digits_val 0 (show_nat (n div 10)) = Some (int (n div 10))" by simp
    have "digits_val 0 (show_nat n) = Some (int (n div 10) * 10 + int (n mod 10))"
      using False by (subst show_nat.simps) (simp add: digits_val_append ih digit_char_props)
    then show ?thesis by (simp add: zdiv_int zmod_int)
  qed
qed

lemma show_nat_head:
  "\<exists>c r. show_nat n = c # r \<and> c \<noteq> CHR ''-'' \<and> c \<noteq> CHR ''+''"
proof (induction n rule: show_nat.induct)
  case (1 n)
  show ?case
  proof (cases "n < 10")
    case True
    then show ?thesis by (subst show_nat.simps) (simp add: digit_char_props)
  next
    case False
    with "1.IH" obtain c r where "show_nat (n div 10) = c # r" "c \<noteq> CHR ''-''" "c \<noteq> CHR ''+''"
      by blast
    with False show ?thesis by (subst show_nat.simps) simp
  qed
qed

lemma atoi_show_int:
  assumes "min_int64 \<le> x" "x \<le> max_int64"
  shows "atoi (show_int x) = Some x"
proof (cases "x < 0")
  case True
  obtain c r where "show_nat (nat (- x)) = c # r"
    using show_nat_head by blast
  with True assms show ?thesis
    using digits_val_show_nat [of "nat (- x)"]
    by (simp add: atoi_def show_int_def in_int64_def)
next
  case False
  obtain c r where sh: "show_nat (nat x) = c # r" "c \<noteq> CHR ''-''" "c \<noteq> CHR ''+''"
    using show_nat_head by blast
  have "digits_val 0 (c # r) = Some x"
    using False digits_val_show_nat [of "nat x"] sh by simp
  with False assms sh show ?thesis
    by (simp add: atoi_def show_int_def in_int64_def del: digits_val.simps)
qed

subsection \<open>Durations\<close>

definition go_minute :: int where "go_minute = 60000000000"
definition go_second :: int where "go_second = 1000000000"

text \<open>\<open>time.Duration(n) * time.Minute\<close>: a 64-bit product.\<close>

definition minutes :: "int \<Rightarrow> int" where
  "minutes n = go_int64 (n * go_minute)"

lemma minutes_exact: "0 \<le> n \<Longrightarrow> n \<le> 153722867 \<Longrightarrow> minutes n = n * go_minute"
  by (simp add: minutes_def go_minute_def go_int64_id)

text \<open>\<open>now.Sub(t)\<close> saturates at the ends of the 64-bit range.\<close>

definition time_sub :: "int \<Rightarrow> int \<Rightarrow> int" where
  "time_sub now t = max min_int64 (min max_int64 (now - t))"

definition unix_time :: "int \<Rightarrow> int" where
  "unix_time t = t div go_second"

text \<open>The zero \<open>time.Time\<close>: 1 January of year 1.\<close>

definition zero_time :: int where
  "zero_time = - 62135596800 * go_second"

subsection \<open>32-bit floats\<close>

text \<open>
  The values of a \<open>float32\<close> that the source compares: not-a-number, the infinities and
  finite values. Every comparison with \<open>F_NaN\<close> is false, as in IEEE 754.
\<close>

datatype f32 = F_NaN | F_NegInf | F_PosInf | F rat

fun f32_eq :: "f32 \<Rightarrow> f32 \<Rightarrow> bool" where
  "f32_eq F_NegInf F_NegInf = True"
| "f32_eq F_PosInf F_PosInf = True"
| "f32_eq (F a) (F b) = (a = b)"
| "f32_eq _ _ = False"

fun f32_less :: "f32 \<Rightarrow> f32 \<Rightarrow> bool" where
  "f32_less F_NegInf F_PosInf = True"
| "f32_less F_NegInf (F b) = True"
| "f32_less (F a) F_PosInf = True"
| "f32_less (F a) (F b) = (a < b)"
| "f32_less _ _ = False"

definition f32_le :: "f32 \<Rightarrow> f32 \<Rightarrow> bool" where
  "f32_le a b \<longleftrightarrow> f32_less a b \<or> f32_eq a b"

subsection \<open>Lists\<close>

text \<open>An \<open>UPDATE ... WHERE\<close> on a list of rows.\<close>

definition update_where :: "('a \<Rightarrow> bool) \<Rightarrow> ('a \<Rightarrow> 'a) \<Rightarrow> 'a list \<Rightarrow> 'a list" where
  "update_where P f xs = map (\<lambda>x. if P x then f x else x) xs"

lemma update_where_simps [simp]:
  "update_where P f [] = []"
  "update_where P f (x # xs) = (if P x then f x else x) # update_where P f xs"
  "length (update_where P f xs) = length xs"
  by (simp_all add: update_where_def)

lemma map_update_where: "(\<And>x. g (f x) = g x) \<Longrightarrow> map g (update_where P f xs) = map g xs"
  by (induction xs) auto

lemma image_update_where:
  "(\<And>x. g (f x) = g x) \<Longrightarrow> g ` set (update_where P f xs) = g ` set xs"
  by (induction xs) auto

lemma set_update_where: "set (update_where P f xs) = {x \<in> set xs. \<not> P x} \<union> f ` {x \<in> set xs. P x}"
  by (induction xs) auto

lemma update_where_none: "\<forall>x \<in> set xs. \<not> P x \<Longrightarrow> update_where P f xs = xs"
  by (induction xs) auto

text \<open>An assignment \<open>xs[i] = r\<close> at the first row that a loop finds, and the deletion of that row.\<close>

fun replace_first :: "('a \<Rightarrow> bool) \<Rightarrow> 'a \<Rightarrow> 'a list \<Rightarrow> 'a list" where
  "replace_first P r [] = []"
| "replace_first P r (x # xs) = (if P x then r # xs else x # replace_first P r xs)"

fun remove_first :: "('a \<Rightarrow> bool) \<Rightarrow> 'a list \<Rightarrow> 'a list" where
  "remove_first P [] = []"
| "remove_first P (x # xs) = (if P x then xs else x # remove_first P xs)"

lemma remove_first_distinct:
  "distinct (map f xs) \<Longrightarrow> remove_first (\<lambda>x. f x = a) xs = filter (\<lambda>x. f x \<noteq> a) xs"
  by (induction xs) (auto simp: image_iff intro!: filter_True [symmetric])

end
