(* ===== verification/Task_Model.thy ===== *)
theory Task_Model
  imports Go_Prelude
begin

text \<open>
  The data of the analysis pipeline: the status strings of \<open>service/queue/queue.go\<close>
  and \<open>extras/enum.go\<close>, the rows of the task tables (\<open>model/task_model.go\<close>), the
  in-memory \<open>Task\<close>, and the risk ratings with \<open>GetVerdict\<close> (\<open>util/utils.go\<close>).
  The ratings are ordered by severity and \<open>GetVerdict\<close> is monotone in the score.
\<close>

subsection \<open>Status strings\<close>

definition PendingNotInQueue :: string where "PendingNotInQueue = ''pending not in queue''"
definition PendingInQueue :: string where "PendingInQueue = ''pending in queue''"
definition Pending :: string where "Pending = ''pending''"
definition RunningNotInQueue :: string where "RunningNotInQueue = ''running not in queue''"
definition RunningInQueue :: string where "RunningInQueue = ''running in queue''"
definition Running :: string where "Running = ''running''"
definition Reported :: string where "Reported = ''reported''"
definition ReportedThroughQuickScope :: string where
  "ReportedThroughQuickScope = ''reported through quickscope''"
definition ReportedThroughClamd :: string where
  "ReportedThroughClamd = ''reported through clamd''"
definition Aborted :: string where "Aborted = ''aborted''"
definition Completed :: string where "Completed = ''completed''"
definition SandboxApiTimeout :: string where "SandboxApiTimeout = ''sandbox api timeout''"

definition ALLOW :: string where "ALLOW = ''allow''"
definition BLOCK :: string where "BLOCK = ''block''"
definition PREVIOUSLY_SCANNED_FILE :: string where
  "PREVIOUSLY_SCANNED_FILE = ''file was previously scanned or sourced from preset data ''"

lemmas status_defs = PendingNotInQueue_def PendingInQueue_def Pending_def RunningNotInQueue_def
  RunningInQueue_def Running_def Reported_def ReportedThroughQuickScope_def
  ReportedThroughClamd_def Aborted_def Completed_def SandboxApiTimeout_def

definition all_statuses :: "string list" where
  "all_statuses = [PendingNotInQueue, PendingInQueue, Pending, RunningNotInQueue, RunningInQueue,
     Running, Reported, ReportedThroughQuickScope, ReportedThroughClamd, Aborted, Completed,
     SandboxApiTimeout]"

lemma distinct_statuses: "distinct all_statuses"
  by (simp add: all_statuses_def status_defs)

lemma distinct_statuses_rev: "distinct (rev all_statuses)"
  by (simp add: distinct_statuses)

lemmas distinct_unfold = all_statuses_def rev.simps append.simps distinct.simps list.set insert_iff
  de_Morgan_disj empty_iff simp_thms conj_assoc

lemmas status_neq [simp] =
  distinct_statuses [simplified distinct_unfold] distinct_statuses_rev [simplified distinct_unfold]

lemma verdict_neq [simp]: "ALLOW \<noteq> BLOCK" "BLOCK \<noteq> ALLOW" "ALLOW \<noteq> []" "BLOCK \<noteq> []"
  by (simp_all add: ALLOW_def BLOCK_def)

text \<open>The statuses a row of the live table is meant to have.\<close>

definition live_status :: "string \<Rightarrow> bool" where
  "live_status s \<longleftrightarrow> s \<in> {PendingNotInQueue, PendingInQueue, RunningNotInQueue, RunningInQueue}"

text \<open>What \<open>strings.Contains\<close> sees in the four live statuses.\<close>

lemma contains_live_status [simp]:
  "contains PendingInQueue PendingInQueue" "contains RunningInQueue RunningInQueue"
  "\<not> contains PendingNotInQueue PendingInQueue" "\<not> contains PendingNotInQueue RunningInQueue"
  "\<not> contains RunningNotInQueue PendingInQueue" "\<not> contains RunningNotInQueue RunningInQueue"
  "\<not> contains RunningInQueue PendingInQueue"
  by (simp_all add: status_defs has_prefix_def)

subsection \<open>Risk ratings\<close>

datatype verdict = Clean | LowRisk | MediumRisk | HighRisk | Critical | Unknown

fun verdict_string :: "verdict \<Rightarrow> string" where
  "verdict_string Clean = ''Clean''"
| "verdict_string LowRisk = ''Low''"
| "verdict_string MediumRisk = ''Medium''"
| "verdict_string HighRisk = ''High''"
| "verdict_string Critical = ''Critical''"
| "verdict_string Unknown = ''Unknown''"

lemma verdict_string_inj: "verdict_string a = verdict_string b \<longleftrightarrow> a = b"
  by (cases a; cases b) simp_all

lemma verdict_string_nonempty [simp]: "verdict_string a \<noteq> []"
  by (cases a) simp_all

text \<open>The switch of \<open>GetVerdict\<close>, case by case.\<close>

definition GetVerdict :: "f32 \<Rightarrow> verdict" where
  "GetVerdict score =
     (if f32_eq score (F 0) then Clean
      else if f32_less (F 0) score \<and> f32_le score (F 3) then LowRisk
      else if f32_less (F 3) score \<and> f32_le score (F 5) then MediumRisk
      else if f32_less (F 5) score \<and> f32_le score (F 7) then HighRisk
      else if f32_less (F 7) score then Critical
      else Unknown)"

text \<open>Severity order of the ratings; \<open>Unknown\<close> is below every rating a score can get.\<close>

fun severity :: "verdict \<Rightarrow> nat" where
  "severity Unknown = 0"
| "severity Clean = 1"
| "severity LowRisk = 2"
| "severity MediumRisk = 3"
| "severity HighRisk = 4"
| "severity Critical = 5"

lemma severity_inj: "severity a = severity b \<Longrightarrow> a = b"
  by (cases a; cases b) simp_all

instantiation verdict :: linorder
begin
definition less_eq_verdict :: "verdict \<Rightarrow> verdict \<Rightarrow> bool" where
  "less_eq_verdict a b \<longleftrightarrow> severity a \<le> severity b"
definition less_verdict :: "verdict \<Rightarrow> verdict \<Rightarrow> bool" where
  "less_verdict a b \<longleftrightarrow> severity a < severity b"
instance
  by standard (auto simp: less_eq_verdict_def less_verdict_def dest: severity_inj)
end

subsection \<open>Rows and tasks\<close>

record file_on_demand =
  fod_id :: int
  fod_file_name :: string
  fod_content_type :: string
  fod_submitted_time :: int
  fod_finished_time :: "int option"
  fod_submitted_by :: string
  fod_file_count :: int
  fod_rating :: string
  fod_score :: f32
  fod_final_verdict :: string
  fod_status :: string
  fod_comments :: string
  fod_from_device :: bool
  fod_overridden_verdict :: bool
  fod_overridden_by :: string
  fod_os_supported :: string
  fod_md5 :: string
  fod_sha :: string
  fod_sha256 :: string
  fod_client_ip :: string

definition zero_fod :: file_on_demand where
  "zero_fod = \<lparr>fod_id = 0, fod_file_name = [], fod_content_type = [],
     fod_submitted_time = zero_time, fod_finished_time = None, fod_submitted_by = [],
     fod_file_count = 0, fod_rating = [], fod_score = F 0, fod_final_verdict = [],
     fod_status = [], fod_comments = [], fod_from_device = False,
     fod_overridden_verdict = False, fod_overridden_by = [], fod_os_supported = [],
     fod_md5 = [], fod_sha = [], fod_sha256 = [], fod_client_ip = []\<rparr>"

record url_on_demand =
  uod_id :: int
  uod_url_name :: string
  uod_submitted_time :: int
  uod_finished_time :: "int option"
  uod_submitted_by :: string
  uod_url_count :: int
  uod_rating :: string
  uod_final_verdict :: string
  uod_status :: string
  uod_comments :: string
  uod_from_device :: bool
  uod_overridden_verdict :: bool
  uod_overridden_by :: string
  uod_os_supported :: string

text \<open>
  A row of \<open>task_live_analysis_tables\<close>. The hash columns are nullable (\<open>None\<close>): one
  \<open>INSERT\<close> of the source does not give them a value.
\<close>

record live_row =
  live_id :: int
  live_status_col :: string
  live_sandbox_id :: int
  live_queue_retry :: int
  live_running_retry :: int
  live_sandbox_retry :: int
  live_log_queue_failed :: bool
  live_md5 :: "string option"
  live_sha :: "string option"
  live_sha256 :: "string option"

record finished_row =
  fin_id :: int
  fin_sandbox_id :: int
  fin_aborted :: bool

record duplicate_row =
  dup_id :: int
  dup_md5 :: string
  dup_sha :: string
  dup_sha256 :: string

record file_hashes =
  fh_sha1 :: string
  fh_sha256 :: string
  fh_md5 :: string

text \<open>The \<open>Task\<close> struct of \<open>queue.go\<close>: what travels through the channels.\<close>

record task =
  Id :: int
  Status :: string
  SandboxId :: int
  QueueRetryCount :: int
  RunningRetryCount :: int
  SandboxRetryCount :: int
  Md5 :: string
  SHA :: string
  SHA256 :: string
  LogQueueFailed :: bool
  SubmittedTime :: int
  RunningStartedAt :: int

text \<open>Scanning a joined row into a \<open>Task\<close>: a NULL hash becomes the empty string.\<close>

definition null_string :: "string option \<Rightarrow> string" where
  "null_string x = (case x of None \<Rightarrow> [] | Some s \<Rightarrow> s)"

definition scan_task :: "live_row \<Rightarrow> file_on_demand \<Rightarrow> task" where
  "scan_task r f =
     \<lparr>Id = live_id r, Status = live_status_col r, SandboxId = live_sandbox_id r,
      QueueRetryCount = live_queue_retry r, RunningRetryCount = live_running_retry r,
      SandboxRetryCount = live_sandbox_retry r, Md5 = null_string (live_md5 r),
      SHA = null_string (live_sha r), SHA256 = null_string (live_sha256 r),
      LogQueueFailed = live_log_queue_failed r, SubmittedTime = fod_submitted_time f,
      RunningStartedAt = zero_time\<rparr>"

lemma scan_task_simps [simp]:
  "Id (scan_task r f) = live_id r" "Status (scan_task r f) = live_status_col r"
  "LogQueueFailed (scan_task r f) = live_log_queue_failed r"
  by (simp_all add: scan_task_def)

end
