(* ===== verification/Task_Db.thy ===== *)
theory Task_Db
  imports Task_Model
begin

text \<open>
  The MySQL tables the pipeline works on, the SQL statements the source sends to them and
  \<open>GormOperations\<close>/\<open>ExecQuery\<close> of \<open>dao/task_crud.go\<close>, which runs a list of statements
  in one transaction.

  Each constructor of \<open>stmt\<close> is one SQL text of the source; \<open>exec_stmt\<close> is what the text
  does to the tables, \<open>None\<close> when a primary or foreign key constraint rejects it (the
  constraints are the \<open>gorm\<close> tags of \<open>model/task_model.go\<close>). Tables are lists in the
  order of their auto-increment keys. Whether the server executes a transaction or a query
  at all is the parameter \<open>tx_ok\<close>/\<open>sel_ok\<close> of the environment. Equality of hash and url
  columns is equality of the column collation's keys (\<open>collation\<close>), since the schema does
  not fix the collation. Strings put into a statement are assumed free of quotes and of the
  word \<open>select\<close>.
\<close>

record db =
  fods :: "file_on_demand list"
  uods :: "url_on_demand list"
  lives :: "live_row list"
  finished :: "finished_row list"
  dups :: "duplicate_row list"
  hashes :: "file_hashes list"
  uod_auto :: int
  collation :: "string \<Rightarrow> string"

definition ceq :: "db \<Rightarrow> string \<Rightarrow> string \<Rightarrow> bool" where
  "ceq d a b \<longleftrightarrow> collation d a = collation d b"

text \<open>\<open>WHERE md5 = .. OR sha = .. OR sha256 = ..\<close>\<close>

definition hash_match ::
  "db \<Rightarrow> string \<Rightarrow> string \<Rightarrow> string \<Rightarrow> string \<Rightarrow> string \<Rightarrow> string \<Rightarrow> bool" where
  "hash_match d m s s2 m' s' s2' \<longleftrightarrow> ceq d m m' \<or> ceq d s s' \<or> ceq d s2 s2'"

definition fod_hash_match :: "db \<Rightarrow> string \<Rightarrow> string \<Rightarrow> string \<Rightarrow> file_on_demand \<Rightarrow> bool" where
  "fod_hash_match d m s s2 f = hash_match d m s s2 (fod_md5 f) (fod_sha f) (fod_sha256 f)"

definition dup_hash_match :: "db \<Rightarrow> string \<Rightarrow> string \<Rightarrow> string \<Rightarrow> duplicate_row \<Rightarrow> bool" where
  "dup_hash_match d m s s2 r = hash_match d m s s2 (dup_md5 r) (dup_sha r) (dup_sha256 r)"

definition null_ceq :: "db \<Rightarrow> string \<Rightarrow> string option \<Rightarrow> bool" where
  "null_ceq d a b = (case b of None \<Rightarrow> False | Some c \<Rightarrow> ceq d a c)"

definition live_hash_match :: "db \<Rightarrow> string \<Rightarrow> string \<Rightarrow> string \<Rightarrow> live_row \<Rightarrow> bool" where
  "live_hash_match d m s s2 r \<longleftrightarrow>
     null_ceq d m (live_md5 r) \<or> null_ceq d s (live_sha r) \<or> null_ceq d s2 (live_sha256 r)"

subsection \<open>Statements\<close>

datatype stmt =
    InsertFod file_on_demand
  | InsertUod url_on_demand
  | InsertLive live_row
  | InsertDuplicate duplicate_row
  | InsertFinished "finished_row list"
  | DeleteLive int
  | DeleteDuplicates "int list"
  | UpdateFod int f32 string string int
  | UpdateLiveStatus int string
  | UpdateLiveRow task
  | UpdateLogQueueFailed int bool
  | UpdateStatusAll string
  | UpdateStatusWhere string string
  | OverrideFod string string string string string
  | OverrideUod string string string

definition has_fod :: "db \<Rightarrow> int \<Rightarrow> bool" where
  "has_fod d i \<longleftrightarrow> i \<in> fod_id ` set (fods d)"

fun exec_stmt :: "stmt \<Rightarrow> db \<Rightarrow> db option" where
  "exec_stmt (InsertFod f) d =
     (if has_fod d (fod_id f) then None else Some (d\<lparr>fods := fods d @ [f]\<rparr>))"
| "exec_stmt (InsertUod u) d =
     Some (d\<lparr>uods := uods d @ [u\<lparr>uod_id := uod_auto d\<rparr>], uod_auto := uod_auto d + 1\<rparr>)"
| "exec_stmt (InsertLive r) d =
     (if has_fod d (live_id r) then Some (d\<lparr>lives := lives d @ [r]\<rparr>) else None)"
| "exec_stmt (InsertDuplicate r) d =
     (if has_fod d (dup_id r) then Some (d\<lparr>dups := dups d @ [r]\<rparr>) else None)"
| "exec_stmt (InsertFinished rs) d =
     (if list_all (\<lambda>r. has_fod d (fin_id r)) rs then Some (d\<lparr>finished := finished d @ rs\<rparr>) else None)"
| "exec_stmt (DeleteLive i) d = Some (d\<lparr>lives := filter (\<lambda>r. live_id r \<noteq> i) (lives d)\<rparr>)"
| "exec_stmt (DeleteDuplicates is) d =
     Some (d\<lparr>dups := filter (\<lambda>r. dup_id r \<notin> set is) (dups d)\<rparr>)"
| "exec_stmt (UpdateFod i score rating verdict t) d =
     Some (d\<lparr>fods := update_where (\<lambda>f. fod_id f = i)
       (\<lambda>f. f\<lparr>fod_score := score, fod_rating := rating, fod_final_verdict := verdict,
              fod_finished_time := Some t\<rparr>) (fods d)\<rparr>)"
| "exec_stmt (UpdateLiveStatus i st) d =
     Some (d\<lparr>lives := update_where (\<lambda>r. live_id r = i) (\<lambda>r. r\<lparr>live_status_col := st\<rparr>) (lives d)\<rparr>)"
| "exec_stmt (UpdateLiveRow t) d =
     Some (d\<lparr>lives := update_where (\<lambda>r. live_id r = Id t)
       (\<lambda>r. r\<lparr>live_status_col := Status t, live_sandbox_id := SandboxId t,
              live_queue_retry := QueueRetryCount t, live_log_queue_failed := LogQueueFailed t,
              live_sandbox_retry := SandboxRetryCount t,
              live_running_retry := RunningRetryCount t\<rparr>) (lives d)\<rparr>)"
| "exec_stmt (UpdateLogQueueFailed i b) d =
     Some (d\<lparr>lives := update_where (\<lambda>r. live_id r = i) (\<lambda>r. r\<lparr>live_log_queue_failed := b\<rparr>) (lives d)\<rparr>)"
| "exec_stmt (UpdateStatusAll st) d =
     Some (d\<lparr>lives := update_where (\<lambda>r. 0 < live_id r) (\<lambda>r. r\<lparr>live_status_col := st\<rparr>) (lives d)\<rparr>)"
| "exec_stmt (UpdateStatusWhere old st) d =
     Some (d\<lparr>lives := update_where (\<lambda>r. live_status_col r = old)
       (\<lambda>r. r\<lparr>live_status_col := st\<rparr>) (lives d)\<rparr>)"
| "exec_stmt (OverrideFod verdict by_user m s s2) d =
     Some (d\<lparr>fods := update_where (fod_hash_match d m s s2)
       (\<lambda>f. f\<lparr>fod_final_verdict := verdict, fod_overridden_verdict := True,
              fod_overridden_by := by_user\<rparr>) (fods d)\<rparr>)"
| "exec_stmt (OverrideUod verdict by_user url) d =
     Some (d\<lparr>uods := update_where (\<lambda>u. ceq d (uod_url_name u) url)
       (\<lambda>u. u\<lparr>uod_final_verdict := verdict, uod_overridden_verdict := True,
              uod_overridden_by := by_user\<rparr>) (uods d)\<rparr>)"

primrec exec_all :: "stmt list \<Rightarrow> db \<Rightarrow> db option" where
  "exec_all [] d = Some d"
| "exec_all (q # qs) d = Option.bind (exec_stmt q d) (exec_all qs)"

lemma exec_all_append: "exec_all (ps @ qs) d = Option.bind (exec_all ps d) (exec_all qs)"
  by (induction ps arbitrary: d) (auto split: Option.bind_splits)

subsection \<open>Queries\<close>

text \<open>The \<open>SELECT\<close> statements, named for the oracle that says whether they succeed.\<close>

datatype sel =
    SelNotInQueue
  | SelLiveCount
  | SelDuplicateIds string string string
  | SelDuplicateCount string string string
  | SelFirstDuplicate string string string
  | SelFod int
  | SelUod int
  | SelLastFodId
  | SelLiveHashCount string string string
  | SelHashCount string string string
  | SelVerdictCount string string string string
  | SelVerdictRating string string string
  | SelOverriddenFods
  | SelOverriddenUods
  | SelStatusFods
  | SelLiveFods
  | SelFinishedFods
  | SelDuplicateFods
  | SelUods
  | SelScannedFods
  | SelScannedFinished
  | SelScannedUods

record db_env =
  tx_ok :: "db \<Rightarrow> stmt list \<Rightarrow> bool"
  sel_ok :: "db \<Rightarrow> sel \<Rightarrow> bool"

definition db_error :: go_error where "db_error = Err ''database error''"

text \<open>\<open>ExecQuery\<close> on non-\<open>SELECT\<close> statements: one transaction, rolled back on the first error.\<close>

definition ExecQuery :: "('e) db_env_scheme \<Rightarrow> stmt list \<Rightarrow> db \<Rightarrow> go_error option \<times> db" where
  "ExecQuery env qs d =
     (if tx_ok env d qs
      then (case exec_all qs d of None \<Rightarrow> (Some db_error, d) | Some d' \<Rightarrow> (None, d'))
      else (Some db_error, d))"

text \<open>\<open>GormOperations\<close> selects the operation by name; \<open>Save\<close>, \<open>Delete\<close> and \<open>Fetch\<close> do nothing.\<close>

definition GormOperations ::
  "('e) db_env_scheme \<Rightarrow> stmt list \<Rightarrow> string \<Rightarrow> db \<Rightarrow> go_error option \<times> db" where
  "GormOperations env qs call d =
     (if call \<in> {''save'', ''delete'', ''fetch''} then (None, d)
      else if call = ''exec'' then ExecQuery env qs d
      else (Some (Err ''invalid operation''), d))"

abbreviation gorm_exec :: "('e) db_env_scheme \<Rightarrow> stmt list \<Rightarrow> db \<Rightarrow> go_error option \<times> db" where
  "gorm_exec env qs d \<equiv> GormOperations env qs ''exec'' d"

definition run_select :: "('e) db_env_scheme \<Rightarrow> sel \<Rightarrow> db \<Rightarrow> 'r \<Rightarrow> go_error + 'r" where
  "run_select env q d r = (if sel_ok env d q then Inr r else Inl db_error)"

text \<open>A database that answers every query and never refuses a transaction by itself.\<close>

definition healthy :: "('e) db_env_scheme \<Rightarrow> bool" where
  "healthy env \<longleftrightarrow> (\<forall>d qs. tx_ok env d qs) \<and> (\<forall>d q. sel_ok env d q)"

lemma healthy_select [simp]: "healthy env \<Longrightarrow> run_select env q d r = Inr r"
  by (simp add: healthy_def run_select_def)

lemma healthy_exec:
  "healthy env \<Longrightarrow> gorm_exec env qs d =
     (case exec_all qs d of None \<Rightarrow> (Some db_error, d) | Some d' \<Rightarrow> (None, d'))"
  by (simp add: healthy_def GormOperations_def ExecQuery_def)

lemma gorm_exec_cases:
  "gorm_exec env qs d = (Some db_error, d) \<or>
   (\<exists>d'. exec_all qs d = Some d' \<and> gorm_exec env qs d = (None, d'))"
  by (auto simp: GormOperations_def ExecQuery_def split: option.splits)

lemma gorm_exec_ok:
  "tx_ok env d qs \<Longrightarrow> exec_all qs d = Some d' \<Longrightarrow> gorm_exec env qs d = (None, d')"
  by (simp add: GormOperations_def ExecQuery_def)

lemma gorm_exec_snd_induct:
  "P d \<Longrightarrow> (\<And>d'. exec_all qs d = Some d' \<Longrightarrow> P d') \<Longrightarrow> P (snd (gorm_exec env qs d))"
  using gorm_exec_cases [of env qs d] by auto

lemma exec_all_Some_Cons:
  "exec_all (q # qs) d = Some d' \<longleftrightarrow> (\<exists>d1. exec_stmt q d = Some d1 \<and> exec_all qs d1 = Some d')"
  by (auto split: Option.bind_splits)

subsection \<open>Invariants kept by transactions\<close>

text \<open>
  A property of the tables that each allowed statement keeps is kept by every transaction of
  allowed statements, whether it commits or is rolled back.
\<close>

locale tx_invariant =
  fixes I :: "db \<Rightarrow> bool" and allowed :: "stmt \<Rightarrow> bool"
  assumes stmt_keeps: "I d \<Longrightarrow> allowed q \<Longrightarrow> exec_stmt q d = Some d' \<Longrightarrow> I d'"
begin

lemma exec_all_keeps: "I d \<Longrightarrow> list_all allowed qs \<Longrightarrow> exec_all qs d = Some d' \<Longrightarrow> I d'"
proof (induction qs arbitrary: d)
  case Nil
  then show ?case by simp
next
  case (Cons q qs)
  then obtain d1 where "exec_stmt q d = Some d1" "exec_all qs d1 = Some d'"
    by (auto split: Option.bind_splits)
  moreover from this Cons.prems have "I d1" by (auto intro: stmt_keeps)
  ultimately show ?case using Cons.IH Cons.prems by auto
qed

lemma gorm_keeps: "I d \<Longrightarrow> list_all allowed qs \<Longrightarrow> I (snd (gorm_exec env qs d))"
  by (rule gorm_exec_snd_induct) (auto intro: exec_all_keeps)

lemma gorm_keeps_pair: "gorm_exec env qs d = (e, d') \<Longrightarrow> I d \<Longrightarrow> list_all allowed qs \<Longrightarrow> I d'"
  using gorm_keeps [of d qs env] by simp

end

text \<open>Primary key of \<open>file_on_demands\<close> and the foreign keys of the three task tables.\<close>

definition fod_ids :: "db \<Rightarrow> int set" where "fod_ids d = fod_id ` set (fods d)"
definition live_ids :: "db \<Rightarrow> int set" where "live_ids d = live_id ` set (lives d)"
definition dup_ids :: "db \<Rightarrow> int set" where "dup_ids d = dup_id ` set (dups d)"
definition fin_ids :: "db \<Rightarrow> int set" where "fin_ids d = fin_id ` set (finished d)"

lemmas id_defs = fod_ids_def live_ids_def dup_ids_def fin_ids_def has_fod_def

definition keys_ok :: "db \<Rightarrow> bool" where
  "keys_ok d \<longleftrightarrow> distinct (map fod_id (fods d)) \<and>
     live_ids d \<subseteq> fod_ids d \<and> dup_ids d \<subseteq> fod_ids d \<and> fin_ids d \<subseteq> fod_ids d"

text \<open>The ids each statement adds or removes.\<close>

fun new_fods :: "stmt \<Rightarrow> int list" where
  "new_fods (InsertFod f) = [fod_id f]"
| "new_fods _ = []"

lemma exec_stmt_fods:
  "exec_stmt q d = Some d' \<Longrightarrow> map fod_id (fods d') = map fod_id (fods d) @ new_fods q"
  by (cases q) (auto simp: map_update_where split: if_splits)

lemma exec_stmt_new_fod:
  "exec_stmt q d = Some d' \<Longrightarrow> i \<in> set (new_fods q) \<Longrightarrow> i \<notin> fod_ids d"
  by (cases q) (auto simp: id_defs split: if_splits)

lemma exec_stmt_fod_ids: "exec_stmt q d = Some d' \<Longrightarrow> fod_ids d' = fod_ids d \<union> set (new_fods q)"
  using exec_stmt_fods [of q d d'] unfolding fod_ids_def by (metis list.set_map set_append)

lemma exec_stmt_live_ids: "exec_stmt q d = Some d' \<Longrightarrow> live_ids d' \<subseteq> live_ids d \<union> fod_ids d"
  by (cases q) (auto simp: id_defs set_update_where split: if_splits, metis image_eqI)

lemma exec_stmt_dup_ids: "exec_stmt q d = Some d' \<Longrightarrow> dup_ids d' \<subseteq> dup_ids d \<union> fod_ids d"
  by (cases q) (auto simp: id_defs split: if_splits)

lemma exec_stmt_fin_ids: "exec_stmt q d = Some d' \<Longrightarrow> fin_ids d' \<subseteq> fin_ids d \<union> fod_ids d"
  by (cases q) (auto simp: id_defs list_all_iff split: if_splits)

interpretation keys: tx_invariant keys_ok "\<lambda>_. True"
proof
  fix d q d'
  assume ok: "keys_ok d" and ex: "exec_stmt q d = Some d'"
  have "distinct (map fod_id (fods d'))"
    using ok exec_stmt_new_fod [OF ex] unfolding exec_stmt_fods [OF ex]
    by (cases q) (auto simp: keys_ok_def fod_ids_def)
  then show "keys_ok d'"
    using ok exec_stmt_fod_ids [OF ex] exec_stmt_live_ids [OF ex] exec_stmt_dup_ids [OF ex]
      exec_stmt_fin_ids [OF ex]
    unfolding keys_ok_def by blast
qed

text \<open>Every live row has one of the four live statuses.\<close>

definition lives_ok :: "db \<Rightarrow> bool" where
  "lives_ok d \<longleftrightarrow> (\<forall>r \<in> set (lives d). live_status (live_status_col r))"

fun keeps_live_status :: "stmt \<Rightarrow> bool" where
  "keeps_live_status (InsertLive r) = live_status (live_status_col r)"
| "keeps_live_status (UpdateLiveStatus _ st) = live_status st"
| "keeps_live_status (UpdateLiveRow t) = live_status (Status t)"
| "keeps_live_status (UpdateStatusAll st) = live_status st"
| "keeps_live_status (UpdateStatusWhere _ st) = live_status st"
| "keeps_live_status _ = True"

interpretation live: tx_invariant lives_ok keeps_live_status
proof
  fix d q d'
  assume "lives_ok d" "keeps_live_status q" "exec_stmt q d = Some d'"
  then show "lives_ok d'"
    by (cases q) (auto simp: lives_ok_def set_update_where split: if_splits)
qed

text \<open>A final verdict is absent, \<open>allow\<close> or \<open>block\<close>.\<close>

definition verdict_domain :: "string \<Rightarrow> bool" where
  "verdict_domain v \<longleftrightarrow> v \<in> {[], ALLOW, BLOCK}"

definition verdicts_ok :: "db \<Rightarrow> bool" where
  "verdicts_ok d \<longleftrightarrow> (\<forall>f \<in> set (fods d). verdict_domain (fod_final_verdict f))"

fun keeps_verdict_domain :: "stmt \<Rightarrow> bool" where
  "keeps_verdict_domain (InsertFod f) = verdict_domain (fod_final_verdict f)"
| "keeps_verdict_domain (UpdateFod _ _ _ v _) = verdict_domain v"
| "keeps_verdict_domain (OverrideFod v _ _ _ _) = verdict_domain v"
| "keeps_verdict_domain _ = True"

interpretation verdicts: tx_invariant verdicts_ok keeps_verdict_domain
proof
  fix d q d'
  assume "verdicts_ok d" "keeps_verdict_domain q" "exec_stmt q d = Some d'"
  then show "verdicts_ok d'"
    by (cases q) (auto simp: verdicts_ok_def set_update_where split: if_splits)
qed

end
