(* ===== verification/Queue_Db.thy ===== *)
theory Queue_Db
  imports Task_Db
begin

text \<open>
  \<open>service/queue/db.go\<close>, \<open>dao/filehash.go\<close> and \<open>ResetQueueDb\<close> of \<open>dao/task_crud.go\<close>:
  the queries of the queue handlers and the statement lists of their transactions. A
  function that builds SQL text in the source builds the statements here.
\<close>

subsection \<open>Reading the live table\<close>

definition not_in_queue_row :: "live_row \<Rightarrow> bool" where
  "not_in_queue_row r \<longleftrightarrow> live_status_col r \<in> {PendingNotInQueue, RunningNotInQueue}
     \<or> live_log_queue_failed r"

definition not_in_queue_tasks :: "db \<Rightarrow> task list" where
  "not_in_queue_tasks d =
     concat (map (\<lambda>r. map (scan_task r) (filter (\<lambda>f. fod_id f = live_id r) (fods d)))
       (filter not_in_queue_row (lives d)))"

definition fetchNotInQueueTasks :: "('e) db_env_scheme \<Rightarrow> db \<Rightarrow> go_error + task list" where
  "fetchNotInQueueTasks env d = run_select env SelNotInQueue d (not_in_queue_tasks d)"

definition fetchLiveTaskCount :: "('e) db_env_scheme \<Rightarrow> db \<Rightarrow> int \<times> go_error option" where
  "fetchLiveTaskCount env d =
     (case run_select env SelLiveCount d (int (length (lives d))) of
        Inl e \<Rightarrow> (0, Some e)
      | Inr n \<Rightarrow> (n, None))"

subsection \<open>Single statements\<close>

definition updateTaskStatus :: "('e) db_env_scheme \<Rightarrow> int \<Rightarrow> string \<Rightarrow> db \<Rightarrow> go_error option \<times> db" where
  "updateTaskStatus env taskId status d = gorm_exec env [UpdateLiveStatus taskId status] d"

definition updateStatusChangeDirectlyThroughDb ::
  "('e) db_env_scheme \<Rightarrow> task \<Rightarrow> db \<Rightarrow> go_error option \<times> db" where
  "updateStatusChangeDirectlyThroughDb env t d = gorm_exec env [UpdateLiveRow t] d"

definition updateLiveTaskDirectlyThroughDb ::
  "('e) db_env_scheme \<Rightarrow> task \<Rightarrow> db \<Rightarrow> go_error option \<times> db" where
  "updateLiveTaskDirectlyThroughDb env t d = gorm_exec env [UpdateLiveRow t] d"

definition updateLogQueueFail :: "('e) db_env_scheme \<Rightarrow> int \<Rightarrow> bool \<Rightarrow> db \<Rightarrow> go_error option \<times> db" where
  "updateLogQueueFail env taskId flag d = gorm_exec env [UpdateLogQueueFailed taskId flag] d"

subsection \<open>Statement lists of the finishing transactions\<close>

definition score_verdict :: "f32 \<Rightarrow> string" where
  "score_verdict score = (if f32_eq score (F 0) then ALLOW else BLOCK)"

definition updateFOD :: "int \<Rightarrow> f32 \<Rightarrow> int \<Rightarrow> stmt" where
  "updateFOD task_id score t =
     (let rating = GetVerdict score; final_verdict = score_verdict score
      in UpdateFod task_id score (verdict_string rating) final_verdict t)"

definition moveTaskToFinishedTable :: "task \<Rightarrow> bool \<Rightarrow> stmt list" where
  "moveTaskToFinishedTable t aborted =
     [DeleteLive (Id t),
      InsertFinished [\<lparr>fin_id = Id t, fin_sandbox_id = SandboxId t, fin_aborted = aborted\<rparr>]]"

definition duplicate_ids :: "db \<Rightarrow> task \<Rightarrow> int list" where
  "duplicate_ids d t = map dup_id (filter (dup_hash_match d (Md5 t) (SHA t) (SHA256 t)) (dups d))"

text \<open>
  The ids whose local file is removed and the statements: every duplicate gets the score,
  they are inserted into the finished table together and leave the duplicate table.
\<close>

definition processDuplicateTasksForReported ::
  "('e) db_env_scheme \<Rightarrow> task \<Rightarrow> f32 \<Rightarrow> int \<Rightarrow> db \<Rightarrow> int list \<times> stmt list" where
  "processDuplicateTasksForReported env t score tm d =
     (let duplicateTasks =
        (case run_select env (SelDuplicateIds (Md5 t) (SHA t) (SHA256 t)) d (duplicate_ids d t) of
           Inl _ \<Rightarrow> [] | Inr ids \<Rightarrow> ids)
      in if duplicateTasks = [] then ([], [])
         else (duplicateTasks,
           map (\<lambda>i. updateFOD i score tm) duplicateTasks @
           [InsertFinished
              (map (\<lambda>i. \<lparr>fin_id = i, fin_sandbox_id = SandboxId t, fin_aborted = False\<rparr>) duplicateTasks),
            DeleteDuplicates duplicateTasks]))"

text \<open>\<open>SELECT id .. ORDER BY id LIMIT 1\<close>; no row leaves the zero value.\<close>

definition first_duplicate :: "db \<Rightarrow> task \<Rightarrow> int" where
  "first_duplicate d t = (case duplicate_ids d t of [] \<Rightarrow> 0 | i # is \<Rightarrow> fold min is i)"

text \<open>The row inserted for a duplicate that takes the aborted task's place.\<close>

definition promoted_row :: "int \<Rightarrow> live_row" where
  "promoted_row i =
     \<lparr>live_id = i, live_status_col = PendingNotInQueue, live_sandbox_id = 0, live_queue_retry = 0,
      live_running_retry = 0, live_sandbox_retry = 0, live_log_queue_failed = False,
      live_md5 = None, live_sha = None, live_sha256 = None\<rparr>"

definition processDuplicateTasksForAborted ::
  "('e) db_env_scheme \<Rightarrow> task \<Rightarrow> db \<Rightarrow> stmt list" where
  "processDuplicateTasksForAborted env t d =
     (let count =
        (case run_select env (SelDuplicateCount (Md5 t) (SHA t) (SHA256 t)) d
            (int (length (duplicate_ids d t))) of Inl _ \<Rightarrow> 0 | Inr n \<Rightarrow> n)
      in if 0 < count
         then let i = (case run_select env (SelFirstDuplicate (Md5 t) (SHA t) (SHA256 t)) d
                  (first_duplicate d t) of Inl _ \<Rightarrow> 0 | Inr i \<Rightarrow> i)
              in [InsertLive (promoted_row i), DeleteDuplicates [i]]
         else [])"

subsection \<open>Verdicts by hash\<close>

definition fod_verdict_count :: "db \<Rightarrow> string \<Rightarrow> string \<Rightarrow> string \<Rightarrow> string \<Rightarrow> int" where
  "fod_verdict_count d m s s2 v =
     int (length (filter (\<lambda>f. fod_hash_match d m s s2 f \<and> fod_final_verdict f = v) (fods d)))"

definition hash_count :: "db \<Rightarrow> string \<Rightarrow> string \<Rightarrow> string \<Rightarrow> int" where
  "hash_count d m s s2 =
     int (length (filter (\<lambda>h. hash_match d m s s2 (fh_md5 h) (fh_sha1 h) (fh_sha256 h)) (hashes d)))"

definition IsMalwareHashFromDb ::
  "('e) db_env_scheme \<Rightarrow> db \<Rightarrow> string \<Rightarrow> string \<Rightarrow> string \<Rightarrow> go_error + bool" where
  "IsMalwareHashFromDb env d md5 sha1 sha256 =
     (case run_select env (SelHashCount md5 sha1 sha256) d (hash_count d md5 sha1 sha256) of
        Inl e \<Rightarrow> Inl e
      | Inr count \<Rightarrow>
          if 0 < count then Inr True
          else (case run_select env (SelVerdictCount md5 sha1 sha256 BLOCK) d
                  (fod_verdict_count d md5 sha1 sha256 BLOCK) of
                  Inl e \<Rightarrow> Inl e
                | Inr count \<Rightarrow> if count = 0 then Inr False else Inr True))"

definition IsCleanHashFromDb ::
  "('e) db_env_scheme \<Rightarrow> db \<Rightarrow> string \<Rightarrow> string \<Rightarrow> string \<Rightarrow> go_error + bool" where
  "IsCleanHashFromDb env d md5 sha1 sha256 =
     (case run_select env (SelVerdictCount md5 sha1 sha256 ALLOW) d
         (fod_verdict_count d md5 sha1 sha256 ALLOW) of
        Inl e \<Rightarrow> Inl e
      | Inr count \<Rightarrow> if count = 0 then Inr False else Inr True)"

definition FW_EMPTY :: int where "FW_EMPTY = 0"
definition FW_CLEAN :: int where "FW_CLEAN = 1"
definition FW_BLOCK :: int where "FW_BLOCK = 2"

text \<open>\<open>FileFromFireWall\<close> of \<open>service/firewall_calls.go\<close>.\<close>

definition FileFromFireWall :: "('e) db_env_scheme \<Rightarrow> db \<Rightarrow> string \<Rightarrow> int" where
  "FileFromFireWall env d h =
     (let hashed = trim_space h in
      if 0 < length hashed then
        (case IsMalwareHashFromDb env d hashed hashed hashed of
           Inl _ \<Rightarrow> FW_EMPTY
         | Inr isMalware \<Rightarrow>
             (case IsCleanHashFromDb env d hashed hashed hashed of
                Inl _ \<Rightarrow> FW_EMPTY
              | Inr isClean \<Rightarrow>
                  if isClean then FW_CLEAN else if isMalware then FW_BLOCK else FW_EMPTY))
      else FW_EMPTY)"

subsection \<open>Start-up\<close>

text \<open>\<open>readDeviceRebootedFlag\<close> on the file's content (\<open>None\<close>: it cannot be read).\<close>

definition readDeviceRebootedFlag :: "string option \<Rightarrow> bool \<times> go_error option" where
  "readDeviceRebootedFlag content =
     (case content of
        None \<Rightarrow> (False, Some (Err ''error reading file''))
      | Some c \<Rightarrow>
          let trimmedContent = trim_space c in
          if trimmedContent = ''1'' then (True, None)
          else if trimmedContent = ''0'' then (False, None)
          else (False, Some (Err ''invalid file content'')))"

text \<open>
  \<open>setDeviceRebootedFlagTo0\<close> writes the file when \<open>os.Stat\<close>, \<open>os.Create\<close> and
  \<open>os.WriteFile\<close> succeed.
\<close>

definition setDeviceRebootedFlagTo0 :: "bool \<Rightarrow> string option \<Rightarrow> string option" where
  "setDeviceRebootedFlagTo0 writable content = (if writable then Some ''0'' else content)"

text \<open>\<open>ResetQueueDb\<close>: errors of the updates are ignored. Result: the tables and the flag file.\<close>

definition ResetQueueDb ::
  "('e) db_env_scheme \<Rightarrow> bool \<Rightarrow> string option \<Rightarrow> db \<Rightarrow> db \<times> string option" where
  "ResetQueueDb env writable flag d =
     (let (rebooted, err) = readDeviceRebootedFlag flag in
      if rebooted then
        (snd (gorm_exec env [UpdateStatusAll PendingNotInQueue] d), setDeviceRebootedFlagTo0 writable flag)
      else
        let d1 = snd (gorm_exec env [UpdateStatusWhere PendingInQueue PendingNotInQueue] d);
            d2 = snd (gorm_exec env [UpdateStatusWhere RunningInQueue RunningNotInQueue] d1)
        in (d2, flag))"

subsection \<open>Scores, ratings and answers\<close>

lemma GetVerdict_Clean: "GetVerdict sc = Clean \<longleftrightarrow> f32_eq sc (F 0)"
  by (auto simp: GetVerdict_def)

text \<open>rating and verdict agree: a file is allowed exactly when it is rated Clean, for every
  score a report can carry, and the rating of finite scores from 0 up grows with the score.\<close>

theorem rating_agrees_with_verdict:
  "(score_verdict sc = ALLOW \<longleftrightarrow> GetVerdict sc = Clean)
   \<and> (0 \<le> a \<and> a \<le> b \<longrightarrow> GetVerdict (F a) \<le> GetVerdict (F b))"
proof
  show "score_verdict sc = ALLOW \<longleftrightarrow> GetVerdict sc = Clean"
    by (simp add: GetVerdict_Clean score_verdict_def)
  show "0 \<le> a \<and> a \<le> b \<longrightarrow> GetVerdict (F a) \<le> GetVerdict (F b)"
    by (auto simp: GetVerdict_def f32_le_def less_eq_verdict_def)
qed

theorem rating_agrees_with_verdict_witness: "GetVerdict (F 3) \<le> GetVerdict (F 6)"
  using rating_agrees_with_verdict [of F_NaN 3 6] by simp

lemma count_positive: "0 < int (length (filter P xs)) \<longleftrightarrow> (\<exists>x \<in> set xs. P x)"
  by (auto simp: filter_empty_conv)

lemma count_zero: "int (length (filter P xs)) = 0 \<longleftrightarrow> \<not> (\<exists>x \<in> set xs. P x)"
  by (auto simp: filter_empty_conv)

definition known_clean :: "db \<Rightarrow> string \<Rightarrow> string \<Rightarrow> string \<Rightarrow> bool" where
  "known_clean d m s s2 \<longleftrightarrow> (\<exists>f \<in> set (fods d). fod_hash_match d m s s2 f \<and> fod_final_verdict f = ALLOW)"

definition known_malware :: "db \<Rightarrow> string \<Rightarrow> string \<Rightarrow> string \<Rightarrow> bool" where
  "known_malware d m s s2 \<longleftrightarrow>
     (\<exists>h \<in> set (hashes d). hash_match d m s s2 (fh_md5 h) (fh_sha1 h) (fh_sha256 h))
     \<or> (\<exists>f \<in> set (fods d). fod_hash_match d m s s2 f \<and> fod_final_verdict f = BLOCK)"

lemma IsCleanHashFromDb_healthy:
  "healthy env \<Longrightarrow> IsCleanHashFromDb env d m s s2 = Inr (known_clean d m s s2)"
  unfolding IsCleanHashFromDb_def fod_verdict_count_def known_clean_def healthy_select
  by (simp only: healthy_select sum.case count_zero split: if_splits) auto

lemma IsMalwareHashFromDb_healthy:
  "healthy env \<Longrightarrow> IsMalwareHashFromDb env d m s s2 = Inr (known_malware d m s s2)"
  unfolding IsMalwareHashFromDb_def fod_verdict_count_def hash_count_def known_malware_def
  by (simp only: healthy_select sum.case count_zero count_positive split: if_splits) auto

text \<open>The firewall is told clean when some file with the hash was allowed, malicious when none
  was allowed and the hash is a preset or a blocked one, and nothing otherwise.\<close>

theorem firewall_answer:
  assumes "healthy env"
  shows "FileFromFireWall env d h =
    (if trim_space h = [] then FW_EMPTY
     else if known_clean d (trim_space h) (trim_space h) (trim_space h) then FW_CLEAN
     else if known_malware d (trim_space h) (trim_space h) (trim_space h) then FW_BLOCK
     else FW_EMPTY)"
  using assms
  by (simp add: FileFromFireWall_def Let_def IsCleanHashFromDb_healthy IsMalwareHashFromDb_healthy)

definition listed_db :: db where
  "listed_db = \<lparr>fods = [], uods = [], lives = [], finished = [], dups = [],
     hashes = [\<lparr>fh_sha1 = ''s'', fh_sha256 = ''t'', fh_md5 = ''m''\<rparr>], uod_auto = 1, collation = (\<lambda>x. x)\<rparr>"

theorem firewall_answer_witness:
  "FileFromFireWall \<lparr>tx_ok = \<lambda>_ _. True, sel_ok = \<lambda>_ _. True\<rparr> listed_db '' m'' = FW_BLOCK"
proof -
  have env: "healthy \<lparr>tx_ok = \<lambda>_ _. True, sel_ok = \<lambda>_ _. True\<rparr>" by (simp add: healthy_def)
  show ?thesis
    unfolding firewall_answer [OF env]
    by (simp add: trim_space_def is_space_def known_clean_def known_malware_def listed_db_def
        hash_match_def ceq_def)
qed

end
