(* ===== verification/Scanners.thy ===== *)
theory Scanners
  imports Queue_Db
begin

text \<open>
  The two scanners that run before a file goes to the sandbox: \<open>service/queue/clamd.go\<close> and
  \<open>service/queue/quick_scope.go\<close>, with \<open>EmbedTextInHTML\<close> of \<open>util/utils.go\<close>. The ClamAV
  daemon, the \<open>filetype\<close> package and the external Python tool are parameters
  (\<open>clamd_scan\<close>, \<open>kind_extension\<close>, \<open>run_tool\<close>): what the source does with their answers is
  modelled. The uploaded files are a map from task ids to contents; \<open>file_path\<close> is the
  name under which a task's file is stored.
\<close>

type_synonym file_store = "int \<Rightarrow> string option"

definition SANDBOX_FILE_PATHS :: string where
  "SANDBOX_FILE_PATHS = ''/var/www/html/web/database/files/''"

definition file_path :: "int \<Rightarrow> string" where
  "file_path i = SANDBOX_FILE_PATHS @ show_int i"

record scan_env = db_env +
  clamd_scan :: "string \<Rightarrow> string option \<Rightarrow> go_error + string list"
  kind_extension :: "string \<Rightarrow> string"
  run_tool :: "string list \<Rightarrow> string option \<Rightarrow> go_error + string"
  fs_writable :: bool

subsection \<open>ClamAV\<close>

definition RES_FOUND :: string where "RES_FOUND = ''FOUND''"

fun any_found :: "string list \<Rightarrow> bool" where
  "any_found [] = False"
| "any_found (s # response) = (if s = RES_FOUND then True else any_found response)"

definition ScanFileThroughClamd ::
  "('e) scan_env_scheme \<Rightarrow> file_store \<Rightarrow> task \<Rightarrow> bool \<times> go_error option" where
  "ScanFileThroughClamd env files t =
     (case clamd_scan env (file_path (Id t)) (files (Id t)) of
        Inl err \<Rightarrow> (False, Some err)
      | Inr response \<Rightarrow> (any_found response, None))"

lemma any_found_iff: "any_found rs \<longleftrightarrow> RES_FOUND \<in> set rs"
  by (induction rs) auto

text \<open>\<open>extensionsToIgnore\<close> on the lines of its file.\<close>

definition extensionsToIgnore :: "string list option \<Rightarrow> string set \<times> go_error option" where
  "extensionsToIgnore lines =
     (case lines of
        None \<Rightarrow> ({}, Some (Err ''open''))
      | Some ls \<Rightarrow> (set (filter (\<lambda>e. e \<noteq> []) (map trim_space ls)), None))"

subsection \<open>Text files are wrapped into a page\<close>

definition nl :: string where "nl = [CHR 0x0A]"
definition dq :: char where "dq = CHR 0x22"

definition HTMLTemplate_head :: string where
  "HTMLTemplate_head =
     nl @ ''<!DOCTYPE html>'' @ nl @ ''<html lang='' @ [dq] @ ''en'' @ [dq] @ ''>'' @ nl @
     ''<head>'' @ nl @ ''    <meta charset='' @ [dq] @ ''UTF-8'' @ [dq] @ ''>'' @ nl @
     ''    <meta name='' @ [dq] @ ''viewport'' @ [dq] @ '' content='' @ [dq] @
     ''width=device-width, initial-scale=1.0'' @ [dq] @ ''>'' @ nl @
     ''    <title>Text File Content</title>'' @ nl @ ''</head>'' @ nl @ ''<body>'' @ nl @
     ''    <pre>''"

definition HTMLTemplate_tail :: string where
  "HTMLTemplate_tail = ''</pre>'' @ nl @ ''</body>'' @ nl @ ''</html>'' @ nl"

text \<open>The template of \<open>text/template\<close>: the content is copied without escaping.\<close>

definition EmbedTextInHTML :: "bool \<Rightarrow> int \<Rightarrow> file_store \<Rightarrow> file_store" where
  "EmbedTextInHTML writable i files =
     (if writable
      then files(i \<mapsto> HTMLTemplate_head @ null_string (files i) @ HTMLTemplate_tail)
      else files)"

subsection \<open>Qu1cksc0pe\<close>

text \<open>The row of a task in \<open>file_on_demands\<close>; the zero value when there is none or on an error.\<close>

definition lookup_fod :: "db \<Rightarrow> int \<Rightarrow> file_on_demand option" where
  "lookup_fod d i = find (\<lambda>f. fod_id f = i) (fods d)"

definition select_fod :: "('e) db_env_scheme \<Rightarrow> db \<Rightarrow> int \<Rightarrow> go_error + file_on_demand" where
  "select_fod env d i =
     run_select env (SelFod i) d (case lookup_fod d i of None \<Rightarrow> zero_fod | Some f \<Rightarrow> f)"

definition tool_mode :: "string \<Rightarrow> string option" where
  "tool_mode ext =
     (if ext \<in> {''.doc'', ''.docm'', ''.docx'', ''xls'', ''.xlsm'', ''.xlsx'', ''.pdf'', ''.one'',
               ''.htm'', ''.html'', ''.rtf''} then Some ''--docs''
      else if ext \<in> {''.zip'', ''.rar'', ''.ace''} then Some ''--archive''
      else if ext = ''.elf'' then Some ''--sigcheck''
      else None)"

text \<open>The scan for the marker bytes, with the bound \<open>i + 4 < len(s)\<close> of the loop.\<close>

definition marker :: string where
  "marker = [CHR ''I'', CHR ''0'', CHR 0x04, CHR ''C'']"

fun marker_scan :: "string \<Rightarrow> bool" where
  "marker_scan (a # b # c # d # e # s) =
     (if a = CHR ''I'' \<and> b = CHR ''0'' \<and> c = CHR 0x04 \<and> d = CHR ''C'' then True
      else marker_scan (b # c # d # e # s))"
| "marker_scan _ = False"

definition malware_output :: "string \<Rightarrow> bool" where
  "malware_output stdout =
     (let trimmedString = trim_space stdout; found = marker_scan trimmedString
      in found \<or> contains trimmedString ''I0C''
         \<or> contains (to_lower trimmedString) ''macro found''
         \<or> contains (to_lower trimmedString) ''rule name'')"

definition fod_or_zero :: "go_error + file_on_demand \<Rightarrow> file_on_demand" where
  "fod_or_zero r = (case r of Inl _ \<Rightarrow> zero_fod | Inr f \<Rightarrow> f)"

definition ScanFileThroughQuickScope ::
  "('e) scan_env_scheme \<Rightarrow> db \<Rightarrow> file_store \<Rightarrow> task
   \<Rightarrow> (bool \<times> go_error option) \<times> file_store" where
  "ScanFileThroughQuickScope env d files t =
     (let fod = fod_or_zero (select_fod env d (Id t));
          ext0 = filepath_ext (fod_file_name fod);
          ext1 = (if ext0 = [] then kind_extension env (null_string (files (Id t))) else ext0);
          files' = (if ext1 = ''.txt'' then EmbedTextInHTML (fs_writable env) (Id t) files else files);
          ext = (if ext1 = ''.txt'' then ''.html'' else ext1);
          args = [''python3'', ''/home/prateek/Qu1cksc0pe/qu1cksc0pe.py'', ''--file'', file_path (Id t)]
      in case tool_mode ext of
           None \<Rightarrow> ((False, Some (Err (''file type not supported: '' @ ext))), files')
         | Some mode \<Rightarrow>
             (case run_tool env (args @ [mode]) (files' (Id t)) of
                Inl err \<Rightarrow> ((False, Some err), files')
              | Inr stdout \<Rightarrow> ((malware_output stdout, None), files')))"

subsection \<open>What the marker scan finds\<close>

lemma contains_Nil_right [simp]: "contains s []"
  by (induction s) (auto simp: has_prefix_def)

lemma contains_short: "length s < length p \<Longrightarrow> \<not> contains s p"
  by (induction s) (auto simp: has_prefix_def dest: arg_cong [where f = length])

lemma contains_Cons: "contains (c # s) p \<longleftrightarrow> has_prefix (c # s) p \<or> contains s p"
  by simp

lemma has_prefix_marker:
  "has_prefix (a # b # c # d # s) marker \<longleftrightarrow>
     a = CHR ''I'' \<and> b = CHR ''0'' \<and> c = CHR 0x04 \<and> d = CHR ''C''"
  by (simp add: has_prefix_def marker_def)

lemma butlast_five: "butlast (a # b # c # d # e # s) = a # b # c # d # butlast (e # s)"
  by simp

lemma marker_scan_eq: "marker_scan s \<longleftrightarrow> contains (butlast s) marker"
proof (induction s rule: marker_scan.induct)
  case (1 a b c d e s)
  have "contains (butlast (a # b # c # d # e # s)) marker \<longleftrightarrow>
        has_prefix (a # b # c # d # butlast (e # s)) marker
        \<or> contains (butlast (b # c # d # e # s)) marker"
    unfolding butlast_five contains_Cons by simp
  then show ?case
    unfolding marker_scan.simps has_prefix_marker
    by (cases "a = CHR ''I'' \<and> b = CHR ''0'' \<and> c = CHR 0x04 \<and> d = CHR ''C''")
      (use 1 in \<open>simp_all only: if_True if_False simp_thms\<close>)
qed (simp_all add: has_prefix_def marker_def)

lemma has_prefix_iff: "has_prefix s p \<longleftrightarrow> (\<exists>r. s = p @ r)"
  by (metis append_eq_conv_conj has_prefix_def append_take_drop_id)

lemma contains_iff: "contains s p \<longleftrightarrow> (\<exists>l r. s = l @ p @ r)"
proof (induction s)
  case Nil
  then show ?case by auto
next
  case (Cons c s)
  show ?case
  proof
    assume "contains (c # s) p"
    then consider r where "c # s = p @ r" | l r where "s = l @ p @ r"
      using Cons.IH by (auto simp: has_prefix_iff)
    then show "\<exists>l r. c # s = l @ p @ r"
    proof cases
      case 1
      then have "c # s = [] @ p @ r" by simp
      then show ?thesis by blast
    next
      case (2 l r)
      then have "c # s = (c # l) @ p @ r" by simp
      then show ?thesis by blast
    qed
  next
    assume "\<exists>l r. c # s = l @ p @ r"
    then obtain l r where lr: "c # s = l @ p @ r" by blast
    show "contains (c # s) p"
    proof (cases l)
      case Nil
      with lr have "has_prefix (c # s) p" by (auto simp: has_prefix_iff)
      then show ?thesis by simp
    next
      case (Cons c' l')
      with lr have "s = l' @ p @ r" by simp
      with Cons.IH show ?thesis by auto
    qed
  qed
qed

text \<open>the byte marker of Qu1cksc0pe is found exactly when it occurs before the last byte of the
  output: an occurrence at the very end is missed by the bound of the loop.\<close>

theorem quickscope_marker:
  "marker_scan s \<longleftrightarrow> (\<exists>l r. s = l @ marker @ r \<and> r \<noteq> [])"
proof
  assume "marker_scan s"
  then obtain l r where lr: "butlast s = l @ marker @ r" by (auto simp: marker_scan_eq contains_iff)
  then have "s = (l @ marker @ r) @ [last s]"
    by (metis Nil_is_append_conv append_butlast_last_id butlast.simps(1) list.distinct(1) marker_def)
  then have "s = l @ marker @ (r @ [last s])" by simp
  then show "\<exists>l r. s = l @ marker @ r \<and> r \<noteq> []" by blast
next
  assume "\<exists>l r. s = l @ marker @ r \<and> r \<noteq> []"
  then obtain l r where "s = l @ marker @ r" "r \<noteq> []" by blast
  then have "butlast s = l @ marker @ butlast r" by (simp add: butlast_append marker_def)
  then show "marker_scan s" by (auto simp: marker_scan_eq contains_iff)
qed

end
