(* ===== verification/Work_Queue.thy ===== *)
theory Work_Queue
  imports Task_Model
begin

text \<open>
  The buffered channels of \<open>service/queue/queue.go\<close>: \<open>PendingQueue\<close>, \<open>RunningQueue\<close> and
  \<open>LogQueue\<close> are channels of capacity 5000, modelled by their buffered elements. A push is
  a non-blocking send, a fetch receives a batch or drains the channel. The locale states
  the contract of a bounded first-in first-out queue; it is interpreted on the channel
  operations at the end of the theory.
\<close>

type_synonym chan = "task list"

definition queue_capacity :: nat where "queue_capacity = 5000"

definition push_error :: go_error where "push_error = Err ''failed to push into queue''"

text \<open>\<open>pushToQueue\<close>: the task is passed by value, so the new status is set on the copy sent.\<close>

definition pushToQueue :: "chan \<Rightarrow> task \<Rightarrow> string \<Rightarrow> go_error + chan" where
  "pushToQueue queue t status =
     (let t' = t\<lparr>Status := status\<rparr>
      in if length queue < queue_capacity then Inr (queue @ [t']) else Inl push_error)"

text \<open>The two loops of \<open>fetchTasksFromQueue\<close>.\<close>

fun drain_loop :: "task list \<Rightarrow> chan \<Rightarrow> task list \<times> chan" where
  "drain_loop tasks [] = (tasks, [])"
| "drain_loop tasks (t # queue) = drain_loop (tasks @ [t]) queue"

fun fetch_loop :: "int \<Rightarrow> int \<Rightarrow> task list \<Rightarrow> chan \<Rightarrow> task list \<times> chan" where
  "fetch_loop i count tasks [] = (tasks, [])"
| "fetch_loop i count tasks (t # queue) =
     (if i < count then fetch_loop (i + 1) count (tasks @ [t]) queue else (tasks, t # queue))"

definition fetchTasksFromQueue :: "chan \<Rightarrow> int \<Rightarrow> task list \<times> chan" where
  "fetchTasksFromQueue queue count =
     (if count = -1 then drain_loop [] queue else fetch_loop 0 count [] queue)"

lemma drain_loop_eq: "drain_loop acc q = (acc @ q, [])"
  by (induction acc q rule: drain_loop.induct) auto

lemma fetch_loop_eq:
  "fetch_loop i count acc q = (acc @ take (nat (count - i)) q, drop (nat (count - i)) q)"
proof (induction i count acc q rule: fetch_loop.induct)
  case (1 i count acc)
  then show ?case by simp
next
  case (2 i count acc t q)
  show ?case
  proof (cases "i < count")
    case True
    then have "nat (count - i) = Suc (nat (count - (i + 1)))" by simp
    with True "2.IH" show ?thesis by simp
  next
    case False
    then show ?thesis by simp
  qed
qed

lemma fetchTasksFromQueue_eq:
  "fetchTasksFromQueue q n = (if n = -1 then (q, []) else (take (nat n) q, drop (nat n) q))"
  by (simp add: fetchTasksFromQueue_def drain_loop_eq fetch_loop_eq)

lemma pushToQueue_Inr:
  "pushToQueue q t st = Inr q' \<longleftrightarrow> length q < queue_capacity \<and> q' = q @ [t\<lparr>Status := st\<rparr>]"
  by (auto simp: pushToQueue_def Let_def)

lemma pushToQueue_Inl: "pushToQueue q t st = Inl e \<longleftrightarrow> queue_capacity \<le> length q \<and> e = push_error"
  by (auto simp: pushToQueue_def Let_def)

lemmas pushToQueue_simps = pushToQueue_Inr pushToQueue_Inl

subsection \<open>The contract of a bounded queue\<close>

datatype 'a queue_op = Push 'a | Fetch int

text \<open>
  A run of pushes and fetches: the elements that were accepted, the elements handed out and
  the queue that is left.
\<close>

fun run_queue ::
  "('q \<Rightarrow> 'a \<Rightarrow> 'q option) \<Rightarrow> ('q \<Rightarrow> int \<Rightarrow> 'a list \<times> 'q) \<Rightarrow> 'a queue_op list \<Rightarrow> 'q
   \<Rightarrow> 'a list \<times> 'a list \<times> 'q" where
  "run_queue push fetch [] q = ([], [], q)"
| "run_queue push fetch (Push x # ops) q =
     (case push q x of
        None \<Rightarrow> run_queue push fetch ops q
      | Some q1 \<Rightarrow> (let (acc, out, q') = run_queue push fetch ops q1 in (x # acc, out, q')))"
| "run_queue push fetch (Fetch n # ops) q =
     (let (xs, q1) = fetch q n; (acc, out, q') = run_queue push fetch ops q1 in (acc, xs @ out, q'))"

locale bounded_queue =
  fixes push :: "'q \<Rightarrow> 'a \<Rightarrow> 'q option"
    and fetch :: "'q \<Rightarrow> int \<Rightarrow> 'a list \<times> 'q"
    and content :: "'q \<Rightarrow> 'a list"
    and cap :: nat
  assumes push_None: "push q x = None \<longleftrightarrow> cap \<le> length (content q)"
    and push_Some: "push q x = Some q' \<Longrightarrow> content q' = content q @ [x]"
    and fetch_split: "fetch q n = (xs, q') \<Longrightarrow> content q = xs @ content q'"
    and fetch_drain: "fetch q (-1) = (xs, q') \<Longrightarrow> content q' = []"
    and fetch_bound: "0 \<le> n \<Longrightarrow> fetch q n = (xs, q') \<Longrightarrow> length xs = min (nat n) (length (content q))"
begin

lemma push_within: "length (content q) \<le> cap \<Longrightarrow> push q x = Some q' \<Longrightarrow> length (content q') \<le> cap"
  using push_None [of q x] push_Some [of q x q'] by simp

lemma fetch_within: "length (content q) \<le> cap \<Longrightarrow> fetch q n = (xs, q') \<Longrightarrow> length (content q') \<le> cap"
  using fetch_split [of q n xs q'] by simp

lemma run_step_push:
  "run_queue push fetch (Push x # ops) q = (acc, out, q') \<Longrightarrow>
   (push q x = None \<and> run_queue push fetch ops q = (acc, out, q')) \<or>
   (\<exists>q1 acc1. push q x = Some q1 \<and> acc = x # acc1 \<and> run_queue push fetch ops q1 = (acc1, out, q'))"
  by (cases "push q x") (auto split: prod.splits)

lemma run_step_fetch:
  "run_queue push fetch (Fetch n # ops) q = (acc, out, q') \<Longrightarrow>
   \<exists>xs q1 out1. fetch q n = (xs, q1) \<and> out = xs @ out1 \<and> run_queue push fetch ops q1 = (acc, out1, q')"
  by (auto split: prod.splits)

lemma run_fifo: "run_queue push fetch ops q = (acc, out, q') \<Longrightarrow> content q @ acc = out @ content q'"
proof (induction ops arbitrary: q acc out q')
  case Nil
  then show ?case by simp
next
  case (Cons op ops)
  show ?case
  proof (cases op)
    case (Push x)
    from run_step_push [OF Cons.prems [unfolded Push]] show ?thesis
      using Cons.IH push_Some by (metis append_Cons append_Nil append_assoc)
  next
    case (Fetch n)
    from run_step_fetch [OF Cons.prems [unfolded Fetch]] show ?thesis
      using Cons.IH fetch_split by (metis append_assoc)
  qed
qed

lemma run_within:
  "length (content q) \<le> cap \<Longrightarrow> run_queue push fetch ops q = (acc, out, q') \<Longrightarrow>
   length (content q') \<le> cap"
proof (induction ops arbitrary: q acc out q')
  case Nil
  then show ?case by simp
next
  case (Cons op ops)
  show ?case
  proof (cases op)
    case (Push x)
    from run_step_push [OF Cons.prems(2) [unfolded Push]] show ?thesis
      using Cons.IH Cons.prems(1) push_within by metis
  next
    case (Fetch n)
    from run_step_fetch [OF Cons.prems(2) [unfolded Fetch]] show ?thesis
      using Cons.IH Cons.prems(1) fetch_within by metis
  qed
qed

end

text \<open>Sending a task with the status it already carries, as an option.\<close>

definition send_task :: "chan \<Rightarrow> task \<Rightarrow> chan option" where
  "send_task queue t =
     (case pushToQueue queue t (Status t) of Inl _ \<Rightarrow> None | Inr queue' \<Rightarrow> Some queue')"

interpretation channel: bounded_queue send_task fetchTasksFromQueue "\<lambda>q. q" queue_capacity
proof
  fix q :: chan and t :: task
  show "send_task q t = None \<longleftrightarrow> queue_capacity \<le> length q"
    by (simp add: send_task_def pushToQueue_def Let_def)
next
  fix q q' :: chan and t :: task
  show "send_task q t = Some q' \<Longrightarrow> q' = q @ [t]"
    by (auto simp: send_task_def pushToQueue_def Let_def split: if_splits)
qed (auto simp: fetchTasksFromQueue_eq split: if_splits)

text \<open>C15: the channels are first-in first-out and bounded: over any run of pushes and fetches the
  accepted tasks are the received ones followed by those still queued, at most 5000.\<close>

theorem channel_fifo:
  assumes "run_queue send_task fetchTasksFromQueue ops [] = (accepted, received, rest)"
  shows "accepted = received @ rest \<and> length rest \<le> 5000"
  using channel.run_fifo [OF assms] channel.run_within [OF _ assms] by (simp add: queue_capacity_def)

definition one_task :: task where
  "one_task = \<lparr>Id = 1, Status = Pending, SandboxId = 0, QueueRetryCount = 0, RunningRetryCount = 0,
     SandboxRetryCount = 0, Md5 = [], SHA = [], SHA256 = [], LogQueueFailed = False,
     SubmittedTime = 0, RunningStartedAt = 0\<rparr>"

theorem channel_fifo_witness:
  "run_queue send_task fetchTasksFromQueue [Push one_task, Push (one_task\<lparr>Id := 2\<rparr>), Fetch 1] [] =
     ([one_task, one_task\<lparr>Id := 2\<rparr>], [one_task], [one_task\<lparr>Id := 2\<rparr>]) \<and>
   [one_task, one_task\<lparr>Id := 2\<rparr>] = [one_task] @ [one_task\<lparr>Id := 2\<rparr>]"
proof -
  have run: "run_queue send_task fetchTasksFromQueue [Push one_task, Push (one_task\<lparr>Id := 2\<rparr>), Fetch 1] [] =
     ([one_task, one_task\<lparr>Id := 2\<rparr>], [one_task], [one_task\<lparr>Id := 2\<rparr>])"
    by (simp add: send_task_def pushToQueue_def queue_capacity_def fetchTasksFromQueue_eq one_task_def)
  with channel_fifo [OF run] show ?thesis by simp
qed

end
