(* ===== verification/Sandbox_Api.thy ===== *)
theory Sandbox_Api
  imports Scanners Work_Queue
begin

text \<open>
  \<open>service/queue/sandbox.go\<close>: the calls to the sandbox's REST service and the verdict that
  is posted back to the machine a file came from. The service itself (\<open>service/cuckoo\<close>,
  HTTP) is a parameter: the environment says what each call returns.
\<close>

text \<open>What the handlers share: tables, channels, stored files, requests sent, goroutines.\<close>

datatype goroutine =
    GoSendToSandbox task
  | GoPushStatus task string
  | GoDeleteSandboxData int int
  | GoDeleteLocalTask int

record sys =
  sys_db :: db
  pendingQ :: chan
  runningQ :: chan
  logQ :: chan
  files :: file_store
  posts :: "(string \<times> string) list"
  sandbox_deletes :: "int list"
  max_sandbox_tasks :: int
  max_allowed_file_size :: int
  goroutines :: "goroutine list"

text \<open>An entry of the sandbox's task list; \<open>ct_completed\<close> is the printed completion time.\<close>

record cuckoo_task =
  ct_id :: int
  ct_status :: string
  ct_completed :: "string option"

record sandbox =
  SandboxTaskId :: int
  SandboxStatus :: string
  CompletedOn :: int

record sandbox_env = scan_env +
  now :: int
  list_all_tasks :: "go_error + cuckoo_task list"
  list_machines :: "go_error + bool list"
  create_task_file :: "string \<Rightarrow> string option \<Rightarrow> go_error + int"
  tasks_report :: "int \<Rightarrow> go_error + f32 option"
  tasks_delete :: "int \<Rightarrow> go_error option"
  parse_rfc1123 :: "string \<Rightarrow> int option"
  new_request_ok :: "string \<Rightarrow> bool"

subsection \<open>Reading the task list\<close>

text \<open>The variable \<open>t\<close> is declared outside the loop: its last value is carried along.\<close>

fun collect_tasks :: "(string \<Rightarrow> int option) \<Rightarrow> int \<Rightarrow> cuckoo_task list \<Rightarrow> sandbox list" where
  "collect_tasks parse t [] = []"
| "collect_tasks parse t (c # cs) =
     (let t' = (case ct_completed c of
                  None \<Rightarrow> t
                | Some s \<Rightarrow> (case parse s of None \<Rightarrow> zero_time | Some u \<Rightarrow> u))
      in \<lparr>SandboxTaskId = ct_id c, SandboxStatus = ct_status c, CompletedOn = t'\<rparr>
           # collect_tasks parse t' cs)"

definition fetchAllTasksFromSandbox :: "('e) sandbox_env_scheme \<Rightarrow> go_error + sandbox list" where
  "fetchAllTasksFromSandbox env =
     (case list_all_tasks env of
        Inl e \<Rightarrow> Inl e
      | Inr allTasks \<Rightarrow> Inr (collect_tasks (parse_rfc1123 env) zero_time allTasks))"

text \<open>\<open>countOfFreeVm\<close> on the \<open>Locked\<close> flags of the machines.\<close>

definition countOfFreeVm :: "('e) sandbox_env_scheme \<Rightarrow> int \<times> go_error option" where
  "countOfFreeVm env =
     (case list_machines env of
        Inl e \<Rightarrow> (0, Some e)
      | Inr machines \<Rightarrow> (int (length (filter Not machines)), None))"

definition not_reported :: "sandbox \<Rightarrow> bool" where
  "not_reported s \<longleftrightarrow> SandboxStatus s \<noteq> Reported \<and> SandboxStatus s \<noteq> ''failed_analysis''"

definition FetchSandboxTaskCountWhichAreNotReported :: "('e) sandbox_env_scheme \<Rightarrow> int" where
  "FetchSandboxTaskCountWhichAreNotReported env =
     (let allSandboxTasks = (case fetchAllTasksFromSandbox env of Inl _ \<Rightarrow> [] | Inr ts \<Rightarrow> ts)
      in int (length (filter not_reported allSandboxTasks)))"

subsection \<open>Calls about one task\<close>

definition sendToSandbox ::
  "('e) sandbox_env_scheme \<Rightarrow> file_store \<Rightarrow> task \<Rightarrow> int \<times> go_error option" where
  "sendToSandbox env fs t =
     (case create_task_file env (file_path (Id t)) (fs (Id t)) of
        Inl err \<Rightarrow> (-1, Some err)
      | Inr sandboxId \<Rightarrow> (sandboxId, None))"

definition fetchScoreFromSandBox :: "('e) sandbox_env_scheme \<Rightarrow> int \<Rightarrow> f32 \<times> go_error option" where
  "fetchScoreFromSandBox env sandboxId =
     (case tasks_report env sandboxId of
        Inl err \<Rightarrow> (F 0, Some err)
      | Inr None \<Rightarrow> (F 0, None)
      | Inr (Some score) \<Rightarrow> (score, None))"

definition deleteSandboxData ::
  "('e) sandbox_env_scheme \<Rightarrow> int \<Rightarrow> 's sys_scheme \<Rightarrow> go_error option \<times> 's sys_scheme" where
  "deleteSandboxData env sandboxId s =
     (if sandboxId = 0 then (None, s)
      else (tasks_delete env sandboxId,
            s\<lparr>sandbox_deletes := sandbox_deletes s @ [sandboxId]\<rparr>))"

definition FlushSandboxData ::
  "('e) sandbox_env_scheme \<Rightarrow> 's sys_scheme \<Rightarrow> go_error option \<times> 's sys_scheme" where
  "FlushSandboxData env s =
     (case fetchAllTasksFromSandbox env of
        Inl err \<Rightarrow> (Some err, s)
      | Inr allTasks \<Rightarrow>
          (None, fold (\<lambda>t s'. snd (deleteSandboxData env (SandboxTaskId t) s')) allTasks s))"

definition zero_task :: task where
  "zero_task = \<lparr>Id = 0, Status = [], SandboxId = 0, QueueRetryCount = 0, RunningRetryCount = 0,
     SandboxRetryCount = 0, Md5 = [], SHA = [], SHA256 = [], LogQueueFailed = False,
     SubmittedTime = zero_time, RunningStartedAt = zero_time\<rparr>"

definition spawn :: "goroutine \<Rightarrow> 's sys_scheme \<Rightarrow> 's sys_scheme" where
  "spawn g s = s\<lparr>goroutines := goroutines s @ [g]\<rparr>"

definition remove_one ::
  "sandbox \<Rightarrow> 's sys_scheme \<Rightarrow> 's sys_scheme" where
  "remove_one t s =
     (case pushToQueue (logQ s) (zero_task\<lparr>SandboxId := SandboxTaskId t\<rparr>) SandboxApiTimeout of
        Inl _ \<Rightarrow> spawn (GoDeleteSandboxData (SandboxTaskId t) (SandboxTaskId t)) s
      | Inr q \<Rightarrow> s\<lparr>logQ := q\<rparr>)"

definition RemoveSandboxTasksWhichAreNotInTasksAnReachedTimeOut ::
  "('e) sandbox_env_scheme \<Rightarrow> sandbox list \<Rightarrow> task list \<Rightarrow> 's sys_scheme \<Rightarrow> 's sys_scheme" where
  "RemoveSandboxTasksWhichAreNotInTasksAnReachedTimeOut env allSandboxTasks tasks s =
     (let taskMap = set (map SandboxId (filter (\<lambda>t. 0 < SandboxId t) tasks));
          resp = filter (\<lambda>t. SandboxTaskId t \<notin> taskMap \<and>
                   30 * go_minute < time_sub (now env) (CompletedOn t)) allSandboxTasks
      in fold remove_one resp s)"

text \<open>An \<open>os.Remove\<close> that fails is only logged.\<close>

definition deleteLocalTask ::
  "('e) scan_env_scheme \<Rightarrow> int \<Rightarrow> 's sys_scheme \<Rightarrow> 's sys_scheme" where
  "deleteLocalTask env i s = (if fs_writable env then s\<lparr>files := (files s)(i := None)\<rparr> else s)"

subsection \<open>Acknowledgements\<close>

definition ANALYSING :: string where "ANALYSING = ''ANALYSING''"

definition sendAcknowledgement ::
  "('e) db_env_scheme \<Rightarrow> int \<Rightarrow> db \<Rightarrow> string \<times> string" where
  "sendAcknowledgement env taskId d =
     (case select_fod env d taskId of
        Inl _ \<Rightarrow> ([], [])
      | Inr fod \<Rightarrow>
          if fod_final_verdict fod = [] then (fod_client_ip fod, ANALYSING)
          else (fod_client_ip fod, fod_final_verdict fod))"

definition verdict_url :: "string \<Rightarrow> string" where
  "verdict_url ip = ''https://'' @ ip @ '':8085/verdict''"

definition verdict_payload :: "string \<Rightarrow> int \<Rightarrow> string" where
  "verdict_payload verdict taskId =
     ''{'' @ [dq] @ ''verdict'' @ [dq] @ '': '' @ [dq] @ verdict @ [dq] @ '', '' @ [dq] @ ''taskID''
       @ [dq] @ '': '' @ show_int taskId @ ''}''"

definition SendAcknowledgementToClientIp ::
  "('e) sandbox_env_scheme \<Rightarrow> int \<Rightarrow> 's sys_scheme \<Rightarrow> 's sys_scheme" where
  "SendAcknowledgementToClientIp env taskId s =
     (let (ip, verdict) = sendAcknowledgement env taskId (sys_db s) in
      if ip = [] \<or> verdict = [] then s
      else if new_request_ok env (verdict_url ip)
      then s\<lparr>posts := posts s @ [(verdict_url ip, verdict_payload verdict taskId)]\<rparr>
      else s)"

text \<open>The operations that leave everything but one component of the state alone.\<close>

lemma sandbox_frame [simp]:
  "sys_db (SendAcknowledgementToClientIp env i s) = sys_db s"
  "logQ (SendAcknowledgementToClientIp env i s) = logQ s"
  "pendingQ (SendAcknowledgementToClientIp env i s) = pendingQ s"
  "runningQ (SendAcknowledgementToClientIp env i s) = runningQ s"
  "files (SendAcknowledgementToClientIp env i s) = files s"
  "goroutines (SendAcknowledgementToClientIp env i s) = goroutines s"
  "sys.more (SendAcknowledgementToClientIp env i s) = sys.more s"
  "sys_db (spawn g s) = sys_db s" "logQ (spawn g s) = logQ s" "pendingQ (spawn g s) = pendingQ s"
  "runningQ (spawn g s) = runningQ s" "files (spawn g s) = files s" "posts (spawn g s) = posts s"
  "goroutines (spawn g s) = goroutines s @ [g]" "sys.more (spawn g s) = sys.more s"
  "sys_db (deleteLocalTask env' i s) = sys_db s" "logQ (deleteLocalTask env' i s) = logQ s"
  "pendingQ (deleteLocalTask env' i s) = pendingQ s" "runningQ (deleteLocalTask env' i s) = runningQ s"
  "goroutines (deleteLocalTask env' i s) = goroutines s" "sys.more (deleteLocalTask env' i s) = sys.more s"
  by (simp_all add: SendAcknowledgementToClientIp_def spawn_def deleteLocalTask_def
      split: prod.splits)

lemma deleteSandboxData_frame [simp]:
  "sys_db (snd (deleteSandboxData env i s)) = sys_db s"
  "logQ (snd (deleteSandboxData env i s)) = logQ s"
  "pendingQ (snd (deleteSandboxData env i s)) = pendingQ s"
  "runningQ (snd (deleteSandboxData env i s)) = runningQ s"
  "goroutines (snd (deleteSandboxData env i s)) = goroutines s"
  "files (snd (deleteSandboxData env i s)) = files s"
  "sys.more (snd (deleteSandboxData env i s)) = sys.more s"
  by (simp_all add: deleteSandboxData_def)

text \<open>Flushing asks for the deletion of every listed task with a non-zero id, in order.\<close>

lemma flush_deletes:
  "sandbox_deletes (fold (\<lambda>t s'. snd (deleteSandboxData env (SandboxTaskId t) s')) ts s) =
     sandbox_deletes s @ filter (\<lambda>i. i \<noteq> 0) (map SandboxTaskId ts)"
  by (induction ts arbitrary: s) (simp_all add: deleteSandboxData_def)

end
