(* ===== verification/Queue_Handlers.thy ===== *)
theory Queue_Handlers
  imports Sandbox_Api
begin

text \<open>
  \<open>service/queue/queue.go\<close>: the four handlers that move a task from the live table through
  the channels to the finished table. A handler's loop body is split the way the goroutines
  can interleave: the part that fetches a batch, and the part that handles one task. The
  \<open>..._pass\<close> functions compose them into one iteration of the handler's loop, reading the
  environment anew for every task.
\<close>

definition QUEUE_MAX_RETRIES :: int where "QUEUE_MAX_RETRIES = 3"
definition RUNNING_MAX_RETRIES :: int where "RUNNING_MAX_RETRIES = 5"
definition MAX_FREE_VMS :: int where "MAX_FREE_VMS = 5"
definition SANDBOX_MAX_RETRIES :: int where "SANDBOX_MAX_RETRIES = 5"
definition MAX_CONCURRENT_LOG_QUEUE_TASKS :: nat where "MAX_CONCURRENT_LOG_QUEUE_TASKS = 50"
definition TIMEOUT :: int where "TIMEOUT = 15"
definition batchSize :: int where "batchSize = 20"

lemmas queue_limits = QUEUE_MAX_RETRIES_def RUNNING_MAX_RETRIES_def MAX_FREE_VMS_def
  SANDBOX_MAX_RETRIES_def TIMEOUT_def batchSize_def

record queue_env = sandbox_env +
  max_tasks_file :: "string option"
  timeout_file :: "string option"

subsection \<open>Settings read from files\<close>

definition read_int_file :: "string option \<Rightarrow> int \<Rightarrow> int" where
  "read_int_file content dflt =
     (case content of
        None \<Rightarrow> dflt
      | Some c \<Rightarrow> (case atoi (trim_space c) of None \<Rightarrow> dflt | Some v \<Rightarrow> v))"

definition getMaxSandboxTasks :: "('e) queue_env_scheme \<Rightarrow> int \<Rightarrow> int" where
  "getMaxSandboxTasks env current = read_int_file (max_tasks_file env) current"

definition getTimeOut :: "('e) queue_env_scheme \<Rightarrow> int" where
  "getTimeOut env = read_int_file (timeout_file env) TIMEOUT"

subsection \<open>Channels of the state\<close>

datatype queue_name = PendingQueue | RunningQueue | LogQueue

fun get_queue :: "queue_name \<Rightarrow> 's sys_scheme \<Rightarrow> chan" where
  "get_queue PendingQueue s = pendingQ s"
| "get_queue RunningQueue s = runningQ s"
| "get_queue LogQueue s = logQ s"

fun set_queue :: "queue_name \<Rightarrow> chan \<Rightarrow> 's sys_scheme \<Rightarrow> 's sys_scheme" where
  "set_queue PendingQueue q s = s\<lparr>pendingQ := q\<rparr>"
| "set_queue RunningQueue q s = s\<lparr>runningQ := q\<rparr>"
| "set_queue LogQueue q s = s\<lparr>logQ := q\<rparr>"

definition push ::
  "queue_name \<Rightarrow> task \<Rightarrow> string \<Rightarrow> 's sys_scheme \<Rightarrow> go_error option \<times> 's sys_scheme" where
  "push q t status s =
     (case pushToQueue (get_queue q s) t status of
        Inl e \<Rightarrow> (Some e, s)
      | Inr queue \<Rightarrow> (None, set_queue q queue s))"

definition on_db ::
  "(db \<Rightarrow> go_error option \<times> db) \<Rightarrow> 's sys_scheme \<Rightarrow> go_error option \<times> 's sys_scheme" where
  "on_db f s = (let (e, d) = f (sys_db s) in (e, s\<lparr>sys_db := d\<rparr>))"

text \<open>\<open>changeStatusAndPushToLogQueue\<close>: the parameter keeps its old status when the push fails.\<close>

definition changeStatusAndPushToLogQueue ::
  "('e) db_env_scheme \<Rightarrow> task \<Rightarrow> string \<Rightarrow> 's sys_scheme \<Rightarrow> 's sys_scheme" where
  "changeStatusAndPushToLogQueue env t newStatus s =
     (case push LogQueue t newStatus s of
        (Some _, s') \<Rightarrow> snd (on_db (updateLiveTaskDirectlyThroughDb env (t\<lparr>LogQueueFailed := True\<rparr>)) s')
      | (None, s') \<Rightarrow> s')"

subsection \<open>NotInQueueHandler\<close>

text \<open>Target queue, new status and task (with its start time) for one polled task.\<close>

definition niq_decide ::
  "('e) queue_env_scheme \<Rightarrow> task \<Rightarrow> 's sys_scheme
   \<Rightarrow> (queue_name \<times> string \<times> task) option \<times> 's sys_scheme" where
  "niq_decide env t s =
     (if LogQueueFailed t then
        (Some (LogQueue,
           (if contains (Status t) PendingInQueue then PendingNotInQueue
            else if contains (Status t) RunningInQueue then RunningNotInQueue
            else Status t), t), s)
      else if Status t = PendingNotInQueue then
        (let (maliciousFromClamd, err) = ScanFileThroughClamd env (files s) t in
         if maliciousFromClamd then (Some (LogQueue, ReportedThroughClamd, t), s)
         else
           let ((maliciousFromQuickScope, err'), files') =
                 ScanFileThroughQuickScope env (sys_db s) (files s) t;
               s1 = s\<lparr>files := files'\<rparr> in
           if maliciousFromQuickScope then (Some (LogQueue, ReportedThroughQuickScope, t), s1)
           else
             let (liveTaskCount, err'') = fetchLiveTaskCount env (sys_db s1);
                 s2 = s1\<lparr>max_sandbox_tasks := getMaxSandboxTasks env (max_sandbox_tasks s1)\<rparr> in
             if MAX_FREE_VMS \<le> liveTaskCount then (Some (LogQueue, Aborted, t), s2)
             else (Some (PendingQueue, PendingInQueue, t), s2))
      else if Status t = RunningNotInQueue then
        (Some (RunningQueue, RunningInQueue, t\<lparr>RunningStartedAt := now env\<rparr>), s)
      else (None, s))"

text \<open>The database update that follows a successful push.\<close>

datatype niq_update = ClearLogQueueFailed int | SetTaskStatus int string

definition niq_push ::
  "queue_name \<Rightarrow> string \<Rightarrow> task \<Rightarrow> 's sys_scheme \<Rightarrow> niq_update option \<times> 's sys_scheme" where
  "niq_push targetQueue newStatus t s =
     (case push targetQueue t newStatus s of
        (Some _, s') \<Rightarrow> (None, s')
      | (None, s') \<Rightarrow>
          (Some (if targetQueue = LogQueue then ClearLogQueueFailed (Id t)
                 else SetTaskStatus (Id t) newStatus), s'))"

fun niq_apply :: "('e) db_env_scheme \<Rightarrow> niq_update \<Rightarrow> 's sys_scheme \<Rightarrow> 's sys_scheme" where
  "niq_apply env (ClearLogQueueFailed i) s = snd (on_db (updateLogQueueFail env i False) s)"
| "niq_apply env (SetTaskStatus i st) s = snd (on_db (updateTaskStatus env i st) s)"

definition niq_enqueue ::
  "('e) queue_env_scheme \<Rightarrow> task \<Rightarrow> 's sys_scheme \<Rightarrow> niq_update option \<times> 's sys_scheme" where
  "niq_enqueue env t s =
     (case niq_decide env t s of
        (None, s') \<Rightarrow> (None, s')
      | (Some (q, st, t'), s') \<Rightarrow> niq_push q st t' s')"

definition NotInQueueHandler_task ::
  "('e) queue_env_scheme \<Rightarrow> task \<Rightarrow> 's sys_scheme \<Rightarrow> 's sys_scheme" where
  "NotInQueueHandler_task env t s =
     (case niq_enqueue env t s of
        (None, s') \<Rightarrow> s'
      | (Some u, s') \<Rightarrow> niq_apply env u s')"

text \<open>A loop over a batch; the \<open>k\<close>-th task sees the \<open>k\<close>-th environment.\<close>

primrec for_tasks ::
  "(nat \<Rightarrow> task \<Rightarrow> 's \<Rightarrow> 's) \<Rightarrow> nat \<Rightarrow> task list \<Rightarrow> 's \<Rightarrow> 's" where
  "for_tasks body k [] s = s"
| "for_tasks body k (t # ts) s = for_tasks body (Suc k) ts (body k t s)"

definition NotInQueueHandler_pass ::
  "(nat \<Rightarrow> ('e) queue_env_scheme) \<Rightarrow> 's sys_scheme \<Rightarrow> 's sys_scheme" where
  "NotInQueueHandler_pass envs s =
     (case fetchNotInQueueTasks (envs 0) (sys_db s) of
        Inl _ \<Rightarrow> s
      | Inr tasks \<Rightarrow> for_tasks (\<lambda>k. NotInQueueHandler_task (envs k)) 1 tasks s)"

subsection \<open>PendingQueueHandler\<close>

text \<open>The number of tasks the sandbox can take: \<open>None\<close> when the handler sleeps and retries.\<close>

definition pending_capacity :: "('e) sandbox_env_scheme \<Rightarrow> int option" where
  "pending_capacity env =
     (let freeVms = MAX_FREE_VMS; notReported = FetchSandboxTaskCountWhichAreNotReported env in
      if freeVms \<le> notReported then None
      else let freeVms' = freeVms - notReported in
        if freeVms' \<le> 0 then None else Some freeVms')"

definition pending_fetch ::
  "('e) queue_env_scheme \<Rightarrow> 's sys_scheme \<Rightarrow> task list \<times> 's sys_scheme" where
  "pending_fetch env s =
     (case pending_capacity env of
        None \<Rightarrow> ([], s)
      | Some freeVms \<Rightarrow>
          (let (tasks, queue) = fetchTasksFromQueue (pendingQ s) freeVms
           in (tasks, s\<lparr>pendingQ := queue\<rparr>)))"

text \<open>One fetched task: given up, or handed to a goroutine that sends it to the sandbox.\<close>

definition pending_gives_up :: "('e) queue_env_scheme \<Rightarrow> int \<Rightarrow> task \<Rightarrow> bool" where
  "pending_gives_up env timeout t \<longleftrightarrow>
     QUEUE_MAX_RETRIES \<le> QueueRetryCount t \<or> SubmittedTime t + timeout < now env"

definition PendingQueueHandler_task ::
  "('e) queue_env_scheme \<Rightarrow> int \<Rightarrow> task \<Rightarrow> 's sys_scheme \<Rightarrow> 's sys_scheme" where
  "PendingQueueHandler_task env timeout t s =
     (if pending_gives_up env timeout t
      then changeStatusAndPushToLogQueue env t Aborted s
      else spawn (GoSendToSandbox t) s)"

definition pending_timeout :: "('e) queue_env_scheme \<Rightarrow> int" where
  "pending_timeout env = minutes (getTimeOut env)"

definition PendingQueueHandler_pass ::
  "(nat \<Rightarrow> ('e) queue_env_scheme) \<Rightarrow> 's sys_scheme \<Rightarrow> 's sys_scheme" where
  "PendingQueueHandler_pass envs s =
     (let (tasks, s') = pending_fetch (envs 0) s in
      if tasks = [] then s'
      else for_tasks (\<lambda>k. PendingQueueHandler_task (envs k) (pending_timeout (envs 0))) 1 tasks s')"

text \<open>
  The goroutine. When the sandbox accepted the task it is pushed into the running queue
  first; the status change that follows is returned as the rest of the goroutine.
\<close>

definition send_failed ::
  "('e) db_env_scheme \<Rightarrow> task \<Rightarrow> 's sys_scheme \<Rightarrow> 's sys_scheme" where
  "send_failed env t s =
     (let t1 = t\<lparr>SandboxRetryCount := SandboxRetryCount t + 1\<rparr> in
      if SANDBOX_MAX_RETRIES \<le> SandboxRetryCount t1 then changeStatusAndPushToLogQueue env t1 Aborted s
      else
        case push PendingQueue t1 (Status t1) s of
          (None, s1) \<Rightarrow> s1
        | (Some _, s1) \<Rightarrow>
            let t2 = t1\<lparr>QueueRetryCount := QueueRetryCount t1 + 1\<rparr> in
            if QUEUE_MAX_RETRIES \<le> QueueRetryCount t2
            then changeStatusAndPushToLogQueue env t2 Aborted s1
            else
              case push LogQueue t2 PendingNotInQueue s1 of
                (None, s2) \<Rightarrow> s2
              | (Some _, s2) \<Rightarrow>
                  snd (on_db (updateLiveTaskDirectlyThroughDb env
                         (t2\<lparr>Status := PendingNotInQueue, LogQueueFailed := True\<rparr>)) s2))"

definition pending_goroutine ::
  "('e) queue_env_scheme \<Rightarrow> task \<Rightarrow> 's sys_scheme \<Rightarrow> (task \<times> string) option \<times> 's sys_scheme" where
  "pending_goroutine env t s =
     (let (sandboxId, err) = sendToSandbox env (files s) t in
      if err \<noteq> None \<or> sandboxId \<le> 0 then (None, send_failed env t s)
      else
        let t1 = t\<lparr>SandboxId := sandboxId, RunningStartedAt := now env\<rparr> in
        case push RunningQueue t1 (Status t1) s of
          (Some _, s1) \<Rightarrow> (Some (t1, RunningNotInQueue), s1)
        | (None, s1) \<Rightarrow> (Some (t1, RunningInQueue), s1))"

subsection \<open>RunningQueueHandler\<close>

text \<open>\<open>sandboxTaskMap\<close>: the last entry of an id wins.\<close>

fun build_map :: "sandbox list \<Rightarrow> (int \<Rightarrow> string option) \<Rightarrow> int \<Rightarrow> string option" where
  "build_map [] m = m"
| "build_map (t # ts) m = build_map ts (m(SandboxTaskId t \<mapsto> SandboxStatus t))"

definition running_fetch ::
  "('e) queue_env_scheme \<Rightarrow> 's sys_scheme
   \<Rightarrow> (task list \<times> (int \<Rightarrow> string option) \<times> int) \<times> 's sys_scheme" where
  "running_fetch env s =
     (case fetchAllTasksFromSandbox env of
        Inl _ \<Rightarrow> (([], Map.empty, 0), s)
      | Inr allSandboxTasks \<Rightarrow>
          (let sandboxTaskMap = build_map allSandboxTasks Map.empty;
               (tasks, queue) = fetchTasksFromQueue (runningQ s) (-1)
           in ((tasks, sandboxTaskMap, minutes (getTimeOut env)), s\<lparr>runningQ := queue\<rparr>)))"

definition RunningQueueHandler_task ::
  "('e) queue_env_scheme \<Rightarrow> (int \<Rightarrow> string option) \<Rightarrow> int \<Rightarrow> task \<Rightarrow> 's sys_scheme \<Rightarrow> 's sys_scheme" where
  "RunningQueueHandler_task env sandboxTaskMap timeout t s =
     (if RUNNING_MAX_RETRIES \<le> RunningRetryCount t then changeStatusAndPushToLogQueue env t Aborted s
      else
        case sandboxTaskMap (SandboxId t) of
          None \<Rightarrow>
            (let t1 = t\<lparr>RunningRetryCount := RunningRetryCount t + 1\<rparr>;
                 s1 = (if RUNNING_MAX_RETRIES \<le> RunningRetryCount t1
                       then changeStatusAndPushToLogQueue env t1 Aborted s else s)
             in changeStatusAndPushToLogQueue env t1 RunningNotInQueue s1)
        | Some sandboxStatus \<Rightarrow>
            if sandboxStatus = Reported then changeStatusAndPushToLogQueue env t Reported s
            else if sandboxStatus \<in> {Running, Completed, Pending} then
              (if timeout < time_sub (now env) (RunningStartedAt t)
               then changeStatusAndPushToLogQueue env t Aborted s
               else
                 case push RunningQueue t (Status t) s of
                   (Some _, s1) \<Rightarrow> changeStatusAndPushToLogQueue env t RunningNotInQueue s1
                 | (None, s1) \<Rightarrow> s1)
            else changeStatusAndPushToLogQueue env t Aborted s)"

definition RunningQueueHandler_pass ::
  "(nat \<Rightarrow> ('e) queue_env_scheme) \<Rightarrow> 's sys_scheme \<Rightarrow> 's sys_scheme" where
  "RunningQueueHandler_pass envs s =
     (let ((tasks, sandboxTaskMap, timeout), s') = running_fetch (envs 0) s
      in for_tasks (\<lambda>k. RunningQueueHandler_task (envs k) sandboxTaskMap timeout) 1 tasks s')"

subsection \<open>LogQueueHandler\<close>

definition scanner_score :: f32 where "scanner_score = F (7 / 2)"

text \<open>The finishing transaction of a task with a score, and the local files it removes.\<close>

definition finish_reported ::
  "('e) sandbox_env_scheme \<Rightarrow> task \<Rightarrow> f32 \<Rightarrow> 's sys_scheme \<Rightarrow> 's sys_scheme" where
  "finish_reported env t score s =
     (let (duplicates, dup_queries) = processDuplicateTasksForReported env t score (now env) (sys_db s);
          s1 = fold (\<lambda>i. spawn (GoDeleteLocalTask i)) duplicates s;
          queries = updateFOD (Id t) score (now env) # moveTaskToFinishedTable t False @ dup_queries;
          s2 = snd (on_db (gorm_exec env queries) s1)
      in SendAcknowledgementToClientIp env (Id t) s2)"

definition finish_aborted ::
  "('e) sandbox_env_scheme \<Rightarrow> task \<Rightarrow> 's sys_scheme \<Rightarrow> 's sys_scheme" where
  "finish_aborted env t s =
     (let queries = updateFOD (Id t) (F 0) (now env) # moveTaskToFinishedTable t True @
            processDuplicateTasksForAborted env t (sys_db s);
          s1 = snd (on_db (gorm_exec env queries) s)
      in SendAcknowledgementToClientIp env (Id t) s1)"

definition processLogQueueTasks ::
  "('e) sandbox_env_scheme \<Rightarrow> task \<Rightarrow> 's sys_scheme \<Rightarrow> 's sys_scheme" where
  "processLogQueueTasks env t s =
     (if Status t = SandboxApiTimeout then s
      else if Status t = Reported then
        (let (fetched, err) = fetchScoreFromSandBox env (SandboxId t);
             score = (if err \<noteq> None then F 0 else fetched)
         in spawn (GoDeleteLocalTask (Id t))
              (spawn (GoDeleteSandboxData (Id t) (SandboxId t)) (finish_reported env t score s)))
      else if Status t = Aborted then
        spawn (GoDeleteLocalTask (Id t)) (finish_aborted env t s)
      else if Status t = ReportedThroughClamd then
        spawn (GoDeleteLocalTask (Id t)) (finish_reported env t scanner_score s)
      else if Status t = ReportedThroughQuickScope then
        spawn (GoDeleteLocalTask (Id t)) (finish_reported env t scanner_score s)
      else snd (on_db (updateStatusChangeDirectlyThroughDb env t) s))"

definition LogQueueHandler_fetch :: "'s sys_scheme \<Rightarrow> task list \<times> 's sys_scheme" where
  "LogQueueHandler_fetch s =
     (let (tasks, queue) = fetchTasksFromQueue (logQ s) batchSize in (tasks, s\<lparr>logQ := queue\<rparr>))"

definition LogQueueHandler_pass ::
  "(nat \<Rightarrow> ('e) sandbox_env_scheme) \<Rightarrow> 's sys_scheme \<Rightarrow> 's sys_scheme" where
  "LogQueueHandler_pass envs s =
     (let (tasks, s') = LogQueueHandler_fetch s
      in for_tasks (\<lambda>k. processLogQueueTasks (envs k)) 1 tasks s')"

subsection \<open>Goroutines\<close>

fun run_goroutine ::
  "('e) queue_env_scheme \<Rightarrow> goroutine \<Rightarrow> 's sys_scheme \<Rightarrow> 's sys_scheme" where
  "run_goroutine env (GoSendToSandbox t) s =
     (case pending_goroutine env t s of
        (None, s') \<Rightarrow> s'
      | (Some (t', st), s') \<Rightarrow> spawn (GoPushStatus t' st) s')"
| "run_goroutine env (GoPushStatus t st) s = changeStatusAndPushToLogQueue env t st s"
| "run_goroutine env (GoDeleteSandboxData i sandboxId) s = snd (deleteSandboxData env sandboxId s)"
| "run_goroutine env (GoDeleteLocalTask i) s = deleteLocalTask env i s"

end
