(* ===== verification/Submission.thy ===== *)
theory Submission
  imports Sandbox_Api
begin

text \<open>
  Uploads: \<open>CreateFileOnDemand\<close> and \<open>checkIfHashAlreadyPresent\<close> of
  \<open>service/fileOnDemand.go\<close>, \<open>ValidateContentTypeOfFile\<close> (\<open>util/utils.go\<close>) with the table
  \<open>FileExt\<close> (\<open>extras/enum.go\<close>), and \<open>service/urlOnDemand.go\<close>. The hash functions, the
  \<open>filetype\<close> package, \<open>url.Parse\<close>, the random numbers and the results of the file
  operations are parameters. A run-time panic is the value \<open>Panic\<close>.
\<close>

subsection \<open>File types\<close>

record scan_profile =
  PdfFile :: bool
  OfficeFile :: bool
  ExeFile :: bool
  FlashFile :: bool
  WebFile :: bool
  CompressedArchieve :: bool
  AudioFile :: bool
  VideoFile :: bool
  TextFile :: bool
  ScriptFile :: bool
  UserAuthenticationKey :: string

definition FileExt :: "(string \<times> string list) list" where
  "FileExt =
     [(''PdfFile'', [''.pdf'']),
      (''OfficeFile'', [''.docx'', ''.doc'', ''.docm'', ''.dot'', ''.dotm'', ''.dotx'', ''.htm'',
         ''.html'', ''.mht'', ''.mhtml'', ''.odt'', ''.xls'', ''.xlt'', ''.xlsx'', ''.xlsm'',
         ''.xltx'', ''.xltm'', ''.xlsb'', ''.xla'', ''.xlam'', ''.ppt'', ''.pot'', ''.pps'',
         ''.ppa'', ''.pptx'', ''.pptm'', ''.potx'', ''.potm'', ''.ppam'', ''.ppsx'', ''.ppsm'']),
      (''ExeFile'', [''.exe'', ''.bat'', ''.com'', ''.o'', ''.dll'', ''.gnt'', ''.int'']),
      (''FlashFile'', [''.swf'']),
      (''WebFile'', [''.png'', ''.jpg'', ''.jpeg'', ''.gif'', ''.svg'', ''.webp'']),
      (''CompressedArchieve'', [''.zip'', ''.rar'', ''.tar'', ''.gz'', ''.7z'']),
      (''AudioFile'', [''.mp3'', ''.wav'']),
      (''VideoFile'', [''.mp4'', ''.mkv'']),
      (''TextFile'', [''.txt'', ''.md'', ''.yaml'', ''.yml'', ''.json'', ''.xml'', ''.csv'', ''.log'']),
      (''ScriptFile'', [''.sh'', ''.py'', ''.js'', ''.go'', ''.c'', ''.cpp'', ''.java'', ''.php'', ''.rb''])]"

text \<open>The boolean fields of the profile by name, in the order reflection sees them.\<close>

definition profile_fields :: "scan_profile \<Rightarrow> (string \<times> bool) list" where
  "profile_fields p =
     [(''PdfFile'', PdfFile p), (''OfficeFile'', OfficeFile p), (''ExeFile'', ExeFile p),
      (''FlashFile'', FlashFile p), (''WebFile'', WebFile p),
      (''CompressedArchieve'', CompressedArchieve p), (''AudioFile'', AudioFile p),
      (''VideoFile'', VideoFile p), (''TextFile'', TextFile p), (''ScriptFile'', ScriptFile p)]"

definition ext_list :: "string \<Rightarrow> string list" where
  "ext_list name = (case map_of FileExt name of None \<Rightarrow> [] | Some xs \<Rightarrow> xs)"

fun type_loop :: "string \<Rightarrow> string \<Rightarrow> (string \<times> bool) list \<Rightarrow> bool" where
  "type_loop ext ext1 [] = False"
| "type_loop ext ext1 ((name, enabled) # rest) =
     (if enabled \<and> (ext \<in> set (ext_list name) \<or> ext1 \<in> set (ext_list name)) then True
      else type_loop ext ext1 rest)"

text \<open>
  An uploaded part: name, size, declared type, whether it opens, and what successive reads
  return (an empty read is the end of the file).
\<close>

record multipart_file =
  mf_filename :: string
  mf_size :: int
  mf_content_type :: string
  mf_open_error :: "go_error option"
  mf_reads :: "(go_error + string) list"

fun read_prefix :: "(go_error + string) list \<Rightarrow> string" where
  "read_prefix [] = []"
| "read_prefix (Inl e # rs) = []"
| "read_prefix (Inr c # rs) = (if c = [] then [] else c @ read_prefix rs)"

definition ErrInvalidContentType :: go_error where "ErrInvalidContentType = Err ''invalid content type''"
definition ErrNoRecordForScanProfile :: go_error where
  "ErrNoRecordForScanProfile = Err ''no record match for scan profiles''"
definition ErrFileTooLarge :: go_error where "ErrFileTooLarge = Err ''file too large''"
definition ErrRequiredFieldEmpty :: go_error where "ErrRequiredFieldEmpty = Err ''required field is empty''"
definition ErrFileNotFound :: go_error where "ErrFileNotFound = Err ''file not found''"

record submit_env = sandbox_env +
  kind_result :: "string \<Rightarrow> string option"
  cuckoo_conf :: "string list option"
  mkdir_error :: "go_error option"
  create_error :: "go_error option"
  write_error :: "go_error option"
  md5_hex :: "string \<Rightarrow> string"
  sha1_hex :: "string \<Rightarrow> string"
  sha256_hex :: "string \<Rightarrow> string"
  row_pick :: "db \<Rightarrow> sel \<Rightarrow> nat"

definition ValidateContentType :: "('e) submit_env_scheme \<Rightarrow> string \<Rightarrow> string" where
  "ValidateContentType env bytes =
     (case kind_result env bytes of None \<Rightarrow> ''unknown'' | Some ext \<Rightarrow> ext)"

definition ValidateContentTypeOfFile ::
  "('e) submit_env_scheme \<Rightarrow> multipart_file \<Rightarrow> scan_profile \<Rightarrow> go_error option" where
  "ValidateContentTypeOfFile env f p =
     (case mf_open_error f of
        Some e \<Rightarrow> Some e
      | None \<Rightarrow>
          (let ext = filepath_ext (mf_filename f);
               ext1 = ValidateContentType env (read_prefix (mf_reads f))
           in if type_loop ext ext1 (profile_fields p) then None else Some ErrInvalidContentType))"

subsection \<open>The size limit\<close>

fun conf_limit :: "string list \<Rightarrow> int \<Rightarrow> int" where
  "conf_limit [] limit = limit"
| "conf_limit (line # ls) limit =
     (if contains line ''upload_max_size'' then
        (case split_on (CHR ''='') line of
           p # v # ps \<Rightarrow> (case atoi (trim_space v) of None \<Rightarrow> limit | Some n \<Rightarrow> n)
         | _ \<Rightarrow> conf_limit ls limit)
      else conf_limit ls limit)"

definition read_size_limit :: "string list option \<Rightarrow> int \<Rightarrow> int" where
  "read_size_limit conf limit = (case conf of None \<Rightarrow> limit | Some ls \<Rightarrow> conf_limit ls limit)"

subsection \<open>Files that were seen before\<close>

definition upload_message :: "file_on_demand \<Rightarrow> string" where
  "upload_message fod =
     (if fod_from_device fod then show_int (fod_id fod)
      else ''File: '' @ fod_file_name fod @ '' successfully uploaded'')"

text \<open>Verdict, rating and score of a matching row; which one the query returns is not fixed.\<close>

definition matching_fods :: "db \<Rightarrow> string \<Rightarrow> string \<Rightarrow> string \<Rightarrow> file_on_demand list" where
  "matching_fods d m s s2 = filter (fod_hash_match d m s s2) (fods d)"

definition verdict_and_rating ::
  "('e) submit_env_scheme \<Rightarrow> db \<Rightarrow> string \<Rightarrow> string \<Rightarrow> string \<Rightarrow> go_error + string \<times> string \<times> f32" where
  "verdict_and_rating env d m s s2 =
     (let rows = matching_fods d m s s2;
          k = row_pick env d (SelVerdictRating m s s2) mod length rows in
      run_select env (SelVerdictRating m s s2) d
        (if rows = [] then ([], [], F 0)
         else (let f = rows ! k in (fod_final_verdict f, fod_rating f, fod_score f))))"

text \<open>The verdict taken over, with the fallback for a missing verdict or rating.\<close>

definition inherited_verdict ::
  "('e) submit_env_scheme \<Rightarrow> db \<Rightarrow> string \<Rightarrow> string \<Rightarrow> string \<Rightarrow> string \<times> string \<times> f32
   \<Rightarrow> string \<times> string \<times> f32" where
  "inherited_verdict env d m s s2 fallback =
     (case verdict_and_rating env d m s s2 of
        Inl _ \<Rightarrow> fallback
      | Inr (v, r, sc) \<Rightarrow> if r = [] \<or> v = [] then fallback else (v, r, sc))"

definition previously_scanned ::
  "('e) submit_env_scheme \<Rightarrow> file_on_demand \<Rightarrow> string \<Rightarrow> string \<times> string \<times> f32 \<Rightarrow> file_on_demand" where
  "previously_scanned env fod ip vrs =
     (let (v, r, sc) = vrs;
          fod1 = fod\<lparr>fod_status := PREVIOUSLY_SCANNED_FILE, fod_finished_time := Some (now env),
                     fod_rating := r, fod_final_verdict := v, fod_score := sc\<rparr>
      in if fod_from_device fod then fod1\<lparr>fod_client_ip := ip\<rparr> else fod1)"

definition insert_previous ::
  "('e) submit_env_scheme \<Rightarrow> file_on_demand \<Rightarrow> db \<Rightarrow> string api_response \<times> db" where
  "insert_previous env fod d =
     (case gorm_exec env [InsertFod fod] d of
        (Some e, d') \<Rightarrow> (NewErrorResponse StatusBadRequest ''Error from server side'' e, d')
      | (None, d') \<Rightarrow> (NewSuccessResponse ''Success'' (Some (upload_message fod)), d'))"

definition clean_fallback :: "string \<times> string \<times> f32" where
  "clean_fallback = (ALLOW, verdict_string Clean, F 0)"
definition malware_fallback :: "string \<times> string \<times> f32" where
  "malware_fallback = (BLOCK, verdict_string Critical, F 7)"

definition server_error :: "go_error \<Rightarrow> string api_response" where
  "server_error e = NewErrorResponse StatusBadRequest ''Error from server side'' e"
definition client_error :: "go_error \<Rightarrow> string api_response" where
  "client_error e = NewErrorResponse StatusBadRequest ''Error from client side'' e"

definition checkIfHashAlreadyPresent ::
  "('e) submit_env_scheme \<Rightarrow> file_on_demand \<Rightarrow> string \<Rightarrow> string \<Rightarrow> string \<Rightarrow> string \<Rightarrow> db
   \<Rightarrow> string api_response \<times> db" where
  "checkIfHashAlreadyPresent env fod md5 sha1 sha256 ip d =
     (case IsCleanHashFromDb env d md5 sha1 sha256 of
        Inl e \<Rightarrow> (server_error e, d)
      | Inr isClean \<Rightarrow>
          if isClean then
            insert_previous env
              (previously_scanned env fod ip (inherited_verdict env d md5 sha1 sha256 clean_fallback)) d
          else
            (case IsMalwareHashFromDb env d md5 sha1 sha256 of
               Inl e \<Rightarrow> (server_error e, d)
             | Inr isMalware \<Rightarrow>
                 if isMalware then
                   insert_previous env
                     (previously_scanned env fod ip
                        (inherited_verdict env d md5 sha1 sha256 malware_fallback)) d
                 else (NewErrorResponse StatusBadRequest ''file not found'' ErrFileNotFound, d)))"

subsection \<open>CreateFileOnDemand\<close>

record upload_form =
  form_files :: "(string \<times> multipart_file list) list"
  form_comments :: "string list"

text \<open>The comment that is stored: an absent one and \<open>undefined\<close> become empty.\<close>

definition form_comment :: "upload_form \<Rightarrow> string" where
  "form_comment form =
     (case form_comments form of
        [] \<Rightarrow> []
      | c # cs \<Rightarrow> if c = ''undefined'' then [] else c)"

text \<open>The copy loop: what was written when it stops, and the error if there is one.\<close>

fun copy_loop :: "go_error option \<Rightarrow> (go_error + string) list \<Rightarrow> string \<Rightarrow> go_error option \<times> string" where
  "copy_loop werr [] out = (None, out)"
| "copy_loop werr (Inl e # rs) out = (Some e, out)"
| "copy_loop werr (Inr c # rs) out =
     (if c = [] then (None, out)
      else case werr of Some e \<Rightarrow> (Some e, out) | None \<Rightarrow> copy_loop werr rs (out @ c))"

definition last_fod_id :: "db \<Rightarrow> int" where
  "last_fod_id d = (case map fod_id (fods d) of [] \<Rightarrow> 0 | i # is \<Rightarrow> fold max is i)"

definition new_fod ::
  "('e) submit_env_scheme \<Rightarrow> int \<Rightarrow> multipart_file \<Rightarrow> string \<Rightarrow> string \<Rightarrow> file_on_demand" where
  "new_fod env i f adminName comment =
     zero_fod\<lparr>fod_id := i, fod_file_name := mf_filename f, fod_submitted_time := now env,
       fod_submitted_by := adminName, fod_comments := comment,
       fod_content_type := mf_content_type f, fod_file_count := 1,
       fod_from_device := (adminName = ''DEVICE'')\<rparr>"

definition new_live_row :: "file_on_demand \<Rightarrow> live_row" where
  "new_live_row f =
     \<lparr>live_id = fod_id f, live_status_col = PendingNotInQueue, live_sandbox_id = 0,
      live_queue_retry = 0, live_running_retry = 0, live_sandbox_retry = 0,
      live_log_queue_failed = False, live_md5 = Some (fod_md5 f), live_sha = Some (fod_sha f),
      live_sha256 = Some (fod_sha256 f)\<rparr>"

definition new_duplicate_row :: "file_on_demand \<Rightarrow> duplicate_row" where
  "new_duplicate_row f =
     \<lparr>dup_id = fod_id f, dup_md5 = fod_md5 f, dup_sha = fod_sha f, dup_sha256 = fod_sha256 f\<rparr>"

definition live_hash_count :: "db \<Rightarrow> string \<Rightarrow> string \<Rightarrow> string \<Rightarrow> int" where
  "live_hash_count d m s s2 = int (length (filter (live_hash_match d m s s2) (lives d)))"

text \<open>The transaction of a file that was not seen: a live row, or a duplicate of a live one.\<close>

definition submission_stmts :: "file_on_demand \<Rightarrow> string \<Rightarrow> int \<Rightarrow> stmt list" where
  "submission_stmts fod ip count =
     (let row = (if fod_from_device fod then fod\<lparr>fod_client_ip := ip\<rparr> else fod)
      in [InsertFod row,
          if count \<le> 0 then InsertLive (new_live_row fod) else InsertDuplicate (new_duplicate_row fod)])"

definition register_file ::
  "('e) submit_env_scheme \<Rightarrow> file_on_demand \<Rightarrow> string \<Rightarrow> 's sys_scheme
   \<Rightarrow> string api_response \<times> 's sys_scheme" where
  "register_file env fod ip s =
     (case checkIfHashAlreadyPresent env fod (fod_md5 fod) (fod_sha fod) (fod_sha256 fod) ip (sys_db s) of
        (resp, d) \<Rightarrow>
          let s1 = s\<lparr>sys_db := d\<rparr> in
          if resp_status resp = StatusOK then (resp, spawn (GoDeleteLocalTask (fod_id fod)) s1)
          else
            (case run_select env (SelLiveHashCount (fod_md5 fod) (fod_sha fod) (fod_sha256 fod)) d
                (live_hash_count d (fod_md5 fod) (fod_sha fod) (fod_sha256 fod)) of
               Inl e \<Rightarrow> (server_error e, s1)
             | Inr count \<Rightarrow>
                 (case gorm_exec env (submission_stmts fod ip count) d of
                    (Some e, d') \<Rightarrow> (server_error e, s\<lparr>sys_db := d'\<rparr>)
                  | (None, d') \<Rightarrow>
                      (NewSuccessResponse ''Success'' (Some (upload_message fod)), s\<lparr>sys_db := d'\<rparr>))))"

text \<open>From the choice of the id to the stored copy: the new row, or an error response.\<close>

definition store_upload ::
  "('e) submit_env_scheme \<Rightarrow> upload_form \<Rightarrow> multipart_file \<Rightarrow> string \<Rightarrow> 's sys_scheme
   \<Rightarrow> (string api_response + file_on_demand) \<times> 's sys_scheme" where
  "store_upload env form f adminName s =
     (case run_select env SelLastFodId (sys_db s) (last_fod_id (sys_db s)) of
        Inl e \<Rightarrow> (Inl (server_error e), s)
      | Inr lastId \<Rightarrow>
          let fodId = lastId + 1; fod = new_fod env fodId f adminName (form_comment form) in
          case mkdir_error env of
            Some e \<Rightarrow> (Inl (server_error e), s)
          | None \<Rightarrow>
              (case mf_open_error f of
                 Some e \<Rightarrow> (Inl (client_error e), s)
               | None \<Rightarrow>
                   (case create_error env of
                      Some e \<Rightarrow> (Inl (client_error e), s)
                    | None \<Rightarrow>
                        (case copy_loop (write_error env) (mf_reads f) [] of
                           (Some e, out) \<Rightarrow>
                             (Inl (client_error e), s\<lparr>files := (files s)(fodId \<mapsto> out)\<rparr>)
                         | (None, out) \<Rightarrow>
                             (Inr (fod\<lparr>fod_md5 := md5_hex env out, fod_sha := sha1_hex env out,
                                       fod_sha256 := sha256_hex env out\<rparr>),
                              s\<lparr>files := (files s)(fodId \<mapsto> out)\<rparr>)))))"

definition CreateFileOnDemand ::
  "('e) submit_env_scheme \<Rightarrow> (go_error + scan_profile list) \<Rightarrow> upload_form \<Rightarrow> string \<Rightarrow> string
   \<Rightarrow> 's sys_scheme \<Rightarrow> (go_error + string api_response) \<times> 's sys_scheme" where
  "CreateFileOnDemand env scanProfile form adminName ip s =
     (if form_files form = [] then
        (Inr (NewErrorResponse StatusBadRequest ''Required field empty'' ErrRequiredFieldEmpty), s)
      else
        let limit = read_size_limit (cuckoo_conf env) (max_allowed_file_size s);
            s0 = s\<lparr>max_allowed_file_size := limit\<rparr> in
        case map_of (form_files form) ''filename'' of
          None \<Rightarrow> (Inl (Panic ''index out of range''), s0)
        | Some [] \<Rightarrow> (Inl (Panic ''index out of range''), s0)
        | Some (f # fs) \<Rightarrow>
            if limit < mf_size f then
              (Inr (NewErrorResponse StatusBadRequest ''File too large'' ErrFileTooLarge), s0)
            else
              (case scanProfile of
                 Inl e \<Rightarrow>
                   (Inr (NewErrorResponse StatusBadRequest
                      (if e = ErrNoRecordForScanProfile then ''Record not found''
                       else ''Error while fetching data'') e), s0)
               | Inr [] \<Rightarrow> (Inl (Panic ''index out of range''), s0)
               | Inr (p # ps) \<Rightarrow>
                   (case ValidateContentTypeOfFile env f p of
                      Some e \<Rightarrow>
                        (Inr (NewErrorResponse StatusBadRequest
                           (if e = ErrInvalidContentType then ''invalid content type''
                            else ''Error from server side'') e), s0)
                    | None \<Rightarrow>
                        (case store_upload env form f adminName s0 of
                           (Inl resp, s1) \<Rightarrow> (Inr resp, s1)
                         | (Inr fod, s1) \<Rightarrow>
                             (let (resp, s2) = register_file env fod ip s1 in (Inr resp, s2))))))"

subsection \<open>Urls\<close>

record url_env = db_env +
  url_now :: int
  url_parse :: "string \<Rightarrow> go_error + string \<times> string"
  rand_delay :: int
  rand_rating :: nat
  malicious_csv :: "string list list option"

text \<open>\<open>field[0]\<close>: the reader returns no empty record.\<close>

definition FetchUrlsFromFile :: "string list list option \<Rightarrow> string list" where
  "FetchUrlsFromFile csv =
     (case csv of
        None \<Rightarrow> []
      | Some rows \<Rightarrow> map (\<lambda>row. case row of [] \<Rightarrow> [] | c # cs \<Rightarrow> c) rows)"

fun maliciousUrlContains :: "string list \<Rightarrow> string \<Rightarrow> bool" where
  "maliciousUrlContains [] url = False"
| "maliciousUrlContains (m # ms) url = (if contains url m then True else maliciousUrlContains ms url)"

definition url_ratings :: "verdict list" where
  "url_ratings = [Critical, HighRisk, MediumRisk, LowRisk, Clean]"

definition url_verdict :: "string list \<Rightarrow> nat \<Rightarrow> string \<Rightarrow> string \<times> string" where
  "url_verdict malicious k url =
     (if maliciousUrlContains malicious url
      then (verdict_string (url_ratings ! (k mod 5)), BLOCK)
      else (verdict_string Clean, ALLOW))"

definition CreateUrlOnDemand ::
  "('e) url_env_scheme \<Rightarrow> string \<Rightarrow> string \<Rightarrow> string \<Rightarrow> string \<Rightarrow> db \<Rightarrow> string api_response \<times> db" where
  "CreateUrlOnDemand env urlName comments adminName organizationKey d =
     (if urlName = [] then
        (NewErrorResponse StatusBadRequest ''Required field empty'' ErrRequiredFieldEmpty, d)
      else
        case url_parse env urlName of
          Inl e \<Rightarrow> (NewErrorResponse StatusBadRequest ''error while parsing URL'' e, d)
        | Inr (scheme, host) \<Rightarrow>
            if scheme = [] \<or> host = [] then
              (NewErrorResponse StatusBadRequest ''invalid URL found''
                 (Err ''url not found or invalid url format''), d)
            else
              let fromDevice = (adminName = ''DEVICE'' \<and> organizationKey = []);
                  randomNumber = rand_delay env mod 3 + 1;
                  (rating, final_verdict) =
                    url_verdict (FetchUrlsFromFile (malicious_csv env)) (rand_rating env) urlName;
                  uod = \<lparr>uod_id = 0, uod_url_name = urlName, uod_submitted_time = url_now env,
                     uod_finished_time = Some (url_now env + randomNumber * go_second),
                     uod_submitted_by = adminName, uod_url_count = 1, uod_rating = rating,
                     uod_final_verdict = final_verdict, uod_status = Reported,
                     uod_comments = comments, uod_from_device = fromDevice,
                     uod_overridden_verdict = False, uod_overridden_by = [],
                     uod_os_supported = []\<rparr>
              in (case gorm_exec env [InsertUod uod] d of
                    (Some e, d') \<Rightarrow> (server_error e, d')
                  | (None, d') \<Rightarrow>
                      (NewSuccessResponse ''Success''
                         (Some (if fromDevice then show_int (uod_id uod)
                                else ''Url: '' @ urlName @ '' successfully uploaded'')), d')))"

end
