(* ===== verification/Session_Audit.thy ===== *)
theory Session_Audit
  imports Go_Prelude
begin

text \<open>
  The current user of a request (\<open>GetCurUsr\<close> of \<open>service/authenticate.go\<close>) and the audit
  table (\<open>service/audit_logs.go\<close>). A session is what \<open>auth.Store.Get\<close> returns: an error or
  the string values of the session by key.
\<close>

type_synonym session = "go_error + (string \<Rightarrow> string option)"

definition ErrUnauthorizedUser :: go_error where
  "ErrUnauthorizedUser = Err ''unauthorized user: Access to this resource is restricted''"

definition session_error :: "go_error \<Rightarrow> 'd api_response" where
  "session_error e = NewErrorResponse StatusBadRequest ''Session invalid'' e"

definition GetCurUsr :: "session \<Rightarrow> string \<times> 'd api_response" where
  "GetCurUsr session =
     (case session of
        Inl err \<Rightarrow> ([], session_error err)
      | Inr values \<Rightarrow>
          (case values ''admin_name'' of
             None \<Rightarrow> ([], session_error ErrUnauthorizedUser)
           | Some name \<Rightarrow> (name, NewSuccessResponse ''Success'' None)))"

lemma GetCurUsr_ok: "resp_status (snd (GetCurUsr session :: string \<times> 'd api_response)) = StatusOK \<longleftrightarrow>
   (\<exists>values name. session = Inr values \<and> values ''admin_name'' = Some name \<and>
      fst (GetCurUsr session :: string \<times> 'd api_response) = name)"
  by (auto simp: GetCurUsr_def session_error_def split: sum.splits option.splits)

record audit_row =
  AdminName :: string
  Message :: string
  AuditType :: string
  TimeStamp :: int

text \<open>A failing request is recorded with its error message instead of the given one.\<close>

definition CreateAuditLogs ::
  "bool \<Rightarrow> int \<Rightarrow> 'd api_response \<Rightarrow> string \<Rightarrow> string \<Rightarrow> string \<Rightarrow> audit_row list
   \<Rightarrow> go_error option \<times> audit_row list" where
  "CreateAuditLogs create_ok time resp message auditType adminName table =
     (let message' = (if resp_status resp \<noteq> StatusOK then resp_message resp else message);
          auditLog = \<lparr>AdminName = adminName, Message = message', AuditType = auditType,
                      TimeStamp = time\<rparr>
      in if create_ok then (None, table @ [auditLog])
         else (Some (Err ''database error''), table))"

end
