(* ===== verification/Override.thy ===== *)
theory Override
  imports Submission Session_Audit
begin

text \<open>
  \<open>service/overrideVerdict.go\<close> and its controller: an administrator replaces the final
  verdict of an analysed file (of every file with one of its hashes) or url, and lists the
  overridden verdicts. Every request to the controller leaves an audit record.
\<close>

record override_request =
  req_type :: string
  req_job_id :: int
  req_verdict :: string
  req_comment :: string

definition ErrReportNotGenerated :: go_error where
  "ErrReportNotGenerated = Err ''report not generated yet''"
definition ErrInvalidVerdict :: go_error where "ErrInvalidVerdict = Err ''invalid action''"
definition ErrAlreadyOverridden :: go_error where
  "ErrAlreadyOverridden = Err ''already overridden the final verdict''"
definition ErrInvalidTypeInOverride :: go_error where
  "ErrInvalidTypeInOverride = Err ''invalid type in override''"

type_synonym text_response = "string api_response"

definition override_success :: text_response where
  "override_success =
     NewSuccessResponse ''Success'' (Some ''Successfully overridden the final verdict'')"

text \<open>The checks and the update that files and urls share, after the row was read.\<close>

definition override_checked ::
  "string \<Rightarrow> string \<Rightarrow> string \<Rightarrow> (string \<Rightarrow> db \<Rightarrow> go_error option \<times> db) \<Rightarrow> db \<Rightarrow> text_response \<times> db" where
  "override_checked rating final_verdict verdict update d =
     (if rating = [] then
        (NewErrorResponse StatusBadRequest ''still analysing the file'' ErrReportNotGenerated, d)
      else
        let verdictReq = to_lower (trim_space verdict) in
        if verdictReq \<noteq> ALLOW \<and> verdictReq \<noteq> BLOCK then
          (NewErrorResponse StatusBadRequest ''invalid action (only allow or block is allowed)''
             ErrInvalidVerdict, d)
        else if final_verdict \<noteq> verdictReq then
          (case update verdictReq d of
             (Some e, d') \<Rightarrow> (NewErrorResponse StatusBadRequest ''Error while saving data'' e, d')
           | (None, d') \<Rightarrow> (override_success, d'))
        else
          (NewErrorResponse StatusBadRequest ''already overridden the final verdict''
             ErrAlreadyOverridden, d))"

text \<open>A failing query is only logged here: the zero row has no rating.\<close>

definition overrideFileVerdict ::
  "('e) db_env_scheme \<Rightarrow> override_request \<Rightarrow> string \<Rightarrow> db \<Rightarrow> text_response \<times> db" where
  "overrideFileVerdict env req updateBy d =
     (let fod = fod_or_zero (select_fod env d (req_job_id req))
      in override_checked (fod_rating fod) (fod_final_verdict fod) (req_verdict req)
           (\<lambda>v. gorm_exec env [OverrideFod v updateBy (fod_md5 fod) (fod_sha fod) (fod_sha256 fod)]) d)"

definition zero_uod :: url_on_demand where
  "zero_uod = \<lparr>uod_id = 0, uod_url_name = [], uod_submitted_time = zero_time,
     uod_finished_time = None, uod_submitted_by = [], uod_url_count = 0, uod_rating = [],
     uod_final_verdict = [], uod_status = [], uod_comments = [], uod_from_device = False,
     uod_overridden_verdict = False, uod_overridden_by = [], uod_os_supported = []\<rparr>"

definition select_uod :: "('e) db_env_scheme \<Rightarrow> db \<Rightarrow> int \<Rightarrow> go_error + url_on_demand" where
  "select_uod env d i =
     run_select env (SelUod i) d
       (case find (\<lambda>u. uod_id u = i) (uods d) of None \<Rightarrow> zero_uod | Some u \<Rightarrow> u)"

definition overrideUrlVerdict ::
  "('e) db_env_scheme \<Rightarrow> override_request \<Rightarrow> string \<Rightarrow> db \<Rightarrow> text_response \<times> db" where
  "overrideUrlVerdict env req updateBy d =
     (case select_uod env d (req_job_id req) of
        Inl e \<Rightarrow> (NewErrorResponse StatusBadRequest ''Error while fetching data'' e, d)
      | Inr uod \<Rightarrow>
          override_checked (uod_rating uod) (uod_final_verdict uod) (req_verdict req)
            (\<lambda>v. gorm_exec env [OverrideUod v updateBy (uod_url_name uod)]) d)"

definition OverrideVerdict ::
  "('e) db_env_scheme \<Rightarrow> session \<Rightarrow> override_request \<Rightarrow> db \<Rightarrow> text_response \<times> db" where
  "OverrideVerdict env session req d =
     (let (curUsr, usrResp) = GetCurUsr session in
      if resp_status usrResp \<noteq> StatusOK then (usrResp, d)
      else
        let kind = to_lower (req_type req) in
        if kind = ''file'' then
          (let (resp, d') = overrideFileVerdict env req curUsr d in
           if resp_status resp \<noteq> StatusOK then (resp, d') else (override_success, d'))
        else if kind = ''url'' then
          (let (resp, d') = overrideUrlVerdict env req curUsr d in
           if resp_status resp \<noteq> StatusOK then (resp, d') else (override_success, d'))
        else
          (NewErrorResponse StatusBadRequest
             ''invalid type in override (only file or url is allowed)'' ErrInvalidTypeInOverride, d))"

text \<open>
  The controller. The name for the audit record is read before the handler runs: a session
  that does not open or has no name panics there.
\<close>

definition OverrideVerdict_handler ::
  "('e) db_env_scheme \<Rightarrow> bool \<Rightarrow> int \<Rightarrow> (go_error + override_request) \<Rightarrow> session
   \<Rightarrow> db \<times> audit_row list \<Rightarrow> (go_error + text_response) \<times> db \<times> audit_row list" where
  "OverrideVerdict_handler env audit_ok time body session st =
     (case body of
        Inl e \<Rightarrow> (Inr (client_error e), st)
      | Inr req \<Rightarrow>
          (case session of
             Inl _ \<Rightarrow> (Inl (Panic ''interface conversion''), st)
           | Inr values \<Rightarrow>
               (case values ''admin_name'' of
                  None \<Rightarrow> (Inl (Panic ''interface conversion''), st)
                | Some name \<Rightarrow>
                    (let (resp, d) = OverrideVerdict env session req (fst st);
                         (_, table) = CreateAuditLogs audit_ok time resp
                            (''Changed the verdict to '' @ req_verdict req) ''OVERRIDE VERDICT''
                            name (snd st)
                     in (Inr resp, d, table)))))"

subsection \<open>The log of overridden verdicts\<close>

record overridden_verdict =
  JobID :: string
  Filename :: string
  URL :: string
  SubmittedBy :: string
  SubmittedTimeText :: string
  OriginalVerdict :: string
  FinalVerdict :: string
  UpdatedBy :: string

definition file_entry :: "(int \<Rightarrow> string) \<Rightarrow> file_on_demand \<Rightarrow> overridden_verdict" where
  "file_entry show_time fod =
     \<lparr>JobID = show_int (fod_id fod), Filename = fod_file_name fod, URL = [],
      SubmittedBy = fod_submitted_by fod, SubmittedTimeText = show_time (fod_submitted_time fod),
      OriginalVerdict = verdict_string (GetVerdict (fod_score fod)),
      FinalVerdict = fod_final_verdict fod, UpdatedBy = fod_overridden_by fod\<rparr>"

definition url_entry :: "(int \<Rightarrow> string) \<Rightarrow> url_on_demand \<Rightarrow> overridden_verdict" where
  "url_entry show_time uod =
     \<lparr>JobID = show_int (uod_id uod), Filename = [], URL = uod_url_name uod,
      SubmittedBy = uod_submitted_by uod, SubmittedTimeText = show_time (uod_submitted_time uod),
      OriginalVerdict = [], FinalVerdict = uod_final_verdict uod,
      UpdatedBy = uod_overridden_by uod\<rparr>"

text \<open>Go's order on strings: bytewise lexicographic.\<close>

fun str_less :: "string \<Rightarrow> string \<Rightarrow> bool" where
  "str_less _ [] = False"
| "str_less [] (c # s) = True"
| "str_less (a # s) (b # t) =
     ((of_char a :: nat) < of_char b \<or> (a = b \<and> str_less s t))"

text \<open>
  \<open>sort.Slice\<close> with a comparison \<open>before\<close>. The order of elements that compare equal is not
  specified by Go; the model keeps them in place.
\<close>

fun insert_sorted :: "('a \<Rightarrow> 'a \<Rightarrow> bool) \<Rightarrow> 'a \<Rightarrow> 'a list \<Rightarrow> 'a list" where
  "insert_sorted before x [] = [x]"
| "insert_sorted before x (y # ys) =
     (if before y x then y # insert_sorted before x ys else x # y # ys)"

definition sort_slice :: "('a \<Rightarrow> 'a \<Rightarrow> bool) \<Rightarrow> 'a list \<Rightarrow> 'a list" where
  "sort_slice before xs = foldr (insert_sorted before) xs []"

definition GetOverriddenVerdictLogs ::
  "('e) db_env_scheme \<Rightarrow> (int \<Rightarrow> string) \<Rightarrow> session \<Rightarrow> db \<Rightarrow> overridden_verdict list api_response" where
  "GetOverriddenVerdictLogs env show_time session d =
     (case session of
        Inl err \<Rightarrow> session_error err
      | Inr values \<Rightarrow>
          if values ''admin_name'' = None then session_error ErrUnauthorizedUser
          else
            (case run_select env SelOverriddenFods d (filter fod_overridden_verdict (fods d)) of
               Inl e \<Rightarrow> NewErrorResponse StatusBadRequest ''Error while fetching data'' e
             | Inr fs \<Rightarrow>
                 (case run_select env SelOverriddenUods d (filter uod_overridden_verdict (uods d)) of
                    Inl e \<Rightarrow> NewErrorResponse StatusBadRequest ''Error while fetching data'' e
                  | Inr us \<Rightarrow>
                      NewSuccessResponse ''Success''
                        (Some (sort_slice (\<lambda>a b. str_less (SubmittedTimeText b) (SubmittedTimeText a))
                           (map (file_entry show_time) fs @ map (url_entry show_time) us))))))"

end
