(* ===== verification/Pipeline.thy ===== *)
theory Pipeline
  imports Queue_Handlers Override
begin

text \<open>
  The running system as a transition relation. The four handlers of \<open>queue.go\<close> are
  goroutines that share the channels and the database; the handlers spawn further goroutines,
  and HTTP requests submit files and override verdicts concurrently. A step is one call of a
  handler's loop body up to a point where another goroutine can run: a fetch of a batch, the
  handling of one task of the batch, the push of a polled task or the database update that
  follows it, one goroutine, one request, or a restart of the process. Each step has an
  environment of its own, so every answer of the database, the sandbox, the scanners and the
  clock is possible at every step.
\<close>

record pipeline = sys +
  niq_batch :: "task list"
  niq_pending :: "niq_update option"
  pend_batch :: "task list"
  pend_timeout :: int
  run_batch :: "task list"
  run_map :: "int \<Rightarrow> string option"
  run_timeout :: int
  log_batch :: "task list"

definition is_send :: "goroutine \<Rightarrow> bool" where
  "is_send g = (case g of GoSendToSandbox _ \<Rightarrow> True | GoPushStatus _ _ \<Rightarrow> True | _ \<Rightarrow> False)"

text \<open>The units of \<open>pendingSem\<close> that are held.\<close>

definition sem_held :: "'s sys_scheme \<Rightarrow> nat" where
  "sem_held s = length (filter is_send (goroutines s))"

subsection \<open>Steps of the handlers\<close>

definition niq_poll :: "('e) queue_env_scheme \<Rightarrow> pipeline \<Rightarrow> pipeline" where
  "niq_poll env s =
     (case fetchNotInQueueTasks env (sys_db s) of
        Inl _ \<Rightarrow> s
      | Inr tasks \<Rightarrow> s\<lparr>niq_batch := tasks\<rparr>)"

definition niq_next :: "('e) queue_env_scheme \<Rightarrow> task \<Rightarrow> task list \<Rightarrow> pipeline \<Rightarrow> pipeline" where
  "niq_next env t ts s =
     (let (u, s') = niq_enqueue env t s in s'\<lparr>niq_batch := ts, niq_pending := u\<rparr>)"

definition niq_commit :: "('e) queue_env_scheme \<Rightarrow> niq_update \<Rightarrow> pipeline \<Rightarrow> pipeline" where
  "niq_commit env u s = (niq_apply env u s)\<lparr>niq_pending := None\<rparr>"

definition pend_poll :: "('e) queue_env_scheme \<Rightarrow> pipeline \<Rightarrow> pipeline" where
  "pend_poll env s =
     (let (tasks, s') = pending_fetch env s
      in s'\<lparr>pend_batch := tasks, pend_timeout := pending_timeout env\<rparr>)"

definition pend_next :: "('e) queue_env_scheme \<Rightarrow> task \<Rightarrow> task list \<Rightarrow> pipeline \<Rightarrow> pipeline" where
  "pend_next env t ts s =
     (PendingQueueHandler_task env (pend_timeout s) t s)\<lparr>pend_batch := ts\<rparr>"

definition run_poll :: "('e) queue_env_scheme \<Rightarrow> pipeline \<Rightarrow> pipeline" where
  "run_poll env s =
     (let ((tasks, m, timeout), s') = running_fetch env s
      in s'\<lparr>run_batch := tasks, run_map := m, run_timeout := timeout\<rparr>)"

definition run_next :: "('e) queue_env_scheme \<Rightarrow> task \<Rightarrow> task list \<Rightarrow> pipeline \<Rightarrow> pipeline" where
  "run_next env t ts s =
     (RunningQueueHandler_task env (run_map s) (run_timeout s) t s)\<lparr>run_batch := ts\<rparr>"

definition log_poll :: "pipeline \<Rightarrow> pipeline" where
  "log_poll s = (let (tasks, s') = LogQueueHandler_fetch s in s'\<lparr>log_batch := tasks\<rparr>)"

definition log_next :: "('e) queue_env_scheme \<Rightarrow> task \<Rightarrow> task list \<Rightarrow> pipeline \<Rightarrow> pipeline" where
  "log_next env t ts s = (processLogQueueTasks env t s)\<lparr>log_batch := ts\<rparr>"

definition run_one :: "('e) queue_env_scheme \<Rightarrow> nat \<Rightarrow> pipeline \<Rightarrow> pipeline" where
  "run_one env k s =
     run_goroutine env (goroutines s ! k)
       (s\<lparr>goroutines := take k (goroutines s) @ drop (Suc k) (goroutines s)\<rparr>)"

definition override_step ::
  "('e) db_env_scheme \<Rightarrow> session \<Rightarrow> override_request \<Rightarrow> pipeline \<Rightarrow> pipeline" where
  "override_step env session req s = s\<lparr>sys_db := snd (OverrideVerdict env session req (sys_db s))\<rparr>"

text \<open>A restart loses everything in memory; \<open>ResetQueueDb\<close> runs before the handlers start.\<close>

definition restart ::
  "('e) db_env_scheme \<Rightarrow> bool \<Rightarrow> string option \<Rightarrow> pipeline \<Rightarrow> pipeline" where
  "restart env writable flag s =
     \<lparr>sys_db = fst (ResetQueueDb env writable flag (sys_db s)), pendingQ = [], runningQ = [],
      logQ = [], files = files s, posts = posts s, sandbox_deletes = sandbox_deletes s,
      max_sandbox_tasks = 300, max_allowed_file_size = 104857600, goroutines = [],
      niq_batch = [], niq_pending = None, pend_batch = [], pend_timeout = 15 * go_minute,
      run_batch = [], run_map = Map.empty, run_timeout = 15 * go_minute, log_batch = []\<rparr>"

text \<open>
  The relation; the first rules are the steps of the handlers, the last three the requests
  and the restart.
\<close>

inductive handler_step :: "pipeline \<Rightarrow> pipeline \<Rightarrow> bool" where
  Niq_Poll: "niq_batch s = [] \<Longrightarrow> niq_pending s = None \<Longrightarrow> handler_step s (niq_poll (env :: queue_env) s)"
| Niq_Next: "niq_batch s = t # ts \<Longrightarrow> niq_pending s = None \<Longrightarrow> handler_step s (niq_next (env :: queue_env) t ts s)"
| Niq_Commit: "niq_pending s = Some u \<Longrightarrow> handler_step s (niq_commit (env :: queue_env) u s)"
| Pend_Poll: "pend_batch s = [] \<Longrightarrow> handler_step s (pend_poll (env :: queue_env) s)"
| Pend_Next: "pend_batch s = t # ts \<Longrightarrow>
    pending_gives_up (env :: queue_env) (pend_timeout s) t
      \<or> sem_held s < MAX_CONCURRENT_LOG_QUEUE_TASKS \<Longrightarrow>
    handler_step s (pend_next env t ts s)"
| Run_Poll: "run_batch s = [] \<Longrightarrow> handler_step s (run_poll (env :: queue_env) s)"
| Run_Next: "run_batch s = t # ts \<Longrightarrow> handler_step s (run_next (env :: queue_env) t ts s)"
| Log_Poll: "log_batch s = [] \<Longrightarrow> handler_step s (log_poll s)"
| Log_Next: "log_batch s = t # ts \<Longrightarrow> handler_step s (log_next (env :: queue_env) t ts s)"
| Goroutine: "k < length (goroutines s) \<Longrightarrow> handler_step s (run_one (env :: queue_env) k s)"

inductive sys_step :: "pipeline \<Rightarrow> pipeline \<Rightarrow> bool" where
  Handler: "handler_step s s' \<Longrightarrow> sys_step s s'"
| Submit: "CreateFileOnDemand (env :: submit_env) profile form adminName ip s = (resp, s') \<Longrightarrow> sys_step s s'"
| Url: "sys_step s (s\<lparr>sys_db :=
    snd (CreateUrlOnDemand (env :: url_env) urlName comments adminName organizationKey (sys_db s))\<rparr>)"
| Override: "sys_step s (override_step (env :: db_env) session req s)"
| Restart: "sys_step s (restart (env :: db_env) writable flag s)"

definition empty_db :: "(string \<Rightarrow> string) \<Rightarrow> file_hashes list \<Rightarrow> db" where
  "empty_db col hs = \<lparr>fods = [], uods = [], lives = [], finished = [], dups = [], hashes = hs,
     uod_auto = 1, collation = col\<rparr>"

definition initial_state :: "db \<Rightarrow> pipeline" where
  "initial_state d =
     \<lparr>sys_db = d, pendingQ = [], runningQ = [], logQ = [], files = Map.empty, posts = [],
      sandbox_deletes = [], max_sandbox_tasks = 300, max_allowed_file_size = 104857600,
      goroutines = [], niq_batch = [], niq_pending = None, pend_batch = [],
      pend_timeout = 15 * go_minute, run_batch = [], run_map = Map.empty,
      run_timeout = 15 * go_minute, log_batch = []\<rparr>"

inductive reachable :: "pipeline \<Rightarrow> bool" where
  Init: "reachable (initial_state (empty_db col hs))"
| Step: "reachable s \<Longrightarrow> sys_step s s' \<Longrightarrow> reachable s'"

end
