(* ===== verification/Db_Invariant.thy ===== *)
theory Db_Invariant
  imports Override
begin

text \<open>
  The invariant of the tables, and that every transaction of the source keeps it. Beside the
  key constraints it says where an uploaded file can be: it is live, a duplicate of a live
  one, finished, or was known before (\<open>accounted\<close>); and a finished or known file has a
  verdict and a rating (\<open>settled\<close>).
\<close>

definition tracked :: "db \<Rightarrow> int set" where
  "tracked d = live_ids d \<union> dup_ids d \<union> fin_ids d"

definition accounted :: "db \<Rightarrow> bool" where
  "accounted d \<longleftrightarrow>
     (\<forall>f \<in> set (fods d). fod_id f \<in> tracked d \<or> fod_status f = PREVIOUSLY_SCANNED_FILE)"

definition has_verdict :: "file_on_demand \<Rightarrow> bool" where
  "has_verdict f \<longleftrightarrow> fod_final_verdict f \<in> {ALLOW, BLOCK} \<and> fod_rating f \<noteq> []"

definition settled :: "db \<Rightarrow> bool" where
  "settled d \<longleftrightarrow>
     (\<forall>f \<in> set (fods d). fod_id f \<in> fin_ids d \<or> fod_status f = PREVIOUSLY_SCANNED_FILE
        \<longrightarrow> has_verdict f)"

definition db_ok :: "db \<Rightarrow> bool" where
  "db_ok d \<longleftrightarrow> keys_ok d \<and> lives_ok d \<and> verdicts_ok d \<and> accounted d \<and> settled d"

lemmas table_defs = accounted_def settled_def tracked_def id_defs has_verdict_def

lemma score_verdict_cases: "score_verdict sc \<in> {ALLOW, BLOCK}"
  by (simp add: score_verdict_def)

lemma score_verdict_domain [simp]: "verdict_domain (score_verdict sc)"
  by (simp add: score_verdict_def verdict_domain_def)

subsection \<open>Statements that move no ids\<close>

fun table_update :: "stmt \<Rightarrow> bool" where
  "table_update (UpdateLiveStatus _ st) = live_status st"
| "table_update (UpdateLiveRow t) = live_status (Status t)"
| "table_update (UpdateLogQueueFailed _ _) = True"
| "table_update (UpdateStatusAll st) = live_status st"
| "table_update (UpdateStatusWhere _ st) = live_status st"
| "table_update (OverrideFod v _ _ _ _) = (v \<in> {ALLOW, BLOCK})"
| "table_update (OverrideUod _ _ _) = True"
| "table_update (InsertUod _) = True"
| "table_update _ = False"

lemma table_update_ids:
  "table_update q \<Longrightarrow> exec_stmt q d = Some d' \<Longrightarrow>
     live_ids d' = live_ids d \<and> dup_ids d' = dup_ids d \<and> fin_ids d' = fin_ids d"
  by (cases q; clarsimp simp: id_defs image_update_where)

lemma table_update_fods:
  "table_update q \<Longrightarrow> exec_stmt q d = Some d' \<Longrightarrow> f \<in> set (fods d') \<Longrightarrow>
   \<exists>g \<in> set (fods d). fod_id f = fod_id g \<and> fod_status f = fod_status g
     \<and> fod_rating f = fod_rating g
     \<and> (fod_final_verdict f = fod_final_verdict g \<or> fod_final_verdict f \<in> {ALLOW, BLOCK})"
  by (cases q) (auto simp: set_update_where, blast+)

lemma table_update_keeps:
  assumes "table_update q"
  shows "keeps_live_status q" "keeps_verdict_domain q"
  using assms by (cases q; auto simp: verdict_domain_def)+

interpretation tables: tx_invariant db_ok table_update
proof
  fix d q d'
  assume ok: "db_ok d" and q: "table_update q" and ex: "exec_stmt q d = Some d'"
  have "keys_ok d'" using keys.stmt_keeps ok ex by (auto simp: db_ok_def)
  moreover have "lives_ok d'"
    using live.stmt_keeps table_update_keeps [OF q] ok ex by (auto simp: db_ok_def)
  moreover have "verdicts_ok d'"
    using verdicts.stmt_keeps table_update_keeps [OF q] ok ex by (auto simp: db_ok_def)
  moreover have "accounted d'"
    using ok table_update_ids [OF q ex] table_update_fods [OF q ex]
    unfolding accounted_def db_ok_def tracked_def by metis
  moreover have "settled d'"
    using ok table_update_ids [OF q ex] table_update_fods [OF q ex]
    unfolding settled_def db_ok_def has_verdict_def by metis
  ultimately show "db_ok d'" by (simp add: db_ok_def)
qed

subsection \<open>The transactions that move a file from one table to another\<close>

text \<open>
  A transaction keeps the invariant when its statements are harmless one by one and it loses
  no file and finishes none without a verdict.
\<close>

lemma db_ok_tx:
  assumes "db_ok d" "exec_all qs d = Some d'"
    and "list_all keeps_live_status qs" "list_all keeps_verdict_domain qs"
    and "accounted d \<Longrightarrow> accounted d'" "settled d \<Longrightarrow> settled d'"
  shows "db_ok d'"
  using assms keys.exec_all_keeps [of d qs d'] live.exec_all_keeps [of d qs d']
    verdicts.exec_all_keeps [of d qs d']
  by (simp add: db_ok_def list_all_iff)

lemma exec_updates:
  "exec_all (map (\<lambda>i. updateFOD i sc tm) is) d = Some d' \<Longrightarrow>
     d' = d\<lparr>fods := fods d'\<rparr> \<and>
     (\<forall>f \<in> set (fods d'). \<exists>g \<in> set (fods d).
        fod_id f = fod_id g \<and> fod_status f = fod_status g \<and>
        (f = g \<or> has_verdict f) \<and> (fod_id g \<in> set is \<longrightarrow> has_verdict f))"
proof (induction "is" arbitrary: d)
  case Nil
  then show ?case by auto
next
  case (Cons i "is")
  let ?upd = "\<lambda>f. f\<lparr>fod_score := sc, fod_rating := verdict_string (GetVerdict sc),
    fod_final_verdict := score_verdict sc, fod_finished_time := Some tm\<rparr>"
  let ?d1 = "d\<lparr>fods := update_where (\<lambda>f. fod_id f = i) ?upd (fods d)\<rparr>"
  have ex: "exec_all (map (\<lambda>i. updateFOD i sc tm) is) ?d1 = Some d'"
    using Cons.prems by (simp add: updateFOD_def Let_def)
  have hv: "has_verdict (?upd g)" for g
    using score_verdict_cases [of sc] by (simp add: has_verdict_def)
  from Cons.IH [OF ex] have d': "d' = ?d1\<lparr>fods := fods d'\<rparr>"
    and fs: "\<forall>f \<in> set (fods d'). \<exists>g \<in> set (fods ?d1).
        fod_id f = fod_id g \<and> fod_status f = fod_status g \<and>
        (f = g \<or> has_verdict f) \<and> (fod_id g \<in> set is \<longrightarrow> has_verdict f)"
    by blast+
  have "\<exists>g \<in> set (fods d). fod_id f = fod_id g \<and> fod_status f = fod_status g \<and>
        (f = g \<or> has_verdict f) \<and> (fod_id g \<in> set (i # is) \<longrightarrow> has_verdict f)"
    if f: "f \<in> set (fods d')" for f
  proof -
    from fs f obtain g where g: "g \<in> set (fods ?d1)" "fod_id f = fod_id g"
        "fod_status f = fod_status g" "f = g \<or> has_verdict f"
        "fod_id g \<in> set is \<longrightarrow> has_verdict f"
      by blast
    from g(1) consider "g \<in> set (fods d)" "fod_id g \<noteq> i"
      | h where "h \<in> set (fods d)" "fod_id h = i" "g = ?upd h"
      by (auto simp: set_update_where)
    then show ?thesis
    proof cases
      case 1
      with g show ?thesis by auto
    next
      case 2
      then have "has_verdict f" using g(4) hv [of h] by auto
      with 2 g show ?thesis by (intro bexI [of _ h]) auto
    qed
  qed
  with d' show ?case by simp
qed

lemma fin_row_ids: "fin_id ` (\<lambda>i. \<lparr>fin_id = i, fin_sandbox_id = s, fin_aborted = a\<rparr>) ` A = A"
  by (auto simp: image_iff)

text \<open>Scores for all ids, then ids leave the live or duplicate table for the finished one.\<close>

lemma settled_after:
  assumes "settled d" and "exec_all (map (\<lambda>i. updateFOD i sc tm) is) d = Some d1"
    and "fods d' = fods d1" and "fin_ids d' \<subseteq> fin_ids d \<union> set is"
  shows "settled d'"
  unfolding settled_def
proof (intro ballI impI)
  fix f
  assume f: "f \<in> set (fods d')" and cond: "fod_id f \<in> fin_ids d' \<or> fod_status f = PREVIOUSLY_SCANNED_FILE"
  from exec_updates [OF assms(2)] f assms(3) obtain g where g: "g \<in> set (fods d)"
      "fod_id f = fod_id g" "fod_status f = fod_status g" "f = g \<or> has_verdict f"
      "fod_id g \<in> set is \<longrightarrow> has_verdict f"
    by metis
  with cond assms(1,4) show "has_verdict f" unfolding settled_def by (metis Un_iff subsetD)
qed

lemma accounted_after:
  assumes "accounted d" and "exec_all (map (\<lambda>i. updateFOD i sc tm) is) d = Some d1"
    and "fods d' = fods d1" and "tracked d \<subseteq> tracked d'"
  shows "accounted d'"
  unfolding accounted_def
proof
  fix f
  assume "f \<in> set (fods d')"
  with exec_updates [OF assms(2)] assms(3) obtain g where "g \<in> set (fods d)"
      "fod_id f = fod_id g" "fod_status f = fod_status g"
    by metis
  with assms(1,4) show "fod_id f \<in> tracked d' \<or> fod_status f = PREVIOUSLY_SCANNED_FILE"
    unfolding accounted_def by (metis subsetD)
qed

lemma finish_one_ok:
  assumes ok: "db_ok d" and ex: "exec_all (updateFOD (Id t) sc tm # moveTaskToFinishedTable t a) d = Some d'"
  shows "db_ok d'"
proof -
  from ex obtain d1 where d1: "exec_all (map (\<lambda>i. updateFOD i sc tm) [Id t]) d = Some d1"
      "exec_all (moveTaskToFinishedTable t a) d1 = Some d'"
    by (auto simp: updateFOD_def Let_def split: Option.bind_splits)
  then have d': "fods d' = fods d1" "live_ids d' = live_ids d1 - {Id t}" "dup_ids d' = dup_ids d1"
      "fin_ids d' = fin_ids d1 \<union> {Id t}"
    by (auto simp: moveTaskToFinishedTable_def id_defs split: if_splits)
  have same: "live_ids d1 = live_ids d" "dup_ids d1 = dup_ids d" "fin_ids d1 = fin_ids d"
    using d1(1) by (auto simp: updateFOD_def Let_def id_defs)
  show ?thesis
  proof (rule db_ok_tx [OF ok ex])
    show "accounted d \<Longrightarrow> accounted d'"
      by (rule accounted_after [OF _ d1(1)]) (auto simp: d' same tracked_def)
    show "settled d \<Longrightarrow> settled d'"
      by (rule settled_after [OF _ d1(1)]) (auto simp: d' same)
  qed (auto simp: updateFOD_def moveTaskToFinishedTable_def Let_def)
qed

lemma finish_duplicates_ok:
  assumes ok: "db_ok d" and ex: "exec_all (map (\<lambda>i. updateFOD i sc tm) is @
       [InsertFinished (map (\<lambda>i. \<lparr>fin_id = i, fin_sandbox_id = sb, fin_aborted = a\<rparr>) is),
        DeleteDuplicates is]) d = Some d'"
  shows "db_ok d'"
proof -
  from ex obtain d1 where d1: "exec_all (map (\<lambda>i. updateFOD i sc tm) is) d = Some d1"
      "exec_all [InsertFinished (map (\<lambda>i. \<lparr>fin_id = i, fin_sandbox_id = sb, fin_aborted = a\<rparr>) is),
         DeleteDuplicates is] d1 = Some d'"
    by (auto simp: exec_all_append split: Option.bind_splits)
  then have d': "fods d' = fods d1" "live_ids d' = live_ids d1" "dup_ids d' = dup_ids d1 - set is"
      "fin_ids d' = fin_ids d1 \<union> set is"
    by (auto simp: id_defs image_Un fin_row_ids split: if_splits)
  have eq: "d1 = d\<lparr>fods := fods d1\<rparr>" using exec_updates [OF d1(1)] by blast
  have same: "live_ids d1 = live_ids d" "dup_ids d1 = dup_ids d" "fin_ids d1 = fin_ids d"
    by (subst eq, simp add: id_defs)+
  show ?thesis
  proof (rule db_ok_tx [OF ok ex])
    show "accounted d \<Longrightarrow> accounted d'"
      by (rule accounted_after [OF _ d1(1)]) (auto simp: d' same tracked_def)
    show "settled d \<Longrightarrow> settled d'"
      by (rule settled_after [OF _ d1(1)]) (auto simp: d' same)
  qed (auto simp: updateFOD_def Let_def list_all_iff)
qed

lemma promote_ok:
  assumes ok: "db_ok d" and ex: "exec_all [InsertLive (promoted_row i), DeleteDuplicates [i]] d = Some d'"
  shows "db_ok d'"
proof -
  from ex have d': "fods d' = fods d" "live_ids d' = live_ids d \<union> {i}" "dup_ids d' = dup_ids d - {i}"
      "fin_ids d' = fin_ids d"
    by (auto simp: promoted_row_def id_defs split: if_splits)
  show ?thesis
    by (rule db_ok_tx [OF ok ex])
      (auto simp: promoted_row_def live_status_def accounted_def settled_def tracked_def d')
qed

lemma submission_ok:
  assumes ok: "db_ok d" and ex: "exec_all (submission_stmts fod ip n) d = Some d'"
    and new: "fod_final_verdict fod = []" "fod_status fod = []"
  shows "db_ok d'"
proof -
  obtain row where row: "fods d' = fods d @ [row]" "fod_id row = fod_id fod"
      "fod_status row = []" "fod_id fod \<notin> fod_ids d"
      "live_ids d' \<union> dup_ids d' = live_ids d \<union> dup_ids d \<union> {fod_id fod}" "fin_ids d' = fin_ids d"
    using ex new that
    by (cases "fod_from_device fod"; cases "n \<le> 0")
      (auto simp: submission_stmts_def new_live_row_def new_duplicate_row_def id_defs Let_def
        split: if_splits)
  have prev: "[] \<noteq> PREVIOUSLY_SCANNED_FILE" by (simp add: PREVIOUSLY_SCANNED_FILE_def)
  show ?thesis
  proof (rule db_ok_tx [OF ok ex])
    show "accounted d \<Longrightarrow> accounted d'"
      using row by (auto simp: accounted_def tracked_def)
    show "settled d \<Longrightarrow> settled d'"
      using row prev ok by (auto simp: settled_def db_ok_def keys_ok_def)
  qed (use new in \<open>auto simp: submission_stmts_def new_live_row_def live_status_def
        verdict_domain_def Let_def\<close>)
qed

lemma known_file_ok:
  assumes ok: "db_ok d" and ex: "exec_all [InsertFod fod] d = Some d'"
    and "has_verdict fod" "fod_status fod = PREVIOUSLY_SCANNED_FILE"
  shows "db_ok d'"
proof -
  have d': "fods d' = fods d @ [fod]" "tracked d' = tracked d" "fin_ids d' = fin_ids d"
    using ex by (auto simp: tracked_def id_defs split: if_splits)
  show ?thesis
    by (rule db_ok_tx [OF ok ex])
      (use assms in \<open>auto simp: accounted_def settled_def d' has_verdict_def verdict_domain_def\<close>)
qed

subsection \<open>The operations on the tables\<close>

lemma gorm_ok:
  "db_ok d \<Longrightarrow> (\<And>d'. exec_all qs d = Some d' \<Longrightarrow> db_ok d') \<Longrightarrow> db_ok (snd (gorm_exec env qs d))"
  by (rule gorm_exec_snd_induct)

lemma update_ok: "db_ok d \<Longrightarrow> list_all table_update qs \<Longrightarrow> db_ok (snd (gorm_exec env qs d))"
  by (rule tables.gorm_keeps)

lemma live_status_simps [simp]:
  "live_status PendingNotInQueue" "live_status PendingInQueue" "live_status RunningNotInQueue"
  "live_status RunningInQueue"
  by (simp_all add: live_status_def)

lemma ResetQueueDb_ok: "db_ok d \<Longrightarrow> db_ok (fst (ResetQueueDb env w flag d))"
  by (auto simp: ResetQueueDb_def Let_def split: prod.splits intro!: update_ok)

lemma overrideFile_ok: "db_ok d \<Longrightarrow> db_ok (snd (override_checked r v vr (\<lambda>v. gorm_exec env [OverrideFod v u a b c]) d))"
  using update_ok [of d "[OverrideFod (to_lower (trim_space vr)) u a b c]" env]
  by (auto simp: override_checked_def Let_def split: prod.splits option.splits)

lemma overrideUrl_ok: "db_ok d \<Longrightarrow> db_ok (snd (override_checked r v vr (\<lambda>v. gorm_exec env [OverrideUod v u a]) d))"
  using update_ok [of d "[OverrideUod (to_lower (trim_space vr)) u a]" env]
  by (auto simp: override_checked_def Let_def split: prod.splits option.splits)

lemma OverrideVerdict_ok:
  assumes "db_ok d" shows "db_ok (snd (OverrideVerdict env session req d))"
proof -
  have "db_ok (snd (overrideFileVerdict env req u d))" for u
    unfolding overrideFileVerdict_def Let_def using assms by (rule overrideFile_ok)
  moreover have "db_ok (snd (overrideUrlVerdict env req u d))" for u
    unfolding overrideUrlVerdict_def using assms overrideUrl_ok by (auto split: sum.splits)
  ultimately show ?thesis
    using assms by (auto simp: OverrideVerdict_def Let_def split: prod.splits) (metis snd_conv)+
qed

lemma CreateUrlOnDemand_ok: "db_ok d \<Longrightarrow> db_ok (snd (CreateUrlOnDemand env url c a k d))"
  unfolding CreateUrlOnDemand_def Let_def
  by (auto split: sum.splits prod.splits option.splits elim!: tables.gorm_keeps_pair)

end
