(* ===== verification/Handler_Contract.thy ===== *)
theory Handler_Contract
  imports Pipeline Db_Invariant
begin

text \<open>
  What the four handlers keep. A property \<open>D\<close> of the tables together with properties \<open>T\<close>
  of the tasks in the pending and running queues and \<open>L\<close> of the tasks in the log queue is
  kept by every handler step as soon as it is kept by the few database operations the
  handlers use: that is the contract stated by the locale. It is interpreted twice, on the
  invariant of the tables (\<open>Pipeline_Inv\<close>) and on the row of a task that no handler holds
  (\<open>Lost_Task\<close>).
\<close>

definition log_status :: "string \<Rightarrow> bool" where
  "log_status st \<longleftrightarrow> live_status st \<or>
     st \<in> {Aborted, Reported, ReportedThroughClamd, ReportedThroughQuickScope, SandboxApiTimeout}"

lemma log_status_simps [simp]:
  "live_status st \<Longrightarrow> log_status st" "log_status Aborted" "log_status Reported"
  "log_status ReportedThroughClamd" "log_status ReportedThroughQuickScope"
  "log_status SandboxApiTimeout"
  by (simp_all add: log_status_def)

fun goroutine_inv :: "(task \<Rightarrow> bool) \<Rightarrow> goroutine \<Rightarrow> bool" where
  "goroutine_inv T (GoSendToSandbox t) = T t"
| "goroutine_inv T (GoPushStatus t st) = (T t \<and> log_status st)"
| "goroutine_inv T _ = True"

fun niq_inv :: "(task \<Rightarrow> bool) \<Rightarrow> niq_update \<Rightarrow> bool" where
  "niq_inv T (SetTaskStatus i st) = ((\<exists>t. T t \<and> Id t = i) \<and> live_status st)"
| "niq_inv T (ClearLogQueueFailed i) = (\<exists>t. T t \<and> Id t = i)"

definition sys_inv ::
  "(db \<Rightarrow> bool) \<Rightarrow> (task \<Rightarrow> bool) \<Rightarrow> (task \<Rightarrow> bool) \<Rightarrow> 's sys_scheme \<Rightarrow> bool" where
  "sys_inv D T L s \<longleftrightarrow> D (sys_db s)
     \<and> length (pendingQ s) \<le> queue_capacity \<and> length (runningQ s) \<le> queue_capacity
     \<and> length (logQ s) \<le> queue_capacity
     \<and> (\<forall>t \<in> set (pendingQ s). T t) \<and> (\<forall>t \<in> set (runningQ s). T t)
     \<and> (\<forall>t \<in> set (logQ s). L t) \<and> (\<forall>g \<in> set (goroutines s). goroutine_inv T g)"

definition pipe_inv ::
  "(db \<Rightarrow> bool) \<Rightarrow> (task \<Rightarrow> bool) \<Rightarrow> (task \<Rightarrow> bool) \<Rightarrow> pipeline \<Rightarrow> bool" where
  "pipe_inv D T L s \<longleftrightarrow> sys_inv D T L s \<and> sem_held s \<le> MAX_CONCURRENT_LOG_QUEUE_TASKS
     \<and> (\<forall>t \<in> set (niq_batch s). T t) \<and> (\<forall>u. niq_pending s = Some u \<longrightarrow> niq_inv T u)
     \<and> (\<forall>t \<in> set (pend_batch s). T t) \<and> (\<forall>t \<in> set (run_batch s). T t)
     \<and> (\<forall>t \<in> set (log_batch s). L t)"

lemma sys_inv_irrelevant [simp]:
  "sys_inv D T L (s\<lparr>files := a\<rparr>) = sys_inv D T L s" "sys_inv D T L (s\<lparr>posts := b\<rparr>) = sys_inv D T L s"
  "sys_inv D T L (s\<lparr>sandbox_deletes := c\<rparr>) = sys_inv D T L s"
  "sys_inv D T L (s\<lparr>max_sandbox_tasks := n\<rparr>) = sys_inv D T L s"
  "sys_inv D T L (s\<lparr>max_allowed_file_size := n\<rparr>) = sys_inv D T L s"
  by (simp_all add: sys_inv_def)

lemma sys_inv_db: "sys_inv D T L s \<Longrightarrow> D (sys_db s)" by (simp add: sys_inv_def)

lemma sys_inv_db_update: "sys_inv D T L s \<Longrightarrow> D d \<Longrightarrow> sys_inv D T L (s\<lparr>sys_db := d\<rparr>)"
  by (simp add: sys_inv_def)

lemma sys_inv_more [simp]:
  fixes s :: pipeline
  shows "sys_inv D T L (s\<lparr>niq_batch := b1\<rparr>) = sys_inv D T L s"
    "sys_inv D T L (s\<lparr>niq_pending := b2\<rparr>) = sys_inv D T L s"
    "sys_inv D T L (s\<lparr>pend_batch := b1\<rparr>) = sys_inv D T L s"
    "sys_inv D T L (s\<lparr>pend_timeout := n\<rparr>) = sys_inv D T L s"
    "sys_inv D T L (s\<lparr>run_batch := b1\<rparr>) = sys_inv D T L s"
    "sys_inv D T L (s\<lparr>run_map := m\<rparr>) = sys_inv D T L s"
    "sys_inv D T L (s\<lparr>run_timeout := n\<rparr>) = sys_inv D T L s"
    "sys_inv D T L (s\<lparr>log_batch := b1\<rparr>) = sys_inv D T L s"
  by (simp_all add: sys_inv_def)

subsection \<open>What the operations leave alone\<close>

lemma push_frame:
  assumes "push q t st s = (e, s')"
  shows "sys_db s' = sys_db s \<and> goroutines s' = goroutines s \<and> files s' = files s
    \<and> sys.more s' = sys.more s"
  using assms by (cases q; auto simp: push_def split: sum.splits)

lemma on_db_frame [simp]:
  "goroutines (snd (on_db f s)) = goroutines s" "sys.more (snd (on_db f s)) = sys.more s"
  by (simp_all add: on_db_def split: prod.splits)

lemma changeStatus_frame [simp]:
  "goroutines (changeStatusAndPushToLogQueue env t st s) = goroutines s"
  "sys.more (changeStatusAndPushToLogQueue env t st s) = sys.more s"
  by (auto simp: changeStatusAndPushToLogQueue_def dest: push_frame split: prod.splits option.splits)

lemma SendAck_ok [simp]: "sys_inv D T L (SendAcknowledgementToClientIp env i s) = sys_inv D T L s"
  by (simp add: SendAcknowledgementToClientIp_def split: prod.splits)

lemma deleteSandboxData_ok [simp]: "sys_inv D T L (snd (deleteSandboxData env i s)) = sys_inv D T L s"
  by (simp add: deleteSandboxData_def)

lemma deleteLocalTask_ok [simp]: "sys_inv D T L (deleteLocalTask env i s) = sys_inv D T L s"
  by (simp add: deleteLocalTask_def)

lemma niq_decide_frame:
  "niq_decide env t s = (r, s') \<Longrightarrow> goroutines s' = goroutines s \<and> sys.more s' = sys.more s
     \<and> sys_db s' = sys_db s"
  by (auto simp: niq_decide_def Let_def split: prod.splits if_splits)

lemma niq_push_frame:
  "niq_push q st t s = (u, s') \<Longrightarrow> goroutines s' = goroutines s \<and> sys.more s' = sys.more s"
  by (auto simp: niq_push_def dest: push_frame split: prod.splits option.splits)

lemma niq_enqueue_frame:
  assumes "niq_enqueue env t s = (u, s')"
  shows "goroutines s' = goroutines s" "sys.more s' = sys.more s"
  using assms by (auto simp: niq_enqueue_def dest!: niq_decide_frame niq_push_frame
      split: prod.splits option.splits)

lemma niq_apply_frame [simp]:
  "goroutines (niq_apply env u s) = goroutines s" "sys.more (niq_apply env u s) = sys.more s"
  by (cases u; simp)+

lemma fetch_ok:
  assumes "fetchTasksFromQueue q n = (ts, q')"
  shows "set ts \<subseteq> set q" "set q' \<subseteq> set q" "length q' \<le> length q"
proof -
  have "q = ts @ q'" using channel.fetch_split [OF assms] .
  then show "set ts \<subseteq> set q" "set q' \<subseteq> set q" "length q' \<le> length q" by auto
qed

lemma send_failed_frame:
  "goroutines (send_failed env t s) = goroutines s" "sys.more (send_failed env t s) = sys.more s"
  by (simp_all add: send_failed_def Let_def split: prod.splits option.splits)
    (auto dest!: push_frame)

lemma pending_goroutine_frame:
  "pending_goroutine env t s = (r, s') \<Longrightarrow> goroutines s' = goroutines s \<and> sys.more s' = sys.more s"
  by (auto simp: pending_goroutine_def Let_def send_failed_frame dest!: push_frame
      split: prod.splits if_splits option.splits)

lemma RunningQueueHandler_task_frame:
  "goroutines (RunningQueueHandler_task env m to t s) = goroutines s"
  "sys.more (RunningQueueHandler_task env m to t s) = sys.more s"
  by (auto simp: RunningQueueHandler_task_def Let_def dest!: push_frame
      split: prod.splits option.splits)

lemma spawn_deletes_frame [simp]:
  "sys_db (fold (\<lambda>i. spawn (GoDeleteLocalTask i)) is s) = sys_db s"
  "logQ (fold (\<lambda>i. spawn (GoDeleteLocalTask i)) is s) = logQ s"
  "sys.more (fold (\<lambda>i. spawn (GoDeleteLocalTask i)) is s) = sys.more s"
  "goroutines (fold (\<lambda>i. spawn (GoDeleteLocalTask i)) is s) = goroutines s @ map GoDeleteLocalTask is"
  by (induction "is" arbitrary: s) simp_all

lemma duplicates_queries:
  assumes "processDuplicateTasksForReported env t sc tm d = (ds, qs)"
  shows "qs = [] \<or> qs = map (\<lambda>i. updateFOD i sc tm) ds @
      [InsertFinished (map (\<lambda>i. \<lparr>fin_id = i, fin_sandbox_id = SandboxId t, fin_aborted = False\<rparr>) ds),
       DeleteDuplicates ds]"
  using assms by (auto simp: processDuplicateTasksForReported_def Let_def split: if_splits)

lemma exec_two:
  assumes "exec_all (q # ps @ qs) d = Some d'"
  obtains d1 where "exec_all (q # ps) d = Some d1" "exec_all qs d1 = Some d'"
  using assms exec_all_append [of "q # ps" qs d] by (auto split: Option.bind_splits)

lemma more_eq:
  fixes s s' :: pipeline
  assumes "sys.more s' = sys.more s"
  shows "niq_batch s' = niq_batch s" "niq_pending s' = niq_pending s" "pend_batch s' = pend_batch s"
    "pend_timeout s' = pend_timeout s" "run_batch s' = run_batch s" "run_map s' = run_map s"
    "run_timeout s' = run_timeout s" "log_batch s' = log_batch s"
  using assms by (cases s; cases s'; simp)+

lemma sem_held_simps [simp]:
  fixes s :: pipeline
  shows "sem_held (s\<lparr>niq_batch := b1\<rparr>) = sem_held s" "sem_held (s\<lparr>niq_pending := b2\<rparr>) = sem_held s"
    "sem_held (s\<lparr>pend_batch := b1\<rparr>) = sem_held s" "sem_held (s\<lparr>pend_timeout := n\<rparr>) = sem_held s"
    "sem_held (s\<lparr>run_batch := b1\<rparr>) = sem_held s" "sem_held (s\<lparr>run_map := m\<rparr>) = sem_held s"
    "sem_held (s\<lparr>run_timeout := n\<rparr>) = sem_held s" "sem_held (s\<lparr>log_batch := b1\<rparr>) = sem_held s"
  by (simp_all add: sem_held_def)

lemma processLogQueueTasks_frame:
  "sys.more (processLogQueueTasks env t s) = sys.more s"
  "sem_held (processLogQueueTasks env t s) = sem_held s"
  by (auto simp: processLogQueueTasks_def finish_reported_def finish_aborted_def Let_def
      sem_held_def is_send_def filter_empty_conv split: prod.splits)

lemma sem_held_spawn: "sem_held (spawn g s) = sem_held s + (if is_send g then 1 else 0)"
  by (simp add: sem_held_def)

lemma run_goroutine_frame:
  "sys.more (run_goroutine env g s) = sys.more s"
  "sem_held (run_goroutine env g s) \<le> sem_held s + (if is_send g then 1 else 0)"
  by (cases g; auto simp: sem_held_def is_send_def dest!: pending_goroutine_frame
      split: prod.splits option.splits)+

lemma sem_held_remove:
  assumes "k < length (goroutines s)"
  shows "sem_held (s\<lparr>goroutines := take k (goroutines s) @ drop (Suc k) (goroutines s)\<rparr>)
       + (if is_send (goroutines s ! k) then 1 else 0) = sem_held s"
proof -
  have "length (filter is_send (goroutines s)) =
    length (filter is_send (take k (goroutines s) @ goroutines s ! k # drop (Suc k) (goroutines s)))"
    by (simp only: id_take_nth_drop [OF assms, symmetric])
  then show ?thesis by (simp add: sem_held_def)
qed

lemma finish_one_dup_ids:
  "exec_all (updateFOD (Id t) sc tm # moveTaskToFinishedTable t a) d = Some d' \<Longrightarrow> dup_ids d' = dup_ids d"
  by (auto simp: updateFOD_def moveTaskToFinishedTable_def Let_def id_defs split: if_splits)

lemma fold_min_in: "fold min is i \<in> insert i (set (is :: int list))"
proof (induction "is" arbitrary: i)
  case Nil
  then show ?case by simp
next
  case (Cons j js)
  have "fold min js (min j i) \<in> insert (min j i) (set js)" by (rule Cons.IH)
  moreover have "min j i = i \<or> min j i = j" by linarith
  ultimately show ?case by auto
qed

lemma first_duplicate_in:
  assumes "duplicate_ids d t \<noteq> []"
  shows "first_duplicate d t \<in> dup_ids d"
proof -
  obtain i "is" where eq: "duplicate_ids d t = i # is" using assms by (cases "duplicate_ids d t") auto
  have "set (duplicate_ids d t) \<subseteq> dup_ids d" by (auto simp: duplicate_ids_def dup_ids_def)
  with fold_min_in [of "is" i] eq show ?thesis by (auto simp: first_duplicate_def)
qed

lemma aborted_queries:
  "processDuplicateTasksForAborted env t d = [] \<or>
   (\<exists>i. (i = 0 \<or> i \<in> dup_ids d) \<and>
      processDuplicateTasksForAborted env t d = [InsertLive (promoted_row i), DeleteDuplicates [i]])"
  using first_duplicate_in [of d t]
  by (auto simp: processDuplicateTasksForAborted_def Let_def run_select_def)

subsection \<open>The contract\<close>

locale handler_contract =
  fixes D :: "db \<Rightarrow> bool" and T :: "task \<Rightarrow> bool" and L :: "task \<Rightarrow> bool"
  assumes T_live: "T t \<Longrightarrow> live_status (Status t)"
    and T_same: "T t \<Longrightarrow> Id t' = Id t \<Longrightarrow> live_status (Status t') \<Longrightarrow> T t'"
    and L_same: "T t \<Longrightarrow> Id t' = Id t \<Longrightarrow> log_status (Status t') \<Longrightarrow> L t'"
    and L_log: "L t \<Longrightarrow> log_status (Status t)"
    and polled: "D d \<Longrightarrow> t \<in> set (not_in_queue_tasks d) \<Longrightarrow> T t"
    and row_T: "D d \<Longrightarrow> T t \<Longrightarrow> exec_stmt (UpdateLiveRow t) d = Some d' \<Longrightarrow> D d'"
    and row_L: "D d \<Longrightarrow> L t \<Longrightarrow> live_status (Status t) \<Longrightarrow>
      exec_stmt (UpdateLiveRow t) d = Some d' \<Longrightarrow> D d'"
    and status_T: "D d \<Longrightarrow> T t \<Longrightarrow> live_status st \<Longrightarrow>
      exec_stmt (UpdateLiveStatus (Id t) st) d = Some d' \<Longrightarrow> D d'"
    and flag_T: "D d \<Longrightarrow> T t \<Longrightarrow> exec_stmt (UpdateLogQueueFailed (Id t) b) d = Some d' \<Longrightarrow> D d'"
    and finish_L: "D d \<Longrightarrow> L t \<Longrightarrow>
      exec_all (updateFOD (Id t) sc tm # moveTaskToFinishedTable t a) d = Some d' \<Longrightarrow> D d'"
    and finish_dups: "D d \<Longrightarrow> exec_all (map (\<lambda>i. updateFOD i sc tm) is @
      [InsertFinished (map (\<lambda>i. \<lparr>fin_id = i, fin_sandbox_id = sb, fin_aborted = a\<rparr>) is),
       DeleteDuplicates is]) d = Some d' \<Longrightarrow> D d'"
    and promote: "D d \<Longrightarrow> i = 0 \<or> i \<in> dup_ids d \<Longrightarrow>
      exec_all [InsertLive (promoted_row i), DeleteDuplicates [i]] d = Some d' \<Longrightarrow> D d'"
begin

abbreviation sys_ok :: "'s sys_scheme \<Rightarrow> bool" where "sys_ok \<equiv> sys_inv D T L"
abbreviation pipe_ok :: "pipeline \<Rightarrow> bool" where "pipe_ok \<equiv> pipe_inv D T L"

lemma T_update: "T t \<Longrightarrow> T (t\<lparr>SandboxRetryCount := a\<rparr>)" "T t \<Longrightarrow> T (t\<lparr>QueueRetryCount := a\<rparr>)"
  "T t \<Longrightarrow> T (t\<lparr>RunningRetryCount := a\<rparr>)" "T t \<Longrightarrow> T (t\<lparr>LogQueueFailed := b\<rparr>)"
  "T t \<Longrightarrow> T (t\<lparr>SandboxId := a\<rparr>)" "T t \<Longrightarrow> T (t\<lparr>RunningStartedAt := a\<rparr>)"
  "T t \<Longrightarrow> live_status st \<Longrightarrow> T (t\<lparr>Status := st\<rparr>)"
  using T_same [of t] T_live [of t] by simp_all

lemma L_update: "T t \<Longrightarrow> log_status st \<Longrightarrow> L (t\<lparr>Status := st\<rparr>)"
  using L_same [of t] by simp

lemma gorm_keeps: "D d \<Longrightarrow> (\<And>d'. exec_all qs d = Some d' \<Longrightarrow> D d') \<Longrightarrow> D (snd (gorm_exec env qs d))"
  by (rule gorm_exec_snd_induct)

lemma gorm_single: "D d \<Longrightarrow> (\<And>d'. exec_stmt q d = Some d' \<Longrightarrow> D d') \<Longrightarrow> D (snd (gorm_exec env [q] d))"
  by (rule gorm_keeps) (auto split: Option.bind_splits)

lemma single_updates_keep:
  assumes "D d"
  shows "T t \<Longrightarrow> live_status st \<Longrightarrow> D (snd (updateTaskStatus env (Id t) st d))"
    and "L t \<Longrightarrow> live_status (Status t) \<Longrightarrow> D (snd (updateStatusChangeDirectlyThroughDb env t d))"
    and "T t \<Longrightarrow> D (snd (updateLiveTaskDirectlyThroughDb env t d))"
    and "T t \<Longrightarrow> D (snd (updateLogQueueFail env (Id t) b d))"
  unfolding updateTaskStatus_def updateStatusChangeDirectlyThroughDb_def
    updateLiveTaskDirectlyThroughDb_def updateLogQueueFail_def
  using assms by (blast intro: gorm_single status_T row_L row_T flag_T)+

subsection \<open>Primitive operations\<close>

lemma push_ok:
  assumes "sys_ok s" "push q t st s = (e, s')" "T t"
    and "if q = LogQueue then log_status st else live_status st"
  shows "sys_ok s'"
  using assms(1,2,4) T_update(7) [OF assms(3), of st] L_update [OF assms(3), of st]
  by (cases q) (auto simp: push_def sys_inv_def pushToQueue_simps split: sum.splits)

lemma push_same_ok:
  assumes "sys_ok s" "push q t (Status t) s = (e, s')" "T t"
  shows "sys_ok s'"
  using push_ok [OF assms] T_live [OF assms(3)] by simp

lemma on_db_keeps: "sys_ok s \<Longrightarrow> D (snd (f (sys_db s))) \<Longrightarrow> sys_ok (snd (on_db f s))"
  by (auto simp: on_db_def sys_inv_db_update split: prod.splits)

lemma spawn_ok: "sys_ok s \<Longrightarrow> goroutine_inv T g \<Longrightarrow> sys_ok (spawn g s)"
  by (auto simp: sys_inv_def spawn_def)

lemma changeStatus_ok:
  assumes "sys_ok s" "T t" "log_status st"
  shows "sys_ok (changeStatusAndPushToLogQueue env t st s)"
proof (cases "push LogQueue t st s")
  case (Pair e s1)
  have ok: "sys_ok s1" using push_ok [OF assms(1) Pair assms(2)] assms(3) by simp
  then have "sys_ok (snd (on_db (updateLiveTaskDirectlyThroughDb env (t\<lparr>LogQueueFailed := True\<rparr>)) s1))"
    using assms(2) by (intro on_db_keeps single_updates_keep T_update) (auto simp: sys_inv_db)
  with ok Pair show ?thesis by (simp add: changeStatusAndPushToLogQueue_def split: option.splits)
qed

subsection \<open>NotInQueueHandler\<close>

lemma niq_decide_ok:
  assumes "sys_ok s" "T t" "niq_decide env t s = (r, s')"
  shows "sys_ok s'" and "r = Some (q, st, t') \<Longrightarrow> T t'"
    and "r = Some (q, st, t') \<Longrightarrow> (if q = LogQueue then log_status st else live_status st)"
  using assms T_live [OF assms(2)] T_update(6) [OF assms(2)]
  by (auto simp: niq_decide_def Let_def split: prod.splits if_splits)

lemma niq_push_ok:
  assumes "sys_ok s" "T t" "if q = LogQueue then log_status st else live_status st"
    and "niq_push q st t s = (u, s')"
  shows "sys_ok s'" "u = Some v \<Longrightarrow> niq_inv T v"
  using assms push_ok [of s q t st]
  by (auto simp: niq_push_def split: prod.splits option.splits if_splits)

lemma niq_enqueue_ok:
  assumes "sys_ok s" "T t" "niq_enqueue env t s = (u, s')"
  shows "sys_ok s' \<and> (\<forall>v. u = Some v \<longrightarrow> niq_inv T v)"
proof (cases "niq_decide env t s")
  case (Pair r s1)
  note dec = niq_decide_ok [OF assms(1,2) Pair]
  show ?thesis
  proof (cases r)
    case None
    with assms(3) Pair dec(1) show ?thesis by (simp add: niq_enqueue_def)
  next
    case (Some p)
    obtain q st t' where p: "p = (q, st, t')" by (cases p)
    with assms(3) Pair Some have "niq_push q st t' s1 = (u, s')" by (simp add: niq_enqueue_def)
    from niq_push_ok [OF dec(1) dec(2) dec(3) this] Some p show ?thesis by blast
  qed
qed

lemma niq_apply_ok: "sys_ok s \<Longrightarrow> niq_inv T u \<Longrightarrow> sys_ok (niq_apply env u s)"
  using single_updates_keep [of "sys_db s"]
  by (cases u) (auto intro!: on_db_keeps simp: sys_inv_db)

subsection \<open>PendingQueueHandler\<close>

lemma pending_fetch_ok:
  assumes "sys_ok s" "pending_fetch env s = (ts, s')"
  shows "sys_ok s' \<and> (\<forall>t \<in> set ts. T t) \<and> goroutines s' = goroutines s"
proof (cases "pending_capacity env")
  case None
  with assms show ?thesis by (simp add: pending_fetch_def)
next
  case (Some n)
  obtain q' where q': "fetchTasksFromQueue (pendingQ s) n = (ts, q')" "s' = s\<lparr>pendingQ := q'\<rparr>"
    using assms(2) Some by (auto simp: pending_fetch_def split: prod.splits)
  with fetch_ok [OF q'(1)] assms(1) show ?thesis by (auto simp: sys_inv_def)
qed

lemma PendingQueueHandler_task_ok:
  "sys_ok s \<Longrightarrow> T t \<Longrightarrow> sys_ok (PendingQueueHandler_task env to t s)"
  by (simp add: PendingQueueHandler_task_def changeStatus_ok spawn_ok)

lemma send_failed_ok:
  assumes "sys_ok s" "T t"
  shows "sys_ok (send_failed env t s)"
proof -
  let ?t1 = "t\<lparr>SandboxRetryCount := SandboxRetryCount t + 1\<rparr>"
  let ?t2 = "?t1\<lparr>QueueRetryCount := QueueRetryCount ?t1 + 1\<rparr>"
  obtain e1 s1 where p1: "push PendingQueue ?t1 (Status ?t1) s = (e1, s1)"
    by (cases "push PendingQueue ?t1 (Status ?t1) s")
  obtain e2 s2 where p2: "push LogQueue ?t2 PendingNotInQueue s1 = (e2, s2)"
    by (cases "push LogQueue ?t2 PendingNotInQueue s1")
  have t1: "T ?t1" using assms(2) by (rule T_update)
  then have t2: "T ?t2" by (rule T_update)
  have s1: "sys_ok s1" using push_same_ok [OF assms(1) p1 t1] .
  have s2: "sys_ok s2" using push_ok [OF s1 p2 t2] by simp
  have "sys_ok (snd (on_db (updateLiveTaskDirectlyThroughDb env
      (?t2\<lparr>Status := PendingNotInQueue, LogQueueFailed := True\<rparr>)) s2))"
    by (intro on_db_keeps single_updates_keep T_update(4) T_update(7) t2 sys_inv_db [OF s2] s2) simp
  then show ?thesis
    using assms s1 s2 p1 p2 t1 t2
    by (simp add: send_failed_def Let_def changeStatus_ok split: option.splits)
qed

lemma pending_goroutine_ok:
  assumes "sys_ok s" "T t" "pending_goroutine env t s = (r, s')"
  shows "sys_ok s' \<and> (\<forall>t' st. r = Some (t', st) \<longrightarrow> T t' \<and> log_status st)"
proof -
  obtain i err where snd: "sendToSandbox env (files s) t = (i, err)"
    by (cases "sendToSandbox env (files s) t")
  let ?t1 = "t\<lparr>SandboxId := i, RunningStartedAt := now env\<rparr>"
  obtain e1 s1 where p1: "push RunningQueue ?t1 (Status ?t1) s = (e1, s1)"
    by (cases "push RunningQueue ?t1 (Status ?t1) s")
  have t1: "T ?t1" using assms(2) by (intro T_update)
  have "sys_ok s1" using push_same_ok [OF assms(1) p1 t1] .
  then show ?thesis
    using assms snd p1 t1
    by (auto simp: pending_goroutine_def Let_def send_failed_ok split: if_splits option.splits)
qed

subsection \<open>RunningQueueHandler\<close>

lemma running_fetch_ok:
  assumes "sys_ok s" "running_fetch env s = ((ts, m, to), s')"
  shows "sys_ok s' \<and> (\<forall>t \<in> set ts. T t) \<and> goroutines s' = goroutines s"
proof (cases "fetchAllTasksFromSandbox env")
  case (Inl e)
  with assms show ?thesis by (simp add: running_fetch_def)
next
  case (Inr all)
  obtain q' where q': "fetchTasksFromQueue (runningQ s) (-1) = (ts, q')" "s' = s\<lparr>runningQ := q'\<rparr>"
    using assms(2) Inr by (auto simp: running_fetch_def Let_def split: prod.splits)
  with fetch_ok [OF q'(1)] assms(1) show ?thesis by (auto simp: sys_inv_def)
qed

lemma RunningQueueHandler_task_ok:
  assumes "sys_ok s" "T t"
  shows "sys_ok (RunningQueueHandler_task env m to t s)"
proof -
  obtain e1 s1 where p1: "push RunningQueue t (Status t) s = (e1, s1)"
    by (cases "push RunningQueue t (Status t) s")
  have "sys_ok s1" using push_same_ok [OF assms(1) p1 assms(2)] .
  then show ?thesis
    using assms p1 T_update(3) [OF assms(2)]
    by (simp add: RunningQueueHandler_task_def Let_def changeStatus_ok split: option.splits)
qed

subsection \<open>LogQueueHandler\<close>

lemma spawn_deletes_ok: "sys_ok s \<Longrightarrow> sys_ok (fold (\<lambda>i. spawn (GoDeleteLocalTask i)) is s)"
  by (induction "is" arbitrary: s) (simp_all add: spawn_ok)

lemma finish_reported_keeps:
  assumes "D d" "L t" "processDuplicateTasksForReported env t sc tm d0 = (ds, qs)"
  shows "D (snd (gorm_exec env' (updateFOD (Id t) sc tm # moveTaskToFinishedTable t False @ qs) d))"
proof (rule gorm_keeps [OF assms(1)])
  fix d'
  assume "exec_all (updateFOD (Id t) sc tm # moveTaskToFinishedTable t False @ qs) d = Some d'"
  then obtain d1 where d1: "exec_all (updateFOD (Id t) sc tm # moveTaskToFinishedTable t False) d = Some d1"
      "exec_all qs d1 = Some d'" by (rule exec_two)
  have "D d1" using finish_L [OF assms(1,2) d1(1)] .
  with duplicates_queries [OF assms(3)] d1(2) show "D d'" by (auto intro: finish_dups)
qed

lemma finish_aborted_keeps:
  assumes "D d" "L t"
  shows "D (snd (gorm_exec env (updateFOD (Id t) sc tm # moveTaskToFinishedTable t True @
           processDuplicateTasksForAborted env' t d) d))"
proof (rule gorm_keeps [OF assms(1)])
  fix d'
  assume "exec_all (updateFOD (Id t) sc tm # moveTaskToFinishedTable t True @
      processDuplicateTasksForAborted env' t d) d = Some d'"
  then obtain d1 where d1: "exec_all (updateFOD (Id t) sc tm # moveTaskToFinishedTable t True) d = Some d1"
      "exec_all (processDuplicateTasksForAborted env' t d) d1 = Some d'" by (rule exec_two)
  have "D d1" using finish_L [OF assms d1(1)] .
  moreover have "dup_ids d1 = dup_ids d" using finish_one_dup_ids [OF d1(1)] .
  ultimately show "D d'"
    using aborted_queries [of env' t d] d1(2) promote [of d1 _ d']
    by (metis exec_all.simps(1) option.inject)
qed

lemma finish_reported_ok: "sys_ok s \<Longrightarrow> L t \<Longrightarrow> sys_ok (finish_reported env t sc s)"
  by (auto simp: finish_reported_def Let_def sys_inv_db split: prod.splits
      intro!: on_db_keeps spawn_deletes_ok finish_reported_keeps)

lemma finish_aborted_ok: "sys_ok s \<Longrightarrow> L t \<Longrightarrow> sys_ok (finish_aborted env t s)"
  by (auto simp: finish_aborted_def Let_def sys_inv_db intro!: on_db_keeps finish_aborted_keeps)

lemma processLogQueueTasks_ok:
  assumes "sys_ok s" "L t"
  shows "sys_ok (processLogQueueTasks env t s)"
proof -
  have "live_status (Status t) \<Longrightarrow> sys_ok (snd (on_db (updateStatusChangeDirectlyThroughDb env t) s))"
    using assms by (intro on_db_keeps single_updates_keep) (auto simp: sys_inv_db)
  then show ?thesis
    using assms L_log [OF assms(2)]
    by (auto simp: processLogQueueTasks_def Let_def log_status_def finish_reported_ok
        finish_aborted_ok intro!: spawn_ok split: prod.splits)
qed

lemma LogQueueHandler_fetch_ok:
  assumes "sys_ok s" "LogQueueHandler_fetch s = (ts, s')"
  shows "sys_ok s' \<and> (\<forall>t \<in> set ts. L t) \<and> goroutines s' = goroutines s"
proof -
  obtain q' where q': "fetchTasksFromQueue (logQ s) batchSize = (ts, q')" "s' = s\<lparr>logQ := q'\<rparr>"
    using assms(2) by (auto simp: LogQueueHandler_fetch_def split: prod.splits)
  with fetch_ok [OF q'(1)] assms(1) show ?thesis by (auto simp: sys_inv_def)
qed

lemma run_goroutine_ok:
  assumes "sys_ok s" "goroutine_inv T g"
  shows "sys_ok (run_goroutine env g s)"
proof (cases g)
  case (GoSendToSandbox t)
  obtain r s1 where r: "pending_goroutine env t s = (r, s1)" by (cases "pending_goroutine env t s")
  with pending_goroutine_ok [OF assms(1) _ r] assms(2) GoSendToSandbox show ?thesis
    by (auto intro!: spawn_ok split: option.splits)
qed (use assms in \<open>auto intro: changeStatus_ok\<close>)

subsection \<open>The invariant of the relation\<close>

lemma pipe_ok_intro:
  fixes s s' :: pipeline
  assumes "pipe_ok s" "sys_ok s'" "sys.more s' = sys.more s"
    and "sem_held s' \<le> MAX_CONCURRENT_LOG_QUEUE_TASKS"
  shows "pipe_ok s'"
  using assms(1,2,4) more_eq [OF assms(3)] by (simp add: pipe_inv_def)

lemma pipe_ok_same:
  fixes s s' :: pipeline
  assumes "pipe_ok s" "sys_ok s'" "sys.more s' = sys.more s" "goroutines s' = goroutines s"
  shows "pipe_ok s'"
  using assms(1,4) by (intro pipe_ok_intro [OF assms(1-3)]) (simp add: pipe_inv_def sem_held_def)

lemma pipe_ok_sys: "pipe_ok s \<Longrightarrow> sys_ok s" by (simp add: pipe_inv_def)

lemma pipe_ok_batches:
  fixes s :: pipeline
  shows "pipe_ok s \<Longrightarrow> (\<forall>t \<in> set b. T t) \<Longrightarrow> pipe_ok (s\<lparr>niq_batch := b\<rparr>)"
    and "pipe_ok s \<Longrightarrow> (\<forall>t \<in> set b. T t) \<Longrightarrow> pipe_ok (s\<lparr>pend_batch := b\<rparr>)"
    and "pipe_ok s \<Longrightarrow> (\<forall>t \<in> set b. T t) \<Longrightarrow> pipe_ok (s\<lparr>run_batch := b\<rparr>)"
    and "pipe_ok s \<Longrightarrow> (\<forall>t \<in> set b. L t) \<Longrightarrow> pipe_ok (s\<lparr>log_batch := b\<rparr>)"
    and "pipe_ok s \<Longrightarrow> (\<forall>v. u = Some v \<longrightarrow> niq_inv T v) \<Longrightarrow> pipe_ok (s\<lparr>niq_pending := u\<rparr>)"
    and "pipe_ok s \<Longrightarrow> pipe_ok (s\<lparr>pend_timeout := n\<rparr>)"
    and "pipe_ok s \<Longrightarrow> pipe_ok (s\<lparr>run_timeout := n\<rparr>)"
    and "pipe_ok s \<Longrightarrow> pipe_ok (s\<lparr>run_map := m\<rparr>)"
  by (simp_all add: pipe_inv_def)

lemma niq_poll_ok: "pipe_ok s \<Longrightarrow> pipe_ok (niq_poll env s)"
  using polled [of "sys_db s"]
  by (auto simp: niq_poll_def fetchNotInQueueTasks_def run_select_def pipe_inv_def sys_inv_db
      split: sum.splits if_splits)

lemma niq_next_ok:
  assumes "pipe_ok s" "niq_batch s = t # ts"
  shows "pipe_ok (niq_next env t ts s)"
proof (cases "niq_enqueue env t s")
  case (Pair u s1)
  have s: "sys_ok s" "T t" "\<forall>t \<in> set ts. T t" using assms by (auto simp: pipe_inv_def)
  note enq = niq_enqueue_ok [OF s(1,2) Pair]
  have "pipe_ok s1"
    by (rule pipe_ok_same [OF assms(1) conjunct1 [OF enq] niq_enqueue_frame(2,1) [OF Pair]])
  with enq s(3) Pair show ?thesis by (simp add: niq_next_def pipe_ok_batches)
qed

lemma niq_commit_ok:
  assumes "pipe_ok s" "niq_pending s = Some u"
  shows "pipe_ok (niq_commit env u s)"
proof -
  have "pipe_ok (niq_apply env u s)"
    using assms by (intro pipe_ok_intro [OF assms(1)] niq_apply_ok) (auto simp: pipe_inv_def sem_held_def)
  then show ?thesis by (simp add: niq_commit_def pipe_ok_batches)
qed

lemma pend_poll_ok:
  assumes "pipe_ok s"
  shows "pipe_ok (pend_poll env s)"
proof (cases "pending_fetch env s")
  case (Pair ts s1)
  note fetched = pending_fetch_ok [OF pipe_ok_sys [OF assms] Pair]
  have "sys.more s1 = sys.more s"
    using Pair by (auto simp: pending_fetch_def split: option.splits prod.splits)
  then have "pipe_ok s1" using fetched by (intro pipe_ok_same [OF assms]) auto
  with fetched Pair show ?thesis by (simp add: pend_poll_def pipe_ok_batches)
qed

lemma pend_next_ok:
  assumes ok: "pipe_ok s" and b: "pend_batch s = t # ts"
    and room: "pending_gives_up env (pend_timeout s) t \<or> sem_held s < MAX_CONCURRENT_LOG_QUEUE_TASKS"
  shows "pipe_ok (pend_next env t ts s)"
proof -
  let ?s1 = "PendingQueueHandler_task env (pend_timeout s) t s"
  have s: "sys_ok s" "T t" "\<forall>t \<in> set ts. T t" using ok b by (auto simp: pipe_inv_def)
  have sem: "sem_held ?s1 \<le> MAX_CONCURRENT_LOG_QUEUE_TASKS"
    using ok room
    by (auto simp: PendingQueueHandler_task_def sem_held_def pipe_inv_def is_send_def split: if_splits)
  have "pipe_ok ?s1"
    by (rule pipe_ok_intro [OF ok PendingQueueHandler_task_ok [OF s(1,2)] _ sem])
      (simp add: PendingQueueHandler_task_def)
  with s show ?thesis by (simp add: pend_next_def pipe_ok_batches)
qed

lemma run_poll_ok:
  assumes "pipe_ok s"
  shows "pipe_ok (run_poll env s)"
proof -
  obtain ts m to s1 where eq: "running_fetch env s = ((ts, m, to), s1)"
    by (cases "running_fetch env s") auto
  note fetched = running_fetch_ok [OF pipe_ok_sys [OF assms] eq]
  have "sys.more s1 = sys.more s"
    using eq by (auto simp: running_fetch_def Let_def split: sum.splits prod.splits)
  then have "pipe_ok s1" using fetched by (intro pipe_ok_same [OF assms]) auto
  with fetched eq show ?thesis by (simp add: run_poll_def pipe_ok_batches)
qed

lemma run_next_ok:
  assumes ok: "pipe_ok s" and b: "run_batch s = t # ts"
  shows "pipe_ok (run_next env t ts s)"
proof -
  have s: "sys_ok s" "T t" "\<forall>t \<in> set ts. T t" using ok b by (auto simp: pipe_inv_def)
  have "pipe_ok (RunningQueueHandler_task env (run_map s) (run_timeout s) t s)"
    using ok RunningQueueHandler_task_ok [OF s(1,2)]
    by (intro pipe_ok_intro [OF ok])
      (auto simp: RunningQueueHandler_task_frame sem_held_def pipe_inv_def)
  with s show ?thesis by (simp add: run_next_def pipe_ok_batches)
qed

lemma log_poll_ok:
  assumes "pipe_ok s"
  shows "pipe_ok (log_poll s)"
proof (cases "LogQueueHandler_fetch s")
  case (Pair ts s1)
  note fetched = LogQueueHandler_fetch_ok [OF pipe_ok_sys [OF assms] Pair]
  have "sys.more s1 = sys.more s"
    using Pair by (auto simp: LogQueueHandler_fetch_def split: prod.splits)
  then have "pipe_ok s1" using fetched by (intro pipe_ok_same [OF assms]) auto
  with fetched Pair show ?thesis by (simp add: log_poll_def pipe_ok_batches)
qed

lemma log_next_ok:
  assumes ok: "pipe_ok s" and b: "log_batch s = t # ts"
  shows "pipe_ok (log_next env t ts s)"
proof -
  have s: "sys_ok s" "L t" "\<forall>t \<in> set ts. L t" using ok b by (auto simp: pipe_inv_def)
  have "pipe_ok (processLogQueueTasks env t s)"
    using ok processLogQueueTasks_ok [OF s(1,2)]
    by (intro pipe_ok_intro [OF ok]) (auto simp: processLogQueueTasks_frame pipe_inv_def)
  with s show ?thesis by (simp add: log_next_def pipe_ok_batches)
qed

lemma run_one_ok:
  assumes ok: "pipe_ok s" and k: "k < length (goroutines s)"
  shows "pipe_ok (run_one env k s)"
proof -
  let ?s1 = "s\<lparr>goroutines := take k (goroutines s) @ drop (Suc k) (goroutines s)\<rparr>"
  have "\<forall>g \<in> set (goroutines s). goroutine_inv T g" using ok by (simp add: pipe_inv_def sys_inv_def)
  then have s1: "sys_ok ?s1" "goroutine_inv T (goroutines s ! k)"
    using ok k by (auto simp: pipe_inv_def sys_inv_def dest: in_set_takeD in_set_dropD)
  show ?thesis unfolding run_one_def
  proof (rule pipe_ok_intro [OF ok run_goroutine_ok [OF s1]])
    show "sem_held (run_goroutine env (goroutines s ! k) ?s1) \<le> MAX_CONCURRENT_LOG_QUEUE_TASKS"
      using run_goroutine_frame(2) [of env "goroutines s ! k" ?s1] sem_held_remove [OF k] ok
      by (simp add: pipe_inv_def split: if_splits)
  qed (simp add: run_goroutine_frame)
qed

lemma handler_step_ok: "handler_step s s' \<Longrightarrow> pipe_ok s \<Longrightarrow> pipe_ok s'"
  by (induction rule: handler_step.induct)
    (simp_all add: niq_poll_ok niq_next_ok niq_commit_ok pend_poll_ok pend_next_ok run_poll_ok
      run_next_ok log_poll_ok log_next_ok run_one_ok)

end

end
