(* ===== verification/Pipeline_Inv.thy ===== *)
theory Pipeline_Inv
  imports Handler_Contract
begin

text \<open>
  The invariant of the running pipeline: the tables satisfy \<open>db_ok\<close>, no channel exceeds its
  capacity, every task in memory carries a live status (a status of the log queue in the log
  queue), and at most 50 sending goroutines exist. The handlers keep it by the contract of
  \<open>Handler_Contract\<close>; uploads, urls, overrides and restarts are added here, so it holds in
  every reachable state.
\<close>

abbreviation task_ok :: "task \<Rightarrow> bool" where "task_ok t \<equiv> live_status (Status t)"
abbreviation log_ok :: "task \<Rightarrow> bool" where "log_ok t \<equiv> log_status (Status t)"

lemma not_in_queue_status:
  "lives_ok d \<Longrightarrow> t \<in> set (not_in_queue_tasks d) \<Longrightarrow> task_ok t"
  by (auto simp: not_in_queue_tasks_def lives_ok_def)

lemma single_stmt_ok: "db_ok d \<Longrightarrow> table_update q \<Longrightarrow> exec_stmt q d = Some d' \<Longrightarrow> db_ok d'"
  by (rule tables.stmt_keeps)

interpretation ok: handler_contract db_ok task_ok log_ok
proof (unfold_locales, goal_cases)
  case (5 d t)
  then show ?case by (intro not_in_queue_status) (auto simp: db_ok_def)
next
  case (6 d t d')
  show ?case by (rule single_stmt_ok [OF 6(1) _ 6(3)]) (use 6 in simp)
next
  case (7 d t d')
  show ?case by (rule single_stmt_ok [OF 7(1) _ 7(4)]) (use 7 in simp)
next
  case (8 d t st d')
  show ?case by (rule single_stmt_ok [OF 8(1) _ 8(4)]) (use 8 in simp)
next
  case (9 d t b d')
  show ?case by (rule single_stmt_ok [OF 9(1) _ 9(3)]) (use 9 in simp)
next
  case (10 d t sc tm a d')
  then show ?case using finish_one_ok by blast
next
  case (11 d sc tm "is" sb a d')
  then show ?case using finish_duplicates_ok by blast
next
  case (12 d i d')
  then show ?case using promote_ok by blast
qed (simp_all add: log_status_def)

subsection \<open>Uploads\<close>

lemma inherited_verdict_ok:
  assumes "verdicts_ok d" and fb: "fst fb \<in> {ALLOW, BLOCK}" "fst (snd fb) \<noteq> []"
    and "inherited_verdict env d m s s2 fb = (v, r, sc)"
  shows "v \<in> {ALLOW, BLOCK}" "r \<noteq> []"
proof -
  let ?rows = "matching_fods d m s s2"
  let ?f = "?rows ! (row_pick env d (SelVerdictRating m s s2) mod length ?rows)"
  have dom: "?rows \<noteq> [] \<Longrightarrow> verdict_domain (fod_final_verdict ?f)"
  proof -
    assume "?rows \<noteq> []"
    then have "?f \<in> set ?rows" by simp
    then have "?f \<in> set (fods d)" by (simp add: matching_fods_def)
    with assms(1) show ?thesis by (simp add: verdicts_ok_def)
  qed
  show "v \<in> {ALLOW, BLOCK}" "r \<noteq> []"
    using assms(4) fb dom
    by (auto simp: inherited_verdict_def verdict_and_rating_def run_select_def Let_def
        verdict_domain_def split: if_splits)
qed

lemma previously_scanned_ok:
  assumes "verdicts_ok d" "fst fb \<in> {ALLOW, BLOCK}" "fst (snd fb) \<noteq> []"
  shows "has_verdict (previously_scanned env fod ip (inherited_verdict env d m s s2 fb))"
    and "fod_status (previously_scanned env fod ip (inherited_verdict env d m s s2 fb)) = PREVIOUSLY_SCANNED_FILE"
proof -
  obtain v r sc where eq: "inherited_verdict env d m s s2 fb = (v, r, sc)"
    by (cases "inherited_verdict env d m s s2 fb")
  from inherited_verdict_ok [OF assms eq] eq
  show "has_verdict (previously_scanned env fod ip (inherited_verdict env d m s s2 fb))"
    "fod_status (previously_scanned env fod ip (inherited_verdict env d m s s2 fb)) = PREVIOUSLY_SCANNED_FILE"
    by (simp_all add: previously_scanned_def has_verdict_def Let_def)
qed

lemma insert_previous_ok:
  assumes "db_ok d" "has_verdict fod" "fod_status fod = PREVIOUSLY_SCANNED_FILE"
  shows "db_ok (snd (insert_previous env fod d))"
proof -
  have "db_ok (snd (gorm_exec env [InsertFod fod] d))"
    by (rule gorm_ok [OF assms(1)]) (rule known_file_ok [OF assms(1) _ assms(2,3)])
  then show ?thesis by (auto simp: insert_previous_def split: prod.splits option.splits)
qed

lemma fallback_ok [simp]:
  "fst clean_fallback = ALLOW" "fst (snd clean_fallback) \<noteq> []"
  "fst malware_fallback = BLOCK" "fst (snd malware_fallback) \<noteq> []"
  by (simp_all add: clean_fallback_def malware_fallback_def)

lemma check_ok:
  assumes "db_ok d"
  shows "db_ok (snd (checkIfHashAlreadyPresent env fod m s s2 ip d))"
proof -
  have "verdicts_ok d" using assms by (simp add: db_ok_def)
  then show ?thesis
    using assms
    by (auto simp: checkIfHashAlreadyPresent_def intro!: insert_previous_ok previously_scanned_ok
        split: sum.splits)
qed

lemma register_file_ok:
  assumes "ok.sys_ok s" "fod_final_verdict fod = []" "fod_status fod = []"
  shows "ok.sys_ok (snd (register_file env fod ip s))"
proof -
  obtain resp d where chk: "checkIfHashAlreadyPresent env fod (fod_md5 fod) (fod_sha fod)
      (fod_sha256 fod) ip (sys_db s) = (resp, d)"
    by (cases "checkIfHashAlreadyPresent env fod (fod_md5 fod) (fod_sha fod) (fod_sha256 fod) ip (sys_db s)")
  have d: "db_ok d"
    using check_ok [OF sys_inv_db [OF assms(1)], of env fod "fod_md5 fod" "fod_sha fod" "fod_sha256 fod" ip]
    by (simp add: chk)
  have "db_ok (snd (gorm_exec env (submission_stmts fod ip n) d))" for n
    by (rule gorm_ok [OF d]) (rule submission_ok [OF d _ assms(2,3)])
  then show ?thesis
    using chk d assms(1) unfolding register_file_def
    by (auto simp: Let_def intro!: ok.spawn_ok sys_inv_db_update split: sum.splits prod.splits option.splits)
      (metis snd_conv)+
qed

lemma store_upload_ok:
  assumes "ok.sys_ok s" "store_upload env form f a s = (r, s')"
  shows "ok.sys_ok s'"
    and "r = Inr fod \<Longrightarrow> fod_final_verdict fod = [] \<and> fod_status fod = []"
  using assms by (auto simp: store_upload_def Let_def new_fod_def zero_fod_def
      split: sum.splits option.splits prod.splits)

lemma CreateFileOnDemand_ok:
  assumes "ok.sys_ok s" "CreateFileOnDemand env profile form a ip s = (resp, s')"
  shows "ok.sys_ok s'"
proof -
  have reg: "ok.sys_ok s2"
    if "store_upload env form f a (s\<lparr>max_allowed_file_size := l\<rparr>) = (Inr fod, s1)"
      "register_file env fod ip s1 = (x, s2)" for f l fod s1 x s2
    using store_upload_ok [OF _ that(1)] register_file_ok [of s1 fod env ip] that(2) assms(1) by auto
  have sto: "ok.sys_ok s1"
    if "store_upload env form f a (s\<lparr>max_allowed_file_size := l\<rparr>) = (y, s1)" for f l y s1
    using store_upload_ok(1) [OF _ that] assms(1) by simp
  show ?thesis
    using assms unfolding CreateFileOnDemand_def
    by (auto simp: Let_def split: if_splits option.splits list.splits sum.splits prod.splits
        intro: reg sto)
qed

lemma register_file_frame:
  "sys.more (snd (register_file env fod ip s)) = sys.more s"
  "sem_held (snd (register_file env fod ip s)) = sem_held s"
  by (auto simp: register_file_def Let_def sem_held_def is_send_def
      split: prod.splits sum.splits option.splits)

lemma store_upload_frame:
  assumes "store_upload env form f a s = (r, s')"
  shows "sys.more s' = sys.more s" "sem_held s' = sem_held s"
  using assms by (auto simp: store_upload_def Let_def sem_held_def
      split: sum.splits option.splits prod.splits)

lemma CreateFileOnDemand_frame:
  assumes "CreateFileOnDemand env profile form a ip s = (resp, s')"
  shows "sys.more s' = sys.more s \<and> sem_held s' = sem_held s"
proof -
  have base: "sem_held (s\<lparr>max_allowed_file_size := l\<rparr>) = sem_held s" for l
    by (simp add: sem_held_def)
  have reg: "sys.more s2 = sys.more s \<and> sem_held s2 = sem_held s"
    if "store_upload env form f a (s\<lparr>max_allowed_file_size := l\<rparr>) = (Inr fod, s1)"
      "register_file env fod ip s1 = (x, s2)" for f l fod s1 x s2
    using store_upload_frame [OF that(1)] register_file_frame [of env fod ip s1] that(2) base by simp
  have sto: "sys.more s1 = sys.more s \<and> sem_held s1 = sem_held s"
    if "store_upload env form f a (s\<lparr>max_allowed_file_size := l\<rparr>) = (y, s1)" for f l y s1
    using store_upload_frame [OF that] base by simp
  show ?thesis
    using assms unfolding CreateFileOnDemand_def
    by (auto simp: Let_def base dest: reg sto
        split: if_splits option.splits list.splits sum.splits prod.splits)
qed

lemma submit_ok:
  assumes "ok.pipe_ok s" "CreateFileOnDemand env profile form a ip s = (resp, s')"
  shows "ok.pipe_ok s'"
  using CreateFileOnDemand_ok [OF ok.pipe_ok_sys [OF assms(1)] assms(2)]
    CreateFileOnDemand_frame [OF assms(2)] assms(1)
  by (intro ok.pipe_ok_intro [OF assms(1)]) (auto simp: pipe_inv_def)

lemma pipe_ok_db:
  fixes s :: pipeline
  assumes "ok.pipe_ok s" "db_ok d"
  shows "ok.pipe_ok (s\<lparr>sys_db := d\<rparr>)"
  using sys_inv_db_update [OF ok.pipe_ok_sys [OF assms(1)] assms(2)]
  by (rule ok.pipe_ok_same [OF assms(1)]) simp_all

lemma pipe_ok_db_ok: "ok.pipe_ok s \<Longrightarrow> db_ok (sys_db s)"
  by (simp add: pipe_inv_def sys_inv_def)

lemma initial_ok: "db_ok d \<Longrightarrow> ok.pipe_ok (initial_state d)"
  by (simp add: pipe_inv_def sys_inv_def initial_state_def sem_held_def)

lemma restart_ok: "ok.pipe_ok s \<Longrightarrow> ok.pipe_ok (restart env w flag s)"
proof -
  assume "ok.pipe_ok s"
  then have "db_ok (fst (ResetQueueDb env w flag (sys_db s)))"
    by (intro ResetQueueDb_ok pipe_ok_db_ok)
  then show ?thesis by (simp add: pipe_inv_def sys_inv_def restart_def sem_held_def)
qed

lemma sys_step_ok: "sys_step s s' \<Longrightarrow> ok.pipe_ok s \<Longrightarrow> ok.pipe_ok s'"
proof (induction rule: sys_step.induct)
  case (Handler s s')
  then show ?case using ok.handler_step_ok by blast
next
  case (Submit env profile form adminName ip s resp s')
  then show ?case using submit_ok by blast
next
  case (Url s env urlName comments adminName organizationKey)
  then show ?case by (simp add: pipe_ok_db CreateUrlOnDemand_ok pipe_ok_db_ok)
next
  case (Override s env session req)
  then show ?case by (simp add: override_step_def pipe_ok_db OverrideVerdict_ok pipe_ok_db_ok)
next
  case (Restart s env writable flag)
  then show ?case by (rule restart_ok)
qed

lemma empty_db_ok: "db_ok (empty_db col hs)"
  by (simp add: db_ok_def empty_db_def keys_ok_def lives_ok_def verdicts_ok_def table_defs)

lemma reachable_ok: "reachable s \<Longrightarrow> ok.pipe_ok s"
  by (induction rule: reachable.induct) (auto intro: initial_ok empty_db_ok sys_step_ok)

end
