(* ===== verification/Sample.thy ===== *)
theory Sample
  imports Pipeline
begin

text \<open>
  A concrete environment and a few concrete values: a database that never fails, scanners
  that find nothing, a sandbox without tasks. The witnesses and the traces evaluate the
  model on them.
\<close>

definition sample_db_env :: db_env where
  "sample_db_env = \<lparr>tx_ok = \<lambda>_ _. True, sel_ok = \<lambda>_ _. True\<rparr>"

definition sample_env :: queue_env where
  "sample_env =
     \<lparr>tx_ok = \<lambda>_ _. True, sel_ok = \<lambda>_ _. True, clamd_scan = \<lambda>_ _. Inr [''OK''],
      kind_extension = \<lambda>_. [], run_tool = \<lambda>_ _. Inr [], fs_writable = True, now = 0,
      list_all_tasks = Inr [], list_machines = Inr [], create_task_file = \<lambda>_ _. Inr 7,
      tasks_report = \<lambda>_. Inr (Some (F 8)), tasks_delete = \<lambda>_. None,
      parse_rfc1123 = \<lambda>_. None, new_request_ok = \<lambda>_. True,
      max_tasks_file = None, timeout_file = None\<rparr>"

definition sample_submit :: submit_env where
  "sample_submit =
     \<lparr>tx_ok = \<lambda>_ _. True, sel_ok = \<lambda>_ _. True, clamd_scan = \<lambda>_ _. Inr [''OK''],
      kind_extension = \<lambda>_. [], run_tool = \<lambda>_ _. Inr [], fs_writable = True, now = 0,
      list_all_tasks = Inr [], list_machines = Inr [], create_task_file = \<lambda>_ _. Inr 7,
      tasks_report = \<lambda>_. Inr (Some (F 8)), tasks_delete = \<lambda>_. None,
      parse_rfc1123 = \<lambda>_. None, new_request_ok = \<lambda>_. True,
      kind_result = \<lambda>_. None, cuckoo_conf = None, mkdir_error = None, create_error = None,
      write_error = None, md5_hex = \<lambda>c. CHR ''a'' # c, sha1_hex = \<lambda>c. CHR ''b'' # c,
      sha256_hex = \<lambda>c. CHR ''c'' # c, row_pick = \<lambda>_ _. 0\<rparr>"

definition sample_profile :: scan_profile where
  "sample_profile = \<lparr>PdfFile = True, OfficeFile = False, ExeFile = False, FlashFile = False,
     WebFile = False, CompressedArchieve = False, AudioFile = False, VideoFile = False,
     TextFile = False, ScriptFile = False, UserAuthenticationKey = []\<rparr>"

definition sample_upload :: multipart_file where
  "sample_upload = \<lparr>mf_filename = ''x.pdf'', mf_size = 1, mf_content_type = [],
     mf_open_error = None, mf_reads = [Inr ''z'', Inr []]\<rparr>"

definition sample_form :: upload_form where
  "sample_form = \<lparr>form_files = [(''filename'', [sample_upload])], form_comments = []\<rparr>"

definition sample_fod :: file_on_demand where
  "sample_fod = zero_fod\<lparr>fod_id := 1, fod_file_name := ''x.pdf'', fod_submitted_time := 0,
     fod_submitted_by := ''ann'', fod_file_count := 1, fod_md5 := ''az'', fod_sha := ''bz'',
     fod_sha256 := ''cz''\<rparr>"

definition sample_task :: task where
  "sample_task = \<lparr>Id = 1, Status = PendingNotInQueue, SandboxId = 0, QueueRetryCount = 0,
     RunningRetryCount = 0, SandboxRetryCount = 0, Md5 = ''az'', SHA = ''bz'', SHA256 = ''cz'',
     LogQueueFailed = False, SubmittedTime = 0, RunningStartedAt = zero_time\<rparr>"

lemmas sample_defs = sample_db_env_def sample_env_def sample_submit_def sample_profile_def
  sample_upload_def sample_form_def sample_fod_def sample_task_def

text \<open>The tables after the first upload.\<close>

definition sample_db :: db where
  "sample_db = (empty_db (\<lambda>s. s) [])\<lparr>fods := [sample_fod], lives := [new_live_row sample_fod]\<rparr>"

definition sample_state :: pipeline where
  "sample_state = (initial_state sample_db)\<lparr>files := [1 \<mapsto> ''z'']\<rparr>"

lemma ext_x_pdf: "filepath_ext ''x.pdf'' = ''.pdf''"
  by (simp add: filepath_ext_def)

lemma pdf_only: "type_loop ''.pdf'' e (profile_fields sample_profile)"
  by (simp add: profile_fields_def sample_profile_def ext_list_def FileExt_def)

lemma show_one: "show_int 1 = ''1''"
  by code_simp

lemma sample_submission:
  "CreateFileOnDemand sample_submit (Inr [sample_profile]) sample_form ''ann'' []
     (initial_state (empty_db (\<lambda>s. s) [])) =
   (Inr (NewSuccessResponse ''Success'' (Some ''File: x.pdf successfully uploaded'')), sample_state)"
  by (simp add: CreateFileOnDemand_def sample_form_def sample_upload_def sample_submit_def
      read_size_limit_def initial_state_def ValidateContentTypeOfFile_def ext_x_pdf pdf_only Let_def
      store_upload_def run_select_def empty_db_def last_fod_id_def new_fod_def form_comment_def
      register_file_def checkIfHashAlreadyPresent_def IsCleanHashFromDb_def IsMalwareHashFromDb_def
      fod_verdict_count_def hash_count_def live_hash_count_def submission_stmts_def
      GormOperations_def ExecQuery_def has_fod_def upload_message_def sample_state_def sample_db_def
      sample_fod_def zero_fod_def new_live_row_def)

end
