(* ===== verification/Lost_Task.thy ===== *)
theory Lost_Task
  imports Pipeline_Inv Sample
begin

text \<open>
  A task can be lost. The goroutine of the pending handler pushes a task into the running
  queue before it logs the status \<open>RunningInQueue\<close>; when the running handler puts the task
  back in between, its \<open>RunningNotInQueue\<close> is logged first and overwritten. The row then says
  that the task is in the running queue, no handler holds it and no poll selects it: it stays
  so until the process restarts. The second interpretation of the handler contract shows that
  no step of the handlers can change this, and a trace of the model reaches it.
\<close>

definition rows_of :: "int \<Rightarrow> db \<Rightarrow> live_row list" where
  "rows_of i d = filter (\<lambda>r. live_id r = i) (lives d)"

definition lost_row :: "live_row \<Rightarrow> bool" where
  "lost_row r \<longleftrightarrow> live_status_col r = RunningInQueue \<and> \<not> live_log_queue_failed r"

definition lost_db :: "int \<Rightarrow> db \<Rightarrow> bool" where
  "lost_db i d \<longleftrightarrow> rows_of i d \<noteq> [] \<and> (\<forall>r \<in> set (rows_of i d). lost_row r)
     \<and> i \<noteq> 0 \<and> i \<notin> dup_ids d \<and> lives_ok d"

text \<open>The task is nowhere in memory: no channel, batch or goroutine holds it.\<close>

definition lost :: "int \<Rightarrow> pipeline \<Rightarrow> bool" where
  "lost i s \<longleftrightarrow>
     pipe_inv (lost_db i) (\<lambda>t. task_ok t \<and> Id t \<noteq> i) (\<lambda>t. log_ok t \<and> Id t \<noteq> i) s"

lemma rows_of_update:
  assumes "\<And>r. P r \<Longrightarrow> live_id r \<noteq> i" "\<And>r. live_id (f r) = live_id r"
  shows "filter (\<lambda>r. live_id r = i) (update_where P f xs) = filter (\<lambda>r. live_id r = i) xs"
  using assms by (induction xs) auto

lemma rows_of_delete:
  "j \<noteq> i \<Longrightarrow> filter (\<lambda>r. live_id r = i) (filter (\<lambda>r. live_id r \<noteq> j) xs) = filter (\<lambda>r. live_id r = i) xs"
  by (induction xs) auto

lemma lost_polled:
  assumes "lost_db i d" "t \<in> set (not_in_queue_tasks d)"
  shows "task_ok t \<and> Id t \<noteq> i"
proof -
  have "task_ok t" using assms not_in_queue_status by (auto simp: lost_db_def)
  moreover have "\<not> not_in_queue_row r" if "r \<in> set (lives d)" "live_id r = i" for r
    using assms(1) that by (auto simp: lost_db_def rows_of_def lost_row_def not_in_queue_row_def)
  then have "Id t \<noteq> i" using assms(2) by (auto simp: not_in_queue_tasks_def)
  ultimately show ?thesis ..
qed

fun touches :: "int \<Rightarrow> stmt \<Rightarrow> bool" where
  "touches i (InsertLive r) = (live_id r = i)"
| "touches i (InsertDuplicate r) = (dup_id r = i)"
| "touches i (DeleteLive j) = (j = i)"
| "touches i (UpdateLiveStatus j _) = (j = i)"
| "touches i (UpdateLiveRow t) = (Id t = i)"
| "touches i (UpdateLogQueueFailed j _) = (j = i)"
| "touches i (UpdateStatusAll _) = True"
| "touches i (UpdateStatusWhere _ _) = True"
| "touches i _ = False"

interpretation untouched: tx_invariant "lost_db i" "\<lambda>q. \<not> touches i q \<and> keeps_live_status q" for i
proof
  fix d q d'
  assume ok: "lost_db i d" and q: "\<not> touches i q \<and> keeps_live_status q" and ex: "exec_stmt q d = Some d'"
  have "lives_ok d'" using live.stmt_keeps ok q ex by (auto simp: lost_db_def)
  moreover have "rows_of i d' = rows_of i d"
    using q ex by (cases q) (auto simp: rows_of_def rows_of_delete
        simp del: filter_filter split: if_splits, (rule rows_of_update; auto)+)
  moreover have "i \<notin> dup_ids d'"
    using ok q ex by (cases q) (auto simp: lost_db_def id_defs split: if_splits)
  ultimately show "lost_db i d'" using ok by (simp add: lost_db_def)
qed

lemma update_untouched: "\<not> touches i (updateFOD j sc tm) \<and> keeps_live_status (updateFOD j sc tm)"
  by (simp add: updateFOD_def Let_def)

interpretation lost: handler_contract "lost_db i" "\<lambda>t. task_ok t \<and> Id t \<noteq> i" "\<lambda>t. log_ok t \<and> Id t \<noteq> i" for i
proof (unfold_locales, goal_cases)
  case (5 d t)
  then show ?case by (rule lost_polled)
next
  case (6 d t d')
  show ?case by (rule untouched.stmt_keeps [OF 6(1) _ 6(3)]) (use 6 in simp)
next
  case (7 d t d')
  show ?case by (rule untouched.stmt_keeps [OF 7(1) _ 7(4)]) (use 7 in simp)
next
  case (8 d t st d')
  show ?case by (rule untouched.stmt_keeps [OF 8(1) _ 8(4)]) (use 8 in simp)
next
  case (9 d t b d')
  show ?case by (rule untouched.stmt_keeps [OF 9(1) _ 9(3)]) (use 9 in simp)
next
  case (10 d t sc tm a d')
  show ?case by (rule untouched.exec_all_keeps [OF 10(1) _ 10(3)])
    (use 10 update_untouched in \<open>simp add: moveTaskToFinishedTable_def\<close>)
next
  case (11 d sc tm "is" sb a d')
  show ?case by (rule untouched.exec_all_keeps [OF 11(1) _ 11(2)])
    (use update_untouched in \<open>simp add: list_all_iff\<close>)
next
  case (12 d j d')
  show ?case by (rule untouched.exec_all_keeps [OF 12(1) _ 12(3)])
    (use 12 in \<open>auto simp: promoted_row_def lost_db_def\<close>)
qed (auto simp: log_status_def)

lemma lost_steps: "rtranclp handler_step s s' \<Longrightarrow> lost i s \<Longrightarrow> lost i s'"
  by (induction rule: rtranclp_induct) (auto simp: lost_def intro: lost.handler_step_ok)

subsection \<open>A trace that loses a task\<close>

definition pending_task :: task where
  "pending_task = sample_task\<lparr>Status := PendingInQueue\<rparr>"
definition sent_task :: task where
  "sent_task = pending_task\<lparr>SandboxId := 7, RunningStartedAt := 0\<rparr>"
definition returned_task :: task where
  "returned_task = sent_task\<lparr>RunningRetryCount := 1\<rparr>"

definition row1 :: live_row where "row1 = new_live_row sample_fod"

definition with_row :: "live_row \<Rightarrow> pipeline \<Rightarrow> pipeline" where
  "with_row r s = s\<lparr>sys_db := sample_db\<lparr>lives := [r]\<rparr>\<rparr>"

definition trace1 :: pipeline where "trace1 = sample_state\<lparr>niq_batch := [sample_task]\<rparr>"
definition trace2 :: pipeline where
  "trace2 = sample_state\<lparr>pendingQ := [pending_task], niq_pending := Some (SetTaskStatus 1 PendingInQueue)\<rparr>"
definition trace3 :: pipeline where
  "trace3 = with_row (row1\<lparr>live_status_col := PendingInQueue\<rparr>) (sample_state\<lparr>pendingQ := [pending_task]\<rparr>)"
definition trace4 :: pipeline where
  "trace4 = with_row (row1\<lparr>live_status_col := PendingInQueue\<rparr>) (sample_state\<lparr>pend_batch := [pending_task]\<rparr>)"
definition trace5 :: pipeline where
  "trace5 = with_row (row1\<lparr>live_status_col := PendingInQueue\<rparr>)
     (sample_state\<lparr>goroutines := [GoSendToSandbox pending_task]\<rparr>)"
definition trace6 :: pipeline where
  "trace6 = with_row (row1\<lparr>live_status_col := PendingInQueue\<rparr>)
     (sample_state\<lparr>runningQ := [sent_task], goroutines := [GoPushStatus sent_task RunningInQueue]\<rparr>)"
definition trace7 :: pipeline where
  "trace7 = with_row (row1\<lparr>live_status_col := PendingInQueue\<rparr>)
     (sample_state\<lparr>run_batch := [sent_task], goroutines := [GoPushStatus sent_task RunningInQueue]\<rparr>)"
definition trace8 :: pipeline where
  "trace8 = with_row (row1\<lparr>live_status_col := PendingInQueue\<rparr>)
     (sample_state\<lparr>logQ := [returned_task\<lparr>Status := RunningNotInQueue\<rparr>],
        goroutines := [GoPushStatus sent_task RunningInQueue]\<rparr>)"
definition trace9 :: pipeline where
  "trace9 = with_row (row1\<lparr>live_status_col := PendingInQueue\<rparr>)
     (sample_state\<lparr>logQ := [returned_task\<lparr>Status := RunningNotInQueue\<rparr>,
        sent_task\<lparr>Status := RunningInQueue\<rparr>]\<rparr>)"
definition trace10 :: pipeline where
  "trace10 = with_row (row1\<lparr>live_status_col := PendingInQueue\<rparr>)
     (sample_state\<lparr>log_batch := [returned_task\<lparr>Status := RunningNotInQueue\<rparr>,
        sent_task\<lparr>Status := RunningInQueue\<rparr>]\<rparr>)"
definition trace11 :: pipeline where
  "trace11 = with_row (row1\<lparr>live_status_col := RunningNotInQueue, live_sandbox_id := 7, live_running_retry := 1\<rparr>)
     (sample_state\<lparr>log_batch := [sent_task\<lparr>Status := RunningInQueue\<rparr>]\<rparr>)"
definition lost_state :: pipeline where
  "lost_state = with_row (row1\<lparr>live_status_col := RunningInQueue, live_sandbox_id := 7\<rparr>) sample_state"

lemmas state_defs = with_row_def row1_def sample_state_def sample_db_def initial_state_def
  empty_db_def pending_task_def sent_task_def returned_task_def sample_task_def sample_fod_def
  zero_fod_def new_live_row_def sample_env_def

lemmas db_run_defs = on_db_def GormOperations_def ExecQuery_def Let_def

lemma e1: "niq_poll sample_env sample_state = trace1"
  by (simp add: niq_poll_def fetchNotInQueueTasks_def run_select_def not_in_queue_tasks_def
      not_in_queue_row_def scan_task_def null_string_def trace1_def state_defs)

lemma tool_pdf: "tool_mode ''.pdf'' = Some ''--docs''" by (simp add: tool_mode_def)

lemma no_malware: "\<not> malware_output []"
  by (simp add: malware_output_def trim_space_def to_lower_def has_prefix_def)

lemma e2: "niq_next sample_env sample_task [] trace1 = trace2"
  by (simp add: niq_next_def niq_enqueue_def niq_decide_def ScanFileThroughClamd_def RES_FOUND_def
      ScanFileThroughQuickScope_def select_fod_def run_select_def lookup_fod_def fod_or_zero_def
      ext_x_pdf tool_pdf no_malware fetchLiveTaskCount_def MAX_FREE_VMS_def niq_push_def push_def
      pushToQueue_def queue_capacity_def getMaxSandboxTasks_def read_int_file_def Let_def
      trace1_def trace2_def state_defs)

lemma e3: "niq_commit sample_env (SetTaskStatus 1 PendingInQueue) trace2 = trace3"
  by (simp add: niq_commit_def updateTaskStatus_def db_run_defs trace2_def trace3_def state_defs)

lemma timeout_default: "pending_timeout sample_env = 15 * go_minute"
  by (simp add: pending_timeout_def getTimeOut_def read_int_file_def sample_env_def TIMEOUT_def
      minutes_exact)

lemma e4: "pend_poll sample_env trace3 = trace4"
  by (simp add: pend_poll_def pending_fetch_def pending_capacity_def fetchAllTasksFromSandbox_def
      FetchSandboxTaskCountWhichAreNotReported_def timeout_default fetchTasksFromQueue_eq
      MAX_FREE_VMS_def Let_def trace3_def trace4_def) (simp add: state_defs)

lemma e5: "pend_next sample_env pending_task [] trace4 = trace5"
  by (simp add: pend_next_def PendingQueueHandler_task_def pending_gives_up_def QUEUE_MAX_RETRIES_def
      spawn_def go_minute_def trace4_def trace5_def state_defs)

lemma e6: "run_one sample_env 0 trace5 = trace6"
  by (simp add: run_one_def pending_goroutine_def sendToSandbox_def push_def pushToQueue_def
      queue_capacity_def spawn_def Let_def trace5_def trace6_def state_defs)

lemma e7: "run_poll sample_env trace6 = trace7"
  by (simp add: run_poll_def running_fetch_def fetchAllTasksFromSandbox_def fetchTasksFromQueue_eq
      getTimeOut_def read_int_file_def TIMEOUT_def minutes_exact Let_def trace6_def trace7_def state_defs)

lemma e8: "run_next sample_env sent_task [] trace7 = trace8"
  by (simp add: run_next_def RunningQueueHandler_task_def changeStatusAndPushToLogQueue_def
      RUNNING_MAX_RETRIES_def push_def pushToQueue_def queue_capacity_def Let_def trace7_def trace8_def
      state_defs)

lemma e9: "run_one sample_env 0 trace8 = trace9"
  by (simp add: run_one_def changeStatusAndPushToLogQueue_def push_def pushToQueue_def
      queue_capacity_def Let_def trace8_def trace9_def state_defs)

lemma e10: "log_poll trace9 = trace10"
  by (simp add: log_poll_def LogQueueHandler_fetch_def fetchTasksFromQueue_eq batchSize_def
      trace9_def trace10_def state_defs)

lemma e11: "log_next sample_env (returned_task\<lparr>Status := RunningNotInQueue\<rparr>)
    [sent_task\<lparr>Status := RunningInQueue\<rparr>] trace10 = trace11"
  by (simp add: log_next_def processLogQueueTasks_def updateStatusChangeDirectlyThroughDb_def
      db_run_defs trace10_def trace11_def state_defs)

lemma e12: "log_next sample_env (sent_task\<lparr>Status := RunningInQueue\<rparr>) [] trace11 = lost_state"
  by (simp add: log_next_def processLogQueueTasks_def updateStatusChangeDirectlyThroughDb_def
      db_run_defs trace11_def lost_state_def state_defs)

end
