(* ===== verification/Pipeline_Props.thy ===== *)
theory Pipeline_Props
  imports Lost_Task
begin

text \<open>
  What the pipeline guarantees, and where it does not: the safety of uploads over every
  interleaving, the effect of the finishing transactions, the verdicts that follow from the
  scanners, from an overload and from lost status changes, and the behaviour around restarts.
\<close>

subsection \<open>Reachable states\<close>

lemma handler_reachable: "reachable s \<Longrightarrow> handler_step s s' \<Longrightarrow> reachable s'"
  using reachable.Step sys_step.Handler by blast

lemma sample_reachable: "reachable sample_state"
  by (rule reachable.Step [OF reachable.Init sys_step.Submit [OF sample_submission]])

lemma h1: "handler_step sample_state trace1"
  unfolding e1 [symmetric] by (rule handler_step.Niq_Poll) (simp_all add: sample_state_def initial_state_def)

lemma h2: "handler_step trace1 trace2"
  unfolding e2 [symmetric] by (rule handler_step.Niq_Next) (simp_all add: trace1_def state_defs)

lemma h3: "handler_step trace2 trace3"
  unfolding e3 [symmetric] by (rule handler_step.Niq_Commit) (simp_all add: trace2_def)

lemma h4: "handler_step trace3 trace4"
  unfolding e4 [symmetric] by (rule handler_step.Pend_Poll) (simp_all add: trace3_def state_defs)

lemma h5: "handler_step trace4 trace5"
  unfolding e5 [symmetric] by (rule handler_step.Pend_Next) (simp_all add: trace4_def state_defs sem_held_def MAX_CONCURRENT_LOG_QUEUE_TASKS_def)

lemma h6: "handler_step trace5 trace6"
  unfolding e6 [symmetric] by (rule handler_step.Goroutine) (simp_all add: trace5_def state_defs)

lemma h7: "handler_step trace6 trace7"
  unfolding e7 [symmetric] by (rule handler_step.Run_Poll) (simp_all add: trace6_def state_defs)

lemma h8: "handler_step trace7 trace8"
  unfolding e8 [symmetric] by (rule handler_step.Run_Next) (simp_all add: trace7_def state_defs)

lemma h9: "handler_step trace8 trace9"
  unfolding e9 [symmetric] by (rule handler_step.Goroutine) (simp_all add: trace8_def state_defs)

lemma h10: "handler_step trace9 trace10"
  unfolding e10 [symmetric] by (rule handler_step.Log_Poll) (simp_all add: trace9_def state_defs)

lemma h11: "handler_step trace10 trace11"
  unfolding e11 [symmetric] by (rule handler_step.Log_Next) (simp_all add: trace10_def state_defs)

lemma h12: "handler_step trace11 lost_state"
  unfolding e12 [symmetric] by (rule handler_step.Log_Next) (simp_all add: trace11_def state_defs)

lemma lost_state_reachable: "reachable lost_state"
  using sample_reachable h1 h2 h3 h4 h5 h6 h7 h8 h9 h10 h11 h12
  by (meson handler_reachable)

lemma lost_state_lost: "lost 1 lost_state"
  by (simp add: lost_def pipe_inv_def sys_inv_def lost_db_def lost_row_def rows_of_def lost_state_def
      sem_held_def lives_ok_def dup_ids_def state_defs)

text \<open>C4: a task can be lost: a reachable state has task 1 live with the status of a queued task
  while no handler, channel or goroutine holds it.\<close>

theorem lost_task_reachable: "reachable lost_state \<and> lost 1 lost_state"
  by (simp add: lost_state_reachable lost_state_lost)

text \<open>C5: no sequence of handler steps brings a lost task back: its row keeps saying that it is
  in the running queue, and no channel ever holds it again.\<close>

theorem lost_forever:
  assumes "lost i s" "rtranclp handler_step s s'"
  shows "(\<exists>r \<in> set (lives (sys_db s')). live_id r = i \<and> live_status_col r = RunningInQueue)
    \<and> (\<forall>t \<in> set (pendingQ s') \<union> set (runningQ s') \<union> set (logQ s'). Id t \<noteq> i)"
proof -
  have inv: "lost i s'" by (rule lost_steps [OF assms(2,1)])
  then have "lost_db i (sys_db s')" by (simp add: lost_def pipe_inv_def sys_inv_def)
  then obtain r where "r \<in> set (rows_of i (sys_db s'))" "lost_row r"
    by (auto simp: lost_db_def) (metis list.set_intros(1) neq_Nil_conv)
  then have "\<exists>r \<in> set (lives (sys_db s')). live_id r = i \<and> live_status_col r = RunningInQueue"
    by (auto simp: rows_of_def lost_row_def)
  with inv show ?thesis by (auto simp: lost_def pipe_inv_def sys_inv_def)
qed

theorem lost_forever_witness:
  "\<exists>r \<in> set (lives (sys_db lost_state)). live_id r = 1 \<and> live_status_col r = RunningInQueue"
  using lost_forever [OF lost_state_lost rtranclp.rtrancl_refl] by blast

subsection \<open>Safety over every interleaving\<close>

text \<open>C1: no upload is forgotten by the tables: in every reachable state each file of \<open>file_on_demands\<close> has
  a row in the live table or in the table of duplicates, or it has a rating and a final verdict; a file
  that is recorded as finished always has them. A duplicate need not be one of a live file
  (\<open>promoted_duplicate_strands_others\<close>).\<close>

theorem every_upload_accounted:
  assumes "reachable s" "f \<in> set (fods (sys_db s))"
  shows "(fod_id f \<in> live_ids (sys_db s) \<union> dup_ids (sys_db s)
      \<or> (fod_final_verdict f \<in> {ALLOW, BLOCK} \<and> fod_rating f \<noteq> []))
    \<and> (fod_id f \<in> fin_ids (sys_db s) \<longrightarrow> fod_final_verdict f \<in> {ALLOW, BLOCK} \<and> fod_rating f \<noteq> [])"
  using pipe_ok_db_ok [OF reachable_ok [OF assms(1)]] assms(2)
  by (auto simp: db_ok_def accounted_def settled_def tracked_def has_verdict_def)

theorem every_upload_accounted_witness:
  "1 \<in> live_ids (sys_db sample_state) \<union> dup_ids (sys_db sample_state)
   \<or> (fod_final_verdict sample_fod \<in> {ALLOW, BLOCK} \<and> fod_rating sample_fod \<noteq> [])"
  using every_upload_accounted [OF sample_reachable, of sample_fod]
  by (simp add: sample_state_def sample_db_def initial_state_def sample_fod_def)

text \<open>C9: in every reachable state file ids are unique, the three task tables refer to existing
  files and every live row has one of the four live statuses.\<close>

theorem pipeline_tables:
  assumes "reachable s"
  shows "distinct (map fod_id (fods (sys_db s)))
    \<and> live_ids (sys_db s) \<union> dup_ids (sys_db s) \<union> fin_ids (sys_db s) \<subseteq> fod_ids (sys_db s)
    \<and> live_status_col ` set (lives (sys_db s))
        \<subseteq> {PendingNotInQueue, PendingInQueue, RunningNotInQueue, RunningInQueue}"
  using pipe_ok_db_ok [OF reachable_ok [OF assms]]
  by (auto simp: db_ok_def keys_ok_def lives_ok_def live_status_def)

theorem pipeline_tables_witness:
  "distinct (map fod_id (fods (sys_db sample_state)))"
  using pipeline_tables [OF sample_reachable] by simp

text \<open>C16: in every reachable state no channel holds more than 5000 tasks and at most 50 goroutines
  send to the sandbox.\<close>

theorem pipeline_bounds:
  assumes "reachable s"
  shows "length (pendingQ s) \<le> 5000 \<and> length (runningQ s) \<le> 5000 \<and> length (logQ s) \<le> 5000
    \<and> sem_held s \<le> 50"
  using reachable_ok [OF assms]
  by (simp add: pipe_inv_def sys_inv_def queue_capacity_def MAX_CONCURRENT_LOG_QUEUE_TASKS_def)

theorem pipeline_bounds_witness: "length (pendingQ sample_state) \<le> 5000"
  using pipeline_bounds [OF sample_reachable] by simp

subsection \<open>Finishing a task\<close>

text \<open>The rows after the files with the given ids got a score.\<close>

definition scored :: "int set \<Rightarrow> f32 \<Rightarrow> int \<Rightarrow> file_on_demand \<Rightarrow> file_on_demand" where
  "scored ids sc tm f =
     (if fod_id f \<in> ids then f\<lparr>fod_score := sc, fod_rating := verdict_string (GetVerdict sc),
        fod_final_verdict := score_verdict sc, fod_finished_time := Some tm\<rparr> else f)"

lemma scored_id [simp]: "fod_id (scored A sc tm f) = fod_id f"
  by (simp add: scored_def)

lemma scored_ids [simp]: "fod_id ` scored A sc tm ` X = fod_id ` X"
  by (simp add: image_image)

lemma exec_updateFOD:
  "exec_stmt (updateFOD i sc tm) d = Some (d\<lparr>fods := map (scored {i} sc tm) (fods d)\<rparr>)"
  by (auto simp: updateFOD_def Let_def update_where_def scored_def)

lemma scored_insert: "scored A sc tm (scored {i} sc tm f) = scored (insert i A) sc tm f"
  by (simp add: scored_def)

lemma exec_score_updates:
  "exec_all (map (\<lambda>i. updateFOD i sc tm) is) d = Some (d\<lparr>fods := map (scored (set is) sc tm) (fods d)\<rparr>)"
proof (induction "is" arbitrary: d)
  case Nil
  have "map (scored {} sc tm) (fods d) = fods d" by (rule map_idI) (simp add: scored_def)
  then show ?case by simp
next
  case (Cons i "is")
  then show ?case by (simp add: exec_updateFOD scored_insert comp_def)
qed

lemma exec_all_split: "exec_all ps d = Some d1 \<Longrightarrow> exec_all (ps @ qs) d = exec_all qs d1"
  by (simp add: exec_all_append)

lemma exec_finish_one:
  assumes "Id t \<in> fod_ids d"
  shows "exec_all (updateFOD (Id t) sc tm # moveTaskToFinishedTable t a) d =
    Some (d\<lparr>fods := map (scored {Id t} sc tm) (fods d),
            lives := filter (\<lambda>r. live_id r \<noteq> Id t) (lives d),
            finished := finished d @ [\<lparr>fin_id = Id t, fin_sandbox_id = SandboxId t, fin_aborted = a\<rparr>]\<rparr>)"
  using assms by (simp add: exec_updateFOD moveTaskToFinishedTable_def has_fod_def fod_ids_def)

lemma exec_finish_duplicates:
  assumes "set is \<subseteq> fod_ids d"
  shows "exec_all (map (\<lambda>i. updateFOD i sc tm) is @
      [InsertFinished (map (\<lambda>i. \<lparr>fin_id = i, fin_sandbox_id = sb, fin_aborted = a\<rparr>) is),
       DeleteDuplicates is]) d =
    Some (d\<lparr>fods := map (scored (set is) sc tm) (fods d),
      finished := finished d @ map (\<lambda>i. \<lparr>fin_id = i, fin_sandbox_id = sb, fin_aborted = a\<rparr>) is,
      dups := filter (\<lambda>r. dup_id r \<notin> set is) (dups d)\<rparr>)"
  using assms by (auto simp: exec_all_append exec_score_updates has_fod_def fod_ids_def list_all_iff)

lemma duplicate_ids_sub: "set (duplicate_ids d t) \<subseteq> dup_ids d"
  by (auto simp: duplicate_ids_def dup_ids_def)

text \<open>The whole transaction of a reported task.\<close>

definition reported_db :: "task \<Rightarrow> f32 \<Rightarrow> int \<Rightarrow> db \<Rightarrow> db" where
  "reported_db t sc tm d =
     (let ds = duplicate_ids d t in
      d\<lparr>fods := map (scored (insert (Id t) (set ds)) sc tm) (fods d),
        lives := filter (\<lambda>r. live_id r \<noteq> Id t) (lives d),
        finished := finished d @ map (\<lambda>(i, a). \<lparr>fin_id = i, fin_sandbox_id = SandboxId t, fin_aborted = a\<rparr>)
          ((Id t, False) # map (\<lambda>i. (i, False)) ds),
        dups := filter (\<lambda>r. dup_id r \<notin> set ds) (dups d)\<rparr>)"

lemma scored_scored: "scored A sc tm (scored B sc tm f) = scored (A \<union> B) sc tm f"
  by (simp add: scored_def)

lemma finish_reported_db:
  assumes env: "healthy env" and keys: "keys_ok (sys_db s)" and t: "Id t \<in> fod_ids (sys_db s)"
  shows "sys_db (finish_reported env t sc s) = reported_db t sc (now env) (sys_db s)"
proof -
  let ?d = "sys_db s" and ?ds = "duplicate_ids (sys_db s) t"
  have sub: "set ?ds \<subseteq> fod_ids ?d" using duplicate_ids_sub [of ?d t] keys by (auto simp: keys_ok_def)
  let ?q = "map (\<lambda>i. updateFOD i sc (now env)) ?ds @
         [InsertFinished (map (\<lambda>i. \<lparr>fin_id = i, fin_sandbox_id = SandboxId t, fin_aborted = False\<rparr>) ?ds),
          DeleteDuplicates ?ds]"
  obtain qs where qs: "processDuplicateTasksForReported env t sc (now env) ?d = (?ds, qs)"
      "?ds = [] \<Longrightarrow> qs = []" "?ds \<noteq> [] \<Longrightarrow> qs = ?q"
    using env that [of "if ?ds = [] then [] else ?q"]
    by (simp add: processDuplicateTasksForReported_def Let_def)
  have "exec_all (updateFOD (Id t) sc (now env) # moveTaskToFinishedTable t False @ qs) ?d
      = Some (reported_db t sc (now env) ?d)"
  proof (cases "?ds = []")
    case True
    have "filter (\<lambda>r. True) (dups ?d) = dups ?d" by simp
    with True qs(2) exec_finish_one [OF t, of sc "now env" False] show ?thesis
      by (simp add: reported_db_def)
  next
    case False
    let ?d1 = "?d\<lparr>fods := map (scored {Id t} sc (now env)) (fods ?d),
        lives := filter (\<lambda>r. live_id r \<noteq> Id t) (lives ?d),
        finished := finished ?d @ [\<lparr>fin_id = Id t, fin_sandbox_id = SandboxId t, fin_aborted = False\<rparr>]\<rparr>"
    have sub1: "set ?ds \<subseteq> fod_ids ?d1" using sub by (simp add: fod_ids_def)
    have "exec_all (updateFOD (Id t) sc (now env) # moveTaskToFinishedTable t False @ qs) ?d = exec_all qs ?d1"
      unfolding append_Cons [symmetric] by (rule exec_all_split [OF exec_finish_one [OF t]])
    also have "\<dots> = Some (reported_db t sc (now env) ?d)"
      unfolding qs(3) [OF False] exec_finish_duplicates [OF sub1]
      by (simp add: reported_db_def Let_def comp_def scored_scored)
    finally show ?thesis .
  qed
  then show ?thesis
    using env qs(1)
    by (simp add: finish_reported_def Let_def on_db_def healthy_exec)
qed

lemma finish_reported_facts:
  assumes "healthy env" "keys_ok (sys_db s)" "Id t \<in> fod_ids (sys_db s)"
    and "ids = insert (Id t) (set (duplicate_ids (sys_db s) t))"
    and "d' = sys_db (finish_reported env t sc s)"
  shows "Id t \<notin> live_ids d' \<and> dup_ids d' = dup_ids (sys_db s) - set (duplicate_ids (sys_db s) t)
    \<and> fin_ids d' = fin_ids (sys_db s) \<union> ids
    \<and> (\<forall>f \<in> set (fods d'). fod_id f \<in> ids \<longrightarrow>
          fod_score f = sc \<and> fod_rating f = verdict_string (GetVerdict sc)
          \<and> fod_final_verdict f = score_verdict sc \<and> fod_finished_time f = Some (now env))
    \<and> filter (\<lambda>f. fod_id f \<notin> ids) (fods d') = filter (\<lambda>f. fod_id f \<notin> ids) (fods (sys_db s))"
proof -
  have d': "d' = reported_db t sc (now env) (sys_db s)"
    using finish_reported_db [OF assms(1-3)] assms(5) by simp
  have keep: "filter (\<lambda>f. fod_id f \<notin> ids) (map (scored ids sc tm) xs) = filter (\<lambda>f. fod_id f \<notin> ids) xs" for xs tm
    by (induction xs) (auto simp: scored_def)
  have fods: "fods d' = map (scored ids sc (now env)) (fods (sys_db s))"
    by (simp add: d' reported_db_def Let_def assms(4))
  have fins: "fin_ids d' = fin_ids (sys_db s) \<union> ids"
    by (auto simp: d' reported_db_def Let_def assms(4) fin_ids_def image_Un fin_row_ids image_image)
  have "Id t \<notin> live_ids d'" "dup_ids d' = dup_ids (sys_db s) - set (duplicate_ids (sys_db s) t)"
    by (auto simp: d' reported_db_def Let_def id_defs)
  with fods fins keep show ?thesis by (auto simp: scored_def)
qed

text \<open>C3: finishing a task with a score, the database working: the task leaves the live table
  and is recorded as finished together with every duplicate of its hashes, which leave the
  duplicate table; all of these files get the score, its rating and its verdict, and every
  other file keeps its row.\<close>

theorem finish_reported_effect:
  assumes "healthy env" "keys_ok (sys_db s)" "Id t \<in> fod_ids (sys_db s)"
    and "ids = insert (Id t) (set (duplicate_ids (sys_db s) t))"
    and "d' = sys_db (finish_reported env t sc s)"
  shows "Id t \<notin> live_ids d' \<and> dup_ids d' = dup_ids (sys_db s) - set (duplicate_ids (sys_db s) t)
    \<and> fin_ids d' = fin_ids (sys_db s) \<union> ids
    \<and> (\<forall>f \<in> set (fods d'). fod_id f \<in> ids \<longrightarrow>
          fod_score f = sc \<and> fod_rating f = verdict_string (GetVerdict sc)
          \<and> fod_final_verdict f = score_verdict sc \<and> fod_finished_time f = Some (now env))
    \<and> filter (\<lambda>f. fod_id f \<notin> ids) (fods d') = filter (\<lambda>f. fod_id f \<notin> ids) (fods (sys_db s))"
  using finish_reported_facts [OF assms] .

end
