(* ===== verification/Verdict_Props.thy ===== *)
theory Verdict_Props
  imports Pipeline_Props
begin

text \<open>
  The verdicts the pipeline gives: a file a scanner flags is blocked, a file whose analysis is
  given up is allowed, and what happens to tasks whose status change did not fit into the log
  queue, to duplicates of an aborted file, to failing sandbox calls and after a restart.
\<close>

subsection \<open>Finishing transactions\<close>

lemma in_fod_ids: "f \<in> set (fods d) \<Longrightarrow> fod_id f = i \<Longrightarrow> i \<in> fod_ids d"
  by (auto simp: fod_ids_def)

lemma finish_aborted_fods:
  assumes env: "healthy env" and keys: "keys_ok (sys_db s)" and t: "Id t \<in> fod_ids (sys_db s)"
  shows "fods (sys_db (finish_aborted env t s)) = map (scored {Id t} (F 0) (now env)) (fods (sys_db s))
    \<and> collation (sys_db (finish_aborted env t s)) = collation (sys_db s)"
proof -
  let ?d = "sys_db s"
  let ?d1 = "?d\<lparr>fods := map (scored {Id t} (F 0) (now env)) (fods ?d),
      lives := filter (\<lambda>r. live_id r \<noteq> Id t) (lives ?d),
      finished := finished ?d @ [\<lparr>fin_id = Id t, fin_sandbox_id = SandboxId t, fin_aborted = True\<rparr>]\<rparr>"
  let ?qs = "processDuplicateTasksForAborted env t ?d"
  have "\<exists>d'. exec_all ?qs ?d1 = Some d' \<and> fods d' = fods ?d1 \<and> collation d' = collation ?d"
  proof (cases "duplicate_ids ?d t = []")
    case True
    with env have "?qs = []" by (simp add: processDuplicateTasksForAborted_def Let_def)
    then show ?thesis by simp
  next
    case False
    let ?i = "first_duplicate ?d t"
    have "?i \<in> fod_ids ?d" using first_duplicate_in [OF False] keys by (auto simp: keys_ok_def)
    moreover have "?qs = [InsertLive (promoted_row ?i), DeleteDuplicates [?i]]"
      using env False by (simp add: processDuplicateTasksForAborted_def Let_def)
    ultimately show ?thesis by (simp add: has_fod_def fod_ids_def promoted_row_def)
  qed
  then obtain d' where d': "exec_all ?qs ?d1 = Some d'" "fods d' = fods ?d1" "collation d' = collation ?d"
    by blast
  have "exec_all (updateFOD (Id t) (F 0) (now env) # moveTaskToFinishedTable t True @ ?qs) ?d = Some d'"
    unfolding append_Cons [symmetric]
    by (subst exec_all_split [OF exec_finish_one [OF t]]) (rule d'(1))
  with env d' show ?thesis
    by (simp add: finish_aborted_def Let_def on_db_def healthy_exec)
qed

lemma aborted_clean:
  assumes "healthy env" "healthy env'" "keys_ok (sys_db s)" "f \<in> set (fods (sys_db s))" "fod_id f = Id t"
    and "trim_space h = fod_md5 f" "fod_md5 f \<noteq> []"
  shows "FileFromFireWall env' (sys_db (finish_aborted env t s)) h = FW_CLEAN"
proof -
  let ?d = "sys_db (finish_aborted env t s)"
  have "Id t \<in> fod_ids (sys_db s)" by (rule in_fod_ids [OF assms(4,5)])
  with finish_aborted_fods [OF assms(1,3)]
  have fods: "fods ?d = map (scored {Id t} (F 0) (now env)) (fods (sys_db s))" by blast
  have "scored {Id t} (F 0) (now env) f \<in> set (fods ?d)" using assms(4) by (simp add: fods)
  moreover have "fod_hash_match ?d (fod_md5 f) (fod_md5 f) (fod_md5 f) (scored {Id t} (F 0) (now env) f)"
      "fod_final_verdict (scored {Id t} (F 0) (now env) f) = ALLOW"
    using assms(5) by (simp_all add: fod_hash_match_def hash_match_def ceq_def scored_def score_verdict_def)
  ultimately have "0 < fod_verdict_count ?d (fod_md5 f) (fod_md5 f) (fod_md5 f) ALLOW"
    unfolding fod_verdict_count_def by (auto simp: filter_empty_conv)
  then show ?thesis
    using assms(2,6,7)
    by (simp add: FileFromFireWall_def IsMalwareHashFromDb_def IsCleanHashFromDb_def Let_def)
qed

text \<open>Giving up is failing open: once a task was aborted, the firewall is told that the hash
  of its file is clean, whatever the file contains.\<close>

theorem aborted_hash_is_clean:
  assumes "healthy env" "healthy env'" "keys_ok (sys_db s)" "f \<in> set (fods (sys_db s))" "fod_id f = Id t"
    and "trim_space h = fod_md5 f" "fod_md5 f \<noteq> []"
  shows "FileFromFireWall env' (sys_db (finish_aborted env t s)) h = FW_CLEAN"
  by (rule aborted_clean [OF assms])

lemma healthy_sample: "healthy sample_env" "healthy sample_db_env" "healthy sample_submit"
  by (simp_all add: healthy_def sample_defs)

lemma sample_keys: "keys_ok (sys_db sample_state)"
  using pipe_ok_db_ok [OF reachable_ok [OF sample_reachable]] by (simp add: db_ok_def)

lemma sample_fods: "fods (sys_db sample_state) = [sample_fod]"
  by (simp add: sample_state_def initial_state_def sample_db_def)

lemma sample_ids: "fod_id sample_fod = 1" "Id sample_task = 1" "1 \<in> fod_ids (sys_db sample_state)"
  by (simp_all add: fod_ids_def sample_fods sample_fod_def sample_task_def)

theorem aborted_hash_is_clean_witness:
  "FileFromFireWall sample_db_env (sys_db (finish_aborted sample_env sample_task sample_state)) '' az'' = FW_CLEAN"
proof (rule aborted_hash_is_clean [OF healthy_sample(1,2) sample_keys])
  show "sample_fod \<in> set (fods (sys_db sample_state))" by (simp add: sample_fods)
  show "trim_space '' az'' = fod_md5 sample_fod" by (simp add: sample_fod_def trim_space_def is_space_def)
qed (simp_all add: sample_ids, simp add: sample_fod_def)

theorem finish_reported_effect_witness:
  "fod_final_verdict (scored {1} (F 8) 0 sample_fod) = BLOCK \<and>
   1 \<notin> live_ids (sys_db (finish_reported sample_env sample_task (F 8) sample_state))"
  using finish_reported_effect [OF healthy_sample(1) sample_keys, of sample_task _ _ "F 8"]
  by (simp add: sample_ids scored_def score_verdict_def)

text \<open>A file that ClamAV flags is blocked: the poll logs it as reported through ClamAV, and
  handling that log entry gives the file a score of 3.5, the rating Medium and the verdict block.\<close>

theorem clamd_malware_blocked:
  assumes "healthy env" "keys_ok (sys_db s)" "f \<in> set (fods (sys_db s))" "fod_id f = Id t"
    and "\<not> LogQueueFailed t" "Status t = PendingNotInQueue" "length (logQ s) < queue_capacity"
    and "clamd_scan env (file_path (Id t)) (files s (Id t)) = Inr answers" "RES_FOUND \<in> set answers"
    and "s1 = NotInQueueHandler_task env t s"
  shows "logQ s1 = logQ s @ [t\<lparr>Status := ReportedThroughClamd\<rparr>]
    \<and> (\<forall>g \<in> set (fods (sys_db (processLogQueueTasks env (t\<lparr>Status := ReportedThroughClamd\<rparr>) s1))).
         fod_id g = Id t \<longrightarrow> fod_final_verdict g = BLOCK \<and> fod_rating g = ''Medium'')"
proof -
  have scan: "ScanFileThroughClamd env (files s) t = (True, None)"
    using assms(8,9) by (simp add: ScanFileThroughClamd_def any_found_iff)
  have s1: "s1 = snd (on_db (updateLogQueueFail env (Id t) False)
      (s\<lparr>logQ := logQ s @ [t\<lparr>Status := ReportedThroughClamd\<rparr>]\<rparr>))"
    using assms(5-7,10) scan
    by (simp add: NotInQueueHandler_task_def niq_enqueue_def niq_decide_def niq_push_def push_def
        pushToQueue_def Let_def)
  obtain d1 where d1: "sys_db s1 = d1" "fods d1 = fods (sys_db s)" "keys_ok d1"
      "logQ s1 = logQ s @ [t\<lparr>Status := ReportedThroughClamd\<rparr>]"
    using assms(1,2) keys.gorm_keeps [OF assms(2), of "[UpdateLogQueueFailed (Id t) False]" env]
    by (simp add: s1 on_db_def updateLogQueueFail_def healthy_exec)
  let ?t = "t\<lparr>Status := ReportedThroughClamd\<rparr>"
  have id: "Id ?t \<in> fod_ids (sys_db s1)" using in_fod_ids [OF assms(3,4)] d1 by (simp add: fod_ids_def)
  have keys: "keys_ok (sys_db s1)" using d1 by simp
  from finish_reported_facts [OF assms(1) keys id refl refl, of scanner_score]
  show ?thesis using d1(4)
    by (simp add: processLogQueueTasks_def scanner_score_def score_verdict_def GetVerdict_def f32_le_def)
qed

definition clamd_env :: queue_env where
  "clamd_env = sample_env\<lparr>clamd_scan := \<lambda>_ _. Inr [''FOUND'']\<rparr>"

theorem clamd_malware_blocked_witness:
  "logQ (NotInQueueHandler_task clamd_env sample_task sample_state)
     = [sample_task\<lparr>Status := ReportedThroughClamd\<rparr>]"
proof -
  have env: "healthy clamd_env" by (simp add: healthy_def clamd_env_def sample_env_def)
  have f: "sample_fod \<in> set (fods (sys_db sample_state))" "fod_id sample_fod = Id sample_task"
    by (simp_all add: sample_fods sample_ids)
  have t: "\<not> LogQueueFailed sample_task" "Status sample_task = PendingNotInQueue"
      "length (logQ sample_state) < queue_capacity"
    by (simp_all add: sample_task_def sample_state_def initial_state_def queue_capacity_def)
  have scan: "clamd_scan clamd_env (file_path (Id sample_task)) (files sample_state (Id sample_task))
      = Inr [''FOUND'']" "RES_FOUND \<in> set [''FOUND'']"
    by (simp_all add: clamd_env_def RES_FOUND_def)
  from clamd_malware_blocked [OF env sample_keys f t scan refl]
  show ?thesis by (simp add: sample_state_def initial_state_def)
qed

text \<open>an unscanned file is allowed when the appliance is busy: with five or more live tasks a
  new file that the two scanners do not flag is logged as aborted without being sent to the
  sandbox, and handling that entry gives it the verdict allow.\<close>

theorem overload_allows_unanalysed:
  assumes "healthy env" "keys_ok (sys_db s)" "f \<in> set (fods (sys_db s))" "fod_id f = Id t"
    and "\<not> LogQueueFailed t" "Status t = PendingNotInQueue" "length (logQ s) < queue_capacity"
    and "\<not> fst (ScanFileThroughClamd env (files s) t)"
    and "\<not> fst (fst (ScanFileThroughQuickScope env (sys_db s) (files s) t))"
    and "5 \<le> length (lives (sys_db s))" "s1 = NotInQueueHandler_task env t s"
  shows "logQ s1 = logQ s @ [t\<lparr>Status := Aborted\<rparr>] \<and> pendingQ s1 = pendingQ s
    \<and> (\<forall>g \<in> set (fods (sys_db (processLogQueueTasks env (t\<lparr>Status := Aborted\<rparr>) s1))).
         fod_id g = Id t \<longrightarrow> fod_final_verdict g = ALLOW \<and> fod_rating g = ''Clean'')"
proof -
  obtain err where clam: "ScanFileThroughClamd env (files s) t = (False, err)"
    using assms(8) by (cases "ScanFileThroughClamd env (files s) t") auto
  obtain err' fs where qs: "ScanFileThroughQuickScope env (sys_db s) (files s) t = ((False, err'), fs)"
    using assms(9) by (cases "ScanFileThroughQuickScope env (sys_db s) (files s) t") auto
  have many: "MAX_FREE_VMS \<le> int (length (lives (sys_db s)))"
    using assms(10) by (simp add: MAX_FREE_VMS_def)
  have s1: "s1 = snd (on_db (updateLogQueueFail env (Id t) False)
      (s\<lparr>files := fs, max_sandbox_tasks := getMaxSandboxTasks env (max_sandbox_tasks s),
         logQ := logQ s @ [t\<lparr>Status := Aborted\<rparr>]\<rparr>))"
    using assms(1,5-7,11) clam qs many
    by (simp add: NotInQueueHandler_task_def niq_enqueue_def niq_decide_def niq_push_def push_def
        pushToQueue_def fetchLiveTaskCount_def Let_def)
  obtain d1 where d1: "sys_db s1 = d1" "fods d1 = fods (sys_db s)" "keys_ok d1"
      "logQ s1 = logQ s @ [t\<lparr>Status := Aborted\<rparr>]" "pendingQ s1 = pendingQ s"
    using assms(1,2) keys.gorm_keeps [OF assms(2), of "[UpdateLogQueueFailed (Id t) False]" env]
    by (simp add: s1 on_db_def updateLogQueueFail_def healthy_exec)
  let ?t = "t\<lparr>Status := Aborted\<rparr>"
  have id: "Id ?t \<in> fod_ids (sys_db s1)" using in_fod_ids [OF assms(3,4)] d1 by (simp add: fod_ids_def)
  have keys: "keys_ok (sys_db s1)" using d1 by simp
  from finish_aborted_fods [OF assms(1) keys id] show ?thesis
    using d1(4,5)
    by (auto simp: processLogQueueTasks_def scored_def score_verdict_def GetVerdict_def)
qed

definition busy_state :: pipeline where
  "busy_state = sample_state\<lparr>sys_db := sample_db\<lparr>lives := replicate 5 (new_live_row sample_fod)\<rparr>\<rparr>"

theorem overload_allows_unanalysed_witness:
  "logQ (NotInQueueHandler_task sample_env sample_task busy_state) = [sample_task\<lparr>Status := Aborted\<rparr>]"
proof -
  have keys: "keys_ok (sys_db busy_state)"
    by (simp add: busy_state_def keys_ok_def id_defs sample_db_def empty_db_def new_live_row_def)
  have f: "sample_fod \<in> set (fods (sys_db busy_state))" "fod_id sample_fod = Id sample_task"
    by (simp_all add: busy_state_def sample_db_def sample_ids)
  have t: "\<not> LogQueueFailed sample_task" "Status sample_task = PendingNotInQueue"
      "length (logQ busy_state) < queue_capacity" "5 \<le> length (lives (sys_db busy_state))"
    by (simp_all add: sample_task_def busy_state_def sample_state_def initial_state_def queue_capacity_def)
  have clam: "\<not> fst (ScanFileThroughClamd sample_env (files busy_state) sample_task)"
    by (simp add: ScanFileThroughClamd_def RES_FOUND_def sample_env_def)
  have pdf: "filepath_ext (fod_file_name sample_fod) = ''.pdf''"
    by (simp add: sample_fod_def ext_x_pdf)
  have quick: "\<not> fst (fst (ScanFileThroughQuickScope sample_env (sys_db busy_state) (files busy_state) sample_task))"
    by (simp add: ScanFileThroughQuickScope_def select_fod_def healthy_sample lookup_fod_def
        fod_or_zero_def busy_state_def sample_db_def sample_ids pdf tool_pdf Let_def)
      (simp add: sample_env_def no_malware)
  from overload_allows_unanalysed [OF healthy_sample(1) keys f t(1-3) clam quick t(4) refl]
  show ?thesis by (simp add: busy_state_def sample_state_def initial_state_def)
qed

subsection \<open>Status changes that do not fit\<close>

text \<open>When the log queue is full, a status change is lost: the row keeps the status the task
  had before, only its flag \<open>log_queue_failed\<close> is set, and no entry is logged.\<close>

theorem full_log_queue_loses_status:
  assumes "healthy env" "queue_capacity \<le> length (logQ s)"
    and "s' = changeStatusAndPushToLogQueue env t newStatus s"
  shows "logQ s' = logQ s
    \<and> lives (sys_db s') = update_where (\<lambda>r. live_id r = Id t)
        (\<lambda>r. r\<lparr>live_status_col := Status t, live_sandbox_id := SandboxId t,
               live_queue_retry := QueueRetryCount t, live_log_queue_failed := True,
               live_sandbox_retry := SandboxRetryCount t,
               live_running_retry := RunningRetryCount t\<rparr>) (lives (sys_db s))"
  using assms
  by (simp add: changeStatusAndPushToLogQueue_def push_def pushToQueue_def Let_def on_db_def
      updateLiveTaskDirectlyThroughDb_def healthy_exec)

theorem full_log_queue_loses_status_witness:
  "logQ (changeStatusAndPushToLogQueue sample_env sample_task Aborted
     (sample_state\<lparr>logQ := replicate 5000 sample_task\<rparr>)) = replicate 5000 sample_task"
proof -
  have "queue_capacity \<le> length (logQ (sample_state\<lparr>logQ := replicate 5000 sample_task\<rparr>))"
    by (simp add: queue_capacity_def)
  from full_log_queue_loses_status [OF healthy_sample(1) this refl, of sample_task Aborted]
  show ?thesis by simp
qed

lemma update_back:
  assumes "filter (\<lambda>r. live_id r = i) rs = [r]" "\<And>x. live_id (f x) = live_id x" "g (f r) = r"
  shows "update_where (\<lambda>x. live_id x = i) g (update_where (\<lambda>x. live_id x = i) f rs) = rs"
proof -
  have "x = r" if "x \<in> set rs" "live_id x = i" for x
  proof -
    have "x \<in> set (filter (\<lambda>r. live_id r = i) rs)" using that by simp
    then show ?thesis by (simp add: assms(1))
  qed
  with assms(2,3) have "map (\<lambda>x. if live_id x = i then g (f x) else x) rs = rs"
    by (intro map_idI) auto
  then show ?thesis
    by (simp add: update_where_def comp_def if_distrib [of live_id] assms(2) if_distrib cong: if_cong)
qed

text \<open>A task whose log entry failed once goes round for ever: the poll logs the row as it is,
  flag included, and handling that entry writes exactly the old row back, so the next poll
  finds it again.\<close>

theorem failed_log_entry_cycles:
  assumes "healthy env" "healthy env'" "length (logQ s) < queue_capacity"
    and "filter (\<lambda>x. live_id x = live_id r) (lives (sys_db s)) = [r]"
    and "live_log_queue_failed r" "live_status_col r \<in> {PendingNotInQueue, RunningNotInQueue}"
    and "t = scan_task r f" "s1 = NotInQueueHandler_task env t s"
  shows "logQ s1 = logQ s @ [t] \<and> sys_db (processLogQueueTasks env' t s1) = sys_db s"
proof -
  have t: "LogQueueFailed t" "Status t = live_status_col r" "Id t = live_id r"
    using assms(5,7) by simp_all
  have same: "t\<lparr>Status := Status t\<rparr> = t" by (cases t) simp
  have st: "\<not> contains (Status t) PendingInQueue" "\<not> contains (Status t) RunningInQueue"
      "Status t \<notin> {SandboxApiTimeout, Reported, Aborted, ReportedThroughClamd, ReportedThroughQuickScope}"
    using assms(6) t(2) by auto
  have s1: "s1 = snd (on_db (updateLogQueueFail env (Id t) False) (s\<lparr>logQ := logQ s @ [t]\<rparr>))"
    using assms(3,8) t(1) st same
    by (simp add: NotInQueueHandler_task_def niq_enqueue_def niq_decide_def niq_push_def push_def
        pushToQueue_def Let_def)
  let ?f = "\<lambda>r::live_row. r\<lparr>live_log_queue_failed := False\<rparr>"
  let ?g = "\<lambda>r::live_row. r\<lparr>live_status_col := Status t, live_sandbox_id := SandboxId t,
      live_queue_retry := QueueRetryCount t, live_log_queue_failed := LogQueueFailed t,
      live_sandbox_retry := SandboxRetryCount t, live_running_retry := RunningRetryCount t\<rparr>"
  have restored: "?g (?f r) = r" using assms(5,7) by (cases r) (simp add: scan_task_def)
  have "update_where (\<lambda>x. live_id x = Id t) ?g (update_where (\<lambda>x. live_id x = Id t) ?f (lives (sys_db s)))
      = lives (sys_db s)"
    using update_back [of "live_id r" "lives (sys_db s)" r ?f ?g] assms(4) restored t(3) by simp
  then have "sys_db (processLogQueueTasks env' t s1) = sys_db s"
    using st assms(1,2)
    by (simp add: processLogQueueTasks_def s1 on_db_def updateLogQueueFail_def
        updateStatusChangeDirectlyThroughDb_def healthy_exec)
  moreover have "logQ s1 = logQ s @ [t]"
    using assms(1) by (simp add: s1 on_db_def updateLogQueueFail_def healthy_exec)
  ultimately show ?thesis by simp
qed

definition flagged_row :: live_row where
  "flagged_row = (new_live_row sample_fod)\<lparr>live_log_queue_failed := True\<rparr>"

theorem failed_log_entry_cycles_witness:
  "sys_db (processLogQueueTasks sample_env (scan_task flagged_row sample_fod)
     (NotInQueueHandler_task sample_env (scan_task flagged_row sample_fod) (with_row flagged_row sample_state)))
   = sys_db (with_row flagged_row sample_state)"
proof -
  have "length (logQ (with_row flagged_row sample_state)) < queue_capacity"
      "filter (\<lambda>x. live_id x = live_id flagged_row) (lives (sys_db (with_row flagged_row sample_state))) = [flagged_row]"
      "live_log_queue_failed flagged_row" "live_status_col flagged_row \<in> {PendingNotInQueue, RunningNotInQueue}"
    by (simp_all add: with_row_def sample_state_def initial_state_def queue_capacity_def flagged_row_def
        new_live_row_def)
  from failed_log_entry_cycles [OF healthy_sample(1,1) this refl refl] show ?thesis by blast
qed

subsection \<open>Duplicates of an aborted file\<close>

text \<open>The duplicate that takes the place of an aborted file is scanned without its hashes, so
  when it is finished no other duplicate of the same content is: they stay duplicates.\<close>

theorem promoted_duplicate_strands_others:
  assumes "healthy env" "keys_ok (sys_db s)" "i \<in> fod_ids (sys_db s)"
    and "t = scan_task (promoted_row i) f"
    and "\<forall>r \<in> set (dups (sys_db s)). \<not> dup_hash_match (sys_db s) [] [] [] r"
  shows "dup_ids (sys_db (finish_reported env t sc s)) = dup_ids (sys_db s)"
proof -
  have t: "Id t = i" "Md5 t = []" "SHA t = []" "SHA256 t = []"
    by (simp_all add: assms(4) promoted_row_def scan_task_def null_string_def)
  have none: "duplicate_ids (sys_db s) t = []"
    using assms(5) t by (simp add: duplicate_ids_def filter_empty_conv)
  have "Id t \<in> fod_ids (sys_db s)" using assms(3) t by simp
  from finish_reported_facts [OF assms(1,2) this refl refl] none show ?thesis by simp
qed

subsection \<open>Restart\<close>

text \<open>C10: after a restart with a working database every live task is found by the first poll.\<close>

theorem restart_polls_every_task:
  assumes "healthy env" "keys_ok d" "lives_ok d" "\<forall>r \<in> set (lives d). 0 < live_id r"
    and "d' = fst (ResetQueueDb env w flag d)"
  shows "Id ` set (not_in_queue_tasks d') = live_ids d'"
proof -
  have cases: "d' = d\<lparr>lives := update_where (\<lambda>r. 0 < live_id r)
        (\<lambda>r. r\<lparr>live_status_col := PendingNotInQueue\<rparr>) (lives d)\<rparr> \<or>
      d' = d\<lparr>lives := update_where (\<lambda>r. live_status_col r = RunningInQueue)
        (\<lambda>r. r\<lparr>live_status_col := RunningNotInQueue\<rparr>)
        (update_where (\<lambda>r. live_status_col r = PendingInQueue)
          (\<lambda>r. r\<lparr>live_status_col := PendingNotInQueue\<rparr>) (lives d))\<rparr>"
    using assms(1,5) by (auto simp: ResetQueueDb_def Let_def healthy_exec split: prod.splits)
  have fods: "fods d' = fods d" using cases by auto
  have ids: "live_ids d' = live_ids d" using cases by (elim disjE) (simp_all add: live_ids_def image_update_where)
  have rows: "\<forall>r \<in> set (lives d'). not_in_queue_row r"
    using cases assms(3,4)
    by (elim disjE) (auto simp: set_update_where not_in_queue_row_def lives_ok_def live_status_def)
  have "fod_ids d' = fod_ids d" using fods by (simp add: fod_ids_def)
  with ids assms(2) have sub: "live_ids d' \<subseteq> fod_ids d'" by (simp add: keys_ok_def)
  have "live_id r \<in> Id ` set (not_in_queue_tasks d')" if "r \<in> set (lives d')" for r
  proof -
    from sub that obtain f where "f \<in> set (fods d')" "fod_id f = live_id r"
      by (auto simp: id_defs)
    with rows that have "scan_task r f \<in> set (not_in_queue_tasks d')"
      by (auto simp: not_in_queue_tasks_def)
    then have "Id (scan_task r f) \<in> Id ` set (not_in_queue_tasks d')" by (rule imageI)
    then show ?thesis by simp
  qed
  moreover have "Id ` set (not_in_queue_tasks d') \<subseteq> live_ids d'"
    by (auto simp: not_in_queue_tasks_def live_ids_def)
  ultimately show ?thesis by (auto simp: live_ids_def)
qed

text \<open>Two files waiting as duplicates of a third one.\<close>

definition waiting_db :: db where
  "waiting_db = sample_db\<lparr>fods := [sample_fod, sample_fod\<lparr>fod_id := 2\<rparr>, sample_fod\<lparr>fod_id := 3\<rparr>],
     dups := [new_duplicate_row (sample_fod\<lparr>fod_id := 3\<rparr>)]\<rparr>"

theorem promoted_duplicate_strands_others_witness:
  "dup_ids (sys_db (finish_reported sample_env (scan_task (promoted_row 2) sample_fod) (F 8)
     (sample_state\<lparr>sys_db := waiting_db\<rparr>))) = {3}"
proof -
  let ?s = "sample_state\<lparr>sys_db := waiting_db\<rparr>"
  have keys: "keys_ok (sys_db ?s)"
    by (simp add: keys_ok_def id_defs waiting_db_def sample_db_def empty_db_def new_live_row_def
        new_duplicate_row_def sample_fod_def)
  have two: "2 \<in> fod_ids (sys_db ?s)" by (simp add: fod_ids_def waiting_db_def)
  have "\<forall>r \<in> set (dups (sys_db ?s)). \<not> dup_hash_match (sys_db ?s) [] [] [] r"
    by (simp add: waiting_db_def sample_db_def empty_db_def dup_hash_match_def hash_match_def ceq_def
        new_duplicate_row_def sample_fod_def)
  from promoted_duplicate_strands_others [OF healthy_sample(1) keys two refl this, of sample_fod "F 8"]
  show ?thesis by (simp add: dup_ids_def waiting_db_def new_duplicate_row_def)
qed

theorem restart_polls_every_task_witness:
  "Id ` set (not_in_queue_tasks (fst (ResetQueueDb sample_db_env True (Some ''0'') (sys_db lost_state)))) = {1}"
proof -
  have ok: "db_ok (sys_db lost_state)"
    by (rule pipe_ok_db_ok [OF reachable_ok [OF lost_state_reachable]])
  have "keys_ok (sys_db lost_state)" "lives_ok (sys_db lost_state)"
      "\<forall>r \<in> set (lives (sys_db lost_state)). 0 < live_id r"
    using ok by (simp_all add: db_ok_def) (simp add: lost_state_def state_defs)
  from restart_polls_every_task [OF healthy_sample(2) this refl, of True "Some ''0''"]
  show ?thesis
    by (simp add: ResetQueueDb_def readDeviceRebootedFlag_def trim_space_def is_space_def Let_def
        healthy_exec healthy_sample live_ids_def lost_state_def state_defs)
qed

subsection \<open>Failing sandbox calls\<close>

text \<open>
  One round of the pending queue: a pass of the handler, and then every goroutine that waits for the
  sandbox. The rounds of a run have environments of their own.
\<close>

definition pending_round :: "('e) queue_env_scheme \<Rightarrow> 's sys_scheme \<Rightarrow> 's sys_scheme" where
  "pending_round env s =
     (let s1 = PendingQueueHandler_pass (\<lambda>_. env) s
      in fold (run_goroutine env) (goroutines s1) (s1\<lparr>goroutines := []\<rparr>))"

primrec pending_rounds :: "(nat \<Rightarrow> ('e) queue_env_scheme) \<Rightarrow> nat \<Rightarrow> 's sys_scheme \<Rightarrow> 's sys_scheme" where
  "pending_rounds envs 0 s = s"
| "pending_rounds envs (Suc n) s = pending_round (envs n) (pending_rounds envs n s)"

text \<open>A sandbox none of whose calls succeeds, as the pending queue sees it.\<close>

definition sandbox_fails :: "('e) sandbox_env_scheme \<Rightarrow> bool" where
  "sandbox_fails env \<longleftrightarrow> (\<forall>p c. \<exists>e. create_task_file env p c = Inl e) \<and> FetchSandboxTaskCountWhichAreNotReported env = 0"

lemma failed_round:
  assumes "sandbox_fails env" "pendingQ s = [t]" "logQ s = []" "goroutines s = []"
    and "\<not> pending_gives_up env (pending_timeout env) t"
  shows "pending_round env s =
    (if 4 \<le> SandboxRetryCount t
     then s\<lparr>pendingQ := [], logQ := [t\<lparr>SandboxRetryCount := SandboxRetryCount t + 1, Status := Aborted\<rparr>]\<rparr>
     else s\<lparr>pendingQ := [t\<lparr>SandboxRetryCount := SandboxRetryCount t + 1\<rparr>]\<rparr>)"
proof -
  obtain e where e: "create_task_file env (file_path (Id t)) (files s (Id t)) = Inl e"
    using assms(1) unfolding sandbox_fails_def by blast
  have same: "t\<lparr>SandboxRetryCount := n, Status := Status t\<rparr> = t\<lparr>SandboxRetryCount := n\<rparr>" for n
    by (cases t) simp
  have "pending_fetch env s = ([t], s\<lparr>pendingQ := []\<rparr>)"
    using assms(1,2)
    by (simp add: pending_fetch_def pending_capacity_def sandbox_fails_def MAX_FREE_VMS_def fetchTasksFromQueue_eq Let_def)
  then have "PendingQueueHandler_pass (\<lambda>_. env) s = s\<lparr>pendingQ := [], goroutines := [GoSendToSandbox t]\<rparr>"
    using assms(4,5) by (simp add: PendingQueueHandler_pass_def PendingQueueHandler_task_def spawn_def)
  moreover have "s\<lparr>pendingQ := q, goroutines := []\<rparr> = s\<lparr>pendingQ := q\<rparr>" for q using assms(4) by (cases s) simp
  ultimately show ?thesis
    using assms(2,3) e same
    by (simp add: pending_round_def pending_goroutine_def sendToSandbox_def send_failed_def
        SANDBOX_MAX_RETRIES_def changeStatusAndPushToLogQueue_def push_def pushToQueue_def
        queue_capacity_def Let_def)
qed

text \<open>A task whose sandbox calls all fail stays in the queue for four rounds; the fifth logs it as aborted.\<close>

lemma failing_task_waits:
  assumes "\<And>k. k < n \<Longrightarrow> sandbox_fails (envs k) \<and> \<not> pending_gives_up (envs k) (pending_timeout (envs k)) t"
    and "pendingQ s = [t]" "logQ s = []" "goroutines s = []" "SandboxRetryCount t = 0" "n \<le> 4"
  shows "pending_rounds envs n s = s\<lparr>pendingQ := [t\<lparr>SandboxRetryCount := int n\<rparr>]\<rparr>"
  using assms(1,6)
proof (induction n)
  case 0
  have "t\<lparr>SandboxRetryCount := 0\<rparr> = t" using assms(5) by (cases t) simp
  moreover have "s\<lparr>pendingQ := [t]\<rparr> = s" using assms(2) by (cases s) simp
  ultimately show ?case by simp
next
  case (Suc n)
  have "pending_rounds envs n s = s\<lparr>pendingQ := [t\<lparr>SandboxRetryCount := int n\<rparr>]\<rparr>"
    using Suc by simp
  moreover have "sandbox_fails (envs n)"
    "\<not> pending_gives_up (envs n) (pending_timeout (envs n)) (t\<lparr>SandboxRetryCount := int n\<rparr>)"
    using Suc.prems(1) [of n] by (simp_all add: pending_gives_up_def)
  ultimately show ?case
    using failed_round [of "envs n" "s\<lparr>pendingQ := [t\<lparr>SandboxRetryCount := int n\<rparr>]\<rparr>"] Suc.prems(2) assms(3,4)
    by (simp add: algebra_simps)
qed

lemma failing_task_gives_up:
  assumes "\<And>k. k < 5 \<Longrightarrow> sandbox_fails (envs k) \<and> \<not> pending_gives_up (envs k) (pending_timeout (envs k)) t"
    and "pendingQ s = [t]" "logQ s = []" "goroutines s = []" "SandboxRetryCount t = 0"
  shows "pending_rounds envs 5 s = s\<lparr>pendingQ := [], logQ := [t\<lparr>SandboxRetryCount := 5, Status := Aborted\<rparr>]\<rparr>"
proof -
  have "pending_rounds envs 4 s = s\<lparr>pendingQ := [t\<lparr>SandboxRetryCount := 4\<rparr>]\<rparr>"
    using failing_task_waits [of 4 envs t s] assms by simp
  moreover have "sandbox_fails (envs 4)"
    "\<not> pending_gives_up (envs 4) (pending_timeout (envs 4)) (t\<lparr>SandboxRetryCount := 4\<rparr>)"
    using assms(1) [of 4] by (simp_all add: pending_gives_up_def)
  ultimately have "pending_round (envs 4) (pending_rounds envs 4 s) =
      s\<lparr>pendingQ := [], logQ := [t\<lparr>SandboxRetryCount := 5, Status := Aborted\<rparr>]\<rparr>"
    using failed_round [of "envs 4" "s\<lparr>pendingQ := [t\<lparr>SandboxRetryCount := 4\<rparr>]\<rparr>"] assms(3,4) by simp
  moreover have "pending_rounds envs 5 s = pending_round (envs 4) (pending_rounds envs 4 s)"
    by (simp add: eval_nat_numeral)
  ultimately show ?thesis by simp
qed

end
