(* ===== verification/Submission_Props.thy ===== *)
theory Submission_Props
  imports Override Sample
begin

text \<open>
  Theorems on uploads, urls and overrides: what an accepted upload leaves in the tables, how a
  verdict is taken over from earlier rows, and that an override holds for later uploads of the
  same content and for the firewall.
\<close>

lemma ceq_refl [simp]: "ceq d a a"
  by (simp add: ceq_def)

lemma ceq_sym: "ceq d a b \<Longrightarrow> ceq d b a"
  by (simp add: ceq_def)

subsection \<open>Verdicts taken over\<close>

text \<open>The row a query for verdict and rating returns is a matching one.\<close>

lemma verdict_and_rating_row:
  assumes "verdict_and_rating env d m s s2 = Inr (v, r, sc)"
  shows "(v, r, sc) = ([], [], F 0) \<or>
    (\<exists>f \<in> set (fods d). fod_hash_match d m s s2 f
       \<and> v = fod_final_verdict f \<and> r = fod_rating f \<and> sc = fod_score f)"
proof (cases "matching_fods d m s s2 = []")
  case True
  with assms show ?thesis
    by (simp add: verdict_and_rating_def Let_def run_select_def split: if_splits)
next
  case False
  let ?rows = "matching_fods d m s s2"
  let ?f = "?rows ! (row_pick env d (SelVerdictRating m s s2) mod length ?rows)"
  have "?f \<in> set ?rows" using False by simp
  then have "?f \<in> set (fods d)" "fod_hash_match d m s s2 ?f"
    by (simp_all add: matching_fods_def)
  with assms False show ?thesis
    by (auto simp: verdict_and_rating_def Let_def run_select_def split: if_splits)
qed

text \<open>If all verdicts of matching rows and the fallback are \<open>v\<close>, the inherited one is.\<close>

lemma inherited_verdict_const:
  assumes rows: "\<And>f. f \<in> set (fods d) \<Longrightarrow> fod_hash_match d m s s2 f
      \<Longrightarrow> fod_final_verdict f = [] \<or> fod_final_verdict f = v"
    and fall: "fst fallback = v"
  shows "fst (inherited_verdict env d m s s2 fallback) = v"
proof (cases "verdict_and_rating env d m s s2")
  case (Inl e)
  with fall show ?thesis by (simp add: inherited_verdict_def)
next
  case (Inr t)
  obtain w r sc where t: "t = (w, r, sc)" by (cases t)
  show ?thesis
  proof (cases "r = [] \<or> w = []")
    case True
    with Inr t fall show ?thesis by (auto simp: inherited_verdict_def)
  next
    case False
    with verdict_and_rating_row [OF Inr [unfolded t]] rows have "w = v" by auto
    with Inr t False show ?thesis by (simp add: inherited_verdict_def)
  qed
qed

lemma previously_scanned_simps [simp]:
  "fod_id (previously_scanned env fod ip vrs) = fod_id fod"
  "fod_final_verdict (previously_scanned env fod ip vrs) = fst vrs"
  "fod_status (previously_scanned env fod ip vrs) = PREVIOUSLY_SCANNED_FILE"
  "fod_md5 (previously_scanned env fod ip vrs) = fod_md5 fod"
  "fod_sha (previously_scanned env fod ip vrs) = fod_sha fod"
  "fod_sha256 (previously_scanned env fod ip vrs) = fod_sha256 fod"
  "fod_finished_time (previously_scanned env fod ip vrs) = Some (now env)"
  by (cases vrs; simp add: previously_scanned_def Let_def)+

lemma insert_previous_cases:
  "(insert_previous env row d = (server_error db_error, d)) \<or>
   (\<not> has_fod d (fod_id row) \<and> insert_previous env row d =
      (NewSuccessResponse ''Success'' (Some (upload_message row)), d\<lparr>fods := fods d @ [row]\<rparr>))"
  using gorm_exec_cases [of env "[InsertFod row]" d]
  by (auto simp: insert_previous_def server_error_def split: if_splits)

lemma insert_previous_healthy:
  assumes "healthy env" "\<not> has_fod d (fod_id row)"
  shows "insert_previous env row d =
      (NewSuccessResponse ''Success'' (Some (upload_message row)), d\<lparr>fods := fods d @ [row]\<rparr>)"
  using assms by (simp add: insert_previous_def healthy_exec)

lemma server_error_status [simp]: "resp_status (server_error e) = StatusBadRequest"
  by (simp add: server_error_def)

text \<open>What \<open>checkIfHashAlreadyPresent\<close> does when the database answers.\<close>

lemma check_healthy:
  assumes "healthy env" "\<not> has_fod d (fod_id fod)"
  shows "checkIfHashAlreadyPresent env fod m s s2 ip d =
    (if known_clean d m s s2 \<or> known_malware d m s s2 then
       (let row = previously_scanned env fod ip (inherited_verdict env d m s s2
              (if known_clean d m s s2 then clean_fallback else malware_fallback))
        in (NewSuccessResponse ''Success'' (Some (upload_message row)), d\<lparr>fods := fods d @ [row]\<rparr>))
     else (NewErrorResponse StatusBadRequest ''file not found'' ErrFileNotFound, d))"
  using assms
  by (simp add: checkIfHashAlreadyPresent_def IsCleanHashFromDb_healthy IsMalwareHashFromDb_healthy
      insert_previous_healthy Let_def)

lemma check_healthy_row:
  assumes "healthy env" "\<not> has_fod d (fod_id fod)" "known_clean d m s s2 \<or> known_malware d m s s2"
    "fst (inherited_verdict env d m s s2
      (if known_clean d m s s2 then clean_fallback else malware_fallback)) = v"
  shows "\<exists>resp row. checkIfHashAlreadyPresent env fod m s s2 ip d = (resp, d\<lparr>fods := fods d @ [row]\<rparr>)
    \<and> resp_status resp = StatusOK \<and> fod_id row = fod_id fod \<and> fod_final_verdict row = v"
proof -
  let ?row = "previously_scanned env fod ip (inherited_verdict env d m s s2
      (if known_clean d m s s2 then clean_fallback else malware_fallback))"
  have "checkIfHashAlreadyPresent env fod m s s2 ip d =
      (NewSuccessResponse ''Success'' (Some (upload_message ?row)), d\<lparr>fods := fods d @ [?row]\<rparr>)"
    using assms(1-3) by (simp add: check_healthy Let_def)
  moreover have "fod_final_verdict ?row = v" "fod_id ?row = fod_id fod"
    using assms(4) by simp_all
  moreover have "resp_status (NewSuccessResponse ''Success'' (Some (upload_message ?row))) = StatusOK"
    by simp
  ultimately show ?thesis by blast
qed

text \<open>In general: the tables are unchanged, or one previously scanned row was added.\<close>

lemma check_shape:
  "(\<exists>resp. checkIfHashAlreadyPresent env fod m s s2 ip d = (resp, d) \<and> resp_status resp = StatusBadRequest) \<or>
   (\<exists>vrs. checkIfHashAlreadyPresent env fod m s s2 ip d =
      insert_previous env (previously_scanned env fod ip vrs) d)"
  unfolding checkIfHashAlreadyPresent_def
  by (cases "IsCleanHashFromDb env d m s s2"; cases "IsMalwareHashFromDb env d m s s2")
    (auto split: if_split simp del: split_paired_All split_paired_Ex)

lemma check_cases:
  assumes "checkIfHashAlreadyPresent env fod m s s2 ip d = (resp, d')"
  shows "(resp_status resp = StatusBadRequest \<and> d' = d) \<or>
    (\<exists>vrs. resp_status resp = StatusOK \<and> \<not> has_fod d (fod_id fod)
       \<and> d' = d\<lparr>fods := fods d @ [previously_scanned env fod ip vrs]\<rparr>)"
  using check_shape [of env fod m s s2 ip d]
proof (elim disjE exE conjE)
  fix r assume "checkIfHashAlreadyPresent env fod m s s2 ip d = (r, d)" "resp_status r = StatusBadRequest"
  with assms show ?thesis by simp
next
  fix vrs
  assume "checkIfHashAlreadyPresent env fod m s s2 ip d =
    insert_previous env (previously_scanned env fod ip vrs) d"
  with assms insert_previous_cases [of env "previously_scanned env fod ip vrs" d]
  show ?thesis by (auto simp del: split_paired_Ex)
qed

text \<open>A file whose hash is known as malware and that no row allows is answered as blocked:
  the new row carries the verdict block and the request succeeds, without a task being
  created.\<close>

theorem known_malware_stays_blocked:
  assumes "healthy env" "verdicts_ok d" "known_malware d m s s2" "\<not> known_clean d m s s2"
    "\<not> has_fod d (fod_id fod)"
  shows "\<exists>resp row. checkIfHashAlreadyPresent env fod m s s2 ip d = (resp, d\<lparr>fods := fods d @ [row]\<rparr>)
    \<and> resp_status resp = StatusOK \<and> fod_id row = fod_id fod \<and> fod_final_verdict row = BLOCK"
proof -
  have "fst (inherited_verdict env d m s s2 malware_fallback) = BLOCK"
  proof (rule inherited_verdict_const)
    fix f assume "f \<in> set (fods d)" "fod_hash_match d m s s2 f"
    with assms(2,4) show "fod_final_verdict f = [] \<or> fod_final_verdict f = BLOCK"
      by (auto simp: verdicts_ok_def verdict_domain_def known_clean_def)
  qed (simp add: malware_fallback_def)
  with assms show ?thesis
    by (intro check_healthy_row) simp_all
qed

lemma listed_known: "known_malware listed_db ''m'' ''q'' ''q''" "\<not> known_clean listed_db ''m'' ''q'' ''q''"
  "verdicts_ok listed_db" "\<not> has_fod listed_db i"
  by (auto simp: known_malware_def known_clean_def listed_db_def hash_match_def ceq_def verdicts_ok_def
      has_fod_def)

lemma sample_submit_healthy [simp]: "healthy sample_submit"
  by (simp add: healthy_def sample_submit_def)

theorem known_malware_stays_blocked_witness:
  "\<exists>resp row. checkIfHashAlreadyPresent sample_submit sample_fod ''m'' ''q'' ''q'' [] listed_db
       = (resp, listed_db\<lparr>fods := fods listed_db @ [row]\<rparr>)
    \<and> resp_status resp = StatusOK \<and> fod_id row = fod_id sample_fod \<and> fod_final_verdict row = BLOCK"
  by (rule known_malware_stays_blocked) (simp_all add: listed_known)

text \<open>one allowed row is enough to allow a file that the preset list of malware hashes names:
  the list is not consulted when some row with the hash carries the verdict allow.\<close>

theorem allowed_row_beats_preset_list:
  assumes "healthy env" "known_clean d m s s2" "\<not> has_fod d (fod_id fod)"
    "\<forall>f \<in> set (fods d). fod_hash_match d m s s2 f \<longrightarrow> fod_final_verdict f \<noteq> BLOCK" "verdicts_ok d"
    "\<exists>h \<in> set (hashes d). fh_md5 h = m"
  shows "known_malware d m s s2
    \<and> (\<exists>resp row. checkIfHashAlreadyPresent env fod m s s2 ip d = (resp, d\<lparr>fods := fods d @ [row]\<rparr>)
         \<and> resp_status resp = StatusOK \<and> fod_final_verdict row = ALLOW)"
proof
  show "known_malware d m s s2"
    using assms(6) ceq_refl unfolding known_malware_def hash_match_def by blast
  have "fst (inherited_verdict env d m s s2 clean_fallback) = ALLOW"
  proof (rule inherited_verdict_const)
    fix f assume "f \<in> set (fods d)" "fod_hash_match d m s s2 f"
    with assms(4,5) show "fod_final_verdict f = [] \<or> fod_final_verdict f = ALLOW"
      by (auto simp: verdicts_ok_def verdict_domain_def)
  qed (simp add: clean_fallback_def)
  with assms have "\<exists>resp row. checkIfHashAlreadyPresent env fod m s s2 ip d
      = (resp, d\<lparr>fods := fods d @ [row]\<rparr>) \<and> resp_status resp = StatusOK \<and> fod_id row = fod_id fod
        \<and> fod_final_verdict row = ALLOW"
    by (intro check_healthy_row) simp_all
  then show "\<exists>resp row. checkIfHashAlreadyPresent env fod m s s2 ip d
      = (resp, d\<lparr>fods := fods d @ [row]\<rparr>) \<and> resp_status resp = StatusOK \<and> fod_final_verdict row = ALLOW"
    by blast
qed

definition allowed_listed_db :: db where
  "allowed_listed_db = listed_db\<lparr>fods := [sample_fod\<lparr>fod_id := 4, fod_md5 := ''m'',
     fod_final_verdict := ALLOW, fod_rating := ''Clean''\<rparr>]\<rparr>"

theorem allowed_row_beats_preset_list_witness:
  "known_malware allowed_listed_db ''m'' ''q'' ''q''
    \<and> (\<exists>resp row. checkIfHashAlreadyPresent sample_submit sample_fod ''m'' ''q'' ''q'' [] allowed_listed_db
          = (resp, allowed_listed_db\<lparr>fods := fods allowed_listed_db @ [row]\<rparr>)
         \<and> resp_status resp = StatusOK \<and> fod_final_verdict row = ALLOW)"
  by (rule allowed_row_beats_preset_list)
    (simp_all add: allowed_listed_db_def listed_db_def known_clean_def fod_hash_match_def hash_match_def
      ceq_def has_fod_def verdicts_ok_def verdict_domain_def sample_fod_def zero_fod_def ALLOW_def BLOCK_def)

subsection \<open>Accepted uploads\<close>

lemma last_fod_id_upper: "f \<in> set (fods d) \<Longrightarrow> fod_id f \<le> last_fod_id d"
proof (cases "map fod_id (fods d)")
  case (Cons i "is")
  assume "f \<in> set (fods d)"
  then have "fod_id f \<in> set (i # is)" using Cons [symmetric] by simp
  then have "fod_id f \<le> Max (set (i # is))" by (intro Max_ge) simp_all
  then have "fod_id f \<le> fold max is i" unfolding Max.set_eq_fold .
  then show ?thesis by (simp add: last_fod_id_def Cons)
qed simp

lemma last_fod_id_fresh: "\<not> has_fod d (last_fod_id d + 1)"
  using last_fod_id_upper [of _ d] by (force simp: has_fod_def)

lemma new_fod_fields [simp]:
  "fod_id (new_fod env i f name c) = i" "fod_final_verdict (new_fod env i f name c) = []"
  by (simp_all add: new_fod_def zero_fod_def)

lemma client_error_status [simp]: "resp_status (client_error e) = StatusBadRequest"
  by (simp add: client_error_def)

text \<open>The row that \<open>store_upload\<close> hands on describes the content it stored.\<close>

definition upload_row :: "('e) submit_env_scheme \<Rightarrow> int \<Rightarrow> string \<Rightarrow> file_on_demand \<Rightarrow> bool" where
  "upload_row env i content fod \<longleftrightarrow> fod_id fod = i \<and> fod_md5 fod = md5_hex env content
     \<and> fod_sha fod = sha1_hex env content \<and> fod_sha256 fod = sha256_hex env content"

lemma files_keep: "\<exists>fs. t = t\<lparr>files := fs\<rparr>"
  by (rule exI [of _ "files t"]) simp

lemma store_upload_cases:
  assumes "store_upload env form f name s = (r, s1)"
  shows "(\<exists>resp fs. r = Inl resp \<and> resp_status resp = StatusBadRequest \<and> s1 = s\<lparr>files := fs\<rparr>) \<or>
    (\<exists>fod content. r = Inr fod \<and> upload_row env (last_fod_id (sys_db s) + 1) content fod
       \<and> fod_final_verdict fod = []
       \<and> copy_loop (write_error env) (mf_reads f) [] = (None, content)
       \<and> s1 = s\<lparr>files := (files s)(last_fod_id (sys_db s) + 1 \<mapsto> content)\<rparr>)"
proof -
  show ?thesis
    using assms
    by (auto simp: store_upload_def run_select_def Let_def upload_row_def intro: files_keep
        split: if_splits option.splits prod.splits)
qed

text \<open>
  What an accepted upload adds to the tables: a row that is answered at once, a live task, or a
  duplicate of a live task.
\<close>

definition answered_at_once :: "file_on_demand \<Rightarrow> db \<Rightarrow> db \<Rightarrow> bool" where
  "answered_at_once row d d' \<longleftrightarrow> d' = d\<lparr>fods := fods d @ [row]\<rparr> \<and> fod_status row = PREVIOUSLY_SCANNED_FILE"

definition queued_for_analysis :: "file_on_demand \<Rightarrow> db \<Rightarrow> db \<Rightarrow> bool" where
  "queued_for_analysis row d d' \<longleftrightarrow> fod_final_verdict row = [] \<and>
     d' = d\<lparr>fods := fods d @ [row], lives := lives d @ [new_live_row row]\<rparr>
     \<and> (\<forall>r \<in> set (lives d). \<not> live_hash_match d (fod_md5 row) (fod_sha row) (fod_sha256 row) r)"

definition waits_for_twin :: "file_on_demand \<Rightarrow> db \<Rightarrow> db \<Rightarrow> bool" where
  "waits_for_twin row d d' \<longleftrightarrow> fod_final_verdict row = [] \<and>
     d' = d\<lparr>fods := fods d @ [row], dups := dups d @ [new_duplicate_row row]\<rparr>
     \<and> (\<exists>r \<in> set (lives d). live_hash_match d (fod_md5 row) (fod_sha row) (fod_sha256 row) r)"

definition recorded_once :: "file_on_demand \<Rightarrow> db \<Rightarrow> db \<Rightarrow> bool" where
  "recorded_once row d d' \<longleftrightarrow>
     answered_at_once row d d' \<or> queued_for_analysis row d d' \<or> waits_for_twin row d d'"

lemma submission_commits:
  assumes "exec_all (submission_stmts fod ip (live_hash_count d (fod_md5 fod) (fod_sha fod) (fod_sha256 fod))) d
    = Some d'" "fod_final_verdict fod = []"
  shows "\<exists>row. (queued_for_analysis row d d' \<or> waits_for_twin row d d')
     \<and> (\<forall>i c. upload_row (env :: ('e) submit_env_scheme) i c row = upload_row env i c fod)"
proof -
  let ?row = "if fod_from_device fod then fod\<lparr>fod_client_ip := ip\<rparr> else fod"
  have same: "\<forall>i c. upload_row env i c ?row = upload_row env i c fod"
    by (simp add: upload_row_def)
  have rows: "new_live_row ?row = new_live_row fod" "new_duplicate_row ?row = new_duplicate_row fod"
    "fod_md5 ?row = fod_md5 fod" "fod_sha ?row = fod_sha fod" "fod_sha256 ?row = fod_sha256 fod"
    "fod_id ?row = fod_id fod" "fod_final_verdict ?row = []"
    using assms(2) by (simp_all add: new_live_row_def new_duplicate_row_def)
  have cnt: "live_hash_count d m s s2 \<le> 0 \<longleftrightarrow> (\<forall>r \<in> set (lives d). \<not> live_hash_match d m s s2 r)" for m s s2
    by (simp add: live_hash_count_def filter_empty_conv)
  show ?thesis
  proof (cases "live_hash_count d (fod_md5 fod) (fod_sha fod) (fod_sha256 fod) \<le> 0")
    case True
    with assms have "d' = d\<lparr>fods := fods d @ [?row], lives := lives d @ [new_live_row fod]\<rparr>"
      by (auto simp: submission_stmts_def Let_def rows has_fod_def split: if_splits)
    then have "queued_for_analysis ?row d d'"
      using True unfolding queued_for_analysis_def rows cnt by simp
    with same show ?thesis by blast
  next
    case False
    with assms have "d' = d\<lparr>fods := fods d @ [?row], dups := dups d @ [new_duplicate_row fod]\<rparr>"
      by (auto simp: submission_stmts_def Let_def rows has_fod_def split: if_splits)
    then have "waits_for_twin ?row d d'"
      using False unfolding waits_for_twin_def rows cnt by simp
    with same show ?thesis by blast
  qed
qed

lemma previously_scanned_upload_row [simp]:
  "upload_row env i c (previously_scanned env' fod ip vrs) = upload_row env i c fod"
  by (simp add: upload_row_def)

lemma register_file_cases:
  assumes "register_file env fod ip s = (resp, s')" "fod_final_verdict fod = []"
  shows "(resp_status resp = StatusBadRequest \<and> s' = s) \<or>
    (\<exists>row. resp_status resp = StatusOK \<and> recorded_once row (sys_db s) (sys_db s')
       \<and> (\<forall>i c. upload_row env i c row = upload_row env i c fod) \<and> files s' = files s)"
proof -
  let ?d = "sys_db s" and ?m = "fod_md5 fod" and ?h = "fod_sha fod" and ?h2 = "fod_sha256 fod"
  obtain r d1 where chk: "checkIfHashAlreadyPresent env fod ?m ?h ?h2 ip ?d = (r, d1)" by fastforce
  from check_cases [OF chk] show ?thesis
  proof (elim disjE exE conjE)
    fix vrs
    assume ok: "resp_status r = StatusOK" "d1 = ?d\<lparr>fods := fods ?d @ [previously_scanned env fod ip vrs]\<rparr>"
    with assms(1) chk have "resp = r" "s' = spawn (GoDeleteLocalTask (fod_id fod)) (s\<lparr>sys_db := d1\<rparr>)"
      by (simp_all add: register_file_def Let_def)
    with ok show ?thesis
      by (intro disjI2 exI [of _ "previously_scanned env fod ip vrs"])
        (simp add: recorded_once_def answered_at_once_def spawn_def)
  next
    assume bad: "resp_status r = StatusBadRequest" "d1 = ?d"
    show ?thesis
    proof (cases "run_select env (SelLiveHashCount ?m ?h ?h2) ?d (live_hash_count ?d ?m ?h ?h2)")
      case (Inl e)
      with assms(1) chk bad show ?thesis by (auto simp: register_file_def)
    next
      case (Inr n)
      then have n: "n = live_hash_count ?d ?m ?h ?h2" by (simp add: run_select_def split: if_splits)
      obtain e d2 where ex: "gorm_exec env (submission_stmts fod ip n) ?d = (e, d2)" by fastforce
      from assms(1) chk bad Inr ex
      have res: "resp = (case e of Some x \<Rightarrow> server_error x
          | None \<Rightarrow> NewSuccessResponse ''Success'' (Some (upload_message fod)))"
        "s' = s\<lparr>sys_db := d2\<rparr>"
        by (auto simp: register_file_def split: option.splits)
      from gorm_exec_cases [of env "submission_stmts fod ip n" ?d] ex
      consider "e = Some db_error" "d2 = ?d"
        | "e = None" "exec_all (submission_stmts fod ip n) ?d = Some d2" by auto
      then show ?thesis
      proof cases
        case 1
        with res show ?thesis by simp
      next
        case 2
        from submission_commits [OF 2(2) [unfolded n] assms(2), of env] 2(1) res show ?thesis
          by (auto simp: recorded_once_def)
      qed
    qed
  qed
qed

text \<open>The checks before the file is stored, and what happens when they succeed.\<close>

definition upload_checked :: "('e) submit_env_scheme \<Rightarrow> (go_error + scan_profile list) \<Rightarrow> upload_form
    \<Rightarrow> int \<Rightarrow> multipart_file \<Rightarrow> scan_profile \<Rightarrow> bool" where
  "upload_checked env scanProfile form limit f p \<longleftrightarrow>
     (\<exists>fs ps. map_of (form_files form) ''filename'' = Some (f # fs) \<and> scanProfile = Inr (p # ps))
     \<and> ValidateContentTypeOfFile env f p = None
     \<and> mf_size f \<le> read_size_limit (cuckoo_conf env) limit"

lemma CreateFileOnDemand_shape:
  assumes "CreateFileOnDemand env scanProfile form adminName ip s = (Inr resp, s')"
  shows "(resp_status resp = StatusBadRequest \<and> sys_db s' = sys_db s) \<or>
    (\<exists>f p r s1. upload_checked env scanProfile form (max_allowed_file_size s) f p
      \<and> store_upload env form f adminName
          (s\<lparr>max_allowed_file_size := read_size_limit (cuckoo_conf env) (max_allowed_file_size s)\<rparr>) = (r, s1)
      \<and> (resp, s') = (case r of Inl x \<Rightarrow> (x, s1) | Inr fod \<Rightarrow> register_file env fod ip s1))"
proof (cases "\<exists>f p. upload_checked env scanProfile form (max_allowed_file_size s) f p")
  case True
  then obtain f p fs ps where ch: "upload_checked env scanProfile form (max_allowed_file_size s) f p"
      "map_of (form_files form) ''filename'' = Some (f # fs)" "scanProfile = Inr (p # ps)"
    by (auto simp: upload_checked_def)
  from ch(2) have ne: "form_files form \<noteq> []" by auto
  let ?s0 = "s\<lparr>max_allowed_file_size := read_size_limit (cuckoo_conf env) (max_allowed_file_size s)\<rparr>"
  obtain r s1 where st: "store_upload env form f adminName ?s0 = (r, s1)" by fastforce
  from assms ch ne st have "(resp, s') = (case r of Inl x \<Rightarrow> (x, s1) | Inr fod \<Rightarrow> register_file env fod ip s1)"
    by (cases r) (auto simp: CreateFileOnDemand_def upload_checked_def Let_def split: prod.splits)
  with ch(1) st show ?thesis by blast
next
  case False
  let ?c = "read_size_limit (cuckoo_conf env) (max_allowed_file_size s)"
  from False have no: "map_of (form_files form) ''filename'' = Some (f # fs) \<Longrightarrow> mf_size f \<le> ?c
      \<Longrightarrow> scanProfile = Inr (p # ps) \<Longrightarrow> ValidateContentTypeOfFile env f p \<noteq> None" for f fs p ps
    by (auto simp: upload_checked_def)
  show ?thesis
  proof (cases "map_of (form_files form) ''filename''")
    case None
    with assms show ?thesis by (auto simp: CreateFileOnDemand_def Let_def split: if_splits)
  next
    case (Some l)
    with assms obtain f fs where l: "map_of (form_files form) ''filename'' = Some (f # fs)"
      by (cases l) (auto simp: CreateFileOnDemand_def Let_def split: if_splits)
    show ?thesis
    proof (cases "?c < mf_size f")
      case True
      with assms l show ?thesis by (auto simp: CreateFileOnDemand_def Let_def split: if_splits)
    next
      case size: False
      show ?thesis
      proof (cases scanProfile)
        case (Inl e)
        with assms l size show ?thesis by (auto simp: CreateFileOnDemand_def Let_def split: if_splits)
      next
        case (Inr qs)
        with assms l size obtain p ps where qs: "scanProfile = Inr (p # ps)"
          by (cases qs) (auto simp: CreateFileOnDemand_def Let_def split: if_splits)
        with no l size obtain e where "ValidateContentTypeOfFile env f p = Some e" by fastforce
        with assms l size qs show ?thesis by (auto simp: CreateFileOnDemand_def Let_def split: if_splits)
      qed
    qed
  qed
qed

text \<open>C6: an upload is recorded once or not at all. When the response is a success, exactly one row was
  added under a fresh id, with the hashes of the stored content, and the file is either answered at
  once, or a live task (only if no live task shares a hash), or a duplicate of a live task; when it
  is an error, no table changed.\<close>

theorem upload_recorded_once:
  assumes "CreateFileOnDemand env scanProfile form adminName ip s = (Inr resp, s')"
  shows "if resp_status resp = StatusOK
    then (\<exists>row content. recorded_once row (sys_db s) (sys_db s')
        \<and> upload_row env (last_fod_id (sys_db s) + 1) content row
        \<and> \<not> has_fod (sys_db s) (fod_id row) \<and> files s' (fod_id row) = Some content)
    else sys_db s' = sys_db s"
proof -
  let ?s0 = "s\<lparr>max_allowed_file_size := read_size_limit (cuckoo_conf env) (max_allowed_file_size s)\<rparr>"
  from CreateFileOnDemand_shape [OF assms]
  consider "resp_status resp = StatusBadRequest" "sys_db s' = sys_db s"
    | f r s1 where "store_upload env form f adminName ?s0 = (r, s1)"
        "(resp, s') = (case r of Inl x \<Rightarrow> (x, s1) | Inr fod \<Rightarrow> register_file env fod ip s1)"
    by blast
  then show ?thesis
  proof cases
    case 1
    then show ?thesis by simp
  next
    case 2
    from store_upload_cases [OF 2(1)] show ?thesis
    proof (elim disjE exE conjE)
      fix x fs assume "r = Inl x" "resp_status x = StatusBadRequest" "s1 = ?s0\<lparr>files := fs\<rparr>"
      with 2(2) show ?thesis by simp
    next
      fix fod content
      assume st: "r = Inr fod" "upload_row env (last_fod_id (sys_db ?s0) + 1) content fod"
        "fod_final_verdict fod = []" "s1 = ?s0\<lparr>files := (files ?s0)(last_fod_id (sys_db ?s0) + 1 \<mapsto> content)\<rparr>"
      from 2(2) st(1) have reg: "register_file env fod ip s1 = (resp, s')" by simp
      from register_file_cases [OF reg st(3)] show ?thesis
      proof (elim disjE exE conjE)
        assume "resp_status resp = StatusBadRequest" "s' = s1"
        with st(4) show ?thesis by simp
      next
        fix row
        assume row: "resp_status resp = StatusOK" "recorded_once row (sys_db s1) (sys_db s')"
          "\<forall>i c. upload_row env i c row = upload_row env i c fod" "files s' = files s1"
        with st have "upload_row env (last_fod_id (sys_db s) + 1) content row" by simp
        moreover from this have "fod_id row = last_fod_id (sys_db s) + 1" by (simp add: upload_row_def)
        ultimately show ?thesis using row st(4) last_fod_id_fresh by auto
      qed
    qed
  qed
qed

theorem upload_recorded_once_witness:
  "\<exists>row content. recorded_once row (empty_db (\<lambda>s. s) []) (sys_db sample_state)
     \<and> upload_row sample_submit (last_fod_id (empty_db (\<lambda>s. s) []) + 1) content row
     \<and> \<not> has_fod (empty_db (\<lambda>s. s) []) (fod_id row) \<and> files sample_state (fod_id row) = Some content"
  using upload_recorded_once [OF sample_submission] by (simp add: initial_state_def)

lemma type_loop_iff:
  "type_loop e e1 xs \<longleftrightarrow>
     (\<exists>(name, enabled) \<in> set xs. enabled \<and> (e \<in> set (ext_list name) \<or> e1 \<in> set (ext_list name)))"
proof (induction xs)
  case (Cons x xs)
  obtain name enabled where x: "x = (name, enabled)" by (cases x)
  show ?case
    unfolding x type_loop.simps list.set bex_simps prod.case Cons.IH by (simp split: if_split) blast
qed simp

lemma FileExt_dotted: "x \<in> set (ext_list name) \<Longrightarrow> has_prefix x ''.''"
proof -
  assume x: "x \<in> set (ext_list name)"
  have "list_all (\<lambda>(name, exts). list_all (\<lambda>x. has_prefix x ''.'') exts) FileExt"
    by code_simp
  moreover from x have "(name, ext_list name) \<in> set FileExt"
    by (auto simp: ext_list_def split: option.splits dest: map_of_SomeD)
  ultimately show ?thesis using x by (auto simp: list_all_iff)
qed

text \<open>C14: only checked files are accepted: a success means that the upload has a file of at most the
  size limit in force (the configuration's, when it can be read) and that the first scan profile
  enables a group that lists the file's extension or its detected type.\<close>

theorem accepted_upload_was_checked:
  assumes "CreateFileOnDemand env scanProfile form adminName ip s = (Inr resp, s')"
    "resp_status resp = StatusOK"
  shows "\<exists>f fs p ps name exts.
    map_of (form_files form) ''filename'' = Some (f # fs) \<and> scanProfile = Inr (p # ps)
    \<and> mf_size f \<le> read_size_limit (cuckoo_conf env) (max_allowed_file_size s)
    \<and> (name, True) \<in> set (profile_fields p) \<and> map_of FileExt name = Some exts
    \<and> (filepath_ext (mf_filename f) \<in> set exts
       \<or> ValidateContentType env (read_prefix (mf_reads f)) \<in> set exts)"
proof -
  from assms(2) have "resp_status resp \<noteq> StatusBadRequest" by simp
  with CreateFileOnDemand_shape [OF assms(1)]
  obtain f p where "upload_checked env scanProfile form (max_allowed_file_size s) f p" by blast
  then obtain fs ps where f: "map_of (form_files form) ''filename'' = Some (f # fs)"
      "scanProfile = Inr (p # ps)" "ValidateContentTypeOfFile env f p = None"
      "mf_size f \<le> read_size_limit (cuckoo_conf env) (max_allowed_file_size s)"
    by (auto simp: upload_checked_def)
  from f(3) have "type_loop (filepath_ext (mf_filename f))
      (ValidateContentType env (read_prefix (mf_reads f))) (profile_fields p)"
    by (auto simp: ValidateContentTypeOfFile_def Let_def split: option.splits if_splits)
  then obtain name where "(name, True) \<in> set (profile_fields p)"
      "filepath_ext (mf_filename f) \<in> set (ext_list name)
       \<or> ValidateContentType env (read_prefix (mf_reads f)) \<in> set (ext_list name)"
    by (auto simp: type_loop_iff)
  moreover from this obtain exts where "map_of FileExt name = Some exts" "ext_list name = exts"
    by (cases "map_of FileExt name") (auto simp: ext_list_def)
  ultimately show ?thesis using f by blast
qed

theorem accepted_upload_was_checked_witness:
  "\<exists>f fs p ps name exts.
    map_of (form_files sample_form) ''filename'' = Some (f # fs)
    \<and> (Inr [sample_profile] :: go_error + scan_profile list) = Inr (p # ps)
    \<and> mf_size f \<le> read_size_limit (cuckoo_conf sample_submit)
         (max_allowed_file_size (initial_state (empty_db (\<lambda>s. s) [])))
    \<and> (name, True) \<in> set (profile_fields p) \<and> map_of FileExt name = Some exts
    \<and> (filepath_ext (mf_filename f) \<in> set exts
       \<or> ValidateContentType sample_submit (read_prefix (mf_reads f)) \<in> set exts)"
  by (rule accepted_upload_was_checked [OF sample_submission]) simp

text \<open>the detected type of an upload never decides: the type library answers an extension
  without its dot (or \<open>unknown\<close>), the table lists extensions with theirs, so the check accepts
  exactly the files whose name has a listed extension.\<close>

theorem detected_type_never_matches:
  assumes "\<And>bytes ext. kind_result env bytes = Some ext \<Longrightarrow> \<not> has_prefix ext ''.''"
    "mf_open_error f = None"
  shows "ValidateContentTypeOfFile env f p =
    (if \<exists>(name, enabled) \<in> set (profile_fields p). enabled
        \<and> filepath_ext (mf_filename f) \<in> set (ext_list name)
     then None else Some ErrInvalidContentType)"
proof -
  have "\<not> has_prefix (ValidateContentType env bytes) ''.''" for bytes
    using assms(1) [of bytes]
    by (cases "kind_result env bytes") (simp_all add: ValidateContentType_def has_prefix_def)
  then have none: "ValidateContentType env bytes \<notin> set (ext_list name)" for bytes name
    using FileExt_dotted by blast
  show ?thesis
    using assms(2) by (simp add: ValidateContentTypeOfFile_def type_loop_iff none)
qed

theorem detected_type_never_matches_witness:
  "ValidateContentTypeOfFile (sample_submit\<lparr>kind_result := \<lambda>_. Some ''pdf''\<rparr>)
     (sample_upload\<lparr>mf_filename := ''report''\<rparr>) sample_profile = Some ErrInvalidContentType"
proof -
  let ?env = "sample_submit\<lparr>kind_result := \<lambda>_. Some ''pdf''\<rparr>"
  have "ValidateContentTypeOfFile ?env (sample_upload\<lparr>mf_filename := ''report''\<rparr>) sample_profile =
    (if \<exists>(name, enabled) \<in> set (profile_fields sample_profile). enabled
        \<and> filepath_ext (mf_filename (sample_upload\<lparr>mf_filename := ''report''\<rparr>)) \<in> set (ext_list name)
     then None else Some ErrInvalidContentType)"
    by (rule detected_type_never_matches) (auto simp: has_prefix_def sample_upload_def)
  then show ?thesis
    by (simp add: profile_fields_def sample_profile_def ext_list_def FileExt_def sample_upload_def
        filepath_ext_def)
qed

subsection \<open>Urls\<close>

text \<open>the answer to a device that submits a url is always the job id 0, although the row gets the
  next free id of the table, which is positive.\<close>

theorem device_url_answered_with_zero:
  assumes "CreateUrlOnDemand env url comments ''DEVICE'' [] d = (resp, d')" "resp_status resp = StatusOK"
    "0 < uod_auto d"
  shows "resp_data resp = Some ''0'' \<and> (\<exists>row. uods d' = uods d @ [row] \<and> uod_id row = uod_auto d \<and> 0 < uod_id row)"
proof -
  have zero: "show_int 0 = ''0''" by code_simp
  from assms(1,2) show ?thesis
    using assms(3) zero
    by (auto simp: CreateUrlOnDemand_def GormOperations_def ExecQuery_def Let_def
        split: if_splits sum.splits prod.splits)
qed

definition sample_url_env :: url_env where
  "sample_url_env = \<lparr>tx_ok = \<lambda>_ _. True, sel_ok = \<lambda>_ _. True, url_now = 0,
     url_parse = \<lambda>u. Inr (''http'', u), rand_delay = 0, rand_rating = 0, malicious_csv = None\<rparr>"

theorem device_url_answered_with_zero_witness:
  "resp_data (fst (CreateUrlOnDemand sample_url_env ''a.example'' [] ''DEVICE'' [] listed_db)) = Some ''0''"
proof -
  obtain resp d' where c: "CreateUrlOnDemand sample_url_env ''a.example'' [] ''DEVICE'' [] listed_db = (resp, d')"
    by fastforce
  then have "resp_status resp = StatusOK" "0 < uod_auto listed_db"
    by (auto simp: CreateUrlOnDemand_def sample_url_env_def url_verdict_def FetchUrlsFromFile_def
        GormOperations_def ExecQuery_def Let_def listed_db_def)
  from device_url_answered_with_zero [OF c this] c show ?thesis by simp
qed

end
