(* ===== verification/Slice_Sort.thy ===== *)
theory Slice_Sort
  imports Override "HOL-Library.Multiset"
begin

text \<open>
  What \<open>sort.Slice\<close> returns: the same elements, and in order whenever the comparison is one that
  sorting makes sense with. The comparisons of the source by a time or an id, newest or largest
  first, are such comparisons.
\<close>

lemma insert_sorted_mset: "mset (insert_sorted before x xs) = add_mset x (mset xs)"
  by (induction xs) auto

lemma sort_slice_mset [simp]: "mset (sort_slice before xs) = mset xs"
  by (induction xs) (auto simp: sort_slice_def insert_sorted_mset)

lemma insert_sorted_set: "set (insert_sorted before x xs) = insert x (set xs)"
  by (induction xs) auto

lemma set_sort_slice [simp]: "set (sort_slice before xs) = set xs"
  by (metis sort_slice_mset set_mset_mset)

lemma length_sort_slice [simp]: "length (sort_slice before xs) = length xs"
  by (metis sort_slice_mset size_mset)

lemma length_filter_sort_slice [simp]:
  "length (filter P (sort_slice before xs)) = length (filter P xs)"
  by (metis mset_filter sort_slice_mset size_mset)

text \<open>A comparison with which sorting makes sense, and what \<open>sort_slice\<close> then returns.\<close>

locale comparison =
  fixes before :: "'a \<Rightarrow> 'a \<Rightarrow> bool"
  assumes cotrans: "before a c \<Longrightarrow> before a b \<or> before b c"
    and asym: "before a b \<Longrightarrow> \<not> before b a"
begin

lemma insert_sorted_ordered:
  "sorted_wrt (\<lambda>a b. \<not> before b a) xs \<Longrightarrow> sorted_wrt (\<lambda>a b. \<not> before b a) (insert_sorted before x xs)"
  by (induction xs) (auto simp: insert_sorted_set dest: asym cotrans)

lemma sort_slice_ordered: "sorted_wrt (\<lambda>a b. \<not> before b a) (sort_slice before xs)"
  by (induction xs) (auto simp: sort_slice_def insert_sorted_ordered)

end

text \<open>Rows by an integer key, the largest first.\<close>

lemma descending_comparison: "comparison (\<lambda>a b. (key b :: int) < key a)"
  by unfold_locales auto

lemma sorted_by_key:
  "sorted_wrt (\<lambda>a b. (key b :: int) \<le> key a) (sort_slice (\<lambda>a b. key b < key a) xs)"
  using comparison.sort_slice_ordered [OF descending_comparison [of key], of xs]
  by (rule sorted_wrt_mono_rel [rotated]) simp

end
