(* ===== verification/Override_Props.thy ===== *)
theory Override_Props
  imports Submission_Props Slice_Sort
begin

text \<open>
  Theorems on overridden verdicts: every row with one of the file's hashes gets the new verdict and
  nothing else changes, a refused request changes nothing, later uploads of the same content and
  the firewall get the new verdict, and the log lists every overridden row in order.
\<close>

subsection \<open>The update\<close>

lemma override_checked_cases:
  assumes "override_checked rating old req upd d = (resp, d')"
  shows "(resp_status resp = StatusBadRequest \<and> (d' = d \<or> (\<exists>v e. upd v d = (Some e, d')))) \<or>
    (resp_status resp = StatusOK \<and> rating \<noteq> [] \<and> to_lower (trim_space req) \<in> {ALLOW, BLOCK}
      \<and> old \<noteq> to_lower (trim_space req) \<and> upd (to_lower (trim_space req)) d = (None, d'))"
  using assms
  by (auto simp: override_checked_def Let_def override_success_def split: if_splits prod.splits option.splits)

text \<open>The file a request names.\<close>

definition overridden_file :: "('e) db_env_scheme \<Rightarrow> db \<Rightarrow> override_request \<Rightarrow> file_on_demand" where
  "overridden_file env d req = fod_or_zero (select_fod env d (req_job_id req))"

definition requested_verdict :: "override_request \<Rightarrow> string" where
  "requested_verdict req = to_lower (trim_space (req_verdict req))"

lemma overrideFileVerdict_cases:
  assumes "overrideFileVerdict env req user d = (resp, d')"
  shows "(resp_status resp = StatusBadRequest \<and> d' = d) \<or>
    (resp_status resp = StatusOK \<and> fod_rating (overridden_file env d req) \<noteq> []
      \<and> requested_verdict req \<in> {ALLOW, BLOCK}
      \<and> fod_final_verdict (overridden_file env d req) \<noteq> requested_verdict req
      \<and> d' = d\<lparr>fods := update_where
          (fod_hash_match d (fod_md5 (overridden_file env d req)) (fod_sha (overridden_file env d req))
             (fod_sha256 (overridden_file env d req)))
          (\<lambda>f. f\<lparr>fod_final_verdict := requested_verdict req, fod_overridden_verdict := True,
                 fod_overridden_by := user\<rparr>) (fods d)\<rparr>)"
proof -
  let ?f = "overridden_file env d req"
  let ?upd = "\<lambda>v. gorm_exec env [OverrideFod v user (fod_md5 ?f) (fod_sha ?f) (fod_sha256 ?f)]"
  from assms have "override_checked (fod_rating ?f) (fod_final_verdict ?f) (req_verdict req) ?upd d = (resp, d')"
    by (simp add: overrideFileVerdict_def overridden_file_def Let_def)
  from override_checked_cases [OF this] show ?thesis
  proof (elim disjE exE conjE)
    fix v e assume "resp_status resp = StatusBadRequest" "?upd v d = (Some e, d')"
    with gorm_exec_cases [of env "[OverrideFod v user (fod_md5 ?f) (fod_sha ?f) (fod_sha256 ?f)]" d]
    show ?thesis by auto
  next
    assume ok: "resp_status resp = StatusOK" "fod_rating ?f \<noteq> []"
      "to_lower (trim_space (req_verdict req)) \<in> {ALLOW, BLOCK}"
      "fod_final_verdict ?f \<noteq> to_lower (trim_space (req_verdict req))"
      "?upd (to_lower (trim_space (req_verdict req))) d = (None, d')"
    with gorm_exec_cases [of env "[OverrideFod (requested_verdict req) user (fod_md5 ?f) (fod_sha ?f) (fod_sha256 ?f)]" d]
    show ?thesis by (auto simp: requested_verdict_def)
  qed simp
qed

text \<open>C11: an accepted override of a file gives every file that shares a hash with it the requested
  verdict (allow or block), the mark and the user's name, keeps every other column and every other
  row and table; a refused override changes nothing.\<close>

theorem override_reaches_every_copy:
  assumes "overrideFileVerdict env req user d = (resp, d')"
  shows "if resp_status resp = StatusOK
    then requested_verdict req \<in> {ALLOW, BLOCK} \<and> length (fods d') = length (fods d)
      \<and> (\<forall>i < length (fods d). fods d' ! i =
           (let f = overridden_file env d req in
            if fod_hash_match d (fod_md5 f) (fod_sha f) (fod_sha256 f) (fods d ! i)
            then (fods d ! i)\<lparr>fod_final_verdict := requested_verdict req,
                   fod_overridden_verdict := True, fod_overridden_by := user\<rparr>
            else fods d ! i))
      \<and> d'\<lparr>fods := fods d\<rparr> = d
    else d' = d"
  using overrideFileVerdict_cases [OF assms]
  by (auto simp: Let_def update_where_def)

definition reported_db :: db where
  "reported_db = sample_db\<lparr>fods := [sample_fod\<lparr>fod_rating := ''High'', fod_final_verdict := BLOCK\<rparr>],
     lives := []\<rparr>"

definition allow_request :: override_request where
  "allow_request = \<lparr>req_type = ''file'', req_job_id = 1, req_verdict = '' Allow'', req_comment = []\<rparr>"

definition overridden_db :: db where
  "overridden_db = reported_db\<lparr>fods := [sample_fod\<lparr>fod_rating := ''High'', fod_final_verdict := ALLOW,
     fod_overridden_verdict := True, fod_overridden_by := ''ann''\<rparr>]\<rparr>"

lemma sample_fod_hashes: "fod_md5 sample_fod = ''az''" "fod_sha sample_fod = ''bz''"
  "fod_sha256 sample_fod = ''cz''"
  by (simp_all add: sample_fod_def)

lemma allow_request_verdict: "requested_verdict allow_request = ALLOW"
  by code_simp

lemma reported_file: "overridden_file sample_db_env reported_db allow_request =
    sample_fod\<lparr>fod_rating := ''High'', fod_final_verdict := BLOCK\<rparr>"
  by (simp add: overridden_file_def fod_or_zero_def select_fod_def lookup_fod_def run_select_def
      sample_db_env_def reported_db_def allow_request_def sample_fod_def)

lemma reported_override:
  "overrideFileVerdict sample_db_env allow_request ''ann'' reported_db =
     (override_success, overridden_db)"
proof -
  have v: "to_lower (trim_space (req_verdict allow_request)) = ALLOW"
    using allow_request_verdict by (simp add: requested_verdict_def)
  have "ALLOW \<noteq> BLOCK" by (simp add: ALLOW_def BLOCK_def)
  then show ?thesis
    using v reported_file
    by (simp add: overrideFileVerdict_def overridden_file_def override_checked_def Let_def
        GormOperations_def ExecQuery_def sample_db_env_def overridden_db_def reported_db_def
        fod_hash_match_def hash_match_def)
qed

theorem override_reaches_every_copy_witness:
  "requested_verdict allow_request \<in> {ALLOW, BLOCK}"
  using override_reaches_every_copy [OF reported_override] by (simp add: override_success_def)

subsection \<open>The new verdict holds\<close>

lemma find_in_set: "find P xs = Some x \<Longrightarrow> x \<in> set xs \<and> P x"
  by (induction xs) (auto split: if_splits)

lemma overridden_file_listed:
  assumes "fod_rating (overridden_file env d req) \<noteq> []"
  shows "overridden_file env d req \<in> set (fods d)"
proof -
  from assms have "\<exists>f. lookup_fod d (req_job_id req) = Some f \<and> overridden_file env d req = f"
    by (auto simp: overridden_file_def fod_or_zero_def select_fod_def run_select_def zero_fod_def
        split: if_splits option.splits)
  then show ?thesis using find_in_set by (fastforce simp: lookup_fod_def)
qed

text \<open>After an accepted override every row with the file's hashes has the new verdict.\<close>

lemma overridden_rows:
  assumes "overrideFileVerdict env req user d = (resp, d')" "resp_status resp = StatusOK"
    "f = overridden_file env d req"
  shows "g \<in> set (fods d') \<Longrightarrow> fod_hash_match d' (fod_md5 f) (fod_sha f) (fod_sha256 f) g
      \<Longrightarrow> fod_final_verdict g = requested_verdict req"
    and "\<exists>g \<in> set (fods d'). fod_md5 g = fod_md5 f \<and> fod_sha g = fod_sha f \<and> fod_sha256 g = fod_sha256 f
      \<and> fod_final_verdict g = requested_verdict req"
    and "fod_id ` set (fods d') = fod_id ` set (fods d)"
    and "collation d' = collation d" "requested_verdict req \<in> {ALLOW, BLOCK}"
proof -
  let ?h = "fod_hash_match d (fod_md5 f) (fod_sha f) (fod_sha256 f)"
  let ?new = "\<lambda>g. g\<lparr>fod_final_verdict := requested_verdict req, fod_overridden_verdict := True,
     fod_overridden_by := user\<rparr>"
  from overrideFileVerdict_cases [OF assms(1)] assms(2,3)
  have d': "d' = d\<lparr>fods := update_where ?h ?new (fods d)\<rparr>" and rat: "fod_rating f \<noteq> []"
    and req: "requested_verdict req \<in> {ALLOW, BLOCK}" by auto
  show "collation d' = collation d" "requested_verdict req \<in> {ALLOW, BLOCK}" using d' req by simp_all
  show "fod_id ` set (fods d') = fod_id ` set (fods d)"
    unfolding d' by (simp add: image_update_where)
  have hm: "fod_hash_match d' m s s2 g = fod_hash_match d m s s2 g" for m s s2 g
    by (simp add: d' fod_hash_match_def hash_match_def ceq_def)
  have hn: "fod_hash_match d m s s2 (?new g) = fod_hash_match d m s s2 g" for m s s2 g
    by (simp add: fod_hash_match_def)
  show "g \<in> set (fods d') \<Longrightarrow> fod_hash_match d' (fod_md5 f) (fod_sha f) (fod_sha256 f) g
      \<Longrightarrow> fod_final_verdict g = requested_verdict req"
    unfolding hm by (auto simp: d' set_update_where hn)
  have "?h f" by (simp add: fod_hash_match_def hash_match_def)
  moreover from overridden_file_listed rat assms(3) have "f \<in> set (fods d)" by simp
  ultimately have "?new f \<in> set (fods d')" by (simp add: d' set_update_where)
  then show "\<exists>g \<in> set (fods d'). fod_md5 g = fod_md5 f \<and> fod_sha g = fod_sha f \<and> fod_sha256 g = fod_sha256 f
      \<and> fod_final_verdict g = requested_verdict req"
    by (rule bexI [rotated]) simp
qed

text \<open>C7: an override holds for later uploads: after an accepted override of a file, an upload of
  content with the same hashes is answered at once with the requested verdict.\<close>

theorem override_holds_for_uploads:
  assumes "overrideFileVerdict env req user d = (resp, d')" "resp_status resp = StatusOK"
    "f = overridden_file env d req" "healthy env2" "\<not> has_fod d (fod_id fod)"
  shows "\<exists>resp2 row. checkIfHashAlreadyPresent env2 fod (fod_md5 f) (fod_sha f) (fod_sha256 f) ip d'
      = (resp2, d'\<lparr>fods := fods d' @ [row]\<rparr>)
    \<and> resp_status resp2 = StatusOK \<and> fod_id row = fod_id fod
    \<and> fod_final_verdict row = requested_verdict req"
proof -
  note rows = overridden_rows [OF assms(1-3)]
  let ?v = "requested_verdict req"
  from rows(2) obtain g where g: "g \<in> set (fods d')" "fod_final_verdict g = ?v"
    "fod_hash_match d' (fod_md5 f) (fod_sha f) (fod_sha256 f) g"
    by (auto simp: fod_hash_match_def hash_match_def)
  have clean: "known_clean d' (fod_md5 f) (fod_sha f) (fod_sha256 f) \<longleftrightarrow> ?v = ALLOW"
    using g rows(1) by (auto simp: known_clean_def)
  have mal: "?v = BLOCK \<Longrightarrow> known_malware d' (fod_md5 f) (fod_sha f) (fod_sha256 f)"
    using g by (auto simp: known_malware_def)
  have "ALLOW \<noteq> BLOCK" by (simp add: ALLOW_def BLOCK_def)
  with rows(5) clean have fall: "fst (if known_clean d' (fod_md5 f) (fod_sha f) (fod_sha256 f)
      then clean_fallback else malware_fallback) = ?v"
    by (auto simp: clean_fallback_def malware_fallback_def)
  show ?thesis
  proof (rule check_healthy_row)
    show "healthy env2" by (rule assms(4))
    show "\<not> has_fod d' (fod_id fod)" using assms(5) rows(3) by (simp add: has_fod_def)
    show "known_clean d' (fod_md5 f) (fod_sha f) (fod_sha256 f)
        \<or> known_malware d' (fod_md5 f) (fod_sha f) (fod_sha256 f)"
      using clean mal rows(5) by auto
    show "fst (inherited_verdict env2 d' (fod_md5 f) (fod_sha f) (fod_sha256 f)
        (if known_clean d' (fod_md5 f) (fod_sha f) (fod_sha256 f)
         then clean_fallback else malware_fallback)) = ?v"
      by (rule inherited_verdict_const [OF _ fall]) (use rows(1) in blast)
  qed
qed

theorem override_holds_for_uploads_witness:
  "\<exists>resp2 row. checkIfHashAlreadyPresent sample_submit (sample_fod\<lparr>fod_id := 2\<rparr>) ''az'' ''bz'' ''cz'' []
        overridden_db = (resp2, overridden_db\<lparr>fods := fods overridden_db @ [row]\<rparr>)
    \<and> resp_status resp2 = StatusOK \<and> fod_id row = fod_id (sample_fod\<lparr>fod_id := 2\<rparr>)
    \<and> fod_final_verdict row = requested_verdict allow_request"
proof -
  let ?f = "sample_fod\<lparr>fod_rating := ''High'', fod_final_verdict := BLOCK\<rparr>"
  have "\<not> has_fod reported_db (fod_id (sample_fod\<lparr>fod_id := 2\<rparr>))"
    by (simp add: has_fod_def reported_db_def sample_fod_def)
  from override_holds_for_uploads [OF reported_override _ reported_file [symmetric] sample_submit_healthy this,
      where ip = "[]"]
  show ?thesis by (simp add: override_success_def sample_fod_hashes)
qed

text \<open>An override reaches the firewall: a query for the overridden file's md5 sum is answered
  clean after an override to allow and block after an override to block, whatever the preset list
  says, when no other row has that string as its sha1 or sha256 sum.\<close>

theorem override_reaches_firewall:
  assumes "overrideFileVerdict env req user d = (resp, d')" "resp_status resp = StatusOK"
    "f = overridden_file env d req" "healthy env2" "trim_space (fod_md5 f) = fod_md5 f" "fod_md5 f \<noteq> []"
    "\<forall>g \<in> set (fods d'). \<not> ceq d' (fod_md5 f) (fod_sha g) \<and> \<not> ceq d' (fod_md5 f) (fod_sha256 g)"
  shows "FileFromFireWall env2 d' (fod_md5 f) =
    (if requested_verdict req = ALLOW then FW_CLEAN else FW_BLOCK)"
proof -
  note rows = overridden_rows [OF assms(1-3)]
  let ?v = "requested_verdict req" and ?m = "fod_md5 f"
  from rows(2) obtain g where g: "g \<in> set (fods d')" "fod_final_verdict g = ?v"
    "fod_hash_match d' ?m ?m ?m g"
    by (auto simp: fod_hash_match_def hash_match_def)
  have same: "h \<in> set (fods d') \<Longrightarrow> fod_hash_match d' ?m ?m ?m h \<Longrightarrow> fod_final_verdict h = ?v" for h
    using rows(1) [of h] assms(7) by (auto simp: fod_hash_match_def hash_match_def)
  have clean: "known_clean d' ?m ?m ?m \<longleftrightarrow> ?v = ALLOW"
    using g same by (auto simp: known_clean_def)
  have "?v \<noteq> ALLOW \<Longrightarrow> known_malware d' ?m ?m ?m"
    using g rows(5) by (auto simp: known_malware_def)
  then show ?thesis
    using assms(4-6) clean
    by (simp add: FileFromFireWall_def Let_def IsCleanHashFromDb_healthy IsMalwareHashFromDb_healthy)
qed

theorem override_reaches_firewall_witness:
  "FileFromFireWall sample_submit overridden_db ''az'' = FW_CLEAN"
proof -
  have t: "trim_space ''az'' = ''az''" by code_simp
  let ?f = "sample_fod\<lparr>fod_rating := ''High'', fod_final_verdict := BLOCK\<rparr>"
  have "FileFromFireWall sample_submit overridden_db (fod_md5 ?f)
    = (if requested_verdict allow_request = ALLOW then FW_CLEAN else FW_BLOCK)"
    by (rule override_reaches_firewall [OF reported_override _ reported_file [symmetric] sample_submit_healthy])
      (simp_all add: override_success_def sample_fod_hashes t ceq_def overridden_db_def reported_db_def
        sample_db_def empty_db_def)
  then show ?thesis by (simp add: sample_fod_hashes allow_request_verdict)
qed

subsection \<open>The log\<close>

lemma str_less_cotrans: "str_less a c \<Longrightarrow> str_less a b \<or> str_less b c"
proof (induction a c arbitrary: b rule: str_less.induct)
  case (2 c s)
  then show ?case by (cases b) simp_all
next
  case (3 x s y t)
  then show ?case by (cases b) auto
qed simp

lemma str_less_asym: "str_less a b \<Longrightarrow> \<not> str_less b a"
  by (induction a b rule: str_less.induct) auto

interpretation latest: comparison "\<lambda>a b. str_less (SubmittedTimeText b) (SubmittedTimeText a)"
  by unfold_locales (use str_less_cotrans str_less_asym in blast)+

text \<open>The log lists exactly the overridden files and urls, once each, from the latest submission
  time to the earliest.\<close>

theorem overridden_log_complete:
  assumes "healthy env" "values ''admin_name'' = Some name"
  shows "\<exists>entries. GetOverriddenVerdictLogs env show_time (Inr values) d =
      NewSuccessResponse ''Success'' (Some entries)
    \<and> mset entries = mset (map (file_entry show_time) (filter fod_overridden_verdict (fods d)))
        + mset (map (url_entry show_time) (filter uod_overridden_verdict (uods d)))
    \<and> sorted_wrt (\<lambda>a b. \<not> str_less (SubmittedTimeText a) (SubmittedTimeText b)) entries"
proof (intro exI conjI)
  show "GetOverriddenVerdictLogs env show_time (Inr values) d =
      NewSuccessResponse ''Success''
        (Some (sort_slice (\<lambda>a b. str_less (SubmittedTimeText b) (SubmittedTimeText a))
           (map (file_entry show_time) (filter fod_overridden_verdict (fods d)) @
            map (url_entry show_time) (filter uod_overridden_verdict (uods d)))))"
    using assms by (simp add: GetOverriddenVerdictLogs_def)
qed (simp_all only: sort_slice_mset latest.sort_slice_ordered mset_append)

theorem overridden_log_complete_witness:
  "\<exists>entries. GetOverriddenVerdictLogs sample_db_env (\<lambda>_. ''t'') (Inr [''admin_name'' \<mapsto> ''ann'']) reported_db =
      NewSuccessResponse ''Success'' (Some entries)
    \<and> mset entries = mset (map (file_entry (\<lambda>_. ''t'')) (filter fod_overridden_verdict (fods reported_db)))
        + mset (map (url_entry (\<lambda>_. ''t'')) (filter uod_overridden_verdict (uods reported_db)))
    \<and> sorted_wrt (\<lambda>a b. \<not> str_less (SubmittedTimeText a) (SubmittedTimeText b)) entries"
  by (rule overridden_log_complete) (simp_all add: healthy_def sample_db_env_def)

end
