(* ===== verification/Config_Store.thy ===== *)
theory Config_Store
  imports Submission Override
begin

text \<open>
  The YAML configuration: \<open>config/config.go\<close>, \<open>dao/FetchProfiles.go\<close>, \<open>dao/SaveProfile.go\<close>,
  \<open>dao/DeleteProfiles.go\<close> and the structs of \<open>model/model.go\<close> they store. The bytes of a
  document are a type variable: marshalling and unmarshalling (\<open>yaml.v3\<close>) and the outcome of the
  file operations and of \<open>TryLock\<close> are parameters. A time is the number of nanoseconds since the
  Unix epoch. The rows of a model type are selected by reflection over the struct's fields, in
  their order.
\<close>

subsection \<open>The stored data\<close>

record user_auth =
  ua_key :: string
  ua_created :: int
  ua_username :: string
  ua_password :: string
  ua_type :: int
  ua_invalid :: int
  ua_holding :: int
  ua_active :: bool
  ua_super :: bool

record admin =
  adm_key :: string
  adm_created :: int
  adm_name :: string
  adm_email :: string
  adm_country :: string
  adm_phone :: string
  adm_organization :: string
  adm_user :: string
  adm_signed_up :: bool
  adm_role :: string

record role =
  role_key :: string
  role_created :: int
  role_name :: string
  role_description :: string
  role_custom :: int

record role_action =
  ra_key :: string
  ra_created :: int
  ra_role :: string
  ra_feature :: string
  ra_permission :: int

record feature =
  ft_key :: string
  ft_title :: string
  ft_self_type :: int
  ft_grand_parent :: string
  ft_parent :: string
  ft_is_hide :: int
  ft_position :: int
  ft_possible :: int
  ft_message :: string
  ft_icon :: string
  ft_type :: string
  ft_path :: string

record device =
  dev_key :: string
  dev_created :: int
  dev_name :: string
  dev_category :: string
  dev_serial :: string
  dev_ip :: string
  dev_email :: string
  dev_mobile :: string
  dev_country :: string
  dev_state :: string
  dev_city :: string

record keys_table =
  kt_shipping :: int
  kt_serial :: string
  kt_appliance :: string
  kt_expiry :: int
  kt_model :: string
  kt_email :: string

record app_config =
  UserAuthentications :: "user_auth list"
  Admins :: "admin list"
  Roles :: "role list"
  Features :: "feature list"
  RoleAndActions :: "role_action list"
  ScanProfiles :: "scan_profile list"
  Devices :: "device list"
  BackupConfigTime :: int
  RestoreConfigTime :: int
  ViewLogs :: bool

definition zero_config :: app_config where
  "zero_config = \<lparr>UserAuthentications = [], Admins = [], Roles = [], Features = [],
     RoleAndActions = [], ScanProfiles = [], Devices = [], BackupConfigTime = zero_time,
     RestoreConfigTime = zero_time, ViewLogs = False\<rparr>"

definition zero_keys :: keys_table where
  "zero_keys = \<lparr>kt_shipping = zero_time, kt_serial = [], kt_appliance = [], kt_expiry = zero_time,
     kt_model = [], kt_email = []\<rparr>"

subsection \<open>Files\<close>

datatype conf_file = ConfigFile | LicenseFile

text \<open>The documents on disk; \<open>None\<close> is a missing file.\<close>

record 'y store =
  config_doc :: "'y option"
  license_doc :: "'y option"

text \<open>
  \<open>write_error_of\<close> is the error of \<open>os.WriteFile\<close>, \<open>torn\<close> what a failed write leaves in the file.
\<close>

record 'y conf_env =
  lock_free :: bool
  create_error_of :: "conf_file \<Rightarrow> go_error option"
  read_error_of :: "conf_file \<Rightarrow> go_error option"
  write_error_of :: "conf_file \<Rightarrow> go_error option"
  torn :: "conf_file \<Rightarrow> 'y option"
  empty_doc :: 'y
  enc_config :: "app_config \<Rightarrow> go_error + 'y"
  dec_config :: "'y \<Rightarrow> go_error + app_config"
  enc_license :: "keys_table \<Rightarrow> go_error + 'y"
  dec_license :: "'y \<Rightarrow> go_error + keys_table"

definition ErrInternalServer :: go_error where
  "ErrInternalServer = Err ''internal server error''"

text \<open>\<open>readConfigFile\<close>: a missing file is created with the text of an empty document.\<close>

definition readConfigFile ::
  "('y, 'e) conf_env_scheme \<Rightarrow> conf_file \<Rightarrow> 'y option \<Rightarrow> (go_error + 'y) \<times> 'y option" where
  "readConfigFile env f doc =
     (let read = (\<lambda>y. case read_error_of env f of Some e \<Rightarrow> Inl e | None \<Rightarrow> Inr y) in
      case doc of
        None \<Rightarrow>
          (case create_error_of env f of
             Some e \<Rightarrow> (Inl e, torn env f)
           | None \<Rightarrow> (read (empty_doc env), Some (empty_doc env)))
      | Some y \<Rightarrow> (read y, Some y))"

definition write_file ::
  "('y, 'e) conf_env_scheme \<Rightarrow> conf_file \<Rightarrow> 'y \<Rightarrow> go_error option \<times> 'y option" where
  "write_file env f y =
     (case write_error_of env f of Some e \<Rightarrow> (Some e, torn env f) | None \<Rightarrow> (None, Some y))"

subsection \<open>Updating rows\<close>

text \<open>
  One case of \<open>UpdateConfig\<close>: the first new row replaces the row with its key; when there is none,
  all new rows are appended.
\<close>

definition upsert :: "('a \<Rightarrow> string) \<Rightarrow> 'a list \<Rightarrow> 'a list \<Rightarrow> 'a list" where
  "upsert key news olds =
     (case news of
        [] \<Rightarrow> olds
      | r # rs \<Rightarrow>
          if \<exists>x \<in> set olds. key x = key r then replace_first (\<lambda>x. key x = key r) r olds
          else olds @ news)"

text \<open>The case of role actions: every stored row takes the first new row with its key.\<close>

definition upsert_each :: "('a \<Rightarrow> string) \<Rightarrow> 'a list \<Rightarrow> 'a list \<Rightarrow> 'a list" where
  "upsert_each key news olds =
     (if \<exists>x \<in> set olds. \<exists>r \<in> set news. key x = key r
      then map (\<lambda>x. case find (\<lambda>r. key x = key r) news of None \<Rightarrow> x | Some r \<Rightarrow> r) olds
      else olds @ news)"

definition merge_config :: "app_config \<Rightarrow> app_config \<Rightarrow> app_config" where
  "merge_config resp config =
     config\<lparr>UserAuthentications := upsert ua_key (UserAuthentications resp) (UserAuthentications config),
            Admins := upsert adm_key (Admins resp) (Admins config),
            Roles := upsert role_key (Roles resp) (Roles config),
            Features := upsert ft_key (Features resp) (Features config),
            RoleAndActions := upsert_each ra_key (RoleAndActions resp) (RoleAndActions config),
            ScanProfiles := upsert UserAuthenticationKey (ScanProfiles resp) (ScanProfiles config),
            Devices := upsert dev_key (Devices resp) (Devices config),
            BackupConfigTime :=
              (if BackupConfigTime resp = zero_time then BackupConfigTime config else BackupConfigTime resp),
            RestoreConfigTime :=
              (if RestoreConfigTime resp = zero_time then RestoreConfigTime config
               else RestoreConfigTime resp)\<rparr>"

definition UpdateLicenseKeyData ::
  "('y, 'e) conf_env_scheme \<Rightarrow> keys_table \<Rightarrow> ('y, 's) store_scheme
   \<Rightarrow> go_error option \<times> ('y, 's) store_scheme" where
  "UpdateLicenseKeyData env resp st =
     (if kt_appliance resp = [] then (None, st)
      else
        (case readConfigFile env LicenseFile (license_doc st) of
           (Inl e, d) \<Rightarrow> (Some e, st\<lparr>license_doc := d\<rparr>)
         | (Inr y, d) \<Rightarrow>
             (case dec_license env y of
                Inl e \<Rightarrow> (Some e, st\<lparr>license_doc := d\<rparr>)
              | Inr _ \<Rightarrow>
                  (case enc_license env resp of
                     Inl e \<Rightarrow> (Some e, st\<lparr>license_doc := d\<rparr>)
                   | Inr y' \<Rightarrow>
                       (let (err, d') = write_file env LicenseFile y'
                        in (err, st\<lparr>license_doc := d'\<rparr>))))))"

text \<open>Writing the configuration: the common end of \<open>UpdateConfig\<close> and \<open>DeleteConfig\<close>.\<close>

definition store_config ::
  "('y, 'e) conf_env_scheme \<Rightarrow> app_config \<Rightarrow> ('y, 's) store_scheme
   \<Rightarrow> go_error option \<times> ('y, 's) store_scheme" where
  "store_config env config st =
     (case enc_config env config of
        Inl e \<Rightarrow> (Some e, st)
      | Inr y \<Rightarrow> (let (err, d) = write_file env ConfigFile y in (err, st\<lparr>config_doc := d\<rparr>)))"

definition UpdateConfig ::
  "('y, 'e) conf_env_scheme \<Rightarrow> app_config \<Rightarrow> keys_table \<Rightarrow> ('y, 's) store_scheme
   \<Rightarrow> go_error option \<times> ('y, 's) store_scheme" where
  "UpdateConfig env resp lic st =
     (if \<not> lock_free env then (Some ErrInternalServer, st)
      else
        (case readConfigFile env ConfigFile (config_doc st) of
           (Inl e, d) \<Rightarrow> (Some e, st\<lparr>config_doc := d\<rparr>)
         | (Inr y, d) \<Rightarrow>
             (case dec_config env y of
                Inl e \<Rightarrow> (Some e, st\<lparr>config_doc := d\<rparr>)
              | Inr config \<Rightarrow>
                  (case UpdateLicenseKeyData env lic (st\<lparr>config_doc := d\<rparr>) of
                     (Some e, st') \<Rightarrow> (Some e, st')
                   | (None, st') \<Rightarrow> store_config env (merge_config resp config) st'))))"

subsection \<open>Deleting rows\<close>

text \<open>One case of \<open>DeleteConfig\<close>: the key of the first row given is removed.\<close>

definition remove_rows :: "('a \<Rightarrow> string) \<Rightarrow> 'a list \<Rightarrow> 'a list \<Rightarrow> 'a list" where
  "remove_rows key gone olds =
     (case gone of [] \<Rightarrow> olds | r # rs \<Rightarrow> filter (\<lambda>x. key x \<noteq> key r) olds)"

text \<open>The new configuration starts from the zero value; no case copies \<open>ViewLogs\<close>.\<close>

definition remaining_config :: "app_config \<Rightarrow> app_config \<Rightarrow> app_config" where
  "remaining_config resp config =
     zero_config\<lparr>UserAuthentications :=
                   remove_rows ua_key (UserAuthentications resp) (UserAuthentications config),
                 Admins := remove_rows adm_key (Admins resp) (Admins config),
                 Roles := remove_rows role_key (Roles resp) (Roles config),
                 Features := remove_rows ft_key (Features resp) (Features config),
                 RoleAndActions := remove_rows ra_key (RoleAndActions resp) (RoleAndActions config),
                 ScanProfiles :=
                   remove_rows UserAuthenticationKey (ScanProfiles resp) (ScanProfiles config),
                 Devices := remove_rows dev_key (Devices resp) (Devices config),
                 BackupConfigTime := BackupConfigTime config,
                 RestoreConfigTime := RestoreConfigTime config\<rparr>"

definition DeleteConfig ::
  "('y, 'e) conf_env_scheme \<Rightarrow> app_config \<Rightarrow> ('y, 's) store_scheme
   \<Rightarrow> go_error option \<times> ('y, 's) store_scheme" where
  "DeleteConfig env resp st =
     (if \<not> lock_free env then (Some ErrInternalServer, st)
      else
        (case readConfigFile env ConfigFile (config_doc st) of
           (Inl e, d) \<Rightarrow> (Some e, st\<lparr>config_doc := d\<rparr>)
         | (Inr y, d) \<Rightarrow>
             (case dec_config env y of
                Inl e \<Rightarrow> (Some e, st\<lparr>config_doc := d\<rparr>)
              | Inr config \<Rightarrow> store_config env (remaining_config resp config) (st\<lparr>config_doc := d\<rparr>))))"

subsection \<open>Profiles\<close>

datatype profile =
    AdminProfile admin
  | KeysProfile keys_table
  | UserProfile user_auth
  | RoleProfile role
  | RoleActionProfile role_action
  | FeatureProfile feature
  | ScanProfileOf scan_profile
  | OverriddenProfile overridden_verdict
  | DeviceProfile device
  | BackupProfile int
  | RestoreProfile int

text \<open>The two configurations \<open>SaveProfile\<close> collects; an overridden verdict goes to one nobody stores.\<close>

fun add_profile :: "profile \<Rightarrow> app_config \<times> keys_table \<Rightarrow> app_config \<times> keys_table" where
  "add_profile (AdminProfile a) (c, k) = (c\<lparr>Admins := Admins c @ [a]\<rparr>, k)"
| "add_profile (KeysProfile t) (c, k) = (c, t)"
| "add_profile (UserProfile u) (c, k) = (c\<lparr>UserAuthentications := UserAuthentications c @ [u]\<rparr>, k)"
| "add_profile (RoleProfile r) (c, k) = (c\<lparr>Roles := Roles c @ [r]\<rparr>, k)"
| "add_profile (RoleActionProfile r) (c, k) = (c\<lparr>RoleAndActions := RoleAndActions c @ [r]\<rparr>, k)"
| "add_profile (FeatureProfile f) (c, k) = (c\<lparr>Features := Features c @ [f]\<rparr>, k)"
| "add_profile (ScanProfileOf s) (c, k) = (c\<lparr>ScanProfiles := ScanProfiles c @ [s]\<rparr>, k)"
| "add_profile (OverriddenProfile v) (c, k) = (c, k)"
| "add_profile (DeviceProfile d) (c, k) = (c\<lparr>Devices := Devices c @ [d]\<rparr>, k)"
| "add_profile (BackupProfile t) (c, k) = (c\<lparr>BackupConfigTime := t\<rparr>, k)"
| "add_profile (RestoreProfile t) (c, k) = (c\<lparr>RestoreConfigTime := t\<rparr>, k)"

definition SaveProfile ::
  "('y, 'e) conf_env_scheme \<Rightarrow> profile list \<Rightarrow> ('y, 's) store_scheme
   \<Rightarrow> go_error option \<times> ('y, 's) store_scheme" where
  "SaveProfile env profiles st =
     (let (newconfig, licenseKeyConfig) = fold add_profile profiles (zero_config, zero_keys)
      in UpdateConfig env newconfig licenseKeyConfig st)"

text \<open>\<open>DeleteProfile\<close> has no case for scan profiles, keys, verdicts and times.\<close>

fun deletable :: "profile \<Rightarrow> bool" where
  "deletable (AdminProfile a) = True"
| "deletable (UserProfile u) = True"
| "deletable (RoleProfile r) = True"
| "deletable (RoleActionProfile r) = True"
| "deletable (FeatureProfile f) = True"
| "deletable (DeviceProfile d) = True"
| "deletable _ = False"

definition DeleteProfile ::
  "('y, 'e) conf_env_scheme \<Rightarrow> profile list \<Rightarrow> ('y, 's) store_scheme
   \<Rightarrow> go_error option \<times> ('y, 's) store_scheme" where
  "DeleteProfile env profiles st =
     DeleteConfig env (fst (fold add_profile (filter deletable profiles) (zero_config, zero_keys))) st"

subsection \<open>Fetching rows\<close>

text \<open>The value of a struct field as an \<open>interface{}\<close>, and of a query.\<close>

datatype any = AStr string | AInt int | ABool bool | ATime int | ANil

text \<open>
  \<open>CompareDataType\<close> compares the kinds; the kind of the type of \<open>nil\<close> is a nil dereference. The
  text of the error leaves out the two values.
\<close>

fun kind_of :: "any \<Rightarrow> string" where
  "kind_of (AStr s) = ''string''"
| "kind_of (AInt i) = ''int''"
| "kind_of (ABool b) = ''bool''"
| "kind_of (ATime t) = ''struct''"
| "kind_of ANil = ''nil''"

definition CompareDataType :: "any \<Rightarrow> any \<Rightarrow> go_error option" where
  "CompareDataType x y =
     (if x = ANil \<or> y = ANil then Some (Panic ''nil pointer dereference'')
      else if kind_of x \<noteq> kind_of y then
        Some (Err (''data type of '' @ kind_of x @ '' and '' @ kind_of y @ '' is different''))
      else None)"

text \<open>
  How often a row is taken for a query, given its fields by name: once for every field whose value
  the query gives.
\<close>

fun row_hits :: "(string \<times> any) list \<Rightarrow> (string \<times> any) list \<Rightarrow> go_error + nat" where
  "row_hits q [] = Inr 0"
| "row_hits q ((name, v) # fs) =
     (case map_of q name of
        None \<Rightarrow> row_hits q fs
      | Some w \<Rightarrow>
          (case CompareDataType v w of
             Some e \<Rightarrow> Inl e
           | None \<Rightarrow>
               (case row_hits q fs of
                  Inl e \<Rightarrow> Inl e
                | Inr n \<Rightarrow> Inr ((if v = w then 1 else 0) + n))))"

fun fetch_rows ::
  "('a \<Rightarrow> (string \<times> any) list) \<Rightarrow> (string \<times> any) list \<Rightarrow> 'a list \<Rightarrow> go_error + 'a list" where
  "fetch_rows fields_of q [] = Inr []"
| "fetch_rows fields_of q (r # rs) =
     (case row_hits q (fields_of r) of
        Inl e \<Rightarrow> Inl e
      | Inr n \<Rightarrow>
          (case fetch_rows fields_of q rs of
             Inl e \<Rightarrow> Inl e
           | Inr xs \<Rightarrow> Inr (replicate n r @ xs)))"

definition user_fields :: "user_auth \<Rightarrow> (string \<times> any) list" where
  "user_fields u =
     [(''Key'', AStr (ua_key u)), (''CreatedAt'', ATime (ua_created u)),
      (''Username'', AStr (ua_username u)), (''Password'', AStr (ua_password u)),
      (''UserType'', AInt (ua_type u)), (''InvalidAttempt'', AInt (ua_invalid u)),
      (''HoldingDatetime'', ATime (ua_holding u)), (''IsActive'', ABool (ua_active u)),
      (''IsSuperAdmin'', ABool (ua_super u))]"

definition admin_fields :: "admin \<Rightarrow> (string \<times> any) list" where
  "admin_fields a =
     [(''Key'', AStr (adm_key a)), (''CreatedAt'', ATime (adm_created a)),
      (''Name'', AStr (adm_name a)), (''Email'', AStr (adm_email a)),
      (''CountryCode'', AStr (adm_country a)), (''Phone'', AStr (adm_phone a)),
      (''Organization'', AStr (adm_organization a)),
      (''UserAuthenticationKey'', AStr (adm_user a)),
      (''AlreadySignedUp'', ABool (adm_signed_up a)), (''RoleKey'', AStr (adm_role a))]"

definition role_fields :: "role \<Rightarrow> (string \<times> any) list" where
  "role_fields r =
     [(''Key'', AStr (role_key r)), (''CreatedAt'', ATime (role_created r)),
      (''Name'', AStr (role_name r)), (''Description'', AStr (role_description r)),
      (''Custom'', AInt (role_custom r))]"

definition role_action_fields :: "role_action \<Rightarrow> (string \<times> any) list" where
  "role_action_fields r =
     [(''Key'', AStr (ra_key r)), (''CreatedAt'', ATime (ra_created r)),
      (''RoleKey'', AStr (ra_role r)), (''FeatureKey'', AStr (ra_feature r)),
      (''Permission'', AInt (ra_permission r))]"

definition feature_fields :: "feature \<Rightarrow> (string \<times> any) list" where
  "feature_fields f =
     [(''Key'', AStr (ft_key f)), (''Title'', AStr (ft_title f)), (''SelfType'', AInt (ft_self_type f)),
      (''GrandParentKey'', AStr (ft_grand_parent f)), (''ParentKey'', AStr (ft_parent f)),
      (''IsHide'', AInt (ft_is_hide f)), (''Position'', AInt (ft_position f)),
      (''PossiblePermission'', AInt (ft_possible f)), (''MessageID'', AStr (ft_message f)),
      (''Icon'', AStr (ft_icon f)), (''Type'', AStr (ft_type f)), (''Path'', AStr (ft_path f))]"

definition device_fields :: "device \<Rightarrow> (string \<times> any) list" where
  "device_fields d =
     [(''Key'', AStr (dev_key d)), (''CreatedAt'', ATime (dev_created d)),
      (''DeviceName'', AStr (dev_name d)), (''ProductCategory'', AStr (dev_category d)),
      (''SerialNumber'', AStr (dev_serial d)), (''IpAddress'', AStr (dev_ip d)),
      (''Email'', AStr (dev_email d)), (''MobileNumber'', AStr (dev_mobile d)),
      (''Country'', AStr (dev_country d)), (''State'', AStr (dev_state d)),
      (''City'', AStr (dev_city d))]"

definition scan_profile_fields :: "scan_profile \<Rightarrow> (string \<times> any) list" where
  "scan_profile_fields p =
     map (\<lambda>(n, b). (n, ABool b)) (profile_fields p)
     @ [(''UserAuthenticationKey'', AStr (UserAuthenticationKey p))]"

text \<open>\<open>FetchConfigData\<close>: the decoded configuration; a missing file is created.\<close>

definition FetchConfigData ::
  "('y, 'e) conf_env_scheme \<Rightarrow> ('y, 's) store_scheme \<Rightarrow> (go_error + app_config) \<times> ('y, 's) store_scheme"
where
  "FetchConfigData env st =
     (case readConfigFile env ConfigFile (config_doc st) of
        (Inl e, d) \<Rightarrow> (Inl e, st\<lparr>config_doc := d\<rparr>)
      | (Inr y, d) \<Rightarrow> (dec_config env y, st\<lparr>config_doc := d\<rparr>))"

text \<open>
  One case of \<open>FetchSpecificConfigData\<close> with the wrapper in \<open>dao/FetchProfiles.go\<close>: without query
  fields the whole table, otherwise the rows a field selects, sorted by \<open>finish\<close>; no row is the
  model's error.
\<close>

definition fetch_table ::
  "(app_config \<Rightarrow> 'a list) \<Rightarrow> ('a \<Rightarrow> (string \<times> any) list) \<Rightarrow> ('a list \<Rightarrow> 'a list) \<Rightarrow> go_error
   \<Rightarrow> ('y, 'e) conf_env_scheme \<Rightarrow> (string \<times> any) list \<Rightarrow> ('y, 's) store_scheme
   \<Rightarrow> (go_error + 'a list) \<times> ('y, 's) store_scheme" where
  "fetch_table table fields_of finish none env q st =
     (case FetchConfigData env st of
        (Inl e, st') \<Rightarrow> (Inl e, st')
      | (Inr config, st') \<Rightarrow>
          if q = [] then (Inr (table config), st')
          else
            (case fetch_rows fields_of q (table config) of
               Inl e \<Rightarrow> (Inl e, st')
             | Inr [] \<Rightarrow> (Inl none, st')
             | Inr (x # xs) \<Rightarrow> (Inr (finish (x # xs)), st')))"

text \<open>\<open>sort.Slice\<close> with \<open>CreatedAt.After\<close>: the newest row first.\<close>

definition newest_first :: "('a \<Rightarrow> int) \<Rightarrow> 'a list \<Rightarrow> 'a list" where
  "newest_first created xs = sort_slice (\<lambda>a b. created b < created a) xs"

definition ErrNoRecordForUserAuth :: go_error where
  "ErrNoRecordForUserAuth = Err ''no record match for user''"
definition ErrNoRecordForAdmin :: go_error where
  "ErrNoRecordForAdmin = Err ''no record match for user''"
definition ErrNoRecordForRole :: go_error where
  "ErrNoRecordForRole = Err ''no record match for role''"
definition ErrNoRecordForRoleAndAction :: go_error where
  "ErrNoRecordForRoleAndAction = Err ''no record match for role and action''"
definition ErrNoRecordForFeature :: go_error where
  "ErrNoRecordForFeature = Err ''no record match for feature''"
definition ErrNoRecordForDevice :: go_error where
  "ErrNoRecordForDevice = Err ''no record match for device''"
definition ErrNoRecordForLicenseKey :: go_error where
  "ErrNoRecordForLicenseKey = Err ''no record match for license key''"

definition FetchUserAuthProfile where
  "FetchUserAuthProfile =
     fetch_table UserAuthentications user_fields (newest_first ua_created) ErrNoRecordForUserAuth"
definition FetchAdminProfile where
  "FetchAdminProfile = fetch_table Admins admin_fields (newest_first adm_created) ErrNoRecordForAdmin"
definition FetchRoleProfile where
  "FetchRoleProfile = fetch_table Roles role_fields (newest_first role_created) ErrNoRecordForRole"
definition FetchRoleAndActionProfile where
  "FetchRoleAndActionProfile =
     fetch_table RoleAndActions role_action_fields (newest_first ra_created) ErrNoRecordForRoleAndAction"
definition FetchFeatureProfile where
  "FetchFeatureProfile = fetch_table Features feature_fields (\<lambda>xs. xs) ErrNoRecordForFeature"

text \<open>Devices selected by a query are reversed after sorting.\<close>

definition FetchDeviceProfile where
  "FetchDeviceProfile env q st =
     (case fetch_table Devices device_fields (newest_first dev_created) ErrNoRecordForDevice env q st of
        (Inl e, st') \<Rightarrow> (Inl e, st')
      | (Inr ds, st') \<Rightarrow> (Inr (if q = [] then ds else rev ds), st'))"

text \<open>The key of the first scan profile is blanked: with no profile at all the index panics.\<close>

definition FetchScanProfile where
  "FetchScanProfile env q st =
     (case fetch_table ScanProfiles scan_profile_fields (\<lambda>xs. xs) ErrNoRecordForScanProfile env q st of
        (Inl e, st') \<Rightarrow> (Inl e, st')
      | (Inr [], st') \<Rightarrow> (Inl (Panic ''index out of range''), st')
      | (Inr (p # ps), st') \<Rightarrow> (Inr (p\<lparr>UserAuthenticationKey := []\<rparr> # ps), st'))"

definition FetchLicenseKeyProfile ::
  "('y, 'e) conf_env_scheme \<Rightarrow> ('y, 's) store_scheme \<Rightarrow> (go_error + keys_table) \<times> ('y, 's) store_scheme"
where
  "FetchLicenseKeyProfile env st =
     (case readConfigFile env LicenseFile (license_doc st) of
        (Inl e, d) \<Rightarrow> (Inl e, st\<lparr>license_doc := d\<rparr>)
      | (Inr y, d) \<Rightarrow>
          (case dec_license env y of
             Inl e \<Rightarrow> (Inl e, st\<lparr>license_doc := d\<rparr>)
           | Inr k \<Rightarrow>
               (if kt_appliance k = [] then Inl ErrNoRecordForLicenseKey else Inr k,
                st\<lparr>license_doc := d\<rparr>)))"

subsection \<open>Restoring a configuration\<close>

text \<open>Uploaded rows whose key the stored table lacks are appended.\<close>

definition append_new :: "('a \<Rightarrow> string) \<Rightarrow> 'a list \<Rightarrow> 'a list \<Rightarrow> 'a list" where
  "append_new key uploaded olds = olds @ filter (\<lambda>r. key r \<notin> key ` set olds) uploaded"

definition merge_uploaded :: "app_config \<Rightarrow> app_config \<Rightarrow> app_config" where
  "merge_uploaded uploaded config =
     uploaded\<lparr>UserAuthentications :=
                append_new ua_key (UserAuthentications uploaded) (UserAuthentications config),
              Admins := append_new adm_key (Admins uploaded) (Admins config),
              Roles := append_new role_key (Roles uploaded) (Roles config),
              Features := append_new ft_key (Features uploaded) (Features config),
              RoleAndActions := append_new ra_key (RoleAndActions uploaded) (RoleAndActions config)\<rparr>"

text \<open>\<open>MergeConfigAndUploadedData\<close>: every failure gives the zero configuration.\<close>

definition MergeConfigAndUploadedData ::
  "('y, 'e) conf_env_scheme \<Rightarrow> app_config \<Rightarrow> 'y option \<Rightarrow> app_config" where
  "MergeConfigAndUploadedData env uploaded doc =
     (if \<not> lock_free env then zero_config
      else
        case doc of
          None \<Rightarrow> zero_config
        | Some y \<Rightarrow>
            if read_error_of env ConfigFile \<noteq> None then zero_config
            else
              (case dec_config env y of
                 Inl e \<Rightarrow> zero_config
               | Inr config \<Rightarrow> merge_uploaded uploaded config))"

end
