(* ===== verification/Auth_Api.thy ===== *)
theory Auth_Api
  imports Config_Store
begin

text \<open>
  What authentication rests on: \<open>auth/jwt.go\<close>, \<open>auth/authMiddleware.go\<close>,
  \<open>auth/HashPassword.go\<close>, the validators of \<open>util/utils.go\<close> and \<open>validation/\<close>. bcrypt, the JWT
  library, the phone library and the UUIDs are parameters. The clock is read once per request.
\<close>

subsection \<open>Parameters\<close>

record claims =
  ExpiresAt :: int
  IssuedAt :: int
  Issuer :: string

text \<open>
  \<open>parse_token key time token\<close> is the result of \<open>jwt.ParseWithClaims\<close>: an error, or whether the
  token is valid and its claims.
\<close>

record 'y auth_env = "'y conf_env" +
  clock :: int
  bcrypt_hash :: "string \<Rightarrow> go_error + string"
  bcrypt_compare :: "string \<Rightarrow> string \<Rightarrow> go_error option"
  sign_token :: "string \<Rightarrow> claims \<Rightarrow> go_error + string"
  parse_token :: "string \<Rightarrow> int \<Rightarrow> string \<Rightarrow> go_error + bool \<times> claims"
  new_uuid :: "nat \<Rightarrow> string"
  country_known :: "string \<Rightarrow> bool"
  phone_valid :: "string \<Rightarrow> string \<Rightarrow> bool"
  origin_os :: string
  origin_ip :: string

definition HashPassword :: "('y, 'e) auth_env_scheme \<Rightarrow> string \<Rightarrow> go_error + string" where
  "HashPassword env password = bcrypt_hash env password"

definition ComparePasswordHash :: "('y, 'e) auth_env_scheme \<Rightarrow> string \<Rightarrow> string \<Rightarrow> bool" where
  "ComparePasswordHash env password h \<longleftrightarrow> bcrypt_compare env h password = None"

subsection \<open>Tokens\<close>

definition Refresh_key :: string where "Refresh_key = ''this-is-refresh-key''"
definition Access_key :: string where "Access_key = ''this-is-access-key''"

definition seconds_per_day :: int where "seconds_per_day = 86400"

text \<open>Access token, its expiry and the error.\<close>

definition GenerateAccessToken ::
  "('y, 'e) auth_env_scheme \<Rightarrow> string \<Rightarrow> string \<times> int \<times> go_error option" where
  "GenerateAccessToken env refreshToken =
     (case parse_token env Refresh_key (clock env) refreshToken of
        Inl err \<Rightarrow> ([], 0, Some err)
      | Inr (valid, ref_claims) \<Rightarrow>
          if \<not> valid then ([], 0, None)
          else
            let claims = \<lparr>ExpiresAt = unix_time (clock env) + 5 * seconds_per_day,
                          IssuedAt = unix_time (clock env), Issuer = Issuer ref_claims\<rparr>
            in (case sign_token env Access_key claims of
                  Inl err \<Rightarrow> ([], ExpiresAt claims, Some err)
                | Inr tok \<Rightarrow> (tok, ExpiresAt claims, None)))"

definition GenerateRefreshToken :: "('y, 'e) auth_env_scheme \<Rightarrow> string \<Rightarrow> go_error + string" where
  "GenerateRefreshToken env username =
     sign_token env Refresh_key
       \<lparr>ExpiresAt = unix_time (clock env) + 30 * seconds_per_day,
        IssuedAt = unix_time (clock env), Issuer = username\<rparr>"

definition GetRefreshExp :: "('y, 'e) auth_env_scheme \<Rightarrow> string \<Rightarrow> int \<times> go_error option" where
  "GetRefreshExp env tokenString =
     (case parse_token env Refresh_key (clock env) tokenString of
        Inl err \<Rightarrow> (0, Some err)
      | Inr (valid, claims) \<Rightarrow> if \<not> valid then (0, None) else (ExpiresAt claims, None))"

definition AuthenticateToken :: "string list \<Rightarrow> string \<Rightarrow> go_error option" where
  "AuthenticateToken bearer access =
     (case bearer of
        [b, t] \<Rightarrow> if t = access then None
                   else Some (Err ''invalid access token found in request header'')
      | _ \<Rightarrow> Some (Err ''invalid access token found in request header''))"

text \<open>The values of a session by key, and the type assertions on them.\<close>

type_synonym session_values = "string \<Rightarrow> any option"

definition as_string :: "any option \<Rightarrow> go_error + string" where
  "as_string v = (case v of Some (AStr s) \<Rightarrow> Inr s | _ \<Rightarrow> Inl (Panic ''interface conversion''))"

definition as_int :: "any option \<Rightarrow> go_error + int" where
  "as_int v = (case v of Some (AInt i) \<Rightarrow> Inr i | _ \<Rightarrow> Inl (Panic ''interface conversion''))"

definition unauthorized :: "string \<Rightarrow> go_error \<Rightarrow> string api_response" where
  "unauthorized msg e = NewErrorResponse StatusUnauthorized msg e"

text \<open>
  Renewing the access token when its expiry has passed; \<open>Inl\<close> is a panic, \<open>Inr (Inl e)\<close> the error
  of \<open>GenerateAccessToken\<close>.
\<close>

definition renew_access ::
  "('y, 'e) auth_env_scheme \<Rightarrow> session_values \<Rightarrow> go_error + (go_error + session_values)" where
  "renew_access env vals =
     (case as_int (vals ''exp'') of
        Inl p \<Rightarrow> Inl p
      | Inr expiry \<Rightarrow>
          if expiry < unix_time (clock env) then
            (case as_string (vals ''refresh_token'') of
               Inl p \<Rightarrow> Inl p
             | Inr refresh \<Rightarrow>
                 (case GenerateAccessToken env refresh of
                    (tok, expNew, Some e) \<Rightarrow> Inr (Inl e)
                  | (tok, expNew, None) \<Rightarrow>
                      Inr (Inr (vals(''access_token'' \<mapsto> AStr tok, ''exp'' \<mapsto> AInt expNew)))))
          else Inr (Inr vals))"

definition expired :: "('y, 'e) auth_env_scheme \<Rightarrow> session_values \<Rightarrow> bool" where
  "expired env vals \<longleftrightarrow> (case vals ''exp'' of Some (AInt i) \<Rightarrow> i < unix_time (clock env) | _ \<Rightarrow> False)"

text \<open>The checks after a possible renewal: both tokens and the header.\<close>

definition check_tokens ::
  "('y, 'e) auth_env_scheme \<Rightarrow> string \<Rightarrow> session_values \<Rightarrow> go_error + string api_response option" where
  "check_tokens env header vals =
     (case as_string (vals ''access_token'') of
        Inl p \<Rightarrow> Inl p
      | Inr access_text \<Rightarrow>
          (case parse_token env Access_key (clock env) access_text of
             Inl e \<Rightarrow> Inr (Some (unauthorized ''Unauthorized user'' e))
           | Inr (access_valid, _) \<Rightarrow>
               (case as_string (vals ''refresh_token'') of
                  Inl p \<Rightarrow> Inl p
                | Inr refresh_text \<Rightarrow>
                    (case parse_token env Refresh_key (clock env) refresh_text of
                       Inl e \<Rightarrow> Inr (Some (unauthorized ''Error while generating refresh token'' e))
                     | Inr (refresh_valid, _) \<Rightarrow>
                         if \<not> access_valid \<or> \<not> refresh_valid then
                           Inr (Some (unauthorized ''Unauthorized user'' ErrUnauthorizedUser))
                         else
                           (case AuthenticateToken (split_on (CHR '' '') header) access_text of
                              Some e \<Rightarrow> Inr (Some (unauthorized ''Unauthorized user'' ErrUnauthorizedUser))
                            | None \<Rightarrow> Inr None)))))"

text \<open>
  The middleware on a session (the error of \<open>Store.Get\<close> is ignored: a fresh session has no values),
  the result of \<open>session.Save\<close> and the header. \<open>Inr None\<close> passes the request on; the second
  component is the session afterwards.
\<close>

definition JWTAuthMiddleware ::
  "('y, 'e) auth_env_scheme \<Rightarrow> go_error option \<Rightarrow> string \<Rightarrow> session_values
   \<Rightarrow> (go_error + string api_response option) \<times> session_values" where
  "JWTAuthMiddleware env save_error header vals =
     (if vals ''refresh_token'' = None then
        (Inr (Some (unauthorized ''Session invalid'' ErrUnauthorizedUser)), vals)
      else
        (case renew_access env vals of
           Inl p \<Rightarrow> (Inl p, vals)
         | Inr (Inl e) \<Rightarrow> (Inr (Some (unauthorized ''Error while generating access token'' e)), vals)
         | Inr (Inr vals') \<Rightarrow>
             (case (if expired env vals then save_error else None) of
                Some e \<Rightarrow> (Inr (Some (unauthorized ''Session not saved'' e)), vals')
              | None \<Rightarrow> (check_tokens env header vals', vals'))))"

subsection \<open>Validators\<close>

definition is_letter :: "char \<Rightarrow> bool" where
  "is_letter c \<longleftrightarrow> (let n = of_char c :: nat in (65 \<le> n \<and> n \<le> 90) \<or> (97 \<le> n \<and> n \<le> 122))"

definition email_local :: "char \<Rightarrow> bool" where
  "email_local c \<longleftrightarrow> is_letter c \<or> is_digit c \<or> c \<in> set ''._%+-''"

definition email_domain :: "char \<Rightarrow> bool" where
  "email_domain c \<longleftrightarrow> is_letter c \<or> is_digit c \<or> c \<in> set ''.-''"

text \<open>The pattern of \<open>IsValidEmail\<close>: the label after the last dot has 2 to 12 letters.\<close>

definition IsValidEmail :: "string \<Rightarrow> bool" where
  "IsValidEmail email =
     (case split_on (CHR ''@'') email of
        [name, domain] \<Rightarrow>
          (let labels = split_on (CHR ''.'') domain; tld = last labels in
           name \<noteq> [] \<and> list_all email_local name
           \<and> 2 \<le> length labels \<and> take (length domain - length tld - 1) domain \<noteq> []
           \<and> list_all email_domain domain
           \<and> 2 \<le> length tld \<and> length tld \<le> 12 \<and> list_all is_letter tld)
      | _ \<Rightarrow> False)"

definition ip_octet :: "string \<Rightarrow> bool" where
  "ip_octet s \<longleftrightarrow> s \<noteq> [] \<and> length s \<le> 3 \<and> list_all is_digit s"

text \<open>The pattern of \<open>IsValidIp\<close>: four groups of one to three digits.\<close>

definition IsValidIp :: "string \<Rightarrow> bool" where
  "IsValidIp ip \<longleftrightarrow> (let parts = split_on (CHR ''.'') ip in length parts = 4 \<and> list_all ip_octet parts)"

definition ValidateLicenseKey :: "string \<Rightarrow> go_error option" where
  "ValidateLicenseKey key =
     (if list_all (\<lambda>part. length part = 5) (split_on (CHR ''-'') key) then None
      else Some (Err ''invalid license key''))"

text \<open>\<open>TrimString\<close>: the words of a text, with one space between them.\<close>

definition TrimString :: "string \<Rightarrow> string" where
  "TrimString name =
     trim_space (fold (\<lambda>w acc. let val = trim_space w in if 0 < length val then acc @ '' '' @ val else acc)
       (split_on (CHR '' '') name) [])"

record signup_request =
  sr_name :: string
  sr_username :: string
  sr_password :: string
  sr_confirm :: string
  sr_country :: string
  sr_phone :: string
  sr_email :: string
  sr_super :: bool
  sr_license :: string
  sr_role :: string

definition bad :: "string \<Rightarrow> go_error \<Rightarrow> 'd api_response" where
  "bad msg e = NewErrorResponse StatusBadRequest msg e"

definition ErrPasswordDoNotMatch :: go_error where
  "ErrPasswordDoNotMatch = Err ''password and confirm password do not match''"
definition ErrInvalidEmailFound :: go_error where "ErrInvalidEmailFound = Err ''invalid email found''"
definition ErrInvalidCountryCode :: go_error where "ErrInvalidCountryCode = Err ''invalid country code''"
definition ErrInvalidPhoneNumber :: go_error where "ErrInvalidPhoneNumber = Err ''invalid phone number''"
definition ErrInvalidIPAddress :: go_error where "ErrInvalidIPAddress = Err ''invalid ip address''"
definition ErrNonEditableFieldFound :: go_error where
  "ErrNonEditableFieldFound = Err ''non editable field found''"
definition ErrSerialNumberLengthNotInRange :: go_error where
  "ErrSerialNumberLengthNotInRange = Err ''serial number length not in range''"

definition ValidateSignupRequest ::
  "('y, 'e) auth_env_scheme \<Rightarrow> signup_request \<Rightarrow> 'd api_response" where
  "ValidateSignupRequest env r =
     (if sr_name r = [] \<or> sr_username r = [] \<or> sr_password r = [] \<or> sr_email r = []
         \<or> sr_confirm r = [] \<or> sr_country r = [] \<or> sr_phone r = [] then
        bad ''Required field empty'' ErrRequiredFieldEmpty
      else if sr_password r \<noteq> sr_confirm r then bad ''Passwords do not match'' ErrPasswordDoNotMatch
      else if \<not> IsValidEmail (sr_email r) then bad ''Email found invalid'' ErrInvalidEmailFound
      else
        (case (if sr_super r then ValidateLicenseKey (sr_license r) else None) of
           Some e \<Rightarrow> bad ''Invalid license key'' e
         | None \<Rightarrow>
             if \<not> country_known env (sr_country r) then bad ''Invalid country code'' ErrInvalidCountryCode
             else if \<not> phone_valid env (sr_phone r) (sr_country r) then
               bad ''Invalid phone number'' ErrInvalidPhoneNumber
             else NewSuccessResponse ''Success'' None))"

text \<open>\<open>ValidateDevice\<close> trims the request in place: the code, the error and the request afterwards.\<close>

definition validate_new_device ::
  "('y, 'e) auth_env_scheme \<Rightarrow> device \<Rightarrow> (string \<times> go_error option) \<times> device" where
  "validate_new_device env d =
     (if dev_name d = [] \<or> dev_serial d = [] \<or> dev_category d = [] \<or> dev_ip d = [] \<or> dev_email d = []
         \<or> dev_mobile d = [] \<or> dev_country d = [] \<or> dev_state d = [] \<or> dev_city d = [] then
        ((''Required field empty'', Some ErrRequiredFieldEmpty), d)
      else if length (dev_serial d) < 13 \<or> 20 < length (dev_serial d) then
        ((''serial number length not in range'', Some ErrSerialNumberLengthNotInRange), d)
      else
        let d1 = d\<lparr>dev_name := TrimString (dev_name d), dev_email := TrimString (dev_email d)\<rparr> in
        if \<not> IsValidEmail (dev_email d1) then ((''Email found invalid'', Some ErrInvalidEmailFound), d1)
        else if \<not> country_known env (dev_country d1) then
          ((''Invalid country code'', Some ErrInvalidCountryCode), d1)
        else
          let d2 = d1\<lparr>dev_mobile := TrimString (dev_mobile d1)\<rparr> in
          if \<not> phone_valid env (dev_mobile d2) (dev_country d2) then
            ((''Invalid phone number'', Some ErrInvalidPhoneNumber), d2)
          else
            let d3 = d2\<lparr>dev_ip := trim_space (dev_ip d2)\<rparr> in
            if \<not> IsValidIp (dev_ip d3) then ((''Invalid ip address'', Some ErrInvalidIPAddress), d3)
            else ((''Success'', None), d3))"

definition validate_device_update ::
  "('y, 'e) auth_env_scheme \<Rightarrow> device \<Rightarrow> string \<times> go_error option" where
  "validate_device_update env d =
     (if 0 < length (dev_serial d) \<or> 0 < length (dev_name d) then
        (''non editable field'', Some ErrNonEditableFieldFound)
      else if dev_email d \<noteq> [] \<and> \<not> IsValidEmail (dev_email d) then
        (''Email found invalid'', Some ErrInvalidEmailFound)
      else if dev_country d \<noteq> [] \<and> \<not> country_known env (dev_country d) then
        (''Invalid country code'', Some ErrInvalidCountryCode)
      else if dev_country d \<noteq> [] \<and> dev_mobile d = [] then
        (''Required field empty'', Some ErrRequiredFieldEmpty)
      else if dev_country d \<noteq> [] \<and> \<not> phone_valid env (dev_mobile d) (dev_country d) then
        (''Invalid phone number'', Some ErrInvalidPhoneNumber)
      else if dev_ip d \<noteq> [] \<and> \<not> IsValidIp (dev_ip d) then
        (''Invalid ip address'', Some ErrInvalidIPAddress)
      else (''Success'', None))"

definition ValidateDevice ::
  "('y, 'e) auth_env_scheme \<Rightarrow> device \<Rightarrow> bool \<Rightarrow> (string \<times> go_error option) \<times> device" where
  "ValidateDevice env d is_post =
     (if is_post then validate_new_device env d else (validate_device_update env d, d))"

end
