(* ===== verification/Accounts.thy ===== *)
theory Accounts
  imports Auth_Api
begin

text \<open>
  Administrators and their log-in: \<open>service/authenticate.go\<close>, \<open>retryAttempLimiter.go\<close>,
  \<open>login.go\<close>, \<open>changePassword.go\<close>, \<open>createChildAdmin.go\<close>, \<open>rolePermission.go\<close>, \<open>scanProfile.go\<close>
  and \<open>device.go\<close>. An operation returns a response, or \<open>Inl\<close> of a run-time panic, together with
  the stored configuration. An error of \<open>SaveProfile\<close> that the source drops is dropped here.
\<close>

type_synonym 'd outcome = "go_error + 'd api_response"

text \<open>The usual reaction to a failed fetch; a panic inside the fetch goes through.\<close>

definition fetch_failed :: "int \<Rightarrow> go_error \<Rightarrow> go_error \<Rightarrow> 'd outcome" where
  "fetch_failed code none e =
     (case e of
        Panic p \<Rightarrow> Inl (Panic p)
      | Err t \<Rightarrow>
          Inr (NewErrorResponse code
            (if e = none then ''Record not found'' else ''Error while fetching data'') e))"

subsection \<open>Password attempts\<close>

definition TYPE_ADMIN :: int where "TYPE_ADMIN = 1"
definition INVALID_PASSWORD_LIMIT :: int where "INVALID_PASSWORD_LIMIT = 5"

definition ErrInvalidPassword :: go_error where "ErrInvalidPassword = Err ''invalid password''"
definition ErrMaxLoginLimitReached :: go_error where
  "ErrMaxLoginLimitReached = Err ''maximum login limit reached''"

text \<open>\<open>userAuth[0]\<close> is shared by the methods of the limiter: they return it updated.\<close>

definition clearTimeout ::
  "('y, 'e) auth_env_scheme \<Rightarrow> user_auth \<Rightarrow> ('y, 's) store_scheme \<Rightarrow> user_auth \<times> ('y, 's) store_scheme" where
  "clearTimeout env u st =
     (let u' = u\<lparr>ua_invalid := 0, ua_holding := clock env\<rparr>
      in (u', snd (SaveProfile env [UserProfile u'] st)))"

definition InvalidAttempted ::
  "('y, 'e) auth_env_scheme \<Rightarrow> user_auth \<Rightarrow> ('y, 's) store_scheme \<Rightarrow> user_auth \<times> ('y, 's) store_scheme" where
  "InvalidAttempted env u st =
     (let u' = u\<lparr>ua_invalid := ua_invalid u + 1, ua_holding := clock env\<rparr>
      in (u', snd (SaveProfile env [UserProfile u'] st)))"

definition checkUnderTimeout ::
  "('y, 'e) auth_env_scheme \<Rightarrow> user_auth \<Rightarrow> ('y, 's) store_scheme
   \<Rightarrow> bool \<times> user_auth \<times> ('y, 's) store_scheme" where
  "checkUnderTimeout env u st =
     (if INVALID_PASSWORD_LIMIT \<le> ua_invalid u then
        (let fiveMin = unix_time (clock env + 5 * go_minute) - unix_time (clock env);
             timeGap = unix_time (clock env) - unix_time (ua_holding u)
         in if timeGap \<le> fiveMin then (True, u, st)
            else (let (u', st') = clearTimeout env u st in (False, u', st')))
      else (False, u, st))"

record login_request =
  lr_username :: string
  lr_password :: string

definition Authenticate ::
  "('y, 'e) auth_env_scheme \<Rightarrow> login_request \<Rightarrow> int \<Rightarrow> ('y, 's) store_scheme
   \<Rightarrow> (user_auth list \<times> string \<times> string) outcome \<times> ('y, 's) store_scheme" where
  "Authenticate env req userType st =
     (case FetchUserAuthProfile env [(''Username'', AStr (lr_username req))] st of
        (Inl e, st1) \<Rightarrow> (fetch_failed StatusBadRequest ErrNoRecordForUserAuth e, st1)
      | (Inr [], st1) \<Rightarrow> (Inl (Panic ''index out of range''), st1)
      | (Inr (u # us), st1) \<Rightarrow>
          if userType = TYPE_ADMIN then
            (case checkUnderTimeout env u st1 of
               (True, u1, st2) \<Rightarrow>
                 (Inr (bad ''Maximum login limit reached'' ErrMaxLoginLimitReached), st2)
             | (False, u1, st2) \<Rightarrow>
                 if ComparePasswordHash env (lr_password req) (ua_password u1) then
                   (let (u2, st3) = clearTimeout env u1 st2
                    in (Inr (NewSuccessResponse ''Success'' (Some (u2 # us, origin_os env, origin_ip env))), st3))
                 else
                   (let (u2, st3) = InvalidAttempted env u1 st2
                    in (Inr (bad ''Login failed, please try again'' ErrInvalidPassword), st3)))
          else (Inl (Panic ''nil pointer dereference''), st1))"

record change_pass =
  cp_password :: string
  cp_new :: string
  cp_confirm :: string

definition ChangePassword ::
  "('y, 'e) auth_env_scheme \<Rightarrow> change_pass \<Rightarrow> string \<Rightarrow> ('y, 's) store_scheme
   \<Rightarrow> string outcome \<times> ('y, 's) store_scheme" where
  "ChangePassword env req userAuthKey st =
     (if cp_password req = [] \<or> cp_new req = [] \<or> cp_confirm req = [] then
        (Inr (bad ''Error from server side'' ErrRequiredFieldEmpty), st)
      else
        let password = trim_space (cp_password req); new = trim_space (cp_new req);
            confirm = trim_space (cp_confirm req) in
        (case FetchUserAuthProfile env [(''Key'', AStr userAuthKey)] st of
           (Inl e, st1) \<Rightarrow> (fetch_failed StatusBadRequest ErrNoRecordForUserAuth e, st1)
         | (Inr [], st1) \<Rightarrow> (Inl (Panic ''index out of range''), st1)
         | (Inr (u # us), st1) \<Rightarrow>
             if \<not> ComparePasswordHash env password (ua_password u) then
               (Inr (bad ''Incorrect password'' ErrInvalidPassword), st1)
             else if new \<noteq> confirm then
               (Inr (bad ''Passwords do not match'' ErrPasswordDoNotMatch), st1)
             else
               (case HashPassword env new of
                  Inl e \<Rightarrow> (Inr (bad ''Error from server side'' e), st1)
                | Inr h \<Rightarrow>
                    (case SaveProfile env [UserProfile (u\<lparr>ua_password := h\<rparr>)] st1 of
                       (Some e, st2) \<Rightarrow> (Inr (bad ''Error while saving data'' e), st2)
                     | (None, st2) \<Rightarrow>
                         (Inr (NewSuccessResponse ''Success'' (Some ''Password updated successfully'')), st2)))))"

subsection \<open>Roles\<close>

definition READONLY :: int where "READONLY = 1"

text \<open>An error of \<open>SaveProfile\<close> is reported with the nil error: a nil dereference.\<close>

definition SetPermissions ::
  "('y, 'e) auth_env_scheme \<Rightarrow> role_action list \<Rightarrow> ('y, 's) store_scheme
   \<Rightarrow> string outcome \<times> ('y, 's) store_scheme" where
  "SetPermissions env roleAndActions st =
     (case SaveProfile env (map RoleActionProfile roleAndActions) st of
        (Some e, st1) \<Rightarrow> (Inl (Panic ''nil pointer dereference''), st1)
      | (None, st1) \<Rightarrow>
          (Inr (NewSuccessResponse ''Success'' (Some ''Successfully updated role and action'')), st1))"

text \<open>The profiles of a new role: the role and one action per feature of type 1, 2 or 3.\<close>

fun role_actions_for :: "(nat \<Rightarrow> string) \<Rightarrow> string \<Rightarrow> nat \<Rightarrow> feature list \<Rightarrow> profile list" where
  "role_actions_for uuid rkey n [] = []"
| "role_actions_for uuid rkey n (f # fs) =
     (if ft_self_type f \<in> {1, 2, 3} then
        RoleActionProfile \<lparr>ra_key = uuid n, ra_created = zero_time, ra_role = rkey,
          ra_feature = ft_key f, ra_permission = 4\<rparr> # role_actions_for uuid rkey (Suc n) fs
      else role_actions_for uuid rkey n fs)"

definition ErrRecordAlreadyExists :: go_error where
  "ErrRecordAlreadyExists = Err ''record already exists''"

text \<open>
  The data is the key of the role, with its profiles when the caller is the sign-up.
\<close>

definition CreateRolePermission ::
  "('y, 'e) auth_env_scheme \<Rightarrow> role \<Rightarrow> bool \<Rightarrow> ('y, 's) store_scheme
   \<Rightarrow> (string \<times> profile list) outcome \<times> ('y, 's) store_scheme" where
  "CreateRolePermission env role fromSignUp st =
     (if role_name role = [] then (Inr (bad ''Required field empty'' ErrRequiredFieldEmpty), st)
      else
        (case FetchRoleProfile env [(''Name'', AStr (role_name role))] st of
           (Inr rs, st1) \<Rightarrow> (Inr (bad ''Role already exists'' ErrRecordAlreadyExists), st1)
         | (Inl e, st1) \<Rightarrow>
             if e \<noteq> ErrNoRecordForRole then (fetch_failed StatusBadRequest ErrNoRecordForRole e, st1)
             else
               let role1 = role\<lparr>role_key := new_uuid env 0, role_created := clock env\<rparr> in
               (case FetchFeatureProfile env [] st1 of
                  (Inl e, st2) \<Rightarrow> (Inr (bad ''Error while fetching data'' e), st2)
                | (Inr features, st2) \<Rightarrow>
                    let profiles = RoleProfile role1
                          # role_actions_for (new_uuid env) (role_key role1) 1 features in
                    if fromSignUp then
                      (Inr (NewSuccessResponse ''Success'' (Some (role_key role1, profiles))), st2)
                    else
                      (case SaveProfile env profiles st2 of
                         (Some e, st3) \<Rightarrow> (Inr (bad ''Error while saving data'' e), st3)
                       | (None, st3) \<Rightarrow>
                           (Inr (NewSuccessResponse ''Success'' (Some (role_key role1, []))), st3)))))"

datatype show_features = ShowFeatures
  (sf_id: string) (sf_title: string) (sf_message: string) (sf_permission: int) (sf_icon: string)
  (sf_type: string) (sf_path: string) (sf_position: int) (sf_children: "show_features list")

definition zero_show :: show_features where
  "zero_show = ShowFeatures [] [] [] 0 [] [] [] 0 []"

text \<open>\<open>rolePermissions\<close>: a later action overwrites an earlier one; a missing feature reads 0.\<close>

definition role_permissions :: "role_action list \<Rightarrow> string \<Rightarrow> int" where
  "role_permissions ras key =
     (case find (\<lambda>r. ra_feature r = key) (rev ras) of None \<Rightarrow> 0 | Some r \<Rightarrow> ra_permission r)"

definition show_feature :: "(string \<Rightarrow> int) \<Rightarrow> feature \<Rightarrow> show_features list \<Rightarrow> show_features" where
  "show_feature perm f children =
     ShowFeatures (ft_key f) (ft_title f) (ft_message f) (perm (ft_key f)) (ft_icon f) (ft_type f)
       (ft_path f) (ft_position f) children"

text \<open>One round of the loop over the features: the menu by key.\<close>

definition menu_entry :: "(string \<rightharpoonup> show_features) \<Rightarrow> string \<Rightarrow> show_features" where
  "menu_entry menu k = (case menu k of None \<Rightarrow> zero_show | Some s \<Rightarrow> s)"

definition with_children :: "show_features \<Rightarrow> show_features list \<Rightarrow> show_features" where
  "with_children s cs = ShowFeatures (sf_id s) (sf_title s) (sf_message s) (sf_permission s) (sf_icon s)
     (sf_type s) (sf_path s) (sf_position s) cs"

definition menu_step ::
  "(string \<Rightarrow> int) \<Rightarrow> feature \<Rightarrow> (string \<rightharpoonup> show_features) \<Rightarrow> (string \<rightharpoonup> show_features)" where
  "menu_step perm f menu =
     (let menu1 =
        (if ft_self_type f = 2 then
           (let parent = menu_entry menu (ft_parent f)
            in menu(ft_parent f \<mapsto> with_children parent (sf_children parent @ [show_feature perm f []])))
         else menu)
      in if ft_self_type f = 1 then
           menu1(ft_key f \<mapsto> show_feature perm f (sf_children (menu_entry menu1 (ft_key f))))
         else menu1)"

definition side_menu :: "(string \<Rightarrow> int) \<Rightarrow> feature list \<Rightarrow> (string \<rightharpoonup> show_features)" where
  "side_menu perm features = fold (menu_step perm) features Map.empty"

text \<open>
  The menu is the list of the map's values in the order Go iterates over the map: the model
  returns the map.
\<close>

definition SetRolePermissionForAdmin ::
  "('y, 'e) auth_env_scheme \<Rightarrow> string \<Rightarrow> ('y, 's) store_scheme
   \<Rightarrow> (string \<rightharpoonup> show_features) outcome \<times> ('y, 's) store_scheme" where
  "SetRolePermissionForAdmin env roleKey st =
     (case FetchRoleAndActionProfile env [(''RoleKey'', AStr roleKey)] st of
        (Inl e, st1) \<Rightarrow> (fetch_failed StatusBadRequest ErrNoRecordForRoleAndAction e, st1)
      | (Inr roleActions, st1) \<Rightarrow>
          (case FetchFeatureProfile env [] st1 of
             (Inl e, st2) \<Rightarrow> (fetch_failed StatusBadRequest ErrNoRecordForFeature e, st2)
           | (Inr features, st2) \<Rightarrow>
               (Inr (NewSuccessResponse ''Success''
                  (Some (side_menu (role_permissions roleActions) features))), st2)))"

subsection \<open>Administrators\<close>

text \<open>
  The check that no administrator or user has a value: \<open>Some\<close> is the answer that ends the
  operation.
\<close>

definition taken ::
  "string \<Rightarrow> go_error \<Rightarrow> go_error + 'a list \<Rightarrow> 'd outcome option" where
  "taken msg none result =
     (case result of
        Inr rows \<Rightarrow> Some (Inr (bad msg ErrRecordAlreadyExists))
      | Inl e \<Rightarrow> if e = none then None else Some (fetch_failed StatusBadRequest none e))"

text \<open>The checks run in this order; each may create a missing configuration file.\<close>

definition name_taken ::
  "('y, 'e) auth_env_scheme \<Rightarrow> signup_request \<Rightarrow> ('y, 's) store_scheme
   \<Rightarrow> 'd outcome option \<times> ('y, 's) store_scheme" where
  "name_taken env r st =
     (let (f1, st1) = FetchAdminProfile env [(''Name'', AStr (sr_name r))] st in
      case taken ''Name already exists'' ErrNoRecordForAdmin f1 of
        Some out \<Rightarrow> (Some out, st1)
      | None \<Rightarrow>
          (let (f2, st2) = FetchAdminProfile env [(''Email'', AStr (sr_email r))] st1 in
           case taken ''Email already exists'' ErrNoRecordForAdmin f2 of
             Some out \<Rightarrow> (Some out, st2)
           | None \<Rightarrow>
               (let (f3, st3) = FetchAdminProfile env [(''Phone'', AStr (sr_phone r))] st2 in
                case taken ''Phone already exists'' ErrNoRecordForAdmin f3 of
                  Some out \<Rightarrow> (Some out, st3)
                | None \<Rightarrow>
                    (let (f4, st4) = FetchUserAuthProfile env [(''Username'', AStr (sr_username r))] st3
                     in (taken ''User already exists'' ErrNoRecordForUserAuth f4, st4)))))"

definition child_profiles ::
  "('y, 'e) auth_env_scheme \<Rightarrow> signup_request \<Rightarrow> string \<Rightarrow> profile list" where
  "child_profiles env r h =
     [UserProfile \<lparr>ua_key = new_uuid env 0, ua_created = clock env, ua_username = sr_username r,
        ua_password = h, ua_type = TYPE_ADMIN, ua_invalid = 0, ua_holding = zero_time,
        ua_active = False, ua_super = False\<rparr>,
      AdminProfile \<lparr>adm_key = new_uuid env 1, adm_created = clock env, adm_name = sr_name r,
        adm_email = sr_email r, adm_country = sr_country r, adm_phone = sr_phone r,
        adm_organization = [], adm_user = new_uuid env 0, adm_signed_up = False,
        adm_role = sr_role r\<rparr>]"

definition CreateChildAdmin ::
  "('y, 'e) auth_env_scheme \<Rightarrow> signup_request \<Rightarrow> ('y, 's) store_scheme
   \<Rightarrow> string outcome \<times> ('y, 's) store_scheme" where
  "CreateChildAdmin env r st =
     (let valid = ValidateSignupRequest env r in
      if resp_status valid \<noteq> StatusOK then (Inr valid, st)
      else if sr_role r = [] then (Inr (bad ''Required field empty'' ErrRequiredFieldEmpty), st)
      else
        (case name_taken env r st of
           (Some out, st1) \<Rightarrow> (out, st1)
         | (None, st1) \<Rightarrow>
             (case FetchUserAuthProfile env [(''IsSuperAdmin'', ABool True)] st1 of
                (Inl e, st2) \<Rightarrow> (fetch_failed StatusBadRequest ErrNoRecordForUserAuth e, st2)
              | (Inr _, st2) \<Rightarrow>
                  (case FetchRoleProfile env [(''Key'', AStr (sr_role r))] st2 of
                     (Inl e, st3) \<Rightarrow> (fetch_failed StatusBadRequest ErrNoRecordForRole e, st3)
                   | (Inr _, st3) \<Rightarrow>
                       (case HashPassword env (sr_password r) of
                          Inl e \<Rightarrow> (Inr (bad ''Error while hashing'' e), st3)
                        | Inr h \<Rightarrow>
                            (case SaveProfile env (child_profiles env r h) st3 of
                               (Some e, st4) \<Rightarrow> (Inr (bad ''Error while saving data'' e), st4)
                             | (None, st4) \<Rightarrow>
                                 (Inr (NewSuccessResponse ''Success'' (Some ''Successfully Signed Up'')), st4)))))))"

text \<open>A user without an administrator row is told that the email exists.\<close>

definition UpdateAdminPersonalDetails ::
  "('y, 'e) auth_env_scheme \<Rightarrow> signup_request \<Rightarrow> session_values \<Rightarrow> ('y, 's) store_scheme
   \<Rightarrow> string outcome \<times> session_values \<times> ('y, 's) store_scheme" where
  "UpdateAdminPersonalDetails env r session st =
     (case as_string (session ''user_id'') of
        Inl p \<Rightarrow> (Inl p, session, st)
      | Inr user \<Rightarrow>
          (case FetchAdminProfile env [(''UserAuthenticationKey'', AStr user)] st of
             (Inl e, st1) \<Rightarrow>
               (if e = ErrNoRecordForAdmin
                then Inr (bad ''Email already exists'' ErrRecordAlreadyExists)
                else fetch_failed StatusBadRequest ErrNoRecordForAdmin e, session, st1)
           | (Inr [], st1) \<Rightarrow> (Inl (Panic ''index out of range''), session, st1)
           | (Inr (a # as), st1) \<Rightarrow>
               let a1 = (if sr_name r \<noteq> [] then a\<lparr>adm_name := sr_name r\<rparr> else a);
                   a2 = (if sr_email r \<noteq> [] then a1\<lparr>adm_email := sr_email r\<rparr> else a1) in
               (case SaveProfile env [AdminProfile a2] st1 of
                  (Some e, st2) \<Rightarrow> (Inr (bad ''Error while saving data'' e), session, st2)
                | (None, st2) \<Rightarrow>
                    (Inr (NewSuccessResponse ''Success'' (Some ''Successfully saved admin personal details'')),
                     session(''admin_name'' \<mapsto> AStr (sr_name r)), st2))))"

subsection \<open>Scan profiles and devices\<close>

definition ScanProfile ::
  "('y, 'e) auth_env_scheme \<Rightarrow> scan_profile \<Rightarrow> string \<Rightarrow> ('y, 's) store_scheme
   \<Rightarrow> string outcome \<times> ('y, 's) store_scheme" where
  "ScanProfile env req userKey st =
     (case SaveProfile env [ScanProfileOf (req\<lparr>UserAuthenticationKey := userKey\<rparr>)] st of
        (Some e, st1) \<Rightarrow> (Inr (bad ''Error while saving data'' e), st1)
      | (None, st1) \<Rightarrow>
          (Inr (NewSuccessResponse ''Success'' (Some ''Successfully updated scan profile'')), st1))"

definition CreateDevice ::
  "('y, 'e) auth_env_scheme \<Rightarrow> device \<Rightarrow> ('y, 's) store_scheme
   \<Rightarrow> string outcome \<times> ('y, 's) store_scheme" where
  "CreateDevice env req st =
     (case ValidateDevice env req True of
        ((code, Some e), d) \<Rightarrow> (Inr (bad code e), st)
      | ((code, None), d) \<Rightarrow>
          (case FetchDeviceProfile env [(''SerialNumber'', AStr (dev_serial d))] st of
             (Inr ds, st1) \<Rightarrow> (Inr (bad ''Serial number already exists'' ErrRecordAlreadyExists), st1)
           | (Inl e, st1) \<Rightarrow>
               if e \<noteq> ErrNoRecordForDevice then (fetch_failed StatusBadRequest ErrNoRecordForDevice e, st1)
               else
                 (case SaveProfile env
                     [DeviceProfile (d\<lparr>dev_key := new_uuid env 0, dev_created := clock env\<rparr>)] st1 of
                    (Some e, st2) \<Rightarrow> (Inr (bad ''Error while saving data'' e), st2)
                  | (None, st2) \<Rightarrow>
                      (Inr (NewSuccessResponse ''Success'' (Some ''Successfully created device'')), st2))))"

definition zero_device :: device where
  "zero_device = \<lparr>dev_key = [], dev_created = zero_time, dev_name = [], dev_category = [],
     dev_serial = [], dev_ip = [], dev_email = [], dev_mobile = [], dev_country = [],
     dev_state = [], dev_city = []\<rparr>"

definition DeleteDevice ::
  "('y, 'e) auth_env_scheme \<Rightarrow> string \<Rightarrow> ('y, 's) store_scheme
   \<Rightarrow> string outcome \<times> ('y, 's) store_scheme" where
  "DeleteDevice env key st =
     (if key = [] then (Inr (bad ''Required field empty'' ErrRequiredFieldEmpty), st)
      else
        (case DeleteProfile env [DeviceProfile (zero_device\<lparr>dev_key := key\<rparr>)] st of
           (Some e, st1) \<Rightarrow> (Inr (bad ''Error while saving data'' e), st1)
         | (None, st1) \<Rightarrow>
             (Inr (NewSuccessResponse ''Success'' (Some ''Successfully deleted device'')), st1)))"

text \<open>A key without a device is answered with \<open>Name already exists\<close>.\<close>

definition UpdateDevice ::
  "('y, 'e) auth_env_scheme \<Rightarrow> device \<Rightarrow> ('y, 's) store_scheme
   \<Rightarrow> string outcome \<times> ('y, 's) store_scheme" where
  "UpdateDevice env req st =
     (if dev_key req = [] \<or> dev_ip req = [] then
        (Inr (bad ''Required field empty'' ErrRequiredFieldEmpty), st)
      else if \<not> IsValidIp (dev_ip req) then (Inr (bad ''Invalid ip address'' ErrInvalidIPAddress), st)
      else
        (case FetchDeviceProfile env [(''Key'', AStr (dev_key req))] st of
           (Inl e, st1) \<Rightarrow>
             (if e = ErrNoRecordForDevice then Inr (bad ''Name already exists'' ErrRecordAlreadyExists)
              else fetch_failed StatusBadRequest ErrNoRecordForDevice e, st1)
         | (Inr [], st1) \<Rightarrow> (Inl (Panic ''index out of range''), st1)
         | (Inr (d # ds), st1) \<Rightarrow>
             (case SaveProfile env [DeviceProfile (d\<lparr>dev_ip := dev_ip req\<rparr>)] st1 of
                (Some e, st2) \<Rightarrow> (Inr (bad ''Error while saving data'' e), st2)
              | (None, st2) \<Rightarrow>
                  (Inr (NewSuccessResponse ''Success'' (Some ''Updated device successfully'')), st2))))"

end
