(* ===== verification/Login.thy ===== *)
theory Login
  imports Accounts
begin

text \<open>
  \<open>service/login.go\<close> and \<open>controller/login.go\<close>: a request with a bearer token is checked against
  its session, one without logs in with the appliance's recovery credentials or a password.
\<close>

record login_view =
  lv_name :: string
  lv_email :: string
  lv_phone :: string
  lv_organization :: "string option"
  lv_access :: string
  lv_menu :: "(string \<rightharpoonup> show_features) option"

datatype login_data = LoginText string | LoginView login_view

definition ErrNoLicenseKeyAttached :: go_error where
  "ErrNoLicenseKeyAttached = Err ''license Key not found, Signup to activate License Key''"

text \<open>Passing on the error response of a step.\<close>

fun relay :: "'a outcome \<Rightarrow> 'b outcome" where
  "relay (Inl p) = Inl p"
| "relay (Inr r) = Inr \<lparr>resp_data = None, resp_status = resp_status r,
     resp_message = resp_message r, resp_error = resp_error r\<rparr>"

definition accepted :: "'a outcome \<Rightarrow> bool" where
  "accepted out \<longleftrightarrow> (case out of Inl p \<Rightarrow> False | Inr r \<Rightarrow> resp_status r = StatusOK)"

definition outcome_data :: "'a outcome \<Rightarrow> 'a option" where
  "outcome_data out = (case out of Inl p \<Rightarrow> None | Inr r \<Rightarrow> resp_data r)"

text \<open>The rows of a user and of the administrator behind it; the first of each is used.\<close>

definition user_and_admin ::
  "('y, 'e) auth_env_scheme \<Rightarrow> int \<Rightarrow> (string \<times> any) list \<Rightarrow> ('y, 's) store_scheme
   \<Rightarrow> ('d outcome + user_auth \<times> admin) \<times> ('y, 's) store_scheme" where
  "user_and_admin env code q st =
     (case FetchUserAuthProfile env q st of
        (Inl e, st1) \<Rightarrow> (Inl (fetch_failed code ErrNoRecordForUserAuth e), st1)
      | (Inr [], st1) \<Rightarrow> (Inl (Inl (Panic ''index out of range'')), st1)
      | (Inr (u # us), st1) \<Rightarrow>
          (case FetchAdminProfile env [(''UserAuthenticationKey'', AStr (ua_key u))] st1 of
             (Inl e, st2) \<Rightarrow> (Inl (fetch_failed code ErrNoRecordForAdmin e), st2)
           | (Inr [], st2) \<Rightarrow> (Inl (Inl (Panic ''index out of range'')), st2)
           | (Inr (a # as), st2) \<Rightarrow> (Inr (u, a), st2)))"

text \<open>A session value as the value of a query: an absent one is \<open>nil\<close>.\<close>

definition value_of :: "any option \<Rightarrow> any" where
  "value_of v = (case v of None \<Rightarrow> ANil | Some x \<Rightarrow> x)"

text \<open>With a bearer token. The renewed values stay in the session even when the request fails.\<close>

definition login_bearer ::
  "('y, 'e) auth_env_scheme \<Rightarrow> session_values \<Rightarrow> string list \<Rightarrow> ('y, 's) store_scheme
   \<Rightarrow> login_data outcome \<times> session_values \<times> ('y, 's) store_scheme" where
  "login_bearer env session bearer st =
     (if session ''refresh_token'' = None \<or> session ''exp'' = None \<or> session ''admin_role'' = None then
        (Inr (NewErrorResponse StatusUnauthorized ''Session invalid'' ErrUnauthorizedUser), session, st)
      else
        (case renew_access env session of
           Inl p \<Rightarrow> (Inl p, session, st)
         | Inr (Inl e) \<Rightarrow>
             (Inr (NewErrorResponse StatusUnauthorized ''Error while generating access token'' e), session, st)
         | Inr (Inr session1) \<Rightarrow>
             (case as_string (session1 ''access_token'') of
                Inl p \<Rightarrow> (Inl p, session1, st)
              | Inr access \<Rightarrow>
                  if AuthenticateToken bearer access \<noteq> None then
                    (Inr (NewErrorResponse StatusUnauthorized ''Unauthorized user'' ErrUnauthorizedUser),
                     session1, st)
                  else
                    (case user_and_admin env StatusUnauthorized [(''Key'', value_of (session1 ''user_id''))] st of
                       (Inl out, st1) \<Rightarrow> (out, session1, st1)
                     | (Inr (u, a), st1) \<Rightarrow>
                         (case as_string (session1 ''admin_role'') of
                            Inl p \<Rightarrow> (Inl p, session1, st1)
                          | Inr role \<Rightarrow>
                              (let (menu, st2) = SetRolePermissionForAdmin env role st1 in
                               if \<not> accepted menu then (relay menu, session1, st2)
                               else
                                 (Inr (NewSuccessResponse ''Success''
                                    (Some (LoginView \<lparr>lv_name = adm_name a, lv_email = adm_email a,
                                       lv_phone = adm_phone a, lv_organization = Some (adm_organization a),
                                       lv_access = access, lv_menu = outcome_data menu\<rparr>))),
                                  session1, st2)))))))"

text \<open>
  The recovery credentials: the newest user named \<open>admin\<close> becomes super administrator with the
  default password. The count of invalid attempts is left as it is.
\<close>

definition default_password :: string where "default_password = ''admin1A@''"

definition login_recovery ::
  "('y, 'e) auth_env_scheme \<Rightarrow> ('y, 's) store_scheme \<Rightarrow> login_data outcome \<times> ('y, 's) store_scheme" where
  "login_recovery env st =
     (case FetchUserAuthProfile env [(''Username'', AStr ''admin'')] st of
        (Inl e, st1) \<Rightarrow> (fetch_failed StatusBadRequest ErrNoRecordForUserAuth e, st1)
      | (Inr [], st1) \<Rightarrow> (Inl (Panic ''index out of range''), st1)
      | (Inr (u # us), st1) \<Rightarrow>
          (case HashPassword env default_password of
             Inl e \<Rightarrow> (Inr (bad ''Error while hashing'' e), st1)
           | Inr h \<Rightarrow>
               (case SaveProfile env
                   [UserProfile (u\<lparr>ua_super := True, ua_username := ''admin'', ua_password := h\<rparr>)] st1 of
                  (Some e, st2) \<Rightarrow> (Inr (bad ''Error while saving data'' e), st2)
                | (None, st2) \<Rightarrow>
                    (Inr (NewSuccessResponse ''password changed successfully''
                       (Some (LoginText ''Password changed succesfully''))), st2))))"

text \<open>An expired license makes every action of the administrator's role read-only, for good.\<close>

definition restrict_expired ::
  "('y, 'e) auth_env_scheme \<Rightarrow> keys_table \<Rightarrow> admin \<Rightarrow> ('y, 's) store_scheme
   \<Rightarrow> 'd outcome option \<times> ('y, 's) store_scheme" where
  "restrict_expired env lic a st =
     (if kt_expiry lic < clock env then
        (case FetchRoleAndActionProfile env [(''RoleKey'', AStr (adm_role a))] st of
           (Inl e, st1) \<Rightarrow>
             (Some (case e of Panic p \<Rightarrow> Inl (Panic p)
                    | Err t \<Rightarrow> Inr (bad ''Error while fetching data'' e)), st1)
         | (Inr ras, st1) \<Rightarrow>
             (let (out, st2) = SetPermissions env (map (\<lambda>r. r\<lparr>ra_permission := READONLY\<rparr>) ras) st1
              in if accepted out then (None, st2) else (Some (relay out), st2)))
      else (None, st))"

definition login_session ::
  "session_values \<Rightarrow> user_auth \<Rightarrow> admin \<Rightarrow> int \<Rightarrow> string \<Rightarrow> string \<Rightarrow> session_values" where
  "login_session session u a expiry refresh access =
     session(''user_id'' \<mapsto> AStr (ua_key u), ''exp'' \<mapsto> AInt expiry, ''refresh_token'' \<mapsto> AStr refresh,
       ''access_token'' \<mapsto> AStr access, ''admin_role'' \<mapsto> AStr (adm_role a),
       ''admin_name'' \<mapsto> AStr (adm_name a), ''organization_id'' \<mapsto> AStr ''xyz'')"

definition login_password ::
  "('y, 'e) auth_env_scheme \<Rightarrow> keys_table \<Rightarrow> login_request \<Rightarrow> session_values \<Rightarrow> ('y, 's) store_scheme
   \<Rightarrow> login_data outcome \<times> session_values \<times> ('y, 's) store_scheme" where
  "login_password env lic req session st =
     (let (auth, st1) = Authenticate env req TYPE_ADMIN st in
      if \<not> accepted auth then (relay auth, session, st1)
      else
        (case GenerateRefreshToken env (lr_username req) of
           Inl e \<Rightarrow> (Inr (bad ''Error while generating refresh token'' e), session, st1)
         | Inr refresh \<Rightarrow>
             (case GenerateAccessToken env refresh of
                (access, expiry, Some e) \<Rightarrow>
                  (Inr (bad ''Error while generating access token'' e), session, st1)
              | (access, expiry, None) \<Rightarrow>
                  (case user_and_admin env StatusBadRequest [(''Username'', AStr (lr_username req))] st1 of
                     (Inl out, st2) \<Rightarrow> (out, session, st2)
                   | (Inr (u, a), st2) \<Rightarrow>
                       (case restrict_expired env lic a st2 of
                          (Some out, st3) \<Rightarrow> (out, session, st3)
                        | (None, st3) \<Rightarrow>
                            (let (menu, st4) = SetRolePermissionForAdmin env (adm_role a) st3 in
                             if \<not> accepted menu then (relay menu, session, st4)
                             else
                               (Inr (NewSuccessResponse ''Success''
                                  (Some (LoginView \<lparr>lv_name = adm_name a, lv_email = adm_email a,
                                     lv_phone = adm_phone a, lv_organization = None, lv_access = access,
                                     lv_menu = outcome_data menu\<rparr>))),
                                login_session session u a expiry refresh access, st4)))))))"

definition Login ::
  "('y, 'e) auth_env_scheme \<Rightarrow> login_request \<Rightarrow> session_values \<Rightarrow> string list option
   \<Rightarrow> ('y, 's) store_scheme \<Rightarrow> login_data outcome \<times> session_values \<times> ('y, 's) store_scheme" where
  "Login env req session bearer st =
     (case bearer of
        Some b \<Rightarrow> login_bearer env session b st
      | None \<Rightarrow>
          (case FetchLicenseKeyProfile env st of
             (Inl e, st1) \<Rightarrow>
               (Inr (if e = ErrNoRecordForLicenseKey
                     then bad ''License Key not found, Signup to activate License Key'' ErrNoLicenseKeyAttached
                     else bad ''Error while fetching data'' e), session, st1)
           | (Inr lic, st1) \<Rightarrow>
               if lr_username req = kt_serial lic \<and> lr_password req = kt_appliance lic then
                 (let (out, st2) = login_recovery env st1 in (out, session, st2))
               else login_password env lic req session st1))"

text \<open>
  The controller: a body that does not bind is a bearer request when the header is there. The
  result of \<open>session.Save\<close> is a parameter.
\<close>

definition Login_handler ::
  "('y, 'e) auth_env_scheme \<Rightarrow> (go_error + login_request) \<Rightarrow> string \<Rightarrow> (go_error + session_values)
   \<Rightarrow> (go_error + session_values) \<Rightarrow> go_error option \<Rightarrow> ('y, 's) store_scheme
   \<Rightarrow> login_data outcome \<times> session_values option \<times> ('y, 's) store_scheme" where
  "Login_handler env body header existing fresh save_error st =
     (case body of
        Inl err \<Rightarrow>
          if header \<noteq> [] then
            (case existing of
               Inl e \<Rightarrow> (Inr (bad ''Session invalid'' e), None, st)
             | Inr session \<Rightarrow>
                 (let (out, session1, st1) = login_bearer env session (split_on (CHR '' '') header) st in
                  case out of
                    Inl p \<Rightarrow> (Inl p, None, st1)
                  | Inr r \<Rightarrow>
                      (case save_error of
                         Some e \<Rightarrow> (Inr (bad ''Session not saved'' e), None, st1)
                       | None \<Rightarrow> (Inr r, Some session1, st1))))
          else (Inr (bad ''Error from client side'' err), None, st)
      | Inr req \<Rightarrow>
          (case fresh of
             Inl e \<Rightarrow> (Inr (bad ''Session invalid'' e), None, st)
           | Inr session \<Rightarrow>
               (let (out, session1, st1) = Login env req session None st in
                case out of
                  Inl p \<Rightarrow> (Inl p, None, st1)
                | Inr r \<Rightarrow>
                    (case save_error of
                       Some e \<Rightarrow> (Inr (bad ''Session not saved'' e), None, st1)
                     | None \<Rightarrow> (Inr r, Some session1, st1)))))"

end
