(* ===== verification/Store_Laws.thy ===== *)
theory Store_Laws
  imports Login
begin

text \<open>
  What the configuration store promises to its clients: a table of rows with keys as a partial
  map (locale \<open>keyed_rows\<close>, interpreted on the tables of users, administrators and devices), and
  the effect of \<open>SaveProfile\<close>, \<open>DeleteProfile\<close> and the fetches on the configuration a file holds,
  when the files, the lock and the YAML library work.
\<close>

subsection \<open>Tables as maps\<close>

lemma fresh_key: "k \<notin> key ` set xs \<Longrightarrow> x \<in> set xs \<Longrightarrow> key x \<noteq> k"
  by blast

lemma map_fresh: "k \<notin> key ` set xs \<Longrightarrow> map (\<lambda>x. if key x = k then r else x) xs = xs"
  by (rule map_idI) (simp add: fresh_key)

text \<open>\<open>put\<close> stores one row, \<open>drop_key\<close> removes the row with a given row's key.\<close>

locale keyed_rows =
  fixes key :: "'a \<Rightarrow> string"
    and put :: "'a \<Rightarrow> 'a list \<Rightarrow> 'a list"
    and drop_key :: "'a \<Rightarrow> 'a list \<Rightarrow> 'a list"
  assumes put_known: "key r \<in> key ` set xs \<Longrightarrow> distinct (map key xs)
      \<Longrightarrow> put r xs = map (\<lambda>x. if key x = key r then r else x) xs"
    and put_new: "key r \<notin> key ` set xs \<Longrightarrow> put r xs = xs @ [r]"
    and drop_filters: "drop_key r xs = filter (\<lambda>x. key x \<noteq> key r) xs"
begin

definition get :: "string \<Rightarrow> 'a list \<Rightarrow> 'a option" where
  "get k xs = find (\<lambda>x. key x = k) xs"

lemma put_keys:
  "distinct (map key xs) \<Longrightarrow>
     map key (put r xs) = (if key r \<in> key ` set xs then map key xs else map key xs @ [key r])"
proof (cases "key r \<in> key ` set xs")
  case True
  assume "distinct (map key xs)"
  with True have "map key (put r xs) = map (\<lambda>x. if key x = key r then key r else key x) xs"
    by (simp add: put_known comp_def if_distrib [of key])
  also have "\<dots> = map key xs" by (rule map_cong) auto
  finally show ?thesis using True by simp
qed (simp add: put_new)

lemma put_distinct: "distinct (map key xs) \<Longrightarrow> distinct (map key (put r xs))"
  by (auto simp: put_keys)

lemma put_self: "r \<in> set xs \<Longrightarrow> distinct (map key xs) \<Longrightarrow> put r xs = xs"
proof -
  assume r: "r \<in> set xs" "distinct (map key xs)"
  then have "x \<in> set xs \<Longrightarrow> key x = key r \<Longrightarrow> x = r" for x
    by (auto simp: distinct_map inj_on_def)
  then have "map (\<lambda>x. if key x = key r then r else x) xs = xs"
    by (intro map_idI) auto
  with r show ?thesis by (simp add: put_known)
qed

lemma put_put:
  assumes "distinct (map key xs)" "key r = key s"
  shows "put r (put s xs) = put r xs"
proof (cases "key s \<in> key ` set xs")
  case True
  with assms have p: "put s xs = map (\<lambda>x. if key x = key s then s else x) xs" by (simp add: put_known)
  have "distinct (map key (put s xs))" using assms(1) by (rule put_distinct)
  moreover have "key r \<in> key ` set (put s xs)" using True assms(2) by (auto simp: p)
  ultimately have "put r (put s xs) = map (\<lambda>x. if key x = key r then r else x) (put s xs)"
    by (rule put_known [rotated])
  also have "\<dots> = put r xs" using True assms by (simp add: p put_known comp_def)
  finally show ?thesis .
next
  case False
  with assms have p: "put s xs = xs @ [s]" "put r xs = xs @ [r]" by (simp_all add: put_new)
  have "distinct (map key (xs @ [s]))" using assms False by auto
  moreover have "key r \<in> key ` set (xs @ [s])" using assms(2) by simp
  ultimately have "put r (xs @ [s]) = map (\<lambda>x. if key x = key r then r else x) (xs @ [s])"
    by (rule put_known [rotated])
  also have "\<dots> = xs @ [r]" using map_fresh [of "key r" key xs r] False assms(2) by simp
  finally show ?thesis by (simp add: p)
qed

lemma get_map_other: "k \<noteq> key r \<Longrightarrow> get k (map (\<lambda>x. if key x = key r then r else x) xs) = get k xs"
  by (induction xs) (auto simp: get_def)

lemma get_map_same:
  "key r \<in> key ` set xs \<Longrightarrow> get (key r) (map (\<lambda>x. if key x = key r then r else x) xs) = Some r"
  by (induction xs) (auto simp: get_def)

lemma get_snoc: "get k (xs @ [r]) = (case get k xs of None \<Rightarrow> if key r = k then Some r else None | Some x \<Rightarrow> Some x)"
  by (induction xs) (auto simp: get_def)

lemma get_none: "k \<notin> key ` set xs \<Longrightarrow> get k xs = None"
  by (auto simp: get_def find_None_iff)

lemma get_put: "distinct (map key xs) \<Longrightarrow> get k (put r xs) = (if k = key r then Some r else get k xs)"
  by (cases "key r \<in> key ` set xs")
    (auto simp: put_known put_new get_map_same get_map_other get_snoc get_none split: option.splits)

lemma get_drop: "get k (drop_key r xs) = (if k = key r then None else get k xs)"
  by (induction xs) (auto simp: get_def drop_filters)

lemma drop_put:
  assumes "distinct (map key xs)" "key r \<notin> key ` set xs"
  shows "drop_key r (put r xs) = xs"
  using assms fresh_key [of "key r" key xs] by (auto simp: put_new drop_filters intro!: filter_True)

end

lemma replace_first_map:
  "distinct (map key xs) \<Longrightarrow>
     replace_first (\<lambda>x. key x = key r) r xs = map (\<lambda>x. if key x = key r then r else x) xs"
proof (induction xs)
  case (Cons x xs)
  then show ?case using map_fresh [of "key x" key xs r] by auto
qed simp

lemma upsert_rows: "keyed_rows key (\<lambda>r. upsert key [r]) (\<lambda>r. remove_rows key [r])"
proof
  fix r xs
  assume "key r \<in> key ` set xs" "distinct (map key xs)"
  then show "upsert key [r] xs = map (\<lambda>x. if key x = key r then r else x) xs"
    by (auto simp: upsert_def replace_first_map)
next
  fix r xs
  assume "key r \<notin> key ` set xs"
  from fresh_key [OF this] show "upsert key [r] xs = xs @ [r]"
    by (auto simp: upsert_def)
qed (simp add: remove_rows_def)

interpretation users: keyed_rows ua_key "\<lambda>r. upsert ua_key [r]" "\<lambda>r. remove_rows ua_key [r]"
  by (rule upsert_rows)

interpretation administrators: keyed_rows adm_key "\<lambda>r. upsert adm_key [r]" "\<lambda>r. remove_rows adm_key [r]"
  by (rule upsert_rows)

interpretation devices: keyed_rows dev_key "\<lambda>r. upsert dev_key [r]" "\<lambda>r. remove_rows dev_key [r]"
  by (rule upsert_rows)

subsection \<open>A working store\<close>

text \<open>No file operation fails, the lock is free and the YAML library reads back what it wrote.\<close>

definition works :: "('y, 'e) conf_env_scheme \<Rightarrow> bool" where
  "works env \<longleftrightarrow> lock_free env
     \<and> (\<forall>f. create_error_of env f = None \<and> read_error_of env f = None \<and> write_error_of env f = None)
     \<and> dec_config env (empty_doc env) = Inr zero_config
     \<and> (\<forall>c. \<exists>y. enc_config env c = Inr y \<and> dec_config env y = Inr c)"

text \<open>The configuration a store holds; a missing file stands for the empty one.\<close>

definition holds :: "('y, 'e) conf_env_scheme \<Rightarrow> ('y, 's) store_scheme \<Rightarrow> app_config \<Rightarrow> bool" where
  "holds env st c \<longleftrightarrow>
     dec_config env (case config_doc st of None \<Rightarrow> empty_doc env | Some y \<Rightarrow> y) = Inr c"

definition opened :: "('y, 'e) conf_env_scheme \<Rightarrow> ('y, 's) store_scheme \<Rightarrow> ('y, 's) store_scheme" where
  "opened env st = st\<lparr>config_doc := Some (case config_doc st of None \<Rightarrow> empty_doc env | Some y \<Rightarrow> y)\<rparr>"

lemma holds_opened [simp]: "holds env (opened env st) c = holds env st c"
  by (simp add: holds_def opened_def)

lemma opened_opened [simp]: "opened env (opened env st) = opened env st"
  by (simp add: opened_def)

lemma opened_license [simp]: "license_doc (opened env st) = license_doc st"
  by (simp add: opened_def)

lemma read_works: "works env \<Longrightarrow> readConfigFile env f d =
    (Inr (case d of None \<Rightarrow> empty_doc env | Some y \<Rightarrow> y),
     Some (case d of None \<Rightarrow> empty_doc env | Some y \<Rightarrow> y))"
  by (auto simp: readConfigFile_def works_def Let_def split: option.splits)

lemma fetch_works: "works env \<Longrightarrow> holds env st c \<Longrightarrow> FetchConfigData env st = (Inr c, opened env st)"
  by (simp add: FetchConfigData_def read_works holds_def opened_def)

lemma store_works:
  assumes "works env"
  shows "\<exists>st'. store_config env c st = (None, st') \<and> holds env st' c \<and> license_doc st' = license_doc st"
proof -
  from assms obtain y where "enc_config env c = Inr y" "dec_config env y = Inr c"
    unfolding works_def by blast
  moreover have "write_error_of env ConfigFile = None" using assms by (simp add: works_def)
  ultimately show ?thesis by (simp add: store_config_def write_file_def holds_def)
qed

text \<open>What a list of profiles without license keys adds up to.\<close>

fun no_keys :: "profile \<Rightarrow> bool" where
  "no_keys (KeysProfile k) = False"
| "no_keys _ = True"

definition collected :: "profile list \<Rightarrow> app_config" where
  "collected ps = fst (fold add_profile ps (zero_config, zero_keys))"

lemma fold_no_keys: "list_all no_keys ps \<Longrightarrow> snd (fold add_profile ps (c, k)) = k"
proof (induction ps arbitrary: c)
  case (Cons p ps)
  then show ?case by (cases p) simp_all
qed simp

lemma save_works:
  assumes "works env" "holds env st c" "list_all no_keys ps"
  shows "\<exists>st'. SaveProfile env ps st = (None, st') \<and> holds env st' (merge_config (collected ps) c)
    \<and> license_doc st' = license_doc st"
proof -
  have lic: "UpdateLicenseKeyData env zero_keys (opened env st) = (None, opened env st)"
    by (simp add: UpdateLicenseKeyData_def zero_keys_def)
  have pair: "fold add_profile ps (zero_config, zero_keys) = (collected ps, zero_keys)"
    using fold_no_keys [OF assms(3), of zero_config zero_keys] by (simp add: collected_def prod_eq_iff)
  obtain st' where "store_config env (merge_config (collected ps) c) (opened env st) = (None, st')"
      "holds env st' (merge_config (collected ps) c)" "license_doc st' = license_doc (opened env st)"
    using store_works [OF assms(1)] by blast
  moreover have "SaveProfile env ps st = store_config env (merge_config (collected ps) c) (opened env st)"
    using assms(1,2) lic
    
    by (simp add: SaveProfile_def pair UpdateConfig_def read_works works_def [of env] holds_def opened_def)
  ultimately show ?thesis by simp
qed

lemma merge_zero [simp]: "merge_config zero_config c = c"
  by (simp add: merge_config_def zero_config_def upsert_def upsert_each_def)

lemma merge_user: "merge_config (collected [UserProfile u]) c =
    c\<lparr>UserAuthentications := upsert ua_key [u] (UserAuthentications c)\<rparr>"
  by (simp add: merge_config_def collected_def zero_config_def upsert_def upsert_each_def)

lemma save_user:
  assumes "works env" "holds env st c"
  shows "\<exists>st'. SaveProfile env [UserProfile u] st = (None, st')
    \<and> holds env st' (c\<lparr>UserAuthentications := upsert ua_key [u] (UserAuthentications c)\<rparr>)
    \<and> license_doc st' = license_doc st"
  using save_works [OF assms, of "[UserProfile u]"] by (simp add: merge_user)

subsection \<open>Queries with one field\<close>

lemma row_hits_skip: "name \<notin> fst ` set fs \<Longrightarrow> row_hits [(name, w)] fs = Inr 0"
  by (induction fs) auto

text \<open>A row of a struct whose field \<open>name\<close> has a value of the same kind.\<close>

lemma row_hits_one:
  "map_of fs name = Some v \<Longrightarrow> distinct (map fst fs) \<Longrightarrow> CompareDataType v w = None
   \<Longrightarrow> row_hits [(name, w)] fs = Inr (if v = w then 1 else 0)"
  by (induction fs) (auto simp: row_hits_skip)

lemma fetch_rows_one:
  assumes "\<And>r. map_of (fields_of r) name = Some (get_field r)" "\<And>r. distinct (map fst (fields_of r))"
    "\<And>r. CompareDataType (get_field r) w = None"
  shows "fetch_rows fields_of [(name, w)] rs = Inr (filter (\<lambda>r. get_field r = w) rs)"
proof (induction rs)
  case (Cons r rs)
  then show ?case by (simp add: row_hits_one [OF assms(1) assms(2) assms(3)])
qed simp

lemma fetch_table_one:
  assumes "works env" "holds env st c"
    "\<And>r. map_of (fields_of r) name = Some (get_field r)" "\<And>r. distinct (map fst (fields_of r))"
    "\<And>r. CompareDataType (get_field r) w = None"
  shows "fetch_table table fields_of finish none env [(name, w)] st =
    (if filter (\<lambda>r. get_field r = w) (table c) = [] then Inl none
     else Inr (finish (filter (\<lambda>r. get_field r = w) (table c))), opened env st)"
  by (cases "filter (\<lambda>r. get_field r = w) (table c)")
    (simp_all add: fetch_table_def fetch_works [OF assms(1,2)] fetch_rows_one [OF assms(3,4,5)])

lemma compare_str [simp]: "CompareDataType (AStr a) (AStr b) = None"
  and compare_bool [simp]: "CompareDataType (ABool x) (ABool y) = None"
  by (simp_all add: CompareDataType_def)

lemma users_by_name:
  assumes "works env" "holds env st c"
  shows "FetchUserAuthProfile env [(''Username'', AStr n)] st =
    (if filter (\<lambda>u. ua_username u = n) (UserAuthentications c) = [] then Inl ErrNoRecordForUserAuth
     else Inr (newest_first ua_created (filter (\<lambda>u. ua_username u = n) (UserAuthentications c))),
     opened env st)"
  unfolding FetchUserAuthProfile_def
  by (subst fetch_table_one [OF assms, where get_field = "\<lambda>u. AStr (ua_username u)"])
    (simp_all add: user_fields_def)

lemma users_by_key:
  assumes "works env" "holds env st c"
  shows "FetchUserAuthProfile env [(''Key'', AStr k)] st =
    (if filter (\<lambda>u. ua_key u = k) (UserAuthentications c) = [] then Inl ErrNoRecordForUserAuth
     else Inr (newest_first ua_created (filter (\<lambda>u. ua_key u = k) (UserAuthentications c))),
     opened env st)"
  unfolding FetchUserAuthProfile_def
  by (subst fetch_table_one [OF assms, where get_field = "\<lambda>u. AStr (ua_key u)"])
    (simp_all add: user_fields_def)

lemma newest_first_single [simp]: "newest_first created [x] = [x]"
  by (simp add: newest_first_def sort_slice_def)

end
