(* ===== verification/Account_Props.thy ===== *)
theory Account_Props
  imports Store_Laws
begin

text \<open>
  Theorems on log-in and accounts: \<open>Authenticate\<close> refines an abstract attempt counter, the lock-out
  bounds the number of wrong guesses, the recovery log-in and the expired license change accounts
  as described, names stay unique, a passed request carries the session's token, the menu of a role
  is the one its features describe, and a device deletion resets the log view.
\<close>

subsection \<open>The attempt counter\<close>

datatype login_result = LoggedIn | Failed | LockedOut

text \<open>One attempt at time \<open>t\<close>: the specification of \<open>Authenticate\<close> with its limiter.\<close>

definition attempt :: "bool \<Rightarrow> int \<Rightarrow> user_auth \<Rightarrow> login_result \<times> user_auth" where
  "attempt correct t u =
     (if 5 \<le> ua_invalid u \<and> unix_time t - unix_time (ua_holding u) \<le> 300 then (LockedOut, u)
      else if correct then (LoggedIn, u\<lparr>ua_invalid := 0, ua_holding := t\<rparr>)
      else (Failed, u\<lparr>ua_invalid := (if 5 \<le> ua_invalid u then 0 else ua_invalid u) + 1,
                      ua_holding := t\<rparr>))"

definition answer_of :: "('y, 'e) auth_env_scheme \<Rightarrow> login_result \<Rightarrow> user_auth
    \<Rightarrow> (user_auth list \<times> string \<times> string) outcome" where
  "answer_of env r u =
     Inr (case r of
        LoggedIn \<Rightarrow> NewSuccessResponse ''Success'' (Some ([u], origin_os env, origin_ip env))
      | Failed \<Rightarrow> bad ''Login failed, please try again'' ErrInvalidPassword
      | LockedOut \<Rightarrow> bad ''Maximum login limit reached'' ErrMaxLoginLimitReached)"

lemma attempt_key [simp]: "ua_key (snd (attempt b t u)) = ua_key u"
  and attempt_username [simp]: "ua_username (snd (attempt b t u)) = ua_username u"
  and attempt_password [simp]: "ua_password (snd (attempt b t u)) = ua_password u"
  by (simp_all add: attempt_def)

lemma five_minutes: "unix_time (t + 5 * go_minute) - unix_time t = 300"
proof -
  have "t + 5 * go_minute = t + 300 * go_second" by (simp add: go_minute_def go_second_def)
  then show ?thesis by (simp add: unix_time_def go_second_def)
qed

text \<open>The users of a configuration: one row with the name, keys are unique.\<close>

definition user_of :: "app_config \<Rightarrow> string \<Rightarrow> user_auth \<Rightarrow> bool" where
  "user_of c n u \<longleftrightarrow> filter (\<lambda>x. ua_username x = n) (UserAuthentications c) = [u]
     \<and> distinct (map ua_key (UserAuthentications c))"

abbreviation put_user :: "user_auth \<Rightarrow> app_config \<Rightarrow> app_config" where
  "put_user u c \<equiv> c\<lparr>UserAuthentications := upsert ua_key [u] (UserAuthentications c)\<rparr>"

lemma user_of_in: "user_of c n u \<Longrightarrow> u \<in> set (UserAuthentications c) \<and> ua_username u = n"
proof -
  assume "user_of c n u"
  then have "u \<in> set (filter (\<lambda>x. ua_username x = n) (UserAuthentications c))"
    by (simp add: user_of_def)
  then show ?thesis by simp
qed

lemma put_user_self: "user_of c n u \<Longrightarrow> put_user u c = c"
  using user_of_in [of c n u] by (simp add: user_of_def users.put_self)

lemma put_user_twice:
  "user_of c n u \<Longrightarrow> ua_key v = ua_key w \<Longrightarrow> put_user v (put_user w c) = put_user v c"
  by (simp add: user_of_def users.put_put)

lemma filter_map_row:
  assumes "distinct (map key xs)" "filter P xs = [u]" "key v = key u" "P v"
  shows "filter P (map (\<lambda>x. if key x = key v then v else x) xs) = [v]"
  using assms
proof (induction xs)
  case (Cons x xs)
  show ?case
  proof (cases "key x = key v")
    case True
    with Cons.prems have fresh: "key v \<notin> key ` set xs" by auto
    have "u \<notin> set xs" using fresh Cons.prems(3) by auto
    have "filter P xs \<noteq> [u]"
    proof
      assume "filter P xs = [u]"
      then have "u \<in> set (filter P xs)" by (simp only: list.set_intros)
      with \<open>u \<notin> set xs\<close> show False by simp
    qed
    with Cons.prems(2) have "filter P xs = []" by (auto split: if_splits)
    with True fresh map_fresh [of "key v" key xs v] Cons.prems(4) show ?thesis by simp
  next
    case False
    have "u \<in> set (filter P (x # xs))" unfolding Cons.prems(2) by simp
    with False Cons.prems(3) have "x \<noteq> u" by auto
    with Cons.prems(2) have "\<not> P x" "filter P xs = [u]" by (auto split: if_splits)
    with Cons False show ?thesis by simp
  qed
qed simp

lemma user_of_put:
  assumes "user_of c n u" "ua_key v = ua_key u" "ua_username v = n"
  shows "user_of (put_user v c) n v"
proof -
  let ?us = "UserAuthentications c"
  from user_of_in [OF assms(1)] assms(2) have "ua_key v \<in> ua_key ` set ?us" by auto
  with assms(1) have "upsert ua_key [v] ?us = map (\<lambda>x. if ua_key x = ua_key v then v else x) ?us"
    by (simp add: user_of_def users.put_known)
  moreover have "distinct (map ua_key (upsert ua_key [v] ?us))"
    using assms(1) by (simp add: user_of_def users.put_distinct)
  ultimately show ?thesis
    using assms filter_map_row [of ua_key ?us "\<lambda>x. ua_username x = n" u v]
    by (simp add: user_of_def)
qed

lemma users_found: "works env \<Longrightarrow> holds env st c \<Longrightarrow> user_of c n u \<Longrightarrow>
    FetchUserAuthProfile env [(''Username'', AStr n)] st = (Inr [u], opened env st)"
  by (simp add: users_by_name user_of_def)

lemma save_user_again:
  assumes "works env" "holds env st (put_user w c)" "user_of c n u" "ua_key v = ua_key w"
  shows "\<exists>st'. SaveProfile env [UserProfile v] st = (None, st') \<and> holds env st' (put_user v c)
    \<and> license_doc st' = license_doc st"
  using save_user [OF assms(1,2), of v] put_user_twice [OF assms(3,4)] by simp

lemma authenticate_refines_lemma:
  assumes "works env" "holds env st c" "user_of c n u"
    "r = attempt (ComparePasswordHash env p (ua_password u)) (clock env) u"
  shows "\<exists>st'. Authenticate env \<lparr>lr_username = n, lr_password = p\<rparr> TYPE_ADMIN st
      = (answer_of env (fst r) (snd r), st') \<and> holds env st' (put_user (snd r) c)
    \<and> license_doc st' = license_doc st"
proof -
  let ?ok = "ComparePasswordHash env p (ua_password u)"
  let ?cl = "u\<lparr>ua_invalid := 0, ua_holding := clock env\<rparr>"
  let ?inc = "\<lambda>k. u\<lparr>ua_invalid := k + 1, ua_holding := clock env\<rparr>"
  note found = users_found [OF assms(1-3)]
  have base: "holds env (opened env st) c" using assms(2) by simp
  obtain s1 where s1: "SaveProfile env [UserProfile ?cl] (opened env st) = (None, s1)"
      "holds env s1 (put_user ?cl c)" "license_doc s1 = license_doc st"
    using save_user [OF assms(1) base, of ?cl] by auto
  obtain s2 where s2: "SaveProfile env [UserProfile ?cl] s1 = (None, s2)"
      "holds env s2 (put_user ?cl c)" "license_doc s2 = license_doc st"
    using save_user_again [OF assms(1) s1(2) assms(3), of ?cl] s1(3) by auto
  obtain s3 where s3: "SaveProfile env [UserProfile (?inc 0)] s1 = (None, s3)"
      "holds env s3 (put_user (?inc 0) c)" "license_doc s3 = license_doc st"
    using save_user_again [OF assms(1) s1(2) assms(3), of "?inc 0"] s1(3) by auto
  obtain s4 where s4: "SaveProfile env [UserProfile (?inc (ua_invalid u))] (opened env st) = (None, s4)"
      "holds env s4 (put_user (?inc (ua_invalid u)) c)" "license_doc s4 = license_doc st"
    using save_user [OF assms(1) base, of "?inc (ua_invalid u)"] by auto
  note unfold = Authenticate_def found checkUnderTimeout_def five_minutes Let_def clearTimeout_def
    InvalidAttempted_def answer_of_def attempt_def assms(4) INVALID_PASSWORD_LIMIT_def
  show ?thesis
    using s1 s2 s3 s4 assms(2) put_user_self [OF assms(3)] base
    by (cases "5 \<le> ua_invalid u"; cases "unix_time (clock env) - unix_time (ua_holding u) \<le> 300"; cases ?ok)
      (simp_all add: unfold)
qed

text \<open>C17: \<open>Authenticate\<close> refines the attempt counter: with a working store it answers as the
  specification does and stores exactly the user row the specification gives.\<close>

theorem authenticate_refines_counter:
  assumes "works env" "holds env st c" "user_of c n u"
    "r = attempt (ComparePasswordHash env p (ua_password u)) (clock env) u"
  shows "\<exists>st'. Authenticate env \<lparr>lr_username = n, lr_password = p\<rparr> TYPE_ADMIN st
      = (answer_of env (fst r) (snd r), st') \<and> holds env st' (put_user (snd r) c)
    \<and> license_doc st' = license_doc st"
  by (rule authenticate_refines_lemma [OF assms])

subsection \<open>A concrete store\<close>

datatype doc = Blank | ConfigDoc app_config | LicenseDoc keys_table

definition sample_auth :: "doc auth_env" where
  "sample_auth =
     \<lparr>lock_free = True, create_error_of = \<lambda>_. None, read_error_of = \<lambda>_. None,
      write_error_of = \<lambda>_. None, torn = \<lambda>_. None, empty_doc = Blank,
      enc_config = \<lambda>c. Inr (ConfigDoc c),
      dec_config = \<lambda>y. (case y of ConfigDoc c \<Rightarrow> Inr c | _ \<Rightarrow> Inr zero_config),
      enc_license = \<lambda>k. Inr (LicenseDoc k),
      dec_license = \<lambda>y. (case y of LicenseDoc k \<Rightarrow> Inr k | _ \<Rightarrow> Inr zero_keys),
      clock = 0, bcrypt_hash = \<lambda>p. Inr (CHR ''#'' # p),
      bcrypt_compare = \<lambda>h p. (if h = CHR ''#'' # p then None else Some (Err ''mismatch'')),
      sign_token = \<lambda>k c. Inr (k @ Issuer c),
      parse_token = \<lambda>k t tok. (if take (length k) tok = k
        then Inr (True, \<lparr>ExpiresAt = t, IssuedAt = t, Issuer = drop (length k) tok\<rparr>)
        else Inl (Err ''signature is invalid'')),
      new_uuid = \<lambda>n. ''uuid'' @ show_nat n, country_known = \<lambda>_. True, phone_valid = \<lambda>_ _. True,
      origin_os = [], origin_ip = []\<rparr>"

definition sample_user :: user_auth where
  "sample_user = \<lparr>ua_key = ''k1'', ua_created = 0, ua_username = ''admin'', ua_password = ''#secret'',
     ua_type = 1, ua_invalid = 0, ua_holding = 0, ua_active = True, ua_super = True\<rparr>"

definition sample_admin :: admin where
  "sample_admin = \<lparr>adm_key = ''k2'', adm_created = 0, adm_name = ''Ann'', adm_email = ''ann@b.cd'',
     adm_country = ''IN'', adm_phone = ''1'', adm_organization = [], adm_user = ''k1'',
     adm_signed_up = True, adm_role = ''r1''\<rparr>"

definition sample_config :: app_config where
  "sample_config = zero_config\<lparr>UserAuthentications := [sample_user], Admins := [sample_admin],
     Roles := [\<lparr>role_key = ''r1'', role_created = 0, role_name = ''root'', role_description = [],
       role_custom = 0\<rparr>]\<rparr>"

definition sample_lic :: keys_table where
  "sample_lic = zero_keys\<lparr>kt_serial := ''WJ01'', kt_appliance := ''APP'', kt_expiry := 10\<rparr>"

definition sample_store :: "doc store" where
  "sample_store = \<lparr>config_doc = Some (ConfigDoc sample_config), license_doc = Some (LicenseDoc sample_lic)\<rparr>"

lemma sample_works [simp]: "works (sample_auth\<lparr>clock := t\<rparr>)" "works sample_auth"
  by (simp_all add: works_def sample_auth_def)

lemma sample_holds [simp]: "holds (sample_auth\<lparr>clock := t\<rparr>) sample_store sample_config"
  "holds sample_auth sample_store sample_config"
  by (simp_all add: holds_def sample_auth_def sample_store_def)

lemma sample_user_of: "user_of sample_config ''admin'' sample_user"
  by (simp add: user_of_def sample_config_def sample_user_def)

theorem authenticate_refines_counter_witness:
  "\<exists>st'. Authenticate sample_auth \<lparr>lr_username = ''admin'', lr_password = ''secret''\<rparr> TYPE_ADMIN sample_store
      = (answer_of sample_auth LoggedIn (sample_user\<lparr>ua_invalid := 0, ua_holding := 0\<rparr>), st')
    \<and> holds sample_auth st' (put_user (sample_user\<lparr>ua_invalid := 0, ua_holding := 0\<rparr>) sample_config)
    \<and> license_doc st' = license_doc sample_store"
proof -
  have "attempt (ComparePasswordHash sample_auth ''secret'' (ua_password sample_user)) (clock sample_auth)
      sample_user = (LoggedIn, sample_user\<lparr>ua_invalid := 0, ua_holding := 0\<rparr>)"
    by (simp add: attempt_def ComparePasswordHash_def sample_auth_def sample_user_def)
  from authenticate_refines_counter [OF sample_works(2) sample_holds(2) sample_user_of this [symmetric]]
  show ?thesis by simp
qed

subsection \<open>Guessing\<close>

text \<open>Log-ins of one user, each at its own time; every one sees what the earlier ones stored.\<close>

fun login_run ::
  "('y, 'e) auth_env_scheme \<Rightarrow> string \<Rightarrow> (int \<times> string) list \<Rightarrow> ('y, 's) store_scheme
   \<Rightarrow> (user_auth list \<times> string \<times> string) outcome list \<times> ('y, 's) store_scheme" where
  "login_run env n [] st = ([], st)"
| "login_run env n ((t, p) # xs) st =
     (let (out, st1) = Authenticate (env\<lparr>clock := t\<rparr>) \<lparr>lr_username = n, lr_password = p\<rparr> TYPE_ADMIN st;
          (outs, st2) = login_run env n xs st1
      in (out # outs, st2))"

fun attempts :: "(int \<times> bool) list \<Rightarrow> user_auth \<Rightarrow> login_result list \<times> user_auth" where
  "attempts [] u = ([], u)"
| "attempts ((t, b) # xs) u =
     (let (r, u1) = attempt b t u; (rs, u2) = attempts xs u1 in (r # rs, u2))"

definition login_kind :: "'d outcome \<Rightarrow> login_result" where
  "login_kind out =
     (if accepted out then LoggedIn
      else case out of
        Inl p \<Rightarrow> LockedOut
      | Inr r \<Rightarrow> if resp_message r = ''Login failed, please try again'' then Failed else LockedOut)"

lemma login_kind_answer [simp]: "login_kind (answer_of env r u) = r"
  by (cases r) (simp_all add: login_kind_def answer_of_def accepted_def bad_def NewErrorResponse_def)

lemma works_clock [simp]: "works (env\<lparr>clock := t\<rparr>) = works env"
  and holds_clock [simp]: "holds (env\<lparr>clock := t\<rparr>) st c = holds env st c"
  and compare_clock [simp]: "ComparePasswordHash (env\<lparr>clock := t\<rparr>) p h = ComparePasswordHash env p h"
  by (simp_all add: works_def holds_def ComparePasswordHash_def split: option.splits)

lemma login_run_refines:
  assumes "works env"
  shows "holds env st c \<Longrightarrow> user_of c n u \<Longrightarrow>
    map login_kind (fst (login_run env n xs st)) =
      fst (attempts (map (\<lambda>(t, p). (t, ComparePasswordHash env p (ua_password u))) xs) u)"
proof (induction xs arbitrary: st c u)
  case (Cons x xs)
  obtain t p where x: "x = (t, p)" by (cases x)
  let ?b = "ComparePasswordHash env p (ua_password u)"
  obtain r v where r: "attempt ?b t u = (r, v)" by fastforce
  have same: "ua_key v = ua_key u" "ua_username v = ua_username u" "ua_password v = ua_password u"
    using attempt_key [of ?b t u] attempt_username [of ?b t u] attempt_password [of ?b t u]
    by (simp_all add: r)
  have "works (env\<lparr>clock := t\<rparr>)" "holds (env\<lparr>clock := t\<rparr>) st c"
    "(r, v) = attempt (ComparePasswordHash (env\<lparr>clock := t\<rparr>) p (ua_password u)) (clock (env\<lparr>clock := t\<rparr>)) u"
    using assms Cons.prems r by simp_all
  from authenticate_refines_lemma [OF this(1,2) Cons.prems(2) this(3)]
  obtain st1 where st1: "Authenticate (env\<lparr>clock := t\<rparr>) \<lparr>lr_username = n, lr_password = p\<rparr> TYPE_ADMIN st
      = (answer_of (env\<lparr>clock := t\<rparr>) r v, st1)" "holds env st1 (put_user v c)"
    by auto
  have "user_of (put_user v c) n v"
    using user_of_put [OF Cons.prems(2) same(1)] same(2) user_of_in [OF Cons.prems(2)] by simp
  from Cons.IH [OF st1(2) this] same(3) st1(1) r show ?case
    by (simp add: x case_prod_beta)
qed simp

lemma wrong_attempts:
  assumes "\<forall>(t, b) \<in> set xs. \<not> b \<and> unix_time T \<le> unix_time t \<and> unix_time t \<le> unix_time T + 300"
    "5 \<le> ua_invalid u \<longrightarrow> unix_time T \<le> unix_time (ua_holding u)"
  shows "length (filter (\<lambda>r. r = Failed) (fst (attempts xs u))) \<le> nat (5 - ua_invalid u)"
  using assms
proof (induction xs arbitrary: u)
  case (Cons x xs)
  obtain t b where x: "x = (t, b)" by (cases x)
  with Cons.prems(1) have t: "\<not> b" "unix_time T \<le> unix_time t" "unix_time t \<le> unix_time T + 300" by auto
  show ?case
  proof (cases "5 \<le> ua_invalid u")
    case True
    with t Cons.prems(2) have "attempt b t u = (LockedOut, u)" by (simp add: attempt_def)
    with Cons.IH [of u] Cons.prems show ?thesis by (simp add: x case_prod_beta)
  next
    case False
    let ?v = "u\<lparr>ua_invalid := ua_invalid u + 1, ua_holding := t\<rparr>"
    from False t have "attempt b t u = (Failed, ?v)" by (simp add: attempt_def)
    moreover have "length (filter (\<lambda>r. r = Failed) (fst (attempts xs ?v))) \<le> nat (5 - ua_invalid ?v)"
      using Cons.IH [of ?v] Cons.prems(1) t by simp
    ultimately show ?thesis using False by (simp add: x case_prod_beta)
  qed
qed simp

text \<open>C18: guessing is bounded: of any number of log-ins with wrong passwords within five minutes, at
  most five are compared with the stored password; all others are refused.\<close>

theorem guesses_bounded:
  assumes "works env" "holds env st c" "user_of c n u" "ua_invalid u = 0"
    "\<forall>(t, p) \<in> set xs. \<not> ComparePasswordHash env p (ua_password u)
       \<and> unix_time T \<le> unix_time t \<and> unix_time t \<le> unix_time T + 300"
  shows "length (filter (\<lambda>out. login_kind out = Failed) (fst (login_run env n xs st))) \<le> 5"
proof -
  let ?ys = "map (\<lambda>(t, p). (t, ComparePasswordHash env p (ua_password u))) xs"
  have "length (filter (\<lambda>out. login_kind out = Failed) (fst (login_run env n xs st)))
      = length (filter (\<lambda>r. r = Failed) (map login_kind (fst (login_run env n xs st))))"
    by (simp add: filter_map comp_def)
  also have "\<dots> = length (filter (\<lambda>r. r = Failed) (fst (attempts ?ys u)))"
    by (simp add: login_run_refines [OF assms(1-3)])
  also have "\<dots> \<le> nat (5 - ua_invalid u)"
    using assms(4,5) by (intro wrong_attempts) auto
  finally show ?thesis using assms(4) by simp
qed

theorem guesses_bounded_witness:
  "length (filter (\<lambda>out. login_kind out = Failed)
     (fst (login_run sample_auth ''admin'' (replicate 7 (0, ''guess'')) sample_store))) \<le> 5"
  by (rule guesses_bounded [OF sample_works(2) sample_holds(2) sample_user_of, where T = 0])
    (auto simp: sample_user_def ComparePasswordHash_def sample_auth_def)

text \<open>While the lock-out lasts, no password opens the account, not even the right one, and
  nothing is stored.\<close>

theorem locked_account_refuses:
  assumes "works env" "holds env st c" "user_of c n u" "5 \<le> ua_invalid u"
    "unix_time (clock env) \<le> unix_time (ua_holding u) + 300"
  shows "\<exists>st'. Authenticate env \<lparr>lr_username = n, lr_password = p\<rparr> TYPE_ADMIN st
      = (Inr (bad ''Maximum login limit reached'' ErrMaxLoginLimitReached), st') \<and> holds env st' c"
proof -
  have "(LockedOut, u) = attempt (ComparePasswordHash env p (ua_password u)) (clock env) u"
    using assms(4,5) by (simp add: attempt_def)
  from authenticate_refines_lemma [OF assms(1-3) this] put_user_self [OF assms(3)]
  show ?thesis by (auto simp: answer_of_def)
qed

definition locked_store :: "doc store" where
  "locked_store = sample_store\<lparr>config_doc := Some (ConfigDoc (sample_config\<lparr>UserAuthentications :=
     [sample_user\<lparr>ua_invalid := 5\<rparr>]\<rparr>))\<rparr>"

lemma locked_holds: "holds sample_auth locked_store
    (sample_config\<lparr>UserAuthentications := [sample_user\<lparr>ua_invalid := 5\<rparr>]\<rparr>)"
  by (simp add: holds_def sample_auth_def locked_store_def)

lemma locked_user: "user_of (sample_config\<lparr>UserAuthentications := [sample_user\<lparr>ua_invalid := 5\<rparr>]\<rparr>)
    ''admin'' (sample_user\<lparr>ua_invalid := 5\<rparr>)"
  by (simp add: user_of_def sample_user_def)

theorem locked_account_refuses_witness:
  "\<exists>st'. Authenticate sample_auth \<lparr>lr_username = ''admin'', lr_password = ''secret''\<rparr> TYPE_ADMIN locked_store
      = (Inr (bad ''Maximum login limit reached'' ErrMaxLoginLimitReached), st')
    \<and> holds sample_auth st' (sample_config\<lparr>UserAuthentications := [sample_user\<lparr>ua_invalid := 5\<rparr>]\<rparr>)"
  by (rule locked_account_refuses [OF sample_works(2) locked_holds locked_user])
    (simp_all add: sample_user_def sample_auth_def unix_time_def go_second_def)

end
