(* ===== verification/Admin_Props.thy ===== *)
theory Admin_Props
  imports Account_Props
begin

text \<open>
  Theorems on the administration of accounts: recovery, child administrators, roles and their
  menus, tokens, devices.
\<close>

subsection \<open>Recovery\<close>

lemma license_works:
  assumes "works env" "license_doc st = Some y" "dec_license env y = Inr lic" "kt_appliance lic \<noteq> []"
  shows "FetchLicenseKeyProfile env st = (Inr lic, st)"
proof -
  have "st\<lparr>license_doc := Some y\<rparr> = st" using assms(2) by simp
  with assms show ?thesis by (simp add: FetchLicenseKeyProfile_def read_works)
qed

lemma recovery_lemma:
  assumes "works env" "holds env st c" "user_of c ''admin'' u"
    "license_doc st = Some y" "dec_license env y = Inr lic" "kt_appliance lic \<noteq> []"
    "bcrypt_hash env default_password = Inr h"
  shows "\<exists>st'. Login env \<lparr>lr_username = kt_serial lic, lr_password = kt_appliance lic\<rparr> session None st
      = (Inr (NewSuccessResponse ''password changed successfully''
           (Some (LoginText ''Password changed succesfully''))), session, st')
    \<and> holds env st' (put_user (u\<lparr>ua_super := True, ua_password := h\<rparr>) c)"
proof -
  let ?v = "u\<lparr>ua_super := True, ua_username := ''admin'', ua_password := h\<rparr>"
  have v: "?v = u\<lparr>ua_super := True, ua_password := h\<rparr>"
    using user_of_in [OF assms(3)] by (cases u) simp
  have base: "holds env (opened env st) c" using assms(2) by simp
  obtain st' where "SaveProfile env [UserProfile ?v] (opened env st) = (None, st')"
      "holds env st' (put_user ?v c)"
    using save_user [OF assms(1) base, of ?v] by blast
  then show ?thesis
    by (simp add: Login_def license_works [OF assms(1,4-6)] login_recovery_def
        users_found [OF assms(1-3)] HashPassword_def assms(7) v)
qed

text \<open>The recovery credentials (serial number and appliance key) make the user \<open>admin\<close> super
  administrator with the default password, whatever password and attempts it had, and open no
  session.\<close>

theorem recovery_sets_default_password:
  assumes "works env" "holds env st c" "user_of c ''admin'' u"
    "license_doc st = Some y" "dec_license env y = Inr lic" "kt_appliance lic \<noteq> []"
    "bcrypt_hash env default_password = Inr h"
  shows "\<exists>st'. Login env \<lparr>lr_username = kt_serial lic, lr_password = kt_appliance lic\<rparr> session None st
      = (Inr (NewSuccessResponse ''password changed successfully''
           (Some (LoginText ''Password changed succesfully''))), session, st')
    \<and> holds env st' (put_user (u\<lparr>ua_super := True, ua_password := h\<rparr>) c)"
  by (rule recovery_lemma [OF assms])

theorem recovery_sets_default_password_witness:
  "\<exists>st'. Login sample_auth \<lparr>lr_username = kt_serial sample_lic, lr_password = kt_appliance sample_lic\<rparr>
      Map.empty None sample_store
      = (Inr (NewSuccessResponse ''password changed successfully''
           (Some (LoginText ''Password changed succesfully''))), Map.empty, st')
    \<and> holds sample_auth st'
        (put_user (sample_user\<lparr>ua_super := True, ua_password := ''#admin1A@''\<rparr>) sample_config)"
  by (rule recovery_sets_default_password [OF sample_works(2) sample_holds(2) sample_user_of,
        where y = "LicenseDoc sample_lic"])
    (simp_all add: sample_store_def sample_auth_def sample_lic_def default_password_def)

text \<open>Recovery does not lift a lock-out: the default password it has set is refused until the
  five minutes are over.\<close>

theorem recovery_keeps_lockout:
  assumes "works env" "holds env st c" "user_of c ''admin'' u"
    "license_doc st = Some y" "dec_license env y = Inr lic" "kt_appliance lic \<noteq> []"
    "bcrypt_hash env default_password = Inr h" "5 \<le> ua_invalid u"
    "unix_time (clock env) \<le> unix_time (ua_holding u) + 300"
    "Login env \<lparr>lr_username = kt_serial lic, lr_password = kt_appliance lic\<rparr> session None st
       = (out, session', st')"
  shows "\<exists>st2. Authenticate env \<lparr>lr_username = ''admin'', lr_password = default_password\<rparr> TYPE_ADMIN st'
      = (Inr (bad ''Maximum login limit reached'' ErrMaxLoginLimitReached), st2)"
proof -
  let ?v = "u\<lparr>ua_super := True, ua_password := h\<rparr>"
  have h: "holds env st' (put_user ?v c)"
    using recovery_lemma [OF assms(1-7), of session] assms(10) by auto
  have v: "user_of (put_user ?v c) ''admin'' ?v"
    by (rule user_of_put [OF assms(3)]) (use user_of_in [OF assms(3)] in simp_all)
  have "(LockedOut, ?v) =
      attempt (ComparePasswordHash env default_password (ua_password ?v)) (clock env) ?v"
    using assms(8,9) by (simp add: attempt_def)
  from authenticate_refines_lemma [OF assms(1) h v this] show ?thesis by (auto simp: answer_of_def)
qed

theorem recovery_keeps_lockout_witness:
  "\<exists>(st' :: doc store) st2. Authenticate sample_auth \<lparr>lr_username = ''admin'', lr_password = default_password\<rparr> TYPE_ADMIN st'
      = (Inr (bad ''Maximum login limit reached'' ErrMaxLoginLimitReached), st2)"
proof -
  obtain out session' st' where l: "Login sample_auth
      \<lparr>lr_username = kt_serial sample_lic, lr_password = kt_appliance sample_lic\<rparr> Map.empty None locked_store
      = (out, session', st')" by (metis prod_cases3)
  have "\<exists>st2. Authenticate sample_auth \<lparr>lr_username = ''admin'', lr_password = default_password\<rparr> TYPE_ADMIN st'
      = (Inr (bad ''Maximum login limit reached'' ErrMaxLoginLimitReached), st2)"
    by (rule recovery_keeps_lockout [OF sample_works(2) locked_holds locked_user _ _ _ _ _ _ l,
          where y = "LicenseDoc sample_lic" and h = "''#admin1A@''"])
      (simp_all add: locked_store_def sample_store_def sample_auth_def sample_lic_def sample_user_def
        default_password_def unix_time_def go_second_def)
  then show ?thesis by blast
qed

subsection \<open>Child administrators\<close>

definition names_unique :: "app_config \<Rightarrow> bool" where
  "names_unique c \<longleftrightarrow> distinct (map ua_key (UserAuthentications c))
     \<and> distinct (map ua_username (UserAuthentications c)) \<and> distinct (map adm_key (Admins c))
     \<and> distinct (map adm_name (Admins c)) \<and> distinct (map adm_email (Admins c))
     \<and> distinct (map adm_phone (Admins c))"

lemma admins_by:
  assumes "works env" "holds env st c"
  shows "FetchAdminProfile env [(''Name'', AStr v)] st =
      (if v \<notin> adm_name ` set (Admins c) then Inl ErrNoRecordForAdmin
       else Inr (newest_first adm_created (filter (\<lambda>a. adm_name a = v) (Admins c))), opened env st)"
    "FetchAdminProfile env [(''Email'', AStr v)] st =
      (if v \<notin> adm_email ` set (Admins c) then Inl ErrNoRecordForAdmin
       else Inr (newest_first adm_created (filter (\<lambda>a. adm_email a = v) (Admins c))), opened env st)"
    "FetchAdminProfile env [(''Phone'', AStr v)] st =
      (if v \<notin> adm_phone ` set (Admins c) then Inl ErrNoRecordForAdmin
       else Inr (newest_first adm_created (filter (\<lambda>a. adm_phone a = v) (Admins c))), opened env st)"
  unfolding FetchAdminProfile_def
  by (subst fetch_table_one [OF assms, where get_field = "\<lambda>a. AStr (adm_name a)"]
        fetch_table_one [OF assms, where get_field = "\<lambda>a. AStr (adm_email a)"]
        fetch_table_one [OF assms, where get_field = "\<lambda>a. AStr (adm_phone a)"],
      auto simp: admin_fields_def filter_empty_conv)+

lemma name_taken_works:
  fixes t :: "'d outcome option"
  assumes "works env" "holds env st c" "name_taken env r st = (t, st1)"
  shows "st1 = opened env st" "t = Some out \<Longrightarrow> \<not> accepted out"
    "t = None \<Longrightarrow> sr_name r \<notin> adm_name ` set (Admins c) \<and> sr_email r \<notin> adm_email ` set (Admins c)
       \<and> sr_phone r \<notin> adm_phone ` set (Admins c)
       \<and> sr_username r \<notin> ua_username ` set (UserAuthentications c)"
proof -
  have o: "holds env (opened env st) c" using assms(2) by simp
  note defs = name_taken_def admins_by [OF assms(1,2)] admins_by [OF assms(1) o]
    users_by_name [OF assms(1) o] taken_def accepted_def bad_def filter_empty_conv
  show "st1 = opened env st" "t = Some out \<Longrightarrow> \<not> accepted out"
    "t = None \<Longrightarrow> sr_name r \<notin> adm_name ` set (Admins c) \<and> sr_email r \<notin> adm_email ` set (Admins c)
       \<and> sr_phone r \<notin> adm_phone ` set (Admins c)
       \<and> sr_username r \<notin> ua_username ` set (UserAuthentications c)"
    using assms(3) by (auto simp: defs split: if_splits)
qed

definition child_user :: "('y, 'e) auth_env_scheme \<Rightarrow> signup_request \<Rightarrow> string \<Rightarrow> user_auth" where
  "child_user env r h = \<lparr>ua_key = new_uuid env 0, ua_created = clock env, ua_username = sr_username r,
     ua_password = h, ua_type = TYPE_ADMIN, ua_invalid = 0, ua_holding = zero_time,
     ua_active = False, ua_super = False\<rparr>"

definition child_admin :: "('y, 'e) auth_env_scheme \<Rightarrow> signup_request \<Rightarrow> admin" where
  "child_admin env r = \<lparr>adm_key = new_uuid env 1, adm_created = clock env, adm_name = sr_name r,
     adm_email = sr_email r, adm_country = sr_country r, adm_phone = sr_phone r,
     adm_organization = [], adm_user = new_uuid env 0, adm_signed_up = False, adm_role = sr_role r\<rparr>"

lemma child_merge:
  "merge_config (collected (child_profiles env r h)) c =
     c\<lparr>UserAuthentications := upsert ua_key [child_user env r h] (UserAuthentications c),
       Admins := upsert adm_key [child_admin env r] (Admins c)\<rparr>"
  by (simp add: child_profiles_def collected_def merge_config_def zero_config_def upsert_def
      upsert_each_def child_user_def child_admin_def)

lemma child_save:
  assumes "works env" "holds env st c" "names_unique c"
    "new_uuid env 0 \<notin> ua_key ` set (UserAuthentications c)" "new_uuid env 1 \<notin> adm_key ` set (Admins c)"
    "sr_name r \<notin> adm_name ` set (Admins c)" "sr_email r \<notin> adm_email ` set (Admins c)"
    "sr_phone r \<notin> adm_phone ` set (Admins c)" "sr_username r \<notin> ua_username ` set (UserAuthentications c)"
  shows "\<exists>st' c'. SaveProfile env (child_profiles env r h) st = (None, st') \<and> holds env st' c'
    \<and> names_unique c' \<and> UserAuthentications c' = UserAuthentications c @ [child_user env r h]
    \<and> Admins c' = Admins c @ [child_admin env r]"
proof -
  have "list_all no_keys (child_profiles env r h)" by (simp add: child_profiles_def)
  from save_works [OF assms(1,2) this] obtain st' where
    st': "SaveProfile env (child_profiles env r h) st = (None, st')"
      "holds env st' (merge_config (collected (child_profiles env r h)) c)" by blast
  have "upsert ua_key [child_user env r h] (UserAuthentications c)
      = UserAuthentications c @ [child_user env r h]"
    using assms(4) by (intro users.put_new) (simp add: child_user_def)
  moreover have "upsert adm_key [child_admin env r] (Admins c) = Admins c @ [child_admin env r]"
    using assms(5) by (intro administrators.put_new) (simp add: child_admin_def)
  ultimately have "merge_config (collected (child_profiles env r h)) c =
     c\<lparr>UserAuthentications := UserAuthentications c @ [child_user env r h],
       Admins := Admins c @ [child_admin env r]\<rparr>"
    by (simp add: child_merge)
  with st' assms(3-9) show ?thesis
    by (auto simp: names_unique_def child_user_def child_admin_def)
qed

text \<open>C22: user names, administrator names, emails and phone numbers stay unique when a child
  administrator is created: an accepted request adds exactly one user and one administrator, an
  answer that refuses adds nothing.\<close>

theorem child_admin_keeps_names_unique:
  assumes "works env" "holds env st c" "names_unique c"
    "new_uuid env 0 \<notin> ua_key ` set (UserAuthentications c)" "new_uuid env 1 \<notin> adm_key ` set (Admins c)"
    "CreateChildAdmin env r st = (out, st')"
  shows "\<exists>c'. holds env st' c' \<and> names_unique c'
    \<and> (if accepted out
       then length (UserAuthentications c') = Suc (length (UserAuthentications c))
         \<and> length (Admins c') = Suc (length (Admins c))
       else c' = c)"
proof -
  have opened_holds: "holds env (opened env st) c" using assms(2) by simp
  have refuse: "holds env st' c \<and> \<not> accepted out \<Longrightarrow> ?thesis" using assms(3) by auto
  obtain t :: "string outcome option" and s1 where t: "name_taken env r st = (t, s1)" by fastforce
  note nt = name_taken_works [OF assms(1,2) t]
  have users: "\<exists>x. FetchUserAuthProfile env q s = (x, opened env s)" if "holds env s c" for q s
    unfolding FetchUserAuthProfile_def fetch_table_def fetch_works [OF assms(1) that]
    by (auto split: sum.splits list.splits)
  have roles: "\<exists>x. FetchRoleProfile env q s = (x, opened env s)" if "holds env s c" for q s
    unfolding FetchRoleProfile_def fetch_table_def fetch_works [OF assms(1) that]
    by (auto split: sum.splits list.splits)
  obtain x2 where x2: "FetchUserAuthProfile env [(''IsSuperAdmin'', ABool True)] (opened env st)
      = (x2, opened env st)" using users [OF opened_holds] by auto
  obtain x3 where x3: "FetchRoleProfile env [(''Key'', AStr (sr_role r))] (opened env st)
      = (x3, opened env st)" using roles [OF opened_holds] by auto
  let ?valid = "ValidateSignupRequest env r :: string api_response"
  show ?thesis
  proof (cases "resp_status ?valid \<noteq> StatusOK \<or> sr_role r = []")
    case True
    with assms(6) have "\<not> accepted out" "st' = st"
      by (auto simp: CreateChildAdmin_def accepted_def bad_def Let_def split: if_splits)
    with refuse assms(2) show ?thesis by simp
  next
    case False
    show ?thesis
    proof (cases "t \<noteq> None \<or> (\<exists>e. x2 = Inl e) \<or> (\<exists>e. x3 = Inl e) \<or> (\<exists>e. HashPassword env (sr_password r) = Inl e)")
      case True
      with assms(6) False t nt x2 x3 have "\<not> accepted out" "st' = opened env st"
        by (auto simp: CreateChildAdmin_def accepted_def bad_def fetch_failed_def Let_def
            split: option.splits sum.splits go_error.splits)
      with refuse opened_holds show ?thesis by simp
    next
      case ok: False
      then obtain a2 a3 h where ok': "t = None" "x2 = Inr a2" "x3 = Inr a3"
          "HashPassword env (sr_password r) = Inr h"
        by (metis sum.exhaust)
      with nt child_save [OF assms(1) opened_holds assms(3-5), of r h] obtain st2 c2 where
        sv: "SaveProfile env (child_profiles env r h) (opened env st) = (None, st2)" "holds env st2 c2"
          "names_unique c2" "UserAuthentications c2 = UserAuthentications c @ [child_user env r h]"
          "Admins c2 = Admins c @ [child_admin env r]" by auto
      with assms(6) False t nt x2 x3 ok' have "st' = st2" "accepted out"
        by (auto simp: CreateChildAdmin_def accepted_def Let_def)
      with sv show ?thesis by (intro exI [of _ c2]) simp
    qed
  qed
qed

definition sample_signup :: signup_request where
  "sample_signup = \<lparr>sr_name = ''Bob'', sr_username = ''bob'', sr_password = ''p'', sr_confirm = ''p'',
     sr_country = ''IN'', sr_phone = ''2'', sr_email = ''bob@b.cd'', sr_super = False, sr_license = [],
     sr_role = ''r1''\<rparr>"

theorem child_admin_keeps_names_unique_witness:
  "\<exists>out st' c'. CreateChildAdmin sample_auth sample_signup sample_store = (out, st')
    \<and> holds sample_auth st' c' \<and> names_unique c'"
proof -
  obtain out st' where c: "CreateChildAdmin sample_auth sample_signup sample_store = (out, st')" by fastforce
  have n: "names_unique sample_config"
    by (simp add: names_unique_def sample_config_def zero_config_def)
  have u: "new_uuid sample_auth 0 \<notin> ua_key ` set (UserAuthentications sample_config)"
    "new_uuid sample_auth 1 \<notin> adm_key ` set (Admins sample_config)"
    by (simp_all add: sample_auth_def sample_config_def sample_user_def sample_admin_def)
  from child_admin_keeps_names_unique [OF sample_works(2) sample_holds(2) n u c] c
  show ?thesis by blast
qed

subsection \<open>Roles\<close>

text \<open>What the menu of a role should be: the entry of a key has the last top-level feature with this
  key, and the features below it in their order.\<close>

definition menu_children :: "(string \<Rightarrow> int) \<Rightarrow> feature list \<Rightarrow> string \<Rightarrow> show_features list" where
  "menu_children perm fs k =
     map (\<lambda>f. show_feature perm f []) (filter (\<lambda>f. ft_self_type f = 2 \<and> ft_parent f = k) fs)"

definition menu_spec :: "(string \<Rightarrow> int) \<Rightarrow> feature list \<Rightarrow> string \<Rightarrow> show_features option" where
  "menu_spec perm fs k =
     (let tops = filter (\<lambda>f. ft_self_type f = 1 \<and> ft_key f = k) fs; children = menu_children perm fs k in
      if tops = [] \<and> children = [] then None
      else if tops = [] then Some (with_children zero_show children)
      else Some (show_feature perm (last tops) children))"

lemma children_simps [simp]:
  "sf_children (with_children s cs) = cs" "sf_children (show_feature perm f cs) = cs"
  "with_children (with_children s cs) cs' = with_children s cs'"
  "with_children (show_feature perm f cs) cs' = show_feature perm f cs'" "sf_children zero_show = []"
  by (simp_all add: with_children_def show_feature_def zero_show_def)

lemma menu_step_spec:
  assumes "\<And>k. menu k = menu_spec perm fs k"
  shows "menu_step perm f menu k = menu_spec perm (fs @ [f]) k"
proof -
  have entry: "sf_children (menu_entry menu j) = menu_children perm fs j" for j
    by (simp add: menu_entry_def assms menu_spec_def Let_def)
  have keep: "with_children (menu_entry menu j) cs =
      (let tops = filter (\<lambda>f. ft_self_type f = 1 \<and> ft_key f = j) fs
       in if tops = [] then with_children zero_show cs else show_feature perm (last tops) cs)" for j cs
    by (simp add: menu_entry_def assms menu_spec_def Let_def)
  show ?thesis
    by (cases "ft_self_type f = 2"; cases "ft_self_type f = 1"; cases "ft_parent f = k"; cases "ft_key f = k")
      (simp_all add: menu_step_def Let_def entry keep menu_children_def menu_spec_def assms)
qed

text \<open>C23: the menu of a role does not depend on the order in which parents and children are listed:
  each entry is the top-level feature with the features below it, each with the role's permission.\<close>

theorem menu_is_its_specification:
  "side_menu (role_permissions ras) features = menu_spec (role_permissions ras) features"
proof (rule ext)
  fix k
  show "side_menu (role_permissions ras) features k = menu_spec (role_permissions ras) features k"
    unfolding side_menu_def
  proof (induction features arbitrary: k rule: rev_induct)
    case Nil
    then show ?case by (simp add: menu_spec_def menu_children_def Let_def)
  next
    case (snoc f fs)
    from menu_step_spec [of "fold (menu_step (role_permissions ras)) fs Map.empty", OF snoc.IH]
    show ?case by simp
  qed
qed

subsection \<open>Tokens\<close>

lemma middleware_passed:
  assumes "JWTAuthMiddleware env save_error header vals = (Inr None, vals')"
  shows "\<exists>scheme access refresh ca cr. split_on (CHR '' '') header = [scheme, access]
    \<and> vals' ''access_token'' = Some (AStr access) \<and> vals ''refresh_token'' = Some (AStr refresh)
    \<and> parse_token env Access_key (clock env) access = Inr (True, ca)
    \<and> parse_token env Refresh_key (clock env) refresh = Inr (True, cr)"
proof -
  from assms have some: "vals ''refresh_token'' \<noteq> None"
    by (auto simp: JWTAuthMiddleware_def unauthorized_def split: if_splits)
  with assms obtain vals1 where r: "renew_access env vals = Inr (Inr vals1)"
    by (cases "renew_access env vals") (auto simp: JWTAuthMiddleware_def split: sum.splits)
  with assms some have v: "check_tokens env header vals1 = Inr None" "vals' = vals1"
    by (auto simp: JWTAuthMiddleware_def split: option.splits)
  have same: "vals1 ''refresh_token'' = vals ''refresh_token''"
    using r by (auto simp: renew_access_def split: sum.splits if_splits prod.splits option.splits)
  have bearer: "AuthenticateToken b t = None \<Longrightarrow> \<exists>x. b = [x, t]" for b t
    by (auto simp: AuthenticateToken_def split: list.splits if_splits)
  have str: "as_string w = Inr x \<Longrightarrow> w = Some (AStr x)" for w x
    by (auto simp: as_string_def split: option.splits any.splits)
  from v(1) obtain access ca where a: "as_string (vals1 ''access_token'') = Inr access"
      "parse_token env Access_key (clock env) access = Inr ca"
    by (auto simp: check_tokens_def split: sum.splits)
  with v(1) obtain refresh cr where b: "as_string (vals1 ''refresh_token'') = Inr refresh"
      "parse_token env Refresh_key (clock env) refresh = Inr cr"
    by (cases ca) (auto simp: check_tokens_def split: sum.splits)
  with v(1) a have "fst ca" "fst cr" "AuthenticateToken (split_on (CHR '' '') header) access = None"
    by (cases ca; cases cr; auto simp: check_tokens_def split: if_splits option.splits)+
  with a b bearer [of "split_on (CHR '' '') header" access] str [OF a(1)] str [OF b(1)] v(2) same
  show ?thesis by (cases ca; cases cr) auto
qed

text \<open>A request passes the middleware only with the session's own access token as the second word
  of its \<open>Authorization\<close> header, and only while that token and the session's refresh token verify
  under their keys; a session that never logged in never passes.\<close>

theorem passed_request_is_authorized:
  assumes "JWTAuthMiddleware env save_error header vals = (Inr None, vals')"
  shows "\<exists>scheme access refresh ca cr. split_on (CHR '' '') header = [scheme, access]
    \<and> vals' ''access_token'' = Some (AStr access) \<and> vals ''refresh_token'' = Some (AStr refresh)
    \<and> parse_token env Access_key (clock env) access = Inr (True, ca)
    \<and> parse_token env Refresh_key (clock env) refresh = Inr (True, cr)"
  using assms by (rule middleware_passed)

definition sample_session :: session_values where
  "sample_session = [''refresh_token'' \<mapsto> AStr (Refresh_key @ ''ann''), ''exp'' \<mapsto> AInt 5,
     ''access_token'' \<mapsto> AStr (Access_key @ ''ann'')]"

theorem passed_request_is_authorized_witness:
  "\<exists>scheme access refresh ca cr. split_on (CHR '' '') ''Bearer this-is-access-keyann'' = [scheme, access]
    \<and> sample_session ''access_token'' = Some (AStr access)
    \<and> sample_session ''refresh_token'' = Some (AStr refresh)
    \<and> parse_token sample_auth Access_key (clock sample_auth) access = Inr (True, ca)
    \<and> parse_token sample_auth Refresh_key (clock sample_auth) refresh = Inr (True, cr)"
proof -
  have "JWTAuthMiddleware sample_auth None ''Bearer this-is-access-keyann'' sample_session
      = (Inr None, sample_session)"
    by (simp add: JWTAuthMiddleware_def renew_access_def as_int_def sample_session_def sample_auth_def
        unix_time_def expired_def check_tokens_def as_string_def Access_key_def Refresh_key_def
        AuthenticateToken_def go_second_def)
  from passed_request_is_authorized [OF this] show ?thesis .
qed

subsection \<open>Devices\<close>

text \<open>Deleting a device removes the devices with the key and nothing else from the tables, but it
  also switches the view of the logs off; a key nobody has is answered with success.\<close>

theorem delete_device_effect:
  assumes "works env" "holds env st c" "key \<noteq> []"
  shows "\<exists>st'. DeleteDevice env key st
      = (Inr (NewSuccessResponse ''Success'' (Some ''Successfully deleted device'')), st')
    \<and> holds env st' (c\<lparr>Devices := filter (\<lambda>d. dev_key d \<noteq> key) (Devices c), ViewLogs := False\<rparr>)"
proof -
  let ?resp = "fst (fold add_profile (filter deletable [DeviceProfile (zero_device\<lparr>dev_key := key\<rparr>)])
      (zero_config, zero_keys))"
  have m: "remaining_config ?resp c =
      c\<lparr>Devices := filter (\<lambda>d. dev_key d \<noteq> key) (Devices c), ViewLogs := False\<rparr>"
    by (simp add: remaining_config_def zero_config_def remove_rows_def)
  obtain st' where s: "store_config env (remaining_config ?resp c) (opened env st) = (None, st')"
      "holds env st' (remaining_config ?resp c)"
    using store_works [OF assms(1)] by blast
  have "DeleteConfig env ?resp st = store_config env (remaining_config ?resp c) (opened env st)"
    using assms(1,2) by (simp add: DeleteConfig_def read_works works_def [of env] holds_def opened_def)
  with s m assms(3) show ?thesis
    by (simp add: DeleteDevice_def DeleteProfile_def)
qed

theorem delete_device_effect_witness:
  "\<exists>st'. DeleteDevice sample_auth ''nobody'' sample_store
      = (Inr (NewSuccessResponse ''Success'' (Some ''Successfully deleted device'')), st')
    \<and> holds sample_auth st' (sample_config\<lparr>Devices := filter (\<lambda>d. dev_key d \<noteq> ''nobody'') (Devices sample_config),
         ViewLogs := False\<rparr>)"
  by (rule delete_device_effect [OF sample_works(2) sample_holds(2)]) simp

end
