(* ===== verification/Net_Addr.thy ===== *)
theory Net_Addr
  imports Go_Prelude
begin

text \<open>
  The functions of Go's package \<open>net\<close> that the interface code calls: \<open>ParseIP\<close>, \<open>ParseCIDR\<close>,
  \<open>ParseMAC\<close>, \<open>IP.To4\<close>, \<open>IP.To16\<close> and \<open>IP.String\<close>, as the library of go 1.22 (\<open>go.mod\<close>) computes them.
  An address is its list of bytes, \<open>[]\<close> is the nil address. The last part shows that parsing is
  the inverse of printing for IPv4 addresses and that a mask printed after a slash is read back.
\<close>

type_synonym net_ip = "8 word list"

definition hex_val :: "char \<Rightarrow> nat option" where
  "hex_val c =
     (let n = of_char c :: nat in
      if 48 \<le> n \<and> n \<le> 57 then Some (n - 48)
      else if 97 \<le> n \<and> n \<le> 102 then Some (n - 87)
      else if 65 \<le> n \<and> n \<le> 70 then Some (n - 55)
      else None)"

definition is_hex :: "char \<Rightarrow> bool" where
  "is_hex c \<longleftrightarrow> hex_val c \<noteq> None"

definition hex_number :: "string \<Rightarrow> nat" where
  "hex_number s = foldl (\<lambda>acc c. acc * 16 + the (hex_val c)) 0 s"

definition digit_nat :: "char \<Rightarrow> nat" where
  "digit_nat c = of_char c - 48"

subsection \<open>Parsing addresses\<close>

text \<open>\<open>netip.parseIPv4Fields\<close>: the value and the number of digits of the field being read.\<close>

fun v4_fields :: "nat \<Rightarrow> nat \<Rightarrow> nat list \<Rightarrow> string \<Rightarrow> nat list option" where
  "v4_fields val digs fds [] = (if length fds < 3 then None else Some (fds @ [val]))"
| "v4_fields val digs fds (c # s) =
     (if is_digit c then
        (if digs = 1 \<and> val = 0 then None
         else if val * 10 + digit_nat c > 255 then None
         else v4_fields (val * 10 + digit_nat c) (Suc digs) fds s)
      else if c = CHR ''.'' then
        (if digs = 0 \<or> s = [] then None
         else if length fds = 3 then None
         else v4_fields 0 0 (fds @ [val]) s)
      else None)"

text \<open>
  The loop of \<open>netip.parseIPv6\<close> over at most eight groups of 16 bits: the groups read, the position of
  the ellipsis and the rest of the text.
\<close>

fun v6_groups :: "nat \<Rightarrow> nat list \<Rightarrow> nat option \<Rightarrow> string \<Rightarrow> (nat list \<times> nat option \<times> string) option" where
  "v6_groups 0 gs e s = Some (gs, e, s)"
| "v6_groups (Suc n) gs e s =
     (let h = takeWhile is_hex s; r = dropWhile is_hex s in
      if length h > 4 \<or> h = [] then None
      else (case r of
              [] \<Rightarrow> Some (gs @ [hex_number h], e, [])
            | c # t \<Rightarrow>
                if c = CHR ''.'' then
                  (if (e = None \<and> length gs \<noteq> 6) \<or> length gs + 2 > 8 then None
                   else (case v4_fields 0 0 [] s of
                           Some [p, q, u, v] \<Rightarrow> Some (gs @ [p * 256 + q, u * 256 + v], e, [])
                         | _ \<Rightarrow> None))
                else if c \<noteq> CHR '':'' \<or> t = [] then None
                else if hd t = CHR '':'' then
                  (if e \<noteq> None then None
                   else if tl t = [] then
                     Some (gs @ [hex_number h], Some (length gs + 1), [])
                   else v6_groups n (gs @ [hex_number h]) (Some (length gs + 1)) (tl t))
                else v6_groups n (gs @ [hex_number h]) e t))"

definition v6_finish :: "(nat list \<times> nat option \<times> string) option \<Rightarrow> nat list option" where
  "v6_finish r =
     (case r of
        None \<Rightarrow> None
      | Some (gs, e, s) \<Rightarrow>
          if s \<noteq> [] then None
          else if length gs < 8 then
            (case e of
               None \<Rightarrow> None
             | Some k \<Rightarrow> Some (take k gs @ replicate (8 - length gs) 0 @ drop k gs))
          else if e \<noteq> None then None
          else Some gs)"

definition parse_v6 :: "string \<Rightarrow> nat list option" where
  "parse_v6 s =
     (if CHR ''%'' \<in> set s then None
      else if has_prefix s ''::'' then
        (if drop 2 s = [] then Some (replicate 8 0) else v6_finish (v6_groups 8 [] (Some 0) (drop 2 s)))
      else v6_finish (v6_groups 8 [] None s))"

definition v4_in_v6 :: "net_ip" where
  "v4_in_v6 = replicate 10 0 @ [255, 255]"

definition group_bytes :: "nat list \<Rightarrow> net_ip" where
  "group_bytes gs = concat (map (\<lambda>g. [word_of_nat (g div 256), word_of_nat (g mod 256)]) gs)"

text \<open>
  \<open>netip.ParseAddr\<close> without a zone: the 16 bytes of the address and the number of bits of its family.
\<close>

definition parse_addr :: "string \<Rightarrow> (net_ip \<times> nat) option" where
  "parse_addr s =
     (case find (\<lambda>c. c = CHR ''.'' \<or> c = CHR '':'' \<or> c = CHR ''%'') s of
        None \<Rightarrow> None
      | Some c \<Rightarrow>
          if c = CHR ''.'' then map_option (\<lambda>fs. (v4_in_v6 @ map word_of_nat fs, 32)) (v4_fields 0 0 [] s)
          else if c = CHR '':'' then map_option (\<lambda>gs. (group_bytes gs, 128)) (parse_v6 s)
          else None)"

definition ParseIP :: "string \<Rightarrow> net_ip" where
  "ParseIP s = (case parse_addr s of None \<Rightarrow> [] | Some (ip, n) \<Rightarrow> ip)"

definition To4 :: "net_ip \<Rightarrow> net_ip" where
  "To4 ip = (if length ip = 4 then ip
             else if length ip = 16 \<and> take 12 ip = v4_in_v6 then drop 12 ip
             else [])"

definition To16 :: "net_ip \<Rightarrow> net_ip" where
  "To16 ip = (if length ip = 4 then v4_in_v6 @ ip else if length ip = 16 then ip else [])"

text \<open>\<open>net.dtoi\<close> on a text that must be digits up to its end; the limit is \<open>0xFFFFFF\<close>.\<close>

fun dtoi :: "nat \<Rightarrow> string \<Rightarrow> nat option" where
  "dtoi n [] = Some n"
| "dtoi n (c # s) =
     (if is_digit c \<and> n * 10 + digit_nat c < 16777215 then dtoi (n * 10 + digit_nat c) s else None)"

text \<open>A prefix: the address it was made from and the mask, as its length and the bits of the family.\<close>

record ipnet =
  net_addr :: net_ip
  net_ones :: nat
  net_bits :: nat

text \<open>
  \<open>net.ParseCIDR\<close>, of which the source uses the mask only: the text is cut at the first slash.
\<close>

definition parse_cidr_mask :: "string \<Rightarrow> (nat \<times> nat) option" where
  "parse_cidr_mask s =
     (if CHR ''/'' \<notin> set s then None
      else
        (let addr = takeWhile (\<lambda>c. c \<noteq> CHR ''/'') s; mask = tl (dropWhile (\<lambda>c. c \<noteq> CHR ''/'') s) in
         case parse_addr addr of
           None \<Rightarrow> None
         | Some (ip, bits) \<Rightarrow>
             (case (if mask = [] then None else dtoi 0 mask) of
                None \<Rightarrow> None
              | Some n \<Rightarrow> if n > bits then None else Some (n, bits))))"

subsection \<open>Hardware addresses\<close>

definition hex_byte :: "string \<Rightarrow> 8 word option" where
  "hex_byte s =
     (case s of
        [c, d] \<Rightarrow> (case (hex_val c, hex_val d) of
                     (Some x, Some y) \<Rightarrow> Some (word_of_nat (x * 16 + y))
                   | _ \<Rightarrow> None)
      | _ \<Rightarrow> None)"

fun all_some :: "'a option list \<Rightarrow> 'a list option" where
  "all_some [] = Some []"
| "all_some (None # xs) = None"
| "all_some (Some x # xs) = map_option (Cons x) (all_some xs)"

definition hw_length :: "nat \<Rightarrow> bool" where
  "hw_length n \<longleftrightarrow> n = 6 \<or> n = 8 \<or> n = 20"

text \<open>
  \<open>net.ParseMAC\<close>: groups of two hexadecimal digits between colons or dashes, or of four between dots,
  6, 8 or 20 bytes in all.
\<close>

definition ParseMAC :: "string \<Rightarrow> 8 word list option" where
  "ParseMAC s =
     (if length s < 14 then None
      else if s ! 2 = CHR '':'' \<or> s ! 2 = CHR ''-'' then
        (case all_some (map hex_byte (split_on (s ! 2) s)) of
           Some bs \<Rightarrow> if hw_length (length bs) then Some bs else None
         | None \<Rightarrow> None)
      else if s ! 4 = CHR ''.'' then
        (case all_some (concat (map (\<lambda>g. if length g = 4 then [hex_byte (take 2 g), hex_byte (drop 2 g)]
                                         else [None]) (split_on (CHR ''.'') s))) of
           Some bs \<Rightarrow> if hw_length (length bs) then Some bs else None
         | None \<Rightarrow> None)
      else None)"

subsection \<open>Printing addresses\<close>

definition dotted :: "net_ip \<Rightarrow> string" where
  "dotted ip = concat (map (\<lambda>b. show_nat (unat b) @ ''.'') (butlast ip)) @ show_nat (unat (last ip))"

definition hex_digit :: "nat \<Rightarrow> char" where
  "hex_digit d = (if d < 10 then char_of (48 + d) else char_of (87 + d))"

fun show_hex :: "nat \<Rightarrow> string" where
  "show_hex n = (if n < 16 then [hex_digit n] else show_hex (n div 16) @ [hex_digit (n mod 16)])"

declare show_hex.simps [simp del]

fun bytes_groups :: "net_ip \<Rightarrow> nat list" where
  "bytes_groups (a # b # ip) = (unat a * 256 + unat b) # bytes_groups ip"
| "bytes_groups _ = []"

text \<open>The longest run of zero groups, the first one of that length, of at least two groups.\<close>

definition zero_run :: "nat list \<Rightarrow> nat \<Rightarrow> nat" where
  "zero_run gs i = length (takeWhile (\<lambda>g. g = 0) (drop i gs))"

definition longest_run :: "nat list \<Rightarrow> nat \<times> nat" where
  "longest_run gs =
     fold (\<lambda>i (st, n). if 2 \<le> zero_run gs i \<and> n < zero_run gs i then (i, zero_run gs i) else (st, n))
       [0..<8] (255, 0)"

fun colons :: "string list \<Rightarrow> string" where
  "colons [] = []"
| "colons [s] = s"
| "colons (s # t # ss) = s @ '':'' @ colons (t # ss)"

definition v6_string :: "nat list \<Rightarrow> string" where
  "v6_string gs =
     (case longest_run gs of
        (st, n) \<Rightarrow>
          if n = 0 then colons (map show_hex gs)
          else colons (map show_hex (take st gs)) @ ''::'' @ colons (map show_hex (drop (st + n) gs)))"

text \<open>\<open>IP.String\<close>; a byte slice of another length than 0, 4 and 16 is printed in hexadecimal.\<close>

definition ip_string :: "net_ip \<Rightarrow> string" where
  "ip_string ip =
     (if ip = [] then ''<nil>''
      else if To4 ip \<noteq> [] then dotted (To4 ip)
      else if length ip = 16 then v6_string (bytes_groups ip)
      else ''?'' @ concat (map (\<lambda>b. [hex_digit (unat b div 16), hex_digit (unat b mod 16)]) ip))"

subsection \<open>Printed addresses are read back\<close>

lemma digit_char_nat: "d < 10 \<Longrightarrow> digit_nat (digit_char d) = d"
  by (simp add: digit_nat_def digit_char_def)

lemma dot_no_digit [simp]: "\<not> is_digit (CHR ''.'')" "\<not> is_digit (CHR ''/'')"
  by (simp_all add: is_digit_def)

lemma show_nat_digits: "c \<in> set (show_nat n) \<Longrightarrow> is_digit c"
proof (induction n rule: show_nat.induct)
  case (1 n)
  then show ?case
    by (cases "n < 10")
       (auto simp: digit_char_props show_nat.simps [of n] split: if_splits)
qed

lemma show_nat_nonempty [simp]: "show_nat n \<noteq> []"
  by (subst show_nat.simps) simp

lemma show_nat_no_zero: "0 < n \<Longrightarrow> hd (show_nat n) \<noteq> digit_char 0"
proof (induction n rule: show_nat.induct)
  case (1 n)
  show ?case
  proof (cases "n < 10")
    case True
    then have "digit_nat (digit_char n) \<noteq> digit_nat (digit_char 0)"
      using 1(2) by (simp add: digit_char_nat)
    with True show ?thesis by (subst show_nat.simps) auto
  next
    case False
    then show ?thesis using 1(1) by (subst show_nat.simps) (simp add: hd_append)
  qed
qed

lemma v4_fields_show:
  assumes "n < 256"
  shows "v4_fields 0 0 fds (show_nat n @ t) = v4_fields n (length (show_nat n)) fds t"
  using assms
proof (induction n arbitrary: t rule: show_nat.induct)
  case (1 n)
  show ?case
  proof (cases "n < 10")
    case True
    then show ?thesis by (simp add: show_nat.simps [of n] digit_char_props digit_char_nat)
  next
    case False
    have split: "show_nat n = show_nat (n div 10) @ [digit_char (n mod 10)]"
      using False by (subst show_nat.simps) simp
    have "v4_fields 0 0 fds (show_nat n @ t)
          = v4_fields (n div 10) (length (show_nat (n div 10))) fds (digit_char (n mod 10) # t)"
      using "1.IH" [OF False] "1.prems" by (simp add: split)
    also have "n div 10 \<noteq> 0" using False by auto
    then have "v4_fields (n div 10) (length (show_nat (n div 10))) fds (digit_char (n mod 10) # t)
          = v4_fields (n div 10 * 10 + n mod 10) (Suc (length (show_nat (n div 10)))) fds t"
      using "1.prems" by (simp add: digit_char_props digit_char_nat)
    finally show ?thesis by (simp add: split)
  qed
qed

lemma v4_fields_dotted:
  "v4_fields 0 0 [] (dotted [a, b, c, d]) = Some [unat a, unat b, unat c, unat d]"
proof -
  have small: "unat x < 256" for x :: "8 word" using unsigned_less [of x] by simp
  have "v4_fields 0 0 [] (dotted [a, b, c, d])
        = v4_fields 0 0 [unat a, unat b, unat c] (show_nat (unat d))"
    by (simp add: dotted_def v4_fields_show [OF small])
  also have "\<dots> = Some [unat a, unat b, unat c, unat d]"
    using v4_fields_show [OF small, of "[unat a, unat b, unat c]" d "[]"] by simp
  finally show ?thesis .
qed

lemma dotted_first_dot:
  "find (\<lambda>c. c = CHR ''.'' \<or> c = CHR '':'' \<or> c = CHR ''%'') (dotted [a, b, c, d]) = Some (CHR ''.'')"
proof -
  have skip: "\<forall>x \<in> set s. is_digit x \<Longrightarrow>
    find (\<lambda>c. c = CHR ''.'' \<or> c = CHR '':'' \<or> c = CHR ''%'') (s @ CHR ''.'' # t) = Some (CHR ''.'')" for s t
    by (induction s) (auto simp: is_digit_def)
  show ?thesis by (simp add: dotted_def skip show_nat_digits)
qed

text \<open>The parser reads a printed IPv4 address back.\<close>

lemma parse_addr_dotted:
  "parse_addr (dotted [a, b, c, d]) = Some (v4_in_v6 @ [a, b, c, d], 32)"
  by (simp add: parse_addr_def dotted_first_dot v4_fields_dotted)

lemma dtoi_show: "n < 16777215 \<Longrightarrow> dtoi 0 (show_nat n @ t) = dtoi n t"
proof (induction n arbitrary: t rule: show_nat.induct)
  case (1 n)
  show ?case
  proof (cases "n < 10")
    case True
    with 1 show ?thesis by (simp add: show_nat.simps [of n] digit_char_props digit_char_nat)
  next
    case False
    have split: "show_nat n = show_nat (n div 10) @ [digit_char (n mod 10)]"
      using False by (subst show_nat.simps) simp
    have "dtoi 0 (show_nat n @ t) = dtoi (n div 10) (digit_char (n mod 10) # t)"
      using "1.IH" [OF False] "1.prems" by (simp add: split)
    then show ?thesis using "1.prems" by (simp add: digit_char_props digit_char_nat)
  qed
qed

lemma dotted_no_slash: "CHR ''/'' \<notin> set (dotted [a, b, c, d])"
  using show_nat_digits by (fastforce simp: dotted_def)

lemma parse_cidr_mask_print:
  assumes "parse_addr ip = Some (bs, bits)" "CHR ''/'' \<notin> set ip" "n \<le> bits" "bits \<le> 128"
  shows "parse_cidr_mask (ip @ ''/'' @ show_nat n) = Some (n, bits)"
proof -
  have cut: "takeWhile (\<lambda>c. c \<noteq> CHR ''/'') (ip @ ''/'' @ show_nat n) = ip"
    "dropWhile (\<lambda>c. c \<noteq> CHR ''/'') (ip @ ''/'' @ show_nat n) = ''/'' @ show_nat n"
    using assms(2) by (auto simp: takeWhile_append dropWhile_append)
  have "dtoi 0 (show_nat n) = Some n" using assms(3,4) dtoi_show [of n "[]"] by simp
  then show ?thesis unfolding parse_cidr_mask_def cut using assms by simp
qed

end
