(* ===== verification/Interface_Model.thy ===== *)
theory Interface_Model
  imports Go_Prelude
begin

text \<open>
  The data of the network configuration, \<open>model/interface_model/model.go\<close>: the requests of the
  interface and routing API, what the configuration file \<open>interface_config.yaml\<close> holds, and the
  constants. One record per struct, one field per field, in the order of the source. Response structs
  that only wrap a list with its length are not repeated here.
\<close>

subsection \<open>Addresses and options\<close>

record ip_response =
  ipr_address :: string
  ipr_netmask :: int
  ipr_protocol :: string

record ipv4_details =
  v4_on :: bool
  v4_mode :: string
  v4_address :: string
  v4_netmask :: string
  v4_gateway_detail :: string
  v4_gateway_name :: string
  v4_gateway_ip :: string

record ipv6_details =
  v6_on :: bool
  v6_mode :: string
  v6_address :: string
  v6_prefix :: string
  v6_gateway_detail :: string
  v6_gateway_name :: string
  v6_gateway_ip :: string

record mss_details =
  mss_override :: bool
  mss_value :: int

record stp_details =
  stp_on :: bool
  stp_max_age :: int

record config_fields =
  cf_serving :: string
  cf_domain :: string
  cf_zone :: string
  cf_disabled :: bool

definition no_fields :: config_fields where
  "no_fields = \<lparr>cf_serving = [], cf_domain = [], cf_zone = [], cf_disabled = False\<rparr>"

definition no_ip :: ip_response where
  "no_ip = \<lparr>ipr_address = [], ipr_netmask = 0, ipr_protocol = []\<rparr>"

subsection \<open>High availability\<close>

record monitored_interface =
  mi_interface :: string
  mi_base :: string
  mi_peer :: string
  mi_ip :: string

record ha_status =
  hs_status :: string
  hs_synced :: string

record ha =
  ha_mode :: string
  ha_role :: string
  ha_password :: string
  ha_dedicated :: string
  ha_peer :: string
  ha_monitored :: "monitored_interface list"
  ha_interval :: int
  ha_attempts :: int
  ha_status_of :: ha_status

definition zero_ha :: ha where
  "zero_ha = \<lparr>ha_mode = [], ha_role = [], ha_password = [], ha_dedicated = [], ha_peer = [],
     ha_monitored = [], ha_interval = 0, ha_attempts = 0,
     ha_status_of = \<lparr>hs_status = [], hs_synced = []\<rparr>\<rparr>"

record ha_request =
  hr_type :: int
  hr_mode :: string
  hr_role :: string
  hr_password :: string
  hr_dedicated :: string
  hr_peer :: string
  hr_monitored :: "monitored_interface list"
  hr_interval :: int
  hr_attempts :: int

subsection \<open>Interfaces\<close>

record link_stats =
  ls_tx_packets :: "64 word"
  ls_tx_bytes :: "64 word"
  ls_tx_errors :: "64 word"
  ls_tx_dropped :: "64 word"
  ls_rx_packets :: "64 word"
  ls_rx_bytes :: "64 word"
  ls_rx_errors :: "64 word"
  ls_rx_dropped :: "64 word"

record physical_interface =
  pi_name :: string
  pi_hardware :: string
  pi_ip :: ip_response
  pi_aliases :: "ip_response list"
  pi_mtu :: int
  pi_state :: string
  pi_speed :: string
  pi_duplex :: string
  pi_autoneg :: string
  pi_stats :: link_stats
  pi_attached :: "string list"
  pi_editable :: bool
  pi_deletable :: bool
  pi_fields :: config_fields

record physical_request =
  pr_v4 :: ipv4_details
  pr_v6 :: ipv6_details
  pr_mtu :: int
  pr_hardware :: string
  pr_fields :: config_fields

record member_interface =
  mb_name :: string
  mb_hardware :: string
  mb_ip :: string
  mb_protocol :: string
  mb_version :: int
  mb_mtu :: int

record bridge_request =
  br_name :: string
  br_user_name :: string
  br_hardware :: string
  br_description :: string
  br_routing :: bool
  br_members :: "string list"
  br_v4 :: ipv4_details
  br_v6 :: ipv6_details
  br_mtu :: int
  br_mss :: mss_details
  br_stp :: stp_details
  br_arp :: bool
  br_serving :: string
  br_domain :: string
  br_zone :: string

record bridge_update =
  bu_members :: "string list"
  bu_add :: "string list"
  bu_remove :: "string list"
  bu_hardware :: string
  bu_routing :: bool
  bu_v4 :: ipv4_details
  bu_v6 :: ipv6_details
  bu_mtu :: int
  bu_mss :: mss_details
  bu_stp :: stp_details
  bu_arp :: bool
  bu_fields :: config_fields

text \<open>
  \<open>config_fields\<close> groups the four fields \<open>serving_location\<close>, \<open>domain_name\<close>, \<open>network_zone\<close> and
  \<open>is_disabled\<close> that every kind of interface ends with.
\<close>

record bridge_interface =
  bi_name :: string
  bi_count :: int
  bi_hardware :: string
  bi_ip :: ip_response
  bi_aliases :: "ip_response list"
  bi_protocol :: string
  bi_version :: int
  bi_members :: "member_interface list"
  bi_mtu :: int
  bi_editable :: bool
  bi_deletable :: bool
  bi_fields :: config_fields

record vlan_request =
  vr_name :: string
  vr_id :: int
  vr_parent :: string
  vr_v4 :: ipv4_details
  vr_v6 :: ipv6_details
  vr_serving :: string
  vr_domain :: string
  vr_zone :: string

record vlan_interface =
  vi_name :: string
  vi_parent :: member_interface
  vi_hardware :: string
  vi_ip :: ip_response
  vi_aliases :: "ip_response list"
  vi_protocol :: string
  vi_version :: int
  vi_mtu :: int
  vi_editable :: bool
  vi_deletable :: bool
  vi_fields :: config_fields

record vlan_update =
  vu_v4 :: ipv4_details
  vu_v6 :: ipv6_details
  vu_fields :: config_fields

record bond_request =
  bo_name :: string
  bo_user_name :: string
  bo_hardware :: string
  bo_slaves :: "string list"
  bo_mode :: string
  bo_v4 :: ipv4_details
  bo_v6 :: ipv6_details
  bo_mtu :: int
  bo_mss :: mss_details
  bo_serving :: string
  bo_domain :: string
  bo_zone :: string

record bond_update =
  bou_slaves :: "string list"
  bou_add :: "string list"
  bou_remove :: "string list"
  bou_hardware :: string
  bou_v4 :: ipv4_details
  bou_v6 :: ipv6_details
  bou_mtu :: int
  bou_fields :: config_fields

record slave_interface =
  sl_state :: string
  sl_member :: member_interface

record bond_interface =
  bd_name :: string
  bd_mode :: string
  bd_hardware :: string
  bd_ip :: ip_response
  bd_aliases :: "ip_response list"
  bd_protocol :: string
  bd_version :: int
  bd_count :: int
  bd_slaves :: "slave_interface list"
  bd_mtu :: int
  bd_editable :: bool
  bd_deletable :: bool
  bd_fields :: config_fields

record virtual_wire =
  vw_name :: string
  vw_children :: "string list"
  vw_serving :: string

subsection \<open>Routing\<close>

record ipv4_route =
  r4_destination :: string
  r4_netmask :: string
  r4_gateway :: string
  r4_interface :: string
  r4_distance :: int
  r4_metric :: int

record ipv6_route =
  r6_destination :: string
  r6_prefix :: string
  r6_gateway :: string
  r6_interface :: string
  r6_metric :: int

record multicast_route =
  mr_source_ip :: string
  mr_source :: string
  mr_group :: string
  mr_destination :: string

record static_routes =
  sr_ipv4 :: "ipv4_route list"
  sr_ipv6 :: "ipv6_route list"
  sr_multicast :: "multicast_route list"
  sr_forward :: bool

definition no_routes :: static_routes where
  "no_routes = \<lparr>sr_ipv4 = [], sr_ipv6 = [], sr_multicast = [], sr_forward = False\<rparr>"

text \<open>\<open>CreateStaticRouteRequest\<close> and \<open>DeleteStaticRouteRequest\<close>: the operation and a route of each kind.\<close>

record static_route =
  st_ipv4 :: ipv4_route
  st_ipv6 :: ipv6_route
  st_multicast :: multicast_route

record route_request =
  rq_operation :: string
  rq_route :: static_route

record metric_details =
  md_metric :: string
  md_type :: string

record bgp_global =
  bg_assignment :: string
  bg_router :: string
  bg_as :: string

record neighbor =
  nb_version :: string
  nb_address :: string
  nb_as :: string

record network =
  nw_version :: string
  nw_address :: string
  nw_netmask :: string

record bgp_request =
  bq_operation :: string
  bq_neighbor :: neighbor
  bq_network :: network

record ospf_network =
  on_address :: string
  on_netmask :: string
  on_area :: string

record ospf_area =
  oa_area :: string
  oa_type :: string
  oa_authentication :: string
  oa_links :: "string list"
  oa_cost :: string

record ospf_request =
  oq_operation :: string
  oq_network :: ospf_network
  oq_area :: ospf_area

text \<open>The OSPFv3 settings are the first eight fields of the OSPF ones.\<close>

record ospfv3_global =
  og_router :: string
  og_metric :: string
  og_abr :: string
  og_acrb :: string
  og_originate :: string
  og_originate_metric :: metric_details
  og_connected :: bool
  og_connected_metric :: metric_details

record ospf_global = ospfv3_global +
  og_static :: bool
  og_static_metric :: metric_details
  og_bgp :: bool
  og_bgp_metric :: metric_details

record ospf_interface =
  oi_name :: string
  oi_area :: string
  oi_hello :: int
  oi_dead :: int
  oi_retransmit :: int
  oi_delay :: int
  oi_cost :: int
  oi_instance :: int
  oi_priority :: int

record ospfv3_area =
  o3_area :: string
  o3_type :: string
  o3_authentication :: string

record ospfv3_request =
  o3_operation :: string
  o3_interface :: ospf_interface
  o3_area_of :: ospfv3_area

record bgp_config =
  bc_global :: bgp_global
  bc_neighbors :: "neighbor list"
  bc_networks :: "network list"

record ospf_config =
  oc_global :: ospf_global
  oc_networks :: "ospf_network list"
  oc_areas :: "ospf_area list"

record ospfv3_config =
  o3_global :: ospfv3_global
  o3_interfaces :: "ospf_interface list"
  o3_areas :: "ospfv3_area list"

subsection \<open>The configuration file\<close>

record net_config =
  PhysicalInterfaces :: "physical_interface list"
  BridgeInterfaces :: "bridge_interface list"
  VLANInterfaces :: "vlan_interface list"
  BondInterfaces :: "bond_interface list"
  VirtualWires :: "virtual_wire list"
  StaticRoutes :: static_routes
  BGP_of :: bgp_config
  OSPF_of :: ospf_config
  OSPFV3_of :: ospfv3_config
  Ha_of :: ha

definition no_metric :: metric_details where
  "no_metric = \<lparr>md_metric = [], md_type = []\<rparr>"

definition zero_bgp :: bgp_config where
  "zero_bgp = \<lparr>bc_global = \<lparr>bg_assignment = [], bg_router = [], bg_as = []\<rparr>,
     bc_neighbors = [], bc_networks = []\<rparr>"

definition zero_ospf :: ospf_config where
  "zero_ospf = \<lparr>oc_global = \<lparr>og_router = [], og_metric = [], og_abr = [], og_acrb = [], og_originate = [],
       og_originate_metric = no_metric, og_connected = False, og_connected_metric = no_metric,
       og_static = False, og_static_metric = no_metric, og_bgp = False, og_bgp_metric = no_metric\<rparr>,
     oc_networks = [], oc_areas = []\<rparr>"

definition zero_ospfv3 :: ospfv3_config where
  "zero_ospfv3 = \<lparr>o3_global = \<lparr>og_router = [], og_metric = [], og_abr = [], og_acrb = [], og_originate = [],
       og_originate_metric = no_metric, og_connected = False, og_connected_metric = no_metric\<rparr>,
     o3_interfaces = [], o3_areas = []\<rparr>"

definition zero_net :: net_config where
  "zero_net = \<lparr>PhysicalInterfaces = [], BridgeInterfaces = [], VLANInterfaces = [], BondInterfaces = [],
     VirtualWires = [], StaticRoutes = no_routes, BGP_of = zero_bgp, OSPF_of = zero_ospf,
     OSPFV3_of = zero_ospfv3, Ha_of = zero_ha\<rparr>"

subsection \<open>Constants\<close>

definition STATIC_STRING :: string where "STATIC_STRING = ''static''"
definition DHCP_STRING :: string where "DHCP_STRING = ''dhcp''"
definition IPV4_STRING :: string where "IPV4_STRING = ''ipv4''"
definition IPV6_STRING :: string where "IPV6_STRING = ''ipv6''"
definition BRIDGE_STRING :: string where "BRIDGE_STRING = ''bridge''"
definition VLAN_STRING :: string where "VLAN_STRING = ''vlan''"
definition BOND_STRING :: string where "BOND_STRING = ''bond''"
definition HA_STRING :: string where "HA_STRING = ''ha''"
definition DEVICE :: string where "DEVICE = ''device''"
definition LINK_STATE_UP :: string where "LINK_STATE_UP = ''up''"
definition LOOP_BACK_DEVICE :: string where "LOOP_BACK_DEVICE = ''lo''"
definition Type_IPV4_UNICAST :: string where "Type_IPV4_UNICAST = ''ipv4_unicast''"
definition Type_IPV6_UNICAST :: string where "Type_IPV6_UNICAST = ''ipv6_unicast''"
definition Type_MULTICAST :: string where "Type_MULTICAST = ''multicast''"
definition Type_NEIGHBOR :: string where "Type_NEIGHBOR = ''neighbor''"
definition Type_NETWORK :: string where "Type_NETWORK = ''network''"
definition Type_AREA :: string where "Type_AREA = ''area''"
definition Type_INTERFACE :: string where "Type_INTERFACE = ''interface''"
definition Type_STATIC :: string where "Type_STATIC = ''static''"

lemmas type_defs = Type_IPV4_UNICAST_def Type_IPV6_UNICAST_def Type_MULTICAST_def Type_NEIGHBOR_def
  Type_NETWORK_def Type_AREA_def Type_INTERFACE_def Type_STATIC_def

lemmas kind_defs = DEVICE_def BRIDGE_STRING_def BOND_STRING_def VLAN_STRING_def HA_STRING_def

end
