(* ===== verification/Interface_Utils.thy ===== *)
theory Interface_Utils
  imports Net_Addr Interface_Model
begin

text \<open>
  \<open>util/interface_utils/utils.go\<close>. The kernel's links and addresses are reached through the package
  \<open>netlink\<close>, a parameter: a record of functions on a kernel state of any type. A command returns its
  error and the state afterwards, a query its error or result. The order in which Go ranges over a map
  is a parameter too.
\<close>

named_theorems ip_simps \<open>rules for the text form of addresses\<close>

subsection \<open>The kernel interface\<close>

text \<open>
  The attributes of a link that the source reads; a hardware address as it prints. \<open>lk_slave\<close> is the type
  and the state of a slave. Commands name the link they work on.
\<close>

record link =
  lk_name :: string
  lk_type :: string
  lk_index :: int
  lk_master :: int
  lk_parent :: int
  lk_oper :: string
  lk_hardware :: string
  lk_mtu :: int
  lk_stats :: link_stats
  lk_slave :: "(string \<times> string) option"
  lk_bond_mode :: string

record addr =
  ad_ip :: net_ip
  ad_ones :: nat
  ad_flags :: int
  ad_label :: string

datatype family = FAMILY_ALL | FAMILY_V4

record new_link =
  nl_name :: string
  nl_kind :: string
  nl_parent :: int
  nl_vlan :: int
  nl_mode :: string

record 'k netlink =
  LinkList :: "'k \<Rightarrow> go_error + link list"
  LinkByName :: "'k \<Rightarrow> string \<Rightarrow> go_error + link"
  LinkByIndex :: "'k \<Rightarrow> int \<Rightarrow> go_error + link"
  AddrList :: "'k \<Rightarrow> link \<Rightarrow> family \<Rightarrow> go_error + addr list"
  AddrAdd :: "string \<Rightarrow> ipnet option \<Rightarrow> 'k \<Rightarrow> go_error option \<times> 'k"
  AddrDel :: "string \<Rightarrow> ipnet option \<Rightarrow> 'k \<Rightarrow> go_error option \<times> 'k"
  LinkSetUp :: "string \<Rightarrow> 'k \<Rightarrow> go_error option \<times> 'k"
  LinkSetDown :: "string \<Rightarrow> 'k \<Rightarrow> go_error option \<times> 'k"
  LinkAdd :: "new_link \<Rightarrow> 'k \<Rightarrow> go_error option \<times> 'k"
  LinkDel :: "string \<Rightarrow> 'k \<Rightarrow> go_error option \<times> 'k"
  LinkSetMaster :: "string \<Rightarrow> string \<Rightarrow> 'k \<Rightarrow> go_error option \<times> 'k"
  LinkSetNoMaster :: "string \<Rightarrow> 'k \<Rightarrow> go_error option \<times> 'k"
  LinkSetBondSlave :: "string \<Rightarrow> string \<Rightarrow> 'k \<Rightarrow> go_error option \<times> 'k"
  LinkSetAlias :: "string \<Rightarrow> string \<Rightarrow> 'k \<Rightarrow> go_error option \<times> 'k"
  LinkSetHardwareAddr :: "string \<Rightarrow> 8 word list \<Rightarrow> 'k \<Rightarrow> go_error option \<times> 'k"
  LinkSetMTU :: "string \<Rightarrow> int \<Rightarrow> 'k \<Rightarrow> go_error option \<times> 'k"
  BondModeKnown :: "string \<Rightarrow> bool"
  range_order :: "string list \<Rightarrow> string list"

definition index_panic :: go_error where
  "index_panic = Panic ''index out of range''"

definition nil_panic :: go_error where
  "nil_panic = Panic ''nil pointer dereference''"

subsection \<open>Existence\<close>

definition CheckInterfaceExists :: "('k, 'e) netlink_scheme \<Rightarrow> 'k \<Rightarrow> string \<Rightarrow> go_error option" where
  "CheckInterfaceExists nl k name =
     (case LinkByName nl k (trim_space name) of Inl e \<Rightarrow> Some e | Inr l \<Rightarrow> None)"

fun CheckInterfacesExist ::
  "('k, 'e) netlink_scheme \<Rightarrow> 'k \<Rightarrow> string list \<Rightarrow> string \<times> go_error option" where
  "CheckInterfacesExist nl k [] = ([], None)"
| "CheckInterfacesExist nl k (n # ns) =
     (case CheckInterfaceExists nl k n of
        Some e \<Rightarrow> (n, Some e)
      | None \<Rightarrow> CheckInterfacesExist nl k ns)"

subsection \<open>Validating addresses\<close>

text \<open>\<open>ValidateIP\<close>: whether the text is an address, and of which protocol version.\<close>

definition ValidateIP :: "string \<Rightarrow> bool \<times> string" where
  "ValidateIP ip =
     (let parsed = ParseIP ip in
      if To4 parsed \<noteq> [] then (True, IPV4_STRING)
      else if To16 parsed \<noteq> [] then (True, IPV6_STRING)
      else (parsed \<noteq> [], []))"

definition ValidateIPNetmask :: "string \<Rightarrow> string \<Rightarrow> bool \<times> ipnet option" where
  "ValidateIPNetmask ipAddress netmask =
     (let ip = ParseIP ipAddress in
      if ip = [] then (False, None)
      else
        (case parse_cidr_mask (ipAddress @ ''/'' @ netmask) of
           None \<Rightarrow> (False, None)
         | Some (ones, bits) \<Rightarrow>
             (True, Some \<lparr>net_addr = ip, net_ones = ones, net_bits = bits\<rparr>)))"

definition IsMulticastIPv4 :: "string \<Rightarrow> bool" where
  "IsMulticastIPv4 address =
     (let ip = ParseIP address in
      if ip = [] then False
      else if To4 ip = [] then False
      else 224 \<le> ip ! 12 \<and> ip ! 12 \<le> 239)"

definition StringOfTypeStaticOrDhcp :: "string \<Rightarrow> bool" where
  "StringOfTypeStaticOrDhcp a = (if a = STATIC_STRING \<or> a = DHCP_STRING then True else False)"

definition ValidateAndGetHardwareAddress :: "string \<Rightarrow> go_error + 8 word list" where
  "ValidateAndGetHardwareAddress hwAddr =
     (case ParseMAC hwAddr of
        None \<Rightarrow> Inl (Err ''Invalid hardware address format'')
      | Some hw \<Rightarrow> Inr hw)"

subsection \<open>Ranges\<close>

definition ValidateMTU :: "int \<Rightarrow> go_error option" where
  "ValidateMTU mtu =
     (if mtu < 576 \<or> mtu > 9000 then Some (Err ''MTU value is out of a valid range'') else None)"

definition ValidateMSS :: "int \<Rightarrow> go_error option" where
  "ValidateMSS mss =
     (if mss < 536 \<or> mss > 8960 then Some (Err ''MSS value is out of a valid range'') else None)"

definition ValidateStpMaxAge :: "int \<Rightarrow> go_error option" where
  "ValidateStpMaxAge sma =
     (if sma < 6 \<or> sma > 40 then Some (Err ''STP Max Age value is out of a valid range'') else None)"

definition ValidateVlanId :: "int \<Rightarrow> go_error option" where
  "ValidateVlanId vid =
     (if vid < 1 \<or> vid > 2094 then Some (Err ''VLan Id value is out of a valid range'') else None)"

subsection \<open>Addresses of a link\<close>

text \<open>The printed form of an address with the length of its mask.\<close>

definition addr_text :: "addr \<Rightarrow> string" where
  "addr_text a = ip_string (ad_ip a) @ ''/'' @ show_nat (ad_ones a)"

definition listed :: "('k, 'e) netlink_scheme \<Rightarrow> 'k \<Rightarrow> link \<Rightarrow> addr list" where
  "listed nl k l = (case AddrList nl k l FAMILY_ALL of Inl e \<Rightarrow> [] | Inr as \<Rightarrow> as)"

definition CheckForDynamicAddressV2 ::
  "('k, 'e) netlink_scheme \<Rightarrow> 'k \<Rightarrow> link \<Rightarrow> bool \<times> ip_response" where
  "CheckForDynamicAddressV2 nl k l =
     (case find (\<lambda>a. ad_flags a = 0 \<or> ad_flags a = 512) (listed nl k l) of
        None \<Rightarrow> (False, no_ip)
      | Some a \<Rightarrow> (True, \<lparr>ipr_address = ip_string (ad_ip a), ipr_netmask = int (ad_ones a),
                          ipr_protocol = DHCP_STRING\<rparr>))"

definition CheckForDynamicAddress :: "('k, 'e) netlink_scheme \<Rightarrow> 'k \<Rightarrow> link \<Rightarrow> bool \<times> string" where
  "CheckForDynamicAddress nl k l =
     (case find (\<lambda>a. ad_flags a = 0) (listed nl k l) of
        None \<Rightarrow> (False, [])
      | Some a \<Rightarrow> (True, addr_text a))"

definition GetPrimaryIPAddressV2 :: "('k, 'e) netlink_scheme \<Rightarrow> 'k \<Rightarrow> link \<Rightarrow> ip_response" where
  "GetPrimaryIPAddressV2 nl k l =
     (if listed nl k l = [] then no_ip
      else
        (case CheckForDynamicAddressV2 nl k l of
           (True, a) \<Rightarrow> a
         | (False, _) \<Rightarrow>
             (case find (\<lambda>a. ad_flags a = 128 \<and> ad_label a \<noteq> []) (listed nl k l) of
                None \<Rightarrow> no_ip
              | Some a \<Rightarrow> \<lparr>ipr_address = ip_string (ad_ip a), ipr_netmask = int (ad_ones a),
                           ipr_protocol = STATIC_STRING\<rparr>)))"

definition GetPrimaryIPAddress :: "('k, 'e) netlink_scheme \<Rightarrow> 'k \<Rightarrow> link \<Rightarrow> string" where
  "GetPrimaryIPAddress nl k l =
     (if listed nl k l = [] then []
      else
        (case CheckForDynamicAddress nl k l of
           (True, a) \<Rightarrow> a
         | (False, _) \<Rightarrow>
             (case find (\<lambda>a. ad_flags a = 128) (listed nl k l) of
                None \<Rightarrow> []
              | Some a \<Rightarrow> addr_text a)))"

definition FindProtocol :: "addr \<Rightarrow> string" where
  "FindProtocol a = (if ad_flags a = 0 then DHCP_STRING else STATIC_STRING)"

definition GetSecondaryIPAddressListV2 ::
  "('k, 'e) netlink_scheme \<Rightarrow> 'k \<Rightarrow> link \<Rightarrow> ip_response list" where
  "GetSecondaryIPAddressListV2 nl k l =
     (let primary = GetPrimaryIPAddressV2 nl k l in
      map (\<lambda>a. \<lparr>ipr_address = ip_string (ad_ip a), ipr_netmask = int (ad_ones a),
               ipr_protocol = FindProtocol a\<rparr>)
        (filter (\<lambda>a. ipr_address primary @ ''/'' @ show_int (ipr_netmask primary) \<noteq> addr_text a)
           (listed nl k l)))"

definition GetIPAddressList :: "('k, 'e) netlink_scheme \<Rightarrow> 'k \<Rightarrow> link \<Rightarrow> string list" where
  "GetIPAddressList nl k l = map addr_text (listed nl k l)"

definition GetIPProtocol :: "('k, 'e) netlink_scheme \<Rightarrow> 'k \<Rightarrow> link \<Rightarrow> string" where
  "GetIPProtocol nl k l =
     (if listed nl k l = [] then []
      else if \<exists>a \<in> set (listed nl k l). ad_flags a = 0 \<or> ad_flags a = 512 then DHCP_STRING
      else STATIC_STRING)"

text \<open>
  The network address of \<open>ParseCIDR\<close>: byte \<open>i\<close> keeps the first \<open>n - 8 * i\<close> bits.
\<close>

definition mask_byte :: "nat \<Rightarrow> nat \<Rightarrow> 8 word" where
  "mask_byte n i = word_of_nat (256 - 2 ^ (8 - min 8 (n - 8 * i)))"

definition masked :: "net_ip \<Rightarrow> nat \<Rightarrow> net_ip" where
  "masked ip n = map (\<lambda>i. and (ip ! i) (mask_byte n i)) [0..<length ip]"

text \<open>\<open>GetIPVersion\<close> dereferences the prefix without looking at the error of \<open>ParseCIDR\<close>.\<close>

definition GetIPVersion :: "('k, 'e) netlink_scheme \<Rightarrow> 'k \<Rightarrow> link \<Rightarrow> go_error + int" where
  "GetIPVersion nl k l =
     (let primary = GetPrimaryIPAddress nl k l in
      if primary = [] then Inr 0
      else
        (case parse_cidr_mask primary of
           None \<Rightarrow> Inl nil_panic
         | Some (ones, bits) \<Rightarrow>
             if bits = 32 then Inr 4
             else if To4 (masked (ParseIP (takeWhile (\<lambda>c. c \<noteq> CHR ''/'') primary)) ones) \<noteq> [] then Inr 4
             else Inr 6))"

subsection \<open>Changing addresses\<close>

text \<open>The two parts of \<open>a/b\<close> that \<open>strings.Split\<close> indexes.\<close>

definition cidr_parts :: "string \<Rightarrow> go_error + string \<times> string" where
  "cidr_parts s =
     (case split_on (CHR ''/'') s of a # b # r \<Rightarrow> Inr (a, b) | _ \<Rightarrow> Inl index_panic)"

definition annotate :: "string \<Rightarrow> go_error option \<Rightarrow> go_error option" where
  "annotate msg r =
     (case r of Some (Err e) \<Rightarrow> Some (Err (msg @ e)) | Some (Panic p) \<Rightarrow> Some (Panic p) | None \<Rightarrow> None)"

definition add_text ::
  "('k, 'e) netlink_scheme \<Rightarrow> link \<Rightarrow> string \<Rightarrow> string \<Rightarrow> string \<Rightarrow> 'k \<Rightarrow> go_error option \<times> 'k" where
  "add_text nl l shown ip netmask k =
     (let (e, k') = AddrAdd nl (lk_name l) (snd (ValidateIPNetmask ip netmask)) k
      in (annotate (''Error while adding address '' @ shown @ '': '') e, k'))"

fun add_back ::
  "('k, 'e) netlink_scheme \<Rightarrow> link \<Rightarrow> string list \<Rightarrow> 'k \<Rightarrow> go_error option \<times> 'k" where
  "add_back nl l [] k = (None, k)"
| "add_back nl l (a # as) k =
     (case cidr_parts a of
        Inl p \<Rightarrow> (Some p, k)
      | Inr (ip, netmask) \<Rightarrow>
          (case add_text nl l a ip netmask k of
             (None, k') \<Rightarrow> add_back nl l as k'
           | (Some e, k') \<Rightarrow> (Some e, k')))"

definition delete_text ::
  "('k, 'e) netlink_scheme \<Rightarrow> link \<Rightarrow> string \<Rightarrow> 'k \<Rightarrow> go_error option \<times> 'k" where
  "delete_text nl l a k =
     (case cidr_parts a of
        Inl p \<Rightarrow> (Some p, k)
      | Inr (ip, netmask) \<Rightarrow>
          (let (e, k') = AddrDel nl (lk_name l) (snd (ValidateIPNetmask ip netmask)) k
           in (annotate (''Error while deleting address '' @ a @ '': '') e, k')))"

text \<open>
  \<open>PerformIpDel\<close>: deletes an address, adds the new one and puts back what the kernel removed along
  with the deleted one.
\<close>

definition PerformIpDel ::
  "('k, 'e) netlink_scheme \<Rightarrow> link \<Rightarrow> string \<Rightarrow> string \<Rightarrow> string \<Rightarrow> 'k \<Rightarrow> go_error option \<times> 'k" where
  "PerformIpDel nl l deletingAddr newAddr newNetmask k =
     (let before = GetIPAddressList nl k l in
      case (if deletingAddr = [] then (None, k)
            else if deletingAddr \<notin> set before then
              (Some (Err (''Address '' @ deletingAddr @ '' not found on interface '' @ lk_name l)), k)
            else delete_text nl l deletingAddr k) of
        (Some e, k1) \<Rightarrow> (Some e, k1)
      | (None, k1) \<Rightarrow>
          (case (if newAddr \<noteq> [] \<and> newNetmask \<noteq> [] then add_text nl l newAddr newAddr newNetmask k1
                 else (None, k1)) of
             (Some e, k2) \<Rightarrow> (Some e, k2)
           | (None, k2) \<Rightarrow>
               (let after = GetIPAddressList nl k2 l in
                add_back nl l
                  (filter (\<lambda>a. a \<notin> set after \<and> a \<noteq> deletingAddr) (range_order nl (remdups before))) k2)))"

fun delete_all ::
  "('k, 'e) netlink_scheme \<Rightarrow> link \<Rightarrow> addr list \<Rightarrow> 'k \<Rightarrow> go_error option \<times> 'k" where
  "delete_all nl l [] k = (None, k)"
| "delete_all nl l (a # as) k =
     (case AddrDel nl (lk_name l) (Some \<lparr>net_addr = ad_ip a, net_ones = ad_ones a, net_bits = 8 * length (ad_ip a)\<rparr>) k of
        (None, k') \<Rightarrow> delete_all nl l as k'
      | (Some e, k') \<Rightarrow>
          (annotate (''Error while deleting address '' @ ip_string (ad_ip a) @ '': '') (Some e), k'))"

definition PerformIpFlush :: "('k, 'e) netlink_scheme \<Rightarrow> string \<Rightarrow> 'k \<Rightarrow> go_error option \<times> 'k" where
  "PerformIpFlush nl name k =
     (case LinkByName nl k name of
        Inl e \<Rightarrow> (annotate ''Error while fetching link while addr flush: '' (Some e), k)
      | Inr l \<Rightarrow>
          (case AddrList nl k l FAMILY_ALL of
             Inl e \<Rightarrow> (annotate ''Error while fetching address list: '' (Some e), k)
           | Inr as \<Rightarrow> delete_all nl l as k))"

definition SetIP :: "('k, 'e) netlink_scheme \<Rightarrow> string \<Rightarrow> string \<Rightarrow> int \<Rightarrow> 'k \<Rightarrow> go_error option \<times> 'k" where
  "SetIP nl interfaceName ip netmask k =
     (case LinkByName nl k interfaceName of
        Inl e \<Rightarrow> (Some e, k)
      | Inr l \<Rightarrow>
          (case (if ip \<noteq> [] \<and> netmask \<noteq> 0 then add_text nl l ip ip (show_int netmask) k else (None, k)) of
             (Some e, k1) \<Rightarrow> (Some e, k1)
           | (None, k1) \<Rightarrow> LinkSetUp nl (lk_name l) k1))"

definition CheckIfIpAlreadyExists :: "('k, 'e) netlink_scheme \<Rightarrow> 'k \<Rightarrow> string \<Rightarrow> bool" where
  "CheckIfIpAlreadyExists nl k ip =
     (case LinkList nl k of
        Inl e \<Rightarrow> False
      | Inr ls \<Rightarrow> \<exists>l \<in> set ls. \<exists>a \<in> set (listed nl k l). ip_string (ad_ip a) = ip)"

subsection \<open>High availability\<close>

definition IsHaMonitored :: "string \<Rightarrow> ha \<Rightarrow> bool" where
  "IsHaMonitored intfName h \<longleftrightarrow> (\<exists>m \<in> set (ha_monitored h). mi_interface m = intfName)"

definition PRIMARY_STRING :: string where "PRIMARY_STRING = ''primary''"
definition BACKUP_STRING :: string where "BACKUP_STRING = ''backup''"

definition IsHaPrimary :: "ha \<Rightarrow> bool" where
  "IsHaPrimary h \<longleftrightarrow> to_lower (trim_space (ha_role h)) = PRIMARY_STRING"

definition IsHaBackup :: "ha \<Rightarrow> bool" where
  "IsHaBackup h \<longleftrightarrow> to_lower (trim_space (ha_role h)) = BACKUP_STRING"

definition IsHaDedicated :: "string \<Rightarrow> ha \<Rightarrow> bool" where
  "IsHaDedicated intfName h \<longleftrightarrow> ha_dedicated h = intfName"

definition FetchHaIps :: "string \<Rightarrow> ha \<Rightarrow> string \<times> string" where
  "FetchHaIps intfName h =
     (case find (\<lambda>m. mi_interface m = intfName) (ha_monitored h) of
        None \<Rightarrow> ([], []) | Some m \<Rightarrow> (mi_base m, mi_peer m))"

definition FetchInterfaceIpFromHaConfig :: "string \<Rightarrow> ha \<Rightarrow> string" where
  "FetchInterfaceIpFromHaConfig intfName h =
     (case find (\<lambda>m. mi_interface m = intfName) (ha_monitored h) of
        None \<Rightarrow> [] | Some m \<Rightarrow> mi_ip m)"

subsection \<open>Member lists\<close>

definition FindCommonMemberInterfaces :: "string list \<Rightarrow> string list \<Rightarrow> string \<times> bool" where
  "FindCommonMemberInterfaces arr1 arr2 =
     (case find (\<lambda>v. v \<noteq> [] \<and> v \<in> set arr1) arr2 of None \<Rightarrow> ([], False) | Some v \<Rightarrow> (v, True))"

text \<open>\<open>HasCommon\<close> with the names seen so far.\<close>

fun has_common_from :: "string list \<Rightarrow> string list \<Rightarrow> bool \<times> string" where
  "has_common_from seen [] = (False, [])"
| "has_common_from seen (s # ss) =
     (if s \<in> set seen then (True, s) else has_common_from (s # seen) ss)"

definition HasCommon :: "string list \<Rightarrow> bool \<times> string" where
  "HasCommon arr = has_common_from [] arr"

definition FetchAddRemoveFromList :: "string list \<Rightarrow> string list \<Rightarrow> string list \<times> string list" where
  "FetchAddRemoveFromList orig req =
     (filter (\<lambda>x. x \<notin> set orig) req, filter (\<lambda>x. x \<notin> set req) orig)"

text \<open>
  The master's name is part of the format string in the source; names from the kernel hold no
  percent sign.
\<close>

definition CheckIfMemberInterfaceHasMaster ::
  "('k, 'e) netlink_scheme \<Rightarrow> 'k \<Rightarrow> string \<Rightarrow> bool \<times> go_error option" where
  "CheckIfMemberInterfaceHasMaster nl k interfaceName =
     (case LinkByName nl k interfaceName of
        Inl e \<Rightarrow> (False, Some e)
      | Inr l \<Rightarrow>
          if lk_master l = 0 then (False, None)
          else
            (case LinkByIndex nl k (lk_master l) of
               Inl e \<Rightarrow> (False, Some e)
             | Inr m \<Rightarrow>
                 if lk_type m = BOND_STRING then
                   (True, Some (Err (''Interface '' @ interfaceName @ '' is already a slave of a bond - '' @ lk_name m)))
                 else if lk_type m = BRIDGE_STRING then
                   (True, Some (Err (''Interface '' @ interfaceName @ '' is already a member of bridge - '' @ lk_name m)))
                 else (False, None)))"

lemma has_common_iff:
  "fst (has_common_from seen xs) \<longleftrightarrow> \<not> distinct xs \<or> set xs \<inter> set seen \<noteq> {}"
  by (induction seen xs rule: has_common_from.induct) auto

lemma HasCommon_iff: "fst (HasCommon xs) \<longleftrightarrow> \<not> distinct xs"
  by (simp add: HasCommon_def has_common_iff)

lemma FindCommon_iff:
  "snd (FindCommonMemberInterfaces xs ys) \<longleftrightarrow> (\<exists>v \<in> set xs \<inter> set ys. v \<noteq> [])"
  by (auto simp: FindCommonMemberInterfaces_def find_None_iff find_Some_iff split: option.splits
      intro: nth_mem)

subsection \<open>Trimming a request\<close>

text \<open>
  \<open>TrimStringsInStruct\<close> walks over the fields of a struct by reflection: texts and lists of texts are
  trimmed, nested structs are walked, every other field (a list of structs, a number) is copied. One
  definition per struct the source passes to it.
\<close>

definition trim_v4 :: "ipv4_details \<Rightarrow> ipv4_details" where
  "trim_v4 d = d\<lparr>v4_mode := trim_space (v4_mode d), v4_address := trim_space (v4_address d),
     v4_netmask := trim_space (v4_netmask d), v4_gateway_detail := trim_space (v4_gateway_detail d),
     v4_gateway_name := trim_space (v4_gateway_name d), v4_gateway_ip := trim_space (v4_gateway_ip d)\<rparr>"

definition trim_v6 :: "ipv6_details \<Rightarrow> ipv6_details" where
  "trim_v6 d = d\<lparr>v6_mode := trim_space (v6_mode d), v6_address := trim_space (v6_address d),
     v6_prefix := trim_space (v6_prefix d), v6_gateway_detail := trim_space (v6_gateway_detail d),
     v6_gateway_name := trim_space (v6_gateway_name d), v6_gateway_ip := trim_space (v6_gateway_ip d)\<rparr>"

definition trim_fields :: "config_fields \<Rightarrow> config_fields" where
  "trim_fields f = f\<lparr>cf_serving := trim_space (cf_serving f), cf_domain := trim_space (cf_domain f),
     cf_zone := trim_space (cf_zone f)\<rparr>"

definition trim_physical :: "physical_request \<Rightarrow> physical_request" where
  "trim_physical r = r\<lparr>pr_v4 := trim_v4 (pr_v4 r), pr_v6 := trim_v6 (pr_v6 r),
     pr_hardware := trim_space (pr_hardware r), pr_fields := trim_fields (pr_fields r)\<rparr>"

definition trim_bridge :: "bridge_request \<Rightarrow> bridge_request" where
  "trim_bridge r = r\<lparr>br_name := trim_space (br_name r), br_user_name := trim_space (br_user_name r),
     br_hardware := trim_space (br_hardware r), br_description := trim_space (br_description r),
     br_members := map trim_space (br_members r), br_v4 := trim_v4 (br_v4 r), br_v6 := trim_v6 (br_v6 r),
     br_serving := trim_space (br_serving r), br_domain := trim_space (br_domain r),
     br_zone := trim_space (br_zone r)\<rparr>"

definition trim_bridge_update :: "bridge_update \<Rightarrow> bridge_update" where
  "trim_bridge_update r = r\<lparr>bu_members := map trim_space (bu_members r),
     bu_add := map trim_space (bu_add r), bu_remove := map trim_space (bu_remove r),
     bu_hardware := trim_space (bu_hardware r), bu_v4 := trim_v4 (bu_v4 r), bu_v6 := trim_v6 (bu_v6 r),
     bu_fields := trim_fields (bu_fields r)\<rparr>"

definition trim_vlan :: "vlan_request \<Rightarrow> vlan_request" where
  "trim_vlan r = r\<lparr>vr_name := trim_space (vr_name r), vr_parent := trim_space (vr_parent r),
     vr_v4 := trim_v4 (vr_v4 r), vr_v6 := trim_v6 (vr_v6 r), vr_serving := trim_space (vr_serving r),
     vr_domain := trim_space (vr_domain r), vr_zone := trim_space (vr_zone r)\<rparr>"

definition trim_vlan_update :: "vlan_update \<Rightarrow> vlan_update" where
  "trim_vlan_update r = r\<lparr>vu_v4 := trim_v4 (vu_v4 r), vu_v6 := trim_v6 (vu_v6 r),
     vu_fields := trim_fields (vu_fields r)\<rparr>"

definition trim_bond :: "bond_request \<Rightarrow> bond_request" where
  "trim_bond r = r\<lparr>bo_name := trim_space (bo_name r), bo_user_name := trim_space (bo_user_name r),
     bo_hardware := trim_space (bo_hardware r), bo_slaves := map trim_space (bo_slaves r),
     bo_mode := trim_space (bo_mode r), bo_v4 := trim_v4 (bo_v4 r), bo_v6 := trim_v6 (bo_v6 r),
     bo_serving := trim_space (bo_serving r), bo_domain := trim_space (bo_domain r),
     bo_zone := trim_space (bo_zone r)\<rparr>"

definition trim_bond_update :: "bond_update \<Rightarrow> bond_update" where
  "trim_bond_update r = r\<lparr>bou_slaves := map trim_space (bou_slaves r),
     bou_add := map trim_space (bou_add r), bou_remove := map trim_space (bou_remove r),
     bou_hardware := trim_space (bou_hardware r), bou_v4 := trim_v4 (bou_v4 r),
     bou_v6 := trim_v6 (bou_v6 r), bou_fields := trim_fields (bou_fields r)\<rparr>"

definition trim_route :: "route_request \<Rightarrow> route_request" where
  "trim_route r =
     (let q = rq_route r; a = st_ipv4 q; b = st_ipv6 q; m = st_multicast q in
      \<lparr>rq_operation = trim_space (rq_operation r),
       rq_route =
         \<lparr>st_ipv4 = a\<lparr>r4_destination := trim_space (r4_destination a), r4_netmask := trim_space (r4_netmask a),
                     r4_gateway := trim_space (r4_gateway a), r4_interface := trim_space (r4_interface a)\<rparr>,
          st_ipv6 = b\<lparr>r6_destination := trim_space (r6_destination b), r6_prefix := trim_space (r6_prefix b),
                     r6_gateway := trim_space (r6_gateway b), r6_interface := trim_space (r6_interface b)\<rparr>,
          st_multicast =
            m\<lparr>mr_source_ip := trim_space (mr_source_ip m), mr_source := trim_space (mr_source m),
              mr_group := trim_space (mr_group m), mr_destination := trim_space (mr_destination m)\<rparr>\<rparr>\<rparr>)"

definition trim_ha :: "ha_request \<Rightarrow> ha_request" where
  "trim_ha r = r\<lparr>hr_mode := trim_space (hr_mode r), hr_role := trim_space (hr_role r),
     hr_password := trim_space (hr_password r), hr_dedicated := trim_space (hr_dedicated r),
     hr_peer := trim_space (hr_peer r)\<rparr>"

end
