(* ===== verification/Interface_Validations.thy ===== *)
theory Interface_Validations
  imports Interface_Utils
begin

text \<open>
  \<open>validation/interface_validations/validations.go\<close>: the checks of the requests of the interface and
  routing API, one definition per function. A check is the error it reports or \<open>None\<close>; the early
  returns of a function are the list of its checks in their order, of which the first error counts.
\<close>

named_theorems validation_simps \<open>what it means that a validation reports nothing\<close>

fun first_error :: "go_error option list \<Rightarrow> go_error option" where
  "first_error [] = None"
| "first_error (None # es) = first_error es"
| "first_error (Some e # es) = Some e"

definition fails_if :: "bool \<Rightarrow> string \<Rightarrow> go_error option" where
  "fails_if bad msg = (if bad then Some (Err msg) else None)"

lemma first_error_None [validation_simps]: "first_error es = None \<longleftrightarrow> (\<forall>e \<in> set es. e = None)"
  by (induction es rule: first_error.induct) auto

lemma fails_if_None [validation_simps]: "fails_if b m = None \<longleftrightarrow> \<not> b"
  by (simp add: fails_if_def)

lemma annotate_None [simp, validation_simps]: "annotate m e = None \<longleftrightarrow> e = None"
  by (auto simp: annotate_def split: option.splits go_error.splits)

subsection \<open>Names\<close>

definition name_char :: "char \<Rightarrow> bool" where
  "name_char c \<longleftrightarrow>
     (let n = of_char c :: nat in
      is_digit c \<or> (65 \<le> n \<and> n \<le> 90) \<or> (97 \<le> n \<and> n \<le> 122) \<or> c = CHR ''_'')"

definition maxCharacters :: nat where "maxCharacters = 15"

definition name_prefix :: "string \<Rightarrow> string" where
  "name_prefix p = (if p = BRIDGE_STRING then ''BR_'' else if p = BOND_STRING then ''LAG_''
                    else if p = VLAN_STRING then ''VLAN_'' else p)"

definition ValidateInterfaceName :: "string \<Rightarrow> string \<Rightarrow> go_error option" where
  "ValidateInterfaceName name p =
     (let pre = name_prefix p in
      first_error
       [fails_if (name = []) ''Interface name is required'',
        fails_if (length name > maxCharacters)
          (''Interface name '' @ name @ '' exceeds the maximum allowed characters '' @ show_nat maxCharacters),
        fails_if (length name < length pre \<or> take (length pre) name \<noteq> pre)
          (''Interface name '' @ name @ '' does not start with the specified prefix '' @ pre),
        fails_if (\<not> list_all name_char (drop (length pre) name))
          (''Interface name '' @ name @ '' contains invalid characters, only [A-Za-z0-9_] are allowed'')])"

subsection \<open>Parts of a request\<close>

definition validateHardwareAddress :: "string \<Rightarrow> go_error option" where
  "validateHardwareAddress hwAddr =
     (if trim_space hwAddr \<noteq> [] then
        (case ValidateAndGetHardwareAddress hwAddr of
           Inl e \<Rightarrow> annotate ''Invalid hardware address: '' (Some e)
         | Inr hw \<Rightarrow> None)
      else None)"

definition validateIPv4Details :: "ipv4_details \<Rightarrow> go_error option" where
  "validateIPv4Details d =
     (if \<not> v4_on d then None
      else if \<not> StringOfTypeStaticOrDhcp (v4_mode d) then
        Some (Err (''Invalid IPv4 assignment mode: '' @ v4_mode d))
      else if v4_mode d = STATIC_STRING then
        first_error
         [fails_if (v4_address d = []) ''IP address is required for static assignment mode'',
          (case ValidateIP (v4_address d) of
             (validated, ipversion) \<Rightarrow>
               if \<not> validated then Some (Err ''Invalid IP address format'')
               else fails_if (ipversion \<noteq> IPV4_STRING) ''Expecting Ipv4 protocol version''),
          fails_if (v4_netmask d = []) ''Netmask is required for static assignment mode'',
          fails_if (\<not> fst (ValidateIPNetmask (v4_address d) (v4_netmask d))) ''Invalid Ip address/netmask'']
      else None)"

definition validateIPv6Details :: "ipv6_details \<Rightarrow> go_error option" where
  "validateIPv6Details d =
     (if \<not> v6_on d then None
      else if \<not> StringOfTypeStaticOrDhcp (v6_mode d) then
        Some (Err (''Invalid IPv6 assignment mode: '' @ v6_mode d))
      else if v6_mode d = STATIC_STRING then
        first_error
         [fails_if (v6_address d = []) ''IP address is required for static assignment mode'',
          (case ValidateIP (v6_address d) of
             (validated, ipversion) \<Rightarrow>
               if \<not> validated then Some (Err ''Invalid IP address format'')
               else fails_if (ipversion \<noteq> IPV6_STRING) ''Expecting Ipv6 protocol version''),
          fails_if (v6_prefix d = []) ''Prefix is required for ipv6 static assignment mode'',
          fails_if (\<not> fst (ValidateIPNetmask (v6_address d) (v6_prefix d))) ''Invalid Ip address/netmask'']
      else None)"

definition validateBondMode :: "('k, 'e) netlink_scheme \<Rightarrow> string \<Rightarrow> go_error option" where
  "validateBondMode nl mode =
     first_error
      [fails_if (mode = []) ''Bond mode cannot be empty'',
       fails_if (mode \<noteq> ''active-backup'' \<and> mode \<noteq> ''802.3ad'')
         (''Invalid bond mode: '' @ mode @ '' , Possible modes are: active-backup, 802.3ad''),
       fails_if (mode \<noteq> [] \<and> \<not> BondModeKnown nl mode) (''Invalid bond mode: '' @ mode)]"

definition validateMTUDetails :: "int \<Rightarrow> go_error option" where
  "validateMTUDetails mtu = (if mtu \<noteq> 0 then annotate ''Invalid MTU: '' (ValidateMTU mtu) else None)"

definition validateMSSDetails :: "mss_details \<Rightarrow> go_error option" where
  "validateMSSDetails d =
     (if mss_override d \<and> mss_value d \<noteq> 0 then annotate ''Invalid MSS: '' (ValidateMSS (mss_value d)) else None)"

definition validateStpDetails :: "stp_details \<Rightarrow> go_error option" where
  "validateStpDetails d =
     (if stp_on d \<and> stp_max_age d \<noteq> 0 then
        annotate ''Invalid range for STP Max Age: '' (ValidateStpMaxAge (stp_max_age d))
      else None)"

definition isValidNetworkZone :: "string \<Rightarrow> go_error option" where
  "isValidNetworkZone zone =
     (if zone = [] then Some (Err ''Network zone cannot be empty'')
      else fails_if (to_lower zone \<notin> {''lan'', ''wan'', ''dmz''}) (''Invalid network zone: '' @ zone))"

subsection \<open>Physical interfaces and bridges\<close>

definition ValidateUpdatePhysicalInterfaceRequest ::
  "('k, 'e) netlink_scheme \<Rightarrow> 'k \<Rightarrow> physical_request \<Rightarrow> string \<Rightarrow> go_error option" where
  "ValidateUpdatePhysicalInterfaceRequest nl k r intfName =
     first_error
      [validateHardwareAddress (pr_hardware r),
       (case LinkByName nl k intfName of
          Inl e \<Rightarrow> Some (Err (''Physical interface '' @ intfName @ '' not found'')) | Inr l \<Rightarrow> None),
       validateIPv4Details (pr_v4 r),
       validateIPv6Details (pr_v6 r),
       validateMTUDetails (pr_mtu r),
       isValidNetworkZone (cf_zone (pr_fields r))]"

text \<open>One member of a new bridge; an empty name is skipped.\<close>

definition bridge_member :: "('k, 'e) netlink_scheme \<Rightarrow> 'k \<Rightarrow> string \<Rightarrow> go_error option" where
  "bridge_member nl k memIntf =
     (let name = trim_space memIntf in
      if name = [] then None
      else
        (case LinkByName nl k name of
           Inl e \<Rightarrow> Some (Err (''Member interface '' @ name @ '' not found''))
         | Inr l \<Rightarrow> fails_if (lk_type l \<noteq> DEVICE)
                      (''Member interface '' @ name @ '' is not a physical interface'')))"

definition ValidateCreateBridgeRequest ::
  "('k, 'e) netlink_scheme \<Rightarrow> 'k \<Rightarrow> bridge_request \<Rightarrow> go_error option" where
  "ValidateCreateBridgeRequest nl k r =
     first_error
      ([fails_if (length (br_members r) < 2) ''Atleast 2 member interfaces are required to create a bridge'',
        (let (hasCommon, name) = HasCommon (br_members r) in
         fails_if hasCommon
           (''Cannot add the same interface '' @ name @ '' to the bridge multiple times''))]
       @ map (bridge_member nl k) (br_members r)
       @ [validateHardwareAddress (br_hardware r), validateIPv4Details (br_v4 r),
          validateIPv6Details (br_v6 r), validateMTUDetails (br_mtu r), validateMSSDetails (br_mss r),
          validateStpDetails (br_stp r), isValidNetworkZone (br_zone r)])"

text \<open>A link to add; a master that cannot be looked up is only reported on the console.\<close>

definition bridge_addition :: "('k, 'e) netlink_scheme \<Rightarrow> 'k \<Rightarrow> string \<Rightarrow> string \<Rightarrow> go_error option" where
  "bridge_addition nl k bridge name =
     (if name = [] then None
      else
        (case LinkByName nl k name of
           Inl e \<Rightarrow> Some (Err (''Member interface to add '' @ name @ '' not found''))
         | Inr l \<Rightarrow>
             if lk_type l \<noteq> DEVICE then
               Some (Err (''Member Interface '' @ name @ '' to add is not a physical interface''))
             else
               (case LinkByIndex nl k (lk_master l) of
                  Inl e \<Rightarrow> None
                | Inr m \<Rightarrow>
                    if lk_master l \<noteq> 0 \<and> lk_type m = BRIDGE_STRING \<and> lk_name m = bridge then
                      Some (Err (''Interface '' @ name @ '' is already a member interface of bridge '' @ lk_name m @ ''. ''))
                    else if lk_master l \<noteq> 0 \<and> lk_type m = BRIDGE_STRING then
                      Some (Err (''Interface '' @ name @ '' is already a member interface of bridge '' @ lk_name m
                                 @ ''. Please remove from there first to add it here. ''))
                    else fails_if (lk_master l \<noteq> 0 \<and> lk_type m = BOND_STRING)
                      (''Interface '' @ name @ '' is a slave of bond '' @ lk_name m @ ''. Please unslave from there first.''))))"

definition bridge_removal ::
  "('k, 'e) netlink_scheme \<Rightarrow> 'k \<Rightarrow> link \<Rightarrow> string \<Rightarrow> string \<Rightarrow> go_error option" where
  "bridge_removal nl k bridgeLink bridge name =
     (if name = [] then None
      else
        (case LinkByName nl k name of
           Inl e \<Rightarrow> Some (Err (''Interface to remove '' @ name @ '' not found''))
         | Inr l \<Rightarrow> fails_if (lk_master l \<noteq> lk_index bridgeLink)
             (''Interface '' @ name @ '' is not a member interface of the specified bridge '' @ bridge)))"

definition ValidateUpdateBridgeRequest ::
  "('k, 'e) netlink_scheme \<Rightarrow> 'k \<Rightarrow> bridge_update \<Rightarrow> string \<Rightarrow> go_error option" where
  "ValidateUpdateBridgeRequest nl k r bridge =
     first_error
      ([(let (name, haveCommon) = FindCommonMemberInterfaces (bu_add r) (bu_remove r) in
         fails_if haveCommon (''Cannot add and remove the same interface '' @ name @ '' to the bridge at the same time.''))]
       @ map (bridge_addition nl k bridge) (bu_add r)
       @ (case LinkByName nl k bridge of
            Inl e \<Rightarrow> [Some (Err (''Bridge interface '' @ bridge @ '' not found''))]
          | Inr b \<Rightarrow> map (bridge_removal nl k b bridge) (bu_remove r))
       @ [validateHardwareAddress (bu_hardware r), validateIPv4Details (bu_v4 r),
          validateIPv6Details (bu_v6 r), validateMTUDetails (bu_mtu r), validateMSSDetails (bu_mss r),
          validateStpDetails (bu_stp r), isValidNetworkZone (cf_zone (bu_fields r))])"

subsection \<open>Vlans\<close>

definition ValidateCreateVlanRequest ::
  "('k, 'e) netlink_scheme \<Rightarrow> 'k \<Rightarrow> vlan_request \<Rightarrow> go_error option" where
  "ValidateCreateVlanRequest nl k r =
     first_error
      [ValidateVlanId (vr_id r),
       fails_if (vr_name r = []) ''Vlan interface name is required'',
       fails_if (vr_parent r = []) ''Parent interface name is required'',
       (case LinkByName nl k (vr_name r) of
          Inl e \<Rightarrow> None | Inr l \<Rightarrow> Some (Err (''Vlan interface '' @ vr_name r @ '' already exists''))),
       (case LinkByName nl k (vr_parent r) of
          Inl e \<Rightarrow> Some (Err (''Parent interface '' @ vr_parent r @ '' not found'')) | Inr l \<Rightarrow> None),
       validateIPv4Details (vr_v4 r),
       validateIPv6Details (vr_v6 r),
       fails_if (v4_on (vr_v4 r) \<and> \<not> StringOfTypeStaticOrDhcp (v4_mode (vr_v4 r)))
         (''Invalid IPv4 assignment mode: '' @ v4_mode (vr_v4 r) @ '', only static & dhcp are allowed in this mode.''),
       fails_if (v6_on (vr_v6 r) \<and> \<not> StringOfTypeStaticOrDhcp (v6_mode (vr_v6 r)))
         (''Invalid IPv6 assignment mode: '' @ v6_mode (vr_v6 r) @ '', only static & dhcp are allowed in this mode.''),
       isValidNetworkZone (vr_zone r)]"

definition ValidateUpdateVlanRequest :: "vlan_update \<Rightarrow> go_error option" where
  "ValidateUpdateVlanRequest r =
     first_error [validateIPv4Details (vu_v4 r), validateIPv6Details (vu_v6 r),
                  isValidNetworkZone (cf_zone (vu_fields r))]"

subsection \<open>Bonds\<close>

definition bond_slave :: "('k, 'e) netlink_scheme \<Rightarrow> 'k \<Rightarrow> string \<Rightarrow> go_error option" where
  "bond_slave nl k memIntf =
     (let name = trim_space memIntf in
      if name = [] then Some (Err ''Slave interface name cannot be empty'')
      else
        (case LinkByName nl k name of
           Inl e \<Rightarrow> Some (Err (''Interface '' @ name @ '' not found''))
         | Inr l \<Rightarrow>
             first_error
              [fails_if (lk_type l \<noteq> DEVICE) (''Interface '' @ name @ '' is not a physical interface''),
               fails_if (lk_oper l = LINK_STATE_UP)
                 (''Slave Interface '' @ name @ '' is up, please bring it down first'')]))"

definition ValidateCreateBondRequest ::
  "('k, 'e) netlink_scheme \<Rightarrow> 'k \<Rightarrow> bond_request \<Rightarrow> go_error option" where
  "ValidateCreateBondRequest nl k r =
     first_error
      ([fails_if (length (bo_slaves r) < 2) ''Atleast 2 slave interfaces are required to create a bond'',
        (let (hasCommon, name) = HasCommon (bo_slaves r) in
         fails_if hasCommon (''Cannot add the same interface '' @ name @ '' to the bond multiple times''))]
       @ map (bond_slave nl k) (bo_slaves r)
       @ [validateBondMode nl (bo_mode r), validateHardwareAddress (bo_hardware r),
          validateIPv4Details (bo_v4 r), validateMTUDetails (bo_mtu r), validateMSSDetails (bo_mss r),
          isValidNetworkZone (bo_zone r)])"

definition bond_addition :: "('k, 'e) netlink_scheme \<Rightarrow> 'k \<Rightarrow> string \<Rightarrow> string \<Rightarrow> go_error option" where
  "bond_addition nl k bond name =
     (if name = [] then Some (Err ''Slave interface name cannot be empty'')
      else
        (case LinkByName nl k name of
           Inl e \<Rightarrow> Some (Err (''Member interface to add '' @ name @ '' not found''))
         | Inr l \<Rightarrow>
             first_error
              [fails_if (lk_type l \<noteq> DEVICE) (''Interface '' @ name @ '' is not a physical interface''),
               (case LinkByIndex nl k (lk_master l) of
                  Inl e \<Rightarrow> None
                | Inr m \<Rightarrow>
                    if lk_master l \<noteq> 0 \<and> lk_type m = BOND_STRING \<and> lk_name m = bond then
                      Some (Err (''Interface '' @ name @ '' is already a slave interface of bond '' @ lk_name m @ ''. ''))
                    else if lk_master l \<noteq> 0 \<and> lk_type m = BOND_STRING then
                      Some (Err (''Interface '' @ name @ '' is already a slave interface of bond '' @ lk_name m
                                 @ ''. Please unslave from there first. ''))
                    else fails_if (lk_master l \<noteq> 0 \<and> lk_type m = BRIDGE_STRING)
                      (''Interface '' @ name @ '' is a member of bridge '' @ lk_name m
                       @ ''. Please remove from there first.'')),
               fails_if (lk_oper l = LINK_STATE_UP)
                 (''Slave Interface '' @ name @ '' is already up, Please bring it down first'')]))"

definition bond_removal ::
  "('k, 'e) netlink_scheme \<Rightarrow> 'k \<Rightarrow> link \<Rightarrow> string \<Rightarrow> string \<Rightarrow> go_error option" where
  "bond_removal nl k bondLink bond name =
     (if name = [] then Some (Err ''Slave interface name to be removed cannot be empty'')
      else
        (case LinkByName nl k name of
           Inl e \<Rightarrow> Some (Err (''Interface to remove '' @ name @ '' not found''))
         | Inr l \<Rightarrow> fails_if (lk_master l \<noteq> lk_index bondLink)
             (''Interface '' @ name @ '' is not a slave of the specified bond '' @ bond)))"

definition ValidateUpdateBondRequest ::
  "('k, 'e) netlink_scheme \<Rightarrow> 'k \<Rightarrow> bond_update \<Rightarrow> string \<Rightarrow> go_error option" where
  "ValidateUpdateBondRequest nl k r bond =
     first_error
      ([(let (name, haveCommon) = FindCommonMemberInterfaces (bou_add r) (bou_remove r) in
         fails_if haveCommon (''Cannot add and remove the same interface '' @ name @ '' to the bond at the same time.''))]
       @ map (bond_addition nl k bond) (bou_add r)
       @ (case LinkByName nl k bond of
            Inl e \<Rightarrow> [Some (Err (''Bond interface '' @ bond @ '' not found''))]
          | Inr b \<Rightarrow> map (bond_removal nl k b bond) (bou_remove r))
       @ [validateIPv4Details (bou_v4 r), validateIPv6Details (bou_v6 r),
          validateHardwareAddress (bou_hardware r), validateMTUDetails (bou_mtu r),
          isValidNetworkZone (cf_zone (bou_fields r))])"

subsection \<open>What an accepted request satisfies\<close>

lemma validateIPv4Details_None:
  "validateIPv4Details d = None \<longleftrightarrow>
     (v4_on d \<longrightarrow> v4_mode d = DHCP_STRING \<or>
        v4_mode d = STATIC_STRING \<and> To4 (ParseIP (v4_address d)) \<noteq> [] \<and> v4_netmask d \<noteq> []
        \<and> fst (ValidateIPNetmask (v4_address d) (v4_netmask d)))"
proof -
  have [simp]: "ParseIP [] = []" "To4 [] = []"
    by (simp_all add: ParseIP_def parse_addr_def To4_def v4_in_v6_def)
  show ?thesis
    by (auto simp: validateIPv4Details_def StringOfTypeStaticOrDhcp_def validation_simps ValidateIP_def
        STATIC_STRING_def DHCP_STRING_def IPV4_STRING_def IPV6_STRING_def Let_def split: if_splits)
qed

lemma ValidateIPNetmask_some:
  assumes "ValidateIPNetmask ip m = (True, r)"
  obtains ones bits where "parse_cidr_mask (ip @ ''/'' @ m) = Some (ones, bits)" "ParseIP ip \<noteq> []"
    "r = Some \<lparr>net_addr = ParseIP ip, net_ones = ones, net_bits = bits\<rparr>"
  using assms by (auto simp: ValidateIPNetmask_def Let_def split: if_splits option.splits)

lemma parse_cidr_mask_bound:
  "parse_cidr_mask s = Some (n, bits) \<Longrightarrow> n \<le> bits \<and> (bits = 32 \<or> bits = 128)"
  by (auto simp: parse_cidr_mask_def parse_addr_def Let_def split: if_splits option.splits)

lemma first_error_append:
  "first_error (xs @ ys) = (case first_error xs of None \<Rightarrow> first_error ys | Some e \<Rightarrow> Some e)"
  by (induction xs rule: first_error.induct) auto

text \<open>The members of an accepted bridge, with nothing trimmed away.\<close>

lemma accepted_bridge_members:
  assumes "ValidateCreateBridgeRequest nl k r = None" "m \<in> set (br_members r)" "trim_space m \<noteq> []"
  obtains l where "LinkByName nl k (trim_space m) = Inr l" "lk_type l = DEVICE"
proof -
  have "bridge_member nl k m = None"
    using assms(1,2) by (simp add: ValidateCreateBridgeRequest_def validation_simps)
  with assms(3) that show thesis
    by (auto simp: bridge_member_def Let_def validation_simps split: sum.splits)
qed

lemma accepted_bond_slaves:
  assumes "ValidateCreateBondRequest nl k r = None" "m \<in> set (bo_slaves r)"
  obtains l where "LinkByName nl k (trim_space m) = Inr l" "lk_type l = DEVICE" "lk_oper l \<noteq> LINK_STATE_UP"
proof -
  have "bond_slave nl k m = None"
    using assms(1,2) by (simp add: ValidateCreateBondRequest_def validation_simps)
  with that show thesis
    by (auto simp: bond_slave_def Let_def validation_simps split: sum.splits if_splits)
qed

end
