(* ===== verification/Routing_Validations.thy ===== *)
theory Routing_Validations
  imports Interface_Validations
begin

text \<open>
  The checks of routes, BGP and OSPF settings in
  \<open>validation/interface_validations/validations.go\<close>.
\<close>

definition is_ipv4 :: "ipnet option \<Rightarrow> bool" where
  "is_ipv4 r = (case r of None \<Rightarrow> False | Some n \<Rightarrow> To4 (net_addr n) \<noteq> [])"

definition known_link :: "('k, 'e) netlink_scheme \<Rightarrow> 'k \<Rightarrow> string \<Rightarrow> bool" where
  "known_link nl k name = (case LinkByName nl k name of Inl e \<Rightarrow> False | Inr l \<Rightarrow> True)"

definition validate_ipv4_route :: "('k, 'e) netlink_scheme \<Rightarrow> 'k \<Rightarrow> ipv4_route \<Rightarrow> go_error option" where
  "validate_ipv4_route nl k r =
     first_error
      [fails_if (r4_interface r = []) ''Interface name is required'',
       fails_if (\<not> known_link nl k (r4_interface r)) (''Interface '' @ r4_interface r @ '' not found''),
       fails_if (r4_destination r = []) ''Destination IP is required'',
       fails_if (r4_netmask r = []) ''Netmask is required'',
       (case ValidateIPNetmask (r4_destination r) (r4_netmask r) of
          (validated, ipnet) \<Rightarrow>
            if \<not> validated then Some (Err ''Invalid destination IP/netmask'')
            else fails_if (\<not> is_ipv4 ipnet) ''Invalid destination IP, expecting an IPv4 address''),
       fails_if (r4_gateway r \<noteq> [] \<and> \<not> fst (ValidateIP (r4_gateway r))) ''Invalid gateway IP'',
       fails_if (r4_metric r < 0 \<or> r4_metric r > 255) ''Invalid metric value, possible range is (0-255)'',
       fails_if (r4_distance r \<noteq> 0 \<and> (r4_distance r < 1 \<or> r4_distance r > 255))
         ''Invalid administrative distance value, possible range is (1-255)'']"

definition validate_ipv6_route :: "('k, 'e) netlink_scheme \<Rightarrow> 'k \<Rightarrow> ipv6_route \<Rightarrow> go_error option" where
  "validate_ipv6_route nl k r =
     first_error
      [fails_if (r6_interface r = []) ''Interface name is required'',
       fails_if (\<not> known_link nl k (r6_interface r)) (''Interface '' @ r6_interface r @ '' not found''),
       fails_if (r6_destination r = []) ''Destination IP is required'',
       fails_if (r6_prefix r = []) ''Prefix is required'',
       (case ValidateIPNetmask (r6_destination r) (r6_prefix r) of
          (validated, ipnet) \<Rightarrow>
            if \<not> validated then Some (Err ''Invalid destination IP/prefix'')
            else fails_if (is_ipv4 ipnet) ''Invalid destination IP, expecting an IPv6 address''),
       fails_if (r6_gateway r \<noteq> [] \<and> \<not> fst (ValidateIP (r6_gateway r))) ''Invalid gateway IP'',
       fails_if (r6_metric r < 1 \<or> r6_metric r > 255) ''Invalid metric value, possible range is (1-255)'']"

definition validate_multicast_route ::
  "('k, 'e) netlink_scheme \<Rightarrow> 'k \<Rightarrow> multicast_route \<Rightarrow> go_error option" where
  "validate_multicast_route nl k r =
     first_error
      [fails_if (mr_source r = [] \<or> mr_destination r = [] \<or> mr_source_ip r = [] \<or> mr_group r = [])
         ''All fields are mandatory'',
       fails_if (mr_source r = mr_destination r) ''Source and destination interface cannot be same'',
       fails_if (\<not> known_link nl k (mr_source r)) (''Source interface '' @ mr_source r @ '' not found''),
       fails_if (\<not> known_link nl k (mr_destination r))
         (''Destination interface '' @ mr_destination r @ '' not found''),
       fails_if (\<not> fst (ValidateIP (mr_source_ip r))) ''Invalid source IP'',
       (case ValidateIP (mr_group r) of
          (validated, addrType) \<Rightarrow>
            if \<not> validated then Some (Err ''Invalid multicast group IP'')
            else fails_if (addrType \<noteq> IPV4_STRING) ''Invalid multicast IP, expecting an IPv4 address''),
       fails_if (\<not> IsMulticastIPv4 (mr_group r))
         ''Invalid multicast IP, multicast IP range is (224.0.0.0 - 239.255.255.255)'']"

text \<open>An operation of another name passes.\<close>

definition ValidateCreateStaticRouteRequest ::
  "('k, 'e) netlink_scheme \<Rightarrow> 'k \<Rightarrow> route_request \<Rightarrow> go_error option" where
  "ValidateCreateStaticRouteRequest nl k req =
     (if rq_operation req = Type_IPV4_UNICAST then validate_ipv4_route nl k (st_ipv4 (rq_route req))
      else if rq_operation req = Type_IPV6_UNICAST then validate_ipv6_route nl k (st_ipv6 (rq_route req))
      else if rq_operation req = Type_MULTICAST then
        validate_multicast_route nl k (st_multicast (rq_route req))
      else None)"

subsection \<open>BGP\<close>

definition validateAs :: "string \<Rightarrow> bool" where
  "validateAs as = (case atoi as of None \<Rightarrow> False | Some n \<Rightarrow> \<not> (n < 1 \<or> n > 4294967295))"

definition validate_neighbor :: "neighbor \<Rightarrow> go_error option" where
  "validate_neighbor n =
     first_error
      [fails_if (to_lower (nb_version n) \<noteq> IPV4_STRING \<and> to_lower (nb_version n) \<noteq> IPV6_STRING)
         (''Invalid IP version: '' @ nb_version n),
       fails_if (nb_address n = []) ''IP address is required'',
       (case ValidateIP (nb_address n) of
          (validated, ipver) \<Rightarrow>
            if \<not> validated then Some (Err ''Invalid IP address'')
            else if to_lower (nb_version n) = IPV4_STRING \<and> ipver \<noteq> IPV4_STRING then
              Some (Err ''Invalid IP address, expecting an IPv4 address'')
            else fails_if (to_lower (nb_version n) = IPV6_STRING \<and> ipver \<noteq> IPV6_STRING)
              ''Invalid IP address, expecting an IPv6 address''),
       fails_if (\<not> validateAs (nb_as n))
         (''Invalid remote AS: '' @ nb_as n @ '', possible range is (1-4294967295)'')]"

text \<open>An IPv4 address has a 16 byte form too: the last check of a network never fails.\<close>

definition validate_network :: "network \<Rightarrow> go_error option" where
  "validate_network n =
     first_error
      [fails_if (nw_address n = []) ''IP address is required'',
       fails_if (to_lower (nw_version n) \<noteq> IPV4_STRING \<and> to_lower (nw_version n) \<noteq> IPV6_STRING)
         (''Invalid IP version: '' @ nw_version n),
       fails_if (nw_netmask n = []) ''Netmask/Prefix is required'',
       (case ValidateIPNetmask (nw_address n) (nw_netmask n) of
          (True, Some ip) \<Rightarrow>
            if to_lower (nw_version n) = IPV4_STRING \<and> To4 (net_addr ip) = [] then
              Some (Err ''Invalid IP address, expecting an IPv4 address'')
            else fails_if (to_lower (nw_version n) = IPV6_STRING \<and> To16 (net_addr ip) = [])
              ''Invalid IP address, expecting an IPv6 address''
        | _ \<Rightarrow> Some (Err ''Invalid IP address/netmask''))]"

definition ValidateCreateBgpRequest :: "bgp_request \<Rightarrow> go_error option" where
  "ValidateCreateBgpRequest req =
     (if bq_operation req = Type_NEIGHBOR then validate_neighbor (bq_neighbor req)
      else if bq_operation req = Type_NETWORK then validate_network (bq_network req)
      else None)"

definition validateRouterIdAssignmentMode :: "string \<Rightarrow> bool" where
  "validateRouterIdAssignmentMode mode =
     (\<not> (to_lower mode \<noteq> ''automatic'' \<and> to_lower mode \<noteq> ''manual''))"

text \<open>The router id of BGP and, when there is one, of OSPF.\<close>

definition validate_router_id :: "string \<Rightarrow> go_error option" where
  "validate_router_id rid =
     (case ValidateIP rid of
        (validated, addrType) \<Rightarrow>
          if \<not> validated then Some (Err ''Invalid router id'')
          else fails_if (addrType \<noteq> IPV4_STRING) ''Invalid router id, expecting an IPv4 address'')"

definition ValidateBgpGlobalConfig :: "bgp_global \<Rightarrow> go_error option" where
  "ValidateBgpGlobalConfig req =
     first_error
      [fails_if (bg_as req = []) ''Local AS is required'',
       fails_if (\<not> validateAs (bg_as req))
         (''Invalid local AS: '' @ bg_as req @ '', possible range is (1-4294967295)''),
       fails_if (\<not> validateRouterIdAssignmentMode (bg_assignment req))
         (''Invalid router id assignment mode: '' @ bg_assignment req),
       validate_router_id (bg_router req)]"

subsection \<open>OSPF\<close>

definition validateOspfAreaType :: "string \<Rightarrow> bool" where
  "validateOspfAreaType t =
     (\<not> (t \<noteq> ''normal'' \<and> t \<noteq> ''stub'' \<and> t \<noteq> ''nssa'' \<and> t \<noteq> ''stub no-summary'' \<and> t \<noteq> ''nssa no-summary''))"

definition validateOspfAuthentication :: "string \<Rightarrow> bool" where
  "validateOspfAuthentication a = (\<not> (a \<noteq> ''text'' \<and> a \<noteq> ''md5''))"

definition validate_ospf_network :: "ospf_network \<Rightarrow> go_error option" where
  "validate_ospf_network n =
     first_error
      [fails_if (on_address n = []) ''IP address is required'',
       fails_if (on_netmask n = []) ''Netmask is required'',
       (case ValidateIPNetmask (on_address n) (on_netmask n) of
          (validated, ipnet) \<Rightarrow>
            if \<not> validated then Some (Err ''Invalid IP address/netmask'')
            else fails_if (\<not> is_ipv4 ipnet) ''Invalid IP address, expecting an IPv4 address''),
       fails_if (on_area n = []) ''Area is required'',
       fails_if (\<not> fst (ValidateIP (on_area n))) ''Invalid area'']"

definition validate_ospf_area :: "ospf_area \<Rightarrow> go_error option" where
  "validate_ospf_area a =
     (let areaType = to_lower (oa_type a); authentication = to_lower (oa_authentication a) in
      first_error
       [fails_if (oa_area a = []) ''Area is required'',
        fails_if (\<not> fst (ValidateIP (oa_area a))) ''Invalid area'',
        fails_if (areaType = [] \<and> authentication = []) ''Either area type or authentication is required'',
        fails_if (areaType \<noteq> [] \<and> \<not> validateOspfAreaType areaType) (''Invalid area type: '' @ areaType),
        fails_if (authentication \<noteq> [] \<and> \<not> validateOspfAuthentication authentication)
          (''Invalid authentication: '' @ authentication),
        fails_if (areaType = ''normal'' \<and> authentication = [] \<and> oa_links a = [])
          ''Virtual links or Authentication is required in case of area type is normal'',
        (if areaType \<noteq> [] \<and> areaType \<noteq> ''normal'' \<and> oa_cost a \<noteq> [] then
           (case atoi (oa_cost a) of
              None \<Rightarrow> Some (Err (''Invalid area cost: '' @ oa_cost a))
            | Some c \<Rightarrow> fails_if (c < 0 \<or> c > 16777214) ''Invalid area cost, possible range is (0-16777214)'')
         else None)])"

definition ValidateCreateOspfRequest :: "ospf_request \<Rightarrow> go_error option" where
  "ValidateCreateOspfRequest req =
     (if oq_operation req = Type_NETWORK then validate_ospf_network (oq_network req)
      else if oq_operation req = Type_AREA then validate_ospf_area (oq_area req)
      else None)"

definition validateOspfv3AreaType :: "string \<Rightarrow> bool" where
  "validateOspfv3AreaType t =
     (\<not> (t \<noteq> ''stub'' \<and> t \<noteq> ''nssa'' \<and> t \<noteq> ''stub no-summary'' \<and> t \<noteq> ''nssa no-summary''))"

text \<open>Zero stands for an interval that was not given.\<close>

definition out_of_range :: "int \<Rightarrow> int \<Rightarrow> bool" where
  "out_of_range n hi \<longleftrightarrow> n \<noteq> 0 \<and> (n < 1 \<or> n > hi)"

definition validate_ospf_interface ::
  "('k, 'e) netlink_scheme \<Rightarrow> 'k \<Rightarrow> ospf_interface \<Rightarrow> go_error option" where
  "validate_ospf_interface nl k i =
     first_error
      [fails_if (oi_name i = []) ''Interface name is required'',
       fails_if (\<not> known_link nl k (oi_name i)) (''Interface '' @ oi_name i @ '' not found''),
       fails_if (oi_area i = []) ''Area is required'',
       fails_if (\<not> fst (ValidateIP (oi_area i))) ''Invalid area'',
       fails_if (out_of_range (oi_hello i) 65535) ''Invalid hello interval, possible range is (1-65535)'',
       fails_if (out_of_range (oi_dead i) 65535) ''Invalid dead interval, possible range is (1-65535)'',
       fails_if (out_of_range (oi_retransmit i) 65535) ''Invalid retransmit interval, possible range is (1-65535)'',
       fails_if (out_of_range (oi_delay i) 3600) ''Invalid transmit delay, possible range is (1-3600)'',
       fails_if (out_of_range (oi_cost i) 65535) ''Invalid interface cost, possible range is (1-65535)'',
       fails_if (oi_instance i < 0 \<or> oi_instance i > 255) ''Invalid instance id, possible range is (0-255)'',
       fails_if (oi_priority i < 0 \<or> oi_priority i > 255) ''Invalid priority, possible range is (0-255)'']"

definition ValidateCreateOspfv3Request ::
  "('k, 'e) netlink_scheme \<Rightarrow> 'k \<Rightarrow> ospfv3_request \<Rightarrow> go_error option" where
  "ValidateCreateOspfv3Request nl k req =
     (if o3_operation req = Type_INTERFACE then validate_ospf_interface nl k (o3_interface req)
      else if o3_operation req = Type_AREA then
        (let a = o3_area_of req; areaType = to_lower (o3_type a) in
         first_error
          [fails_if (o3_area a = []) ''Area is required'',
           fails_if (\<not> fst (ValidateIP (o3_area a))) ''Invalid area'',
           fails_if (areaType = []) ''Area type is required'',
           fails_if (\<not> validateOspfv3AreaType areaType) (''Invalid area type: '' @ areaType)])
      else None)"

definition validateAbrType :: "string \<Rightarrow> bool" where
  "validateAbrType t =
     (let a = to_lower t in \<not> (a \<noteq> ''cisco'' \<and> a \<noteq> ''standard'' \<and> a \<noteq> ''ibm'' \<and> a \<noteq> ''shortcut''))"

definition validateDefaultMetric :: "string \<Rightarrow> bool" where
  "validateDefaultMetric m = (case atoi m of None \<Rightarrow> False | Some n \<Rightarrow> \<not> (n < 0 \<or> n > 16777214))"

definition validateMetricDetails :: "metric_details \<Rightarrow> bool" where
  "validateMetricDetails d =
     (let t = to_lower (md_type d) in
      if t \<noteq> ''external type 1'' \<and> t \<noteq> ''external type 2'' then False
      else if md_metric d \<noteq> [] then
        (case atoi (md_metric d) of None \<Rightarrow> False | Some n \<Rightarrow> \<not> (n < 0 \<or> n > 16777214))
      else True)"

definition validateAcrb :: "string \<Rightarrow> bool" where
  "validateAcrb s = (case atoi s of None \<Rightarrow> False | Some n \<Rightarrow> \<not> (n < 1 \<or> n > 4294967))"

definition validateDefInfoOriginate :: "string \<Rightarrow> bool" where
  "validateDefInfoOriginate s =
     (let t = to_lower s in \<not> (t \<noteq> ''never'' \<and> t \<noteq> ''regular'' \<and> t \<noteq> ''always''))"

text \<open>The checks that the OSPF and OSPFv3 settings end with.\<close>

definition originate_checks :: "'a ospfv3_global_scheme \<Rightarrow> go_error option list" where
  "originate_checks req =
     [fails_if (og_acrb req \<noteq> [] \<and> \<not> validateAcrb (og_acrb req)) ''Invalid Auto-cost reference-bandwidth'',
      fails_if (og_originate req \<noteq> [] \<and> \<not> validateDefInfoOriginate (og_originate req))
        ''Invalid Default-information originate'',
      fails_if ((to_lower (og_originate req) = ''regular'' \<or> to_lower (og_originate req) = ''always'')
                \<and> \<not> validateMetricDetails (og_originate_metric req))
        ''Invalid Metric or Metric Type for Default-information originate'',
      fails_if (og_connected req \<and> \<not> validateMetricDetails (og_connected_metric req))
        ''Invalid Metric or Metric Type for Redistribute Connected'']"

definition ValidateOspfGlobalConfig :: "ospf_global \<Rightarrow> go_error option" where
  "ValidateOspfGlobalConfig req =
     first_error
      ([(if og_router req \<noteq> [] then validate_router_id (og_router req) else None),
        fails_if (og_abr req \<noteq> [] \<and> \<not> validateAbrType (og_abr req)) ''Invalid ABR Type'',
        fails_if (og_metric req \<noteq> [] \<and> \<not> validateDefaultMetric (og_metric req)) ''Invalid Default Metric'']
       @ originate_checks req
       @ [fails_if (og_static req \<and> \<not> validateMetricDetails (og_static_metric req))
            ''Invalid Metric or Metric Type for Redistribute Static'',
          fails_if (og_bgp req \<and> \<not> validateMetricDetails (og_bgp_metric req))
            ''Invalid Metric or Metric Type for Redistribute BGP''])"

definition ValidateOspfv3GlobalConfig :: "ospfv3_global \<Rightarrow> go_error option" where
  "ValidateOspfv3GlobalConfig req =
     first_error
      ([(if og_router req \<noteq> [] then validate_router_id (og_router req) else None),
        fails_if (og_metric req \<noteq> [] \<and> \<not> validateDefaultMetric (og_metric req)) ''Invalid Default Metric'',
        fails_if (og_abr req \<noteq> [] \<and> \<not> validateAbrType (og_abr req)) ''Invalid ABR Type'']
       @ originate_checks req)"

end
