(* ===== verification/Interface_Config.thy ===== *)
theory Interface_Config
  imports Interface_Utils
begin

text \<open>
  \<open>config/interface_config/config.go\<close>: the file \<open>interface_config.yaml\<close> with the interfaces, routes
  and the high-availability settings. The bytes of the document are a type variable; YAML, the mutex and
  the outcome of the file operations are parameters, as in the application's own configuration. Each
  write marshals the new rows on their own and unmarshals them again before it merges them; these
  conversions are parameters too.
\<close>

record 'y net_env =
  net_lock_free :: bool
  net_create_error :: "go_error option"
  net_read_error :: "go_error option"
  net_write_error :: "go_error option"
  net_torn :: "'y option"
  net_empty :: 'y
  enc_net :: "net_config \<Rightarrow> go_error + 'y"
  dec_net :: "'y \<Rightarrow> go_error + net_config"
  re_all :: "net_config \<Rightarrow> go_error + net_config"
  re_physical :: "physical_interface list \<Rightarrow> go_error + physical_interface list"
  re_vlan :: "vlan_interface list \<Rightarrow> go_error + vlan_interface list"
  re_bridge :: "bridge_interface list \<Rightarrow> go_error + bridge_interface list"
  re_bond :: "bond_interface list \<Rightarrow> go_error + bond_interface list"
  re_ha :: "ha \<Rightarrow> go_error + ha"
  re_routes :: "static_routes \<Rightarrow> go_error + static_routes"

definition readConfigFile_net ::
  "('y, 'e) net_env_scheme \<Rightarrow> 'y option \<Rightarrow> (go_error + 'y) \<times> 'y option" where
  "readConfigFile_net env doc =
     (let read = (\<lambda>y. case net_read_error env of
                        Some e \<Rightarrow> Inl (the (annotate ''error reading config file: '' (Some e)))
                      | None \<Rightarrow> Inr y) in
      case doc of
        None \<Rightarrow>
          (case net_create_error env of
             Some e \<Rightarrow> (Inl (the (annotate ''error creating config file: '' (Some e))), net_torn env)
           | None \<Rightarrow> (read (net_empty env), Some (net_empty env)))
      | Some y \<Rightarrow> (read y, Some y))"

text \<open>Reading and unmarshalling, the common start of every function below.\<close>

definition load_net :: "('y, 'e) net_env_scheme \<Rightarrow> 'y option \<Rightarrow> (go_error + net_config) \<times> 'y option" where
  "load_net env doc =
     (case readConfigFile_net env doc of
        (Inl e, d) \<Rightarrow> (Inl e, d)
      | (Inr y, d) \<Rightarrow> (dec_net env y, d))"

text \<open>Marshalling and writing, their common end.\<close>

definition save_net :: "('y, 'e) net_env_scheme \<Rightarrow> net_config \<Rightarrow> 'y option \<Rightarrow> go_error option \<times> 'y option" where
  "save_net env c doc =
     (case enc_net env c of
        Inl e \<Rightarrow> (Some e, doc)
      | Inr y \<Rightarrow> (case net_write_error env of Some e \<Rightarrow> (Some e, net_torn env) | None \<Rightarrow> (None, Some y)))"

text \<open>One locked read-change-write of the file; a panic in the change leaves the file as it was read.\<close>

definition locked_change ::
  "('y, 'e) net_env_scheme \<Rightarrow> string \<Rightarrow> (net_config \<Rightarrow> go_error + net_config) \<Rightarrow> 'y option
   \<Rightarrow> go_error option \<times> 'y option" where
  "locked_change env what change doc =
     (if \<not> net_lock_free env then (Some (Err (''Timeout while acquiring lock for '' @ what)), doc)
      else
        (case load_net env doc of
           (Inl e, d) \<Rightarrow> (Some e, d)
         | (Inr c, d) \<Rightarrow>
             (case change c of Inl e \<Rightarrow> (Some e, d) | Inr c' \<Rightarrow> save_net env c' d)))"

subsection \<open>Updating\<close>

text \<open>
  One case of \<open>UpdateConfig\<close>: the stored row of that name becomes the first new row, which must be
  there; when no row has the name, all new rows are appended.
\<close>

definition put_named :: "('a \<Rightarrow> string) \<Rightarrow> string \<Rightarrow> 'a list \<Rightarrow> 'a list \<Rightarrow> go_error + 'a list" where
  "put_named name_of name news olds =
     (if \<exists>x \<in> set olds. name_of x = name then
        (case news of
           [] \<Rightarrow> Inl index_panic
         | r # rs \<Rightarrow> Inr (replace_first (\<lambda>x. name_of x = name) r olds))
      else Inr (olds @ news))"

definition bind_sum :: "'e + 'a \<Rightarrow> ('a \<Rightarrow> 'e + 'b) \<Rightarrow> 'e + 'b" where
  "bind_sum r f = (case r of Inl e \<Rightarrow> Inl e | Inr x \<Rightarrow> f x)"

definition map_sum_r :: "('a \<Rightarrow> 'b) \<Rightarrow> 'e + 'a \<Rightarrow> 'e + 'b" where
  "map_sum_r f r = (case r of Inl e \<Rightarrow> Inl e | Inr x \<Rightarrow> Inr (f x))"

definition update_net ::
  "('y, 'e) net_env_scheme \<Rightarrow> net_config \<Rightarrow> string \<Rightarrow> string \<Rightarrow> string \<Rightarrow> net_config \<Rightarrow> go_error + net_config" where
  "update_net env resp interfaceType interfaceName caller c =
     (if interfaceType = ''ALL'' then re_all env resp
      else if interfaceType = DEVICE then
        bind_sum (re_physical env (PhysicalInterfaces resp)) (\<lambda>new.
          map_sum_r (\<lambda>l. c\<lparr>PhysicalInterfaces := l\<rparr>)
            (if caller = ''INIT PHYSICAL INTERFACES'' then Inr new
             else put_named pi_name interfaceName new (PhysicalInterfaces c)))
      else if interfaceType = VLAN_STRING then
        bind_sum (re_vlan env (VLANInterfaces resp)) (\<lambda>new.
          map_sum_r (\<lambda>l. c\<lparr>VLANInterfaces := l\<rparr>) (put_named vi_name interfaceName new (VLANInterfaces c)))
      else if interfaceType = BRIDGE_STRING then
        bind_sum (re_bridge env (BridgeInterfaces resp)) (\<lambda>new.
          map_sum_r (\<lambda>l. c\<lparr>BridgeInterfaces := l\<rparr>) (put_named bi_name interfaceName new (BridgeInterfaces c)))
      else if interfaceType = BOND_STRING then
        bind_sum (re_bond env (BondInterfaces resp)) (\<lambda>new.
          map_sum_r (\<lambda>l. c\<lparr>BondInterfaces := l\<rparr>) (put_named bd_name interfaceName new (BondInterfaces c)))
      else if interfaceType = HA_STRING then
        map_sum_r (\<lambda>h. c\<lparr>Ha_of := h\<rparr>) (re_ha env (Ha_of resp))
      else Inr c)"

definition UpdateConfig_net ::
  "('y, 'e) net_env_scheme \<Rightarrow> net_config \<Rightarrow> string \<Rightarrow> string \<Rightarrow> string \<Rightarrow> 'y option
   \<Rightarrow> go_error option \<times> 'y option" where
  "UpdateConfig_net env resp interfaceType interfaceName caller =
     locked_change env (caller @ '' - '' @ interfaceName)
       (update_net env resp interfaceType interfaceName caller)"

subsection \<open>Fetching\<close>

definition select_net :: "string \<Rightarrow> net_config \<Rightarrow> net_config" where
  "select_net interfaceType c =
     (if interfaceType = ''ALL'' then c
      else if interfaceType = DEVICE then zero_net\<lparr>PhysicalInterfaces := PhysicalInterfaces c\<rparr>
      else if interfaceType = VLAN_STRING then zero_net\<lparr>VLANInterfaces := VLANInterfaces c\<rparr>
      else if interfaceType = BRIDGE_STRING then zero_net\<lparr>BridgeInterfaces := BridgeInterfaces c\<rparr>
      else if interfaceType = BOND_STRING then zero_net\<lparr>BondInterfaces := BondInterfaces c\<rparr>
      else if interfaceType = HA_STRING then zero_net\<lparr>Ha_of := Ha_of c\<rparr>
      else zero_net)"

definition FetchConfig_net ::
  "('y, 'e) net_env_scheme \<Rightarrow> string \<Rightarrow> 'y option \<Rightarrow> (go_error + net_config) \<times> 'y option" where
  "FetchConfig_net env interfaceType doc =
     (let (r, d) = load_net env doc in (map_sum_r (select_net interfaceType) r, d))"

subsection \<open>The fields kept in the file only\<close>

definition set_fields ::
  "string \<Rightarrow> string \<Rightarrow> config_fields \<Rightarrow> net_config \<Rightarrow> net_config" where
  "set_fields interfaceType name f c =
     (if interfaceType = DEVICE then
        c\<lparr>PhysicalInterfaces := update_where (\<lambda>x. pi_name x = name) (\<lambda>x. x\<lparr>pi_fields := f\<rparr>) (PhysicalInterfaces c)\<rparr>
      else if interfaceType = VLAN_STRING then
        c\<lparr>VLANInterfaces := update_where (\<lambda>x. vi_name x = name) (\<lambda>x. x\<lparr>vi_fields := f\<rparr>) (VLANInterfaces c)\<rparr>
      else if interfaceType = BRIDGE_STRING then
        c\<lparr>BridgeInterfaces := update_where (\<lambda>x. bi_name x = name) (\<lambda>x. x\<lparr>bi_fields := f\<rparr>) (BridgeInterfaces c)\<rparr>
      else if interfaceType = BOND_STRING then
        c\<lparr>BondInterfaces := update_where (\<lambda>x. bd_name x = name) (\<lambda>x. x\<lparr>bd_fields := f\<rparr>) (BondInterfaces c)\<rparr>
      else c)"

definition UpdateConfigSpecificFields ::
  "('y, 'e) net_env_scheme \<Rightarrow> string \<Rightarrow> string \<Rightarrow> config_fields \<Rightarrow> string \<Rightarrow> 'y option
   \<Rightarrow> go_error option \<times> 'y option" where
  "UpdateConfigSpecificFields env interfaceType interfaceName f caller =
     locked_change env (caller @ '' - '' @ interfaceName)
       (\<lambda>c. Inr (set_fields interfaceType interfaceName f c))"

text \<open>A later row of the same name overwrites an earlier one; \<open>is_disabled\<close> is read for devices only.\<close>

definition fields_map :: "('a \<Rightarrow> string) \<Rightarrow> ('a \<Rightarrow> config_fields) \<Rightarrow> 'a list \<Rightarrow> string \<Rightarrow> config_fields option" where
  "fields_map name_of fields_of xs = map_of (rev (map (\<lambda>x. (name_of x, fields_of x)) xs))"

definition select_fields :: "string \<Rightarrow> net_config \<Rightarrow> string \<Rightarrow> config_fields option" where
  "select_fields interfaceType c =
     (if interfaceType = DEVICE then fields_map pi_name pi_fields (PhysicalInterfaces c)
      else if interfaceType = VLAN_STRING then
        fields_map vi_name (\<lambda>x. (vi_fields x)\<lparr>cf_disabled := False\<rparr>) (VLANInterfaces c)
      else if interfaceType = BRIDGE_STRING then
        fields_map bi_name (\<lambda>x. (bi_fields x)\<lparr>cf_disabled := False\<rparr>) (BridgeInterfaces c)
      else if interfaceType = BOND_STRING then
        fields_map bd_name (\<lambda>x. (bd_fields x)\<lparr>cf_disabled := False\<rparr>) (BondInterfaces c)
      else Map.empty)"

text \<open>The callers print an error and go on with the empty map that comes with it.\<close>

definition FetchConfigSpecificFields ::
  "('y, 'e) net_env_scheme \<Rightarrow> string \<Rightarrow> 'y option \<Rightarrow> (string \<Rightarrow> config_fields option) \<times> 'y option" where
  "FetchConfigSpecificFields env interfaceType doc =
     (case load_net env doc of
        (Inl e, d) \<Rightarrow> (Map.empty, d)
      | (Inr c, d) \<Rightarrow> (select_fields interfaceType c, d))"

definition fields_or_zero :: "(string \<Rightarrow> config_fields option) \<Rightarrow> string \<Rightarrow> config_fields" where
  "fields_or_zero m name = (case m name of None \<Rightarrow> no_fields | Some f \<Rightarrow> f)"

subsection \<open>Deleting\<close>

definition delete_net :: "string \<Rightarrow> string \<Rightarrow> net_config \<Rightarrow> net_config" where
  "delete_net interfaceType name c =
     (if interfaceType = VLAN_STRING then
        c\<lparr>VLANInterfaces := remove_first (\<lambda>x. vi_name x = name) (VLANInterfaces c)\<rparr>
      else if interfaceType = BRIDGE_STRING then
        c\<lparr>BridgeInterfaces := remove_first (\<lambda>x. bi_name x = name) (BridgeInterfaces c)\<rparr>
      else if interfaceType = BOND_STRING then
        c\<lparr>BondInterfaces := remove_first (\<lambda>x. bd_name x = name) (BondInterfaces c)\<rparr>
      else if interfaceType = HA_STRING then c\<lparr>Ha_of := zero_ha\<rparr>
      else c)"

definition DeleteConfig_net ::
  "('y, 'e) net_env_scheme \<Rightarrow> string \<Rightarrow> string \<Rightarrow> string \<Rightarrow> 'y option \<Rightarrow> go_error option \<times> 'y option" where
  "DeleteConfig_net env interfaceType interfaceName caller =
     locked_change env (caller @ '' - '' @ interfaceName) (\<lambda>c. Inr (delete_net interfaceType interfaceName c))"

definition CheckIfInterfaceTypeIsEmpty ::
  "('y, 'e) net_env_scheme \<Rightarrow> string \<Rightarrow> 'y option \<Rightarrow> bool \<times> 'y option" where
  "CheckIfInterfaceTypeIsEmpty env interfaceType doc =
     (case load_net env doc of
        (Inl e, d) \<Rightarrow> (False, d)
      | (Inr c, d) \<Rightarrow>
          (interfaceType = DEVICE \<and> PhysicalInterfaces c = []
           \<or> interfaceType = VLAN_STRING \<and> VLANInterfaces c = []
           \<or> interfaceType = BRIDGE_STRING \<and> BridgeInterfaces c = []
           \<or> interfaceType = BOND_STRING \<and> BondInterfaces c = [], d))"

subsection \<open>A store that works\<close>

text \<open>
  The documented behaviour of the parameters when nothing fails: the lock is free, files are read and
  written, and what was marshalled unmarshals to the same data.
\<close>

definition net_works :: "('y, 'e) net_env_scheme \<Rightarrow> bool" where
  "net_works env \<longleftrightarrow>
     net_lock_free env \<and> net_create_error env = None \<and> net_read_error env = None
     \<and> net_write_error env = None
     \<and> (\<forall>c. \<exists>y. enc_net env c = Inr y \<and> dec_net env y = Inr c)
     \<and> (\<forall>x. re_all env x = Inr x) \<and> (\<forall>x. re_physical env x = Inr x) \<and> (\<forall>x. re_vlan env x = Inr x)
     \<and> (\<forall>x. re_bridge env x = Inr x) \<and> (\<forall>x. re_bond env x = Inr x) \<and> (\<forall>x. re_ha env x = Inr x)
     \<and> (\<forall>x. re_routes env x = Inr x)"

text \<open>The document holds the configuration \<open>c\<close>.\<close>

definition net_holds :: "('y, 'e) net_env_scheme \<Rightarrow> 'y option \<Rightarrow> net_config \<Rightarrow> bool" where
  "net_holds env doc c \<longleftrightarrow> (\<exists>y. doc = Some y \<and> dec_net env y = Inr c)"

lemma load_net_works:
  assumes "net_works env" "net_holds env doc c"
  shows "load_net env doc = (Inr c, doc)"
  using assms by (auto simp: net_works_def net_holds_def load_net_def readConfigFile_net_def)

lemma locked_change_works:
  assumes "net_works env" "net_holds env doc c" "change c = Inr c'"
  obtains d where "locked_change env what change doc = (None, d)" "net_holds env d c'"
proof -
  have "\<exists>y. enc_net env c' = Inr y \<and> dec_net env y = Inr c'" and works:
    "net_lock_free env" "net_write_error env = None"
    using assms(1) by (auto simp: net_works_def)
  then obtain y where y: "enc_net env c' = Inr y" "dec_net env y = Inr c'" by blast
  have "locked_change env what change doc = (None, Some y)"
    using assms(3) works y by (simp add: locked_change_def load_net_works [OF assms(1,2)] save_net_def)
  then show thesis by (rule that) (simp add: net_holds_def y)
qed

lemma locked_change_fails:
  assumes "net_works env" "net_holds env doc c" "change c = Inl e"
  shows "locked_change env what change doc = (Some e, doc)"
  using assms(1,3) by (simp add: locked_change_def load_net_works [OF assms(1,2)] net_works_def)

end
