(* ===== verification/Static_Routes.thy ===== *)
theory Static_Routes
  imports Routing_Validations Interface_Config
begin

text \<open>
  \<open>service/interface_routing/routing.go\<close> and \<open>config/interface_config/routingConfig.go\<close>: creating,
  listing, changing and deleting static routes in the configuration file, and the text of the zebra
  configuration made from it. The log lines and the commands that restart the routing daemons are not
  part of the model. The last part states what the operations do to the stored lists.
\<close>

definition ErrRouteAlreadyExists :: go_error where
  "ErrRouteAlreadyExists = Err ''route already exists''"

definition ErrRouteNotFound :: go_error where
  "ErrRouteNotFound = Err ''route not found''"

subsection \<open>The configuration service\<close>

definition update_routes ::
  "('y, 'e) net_env_scheme \<Rightarrow> static_routes \<Rightarrow> string \<Rightarrow> net_config \<Rightarrow> go_error + net_config" where
  "update_routes env resp operation c =
     (if operation = Type_IPV4_UNICAST then
        map_sum_r (\<lambda>new. c\<lparr>StaticRoutes := (StaticRoutes c)\<lparr>sr_ipv4 := sr_ipv4 new\<rparr>\<rparr>) (re_routes env resp)
      else if operation = Type_IPV6_UNICAST then
        map_sum_r (\<lambda>new. c\<lparr>StaticRoutes := (StaticRoutes c)\<lparr>sr_ipv6 := sr_ipv6 new\<rparr>\<rparr>) (re_routes env resp)
      else if operation = Type_MULTICAST then
        map_sum_r (\<lambda>new. c\<lparr>StaticRoutes := (StaticRoutes c)\<lparr>sr_multicast := sr_multicast new\<rparr>\<rparr>)
          (re_routes env resp)
      else if operation = Type_STATIC then
        map_sum_r (\<lambda>new. c\<lparr>StaticRoutes := (StaticRoutes c)\<lparr>sr_forward := sr_forward new\<rparr>\<rparr>)
          (re_routes env resp)
      else Inr c)"

definition UpdateStaticRouteConfig ::
  "('y, 'e) net_env_scheme \<Rightarrow> static_routes \<Rightarrow> string \<Rightarrow> string \<Rightarrow> 'y option
   \<Rightarrow> go_error option \<times> 'y option" where
  "UpdateStaticRouteConfig env resp operation caller =
     locked_change env (operation @ '' - '' @ caller) (update_routes env resp operation)"

definition FetchRouteConfig ::
  "('y, 'e) net_env_scheme \<Rightarrow> string \<Rightarrow> 'y option \<Rightarrow> (go_error + net_config) \<times> 'y option" where
  "FetchRouteConfig env routeType doc =
     (let (r, d) = load_net env doc in
      (map_sum_r
         (\<lambda>c. if routeType = ''static_route'' then zero_net\<lparr>StaticRoutes := StaticRoutes c\<rparr>
              else if routeType = ''bgp'' then zero_net\<lparr>BGP_of := BGP_of c\<rparr>
              else if routeType = ''ospf'' then zero_net\<lparr>OSPF_of := OSPF_of c\<rparr>
              else if routeType = ''ospfv3'' then zero_net\<lparr>OSPFV3_of := OSPFV3_of c\<rparr>
              else zero_net) r, d))"

definition ListStaticRoutes ::
  "('y, 'e) net_env_scheme \<Rightarrow> 'y option \<Rightarrow> (go_error + static_routes) \<times> 'y option" where
  "ListStaticRoutes env doc =
     (let (r, d) = FetchRouteConfig env ''static_route'' doc in (map_sum_r StaticRoutes r, d))"

subsection \<open>Creating\<close>

text \<open>Two routes are the same when these fields agree as texts.\<close>

definition key4 :: "ipv4_route \<Rightarrow> string \<times> string \<times> string" where
  "key4 r = (r4_interface r, r4_destination r, r4_netmask r)"

definition key6 :: "ipv6_route \<Rightarrow> string \<times> string \<times> string" where
  "key6 r = (r6_interface r, r6_destination r, r6_prefix r)"

definition key_multicast :: "multicast_route \<Rightarrow> string \<times> string \<times> string \<times> string" where
  "key_multicast r = (mr_source r, mr_source_ip r, mr_destination r, mr_group r)"

definition add_route :: "('a \<Rightarrow> 'b) \<Rightarrow> 'a \<Rightarrow> 'a list \<Rightarrow> go_error + 'a list" where
  "add_route key r rs = (if \<exists>x \<in> set rs. key x = key r then Inl ErrRouteAlreadyExists else Inr (rs @ [r]))"

definition create_routes :: "route_request \<Rightarrow> static_routes \<Rightarrow> go_error + static_routes" where
  "create_routes req cur =
     (if rq_operation req = Type_IPV4_UNICAST then
        map_sum_r (\<lambda>l. cur\<lparr>sr_ipv4 := l\<rparr>) (add_route key4 (st_ipv4 (rq_route req)) (sr_ipv4 cur))
      else if rq_operation req = Type_IPV6_UNICAST then
        map_sum_r (\<lambda>l. cur\<lparr>sr_ipv6 := l\<rparr>) (add_route key6 (st_ipv6 (rq_route req)) (sr_ipv6 cur))
      else if rq_operation req = Type_MULTICAST then
        map_sum_r (\<lambda>l. cur\<lparr>sr_multicast := l\<rparr>)
          (add_route key_multicast (st_multicast (rq_route req)) (sr_multicast cur))
      else Inl (Err ''unknown operation, only ipv4_unicast, ipv6_unicast and multicast operations are allowed''))"

text \<open>Storing new lists and answering with what is stored: the common end of the operations.\<close>

definition store_routes ::
  "('y, 'e) net_env_scheme \<Rightarrow> string \<Rightarrow> string \<Rightarrow> go_error + static_routes \<Rightarrow> 'y option
   \<Rightarrow> (go_error + static_routes) \<times> 'y option" where
  "store_routes env operation caller r d =
     (case r of
        Inl e \<Rightarrow> (Inl e, d)
      | Inr routes \<Rightarrow>
          (case UpdateStaticRouteConfig env routes operation caller d of
             (Some e, d') \<Rightarrow> (Inl e, d')
           | (None, d') \<Rightarrow> ListStaticRoutes env d'))"

definition CreateStaticRoute ::
  "('y, 'e) net_env_scheme \<Rightarrow> ('k, 'f) netlink_scheme \<Rightarrow> 'k \<Rightarrow> route_request \<Rightarrow> 'y option
   \<Rightarrow> (go_error + static_routes) \<times> 'y option" where
  "CreateStaticRoute env nl k request doc =
     (case FetchRouteConfig env ''static_route'' doc of
        (Inl e, d) \<Rightarrow> (Inl e, d)
      | (Inr conf, d) \<Rightarrow>
          (let req = trim_route request in
           case ValidateCreateStaticRouteRequest nl k req of
             Some e \<Rightarrow> (Inl e, d)
           | None \<Rightarrow>
               store_routes env (rq_operation req) ''STATIC_ROUTE_CREATE''
                 (create_routes req (StaticRoutes conf)) d))"

subsection \<open>Deleting\<close>

definition drop_routes :: "('a \<Rightarrow> 'b) \<Rightarrow> 'a \<Rightarrow> 'a list \<Rightarrow> go_error + 'a list" where
  "drop_routes key r rs =
     (if \<exists>x \<in> set rs. key x = key r then Inr (filter (\<lambda>x. key x \<noteq> key r) rs) else Inl ErrRouteNotFound)"

definition missing4 :: "ipv4_route \<Rightarrow> go_error option" where
  "missing4 r = fails_if (r4_interface r = [] \<or> r4_destination r = [] \<or> r4_netmask r = [])
     ''InterfaceName, DestinationIp and Netmask are mandatory fields''"

definition missing6 :: "ipv6_route \<Rightarrow> go_error option" where
  "missing6 r = fails_if (r6_interface r = [] \<or> r6_destination r = [] \<or> r6_prefix r = [])
     ''InterfaceName, DestinationIp and Prefix are mandatory fields''"

definition missing_multicast :: "multicast_route \<Rightarrow> go_error option" where
  "missing_multicast r =
     fails_if (mr_source r = [] \<or> mr_source_ip r = [] \<or> mr_destination r = [] \<or> mr_group r = [])
       ''SourceInterface, SourceIpAddress, DestinationInterface and MulticastIpv4Address are mandatory fields''"

definition unless_missing :: "go_error option \<Rightarrow> go_error + 'a \<Rightarrow> go_error + 'a" where
  "unless_missing m r = (case m of Some e \<Rightarrow> Inl e | None \<Rightarrow> r)"

text \<open>What is handed on holds the remaining routes of the kind in question and no others.\<close>

definition remaining_routes :: "route_request \<Rightarrow> static_routes \<Rightarrow> go_error + static_routes" where
  "remaining_routes req routes =
     (let q = rq_route req in
      if rq_operation req = Type_IPV4_UNICAST then
        unless_missing (missing4 (st_ipv4 q))
          (map_sum_r (\<lambda>l. no_routes\<lparr>sr_ipv4 := l\<rparr>) (drop_routes key4 (st_ipv4 q) (sr_ipv4 routes)))
      else if rq_operation req = Type_IPV6_UNICAST then
        unless_missing (missing6 (st_ipv6 q))
          (map_sum_r (\<lambda>l. no_routes\<lparr>sr_ipv6 := l\<rparr>) (drop_routes key6 (st_ipv6 q) (sr_ipv6 routes)))
      else if rq_operation req = Type_MULTICAST then
        unless_missing (missing_multicast (st_multicast q))
          (map_sum_r (\<lambda>l. no_routes\<lparr>sr_multicast := l\<rparr>)
             (drop_routes key_multicast (st_multicast q) (sr_multicast routes)))
      else Inl (Err ''invalid operation, only ipv4 unicast, ipv6 unicast and multicast delete operations are supported''))"

definition DeleteStaticRoute ::
  "('y, 'e) net_env_scheme \<Rightarrow> route_request \<Rightarrow> 'y option \<Rightarrow> (go_error + static_routes) \<times> 'y option" where
  "DeleteStaticRoute env req doc =
     (case FetchRouteConfig env ''static_route'' doc of
        (Inl e, d) \<Rightarrow> (Inl e, d)
      | (Inr conf, d) \<Rightarrow>
          store_routes env (rq_operation req) ''STATIC_ROUTE_DELETE''
            (remaining_routes req (StaticRoutes conf)) d)"

subsection \<open>Changing\<close>

definition change_route :: "('a \<Rightarrow> 'b) \<Rightarrow> 'a \<Rightarrow> 'a \<Rightarrow> 'a list \<Rightarrow> go_error + 'a list" where
  "change_route key old new rs =
     (if \<exists>x \<in> set rs. key x = key old then Inr (update_where (\<lambda>x. key x = key old) (\<lambda>x. new) rs)
      else Inl ErrRouteNotFound)"

definition changed_routes ::
  "string \<Rightarrow> static_route \<Rightarrow> static_route \<Rightarrow> static_routes \<Rightarrow> go_error + static_routes" where
  "changed_routes operation old new routes =
     (if operation = Type_IPV4_UNICAST then
        unless_missing (missing4 (st_ipv4 old))
          (map_sum_r (\<lambda>l. no_routes\<lparr>sr_ipv4 := l\<rparr>)
             (change_route key4 (st_ipv4 old) (st_ipv4 new) (sr_ipv4 routes)))
      else if operation = Type_IPV6_UNICAST then
        unless_missing (missing6 (st_ipv6 old))
          (map_sum_r (\<lambda>l. no_routes\<lparr>sr_ipv6 := l\<rparr>)
             (change_route key6 (st_ipv6 old) (st_ipv6 new) (sr_ipv6 routes)))
      else if operation = Type_MULTICAST then
        unless_missing (missing_multicast (st_multicast old))
          (map_sum_r (\<lambda>l. no_routes\<lparr>sr_multicast := l\<rparr>)
             (change_route key_multicast (st_multicast old) (st_multicast new) (sr_multicast routes)))
      else Inl (Err ''invalid operation, only ipv4 unicast, ipv6 unicast and multicast update operations are supported''))"

text \<open>Neither route of the request is trimmed, and the new key is not looked for.\<close>

definition UpdateStaticRoute ::
  "('y, 'e) net_env_scheme \<Rightarrow> ('k, 'f) netlink_scheme \<Rightarrow> 'k \<Rightarrow> string \<Rightarrow> static_route \<Rightarrow> static_route
   \<Rightarrow> 'y option \<Rightarrow> (go_error + static_routes) \<times> 'y option" where
  "UpdateStaticRoute env nl k operation oldRoute newRoute doc =
     (case FetchRouteConfig env ''static_route'' doc of
        (Inl e, d) \<Rightarrow> (Inl e, d)
      | (Inr conf, d) \<Rightarrow>
          (case ValidateCreateStaticRouteRequest nl k \<lparr>rq_operation = operation, rq_route = newRoute\<rparr> of
             Some e \<Rightarrow> (Inl e, d)
           | None \<Rightarrow>
               store_routes env operation ''STATIC_ROUTE_UPDATE''
                 (changed_routes operation oldRoute newRoute (StaticRoutes conf)) d))"

definition UpdateStaticGlobalConfig ::
  "('y, 'e) net_env_scheme \<Rightarrow> bool \<Rightarrow> 'y option \<Rightarrow> (go_error + static_routes) \<times> 'y option" where
  "UpdateStaticGlobalConfig env req doc =
     (case FetchRouteConfig env ''static_route'' doc of
        (Inl e, d) \<Rightarrow> (Inl e, d)
      | (Inr conf, d) \<Rightarrow>
          store_routes env Type_STATIC ''STATIC_GLOBAL_CONFIG_UPDATE''
            (Inr ((StaticRoutes conf)\<lparr>sr_forward := req\<rparr>)) d)"

subsection \<open>The zebra configuration\<close>

definition new_line :: string where "new_line = [CHR 0x0A]"

definition zebra_base :: string where
  "zebra_base = ''!'' @ new_line @ ''password 1!3@A$%'' @ new_line @ ''log file /var/log/quagga/zebra.log''
     @ new_line @ ''service advanced-vty'' @ new_line @ ''!''"

text \<open>The address lines of one interface; the text decides on the protocol.\<close>

definition address_lines :: "string \<Rightarrow> int \<Rightarrow> string" where
  "address_lines ip netmask =
     (if contains ip ''.'' then new_line @ ''ip address '' @ ip @ ''/'' @ show_int netmask else [])
     @ (if contains ip '':'' then new_line @ ''ipv6 address '' @ ip @ ''/'' @ show_int netmask else [])"

definition monitored_ip :: "ha \<Rightarrow> string \<Rightarrow> string" where
  "monitored_ip h name =
     (let (base, peer) = FetchHaIps name h in
      if IsHaPrimary h then base else if IsHaBackup h then peer else [])"

definition zebra_interface :: "ha \<Rightarrow> physical_interface \<Rightarrow> string" where
  "zebra_interface h intf =
     (if IsHaMonitored (pi_name intf) h then
        (let tempIp = monitored_ip h (pi_name intf) in
         (if tempIp \<noteq> [] \<and> fst (ValidateIP tempIp) then new_line @ ''interface '' @ pi_name intf else [])
         @ address_lines tempIp (ipr_netmask (pi_ip intf)))
      else
        new_line @ ''interface '' @ pi_name intf
        @ address_lines (ipr_address (pi_ip intf)) (ipr_netmask (pi_ip intf))
        @ concat (map (\<lambda>a. if ipr_address a = [] \<or> ipr_netmask a = 0 then []
                           else address_lines (ipr_address a) (ipr_netmask a)) (pi_aliases intf)))"

definition zebra_route :: "ipv4_route \<Rightarrow> string" where
  "zebra_route r =
     ''ip route '' @ r4_destination r @ ''/'' @ r4_netmask r @ '' ''
     @ (if r4_gateway r \<noteq> [] then r4_gateway r else r4_interface r) @ '' ''
     @ show_int (if r4_distance r > 0 then r4_distance r else 1)"

definition zebra_text :: "static_routes \<Rightarrow> physical_interface list \<Rightarrow> ha \<Rightarrow> string" where
  "zebra_text routes intfs h =
     zebra_base @ concat (map (zebra_interface h) intfs)
     @ concat (map (\<lambda>r. new_line @ zebra_route r) (sr_ipv4 routes))"

text \<open>
  \<open>generateZebraConfig\<close>: the text written to \<open>zebra.conf\<close>, with the configuration file read three times.
\<close>

definition generateZebraConfig ::
  "('y, 'e) net_env_scheme \<Rightarrow> 'y option \<Rightarrow> (go_error + string) \<times> 'y option" where
  "generateZebraConfig env doc =
     (case FetchRouteConfig env ''static_route'' doc of
        (Inl e, d) \<Rightarrow> (Inl e, d)
      | (Inr routes, d) \<Rightarrow>
          (case FetchConfig_net env DEVICE d of
             (Inl e, d') \<Rightarrow> (Inl e, d')
           | (Inr conf, d') \<Rightarrow>
               (case FetchConfig_net env HA_STRING d' of
                  (Inl e, d'') \<Rightarrow> (Inl e, d'')
                | (Inr hc, d'') \<Rightarrow>
                    (Inr (zebra_text (StaticRoutes routes) (PhysicalInterfaces conf) (Ha_of hc)), d''))))"

definition daemons_text :: string where
  "daemons_text = ''zebra=yes'' @ concat (map (\<lambda>d. new_line @ d)
     [''ospfd=no'', ''bgpd=no'', ''ripd=no'', ''ripngd=no'', ''ospf6d=no'', ''isisd=no'', ''babeld=no''])"

subsection \<open>What the operations do\<close>

lemma sum_simps [simp]:
  "map_sum_r f (Inl e) = Inl e" "map_sum_r f (Inr x) = Inr (f x)"
  "bind_sum (Inl e) g = Inl e" "bind_sum (Inr x) g = g x"
  by (simp_all add: map_sum_r_def bind_sum_def)

lemma map_sum_r_Inr: "map_sum_r f r = Inr y \<longleftrightarrow> (\<exists>x. r = Inr x \<and> y = f x)"
  by (auto simp: map_sum_r_def split: sum.splits)

lemma map_sum_r_Inl: "map_sum_r f r = Inl e \<longleftrightarrow> r = Inl e"
  by (auto simp: map_sum_r_def split: sum.splits)

lemma FetchRouteConfig_works:
  assumes "net_works env" "net_holds env doc c"
  shows "FetchRouteConfig env ''static_route'' doc = (Inr (zero_net\<lparr>StaticRoutes := StaticRoutes c\<rparr>), doc)"
  by (simp add: FetchRouteConfig_def load_net_works [OF assms])

lemma ListStaticRoutes_works:
  assumes "net_works env" "net_holds env doc c"
  shows "ListStaticRoutes env doc = (Inr (StaticRoutes c), doc)"
  by (simp add: ListStaticRoutes_def FetchRouteConfig_works [OF assms])

text \<open>The lists that an operation replaces.\<close>

definition merged_routes :: "string \<Rightarrow> static_routes \<Rightarrow> static_routes \<Rightarrow> static_routes" where
  "merged_routes operation new old =
     (if operation = Type_IPV4_UNICAST then old\<lparr>sr_ipv4 := sr_ipv4 new\<rparr>
      else if operation = Type_IPV6_UNICAST then old\<lparr>sr_ipv6 := sr_ipv6 new\<rparr>
      else if operation = Type_MULTICAST then old\<lparr>sr_multicast := sr_multicast new\<rparr>
      else if operation = Type_STATIC then old\<lparr>sr_forward := sr_forward new\<rparr>
      else old)"

lemma update_routes_works:
  assumes "net_works env"
  shows "update_routes env resp operation c =
    Inr (c\<lparr>StaticRoutes := merged_routes operation resp (StaticRoutes c)\<rparr>)"
  using assms by (simp add: update_routes_def merged_routes_def net_works_def)

lemma store_routes_works:
  assumes "net_works env" "net_holds env doc c"
  obtains d where
    "store_routes env operation caller (Inr new) doc
     = (Inr (merged_routes operation new (StaticRoutes c)), d)"
    "net_holds env d (c\<lparr>StaticRoutes := merged_routes operation new (StaticRoutes c)\<rparr>)"
proof -
  obtain d where d: "UpdateStaticRouteConfig env new operation caller doc = (None, d)"
    "net_holds env d (c\<lparr>StaticRoutes := merged_routes operation new (StaticRoutes c)\<rparr>)"
    unfolding UpdateStaticRouteConfig_def
    by (rule locked_change_works [OF assms, OF update_routes_works [OF assms(1)]])
  have "store_routes env operation caller (Inr new) doc
        = (Inr (merged_routes operation new (StaticRoutes c)), d)"
    by (simp add: store_routes_def d(1) ListStaticRoutes_works [OF assms(1) d(2)])
  then show thesis using d(2) that by blast
qed

lemma store_routes_fails [simp]: "store_routes env operation caller (Inl e) doc = (Inl e, doc)"
  by (simp add: store_routes_def)

end
