(* ===== verification/Route_Runs.thy ===== *)
theory Route_Runs
  imports Static_Routes
begin

text \<open>
  Runs of operations on the static routes, and what they promise: the stored lists behave as tables from
  the fields that identify a route to the route, and every stored route has passed the validation.
\<close>

subsection \<open>Operations and runs\<close>

datatype route_op =
  CreateRoute route_request
| DeleteRoute route_request
| ChangeRoute string static_route static_route
| SetForward bool

fun route_step ::
  "('y, 'e) net_env_scheme \<Rightarrow> ('k, 'f) netlink_scheme \<Rightarrow> 'k \<Rightarrow> route_op \<Rightarrow> 'y option
   \<Rightarrow> (go_error + static_routes) \<times> 'y option" where
  "route_step env nl k (CreateRoute req) doc = CreateStaticRoute env nl k req doc"
| "route_step env nl k (DeleteRoute req) doc = DeleteStaticRoute env req doc"
| "route_step env nl k (ChangeRoute operation old new) doc = UpdateStaticRoute env nl k operation old new doc"
| "route_step env nl k (SetForward b) doc = UpdateStaticGlobalConfig env b doc"

text \<open>A run: each operation finds the kernel in a state of its own.\<close>

fun run_routes ::
  "('y, 'e) net_env_scheme \<Rightarrow> ('k, 'f) netlink_scheme \<Rightarrow> ('k \<times> route_op) list \<Rightarrow> 'y option
   \<Rightarrow> (go_error + static_routes) list \<times> 'y option" where
  "run_routes env nl [] doc = ([], doc)"
| "run_routes env nl ((k, op) # ops) doc =
     (let (r, d) = route_step env nl k op doc; (rs, d') = run_routes env nl ops d in (r # rs, d'))"

subsection \<open>The tables\<close>

record route_tables =
  tb_ipv4 :: "string \<times> string \<times> string \<Rightarrow> ipv4_route option"
  tb_ipv6 :: "string \<times> string \<times> string \<Rightarrow> ipv6_route option"
  tb_multicast :: "string \<times> string \<times> string \<times> string \<Rightarrow> multicast_route option"
  tb_forward :: bool

definition table_of :: "('a \<Rightarrow> 'b) \<Rightarrow> 'a list \<Rightarrow> 'b \<Rightarrow> 'a option" where
  "table_of key rs = map_of (map (\<lambda>r. (key r, r)) rs)"

definition tables :: "static_routes \<Rightarrow> route_tables" where
  "tables s = \<lparr>tb_ipv4 = table_of key4 (sr_ipv4 s), tb_ipv6 = table_of key6 (sr_ipv6 s),
               tb_multicast = table_of key_multicast (sr_multicast s), tb_forward = sr_forward s\<rparr>"

definition unique_keys :: "static_routes \<Rightarrow> bool" where
  "unique_keys s \<longleftrightarrow> distinct (map key4 (sr_ipv4 s)) \<and> distinct (map key6 (sr_ipv6 s))
     \<and> distinct (map key_multicast (sr_multicast s))"

definition insert_entry :: "('a \<Rightarrow> 'b) \<Rightarrow> 'a \<Rightarrow> ('b \<Rightarrow> 'a option) \<Rightarrow> go_error + ('b \<Rightarrow> 'a option)" where
  "insert_entry key r m = (if m (key r) \<noteq> None then Inl ErrRouteAlreadyExists else Inr (m(key r \<mapsto> r)))"

definition delete_entry :: "('a \<Rightarrow> 'b) \<Rightarrow> 'a \<Rightarrow> ('b \<Rightarrow> 'a option) \<Rightarrow> go_error + ('b \<Rightarrow> 'a option)" where
  "delete_entry key r m = (if m (key r) = None then Inl ErrRouteNotFound else Inr (m(key r := None)))"

text \<open>The new key may be that of the old route or a free one.\<close>

definition move_entry ::
  "('a \<Rightarrow> 'b) \<Rightarrow> 'a \<Rightarrow> 'a \<Rightarrow> ('b \<Rightarrow> 'a option) \<Rightarrow> (go_error + ('b \<Rightarrow> 'a option)) option" where
  "move_entry key old new m =
     (if m (key old) = None then Some (Inl ErrRouteNotFound)
      else if key new = key old \<or> m (key new) = None then Some (Inr (m(key old := None, key new \<mapsto> new)))
      else None)"

definition on_ipv4 where "on_ipv4 f t = map_sum_r (\<lambda>m. t\<lparr>tb_ipv4 := m\<rparr>) (f (tb_ipv4 t))"
definition on_ipv6 where "on_ipv6 f t = map_sum_r (\<lambda>m. t\<lparr>tb_ipv6 := m\<rparr>) (f (tb_ipv6 t))"
definition on_multicast where "on_multicast f t = map_sum_r (\<lambda>m. t\<lparr>tb_multicast := m\<rparr>) (f (tb_multicast t))"

text \<open>
  What an operation promises: the error or the new tables; nothing for a change that moves a route onto
  another one.
\<close>

definition spec_create :: "route_request \<Rightarrow> route_tables \<Rightarrow> go_error + route_tables" where
  "spec_create req t =
     (let q = rq_route req in
      if rq_operation req = Type_IPV4_UNICAST then on_ipv4 (insert_entry key4 (st_ipv4 q)) t
      else if rq_operation req = Type_IPV6_UNICAST then on_ipv6 (insert_entry key6 (st_ipv6 q)) t
      else if rq_operation req = Type_MULTICAST then
        on_multicast (insert_entry key_multicast (st_multicast q)) t
      else Inl (Err ''unknown operation, only ipv4_unicast, ipv6_unicast and multicast operations are allowed''))"

definition spec_delete :: "route_request \<Rightarrow> route_tables \<Rightarrow> go_error + route_tables" where
  "spec_delete req t =
     (let q = rq_route req in
      if rq_operation req = Type_IPV4_UNICAST then
        unless_missing (missing4 (st_ipv4 q)) (on_ipv4 (delete_entry key4 (st_ipv4 q)) t)
      else if rq_operation req = Type_IPV6_UNICAST then
        unless_missing (missing6 (st_ipv6 q)) (on_ipv6 (delete_entry key6 (st_ipv6 q)) t)
      else if rq_operation req = Type_MULTICAST then
        unless_missing (missing_multicast (st_multicast q))
          (on_multicast (delete_entry key_multicast (st_multicast q)) t)
      else Inl (Err ''invalid operation, only ipv4 unicast, ipv6 unicast and multicast delete operations are supported''))"

definition spec_change ::
  "string \<Rightarrow> static_route \<Rightarrow> static_route \<Rightarrow> route_tables \<Rightarrow> (go_error + route_tables) option" where
  "spec_change operation old new t =
     (if operation = Type_IPV4_UNICAST then
        (case missing4 (st_ipv4 old) of
           Some e \<Rightarrow> Some (Inl e)
         | None \<Rightarrow> map_option (\<lambda>r. on_ipv4 (\<lambda>_. r) t) (move_entry key4 (st_ipv4 old) (st_ipv4 new) (tb_ipv4 t)))
      else if operation = Type_IPV6_UNICAST then
        (case missing6 (st_ipv6 old) of
           Some e \<Rightarrow> Some (Inl e)
         | None \<Rightarrow> map_option (\<lambda>r. on_ipv6 (\<lambda>_. r) t) (move_entry key6 (st_ipv6 old) (st_ipv6 new) (tb_ipv6 t)))
      else if operation = Type_MULTICAST then
        (case missing_multicast (st_multicast old) of
           Some e \<Rightarrow> Some (Inl e)
         | None \<Rightarrow> map_option (\<lambda>r. on_multicast (\<lambda>_. r) t)
             (move_entry key_multicast (st_multicast old) (st_multicast new) (tb_multicast t)))
      else Some (Inl (Err ''invalid operation, only ipv4 unicast, ipv6 unicast and multicast update operations are supported'')))"

fun spec_step ::
  "('k, 'f) netlink_scheme \<Rightarrow> 'k \<Rightarrow> route_op \<Rightarrow> route_tables \<Rightarrow> (go_error + route_tables) option" where
  "spec_step nl k (CreateRoute req) t =
     (case ValidateCreateStaticRouteRequest nl k (trim_route req) of
        Some e \<Rightarrow> Some (Inl e) | None \<Rightarrow> Some (spec_create (trim_route req) t))"
| "spec_step nl k (DeleteRoute req) t = Some (spec_delete req t)"
| "spec_step nl k (ChangeRoute operation old new) t =
     (case ValidateCreateStaticRouteRequest nl k \<lparr>rq_operation = operation, rq_route = new\<rparr> of
        Some e \<Rightarrow> Some (Inl e) | None \<Rightarrow> spec_change operation old new t)"
| "spec_step nl k (SetForward b) t = Some (Inr (t\<lparr>tb_forward := b\<rparr>))"

text \<open>An error leaves the tables as they were.\<close>

definition tables_after :: "go_error + route_tables \<Rightarrow> route_tables \<Rightarrow> route_tables" where
  "tables_after r t = (case r of Inl e \<Rightarrow> t | Inr t' \<Rightarrow> t')"

fun spec_run ::
  "('k, 'f) netlink_scheme \<Rightarrow> ('k \<times> route_op) list \<Rightarrow> route_tables
   \<Rightarrow> ((go_error + route_tables) list \<times> route_tables) option" where
  "spec_run nl [] t = Some ([], t)"
| "spec_run nl ((k, op) # ops) t =
     (case spec_step nl k op t of
        None \<Rightarrow> None
      | Some r \<Rightarrow> map_option (\<lambda>(rs, t'). (r # rs, t')) (spec_run nl ops (tables_after r t)))"

subsection \<open>The lists implement the tables\<close>

lemma table_of_None: "table_of key rs a = None \<longleftrightarrow> a \<notin> key ` set rs"
  by (simp add: table_of_def map_of_eq_None_iff image_image)

lemma add_route_table:
  "map_sum_r (table_of key) (add_route key r rs) = insert_entry key r (table_of key rs)"
proof (cases "\<exists>x \<in> set rs. key x = key r")
  case True
  then have "table_of key rs (key r) \<noteq> None" unfolding table_of_None by (auto simp: image_iff) metis
  then show ?thesis using True by (simp add: add_route_def insert_entry_def)
next
  case False
  then have free: "table_of key rs (key r) = None" unfolding table_of_None by auto
  then have "table_of key (rs @ [r]) = (table_of key rs)(key r \<mapsto> r)"
    by (auto simp: table_of_def map_add_def fun_eq_iff split: option.splits)
  then show ?thesis using False free by (simp add: add_route_def insert_entry_def)
qed

lemma add_route_unique:
  "add_route key r rs = Inr rs' \<Longrightarrow> distinct (map key rs) \<Longrightarrow> distinct (map key rs')"
  by (auto simp: add_route_def image_iff split: if_splits) metis

lemma table_of_filter: "table_of key (filter (\<lambda>x. key x \<noteq> a) rs) = (table_of key rs)(a := None)"
  by (induction rs) (auto simp: table_of_def fun_eq_iff)

lemma drop_routes_table:
  "map_sum_r (table_of key) (drop_routes key r rs) = delete_entry key r (table_of key rs)"
proof -
  have "table_of key rs (key r) = None \<longleftrightarrow> \<not> (\<exists>x \<in> set rs. key x = key r)"
    unfolding table_of_None by (auto simp: image_iff)
  then show ?thesis by (simp add: drop_routes_def delete_entry_def table_of_filter)
qed

lemma drop_routes_unique:
  "drop_routes key r rs = Inr rs' \<Longrightarrow> distinct (map key rs) \<Longrightarrow> distinct (map key rs')"
  by (auto simp: drop_routes_def distinct_map_filter split: if_splits)

text \<open>Replacing the route of a key by one whose key is free.\<close>

lemma update_where_absent: "a \<notin> key ` set rs \<Longrightarrow> update_where (\<lambda>x. key x = a) f rs = rs"
  by (induction rs) auto

lemma update_where_table:
  assumes "distinct (map key rs)" "a \<in> key ` set rs" "key new = a \<or> key new \<notin> key ` set rs"
  shows "table_of key (update_where (\<lambda>x. key x = a) (\<lambda>x. new) rs) = (table_of key rs)(a := None, key new \<mapsto> new)
    \<and> distinct (map key (update_where (\<lambda>x. key x = a) (\<lambda>x. new) rs))
    \<and> key ` set (update_where (\<lambda>x. key x = a) (\<lambda>x. new) rs) = insert (key new) (key ` set rs - {a})"
  using assms
proof (induction rs)
  case (Cons r rs)
  show ?case
  proof (cases "key r = a")
    case True
    then have absent: "a \<notin> key ` set rs" using Cons.prems(1) by auto
    then have gone: "(table_of key rs) a = None" by (simp add: table_of_None)
    have "table_of key (new # rs) = (table_of key (r # rs))(a := None, key new \<mapsto> new)"
      using True gone by (auto simp: table_of_def fun_eq_iff)
    moreover have "update_where (\<lambda>x. key x = a) (\<lambda>x. new) (r # rs) = new # rs"
      using True update_where_absent [OF absent] by simp
    ultimately show ?thesis using True absent Cons.prems by (auto simp: image_iff)
  next
    case False
    let ?rs = "update_where (\<lambda>x. key x = a) (\<lambda>x. new) rs"
    have ih: "table_of key ?rs = (table_of key rs)(a := None, key new \<mapsto> new)" "distinct (map key ?rs)"
      "key ` set ?rs = insert (key new) (key ` set rs - {a})"
      using Cons False by auto
    have step: "update_where (\<lambda>x. key x = a) (\<lambda>x. new) (r # rs) = r # ?rs" using False by simp
    have "key r \<noteq> key new" using Cons.prems(3) False by auto
    moreover have "table_of key (r # xs) = (table_of key xs)(key r \<mapsto> r)" for xs by (simp add: table_of_def)
    moreover have "key r \<notin> key ` set ?rs" using ih(3) Cons.prems(1) \<open>key r \<noteq> key new\<close> by simp
    ultimately have "table_of key (r # ?rs) = (table_of key (r # rs))(a := None, key new \<mapsto> new)"
      "distinct (map key (r # ?rs))"
      using ih(1,2) False by (auto simp: fun_eq_iff)
    moreover have "key ` set (r # ?rs) = insert (key new) (key ` set (r # rs) - {a})"
      unfolding list.set image_insert ih(3) using False by blast
    ultimately show ?thesis unfolding step by blast
  qed
qed simp

lemma change_route_table:
  assumes "move_entry key old new (table_of key rs) = Some r" "distinct (map key rs)"
  shows "map_sum_r (table_of key) (change_route key old new rs) = r"
    and "change_route key old new rs = Inr rs' \<Longrightarrow> distinct (map key rs')"
proof -
  let ?rs = "update_where (\<lambda>x. key x = key old) (\<lambda>x. new) rs"
  have "map_sum_r (table_of key) (change_route key old new rs) = r
    \<and> (change_route key old new rs = Inr rs' \<longrightarrow> distinct (map key rs'))"
  proof (cases "key old \<in> key ` set rs")
    case True
    then have "key new = key old \<or> key new \<notin> key ` set rs" and r: "r = Inr ((table_of key rs)(key old := None, key new \<mapsto> new))"
      using assms(1) by (auto simp only: move_entry_def table_of_None simp_thms split: if_splits)
    then have "table_of key ?rs = (table_of key rs)(key old := None, key new \<mapsto> new)" "distinct (map key ?rs)"
      using update_where_table [OF assms(2) True] by blast+
    moreover have "change_route key old new rs = Inr ?rs" using True by (auto simp: change_route_def image_iff)
    ultimately show ?thesis using r by auto
  next
    case False
    then have "change_route key old new rs = Inl ErrRouteNotFound" by (auto simp: change_route_def image_iff)
    then show ?thesis using False assms(1) by (simp add: move_entry_def table_of_None)
  qed
  then show "map_sum_r (table_of key) (change_route key old new rs) = r"
    and "change_route key old new rs = Inr rs' \<Longrightarrow> distinct (map key rs')" by blast+
qed

text \<open>A change onto the key of another route is accepted, and the key is then there twice.\<close>

lemma change_route_collides:
  assumes "move_entry key old new (table_of key rs) = None"
  shows "\<exists>rs'. change_route key old new rs = Inr rs' \<and> \<not> distinct (map key rs')"
proof -
  have keys: "key old \<in> key ` set rs" "key new \<in> key ` set rs" "key new \<noteq> key old"
    using assms by (auto simp only: move_entry_def table_of_None simp_thms split: if_splits)
  let ?f = "\<lambda>a. if a = key old then key new else a"
  let ?rs = "update_where (\<lambda>x. key x = key old) (\<lambda>x. new) rs"
  have "map key ?rs = map ?f (map key rs)" by (induction rs) simp_all
  moreover have "\<not> inj_on ?f (key ` set rs)"
  proof
    assume "inj_on ?f (key ` set rs)"
    from inj_onD [OF this _ keys(1,2)] show False using keys(3) by simp
  qed
  ultimately have "\<not> distinct (map key ?rs)" by (simp only: distinct_map set_map) simp
  moreover have "change_route key old new rs = Inr ?rs" using keys(1) by (auto simp: change_route_def image_iff)
  ultimately show ?thesis by blast
qed

text \<open>The same for the three lists together.\<close>

named_theorems route_ops \<open>definitions of the operations on route lists and tables\<close>

declare on_ipv4_def [route_ops] on_ipv6_def [route_ops] on_multicast_def [route_ops]
  merged_routes_def [route_ops] tables_def [route_ops] no_routes_def [route_ops]

lemma unless_missing_simps [simp]:
  "unless_missing (Some e) r = Inl e" "unless_missing None r = r"
  by (simp_all add: unless_missing_def)

text \<open>The parts of \<open>new\<close> that an operation merges are lists with their tables.\<close>

definition implements :: "string \<Rightarrow> static_routes \<Rightarrow> go_error + static_routes \<Rightarrow> go_error + route_tables \<Rightarrow> bool" where
  "implements operation cur new r \<longleftrightarrow>
     (case new of
        Inl e \<Rightarrow> r = Inl e
      | Inr s \<Rightarrow> r = Inr (tables (merged_routes operation s cur)) \<and> unique_keys (merged_routes operation s cur))"

lemma implements_create:
  assumes "unique_keys cur"
  shows "implements (rq_operation req) cur (create_routes req cur) (spec_create req (tables cur))"
proof -
  note table = add_route_table [of key4 "st_ipv4 (rq_route req)" "sr_ipv4 cur", symmetric]
    add_route_table [of key6 "st_ipv6 (rq_route req)" "sr_ipv6 cur", symmetric]
    add_route_table [of key_multicast "st_multicast (rq_route req)" "sr_multicast cur", symmetric]
  show ?thesis
    using assms table
    by (auto simp: implements_def create_routes_def spec_create_def unique_keys_def route_ops
             dest: add_route_unique split: sum.splits)
       (auto simp: map_sum_r_Inr map_sum_r_Inl route_ops dest: add_route_unique)
qed

lemma implements_delete:
  assumes "unique_keys cur"
  shows "implements (rq_operation req) cur (remaining_routes req cur) (spec_delete req (tables cur))"
proof -
  note table = drop_routes_table [of key4 "st_ipv4 (rq_route req)" "sr_ipv4 cur", symmetric]
    drop_routes_table [of key6 "st_ipv6 (rq_route req)" "sr_ipv6 cur", symmetric]
    drop_routes_table [of key_multicast "st_multicast (rq_route req)" "sr_multicast cur", symmetric]
  show ?thesis
    using assms table
    by (auto simp: implements_def remaining_routes_def spec_delete_def unique_keys_def unless_missing_def
               route_ops Let_def map_sum_r_Inr map_sum_r_Inl
             dest: drop_routes_unique split: sum.splits option.splits)
qed

text \<open>A change of one kind of route, for \<open>implements_change\<close>.\<close>

lemma moved:
  assumes "move_entry key old new (table_of key rs) = Some r" "distinct (map key rs)"
  shows "(\<exists>e. change_route key old new rs = Inl e \<and> r = Inl e)
    \<or> (\<exists>rs'. change_route key old new rs = Inr rs' \<and> r = Inr (table_of key rs') \<and> distinct (map key rs'))"
  using change_route_table [OF assms] by (cases "change_route key old new rs") auto

lemma implements_change:
  assumes "unique_keys cur" "spec_change operation old new (tables cur) = Some r"
  shows "implements operation cur (changed_routes operation old new cur) r"
proof -
  note m4 = moved [of key4 "st_ipv4 old" "st_ipv4 new" "sr_ipv4 cur"]
    and m6 = moved [of key6 "st_ipv6 old" "st_ipv6 new" "sr_ipv6 cur"]
    and mm = moved [of key_multicast "st_multicast old" "st_multicast new" "sr_multicast cur"]
  show ?thesis
    using assms m4 m6 mm
    by (fastforce simp: implements_def changed_routes_def spec_change_def unique_keys_def unless_missing_def
               route_ops split: option.splits if_splits)
qed

lemma change_collides:
  assumes "spec_change operation old new (tables cur) = None"
  shows "\<exists>s. changed_routes operation old new cur = Inr s \<and> \<not> unique_keys (merged_routes operation s cur)"
  using assms change_route_collides [of key4 "st_ipv4 old" "st_ipv4 new" "sr_ipv4 cur"]
    change_route_collides [of key6 "st_ipv6 old" "st_ipv6 new" "sr_ipv6 cur"]
    change_route_collides [of key_multicast "st_multicast old" "st_multicast new" "sr_multicast cur"]
  by (auto simp: changed_routes_def spec_change_def unique_keys_def unless_missing_def route_ops
      split: if_splits option.splits)

end
