(* ===== verification/Net_Roundtrip.thy ===== *)
theory Net_Roundtrip
  imports Net_Addr
begin

text \<open>
  Printing and parsing IPv6 addresses: the text form with its longest run of zero groups left out is read
  back as the same groups. With the lemmas on the dotted form this gives \<open>parse_addr_print\<close>: every address
  of 4 or 16 bytes that is not an IPv4 address in 16 bytes survives printing and parsing.
\<close>

subsection \<open>Hexadecimal groups\<close>

lemma hex_digit_val: "d < 16 \<Longrightarrow> hex_val (hex_digit d) = Some d"
  by (auto simp: hex_val_def hex_digit_def Let_def)

lemma hex_digit_hex: "d < 16 \<Longrightarrow> is_hex (hex_digit d)"
  by (simp add: is_hex_def hex_digit_val)

lemma not_hex [simp]: "\<not> is_hex (CHR '':'')" "\<not> is_hex (CHR ''.'')" "\<not> is_hex (CHR ''%'')" "\<not> is_hex (CHR ''/'')"
  by (simp_all add: is_hex_def hex_val_def)

lemma show_hex_hex: "\<forall>c \<in> set (show_hex n). is_hex c"
proof (induction n rule: show_hex.induct)
  case (1 n)
  then show ?case by (cases "n < 16") (auto simp: show_hex.simps [of n] hex_digit_hex)
qed

lemma show_hex_nonempty [simp]: "show_hex n \<noteq> []"
  by (subst show_hex.simps) simp

lemma hex_number_show: "hex_number (show_hex n) = n"
proof (induction n rule: show_hex.induct)
  case (1 n)
  show ?case
  proof (cases "n < 16")
    case True
    then show ?thesis by (simp add: show_hex.simps [of n] hex_number_def hex_digit_val)
  next
    case False
    have "hex_number (show_hex n) = hex_number (show_hex (n div 16)) * 16 + n mod 16"
      using False by (subst show_hex.simps) (simp add: hex_number_def hex_digit_val)
    then show ?thesis using "1.IH" [OF False] by simp
  qed
qed

lemma show_hex_length: "n < 16 ^ k \<Longrightarrow> 0 < k \<Longrightarrow> length (show_hex n) \<le> k"
proof (induction k arbitrary: n)
  case (Suc k)
  show ?case
  proof (cases "n < 16")
    case True then show ?thesis by (subst show_hex.simps) simp
  next
    case False
    then have "0 < k" using Suc.prems by (cases k) auto
    moreover have "n div 16 < 16 ^ k" using Suc.prems(1) by (simp add: less_mult_imp_div_less mult.commute)
    ultimately show ?thesis using Suc.IH False by (subst show_hex.simps) simp
  qed
qed simp

lemma show_hex_short: "g < 65536 \<Longrightarrow> length (show_hex g) \<le> 4"
  using show_hex_length [of g 4] by simp

subsection \<open>One step of the parser\<close>

lemma hex_take: "takeWhile is_hex (show_hex g @ c # t) = show_hex g"
  "dropWhile is_hex (show_hex g @ c # t) = c # t" if "\<not> is_hex c"
  using that show_hex_hex [of g] by (auto simp: takeWhile_append dropWhile_append)

lemma hex_take_all: "takeWhile is_hex (show_hex g) = show_hex g" "dropWhile is_hex (show_hex g) = []"
  using show_hex_hex [of g] by auto

lemma v6_last: "g < 65536 \<Longrightarrow> v6_groups (Suc n) gs e (show_hex g) = Some (gs @ [g], e, [])"
  using show_hex_short [of g] by (simp add: hex_take_all hex_number_show Let_def)

lemma v6_step:
  assumes "g < 65536" "t \<noteq> []" "hd t \<noteq> CHR '':''"
  shows "v6_groups (Suc n) gs e (show_hex g @ CHR '':'' # t) = v6_groups n (gs @ [g]) e t"
  using assms show_hex_short [OF assms(1)] by (simp add: hex_take hex_number_show Let_def)

lemma v6_ellipsis:
  assumes "g < 65536"
  shows "v6_groups (Suc n) gs None (show_hex g @ ''::'' @ t) =
    (if t = [] then Some (gs @ [g], Some (length gs + 1), [])
     else v6_groups n (gs @ [g]) (Some (length gs + 1)) t)"
  using assms show_hex_short [OF assms] by (simp add: hex_take hex_number_show Let_def)

subsection \<open>Lists of groups\<close>

lemma hd_colons: "hs \<noteq> [] \<Longrightarrow> hd (colons (map show_hex hs) @ r) \<noteq> CHR '':''"
  "hs \<noteq> [] \<Longrightarrow> colons (map show_hex hs) \<noteq> []"
proof -
  have "is_hex (hd (show_hex h))" for h using show_hex_hex [of h] by (cases "show_hex h") auto
  then have first: "hd (show_hex h) \<noteq> CHR '':''" for h by (metis not_hex(1))
  show "hs \<noteq> [] \<Longrightarrow> hd (colons (map show_hex hs) @ r) \<noteq> CHR '':''"
    using first by (cases hs; cases "tl hs") (auto simp: hd_append)
  show "hs \<noteq> [] \<Longrightarrow> colons (map show_hex hs) \<noteq> []"
    by (cases hs; cases "tl hs") auto
qed

lemma v6_colons:
  assumes "hs \<noteq> []" "length hs \<le> n" "\<forall>h \<in> set hs. h < 65536"
  shows "v6_groups n gs e (colons (map show_hex hs)) = Some (gs @ hs, e, [])"
  using assms
proof (induction hs arbitrary: n gs rule: induct_list012)
  case (2 h)
  then show ?case by (cases n) (auto simp: v6_last simp del: v6_groups.simps)
next
  case (3 h h' hs)
  then obtain m where n: "n = Suc m" by (cases n) auto
  have rest: "colons (map show_hex (h' # hs)) \<noteq> []" "hd (colons (map show_hex (h' # hs))) \<noteq> CHR '':''"
    using hd_colons(2) [of "h' # hs"] hd_colons(1) [of "h' # hs" "[]"] by simp_all
  have "v6_groups n gs e (colons (map show_hex (h # h' # hs)))
        = v6_groups m (gs @ [h]) e (colons (map show_hex (h' # hs)))"
    using v6_step [OF _ rest, of h m gs e] 3(5) by (simp add: n del: v6_groups.simps)
  then show ?case using "3.IH"(2) [of m "gs @ [h]"] 3(4,5) n by (simp del: v6_groups.simps)
qed simp

lemma v6_colons_ellipsis:
  assumes "hs \<noteq> []" "length hs \<le> n" "\<forall>h \<in> set hs. h < 65536"
  shows "v6_groups n gs None (colons (map show_hex hs) @ ''::'' @ r) =
    (if r = [] then Some (gs @ hs, Some (length gs + length hs), [])
     else v6_groups (n - length hs) (gs @ hs) (Some (length gs + length hs)) r)"
  using assms
proof (induction hs arbitrary: n gs rule: induct_list012)
  case (2 h)
  then show ?case using v6_ellipsis [of h "n - 1" gs r] by (cases n) (auto simp del: v6_groups.simps)
next
  case (3 h h' hs)
  then obtain m where n: "n = Suc m" by (cases n) auto
  let ?t = "colons (map show_hex (h' # hs)) @ ''::'' @ r"
  have rest: "?t \<noteq> []" "hd ?t \<noteq> CHR '':''"
    using hd_colons(2) [of "h' # hs"] hd_colons(1) [of "h' # hs" "''::'' @ r"] by simp_all
  have "v6_groups n gs None (colons (map show_hex (h # h' # hs)) @ ''::'' @ r) = v6_groups m (gs @ [h]) None ?t"
    using v6_step [OF _ rest, of h m gs None] 3(5) by (simp add: n del: v6_groups.simps)
  then show ?case using "3.IH"(2) [of m "gs @ [h]"] 3(4,5) n by (simp del: v6_groups.simps)
qed simp

subsection \<open>The longest run of zeros\<close>

lemma zero_run_zeros:
  assumes "i \<le> length gs"
  shows "take (zero_run gs i) (drop i gs) = replicate (zero_run gs i) 0" "i + zero_run gs i \<le> length gs"
proof -
  have "takeWhile (\<lambda>g. g = 0) xs = replicate (length (takeWhile (\<lambda>g. g = (0::nat)) xs)) 0" for xs
    by (induction xs) auto
  then show "take (zero_run gs i) (drop i gs) = replicate (zero_run gs i) 0"
    by (metis zero_run_def takeWhile_eq_take)
  have "zero_run gs i \<le> length (drop i gs)" unfolding zero_run_def by (rule length_takeWhile_le)
  then show "i + zero_run gs i \<le> length gs" using assms by simp
qed

text \<open>A run of at least two groups that lies within the list.\<close>

definition good_run :: "nat list \<Rightarrow> nat \<times> nat \<Rightarrow> bool" where
  "good_run gs r \<longleftrightarrow>
     (case r of (st, n) \<Rightarrow> n = 0 \<or> 2 \<le> n \<and> st + n \<le> length gs \<and> take n (drop st gs) = replicate n 0)"

lemma longest_run_good:
  assumes "length gs = 8"
  shows "good_run gs (longest_run gs)"
proof -
  have "good_run gs (fold (\<lambda>i (st, n). if 2 \<le> zero_run gs i \<and> n < zero_run gs i
                            then (i, zero_run gs i) else (st, n)) js r)"
    if "good_run gs r" "\<forall>i \<in> set js. i < 8" for js r
    using that
  proof (induction js arbitrary: r)
    case (Cons i js)
    have "good_run gs (case r of (st, n) \<Rightarrow> if 2 \<le> zero_run gs i \<and> n < zero_run gs i
                         then (i, zero_run gs i) else (st, n))"
      using Cons.prems zero_run_zeros [of i gs] assms by (auto simp: good_run_def split: prod.splits)
    then show ?case using Cons by simp
  qed simp
  then show ?thesis by (simp add: longest_run_def good_run_def)
qed

subsection \<open>Parsing what was printed\<close>

lemma chars_of_colons:
  "c \<in> set (colons (map show_hex hs)) \<Longrightarrow> is_hex c \<or> c = CHR '':''"
  by (induction hs rule: induct_list012) (use show_hex_hex in auto)

lemma v6_string_chars: "c \<in> set (v6_string gs) \<Longrightarrow> is_hex c \<or> c = CHR '':''"
  by (auto simp: v6_string_def split: prod.splits if_splits dest!: chars_of_colons)

lemma no_double_colon:
  assumes "hs \<noteq> []"
  shows "\<not> has_prefix (colons (map show_hex hs) @ r) ''::''"
  using hd_colons(1) [OF assms, of r] by (cases "colons (map show_hex hs) @ r") (auto simp: has_prefix_def)

lemma parse_v6_string:
  assumes "length gs = 8" "\<forall>g \<in> set gs. g < 65536"
  shows "parse_v6 (v6_string gs) = Some gs"
proof -
  obtain st n where run: "longest_run gs = (st, n)" by fastforce
  let ?pre = "take st gs" and ?post = "drop (st + n) gs"
  have zone: "CHR ''%'' \<notin> set (v6_string gs)" using v6_string_chars [of "CHR ''%''" gs] by auto
  have bounds: "\<forall>g \<in> set ?pre. g < 65536" "\<forall>g \<in> set ?post. g < 65536"
    using assms(2) by (auto dest: in_set_takeD in_set_dropD)
  show ?thesis
  proof (cases "n = 0")
    case True
    then have shape: "v6_string gs = colons (map show_hex gs)" by (simp add: v6_string_def run)
    have "gs \<noteq> []" using assms(1) by auto
    then show ?thesis
      using zone no_double_colon [of gs "[]"] v6_colons [of gs 8 "[]" None] assms
      by (simp add: parse_v6_def shape v6_finish_def del: v6_groups.simps)
  next
    case False
    then have good: "2 \<le> n" "st + n \<le> 8" "take n (drop st gs) = replicate n 0"
      using longest_run_good [OF assms(1)] assms(1) by (auto simp: run good_run_def)
    have whole: "gs = ?pre @ replicate n 0 @ ?post"
      by (metis append_take_drop_id drop_drop good(3) add.commute)
    have len: "length ?pre = st" "length ?post = 8 - st - n" using good assms(1) by auto
    have shape: "v6_string gs = colons (map show_hex ?pre) @ ''::'' @ colons (map show_hex ?post)"
      using False by (simp add: v6_string_def run)
    have post: "v6_groups m ?pre (Some st) (colons (map show_hex ?post)) = Some (?pre @ ?post, Some st, [])"
      if "?post \<noteq> []" "8 - st \<le> m" for m
      using v6_colons [OF that(1) _ bounds(2)] that(2) len by simp
    have finish: "v6_finish (Some (?pre @ ?post, Some st, [])) = Some gs"
    proof -
      have "take st (?pre @ ?post) @ replicate (8 - length (?pre @ ?post)) 0 @ drop st (?pre @ ?post)
            = ?pre @ replicate n 0 @ ?post"
        using len good by simp
      then show ?thesis using whole len good by (simp add: v6_finish_def)
    qed
    show ?thesis
    proof (cases "st = 0")
      case True
      show ?thesis
      proof (cases "?post = []")
        case True
        then have "n = 8" using \<open>st = 0\<close> len good by simp
        then show ?thesis using zone shape \<open>st = 0\<close> True whole
          by (simp add: parse_v6_def has_prefix_def)
      next
        case False
        then have "colons (map show_hex ?post) \<noteq> []" using hd_colons(2) by blast
        then show ?thesis using zone shape \<open>st = 0\<close> post [OF False, of 8] finish
          by (simp add: parse_v6_def has_prefix_def del: v6_groups.simps)
      qed
    next
      case False
      then have ne: "?pre \<noteq> []" using len(1) by auto
      have "v6_groups 8 [] None (v6_string gs) = Some (?pre @ ?post, Some st, [])"
        using v6_colons_ellipsis [OF ne _ bounds(1), of 8 "[]" "colons (map show_hex ?post)"]
          post [of "8 - st"] len good hd_colons(2) [of ?post]
        by (cases "?post = []") (auto simp: shape simp del: v6_groups.simps)
      then show ?thesis using zone no_double_colon [OF ne] finish
        by (simp add: parse_v6_def shape del: v6_groups.simps)
    qed
  qed
qed

subsection \<open>Addresses\<close>

lemma unat_div_mod_help:
  "(unat (a :: 8 word) * 256 + unat (b :: 8 word)) div 256 = unat a"
  "(unat a * 256 + unat b) mod 256 = unat b" "unat b mod 256 = unat b"
proof -
  have "unat b < 256" using unsigned_less [of b] by simp
  then show "(unat a * 256 + unat b) div 256 = unat a" "(unat a * 256 + unat b) mod 256 = unat b"
    "unat b mod 256 = unat b"
    by simp_all
qed

lemma bytes_groups_props:
  "\<forall>g \<in> set (bytes_groups ip). g < 65536" "even (length ip) \<Longrightarrow> 2 * length (bytes_groups ip) = length ip"
proof (induction ip rule: bytes_groups.induct)
  case (1 a b ip)
  have "unat a < 256" "unat b < 256" using unsigned_less [of a] unsigned_less [of b] by simp_all
  then have "unat a * 256 + unat b < 65536" by linarith
  with 1 show "\<forall>g \<in> set (bytes_groups (a # b # ip)). g < 65536" by simp
  show "even (length (a # b # ip)) \<Longrightarrow> 2 * length (bytes_groups (a # b # ip)) = length (a # b # ip)"
    using 1 by simp
qed auto

lemma group_bytes_groups: "even (length ip) \<Longrightarrow> group_bytes (bytes_groups ip) = ip"
  by (induction ip rule: bytes_groups.induct) (auto simp: group_bytes_def unat_div_mod_help)

lemma v6_string_colon: "length gs = 8 \<Longrightarrow> CHR '':'' \<in> set (v6_string gs)"
proof -
  assume len: "length gs = 8"
  then obtain a b r where "gs = a # b # r" by (cases gs; cases "tl gs") auto
  then have "CHR '':'' \<in> set (colons (map show_hex gs))" by simp
  then show ?thesis by (cases "longest_run gs") (auto simp: v6_string_def)
qed

lemma find_colon:
  "\<forall>c \<in> set s. is_hex c \<or> c = CHR '':'' \<Longrightarrow> CHR '':'' \<in> set s \<Longrightarrow>
   find (\<lambda>c. c = CHR ''.'' \<or> c = CHR '':'' \<or> c = CHR ''%'') s = Some (CHR '':'')"
  by (induction s) auto

lemma four_bytes: "length ip = 4 \<Longrightarrow> \<exists>a b c d. ip = [a, b, c, d]"
  by (cases ip; cases "tl ip"; cases "tl (tl ip)"; cases "tl (tl (tl ip))") auto

text \<open>An address as the kernel lists it: four bytes, or sixteen that are no IPv4 address.\<close>

definition kernel_ip :: "net_ip \<Rightarrow> bool" where
  "kernel_ip ip \<longleftrightarrow> length ip = 4 \<or> (length ip = 16 \<and> To4 ip = [])"

theorem parse_addr_print:
  assumes "kernel_ip ip"
  shows "parse_addr (ip_string ip) = Some (To16 ip, 8 * length ip)"
proof (cases "length ip = 4")
  case True
  then obtain a b c d where ip: "ip = [a, b, c, d]" using four_bytes by blast
  show ?thesis by (simp add: ip ip_string_def To4_def To16_def parse_addr_dotted)
next
  case False
  then have len: "length ip = 16" "To4 ip = []" "ip \<noteq> []" using assms by (auto simp: kernel_ip_def)
  let ?gs = "bytes_groups ip"
  have gs: "length ?gs = 8" "\<forall>g \<in> set ?gs. g < 65536" "group_bytes ?gs = ip"
    using bytes_groups_props [of ip] group_bytes_groups [of ip] len by simp_all
  have "find (\<lambda>c. c = CHR ''.'' \<or> c = CHR '':'' \<or> c = CHR ''%'') (v6_string ?gs) = Some (CHR '':'')"
    using v6_string_chars v6_string_colon [OF gs(1)] by (intro find_colon) blast+
  then show ?thesis
    using len gs parse_v6_string [OF gs(1,2)] by (simp add: ip_string_def parse_addr_def To16_def)
qed

lemma ip_string_no_slash:
  assumes "kernel_ip ip"
  shows "CHR ''/'' \<notin> set (ip_string ip)"
proof (cases "length ip = 4")
  case True
  then obtain a b c d where ip: "ip = [a, b, c, d]" using four_bytes by blast
  show ?thesis by (simp add: ip ip_string_def To4_def dotted_no_slash)
next
  case False
  then have "ip_string ip = v6_string (bytes_groups ip)"
    using assms by (auto simp: kernel_ip_def ip_string_def)
  then show ?thesis using v6_string_chars [of "CHR ''/''"] by auto
qed

lemma split_once:
  "d \<notin> set s \<Longrightarrow> d \<notin> set t \<Longrightarrow> split_on d (s @ d # t) = [s, t]"
proof (induction s)
  case Nil
  have "d \<notin> set t \<Longrightarrow> split_on d t = [t]" by (induction t) auto
  with Nil show ?case by simp
next
  case (Cons c s)
  then have "split_on d (s @ d # t) = [s, t]" "c \<noteq> d" by auto
  then show ?case by simp
qed

end
