(* ===== verification/Host_Actions.thy ===== *)
theory Host_Actions
  imports Interface_Config Interface_Validations
begin

text \<open>
  The state the interface services work on, the kernel and the document of \<open>interface_config.yaml\<close>, and
  the way they work on it: an action is a function from the state to an error or a result and the state
  afterwards; an action stops at the first error, with what was done so far. A panic passes through
  wherever the source replaces or annotates an error.
\<close>

named_theorems act_simps \<open>rules that run an action\<close>

record ('k, 'y) host =
  kernel :: 'k
  net_doc :: "'y option"

type_synonym ('s, 'a) act = "'s \<Rightarrow> (go_error + 'a) \<times> 's"

definition ret :: "'a \<Rightarrow> ('s, 'a) act" where "ret x s = (Inr x, s)"

definition fail :: "go_error \<Rightarrow> ('s, 'a) act" where "fail e s = (Inl e, s)"

definition bind_act :: "('s, 'a) act \<Rightarrow> ('a \<Rightarrow> ('s, 'b) act) \<Rightarrow> ('s, 'b) act" where
  "bind_act m f s = (case m s of (Inl e, s') \<Rightarrow> (Inl e, s') | (Inr x, s') \<Rightarrow> f x s')"

text \<open>One action after another, without its result.\<close>

definition andthen :: "('s, unit) act \<Rightarrow> ('s, 'b) act \<Rightarrow> ('s, 'b) act" where
  "andthen m n = bind_act m (\<lambda>_. n)"

fun all_of :: "('s, unit) act list \<Rightarrow> ('s, unit) act" where
  "all_of [] = ret ()"
| "all_of (m # ms) = andthen m (all_of ms)"

definition for_each :: "'a list \<Rightarrow> ('a \<Rightarrow> ('s, unit) act) \<Rightarrow> ('s, unit) act" where
  "for_each xs f = all_of (map f xs)"

definition check :: "go_error option \<Rightarrow> ('s, unit) act" where
  "check e s = (case e of None \<Rightarrow> (Inr (), s) | Some e \<Rightarrow> (Inl e, s))"

definition only_if :: "bool \<Rightarrow> ('s, unit) act \<Rightarrow> ('s, unit) act" where
  "only_if b m = (if b then m else ret ())"

text \<open>An error becomes another one; the source prints or drops the original.\<close>

definition or_error :: "string \<Rightarrow> ('s, 'a) act \<Rightarrow> ('s, 'a) act" where
  "or_error msg m s =
     (case m s of (Inl (Err e), s') \<Rightarrow> (Inl (Err msg), s') | r \<Rightarrow> r)"

definition with_prefix :: "string \<Rightarrow> ('s, 'a) act \<Rightarrow> ('s, 'a) act" where
  "with_prefix msg m s =
     (case m s of (Inl (Err e), s') \<Rightarrow> (Inl (Err (msg @ e)), s') | r \<Rightarrow> r)"

text \<open>An error is printed and the action goes on.\<close>

definition only_print :: "('s, unit) act \<Rightarrow> ('s, unit) act" where
  "only_print m s =
     (case m s of (Inl (Err e), s') \<Rightarrow> (Inr (), s') | r \<Rightarrow> r)"

subsection \<open>Kernel and file\<close>

definition query :: "('k \<Rightarrow> go_error + 'a) \<Rightarrow> (('k, 'y, 'm) host_scheme, 'a) act" where
  "query f s = (f (kernel s), s)"

definition command :: "('k \<Rightarrow> go_error option \<times> 'k) \<Rightarrow> (('k, 'y, 'm) host_scheme, unit) act" where
  "command f s =
     (case f (kernel s) of
        (None, k) \<Rightarrow> (Inr (), s\<lparr>kernel := k\<rparr>)
      | (Some e, k) \<Rightarrow> (Inl e, s\<lparr>kernel := k\<rparr>))"

definition file_command ::
  "('y option \<Rightarrow> go_error option \<times> 'y option) \<Rightarrow> (('k, 'y, 'm) host_scheme, unit) act" where
  "file_command f s =
     (case f (net_doc s) of
        (None, d) \<Rightarrow> (Inr (), s\<lparr>net_doc := d\<rparr>)
      | (Some e, d) \<Rightarrow> (Inl e, s\<lparr>net_doc := d\<rparr>))"

definition file_query ::
  "('y option \<Rightarrow> (go_error + 'a) \<times> 'y option) \<Rightarrow> (('k, 'y, 'm) host_scheme, 'a) act" where
  "file_query f s = (let (r, d) = f (net_doc s) in (r, s\<lparr>net_doc := d\<rparr>))"

text \<open>A function that cannot fail.\<close>

definition file_read ::
  "('y option \<Rightarrow> 'a \<times> 'y option) \<Rightarrow> (('k, 'y, 'm) host_scheme, 'a) act" where
  "file_read f s = (let (r, d) = f (net_doc s) in (Inr r, s\<lparr>net_doc := d\<rparr>))"

subsection \<open>Steps the services share\<close>

text \<open>\<open>LinkByName\<close> with the message for a missing link.\<close>

definition the_link ::
  "('k, 'e) netlink_scheme \<Rightarrow> string \<Rightarrow> string \<Rightarrow> (('k, 'y, 'm) host_scheme, link) act" where
  "the_link nl name msg = or_error msg (query (\<lambda>k. LinkByName nl k name))"

definition typed_link ::
  "('k, 'e) netlink_scheme \<Rightarrow> string \<Rightarrow> string \<Rightarrow> string \<Rightarrow> string
   \<Rightarrow> (('k, 'y, 'm) host_scheme, link) act" where
  "typed_link nl name kind missing expected =
     bind_act (the_link nl name missing) (\<lambda>l.
       if lk_type l \<noteq> kind then
         fail (Err (''Interface '' @ name @ '' is a type of '' @ lk_type l @ '', not a '' @ expected))
       else ret l)"

text \<open>Adding the validated address of a request; an invalid one is a nil prefix.\<close>

definition add_address ::
  "('k, 'e) netlink_scheme \<Rightarrow> string \<Rightarrow> string \<Rightarrow> string \<Rightarrow> string \<Rightarrow> (('k, 'y, 'm) host_scheme, unit) act" where
  "add_address nl name ip netmask msg =
     or_error msg (command (AddrAdd nl name (snd (ValidateIPNetmask ip netmask))))"

text \<open>The static addresses of a new bridge or bond.\<close>

definition new_addresses ::
  "('k, 'e) netlink_scheme \<Rightarrow> string \<Rightarrow> ipv4_details \<Rightarrow> ipv6_details \<Rightarrow> string
   \<Rightarrow> (('k, 'y, 'm) host_scheme, unit) act" where
  "new_addresses nl name d4 d6 msg =
     andthen
       (only_if (v4_on d4 \<and> v4_mode d4 = STATIC_STRING) (add_address nl name (v4_address d4) (v4_netmask d4) msg))
       (only_if (v6_on d6 \<and> v6_mode d6 = STATIC_STRING) (add_address nl name (v6_address d6) (v6_prefix d6) msg))"

definition set_hardware ::
  "('k, 'e) netlink_scheme \<Rightarrow> string \<Rightarrow> string \<Rightarrow> string \<Rightarrow> (('k, 'y, 'm) host_scheme, unit) act" where
  "set_hardware nl name hwaddr msg =
     (case ValidateAndGetHardwareAddress hwaddr of
        Inl e \<Rightarrow> fail (the (annotate ''Invalid hardware address: '' (Some e)))
      | Inr hw \<Rightarrow> or_error msg (command (LinkSetHardwareAddr nl name hw)))"

text \<open>
  Replacing the primary address of a link by that of a request: \<open>asked\<close> is the address whose text is
  compared, \<open>written\<close> the one that is added.
\<close>

definition replace_primary ::
  "('k, 'e) netlink_scheme \<Rightarrow> link \<Rightarrow> string \<Rightarrow> string \<Rightarrow> string \<Rightarrow> string \<Rightarrow> string
   \<Rightarrow> (('k, 'y, 'm) host_scheme, unit) act" where
  "replace_primary nl l asked_ip asked_mask ip netmask msg =
     bind_act (query (\<lambda>k. Inr (GetPrimaryIPAddress nl k l))) (\<lambda>primary.
       only_if (asked_ip @ ''/'' @ asked_mask \<noteq> primary)
         (with_prefix msg (command (PerformIpDel nl l primary ip netmask))))"

text \<open>
  The address part of an update: IPv6 is looked at only when the request has no IPv4 part. The
  comparison uses the details \<open>c4\<close> and \<open>c6\<close>, the change those of \<open>d4\<close> and \<open>d6\<close>.
\<close>

definition update_addresses ::
  "('k, 'e) netlink_scheme \<Rightarrow> link \<Rightarrow> ipv4_details \<Rightarrow> ipv6_details \<Rightarrow> ipv4_details \<Rightarrow> ipv6_details
   \<Rightarrow> string \<Rightarrow> (('k, 'y, 'm) host_scheme, unit) act" where
  "update_addresses nl l c4 c6 d4 d6 msg =
     (if v4_on c4 then
        only_if (v4_mode c4 = STATIC_STRING)
          (replace_primary nl l (v4_address c4) (v4_netmask c4) (v4_address d4) (v4_netmask d4) msg)
      else
        only_if (v6_on c6 \<and> v6_mode c6 = STATIC_STRING)
          (replace_primary nl l (v6_address c6) (v6_prefix c6) (v6_address d6) (v6_prefix d6) msg))"

text \<open>The description of a member, a slave or a parent in a listing.\<close>

definition member_info ::
  "('k, 'e) netlink_scheme \<Rightarrow> string \<Rightarrow> link \<Rightarrow> (('k, 'y, 'm) host_scheme, member_interface) act" where
  "member_info nl name l =
     bind_act (query (\<lambda>k. GetIPVersion nl k l)) (\<lambda>version.
       query (\<lambda>k. Inr \<lparr>mb_name = name, mb_hardware = lk_hardware l, mb_ip = GetPrimaryIPAddress nl k l,
                       mb_protocol = GetIPProtocol nl k l, mb_version = version, mb_mtu = lk_mtu l\<rparr>))"

text \<open>A loop that collects results.\<close>

fun collect :: "('a \<Rightarrow> ('s, 'b) act) \<Rightarrow> 'a list \<Rightarrow> ('s, 'b list) act" where
  "collect f [] = ret []"
| "collect f (x # xs) = bind_act (f x) (\<lambda>y. bind_act (collect f xs) (\<lambda>ys. ret (y # ys)))"

subsection \<open>Running actions\<close>

lemma bind_act_simps [act_simps]:
  "bind_act (ret x) f = f x"
  "bind_act (fail e) f = fail e"
  "ret x s = (Inr x, s)" "fail e s = (Inl e, s)"
  by (auto simp: bind_act_def ret_def fail_def fun_eq_iff)

lemma andthen_run: "andthen m n s = (case m s of (Inl e, s') \<Rightarrow> (Inl e, s') | (Inr x, s') \<Rightarrow> n s')"
  by (simp add: andthen_def bind_act_def)

lemma only_if_simps [act_simps]: "only_if True m = m" "only_if False m = ret ()"
  by (simp_all add: only_if_def)

lemma check_simps [act_simps]: "check None s = (Inr (), s)" "check (Some e) s = (Inl e, s)"
  by (simp_all add: check_def)

lemma andthen_Inr: "andthen m n s = (Inr x, s'') \<longleftrightarrow> (\<exists>s'. m s = (Inr (), s') \<and> n s' = (Inr x, s''))"
  by (auto simp: andthen_run split: sum.splits prod.splits)

lemma bind_act_Inr:
  "bind_act m f s = (Inr y, s'') \<longleftrightarrow> (\<exists>x s'. m s = (Inr x, s') \<and> f x s' = (Inr y, s''))"
  by (auto simp: bind_act_def split: sum.splits prod.splits)

lemma or_error_Inr: "or_error msg m s = (Inr x, s') \<longleftrightarrow> m s = (Inr x, s')"
  by (auto simp: or_error_def split: sum.splits prod.splits go_error.splits)

lemma with_prefix_Inr: "with_prefix msg m s = (Inr x, s') \<longleftrightarrow> m s = (Inr x, s')"
  by (auto simp: with_prefix_def split: sum.splits prod.splits go_error.splits)

lemma check_Inr: "check e s = (Inr x, s') \<longleftrightarrow> e = None \<and> s' = s"
  by (auto simp: check_def split: option.splits)

lemma query_Inr: "query f s = (Inr x, s') \<longleftrightarrow> f (kernel s) = Inr x \<and> s' = s"
  by (auto simp: query_def)

lemma command_Inr:
  "command f s = (Inr x, s') \<longleftrightarrow> (\<exists>k. f (kernel s) = (None, k) \<and> s' = s\<lparr>kernel := k\<rparr>)"
  by (auto simp: command_def split: option.splits prod.splits)

lemma the_link_Inr:
  "the_link nl name msg s = (Inr l, s') \<longleftrightarrow> LinkByName nl (kernel s) name = Inr l \<and> s' = s"
  by (simp add: the_link_def or_error_Inr query_Inr)

lemma typed_link_Inr:
  "typed_link nl name kind missing expected s = (Inr l, s') \<longleftrightarrow>
     LinkByName nl (kernel s) name = Inr l \<and> lk_type l = kind \<and> s' = s"
  by (auto simp: typed_link_def bind_act_Inr the_link_Inr act_simps split: if_splits)

lemma only_if_Inr: "only_if b m s = (Inr x, s') \<longleftrightarrow> (if b then m s = (Inr x, s') else s' = s)"
  by (auto simp: only_if_def ret_def)

lemmas run_Inr = andthen_Inr bind_act_Inr or_error_Inr with_prefix_Inr check_Inr query_Inr command_Inr
  the_link_Inr typed_link_Inr only_if_Inr

lemma andthen_Inl:
  "andthen m n s = (Inl e, s'') \<longleftrightarrow> m s = (Inl e, s'') \<or> (\<exists>s'. m s = (Inr (), s') \<and> n s' = (Inl e, s''))"
  by (auto simp: andthen_run split: sum.splits prod.splits)

lemma bind_act_Inl:
  "bind_act m f s = (Inl e, s'') \<longleftrightarrow> m s = (Inl e, s'') \<or> (\<exists>x s'. m s = (Inr x, s') \<and> f x s' = (Inl e, s''))"
  by (auto simp: bind_act_def split: sum.splits prod.splits)

lemma check_Inl: "check r s = (Inl e, s') \<longleftrightarrow> r = Some e \<and> s' = s"
  by (auto simp: check_def split: option.splits)

lemma query_Inl: "query f s = (Inl e, s') \<longleftrightarrow> f (kernel s) = Inl e \<and> s' = s"
  by (auto simp: query_def)

lemma command_Inl: "command f s = (Inl e, s') \<longleftrightarrow> (\<exists>k. f (kernel s) = (Some e, k) \<and> s' = s\<lparr>kernel := k\<rparr>)"
  by (auto simp: command_def split: option.splits prod.splits)

lemmas act_Inl = andthen_Inl bind_act_Inl check_Inl query_Inl command_Inl

end
