(* ===== verification/Bridges.thy ===== *)
theory Bridges
  imports Host_Actions
begin

text \<open>
  \<open>service/interfaces/bridge/bridge.go\<close>: creating, changing, listing and deleting bridges. Log lines and
  the requests that are only printed (routing, ARP, MSS, STP, DHCP) have no effect in the source.
\<close>

subsection \<open>Listing\<close>

definition bridge_members_of :: "link \<Rightarrow> link list \<Rightarrow> string list" where
  "bridge_members_of b ls =
     map lk_name (filter (\<lambda>l. lk_type l \<noteq> BRIDGE_STRING \<and> lk_master l = lk_index b) ls)"

text \<open>\<open>getMemberInterfaces\<close>; the list of links is fetched when none is given, an error gives no members.\<close>

definition getMemberInterfaces ::
  "('k, 'e) netlink_scheme \<Rightarrow> link \<Rightarrow> link list \<Rightarrow> 'k \<Rightarrow> string list" where
  "getMemberInterfaces nl b ls k =
     bridge_members_of b
       (if ls = [] then (case LinkList nl k of Inl e \<Rightarrow> [] | Inr all \<Rightarrow> all) else ls)"

definition bridge_info ::
  "('k, 'e) netlink_scheme \<Rightarrow> link list \<Rightarrow> (string \<Rightarrow> config_fields option) \<Rightarrow> link
   \<Rightarrow> (('k, 'y, 'm) host_scheme, bridge_interface) act" where
  "bridge_info nl ls fs l =
     bind_act (query (\<lambda>k. Inr (getMemberInterfaces nl l ls k))) (\<lambda>members.
     bind_act (collect (\<lambda>name. bind_act (the_link nl name (''Error while fetching Member interface '' @ name))
                                 (member_info nl name)) members) (\<lambda>details.
     bind_act (query (\<lambda>k. GetIPVersion nl k l)) (\<lambda>version.
       query (\<lambda>k. Inr
         \<lparr>bi_name = lk_name l, bi_count = int (length members), bi_hardware = lk_hardware l,
          bi_ip = GetPrimaryIPAddressV2 nl k l, bi_aliases = GetSecondaryIPAddressListV2 nl k l,
          bi_protocol = GetIPProtocol nl k l, bi_version = version, bi_members = details, bi_mtu = lk_mtu l,
          bi_editable = True, bi_deletable = True,
          bi_fields = (fields_or_zero fs (lk_name l))\<lparr>cf_disabled := False\<rparr>\<rparr>))))"

text \<open>One name is a single bridge; the empty name and \<open>all\<close> are every one.\<close>

definition one_link :: "string \<Rightarrow> bool" where
  "one_link name \<longleftrightarrow> name \<noteq> [] \<and> name \<noteq> ''all''"

definition chosen_links :: "string \<Rightarrow> string \<Rightarrow> link list \<Rightarrow> link list" where
  "chosen_links kind name ls =
     (let found = filter (\<lambda>l. lk_type l = kind \<and> (\<not> one_link name \<or> lk_name l = name)) ls in
      if one_link name then take 1 found else found)"

definition ListBridgeInterfaces ::
  "('y, 'f) net_env_scheme \<Rightarrow> ('k, 'e) netlink_scheme \<Rightarrow> string
   \<Rightarrow> (('k, 'y, 'm) host_scheme, bridge_interface list) act" where
  "ListBridgeInterfaces env nl name =
     bind_act (or_error ''Failed to fetch interfaces'' (query (LinkList nl))) (\<lambda>ls.
     andthen (only_if (one_link name)
               (bind_act (typed_link nl name BRIDGE_STRING (''Bridge interface '' @ name @ '' not found'')
                            ''Vlan interface'') (\<lambda>_. ret ())))
     (bind_act (file_read (FetchConfigSpecificFields env BRIDGE_STRING)) (\<lambda>fs.
       collect (bridge_info nl ls fs) (chosen_links BRIDGE_STRING name ls))))"

subsection \<open>The configuration file\<close>

text \<open>A single bridge is written when the listing starts with it, nothing otherwise.\<close>

definition single_row :: "('a \<Rightarrow> string) \<Rightarrow> string \<Rightarrow> 'a list \<Rightarrow> 'a list" where
  "single_row name_of name rows =
     (case rows of [] \<Rightarrow> [] | r # rs \<Rightarrow> if name_of r = name then [r] else [])"

definition UpdateBridgeConfig ::
  "('y, 'f) net_env_scheme \<Rightarrow> ('k, 'e) netlink_scheme \<Rightarrow> string \<Rightarrow> string
   \<Rightarrow> (('k, 'y, 'm) host_scheme, unit) act" where
  "UpdateBridgeConfig env nl name caller =
     bind_act (file_read (CheckIfInterfaceTypeIsEmpty env BRIDGE_STRING)) (\<lambda>empty.
     bind_act (with_prefix ''Bridge has been created but failed to fetch the updated bridge interfaces : ''
                 (ListBridgeInterfaces env nl (if empty then [] else name))) (\<lambda>rows.
       with_prefix ''Bridge has been created but failed to update the config file : ''
         (file_command
           (UpdateConfig_net env
              (zero_net\<lparr>BridgeInterfaces := (if empty then rows else single_row bi_name name rows)\<rparr>)
              BRIDGE_STRING name caller))))"

subsection \<open>Creating\<close>

definition bridge_alias ::
  "('k, 'e) netlink_scheme \<Rightarrow> bridge_request \<Rightarrow> (('k, 'y, 'm) host_scheme, unit) act" where
  "bridge_alias nl r =
     (if br_description r \<noteq> [] \<and> br_user_name r \<noteq> [] then
        or_error (''Failed to set alias name and description for bridge interface '' @ br_name r)
          (command (LinkSetAlias nl (br_name r) (br_user_name r @ '' : '' @ br_description r)))
      else if br_user_name r \<noteq> [] then
        or_error (''Failed to set alias name for bridge interface '' @ br_name r)
          (command (LinkSetAlias nl (br_name r) (br_user_name r)))
      else
        only_if (br_description r \<noteq> [])
          (or_error (''Failed to set description as alias name for bridge interface '' @ br_name r)
            (command (LinkSetAlias nl (br_name r) (br_description r)))))"

definition enslave_member ::
  "('k, 'e) netlink_scheme \<Rightarrow> string \<Rightarrow> string \<Rightarrow> (('k, 'y, 'm) host_scheme, unit) act" where
  "enslave_member nl bridge memIntf =
     only_if (trim_space memIntf \<noteq> [])
       (bind_act (the_link nl (trim_space memIntf) (''member interface '' @ trim_space memIntf @ '' not found''))
          (\<lambda>l. or_error (''Failed to add member interface '' @ trim_space memIntf @ '' to bridge'')
                 (command (LinkSetMaster nl (lk_name l) bridge))))"

text \<open>What is refused before the kernel is touched.\<close>

definition bridge_guards ::
  "('k, 'e) netlink_scheme \<Rightarrow> bridge_request \<Rightarrow> 'k \<Rightarrow> go_error option" where
  "bridge_guards nl req k =
     (let r = trim_bridge req; name = trim_space (br_name req) in
      first_error
       ([ValidateInterfaceName name BRIDGE_STRING,
         (case CheckInterfaceExists nl k name of
            None \<Rightarrow> Some (Err (''Bridge interface '' @ name @ '' already exists'')) | Some e \<Rightarrow> None),
         ValidateCreateBridgeRequest nl k r]
        @ map (\<lambda>m. snd (CheckIfMemberInterfaceHasMaster nl k m)) (br_members r)))"

definition configure_bridge ::
  "('k, 'e) netlink_scheme \<Rightarrow> bridge_request \<Rightarrow> (('k, 'y, 'm) host_scheme, unit) act" where
  "configure_bridge nl r =
     all_of
      [for_each (br_members r) (enslave_member nl (br_name r)),
       bridge_alias nl r,
       only_if (trim_space (br_hardware r) \<noteq> [])
         (set_hardware nl (br_name r) (br_hardware r)
            (''Failed to set hardware address for bridge interface '' @ br_name r)),
       new_addresses nl (br_name r) (br_v4 r) (br_v6 r)
         (''Failed to add IP address to bridge interface '' @ br_name r),
       only_if (br_mtu r \<noteq> 0)
         (or_error (''Failed to set MTU for bridge interface '' @ br_name r)
            (command (LinkSetMTU nl (br_name r) (br_mtu r))))]"

definition CreateBridgeInterface ::
  "('y, 'f) net_env_scheme \<Rightarrow> ('k, 'e) netlink_scheme \<Rightarrow> bridge_request
   \<Rightarrow> (('k, 'y, 'm) host_scheme, bridge_interface list) act" where
  "CreateBridgeInterface env nl req =
     (let r = trim_bridge req in
      bind_act (query (\<lambda>k. Inr (bridge_guards nl req k))) (\<lambda>refused.
      andthen (check refused)
     (andthen (or_error ''Failed to create bridge interface''
                (command (LinkAdd nl \<lparr>nl_name = br_name r, nl_kind = BRIDGE_STRING, nl_parent = 0,
                                      nl_vlan = 0, nl_mode = []\<rparr>)))
     (andthen (configure_bridge nl r)
     (andthen (UpdateBridgeConfig env nl (br_name r) ''CREATE BRIDGE'')
     (andthen (only_print (file_command (UpdateConfigSpecificFields env BRIDGE_STRING (br_name r)
                 \<lparr>cf_serving = br_serving r, cf_domain = br_domain r, cf_zone = br_zone r, cf_disabled = False\<rparr>
                 ''CREATE BRIDGE (config specific fields)'')))
       (with_prefix ''Bridge has been created but failed to fetch the updated bridge interfaces : ''
          (ListBridgeInterfaces env nl []))))))))"

subsection \<open>Changing\<close>

definition add_members ::
  "('k, 'e) netlink_scheme \<Rightarrow> string \<Rightarrow> string list \<Rightarrow> (('k, 'y, 'm) host_scheme, unit) act" where
  "add_members nl bridge names =
     for_each names (\<lambda>name.
       only_if (name \<noteq> [])
         (bind_act (the_link nl name (''Member interface to add '' @ name @ '' not found''))
            (\<lambda>l. or_error (''Failed to add interface '' @ name @ '' to bridge'')
                   (command (LinkSetMaster nl (lk_name l) bridge)))))"

definition remove_members ::
  "('k, 'e) netlink_scheme \<Rightarrow> string \<Rightarrow> string list \<Rightarrow> (('k, 'y, 'm) host_scheme, unit) act" where
  "remove_members nl bridge names =
     for_each names (\<lambda>name.
       only_if (name \<noteq> [])
         (bind_act (the_link nl name (''Member interface to remove '' @ name @ '' not found''))
            (\<lambda>l. or_error (''Failed to remove interface '' @ name @ '' from bridge '' @ bridge)
                   (command (LinkSetNoMaster nl (lk_name l))))))"

text \<open>The fields of the file are written when they differ from those it had before the update.\<close>

definition refresh_fields ::
  "('y, 'f) net_env_scheme \<Rightarrow> string \<Rightarrow> string \<Rightarrow> config_fields \<Rightarrow> config_fields \<Rightarrow> string \<Rightarrow> string
   \<Rightarrow> (('k, 'y, 'm) host_scheme, unit) act" where
  "refresh_fields env kind name old new caller msg =
     only_if (new \<noteq> old)
       (with_prefix msg (file_command (UpdateConfigSpecificFields env kind name new caller)))"

text \<open>The address that is written is the one of the request before it was trimmed.\<close>

definition UpdateBridgeInterface ::
  "('y, 'f) net_env_scheme \<Rightarrow> ('k, 'e) netlink_scheme \<Rightarrow> string \<Rightarrow> bridge_update
   \<Rightarrow> (('k, 'y, 'm) host_scheme, bridge_interface list) act" where
  "UpdateBridgeInterface env nl bridge req =
     (let name = trim_space bridge in
      bind_act (typed_link nl name BRIDGE_STRING (''Bridge interface '' @ name @ '' not found'')
                  ''bridge interface'') (\<lambda>b.
      bind_act (query (\<lambda>k. Inr (getMemberInterfaces nl b [] k))) (\<lambda>members.
        let t = trim_bridge_update req;
            (to_add, to_remove) = FetchAddRemoveFromList members (bu_members t);
            r = t\<lparr>bu_add := to_add, bu_remove := to_remove\<rparr> in
        bind_act (query (\<lambda>k. Inr (ValidateUpdateBridgeRequest nl k r name))) (\<lambda>refused.
        andthen (check refused)
       (andthen (check (fails_if (int (length members) + int (length to_add) - int (length to_remove) < 2)
                   ''Atleast 2 interfaces should remain as members for a bridge interface''))
       (andthen (add_members nl name to_add)
       (andthen (remove_members nl name to_remove)
       (andthen (only_if (trim_space (bu_hardware r) \<noteq> [] \<and> bu_hardware r \<noteq> lk_hardware b)
                   (set_hardware nl name (bu_hardware r)
                      (''Failed to update hardware address for bridge interface '' @ name)))
       (andthen (update_addresses nl b (bu_v4 r) (bu_v6 r) (bu_v4 req) (bu_v6 req)
                   (''Failed to delete IP address from bridge interface '' @ name @ '' with error : ''))
       (andthen (only_if (bu_mtu r \<noteq> 0 \<and> bu_mtu r \<noteq> lk_mtu b)
                   (or_error (''Failed to update MTU for bridge interface '' @ name)
                      (command (LinkSetMTU nl name (bu_mtu r)))))
       (bind_act (file_read (FetchConfigSpecificFields env BRIDGE_STRING)) (\<lambda>fs.
        andthen (UpdateBridgeConfig env nl name ''UPDATE BRIDGE'')
       (andthen (refresh_fields env BRIDGE_STRING name (fields_or_zero fs name) (bu_fields r)
                   ''UPDATE BRIDGE (config specific fields)''
                   ''Failed to update config specific fields for bridge interface : '')
         (with_prefix ''Bridge details has been updated but failed to fetch the updated bridge interfaces : ''
            (ListBridgeInterfaces env nl [])))))))))))))))"

subsection \<open>Deleting\<close>

definition DeleteBridgeInterface ::
  "('y, 'f) net_env_scheme \<Rightarrow> ('k, 'e) netlink_scheme \<Rightarrow> string
   \<Rightarrow> (('k, 'y, 'm) host_scheme, bridge_interface list) act" where
  "DeleteBridgeInterface env nl name =
     andthen (check (fails_if (name = []) ''Bridge interface name cannot be empty''))
    (bind_act (typed_link nl name BRIDGE_STRING (''Bridge interface '' @ name @ '' not found'')
                ''Vlan interface'') (\<lambda>b.
     andthen (or_error (''Failed to delete bridge interface '' @ name) (command (LinkDel nl (lk_name b))))
    (andthen (only_print (file_command (DeleteConfig_net env BRIDGE_STRING name ''DELETE BRIDGE'')))
      (with_prefix ''Bridge has been deleted but failed to fetch the updated bridge interfaces : ''
         (ListBridgeInterfaces env nl [])))))"

end
