(* ===== verification/Vlans_Bonds.thy ===== *)
theory Vlans_Bonds
  imports Bridges
begin

text \<open>
  \<open>service/interfaces/vlan/vlan.go\<close> and \<open>service/interfaces/bond/bond.go\<close>: creating, changing, listing and
  deleting vlans and bonds.
\<close>

subsection \<open>Vlans\<close>

definition FetchLinkFromIndex :: "link list \<Rightarrow> int \<Rightarrow> link option" where
  "FetchLinkFromIndex ls index = find (\<lambda>l. lk_index l = index) ls"

definition vlan_info ::
  "('k, 'e) netlink_scheme \<Rightarrow> (string \<Rightarrow> config_fields option) \<Rightarrow> link \<Rightarrow> link
   \<Rightarrow> (('k, 'y, 'm) host_scheme, vlan_interface) act" where
  "vlan_info nl fs parent l =
     bind_act (member_info nl (lk_name parent) parent) (\<lambda>p.
     bind_act (query (\<lambda>k. GetIPVersion nl k l)) (\<lambda>version.
       query (\<lambda>k. Inr
         \<lparr>vi_name = lk_name l, vi_parent = p, vi_hardware = lk_hardware l,
          vi_ip = GetPrimaryIPAddressV2 nl k l, vi_aliases = GetSecondaryIPAddressListV2 nl k l,
          vi_protocol = GetIPProtocol nl k l, vi_version = version, vi_mtu = lk_mtu l,
          vi_editable = True, vi_deletable = True,
          vi_fields = (fields_or_zero fs (lk_name l))\<lparr>cf_disabled := False\<rparr>\<rparr>)))"

text \<open>
  A vlan whose parent is not among the links is passed over; the search for a single vlan stops at the
  first one with a parent.
\<close>

definition chosen_vlans :: "string \<Rightarrow> link list \<Rightarrow> (link \<times> link) list" where
  "chosen_vlans name ls =
     (let found = List.map_filter
            (\<lambda>l. if lk_type l = VLAN_STRING \<and> (\<not> one_link name \<or> lk_name l = name)
                 then map_option (\<lambda>p. (p, l)) (FetchLinkFromIndex ls (lk_parent l)) else None) ls
      in if one_link name then take 1 found else found)"

definition ListVlanInterfaces ::
  "('y, 'f) net_env_scheme \<Rightarrow> ('k, 'e) netlink_scheme \<Rightarrow> string
   \<Rightarrow> (('k, 'y, 'm) host_scheme, vlan_interface list) act" where
  "ListVlanInterfaces env nl name =
     bind_act (or_error ''Failed to fetch interfaces'' (query (LinkList nl))) (\<lambda>ls.
     andthen (only_if (one_link name)
               (bind_act (typed_link nl name VLAN_STRING (''Vlan interface '' @ name @ '' not found'')
                            ''Vlan interface'') (\<lambda>_. ret ())))
     (bind_act (file_read (FetchConfigSpecificFields env VLAN_STRING)) (\<lambda>fs.
       collect (\<lambda>(p, l). vlan_info nl fs p l) (chosen_vlans name ls))))"

definition UpdateVlanConfig ::
  "('y, 'f) net_env_scheme \<Rightarrow> ('k, 'e) netlink_scheme \<Rightarrow> string \<Rightarrow> string
   \<Rightarrow> (('k, 'y, 'm) host_scheme, unit) act" where
  "UpdateVlanConfig env nl name caller =
     bind_act (file_read (CheckIfInterfaceTypeIsEmpty env VLAN_STRING)) (\<lambda>empty.
     bind_act (with_prefix ''Vlan has been created but failed to fetch the updated vlan interfaces : ''
                 (ListVlanInterfaces env nl (if empty then [] else name))) (\<lambda>rows.
       with_prefix ''Vlan has been created but failed to update the config file : ''
         (file_command
           (UpdateConfig_net env
              (zero_net\<lparr>VLANInterfaces := (if empty then rows else single_row vi_name name rows)\<rparr>)
              VLAN_STRING name caller))))"

text \<open>The error of \<open>LinkAdd\<close> for a pair of parent and id that is taken.\<close>

definition vlan_add_error :: "vlan_request \<Rightarrow> go_error option \<Rightarrow> go_error option" where
  "vlan_add_error r e =
     (if e = Some (Err ''file exists'') then
        Some (Err (''A Vlan interface with VlanId - '' @ show_int (vr_id r)
                   @ '' already exists with parent interface - '' @ vr_parent r))
      else annotate ''Failed to create Vlan interface: '' e)"

definition vlan_address ::
  "('k, 'e) netlink_scheme \<Rightarrow> string \<Rightarrow> bool \<Rightarrow> string \<Rightarrow> string \<Rightarrow> string \<Rightarrow> string
   \<Rightarrow> (('k, 'y, 'm) host_scheme, unit) act" where
  "vlan_address nl name on mode ip netmask version =
     only_if on
       (if mode = STATIC_STRING then
          add_address nl name ip netmask (''Failed to add IP address to vlan interface '' @ name)
        else if mode = DHCP_STRING then ret ()
        else fail (Err (''Invalid '' @ version @ '' assignment mode: '' @ mode @ '' for vlan interface '' @ name)))"

definition CreateVlanInterface ::
  "('y, 'f) net_env_scheme \<Rightarrow> ('k, 'e) netlink_scheme \<Rightarrow> vlan_request
   \<Rightarrow> (('k, 'y, 'm) host_scheme, vlan_interface list) act" where
  "CreateVlanInterface env nl req =
     (let r = trim_vlan req in
      andthen (check (ValidateInterfaceName (trim_space (vr_name req)) VLAN_STRING))
     (bind_act (query (\<lambda>k. Inr (ValidateCreateVlanRequest nl k r))) (\<lambda>refused.
      andthen (check refused)
     (bind_act (the_link nl (vr_parent r) (''Parent interface '' @ vr_parent r @ '' not found'')) (\<lambda>p.
      andthen (command (\<lambda>k. let (e, k') = LinkAdd nl \<lparr>nl_name = vr_name r, nl_kind = VLAN_STRING,
                                   nl_parent = lk_index p, nl_vlan = vr_id r, nl_mode = []\<rparr> k
                             in (vlan_add_error r e, k')))
     (andthen (vlan_address nl (vr_name r) (v4_on (vr_v4 r)) (v4_mode (vr_v4 r)) (v4_address (vr_v4 r))
                 (v4_netmask (vr_v4 r)) ''IPv4'')
     (andthen (vlan_address nl (vr_name r) (v6_on (vr_v6 r)) (v6_mode (vr_v6 r)) (v6_address (vr_v6 r))
                 (v6_prefix (vr_v6 r)) ''IPv6'')
     (andthen (UpdateVlanConfig env nl (vr_name r) ''CREATE VLAN'')
     (andthen (only_print (file_command (UpdateConfigSpecificFields env VLAN_STRING (vr_name r)
                 \<lparr>cf_serving = vr_serving r, cf_domain = vr_domain r, cf_zone = vr_zone r, cf_disabled = False\<rparr>
                 ''CREATE VLAN (config specific fields)'')))
       (with_prefix ''Vlan has been created succesfully but failed to list VLAN interfaces : ''
          (ListVlanInterfaces env nl [])))))))))))"

definition UpdateVlanInterface ::
  "('y, 'f) net_env_scheme \<Rightarrow> ('k, 'e) netlink_scheme \<Rightarrow> string \<Rightarrow> vlan_update
   \<Rightarrow> (('k, 'y, 'm) host_scheme, vlan_interface list) act" where
  "UpdateVlanInterface env nl name req =
     (let r = trim_vlan_update req in
      andthen (check (fails_if (name = []) ''Vlan interface name cannot be empty''))
     (bind_act (the_link nl name (''Vlan interface '' @ name @ '' not found'')) (\<lambda>l.
      andthen (check (ValidateUpdateVlanRequest r))
     (andthen (check (fails_if (lk_type l \<noteq> VLAN_STRING)
                 (''Interface '' @ name @ '' is a type of '' @ lk_type l @ '', not a Vlan interface'')))
     (andthen (update_addresses nl l (vu_v4 r) (vu_v6 r) (vu_v4 req) (vu_v6 req)
                 (''Failed to delete IP address from vlan interface '' @ name @ '' with error : ''))
     (bind_act (file_read (FetchConfigSpecificFields env VLAN_STRING)) (\<lambda>fs.
      andthen (UpdateVlanConfig env nl name ''UPDATE VLAN'')
     (andthen (refresh_fields env VLAN_STRING name (fields_or_zero fs name) (vu_fields r)
                 ''UPDATE VLAN (config specific fields)''
                 ''Failed to update config specific fields for vlan interface : '')
       (with_prefix (''Vlan interface '' @ name @ '' has been updated succesfully but failed to list VLAN interfaces : '')
          (ListVlanInterfaces env nl []))))))))))"

definition DeleteVlanInterface ::
  "('y, 'f) net_env_scheme \<Rightarrow> ('k, 'e) netlink_scheme \<Rightarrow> string
   \<Rightarrow> (('k, 'y, 'm) host_scheme, vlan_interface list) act" where
  "DeleteVlanInterface env nl name =
     andthen (check (fails_if (name = []) ''Vlan interface name cannot be empty''))
    (bind_act (typed_link nl name VLAN_STRING (''Vlan interface '' @ name @ '' not found'')
                ''Vlan interface'') (\<lambda>l.
     andthen (or_error (''Failed to delete Vlan interface '' @ name) (command (LinkDel nl (lk_name l))))
    (andthen (only_print (file_command (DeleteConfig_net env VLAN_STRING name ''DELETE VLAN'')))
      (with_prefix (''Vlan interface '' @ name @ '' has been deleted succesfully but failed to list VLAN interfaces : '')
         (ListVlanInterfaces env nl [])))))"

subsection \<open>Bonds\<close>

definition getSlaveInterfaces ::
  "('k, 'e) netlink_scheme \<Rightarrow> link \<Rightarrow> link list \<Rightarrow> 'k \<Rightarrow> string list" where
  "getSlaveInterfaces nl b ls k =
     map lk_name (filter (\<lambda>l. (case lk_slave l of None \<Rightarrow> False | Some (t, st) \<Rightarrow> t = BOND_STRING)
                            \<and> lk_master l = lk_index b)
       (if ls = [] then (case LinkList nl k of Inl e \<Rightarrow> [] | Inr all \<Rightarrow> all) else ls))"

text \<open>The state of a slave; the assertion on its type panics for the slave of something else.\<close>

definition slave_info ::
  "('k, 'e) netlink_scheme \<Rightarrow> string \<Rightarrow> (('k, 'y, 'm) host_scheme, slave_interface) act" where
  "slave_info nl name =
     bind_act (the_link nl name (''Error while fetching slave interface '' @ name)) (\<lambda>l.
     bind_act (member_info nl name l) (\<lambda>m.
       (case lk_slave l of
          None \<Rightarrow> ret \<lparr>sl_state = [], sl_member = m\<rparr>
        | Some (t, st) \<Rightarrow>
            if t = BOND_STRING then ret \<lparr>sl_state = st, sl_member = m\<rparr>
            else fail (Panic ''interface conversion''))))"

definition bond_info ::
  "('k, 'e) netlink_scheme \<Rightarrow> link list \<Rightarrow> (string \<Rightarrow> config_fields option) \<Rightarrow> link
   \<Rightarrow> (('k, 'y, 'm) host_scheme, bond_interface) act" where
  "bond_info nl ls fs l =
     bind_act (query (\<lambda>k. Inr (getSlaveInterfaces nl l ls k))) (\<lambda>slaves.
     bind_act (collect (slave_info nl) slaves) (\<lambda>details.
     bind_act (query (\<lambda>k. GetIPVersion nl k l)) (\<lambda>version.
       query (\<lambda>k. Inr
         \<lparr>bd_name = lk_name l, bd_mode = lk_bond_mode l, bd_hardware = lk_hardware l,
          bd_ip = GetPrimaryIPAddressV2 nl k l, bd_aliases = GetSecondaryIPAddressListV2 nl k l,
          bd_protocol = GetIPProtocol nl k l, bd_version = version, bd_count = int (length slaves),
          bd_slaves = details, bd_mtu = lk_mtu l, bd_editable = True, bd_deletable = True,
          bd_fields = (fields_or_zero fs (lk_name l))\<lparr>cf_disabled := False\<rparr>\<rparr>))))"

definition ListBondInterfaces ::
  "('y, 'f) net_env_scheme \<Rightarrow> ('k, 'e) netlink_scheme \<Rightarrow> string
   \<Rightarrow> (('k, 'y, 'm) host_scheme, bond_interface list) act" where
  "ListBondInterfaces env nl bondName =
     bind_act (or_error ''Failed to fetch interfaces'' (query (LinkList nl))) (\<lambda>ls.
     let name = trim_space bondName in
     andthen (only_if (one_link name)
               (bind_act (typed_link nl name BOND_STRING (''Bond interface '' @ name @ '' not found'')
                            ''bond interface'') (\<lambda>_. ret ())))
     (bind_act (file_read (FetchConfigSpecificFields env BOND_STRING)) (\<lambda>fs.
       collect (bond_info nl ls fs) (chosen_links BOND_STRING name ls))))"

definition UpdateBondConfig ::
  "('y, 'f) net_env_scheme \<Rightarrow> ('k, 'e) netlink_scheme \<Rightarrow> string \<Rightarrow> string
   \<Rightarrow> (('k, 'y, 'm) host_scheme, unit) act" where
  "UpdateBondConfig env nl name caller =
     bind_act (file_read (CheckIfInterfaceTypeIsEmpty env BOND_STRING)) (\<lambda>empty.
     bind_act (with_prefix ''Bond has been updated but failed to fetch the updated bond interfaces : ''
                 (ListBondInterfaces env nl (if empty then [] else name))) (\<lambda>rows.
       with_prefix ''Bond has been updated but failed to update the config file : ''
         (file_command
           (UpdateConfig_net env
              (zero_net\<lparr>BondInterfaces := (if empty then rows else single_row bd_name name rows)\<rparr>)
              BOND_STRING name caller))))"

text \<open>A slave that cannot be looked up is printed, and its nil link is passed on.\<close>

definition enslave ::
  "('k, 'e) netlink_scheme \<Rightarrow> string \<Rightarrow> string \<Rightarrow> (('k, 'y, 'm) host_scheme, unit) act" where
  "enslave nl bond slave =
     bind_act (query (\<lambda>k. Inr (LinkByName nl k slave))) (\<lambda>found.
       (case found of
          Inl e \<Rightarrow> fail nil_panic
        | Inr l \<Rightarrow> command (LinkSetBondSlave nl (lk_name l) bond)))"

definition bond_guards ::
  "('k, 'e) netlink_scheme \<Rightarrow> bond_request \<Rightarrow> 'k \<Rightarrow> go_error option" where
  "bond_guards nl req k =
     (let r = trim_bond req; name = trim_space (bo_name req) in
      first_error
       ([ValidateInterfaceName name BOND_STRING,
         fails_if (trim_space (bo_mode req) = []) ''Bond mode cannot be empty'',
         (case CheckInterfaceExists nl k name of
            None \<Rightarrow> Some (Err (''Bond interface '' @ name @ '' already exists'')) | Some e \<Rightarrow> None),
         ValidateCreateBondRequest nl k r]
        @ map (\<lambda>m. snd (CheckIfMemberInterfaceHasMaster nl k m)) (bo_slaves r)))"

text \<open>The settings of the bond, once it was found again after its slaves were added.\<close>

definition bond_settings ::
  "('k, 'e) netlink_scheme \<Rightarrow> bond_request \<Rightarrow> (('k, 'y, 'm) host_scheme, unit) act list" where
  "bond_settings nl r =
     [only_if (bo_user_name r \<noteq> [])
        (or_error (''Failed to set alias name for bond interface '' @ bo_name r)
           (command (LinkSetAlias nl (bo_name r) (bo_user_name r)))),
      only_if (trim_space (bo_hardware r) \<noteq> [])
        (set_hardware nl (bo_name r) (bo_hardware r)
           (''Failed to set hardware address for bond interface '' @ bo_name r)),
      new_addresses nl (bo_name r) (bo_v4 r) (bo_v6 r)
        (''Failed to add IP address to bond interface '' @ bo_name r),
      only_if (bo_mtu r \<noteq> 0)
        (or_error (''Failed to set MTU for bond interface '' @ bo_name r)
           (command (LinkSetMTU nl (bo_name r) (bo_mtu r))))]"

text \<open>
  When it was not found the error is printed and the nil link panics at the first setting it is needed
  for; an invalid hardware address is noticed before.
\<close>

definition unfound_settings :: "bond_request \<Rightarrow> (('k, 'y, 'm) host_scheme, unit) act list" where
  "unfound_settings r =
     [only_if (bo_user_name r \<noteq> []) (fail nil_panic),
      only_if (trim_space (bo_hardware r) \<noteq> [])
        (case ValidateAndGetHardwareAddress (bo_hardware r) of
           Inl e \<Rightarrow> fail (the (annotate ''Invalid hardware address: '' (Some e)))
         | Inr hw \<Rightarrow> fail nil_panic),
      only_if (v4_on (bo_v4 r) \<and> v4_mode (bo_v4 r) = STATIC_STRING) (fail nil_panic),
      only_if (v6_on (bo_v6 r) \<and> v6_mode (bo_v6 r) = STATIC_STRING) (fail nil_panic),
      only_if (bo_mtu r \<noteq> 0) (fail nil_panic)]"

definition enslave_all ::
  "('k, 'e) netlink_scheme \<Rightarrow> bond_request \<Rightarrow> (('k, 'y, 'm) host_scheme, unit) act" where
  "enslave_all nl r =
     for_each (bo_slaves r) (\<lambda>sl. only_if (trim_space sl \<noteq> []) (enslave nl (bo_name r) sl))"

definition configure_bond ::
  "('k, 'e) netlink_scheme \<Rightarrow> bond_request \<Rightarrow> go_error + link \<Rightarrow> (('k, 'y, 'm) host_scheme, unit) act" where
  "configure_bond nl r found =
     all_of (case found of Inl e \<Rightarrow> unfound_settings r | Inr l \<Rightarrow> bond_settings nl r)"

text \<open>
  The deferred function of \<open>CreateBondedLink\<close> deletes the link when the named result \<open>err\<close> is an error:
  one that is returned, or, during a panic, one that is still in the variable (\<open>pending\<close>). The second
  lookup of the bond assigns it; the lookups of the slaves have a variable of their own. Whether the
  deletion succeeds makes no difference to the answer.
\<close>

definition undo_on_error ::
  "('k, 'e) netlink_scheme \<Rightarrow> string \<Rightarrow> bool \<Rightarrow> (('k, 'y, 'm) host_scheme, 'a) act
   \<Rightarrow> (('k, 'y, 'm) host_scheme, 'a) act" where
  "undo_on_error nl name pending m s =
     (case m s of
        (Inl e, s') \<Rightarrow>
          if (case e of Err t \<Rightarrow> True | Panic p \<Rightarrow> pending)
          then (Inl e, s'\<lparr>kernel := snd (LinkDel nl name (kernel s'))\<rparr>)
          else (Inl e, s')
      | (Inr x, s') \<Rightarrow> (Inr x, s'))"

definition CreateBondedLink ::
  "('y, 'f) net_env_scheme \<Rightarrow> ('k, 'e) netlink_scheme \<Rightarrow> bond_request
   \<Rightarrow> (('k, 'y, 'm) host_scheme, bond_interface list) act" where
  "CreateBondedLink env nl req =
     (let r = trim_bond req in
      bind_act (query (\<lambda>k. Inr (bond_guards nl req k))) (\<lambda>refused.
      andthen (check refused)
     (andthen (command (LinkAdd nl \<lparr>nl_name = bo_name r, nl_kind = BOND_STRING, nl_parent = 0,
                                    nl_vlan = 0, nl_mode = bo_mode r\<rparr>))
     (andthen (undo_on_error nl (bo_name r) False (enslave_all nl r))
     (bind_act (query (\<lambda>k. Inr (LinkByName nl k (bo_name r)))) (\<lambda>found.
      andthen (undo_on_error nl (bo_name r) (isl found)
                 (andthen (configure_bond nl r found) (UpdateBondConfig env nl (bo_name r) ''CREATE BOND'')))
       (undo_on_error nl (bo_name r) False
         (andthen (with_prefix ''Bond created but failed to update the config file : ''
                    (file_command (UpdateConfigSpecificFields env BOND_STRING (bo_name r)
                      \<lparr>cf_serving = bo_serving r, cf_domain = bo_domain r, cf_zone = bo_zone r, cf_disabled = False\<rparr>
                      ''CREATE BOND (config specific fields)'')))
           (or_error ''Failed to list bond interfaces'' (ListBondInterfaces env nl []))))))))))"

definition add_slaves ::
  "('k, 'e) netlink_scheme \<Rightarrow> string \<Rightarrow> string list \<Rightarrow> (('k, 'y, 'm) host_scheme, unit) act" where
  "add_slaves nl bond names = for_each names (\<lambda>n. only_if (n \<noteq> []) (enslave nl bond n))"

definition remove_slaves ::
  "('k, 'e) netlink_scheme \<Rightarrow> string \<Rightarrow> string list \<Rightarrow> (('k, 'y, 'm) host_scheme, unit) act" where
  "remove_slaves nl bond names =
     for_each names (\<lambda>name.
       only_if (name \<noteq> [])
         (bind_act (the_link nl name (''Slave interface to remove '' @ name @ '' not found''))
            (\<lambda>l. or_error (''Failed to remove interface '' @ name @ '' from bond '' @ bond)
                   (command (LinkSetNoMaster nl (lk_name l))))))"

text \<open>
  The fields to compare with are those of the vlans. Here the comparison of the addresses uses the
  request as it came and the change the trimmed one.
\<close>

definition UpdateBondInterface ::
  "('y, 'f) net_env_scheme \<Rightarrow> ('k, 'e) netlink_scheme \<Rightarrow> string \<Rightarrow> bond_update
   \<Rightarrow> (('k, 'y, 'm) host_scheme, bond_interface list) act" where
  "UpdateBondInterface env nl bond req =
     (let name = trim_space bond in
      bind_act (typed_link nl name BOND_STRING (''Bond interface '' @ name @ '' not found'')
                  ''bond interface'') (\<lambda>b.
      bind_act (query (\<lambda>k. Inr (getSlaveInterfaces nl b [] k))) (\<lambda>slaves.
        let t = trim_bond_update req;
            (to_add, to_remove) = FetchAddRemoveFromList slaves (bou_slaves t);
            r = t\<lparr>bou_add := to_add, bou_remove := to_remove\<rparr> in
        bind_act (query (\<lambda>k. Inr (ValidateUpdateBondRequest nl k r name))) (\<lambda>refused.
        andthen (check refused)
       (andthen (check (fails_if (int (length slaves) + int (length to_add) - int (length to_remove) < 2)
                   ''Atleast 2 interfaces should remain as slaves for a bond interface''))
       (andthen (add_slaves nl name to_add)
       (andthen (remove_slaves nl name to_remove)
       (andthen (only_if (trim_space (bou_hardware r) \<noteq> [] \<and> bou_hardware r \<noteq> lk_hardware b)
                   (set_hardware nl name (bou_hardware r)
                      (''Failed to update hardware address for bond interface '' @ name)))
       (andthen (update_addresses nl b (bou_v4 req) (bou_v6 req) (bou_v4 r) (bou_v6 r)
                   (''Failed to delete IP address from bond interface '' @ name @ '' with error : ''))
       (andthen (only_if (bou_mtu r \<noteq> 0 \<and> bou_mtu r \<noteq> lk_mtu b)
                   (or_error (''Failed to update MTU for bond interface '' @ name)
                      (command (LinkSetMTU nl name (bou_mtu r)))))
       (bind_act (file_read (FetchConfigSpecificFields env VLAN_STRING)) (\<lambda>fs.
        andthen (UpdateBondConfig env nl name ''UPDATE BOND'')
       (andthen (refresh_fields env BOND_STRING name (fields_or_zero fs name) (bou_fields r)
                   ''UPDATE BOND (config specific fields)''
                   ''Failed to update config specific fields for bond interface : '')
         (or_error ''Bond updated but failed to list bond interfaces'' (ListBondInterfaces env nl [])))))))))))))))"

definition DeleteBondInterface ::
  "('y, 'f) net_env_scheme \<Rightarrow> ('k, 'e) netlink_scheme \<Rightarrow> string
   \<Rightarrow> (('k, 'y, 'm) host_scheme, bond_interface list) act" where
  "DeleteBondInterface env nl bond =
     (let name = trim_space bond in
      andthen (check (fails_if (name = []) ''Bond interface name cannot be empty''))
     (bind_act (typed_link nl name BOND_STRING (''Bond interface '' @ name @ '' not found'')
                 ''bond interface'') (\<lambda>b.
      andthen (or_error (''Failed to delete bond interface '' @ name) (command (LinkDel nl (lk_name b))))
     (andthen (only_print (file_command (DeleteConfig_net env BOND_STRING name ''DELETE BOND'')))
       (or_error ''Failed to list bond interfaces'' (ListBondInterfaces env nl []))))))"

end
