(* ===== verification/Physical_Ports.thy ===== *)
theory Physical_Ports
  imports Vlans_Bonds
begin

text \<open>
  \<open>service/interfaces/interface.go\<close>: listing and changing the physical interfaces, the names of the
  ports, restoring the stored addresses and the factory settings. \<open>ethtool\<close> is a parameter; the map from
  interfaces to port names is part of the state.
\<close>

record 'k port_env = "'k netlink" +
  CmdGetMapped :: "'k \<Rightarrow> string \<Rightarrow> go_error + (string \<Rightarrow> nat option)"

record ('k, 'y) ports = "('k, 'y) host" +
  PortMapping :: "string \<Rightarrow> string option"

definition port_name :: "(string \<Rightarrow> string option) \<Rightarrow> string \<Rightarrow> string" where
  "port_name m name = (case m name of None \<Rightarrow> [] | Some p \<Rightarrow> p)"

text \<open>A port: a device that is not the loop-back and whose name starts with \<open>e\<close>.\<close>

definition is_port :: "link \<Rightarrow> bool" where
  "is_port l \<longleftrightarrow> lk_type l = DEVICE \<and> lk_name l \<noteq> LOOP_BACK_DEVICE \<and> has_prefix (lk_name l) ''e''"

definition port_named :: "string \<Rightarrow> bool" where
  "port_named name \<longleftrightarrow> name \<noteq> LOOP_BACK_DEVICE \<and> has_prefix name ''e''"

subsection \<open>Listing\<close>

definition FetchIps :: "('k, 'e) netlink_scheme \<Rightarrow> 'k \<Rightarrow> go_error + string list" where
  "FetchIps nl k =
     map_sum_r (\<lambda>ls. concat (map (\<lambda>l. case AddrList nl k l FAMILY_V4 of
                                          Inl e \<Rightarrow> [] | Inr as \<Rightarrow> map (\<lambda>a. ip_string (ad_ip a)) as)
                              (filter is_port ls)))
       (LinkList nl k)"

definition ethtool_speed :: "nat option \<Rightarrow> string" where
  "ethtool_speed m =
     (case m of None \<Rightarrow> ''Unknown''
      | Some n \<Rightarrow> if n = 65535 then ''Unknown'' else show_nat n @ '' Mbps'')"

definition ethtool_choice :: "string \<Rightarrow> string \<Rightarrow> nat option \<Rightarrow> string" where
  "ethtool_choice zero one m =
     (case m of None \<Rightarrow> ''Unknown''
      | Some n \<Rightarrow> if n = 0 then zero else if n = 1 then one else ''Unknown'')"

definition getLinkSpeedDuplex ::
  "('k, 'e) port_env_scheme \<Rightarrow> 'k \<Rightarrow> string \<Rightarrow> go_error + string \<times> string \<times> string" where
  "getLinkSpeedDuplex nl k ifname =
     (if ifname = LOOP_BACK_DEVICE then Inr (''N/A'', ''N/A'', ''N/A'')
      else map_sum_r (\<lambda>m. (ethtool_speed (m ''Speed''), ethtool_choice ''Half'' ''Full'' (m ''Duplex''),
                           ethtool_choice ''OFF'' ''ON'' (m ''Autoneg'')))
             (CmdGetMapped nl k ifname))"

text \<open>The bridges, bonds and vlans a link belongs to.\<close>

definition fetchAttachedTo ::
  "('y, 'f) net_env_scheme \<Rightarrow> ('k, 'e) netlink_scheme \<Rightarrow> string
   \<Rightarrow> (('k, 'y, 'm) host_scheme, string list) act" where
  "fetchAttachedTo env nl linkName =
     bind_act (or_error ''Error in fetching bridge interfaces'' (ListBridgeInterfaces env nl [])) (\<lambda>bridges.
     bind_act (or_error ''Error in fetching bond interfaces'' (ListBondInterfaces env nl [])) (\<lambda>bonds.
     bind_act (or_error ''Error in fetching vlan interfaces'' (ListVlanInterfaces env nl [])) (\<lambda>vlans.
       ret (concat (map (\<lambda>b. map (\<lambda>m. bi_name b) (filter (\<lambda>m. mb_name m = linkName) (bi_members b))) bridges)
            @ concat (map (\<lambda>b. map (\<lambda>m. bd_name b)
                              (filter (\<lambda>m. mb_name (sl_member m) = linkName) (bd_slaves b))) bonds)
            @ map vi_name (filter (\<lambda>v. mb_name (vi_parent v) = linkName) vlans)))))"

text \<open>The address an interface had before high availability took it over.\<close>

definition ha_listed_ip :: "string \<Rightarrow> ip_response \<Rightarrow> go_error + ip_response" where
  "ha_listed_ip ha_ip r =
     (case cidr_parts ha_ip of
        Inl p \<Rightarrow> Inl p
      | Inr (ip, netmask) \<Rightarrow>
          (case atoi netmask of
             None \<Rightarrow> Inl (Err ''Error in converting string to int : strconv.Atoi'')
           | Some nm \<Rightarrow> Inr (r\<lparr>ipr_address := ip, ipr_netmask := nm\<rparr>)))"

definition port_info ::
  "('y, 'f) net_env_scheme \<Rightarrow> ('k, 'e) port_env_scheme \<Rightarrow> (string \<Rightarrow> config_fields option) \<Rightarrow> string
   \<Rightarrow> link \<Rightarrow> (('k, 'y, 'm) host_scheme, physical_interface) act" where
  "port_info env nl fs caller l =
     bind_act (query (\<lambda>k. getLinkSpeedDuplex nl k (lk_name l))) (\<lambda>(speed, duplex, autoneg).
     bind_act (fetchAttachedTo env nl (lk_name l)) (\<lambda>attachedTo.
     bind_act (with_prefix ''Error in fetching HA data : '' (file_query (FetchConfig_net env HA_STRING))) (\<lambda>hc.
       let h = Ha_of hc; name = lk_name l;
           monitored = IsHaMonitored name h; intfHaIp = FetchInterfaceIpFromHaConfig name h in
       bind_act (query (\<lambda>k.
         (if monitored \<and> intfHaIp \<noteq> [] \<and> caller = ''MAIN''
          then ha_listed_ip intfHaIp (GetPrimaryIPAddressV2 nl k l)
          else Inr (GetPrimaryIPAddressV2 nl k l)))) (\<lambda>ip.
       query (\<lambda>k. Inr
         \<lparr>pi_name = name, pi_hardware = lk_hardware l, pi_ip = ip,
          pi_aliases = GetSecondaryIPAddressListV2 nl k l, pi_mtu = lk_mtu l, pi_state = lk_oper l,
          pi_speed = speed, pi_duplex = duplex, pi_autoneg = autoneg, pi_stats = lk_stats l,
          pi_attached = attachedTo,
          pi_editable = (attachedTo = [] \<and> \<not> monitored \<and> \<not> IsHaDedicated name h),
          pi_deletable = False, pi_fields = fields_or_zero fs name\<rparr>)))))"

definition ListPhysicalInterfaces ::
  "('y, 'f) net_env_scheme \<Rightarrow> ('k, 'e) port_env_scheme \<Rightarrow> string \<Rightarrow> string
   \<Rightarrow> (('k, 'y, 'm) host_scheme, physical_interface list) act" where
  "ListPhysicalInterfaces env nl name caller =
     andthen (only_if (name \<noteq> [])
               (bind_act (typed_link nl name DEVICE (''interface '' @ name @ '' not found'') ''physical interface'')
                  (\<lambda>_. ret ())))
    (bind_act (query (LinkList nl)) (\<lambda>ls.
     bind_act (file_read (FetchConfigSpecificFields env DEVICE)) (\<lambda>fs.
       let found = filter (\<lambda>l. is_port l \<and> (name = [] \<or> lk_name l = name)) ls in
       collect (port_info env nl fs caller) (if name = [] then found else take 1 found))))"

subsection \<open>Port names\<close>

text \<open>\<open>string(rune)\<close> for the runes that can occur here.\<close>

definition rune_string :: "nat \<Rightarrow> string" where
  "rune_string c = (if c < 128 then [char_of c] else [char_of (192 + c div 64), char_of (128 + c mod 64)])"

definition port_entry :: "('k, 'e) netlink_scheme \<Rightarrow> 'k \<Rightarrow> nat \<Rightarrow> link \<Rightarrow> string \<times> string \<times> bool" where
  "port_entry nl k n l =
     (let ip = GetPrimaryIPAddressV2 nl k l in
      (''PORT '' @ rune_string (n + 65), lk_name l,
       ipr_address ip \<noteq> [] \<and> ipr_netmask ip \<noteq> 0 \<and> ipr_protocol ip = STATIC_STRING))"

definition GetPortMapping ::
  "('k, 'e) netlink_scheme \<Rightarrow> 'k \<Rightarrow> go_error + (string \<times> string \<times> bool) list" where
  "GetPortMapping nl k =
     map_sum_r (\<lambda>ls. map (\<lambda>(n, l). port_entry nl k n l) (enumerate 0 (filter is_port ls))) (LinkList nl k)"

text \<open>Without a list of links the nil response is dereferenced.\<close>

definition InitPhysicalInterfacesConfig ::
  "('y, 'f) net_env_scheme \<Rightarrow> ('k, 'e) port_env_scheme \<Rightarrow> (('k, 'y, 'm) ports_scheme, unit) act" where
  "InitPhysicalInterfacesConfig env nl s =
     (case GetPortMapping nl (kernel s) of
        Inl e \<Rightarrow> (Inl nil_panic, s\<lparr>PortMapping := Map.empty\<rparr>)
      | Inr entries \<Rightarrow>
          (let s1 = s\<lparr>PortMapping := fold (\<lambda>(p, v, b) m. m(v \<mapsto> p)) entries Map.empty\<rparr> in
           case ListPhysicalInterfaces env nl [] ''INIT'' s1 of
             (Inl (Panic p), s2) \<Rightarrow> (Inl (Panic p), s2)
           | (Inl (Err e), s2) \<Rightarrow> (Inr (), s2)
           | (Inr rows, s2) \<Rightarrow>
               only_if (rows \<noteq> [])
                 (only_print (file_command
                   (UpdateConfig_net env (zero_net\<lparr>PhysicalInterfaces := rows\<rparr>) DEVICE []
                      ''INIT PHYSICAL INTERFACES''))) s2))"

definition updatePhysicalConfig ::
  "('y, 'f) net_env_scheme \<Rightarrow> ('k, 'e) port_env_scheme \<Rightarrow> string \<Rightarrow> string
   \<Rightarrow> (('k, 'y, 'm) ports_scheme, unit) act" where
  "updatePhysicalConfig env nl name caller =
     bind_act (file_read (CheckIfInterfaceTypeIsEmpty env DEVICE)) (\<lambda>empty.
       if empty then InitPhysicalInterfacesConfig env nl
       else
         bind_act (with_prefix ''Physical interface has been created but failed to fetch the updated physical interfaces : ''
                    (ListPhysicalInterfaces env nl name ''UPDATE'')) (\<lambda>rows.
           (case single_row pi_name name rows of
              [] \<Rightarrow> ret ()
            | r # _ \<Rightarrow>
                with_prefix ''Physical interface has been created but failed to update the config file : ''
                  (file_command
                    (UpdateConfig_net env
                       (zero_net\<lparr>PhysicalInterfaces :=
                          [if caller = ''LINK UP'' then r\<lparr>pi_state := LINK_STATE_UP\<rparr> else r]\<rparr>)
                       DEVICE name caller)))))"

subsection \<open>Changing a port\<close>

definition spaced :: "string list \<Rightarrow> string" where
  "spaced xs = ''['' @ concat (map (\<lambda>(n, x). (if n = 0 then [] else '' '') @ x) (enumerate 0 xs)) @ '']''"

definition UpdatePhysicalInterface ::
  "('y, 'f) net_env_scheme \<Rightarrow> ('k, 'e) port_env_scheme \<Rightarrow> string \<Rightarrow> physical_request
   \<Rightarrow> (('k, 'y, 'm) ports_scheme, physical_interface list) act" where
  "UpdatePhysicalInterface env nl port request =
     (let r = trim_physical request; name = trim_space port in
      bind_act (typed_link nl name DEVICE (''Physical interface '' @ name @ '' not found'') ''physical interface'')
        (\<lambda>l.
      bind_act (with_prefix ''Error in fetching HA data : '' (file_query (FetchConfig_net env HA_STRING))) (\<lambda>hc.
      bind_act (\<lambda>s. (Inr (port_name (PortMapping s) name), s)) (\<lambda>shown.
        andthen (check (fails_if (IsHaMonitored name (Ha_of hc) \<or> IsHaDedicated name (Ha_of hc))
                   (shown @ '' is a dedicated port or a port monitored by HA, cannot update'')))
       (bind_act (query (\<lambda>k. Inr (ValidateUpdatePhysicalInterfaceRequest nl k r name))) (\<lambda>refused.
        andthen (check refused)
       (bind_act (fetchAttachedTo env nl name) (\<lambda>attachedTo.
        andthen (check (fails_if (attachedTo \<noteq> [])
                   (''Physical interface '' @ name @ '' is attached to '' @ spaced attachedTo @ '', cannot update'')))
       (andthen (only_if (trim_space (pr_hardware r) \<noteq> [] \<and> pr_hardware r \<noteq> lk_hardware l)
                   (set_hardware nl name (pr_hardware r)
                      (''Failed to update hardware address for physical interface '' @ shown)))
       (andthen (update_addresses nl l (pr_v4 request) (pr_v6 request) (pr_v4 r) (pr_v6 r)
                   (''Failed to delete IP address from physical interface ''
                    @ (if v4_on (pr_v4 request) then shown else name) @ '' with error : ''))
       (andthen (only_print (command (LinkSetUp nl name)))
       (bind_act (file_read (FetchConfigSpecificFields env DEVICE)) (\<lambda>fs.
        andthen (updatePhysicalConfig env nl name ''EDIT PHYSICAL INTERFACE'')
       (andthen (refresh_fields env DEVICE name (fields_or_zero fs name) (pr_fields r)
                   ''EDIT PHYSICAL INTERFACE (config specific fields)''
                   ''Physical interface has been updated but failed to update the config file : '')
         (with_prefix ''Physical interface has been updated but failed to fetch : ''
            (ListPhysicalInterfaces env nl [] ''UPDATE''))))))))))))))))"

subsection \<open>Restoring and resetting\<close>

definition addIp ::
  "('k, 'e) netlink_scheme \<Rightarrow> string \<Rightarrow> string \<Rightarrow> int \<Rightarrow> (('k, 'y, 'm) host_scheme, unit) act" where
  "addIp nl name ip netmask =
     with_prefix ''failed to add IP address to physical interface : ''
       (command (AddrAdd nl name (snd (ValidateIPNetmask ip (show_int netmask)))))"

text \<open>The stored addresses of one interface; an interface that is not a port or not static is left alone.\<close>

definition restore_port ::
  "('k, 'e) netlink_scheme \<Rightarrow> physical_interface \<Rightarrow> (('k, 'y, 'm) host_scheme, unit) act" where
  "restore_port nl intf =
     bind_act (query (\<lambda>k. Inr (LinkByName nl k (pi_name intf)))) (\<lambda>found.
       (case found of
          Inl e \<Rightarrow> ret ()
        | Inr l \<Rightarrow>
            only_if (port_named (lk_name l) \<and> ipr_protocol (pi_ip intf) = STATIC_STRING)
              (all_of
                 ([command (PerformIpFlush nl (lk_name l)),
                   only_if (ipr_address (pi_ip intf) \<noteq> [] \<and> ipr_netmask (pi_ip intf) \<noteq> 0)
                     (addIp nl (lk_name l) (ipr_address (pi_ip intf)) (ipr_netmask (pi_ip intf)))]
                  @ map (\<lambda>a. only_if (ipr_address a \<noteq> [])
                                (addIp nl (lk_name l) (ipr_address a) (ipr_netmask a))) (pi_aliases intf)
                  @ [only_print (command (LinkSetUp nl (lk_name l)))]))))"

definition RestoreInterfaceSettings ::
  "('y, 'f) net_env_scheme \<Rightarrow> ('k, 'e) netlink_scheme \<Rightarrow> (('k, 'y, 'm) host_scheme, unit) act" where
  "RestoreInterfaceSettings env nl =
     bind_act (file_query (FetchConfig_net env DEVICE)) (\<lambda>c.
       for_each (PhysicalInterfaces c) (restore_port nl))"

text \<open>The port that keeps an address after a reset: the third one, or the first of fewer than three links.\<close>

definition fetch3rdPortIfExists :: "('k, 'e) netlink_scheme \<Rightarrow> 'k \<Rightarrow> go_error + string" where
  "fetch3rdPortIfExists nl k =
     (case LinkList nl k of
        Inl e \<Rightarrow> Inl (the (annotate ''Failed to fetch physical interfaces : '' (Some e)))
      | Inr ls \<Rightarrow>
          (let wanted = (if length ls < 3 then 0 else 2); found = filter is_port ls in
           if ls = [] then Inl (Err ''No physical ports found'')
           else if wanted < length found then Inr (lk_name (found ! wanted))
           else Inl (Err ''No physical ports found'')))"

definition no_stats :: link_stats where
  "no_stats = \<lparr>ls_tx_packets = 0, ls_tx_bytes = 0, ls_tx_errors = 0, ls_tx_dropped = 0,
     ls_rx_packets = 0, ls_rx_bytes = 0, ls_rx_errors = 0, ls_rx_dropped = 0\<rparr>"

definition reset_port ::
  "('y, 'f) net_env_scheme \<Rightarrow> ('k, 'e) port_env_scheme \<Rightarrow> string \<Rightarrow> link
   \<Rightarrow> (('k, 'y, 'm) host_scheme, unit) act" where
  "reset_port env nl kept intf =
     bind_act (query (\<lambda>k. Inr (LinkByName nl k (lk_name intf)))) (\<lambda>found.
       only_if (\<not> isl found \<and> port_named (lk_name intf))
         (all_of
            [command (PerformIpFlush nl (lk_name intf)),
             command (LinkSetDown nl (lk_name intf)),
             only_if (lk_name intf = kept)
               (all_of
                  [command (SetIP nl kept ''10.0.0.1'' 23),
                   command (LinkSetUp nl kept),
                   bind_act (ListPhysicalInterfaces env nl kept ''FACTORY DEFAULT SETTINGS'') (\<lambda>rows.
                     file_command
                       (UpdateConfig_net env
                          (zero_net\<lparr>PhysicalInterfaces :=
                             (case rows of [] \<Rightarrow> [] | r # rs \<Rightarrow> r\<lparr>pi_stats := no_stats\<rparr> # rs)\<rparr>)
                          DEVICE kept ''FACTORY DEFAULT SETTINGS''))])]))"

text \<open>The error of the first write is overwritten by the search for the port.\<close>

definition ResetToFactoryDefaultSettingsForInterfaces ::
  "('y, 'f) net_env_scheme \<Rightarrow> ('k, 'e) port_env_scheme \<Rightarrow> (('k, 'y, 'm) host_scheme, unit) act" where
  "ResetToFactoryDefaultSettingsForInterfaces env nl =
     bind_act (file_query (FetchConfig_net env ''ALL'')) (\<lambda>_.
     andthen (only_print (file_command (UpdateConfig_net env zero_net ''ALL'' [] ''FACTORY DEFAULT SETTINGS'')))
    (bind_act (query (fetch3rdPortIfExists nl)) (\<lambda>kept.
     bind_act (query (LinkList nl)) (\<lambda>ls. for_each ls (reset_port env nl kept)))))"

end
