(* ===== verification/High_Availability.thy ===== *)
theory High_Availability
  imports Physical_Ports Static_Routes
begin

text \<open>
  \<open>service/ha.go\<close> and \<open>controller/ha.go\<close>: the high-availability settings, the configuration of keepalived
  made from them, and the synchronisation of a backup appliance. A cluster is two appliances, the one a
  request is made to and its peer; a request to the peer runs the peer's handler on the peer's state.
  Parameters are the answers of \<open>ping\<close>, \<open>systemctl\<close> and the transport, the JSON library, the YAML
  library of this file (\<open>yaml.v2\<close>, another one than that of the configuration service), the contents of
  two files that are only read, and the clock. Restarts after the answer and the reboot are not modelled.
\<close>

record ('k, 'y) appliance = "('k, 'y) ports" +
  merged_doc :: "'y option"
  keepalived_conf :: string

record device_info =
  di_serial :: string
  di_model :: string
  di_password :: string

record 'y ha_env =
  ping :: "string \<Rightarrow> bool"
  keepalived_error :: "go_error option"
  systemctl :: "string \<Rightarrow> string \<Rightarrow> go_error option"
  state_file :: "go_error + string"
  device_file :: "go_error + string"
  now_text :: string
  vmac :: int
  dec_v2 :: "'y \<Rightarrow> go_error + net_config"
  enc_v2 :: "net_config \<Rightarrow> go_error + 'y"
  raw_read_error :: "go_error option"
  raw_write_error :: "go_error option"
  transport_error :: "string \<Rightarrow> go_error option"
  json_error :: "string \<Rightarrow> string \<Rightarrow> string"
  decode_info :: "string \<Rightarrow> go_error + device_info"

text \<open>What the functions of one appliance depend on.\<close>

record ('k, 'y) site =
  st_env :: "'y net_env"
  st_nl :: "'k port_env"
  st_ha :: "'y ha_env"

subsection \<open>Validating a request\<close>

definition fetch_ha :: "('k, 'y) site \<Rightarrow> (('k, 'y, 'm) host_scheme, ha) act" where
  "fetch_ha st = bind_act (file_query (FetchConfig_net (st_env st) HA_STRING)) (\<lambda>c. ret (Ha_of c))"

definition monitored_checks ::
  "('k, 'y) site \<Rightarrow> 'k \<Rightarrow> (string \<Rightarrow> string option) \<Rightarrow> monitored_interface \<Rightarrow> go_error option list" where
  "monitored_checks st k ports intf =
     (let nl = st_nl st; name = trim_space (mi_interface intf);
          base = trim_space (mi_base intf); peer = trim_space (mi_peer intf);
          shown = port_name ports (mi_interface intf) in
      [fails_if (name = []) ''Invalid monitored interface'',
       fails_if (CheckInterfaceExists nl k name \<noteq> None) ''Invalid monitored interface'',
       (if base \<noteq> [] then
          first_error
           [fails_if (\<not> fst (ValidateIP base)) (''Invalid base IP for monitored interface : '' @ shown),
            fails_if (base = peer) (''Base IP and Peer IP cannot be same for monitored interface : '' @ shown),
            fails_if (CheckIfIpAlreadyExists nl k base) ''Base IP already exists on another port'']
        else None),
       fails_if (peer \<noteq> [] \<and> \<not> fst (ValidateIP peer))
         (''Invalid peer IP for monitored interface : '' @ shown)])"

definition create_checks ::
  "('k, 'y) site \<Rightarrow> 'k \<Rightarrow> (string \<Rightarrow> string option) \<Rightarrow> ha_request \<Rightarrow> go_error option" where
  "create_checks st k ports req =
     (let mode = to_lower (trim_space (hr_mode req)); role = to_lower (trim_space (hr_role req));
          dedicated = trim_space (hr_dedicated req); peer = trim_space (hr_peer req) in
      first_error
       ([fails_if (mode \<noteq> ''active-backup'' \<and> mode \<noteq> ''active-active'') ''Invalid appliance mode'',
         fails_if (mode = ''active-active'' \<and> role = BACKUP_STRING) ''Invalid appliance role'',
         fails_if (role \<noteq> PRIMARY_STRING \<and> role \<noteq> BACKUP_STRING) ''Invalid appliance role'',
         fails_if (dedicated = []) ''Invalid dedicated HA interface'',
         fails_if (CheckInterfaceExists (st_nl st) k dedicated \<noteq> None) ''Invalid dedicated HA interface'',
         fails_if (peer = []) ''Invalid peer IP'',
         fails_if (\<not> fst (ValidateIP peer)) ''Invalid peer IP'']
        @ concat (map (monitored_checks st k ports) (hr_monitored req))))"

definition validateHaRequest ::
  "('k, 'y) site \<Rightarrow> ha_request \<Rightarrow> (('k, 'y, 'm) ports_scheme, unit) act" where
  "validateHaRequest st req =
     (if hr_type req \<notin> {1, 2, 3} then fail (Err ''Invalid request type'')
      else if hr_type req = 1 then
        (\<lambda>s. check (create_checks st (kernel s) (PortMapping s) req) s)
      else
        bind_act (or_error ''Error in fetching HA Configuration'' (fetch_ha st)) (\<lambda>h.
          check (first_error
            [fails_if (ha_role h = []) ''HA is not enabled'',
             fails_if (hr_type req = 3 \<and> ha_role h \<noteq> PRIMARY_STRING)
               ''Sync backup can only be initiated from primary appliance''])))"

subsection \<open>The configuration of keepalived\<close>

definition line :: "string \<Rightarrow> string" where "line s = s @ new_line"

definition block :: "string list \<Rightarrow> string" where "block ls = concat (map line ls)"

definition group_lines :: "ha \<Rightarrow> string list" where
  "group_lines h =
     [''global_defs {'', ''    dynamic_interfaces'', [], ''}'', [],
      ''vrrp_sync_group wijungle-cluster {'', ''    group {'',
      ''        wijungle-cluster-'' @ ha_dedicated h,
      ''    }'',
      ''    notify_master \"/var/www/html/data/ha/scripts/ha.sh primary\"'',
      ''    notify_backup \"/var/www/html/data/ha/scripts/ha.sh backup\"'',
      ''    notify_fault \"/var/www/html/data/ha/scripts/ha.sh fault\"'',
      ''}'']"

text \<open>The virtual address of a monitored interface, when the configuration file has an address for it.\<close>

definition virtual_line :: "ha \<Rightarrow> (string \<Rightarrow> physical_interface option) \<Rightarrow> monitored_interface \<Rightarrow> string list" where
  "virtual_line h ports m =
     (case ports (mi_interface m) of
        None \<Rightarrow> []
      | Some p \<Rightarrow>
          if ipr_address (pi_ip p) = [] then []
          else
            [''        ''
             @ (if IsHaMonitored (pi_name p) h then FetchInterfaceIpFromHaConfig (pi_name p) h
                else ipr_address (pi_ip p) @ ''/'' @ show_int (ipr_netmask (pi_ip p)))
             @ '' dev '' @ pi_name p @ '' no_track'', []])"

definition instance_lines :: "int \<Rightarrow> ha \<Rightarrow> (string \<Rightarrow> physical_interface option) \<Rightarrow> string list" where
  "instance_lines vm h ports =
     (let primary = (ha_role h = PRIMARY_STRING) in
      [''vrrp_instance wijungle-cluster-'' @ ha_dedicated h @ '' {'',
       (if primary then ''    state MASTER'' else ''    state BACKUP''),
       ''    interface '' @ ha_dedicated h,
       ''    virtual_router_id 100'',
       ''    dont_track_primary'']
      @ (if vm = 1 then [''    use_vmac'', ''    vmac_xmit_base''] else [])
      @ [(if primary then ''    priority 10'' else ''    priority 9''),
         ''    authentication {'',
         ''        auth_type PASS'',
         ''        auth_pass '' @ trim_space (ha_password h),
         ''    }'',
         [],
         ''    unicast_peer {'',
         ''        '' @ ha_peer h,
         ''    }'',
         ''    track_interface {'']
      @ map (\<lambda>m. ''        '' @ mi_interface m @ '' weight 2'') (ha_monitored h)
      @ [''    }'', [], ''    virtual_ipaddress {'']
      @ concat (map (virtual_line h ports) (ha_monitored h))
      @ [''    }'', ''}''])"

definition keepalived_text :: "int \<Rightarrow> ha \<Rightarrow> physical_interface list \<Rightarrow> string" where
  "keepalived_text vm h intfs =
     block (group_lines h @ instance_lines vm h (map_of (rev (map (\<lambda>p. (pi_name p, p)) intfs))))"

definition writeHa :: "('k, 'y) site \<Rightarrow> string \<Rightarrow> (('k, 'y, 'm) appliance_scheme, unit) act" where
  "writeHa st text s =
     (case annotate ''Error writing keepalived.conf file: '' (keepalived_error (st_ha st)) of
        Some e \<Rightarrow> (Inl e, s)
      | None \<Rightarrow>
          check (annotate ''Error restarting keepalived service: '' (systemctl (st_ha st) ''restart'' ''keepalived''))
            (s\<lparr>keepalived_conf := text\<rparr>))"

definition createHaConfig :: "('k, 'y) site \<Rightarrow> (('k, 'y, 'm) appliance_scheme, unit) act" where
  "createHaConfig st =
     bind_act (fetch_ha st) (\<lambda>h.
     andthen (check (fails_if (ha_dedicated h = []) ''Dedicated HA Interface not found''))
    (bind_act (file_query (FetchConfig_net (st_env st) DEVICE)) (\<lambda>c.
       writeHa st (keepalived_text (vmac (st_ha st)) h (PhysicalInterfaces c)))))"

definition resetKeepAlived :: "('k, 'y) site \<Rightarrow> (('k, 'y, 'm) appliance_scheme, unit) act" where
  "resetKeepAlived st =
     andthen (check (systemctl (st_ha st) ''stop'' ''keepalived''))
       (\<lambda>s. case annotate ''error writing keepalived.conf file: '' (keepalived_error (st_ha st)) of
              Some e \<Rightarrow> (Inl e, s)
            | None \<Rightarrow> (Inr (), s\<lparr>keepalived_conf := []\<rparr>))"

subsection \<open>Enabling and disabling\<close>

text \<open>An error becomes an answer with the status of a bad request.\<close>

definition answer ::
  "string \<Rightarrow> ('s, 'a) act \<Rightarrow> ('a \<Rightarrow> ('s, 'd api_response) act) \<Rightarrow> ('s, 'd api_response) act" where
  "answer msg m f s =
     (case m s of
        (Inl (Panic p), s') \<Rightarrow> (Inl (Panic p), s')
      | (Inl (Err e), s') \<Rightarrow> (Inr (NewErrorResponse StatusBadRequest msg (Err e)), s')
      | (Inr x, s') \<Rightarrow> f x s')"

definition ERR_FROM_CLIENT_SIDE :: string where "ERR_FROM_CLIENT_SIDE = ''Error from client side''"
definition ERR_IN_FETCHING_DATA :: string where "ERR_IN_FETCHING_DATA = ''Error while fetching data''"
definition ERR_IN_SAVING_DATA :: string where "ERR_IN_SAVING_DATA = ''Error while saving data''"

text \<open>The address a monitored interface has now, from a listing that must not be empty.\<close>

definition monitor ::
  "('k, 'y) site \<Rightarrow> monitored_interface \<Rightarrow> (('k, 'y, 'm) host_scheme, monitored_interface) act" where
  "monitor st m =
     bind_act (ListPhysicalInterfaces (st_env st) (st_nl st) (mi_interface m) ''HA'') (\<lambda>rows.
       (case rows of
          [] \<Rightarrow> fail index_panic
        | r # rs \<Rightarrow>
            ret (m\<lparr>mi_ip := ipr_address (pi_ip r) @ ''/'' @ show_int (ipr_netmask (pi_ip r))\<rparr>)))"

text \<open>A backup appliance keeps no monitored interfaces and no intervals.\<close>

definition cleared_for_backup :: "ha_request \<Rightarrow> ha_request" where
  "cleared_for_backup req =
     (if to_lower (hr_role req) = BACKUP_STRING
      then req\<lparr>hr_monitored := [], hr_interval := 0, hr_attempts := 0\<rparr> else req)"

definition ha_record :: "ha_request \<Rightarrow> monitored_interface list \<Rightarrow> ha_status \<Rightarrow> ha" where
  "ha_record req monitored status =
     \<lparr>ha_mode = to_lower (hr_mode req), ha_role = to_lower (hr_role req), ha_password = hr_password req,
      ha_dedicated = hr_dedicated req, ha_peer = hr_peer req, ha_monitored = monitored,
      ha_interval = hr_interval req, ha_attempts = hr_attempts req, ha_status_of = status\<rparr>"

definition enable_ha ::
  "('k, 'y) site \<Rightarrow> ha_request \<Rightarrow> (('k, 'y, 'm) appliance_scheme, string api_response) act" where
  "enable_ha st request =
     (let req = cleared_for_backup request in
      answer ERR_IN_FETCHING_DATA (fetch_ha st) (\<lambda>old.
      answer ERR_IN_FETCHING_DATA (collect (monitor st) (hr_monitored req)) (\<lambda>monitored.
      answer ERR_IN_SAVING_DATA
        (file_command (UpdateConfig_net (st_env st)
           (zero_net\<lparr>Ha_of := ha_record req monitored (ha_status_of old)\<rparr>) HA_STRING [] ''CREATE HA'')) (\<lambda>_.
      answer ''Error while creating HA Config'' (createHaConfig st) (\<lambda>_.
        ret (NewSuccessResponse ''Success'' (Some ''Successfully created HA Configuration'')))))))"

definition DisableHa :: "('k, 'y) site \<Rightarrow> (('k, 'y, 'm) appliance_scheme, string api_response) act" where
  "DisableHa st =
     answer ERR_IN_FETCHING_DATA (fetch_ha st) (\<lambda>h.
     answer ''HA is already in disabled state''
       (check (fails_if (ha_role h = []) ''invalid action type'')) (\<lambda>_.
     answer ERR_IN_SAVING_DATA
       (file_command (UpdateConfig_net (st_env st) (zero_net\<lparr>Ha_of := zero_ha\<rparr>) HA_STRING [] ''DELETE HA'')) (\<lambda>_.
     answer ''Error while disabling HA'' (resetKeepAlived st) (\<lambda>_.
       ret (NewSuccessResponse ''Success''
              (Some ''successfully disabled HA, now the system will reboot in 5 seconds''))))))"

definition GetHa :: "('k, 'y) site \<Rightarrow> (('k, 'y, 'm) host_scheme, ha api_response) act" where
  "GetHa st =
     answer ERR_IN_FETCHING_DATA (fetch_ha st) (\<lambda>h.
     answer ERR_IN_FETCHING_DATA (\<lambda>s. (state_file (st_ha st), s)) (\<lambda>text.
       let state = trim_space text;
           shown = (if state = PRIMARY_STRING then ''Master''
                    else if state = BACKUP_STRING then ''Slave'' else ''None'') in
       ret (NewSuccessResponse ''Success''
              (Some (h\<lparr>ha_status_of := (ha_status_of h)\<lparr>hs_status := shown\<rparr>\<rparr>)))))"

end
