(* ===== verification/Ha_Sync.thy ===== *)
theory Ha_Sync
  imports High_Availability
begin

text \<open>
  The second half of \<open>service/ha.go\<close>: setting the addresses of an appliance from the configuration,
  the handlers a peer is asked to run, and the synchronisation of the backup appliance.
\<close>

subsection \<open>Setting addresses\<close>

definition ha_address :: "ha \<Rightarrow> string \<Rightarrow> string list" where
  "ha_address h name =
     (let (base, peer) = FetchHaIps name h in
      (if IsHaPrimary h \<and> base \<noteq> [] then [base] else [])
      @ (if IsHaBackup h \<and> peer \<noteq> [] then [peer] else []))"

definition set_port_address ::
  "('k, 'y) site \<Rightarrow> ha \<Rightarrow> physical_interface \<Rightarrow> (('k, 'y, 'm) host_scheme, unit) act" where
  "set_port_address st h intf =
     (let nl = st_nl st; name = pi_name intf in
      bind_act (query (\<lambda>k. LinkByName nl k name)) (\<lambda>l.
        only_if (port_named (lk_name l) \<and> name \<noteq> ha_dedicated h)
          (all_of
             [command (PerformIpFlush nl name),
              only_if (ipr_address (pi_ip intf) \<noteq> [] \<and> ipr_netmask (pi_ip intf) \<noteq> 0)
                (command (SetIP nl name (ipr_address (pi_ip intf)) (ipr_netmask (pi_ip intf)))),
              only_if (IsHaMonitored name h)
                (andthen (command (PerformIpFlush nl name))
                   (for_each (ha_address h name) (\<lambda>ip. command (SetIP nl name ip 24)))),
              bind_act (ListPhysicalInterfaces (st_env st) nl name ''HA'') (\<lambda>rows.
                only_print (file_command
                  (UpdateConfig_net (st_env st) (zero_net\<lparr>PhysicalInterfaces := rows\<rparr>) DEVICE name HA_STRING))),
              only_print (command (LinkSetUp nl (lk_name l)))])))"

definition SetIpAfterSyncBackup :: "('k, 'y) site \<Rightarrow> (('k, 'y, 'm) host_scheme, unit) act" where
  "SetIpAfterSyncBackup st =
     bind_act (fetch_ha st) (\<lambda>h.
     bind_act (file_query (FetchConfig_net (st_env st) DEVICE)) (\<lambda>c.
       for_each (PhysicalInterfaces c) (set_port_address st h)))"

definition GenerateKeepalivedConfigForBackupNsetIp ::
  "('k, 'y) site \<Rightarrow> (('k, 'y, 'm) appliance_scheme, unit) act" where
  "GenerateKeepalivedConfigForBackupNsetIp st =
     andthen (with_prefix ''Error setting IP addresses after sync backup in backup appliance: ''
                (SetIpAfterSyncBackup st))
       (with_prefix ''Error creating HA config: '' (createHaConfig st))"

subsection \<open>Comparing the appliances\<close>

text \<open>\<open>parseDeviceInfo\<close>: lines with one equals sign.\<close>

definition device_line :: "string \<Rightarrow> device_info \<Rightarrow> device_info" where
  "device_line l d =
     (case split_on (CHR ''='') l of
        [key, val] \<Rightarrow>
          (let k = trim_space key; v = trim_space val in
           if k = ''serial_no'' then d\<lparr>di_serial := v\<rparr>
           else if k = ''model_no'' then d\<lparr>di_model := v\<rparr>
           else if k = ''password'' then d\<lparr>di_password := v\<rparr>
           else d)
      | _ \<Rightarrow> d)"

definition no_info :: device_info where
  "no_info = \<lparr>di_serial = [], di_model = [], di_password = []\<rparr>"

definition parseDeviceInfo :: "string \<Rightarrow> device_info" where
  "parseDeviceInfo content = fold device_line (split_on (CHR 0x0A) content) no_info"

definition createPayload :: "device_info \<Rightarrow> string" where
  "createPayload d =
     ''{\"serial_no\": \"'' @ di_serial d @ ''\", \"model_no\": \"'' @ di_model d
     @ ''\", \"password\": \"'' @ di_password d @ ''\"}''"

definition compareDevicesInfo :: "device_info \<Rightarrow> device_info \<Rightarrow> bool" where
  "compareDevicesInfo d1 d2 = (if di_model d1 \<noteq> di_model d2 then False else True)"

definition CompareDeviceInfoFromAnotherAppliance ::
  "('k, 'y) site \<Rightarrow> device_info \<Rightarrow> (('k, 'y, 'm) host_scheme, unit) act" where
  "CompareDeviceInfoFromAnotherAppliance st req =
     bind_act (\<lambda>s. (device_file (st_ha st), s)) (\<lambda>content.
     andthen (check (fails_if (\<not> compareDevicesInfo (parseDeviceInfo content) req) ''Device info does not match''))
    (bind_act (fetch_ha st) (\<lambda>h.
       check (first_error
         [fails_if (ha_role h = []) ''HA config not found in backup appliance'',
          fails_if (ha_role h \<noteq> BACKUP_STRING) ''Appliance role is not set to backup in backup appliance'',
          fails_if (ha_dedicated h = []) ''Dedicated HA Interface not found in backup appliance'',
          fails_if (ha_peer h = []) ''Peer IP not found in backup appliance'',
          fails_if (ha_password h \<noteq> di_password req) ''Ha password does not match'']))))"

text \<open>The handler: the request is unmarshalled first.\<close>

definition compare_handler :: "('k, 'y) site \<Rightarrow> string \<Rightarrow> (('k, 'y, 'm) host_scheme, unit) act" where
  "compare_handler st payload =
     bind_act (\<lambda>s. (decode_info (st_ha st) payload, s)) (CompareDeviceInfoFromAnotherAppliance st)"

subsection \<open>Copying the configuration\<close>

text \<open>\<open>os.ReadFile\<close> and \<open>os.WriteFile\<close> on the configuration file, without the lock.\<close>

definition raw_read :: "('k, 'y) site \<Rightarrow> string \<Rightarrow> 'y option \<Rightarrow> go_error + 'y" where
  "raw_read st msg doc =
     (case annotate msg (raw_read_error (st_ha st)) of
        Some e \<Rightarrow> Inl e
      | None \<Rightarrow> (case doc of None \<Rightarrow> Inl (Err (msg @ ''no such file or directory'')) | Some y \<Rightarrow> Inr y))"

definition with_msg :: "string \<Rightarrow> go_error + 'a \<Rightarrow> go_error + 'a" where
  "with_msg msg r = (case r of Inl e \<Rightarrow> Inl (the (annotate msg (Some e))) | Inr x \<Rightarrow> Inr x)"

text \<open>What the primary sends: its configuration with the counters of the links zeroed.\<close>

definition without_stats :: "net_config \<Rightarrow> net_config" where
  "without_stats c =
     c\<lparr>PhysicalInterfaces := map (\<lambda>p. p\<lparr>pi_stats := no_stats\<rparr>) (PhysicalInterfaces c)\<rparr>"

definition sent_config :: "('k, 'y) site \<Rightarrow> 'y option \<Rightarrow> go_error + 'y" where
  "sent_config st doc =
     bind_sum (raw_read st ''Error reading interface config file: '' doc) (\<lambda>y.
     bind_sum (with_msg ''Error unmarshalling interface config: '' (dec_v2 (st_ha st) y)) (\<lambda>c.
       with_msg ''Error marshalling interface config: '' (enc_v2 (st_ha st) (without_stats c))))"

text \<open>
  The handler \<open>HaCopyConfig\<close> stores what it is sent under the name it is sent with; of the files of that
  directory only the one that \<open>SyncBackup\<close> reads is part of the model.
\<close>

definition HaCopyConfig :: "string \<Rightarrow> 'y \<Rightarrow> (('k, 'y, 'm) appliance_scheme, unit) act" where
  "HaCopyConfig filename y s =
     (Inr (), if filename = ''merged_config.yaml'' then s\<lparr>merged_doc := Some y\<rparr> else s)"

text \<open>
  What \<open>writeInterfaceConfigFile\<close> keeps of the old configuration: the role, the peer, the dedicated
  interface and the address of that interface; the aliases of every interface are dropped.
\<close>

definition keep_own :: "ha \<Rightarrow> ha \<Rightarrow> ha" where
  "keep_own old new = new\<lparr>ha_role := ha_role old, ha_peer := ha_peer old, ha_dedicated := ha_dedicated old\<rparr>"

definition keep_port :: "string \<Rightarrow> physical_interface \<Rightarrow> physical_interface \<Rightarrow> physical_interface" where
  "keep_port dedicated old new =
     (if pi_name new = dedicated then new\<lparr>pi_ip := pi_ip old, pi_aliases := []\<rparr> else new\<lparr>pi_aliases := []\<rparr>)"

definition merge_synced :: "net_config \<Rightarrow> net_config \<Rightarrow> go_error + net_config" where
  "merge_synced old new =
     (if length (PhysicalInterfaces old) \<noteq> length (PhysicalInterfaces new) then
        Inl (Err ''Error in updating interface config: Physical interfaces count mismatch'')
      else
        (let h = keep_own (Ha_of old) (Ha_of new) in
         Inr (new\<lparr>Ha_of := h,
                  PhysicalInterfaces :=
                    map2 (keep_port (ha_dedicated h)) (PhysicalInterfaces old) (PhysicalInterfaces new)\<rparr>)))"

definition writeInterfaceConfigFile ::
  "('k, 'y) site \<Rightarrow> net_config \<Rightarrow> (('k, 'y, 'm) host_scheme, unit) act" where
  "writeInterfaceConfigFile st config s =
     (case bind_sum (raw_read st ''Error reading config file: '' (net_doc s)) (\<lambda>y.
           bind_sum (with_msg ''Error unmarshalling old config: '' (dec_v2 (st_ha st) y)) (\<lambda>old.
           bind_sum (merge_synced old config) (\<lambda>new.
             with_msg ''Error marshalling config: '' (enc_v2 (st_ha st) new)))) of
        Inl e \<Rightarrow> (Inl e, s)
      | Inr y \<Rightarrow>
          (case annotate ''Error writing config file: '' (raw_write_error (st_ha st)) of
             Some e \<Rightarrow> (Inl e, s)
           | None \<Rightarrow> (Inr (), s\<lparr>net_doc := Some y\<rparr>)))"

definition SyncBackup :: "('k, 'y) site \<Rightarrow> (('k, 'y, 'm) appliance_scheme, unit) act" where
  "SyncBackup st =
     bind_act (\<lambda>s. (raw_read st ''Error reading merged config file: '' (merged_doc s), s)) (\<lambda>y.
     bind_act (\<lambda>s. (with_msg ''Error unmarshalling merged config content: '' (dec_v2 (st_ha st) y), s)) (\<lambda>c.
       with_prefix ''Error writing interface config file: '' (writeInterfaceConfigFile st c)))"

subsection \<open>The cluster\<close>

record ('k, 'y) cluster =
  here :: "('k, 'y) appliance"
  there :: "('k, 'y) appliance"

definition on_here :: "(('k, 'y) appliance, 'a) act \<Rightarrow> (('k, 'y) cluster, 'a) act" where
  "on_here m s = (let (r, a) = m (here s) in (r, s\<lparr>here := a\<rparr>))"

text \<open>
  A request to the peer: the transport may fail; an error of the handler, or a panic, which the server
  answers with status 500, comes back as what the caller reads from the answer.
\<close>

definition on_peer ::
  "('k, 'y) site \<Rightarrow> string \<Rightarrow> string \<Rightarrow> string \<Rightarrow> (('k, 'y) appliance, 'a) act
   \<Rightarrow> (('k, 'y) cluster, 'a) act" where
  "on_peer st path sending msg m s =
     (case annotate (sending @ '' sending request to HA peer: '') (transport_error (st_ha st) path) of
        Some e \<Rightarrow> (Inl e, s)
      | None \<Rightarrow>
          (case m (there s) of
             (Inl e, a) \<Rightarrow> (Inl (Err (msg @ json_error (st_ha st) path (err_text e))), s\<lparr>there := a\<rparr>)
           | (Inr x, a) \<Rightarrow> (Inr x, s\<lparr>there := a\<rparr>)))"

definition reachable_peer :: "('k, 'y) site \<Rightarrow> string \<Rightarrow> (('k, 'y) cluster, unit) act" where
  "reachable_peer st peerIp =
     check (first_error [fails_if (peerIp = []) ''Invalid HA peer IP'',
                         fails_if (\<not> ping (st_ha st) peerIp) ''HA peer is not reachable''])"

definition CompareDeviceInfo ::
  "('k, 'y) site \<Rightarrow> ('k, 'y) site \<Rightarrow> string \<Rightarrow> (('k, 'y) cluster, unit) act" where
  "CompareDeviceInfo st peer peerIp =
     andthen (reachable_peer st peerIp)
    (bind_act (\<lambda>s. (device_file (st_ha st), s)) (\<lambda>content.
     bind_act (on_here (fetch_ha st)) (\<lambda>h.
       on_peer st ''/ha/compareDeviceInfo'' ''Error in'' ''Error in sending request to HA peer: ''
         (compare_handler peer (createPayload ((parseDeviceInfo content)\<lparr>di_password := ha_password h\<rparr>))))))"

definition SendConfigToOtherDevice ::
  "('k, 'y) site \<Rightarrow> string \<Rightarrow> (('k, 'y) cluster, unit) act" where
  "SendConfigToOtherDevice st peerIp =
     andthen (reachable_peer st peerIp)
    (bind_act (on_here (\<lambda>a. (sent_config st (net_doc a), a))) (\<lambda>y.
       on_peer st ''/ha/copy-config'' ''Error'' ''Error in sending config to HA peer: '' (HaCopyConfig ''merged_config.yaml'' y)))"

definition SyncBackupInAnotherAppliance ::
  "('k, 'y) site \<Rightarrow> ('k, 'y) site \<Rightarrow> string \<Rightarrow> (('k, 'y) cluster, unit) act" where
  "SyncBackupInAnotherAppliance st peer peerIp =
     andthen (reachable_peer st peerIp)
       (on_peer st ''/ha/sync-backup'' ''Error'' ''Error in sending config to HA peer: '' (SyncBackup peer))"

definition CreateHaForBackup ::
  "('k, 'y) site \<Rightarrow> ('k, 'y) site \<Rightarrow> string \<Rightarrow> (('k, 'y) cluster, unit) act" where
  "CreateHaForBackup st peer peerIp =
     andthen (reachable_peer st peerIp)
       (on_peer st ''/ha/generate-keepalived-config-for-backup'' ''Error'' ''Error in sending config to HA peer: ''
          (GenerateKeepalivedConfigForBackupNsetIp peer))"

definition IntializeSyncBackup ::
  "('k, 'y) site \<Rightarrow> ('k, 'y) site \<Rightarrow> (('k, 'y) cluster, unit) act" where
  "IntializeSyncBackup st peer =
     bind_act (on_here (fetch_ha st)) (\<lambda>h.
       all_of
         [check (fails_if (ha_peer h = []) ''invalid HA peer IP''),
          CompareDeviceInfo st peer (ha_peer h),
          SendConfigToOtherDevice st (ha_peer h),
          SyncBackupInAnotherAppliance st peer (ha_peer h),
          CreateHaForBackup st peer (ha_peer h)])"

definition UpdateLastSyncedAt :: "('k, 'y) site \<Rightarrow> string \<Rightarrow> (('k, 'y, 'm) host_scheme, unit) act" where
  "UpdateLastSyncedAt st t =
     bind_act (fetch_ha st) (\<lambda>h.
       file_command (UpdateConfig_net (st_env st)
         (zero_net\<lparr>Ha_of := h\<lparr>ha_status_of := (ha_status_of h)\<lparr>hs_synced := t\<rparr>\<rparr>\<rparr>) HA_STRING [] ''SYNC HA''))"

definition sendLastSyncedAtToPeer ::
  "('k, 'y) site \<Rightarrow> ('k, 'y) site \<Rightarrow> string \<Rightarrow> (('k, 'y) cluster, unit) act" where
  "sendLastSyncedAtToPeer st peer t =
     on_peer st ''/ha/update-last-synced-at'' ''error'' ''Error in sending last synced at to HA peer: ''
       (UpdateLastSyncedAt peer t)"

text \<open>The third request: the backup is brought up to date and both sides note the time.\<close>

definition sync_ha ::
  "('k, 'y) site \<Rightarrow> ('k, 'y) site \<Rightarrow> (('k, 'y) cluster, string api_response) act" where
  "sync_ha st peer =
     answer ''Error while syncing HA backup'' (IntializeSyncBackup st peer) (\<lambda>_.
     answer ERR_IN_FETCHING_DATA (on_here (fetch_ha st)) (\<lambda>h.
     answer ERR_IN_SAVING_DATA
       (on_here (file_command (UpdateConfig_net (st_env st)
          (zero_net\<lparr>Ha_of := h\<lparr>ha_status_of := (ha_status_of h)\<lparr>hs_synced := now_text (st_ha st)\<rparr>\<rparr>\<rparr>)
          HA_STRING [] ''SYNC HA''))) (\<lambda>_.
     answer ''Error in sending last synced at to HA peer''
       (sendLastSyncedAtToPeer st peer (now_text (st_ha st))) (\<lambda>_.
       ret (NewSuccessResponse ''Success''
              (Some ''Successfully Synced configuration with backup device''))))))"

text \<open>\<open>CreateHa\<close>: enabling, disabling and synchronising by the type of the request.\<close>

definition CreateHa ::
  "('k, 'y) site \<Rightarrow> ('k, 'y) site \<Rightarrow> ha_request \<Rightarrow> (('k, 'y) cluster, string api_response) act" where
  "CreateHa st peer request =
     (let req = trim_ha request in
      answer ERR_FROM_CLIENT_SIDE (on_here (validateHaRequest st req)) (\<lambda>_.
        if hr_type req = 1 then on_here (enable_ha st req)
        else if hr_type req = 2 then
          answer ERR_IN_FETCHING_DATA (on_here (fetch_ha st)) (\<lambda>h.
          answer ''HA is not enabled'' (check (fails_if (ha_role h = []) ''invalid action type'')) (\<lambda>_.
          bind_act (on_here (DisableHa st)) (\<lambda>r.
            ret (if resp_status r \<noteq> StatusOK then r
                 else NewSuccessResponse ''Success'' (Some ''Successfully disabled HA'')))))
        else if hr_type req = 3 then sync_ha st peer
        else ret (NewErrorResponse StatusBadRequest ERR_FROM_CLIENT_SIDE (Err ''Invalid request type''))))"

end
