(* ===== verification/Sample_Host.thy ===== *)
theory Sample_Host
  imports Ha_Sync
begin

text \<open>
  A small kernel for the examples: a table of links with their addresses. Deleting the first address of a
  link drops the others with it, as Linux drops the secondary addresses of a subnet with the primary one;
  deleting a link frees its slaves. With it a configuration file whose bytes are the configuration itself.
\<close>

type_synonym table = "(link \<times> addr list) list"

definition row_of :: "table \<Rightarrow> string \<Rightarrow> (link \<times> addr list) option" where
  "row_of t n = find (\<lambda>r. lk_name (fst r) = n) t"

definition on_row :: "string \<Rightarrow> (link \<times> addr list \<Rightarrow> link \<times> addr list) \<Rightarrow> table \<Rightarrow> go_error option \<times> table" where
  "on_row n f t =
     (case row_of t n of
        None \<Rightarrow> (Some (Err ''Link not found''), t)
      | Some r \<Rightarrow> (None, update_where (\<lambda>r. lk_name (fst r) = n) f t))"

definition on_link :: "string \<Rightarrow> (link \<Rightarrow> link) \<Rightarrow> table \<Rightarrow> go_error option \<times> table" where
  "on_link n f = on_row n (\<lambda>(l, as). (f l, as))"

definition net_text :: "ipnet \<Rightarrow> string" where
  "net_text p = ip_string (net_addr p) @ ''/'' @ show_nat (net_ones p)"

definition stored_addr :: "ipnet \<Rightarrow> addr" where
  "stored_addr p = \<lparr>ad_ip = (if To4 (net_addr p) \<noteq> [] then To4 (net_addr p) else net_addr p),
                    ad_ones = net_ones p, ad_flags = 128, ad_label = ''main''\<rparr>"

definition table_add :: "string \<Rightarrow> ipnet option \<Rightarrow> table \<Rightarrow> go_error option \<times> table" where
  "table_add n p t =
     (case p of
        None \<Rightarrow> (Some nil_panic, t)
      | Some q \<Rightarrow>
          (case row_of t n of
             None \<Rightarrow> (Some (Err ''Link not found''), t)
           | Some (l, as) \<Rightarrow>
               if net_text q \<in> set (map addr_text as) then (Some (Err ''file exists''), t)
               else on_row n (\<lambda>(l, as). (l, as @ [stored_addr q])) t))"

definition table_del :: "string \<Rightarrow> ipnet option \<Rightarrow> table \<Rightarrow> go_error option \<times> table" where
  "table_del n p t =
     (case p of
        None \<Rightarrow> (Some nil_panic, t)
      | Some q \<Rightarrow>
          (case row_of t n of
             None \<Rightarrow> (Some (Err ''Link not found''), t)
           | Some (l, as) \<Rightarrow>
               if net_text q \<notin> set (map addr_text as) then (Some (Err ''cannot assign requested address''), t)
               else on_row n (\<lambda>(l, as). (l, if addr_text (hd as) = net_text q then []
                                            else filter (\<lambda>a. addr_text a \<noteq> net_text q) as)) t))"

definition table_link :: "string \<Rightarrow> string \<Rightarrow> int \<Rightarrow> link" where
  "table_link n kind i =
     \<lparr>lk_name = n, lk_type = kind, lk_index = i, lk_master = 0, lk_parent = 0, lk_oper = ''down'',
      lk_hardware = ''00:11:22:33:44:55'', lk_mtu = 1500, lk_stats = no_stats, lk_slave = None, lk_bond_mode = []\<rparr>"

definition index_of :: "table \<Rightarrow> string \<Rightarrow> int" where
  "index_of t n = (case row_of t n of None \<Rightarrow> 0 | Some (l, as) \<Rightarrow> lk_index l)"

definition table_kernel :: "table port_env" where
  "table_kernel =
     \<lparr>LinkList = \<lambda>t. Inr (map fst t),
      LinkByName = \<lambda>t n. case row_of t n of None \<Rightarrow> Inl (Err ''Link not found'') | Some (l, as) \<Rightarrow> Inr l,
      LinkByIndex = \<lambda>t i. case find (\<lambda>r. lk_index (fst r) = i) t of
                              None \<Rightarrow> Inl (Err ''Link not found'') | Some (l, as) \<Rightarrow> Inr l,
      AddrList = \<lambda>t l f. case row_of t (lk_name l) of
                              None \<Rightarrow> Inl (Err ''Link not found'') | Some (l, as) \<Rightarrow> Inr as,
      AddrAdd = table_add, AddrDel = table_del,
      LinkSetUp = \<lambda>n. on_link n (\<lambda>l. l\<lparr>lk_oper := ''up''\<rparr>),
      LinkSetDown = \<lambda>n. on_link n (\<lambda>l. l\<lparr>lk_oper := ''down''\<rparr>),
      LinkAdd = \<lambda>m t. (None, t @ [((table_link (nl_name m) (nl_kind m) (int (length t) + 1))
                                     \<lparr>lk_parent := nl_parent m, lk_bond_mode := nl_mode m\<rparr>, [])]),
      LinkDel = \<lambda>n t. (None, map (\<lambda>(l, as). (if lk_master l = index_of t n then l\<lparr>lk_master := 0, lk_slave := None\<rparr>
                                                else l, as))
                                (filter (\<lambda>r. lk_name (fst r) \<noteq> n) t)),
      LinkSetMaster = \<lambda>n b t. on_link n (\<lambda>l. l\<lparr>lk_master := index_of t b, lk_slave := Some (''bridge'', ''forwarding'')\<rparr>) t,
      LinkSetNoMaster = \<lambda>n. on_link n (\<lambda>l. l\<lparr>lk_master := 0, lk_slave := None\<rparr>),
      LinkSetBondSlave = \<lambda>n b t. on_link n (\<lambda>l. l\<lparr>lk_master := index_of t b, lk_slave := Some (''bond'', ''active'')\<rparr>) t,
      LinkSetAlias = \<lambda>n a t. (None, t),
      LinkSetHardwareAddr = \<lambda>n h t. (None, t),
      LinkSetMTU = \<lambda>n m. on_link n (\<lambda>l. l\<lparr>lk_mtu := m\<rparr>),
      BondModeKnown = \<lambda>m. True,
      range_order = \<lambda>xs. xs,
      CmdGetMapped = \<lambda>t n. Inr Map.empty\<rparr>"

definition plain_env :: "net_config net_env" where
  "plain_env =
     \<lparr>net_lock_free = True, net_create_error = None, net_read_error = None, net_write_error = None,
      net_torn = None, net_empty = zero_net, enc_net = Inr, dec_net = Inr, re_all = Inr, re_physical = Inr,
      re_vlan = Inr, re_bridge = Inr, re_bond = Inr, re_ha = Inr, re_routes = Inr\<rparr>"

lemma plain_works: "net_works plain_env"
  by (simp add: net_works_def plain_env_def)

lemma plain_holds: "net_holds plain_env (Some c) c"
  by (simp add: net_holds_def plain_env_def)

definition plain_ha :: "net_config ha_env" where
  "plain_ha =
     \<lparr>ping = \<lambda>ip. True, keepalived_error = None, systemctl = \<lambda>a s. None, state_file = Inr ''primary'',
      device_file = Inr ''model_no = W10'', now_text = ''now'', vmac = 0, dec_v2 = Inr, enc_v2 = Inr,
      raw_read_error = None, raw_write_error = None, transport_error = \<lambda>p. None, json_error = \<lambda>p e. e,
      decode_info = \<lambda>p. Inr \<lparr>di_serial = [], di_model = ''W10'', di_password = ''secret''\<rparr>\<rparr>"

definition plain_site :: "(table, net_config) site" where
  "plain_site = \<lparr>st_env = plain_env, st_nl = table_kernel, st_ha = plain_ha\<rparr>"

definition v4_addr :: "8 word \<Rightarrow> addr" where
  "v4_addr n = \<lparr>ad_ip = [10, 0, 0, n], ad_ones = 24, ad_flags = 128, ad_label = ''main''\<rparr>"

end
