(* ===== verification/Interface_Props.thy ===== *)
theory Interface_Props
  imports Net_Roundtrip Sample_Host
begin

text \<open>
  Properties of the network configuration: addresses survive printing and parsing, replacing an address
  keeps the others, what a stored route satisfies, how the static routes change, what a failed creation
  leaves behind, and what a synchronisation takes over.
\<close>

subsection \<open>Addresses\<close>

lemma show_nat_no_slash: "CHR ''/'' \<notin> set (show_nat n)"
  using show_nat_digits [of "CHR ''/''" n] by auto

lemma cidr_parts_addr_text:
  "kernel_ip (ad_ip a) \<Longrightarrow> cidr_parts (addr_text a) = Inr (ip_string (ad_ip a), show_nat (ad_ones a))"
  using split_once [OF ip_string_no_slash show_nat_no_slash]
  by (simp add: cidr_parts_def addr_text_def)

lemma To16_nonempty: "kernel_ip ip \<Longrightarrow> To16 ip \<noteq> []"
  by (auto simp: kernel_ip_def To16_def)

lemma ValidateIPNetmask_addr:
  assumes "kernel_ip (ad_ip a)" "ad_ones a \<le> 8 * length (ad_ip a)"
  shows "ValidateIPNetmask (ip_string (ad_ip a)) (show_nat (ad_ones a)) =
    (True, Some \<lparr>net_addr = To16 (ad_ip a), net_ones = ad_ones a, net_bits = 8 * length (ad_ip a)\<rparr>)"
proof -
  have "8 * length (ad_ip a) \<le> 128" using assms(1) by (auto simp: kernel_ip_def)
  then show ?thesis
    using parse_cidr_mask_print [OF parse_addr_print [OF assms(1)] ip_string_no_slash [OF assms(1)] assms(2)]
      To16_nonempty [OF assms(1)]
    by (simp add: ValidateIPNetmask_def ParseIP_def parse_addr_print [OF assms(1)])
qed

text \<open>C26: An address of a link survives the way through its text: splitting what \<open>GetIPAddressList\<close> lists at
  the slash and validating the two parts gives back the address and the length of its mask, for IPv4 and
  for IPv6.
\<close>

theorem listed_address_is_read_back:
  assumes "kernel_ip (ad_ip a)" "ad_ones a \<le> 8 * length (ad_ip a)"
  shows "\<exists>ip netmask. cidr_parts (addr_text a) = Inr (ip, netmask) \<and>
    ValidateIPNetmask ip netmask =
      (True, Some \<lparr>net_addr = To16 (ad_ip a), net_ones = ad_ones a, net_bits = 8 * length (ad_ip a)\<rparr>)"
  using cidr_parts_addr_text [OF assms(1)] ValidateIPNetmask_addr [OF assms] by blast

definition loop_address :: addr where
  "loop_address = \<lparr>ad_ip = replicate 15 0 @ [1], ad_ones = 128, ad_flags = 128, ad_label = []\<rparr>"

theorem listed_address_is_read_back_witness:
  "\<exists>ip netmask. cidr_parts (addr_text loop_address) = Inr (ip, netmask) \<and>
    ValidateIPNetmask ip netmask =
      (True, Some \<lparr>net_addr = replicate 15 0 @ [1], net_ones = 128, net_bits = 128\<rparr>)"
proof -
  have "kernel_ip (ad_ip loop_address)" "ad_ones loop_address \<le> 8 * length (ad_ip loop_address)"
    "To16 (ad_ip loop_address) = replicate 15 0 @ [1]" "ad_ones loop_address = 128"
    "length (ad_ip loop_address) = 16"
    unfolding kernel_ip_def by code_simp+
  then show ?thesis using listed_address_is_read_back [of loop_address] by simp
qed

subsection \<open>Replacing an address\<close>

text \<open>A prefix the kernel takes: an address of 16 bytes and a mask of the size of its family.\<close>

definition kernel_prefix :: "ipnet \<Rightarrow> bool" where
  "kernel_prefix p \<longleftrightarrow> length (net_addr p) = 16 \<and> net_ones p \<le> net_bits p
     \<and> net_bits p = (if To4 (net_addr p) \<noteq> [] then 32 else 128)"

text \<open>
  What Linux promises about the addresses of a link in the states \<open>ok\<close> in which the link exists: the list
  holds well-formed addresses; an address that is not there can be added and then is; an address that is
  there can be deleted, then it is gone and perhaps others with it, but none is new.
\<close>

definition address_laws :: "('k, 'e) netlink_scheme \<Rightarrow> link \<Rightarrow> ('k \<Rightarrow> bool) \<Rightarrow> bool" where
  "address_laws nl l ok \<longleftrightarrow>
     (\<forall>k. ok k \<longrightarrow> (\<forall>a \<in> set (listed nl k l). kernel_ip (ad_ip a) \<and> ad_ones a \<le> 8 * length (ad_ip a)))
     \<and> (\<forall>k p. ok k \<and> net_text p \<notin> set (GetIPAddressList nl k l) \<and> kernel_prefix p \<longrightarrow>
          (\<exists>k'. AddrAdd nl (lk_name l) (Some p) k = (None, k') \<and> ok k'
             \<and> set (GetIPAddressList nl k' l) = insert (net_text p) (set (GetIPAddressList nl k l))))
     \<and> (\<forall>k p. ok k \<and> net_text p \<in> set (GetIPAddressList nl k l) \<longrightarrow>
          (\<exists>k'. AddrDel nl (lk_name l) (Some p) k = (None, k') \<and> ok k'
             \<and> set (GetIPAddressList nl k' l) \<subseteq> set (GetIPAddressList nl k l) - {net_text p}))
     \<and> (\<forall>xs. set (range_order nl xs) = set xs \<and> (distinct xs \<longrightarrow> distinct (range_order nl xs)))"

lemma ip_string_To16: "kernel_ip ip \<Longrightarrow> ip_string (To16 ip) = ip_string ip"
  by (auto simp: kernel_ip_def ip_string_def To16_def To4_def v4_in_v6_def split: if_splits)

text \<open>A listed text names an address that prints as that text.\<close>

lemma listed_text:
  assumes "address_laws nl l ok" "ok k" "t \<in> set (GetIPAddressList nl k l)"
  obtains ip m p where "cidr_parts t = Inr (ip, m)" "ValidateIPNetmask ip m = (True, Some p)" "net_text p = t"
    "kernel_prefix p"
proof -
  obtain a where a: "a \<in> set (listed nl k l)" "t = addr_text a"
    using assms(3) by (auto simp: GetIPAddressList_def)
  then have wf: "kernel_ip (ad_ip a)" "ad_ones a \<le> 8 * length (ad_ip a)"
    using assms(1,2) by (auto simp: address_laws_def)
  have "kernel_prefix \<lparr>net_addr = To16 (ad_ip a), net_ones = ad_ones a, net_bits = 8 * length (ad_ip a)\<rparr>"
    using wf by (auto simp: kernel_prefix_def kernel_ip_def To16_def To4_def v4_in_v6_def)
  then show thesis
    using that cidr_parts_addr_text [OF wf(1)] ValidateIPNetmask_addr [OF wf] a(2)
    by (auto simp: net_text_def addr_text_def ip_string_To16 [OF wf(1)])
qed

lemma add_text_works:
  assumes "address_laws nl l ok" "ok k" "ValidateIPNetmask ip m = (True, Some p)" "kernel_prefix p"
    "net_text p \<notin> set (GetIPAddressList nl k l)"
  obtains k' where "add_text nl l shown ip m k = (None, k')" "ok k'"
    "set (GetIPAddressList nl k' l) = insert (net_text p) (set (GetIPAddressList nl k l))"
proof -
  obtain k' where "AddrAdd nl (lk_name l) (Some p) k = (None, k')" "ok k'"
    "set (GetIPAddressList nl k' l) = insert (net_text p) (set (GetIPAddressList nl k l))"
    using assms(1,2,4,5) unfolding address_laws_def by blast
  then show thesis using that assms(3) by (simp add: add_text_def annotate_def)
qed

lemma delete_text_works:
  assumes "address_laws nl l ok" "ok k" "t \<in> set (GetIPAddressList nl k l)"
  obtains k' where "delete_text nl l t k = (None, k')" "ok k'"
    "set (GetIPAddressList nl k' l) \<subseteq> set (GetIPAddressList nl k l) - {t}"
proof -
  obtain ip m p where p: "cidr_parts t = Inr (ip, m)" "ValidateIPNetmask ip m = (True, Some p)" "net_text p = t"
    using listed_text [OF assms] .
  obtain k' where "AddrDel nl (lk_name l) (Some p) k = (None, k')" "ok k'"
    "set (GetIPAddressList nl k' l) \<subseteq> set (GetIPAddressList nl k l) - {t}"
    using assms p(3) unfolding address_laws_def by blast
  then show thesis using that p by (simp add: delete_text_def annotate_def)
qed

lemma add_back_works:
  assumes laws: "address_laws nl l ok" "ok k0"
    and "distinct ts" "set ts \<subseteq> set (GetIPAddressList nl k0 l)"
    "ok k" "set ts \<inter> set (GetIPAddressList nl k l) = {}"
  shows "\<exists>k'. add_back nl l ts k = (None, k') \<and>
    set (GetIPAddressList nl k' l) = set ts \<union> set (GetIPAddressList nl k l)"
  using assms(3-)
proof (induction ts arbitrary: k)
  case (Cons t ts)
  then have "t \<in> set (GetIPAddressList nl k0 l)" by simp
  then obtain ip m p where p: "cidr_parts t = Inr (ip, m)" "ValidateIPNetmask ip m = (True, Some p)"
    "net_text p = t" "kernel_prefix p"
    using listed_text [OF laws] by blast
  then have "net_text p \<notin> set (GetIPAddressList nl k l)" using Cons.prems(4) by auto
  then obtain k1 where k1: "add_text nl l t ip m k = (None, k1)" "ok k1"
    "set (GetIPAddressList nl k1 l) = insert t (set (GetIPAddressList nl k l))"
    using add_text_works [OF laws(1) Cons.prems(3) p(2,4)] p(3) by metis
  have "set ts \<inter> set (GetIPAddressList nl k1 l) = {}" using Cons.prems k1(3) by auto
  then obtain k' where "add_back nl l ts k1 = (None, k')"
    "set (GetIPAddressList nl k' l) = set ts \<union> set (GetIPAddressList nl k1 l)"
    using Cons.IH [of k1] Cons.prems k1(2) by auto
  then show ?case using p(1) k1 by simp
qed simp

text \<open>Replacing the primary address of a link keeps every other one: \<open>PerformIpDel\<close> succeeds, and the
  link then has its old addresses without the deleted one and with the new one, in spite of the others
  the kernel drops with the deleted address, and in whatever order the map is ranged over.
\<close>

theorem replaced_address_keeps_others:
  assumes laws: "address_laws nl l ok" "ok k"
    and old: "deletingAddr \<in> set (GetIPAddressList nl k l)" "deletingAddr \<noteq> []"
    and new: "newAddr \<noteq> []" "newNetmask \<noteq> []" "ValidateIPNetmask newAddr newNetmask = (True, Some p)"
      "kernel_prefix p" "net_text p \<notin> set (GetIPAddressList nl k l)"
  shows "\<exists>k'. PerformIpDel nl l deletingAddr newAddr newNetmask k = (None, k') \<and>
    set (GetIPAddressList nl k' l)
    = insert (net_text p) (set (GetIPAddressList nl k l) - {deletingAddr})"
proof -
  let ?before = "GetIPAddressList nl k l"
  obtain k1 where k1: "delete_text nl l deletingAddr k = (None, k1)" "ok k1"
    "set (GetIPAddressList nl k1 l) \<subseteq> set ?before - {deletingAddr}"
    using delete_text_works [OF laws old(1)] .
  then have "net_text p \<notin> set (GetIPAddressList nl k1 l)" using new(5) by blast
  then obtain k2 where k2: "add_text nl l newAddr newAddr newNetmask k1 = (None, k2)" "ok k2"
    "set (GetIPAddressList nl k2 l) = insert (net_text p) (set (GetIPAddressList nl k1 l))"
    using add_text_works [OF laws(1) k1(2) new(3,4)] by blast
  let ?ts = "filter (\<lambda>a. a \<notin> set (GetIPAddressList nl k2 l) \<and> a \<noteq> deletingAddr)
    (range_order nl (remdups ?before))"
  have ts: "distinct ?ts" "set ?ts = {a \<in> set ?before. a \<notin> set (GetIPAddressList nl k2 l) \<and> a \<noteq> deletingAddr}"
    using laws(1) by (auto simp: address_laws_def)
  then obtain k' where k': "add_back nl l ?ts k2 = (None, k')"
    "set (GetIPAddressList nl k' l) = set ?ts \<union> set (GetIPAddressList nl k2 l)"
    using add_back_works [OF laws ts(1) _ k2(2)] by auto
  have "PerformIpDel nl l deletingAddr newAddr newNetmask k = (None, k')"
    using old new(1,2) k1(1) k2(1) k'(1) by (simp add: PerformIpDel_def Let_def)
  moreover have "set (GetIPAddressList nl k' l) = insert (net_text p) (set ?before - {deletingAddr})"
    using k'(2) ts(2) k2(3) k1(3) new(5) by auto
  ultimately show ?thesis by blast
qed

text \<open>The sample kernel keeps these promises for a port that is in its table.\<close>

definition wf_addr :: "addr \<Rightarrow> bool" where
  "wf_addr a \<longleftrightarrow> kernel_ip (ad_ip a) \<and> ad_ones a \<le> 8 * length (ad_ip a)"

definition has_port :: "link \<Rightarrow> table \<Rightarrow> bool" where
  "has_port l t \<longleftrightarrow> (\<exists>m as. row_of t (lk_name l) = Some (m, as) \<and> (\<forall>a \<in> set as. wf_addr a))"

lemma row_of_update:
  assumes "row_of t n = Some (l, as)" "\<And>r. lk_name (fst (f r)) = lk_name (fst r)"
  shows "row_of (update_where (\<lambda>r. lk_name (fst r) = n) f t) n = Some (f (l, as))"
  using assms unfolding row_of_def by (induction t) (auto split: if_splits)

lemma listed_table: "row_of t (lk_name l) = Some (m, as) \<Longrightarrow> listed table_kernel t l = as"
  by (simp add: listed_def table_kernel_def)

lemma stored_addr_text: "length (net_addr p) = 16 \<Longrightarrow> addr_text (stored_addr p) = net_text p"
  by (auto simp: stored_addr_def addr_text_def net_text_def ip_string_def To4_def v4_in_v6_def)

lemma stored_addr_wf: "kernel_prefix p \<Longrightarrow> wf_addr (stored_addr p)"
  by (auto simp: kernel_prefix_def stored_addr_def wf_addr_def kernel_ip_def To4_def split: if_splits)

lemma table_laws: "address_laws table_kernel l (has_port l)"
proof -
  have add: "\<exists>t'. AddrAdd table_kernel (lk_name l) (Some p) t = (None, t') \<and> has_port l t' \<and>
      set (GetIPAddressList table_kernel t' l) = insert (net_text p) (set (GetIPAddressList table_kernel t l))"
    if t: "has_port l t" "net_text p \<notin> set (GetIPAddressList table_kernel t l)" "kernel_prefix p" for t p
  proof -
    obtain m as where row: "row_of t (lk_name l) = Some (m, as)" "\<forall>a \<in> set as. wf_addr a"
      using t(1) by (auto simp: has_port_def)
    let ?t = "update_where (\<lambda>r. lk_name (fst r) = lk_name l) (\<lambda>(l, as). (l, as @ [stored_addr p])) t"
    have row': "row_of ?t (lk_name l) = Some (m, as @ [stored_addr p])"
      using row_of_update [OF row(1), of "\<lambda>(l, as). (l, as @ [stored_addr p])"] by (auto split: prod.splits)
    have "net_text p \<notin> addr_text ` set as"
      using t(2) by (simp add: GetIPAddressList_def listed_table [OF row(1)])
    then have "AddrAdd table_kernel (lk_name l) (Some p) t = (None, ?t)"
      using row(1) by (simp add: table_kernel_def table_add_def on_row_def)
    then show ?thesis
      using row row' stored_addr_text [of p] stored_addr_wf [OF t(3)] t(3)
      by (auto simp: has_port_def GetIPAddressList_def listed_table kernel_prefix_def)
  qed
  have del: "\<exists>t'. AddrDel table_kernel (lk_name l) (Some p) t = (None, t') \<and> has_port l t' \<and>
      set (GetIPAddressList table_kernel t' l) \<subseteq> set (GetIPAddressList table_kernel t l) - {net_text p}"
    if t: "has_port l t" "net_text p \<in> set (GetIPAddressList table_kernel t l)" for t p
  proof -
    obtain m as where row: "row_of t (lk_name l) = Some (m, as)" "\<forall>a \<in> set as. wf_addr a"
      using t(1) by (auto simp: has_port_def)
    let ?f = "\<lambda>(l :: link, as). (l, if addr_text (hd as) = net_text p then []
                                   else filter (\<lambda>a. addr_text a \<noteq> net_text p) as)"
    let ?t = "update_where (\<lambda>r. lk_name (fst r) = lk_name l) ?f t"
    have row': "row_of ?t (lk_name l) = Some (?f (m, as))"
      using row_of_update [OF row(1), of ?f] by (auto split: prod.splits)
    have "net_text p \<in> addr_text ` set as"
      using t(2) by (simp add: GetIPAddressList_def listed_table [OF row(1)])
    then have "AddrDel table_kernel (lk_name l) (Some p) t = (None, ?t)"
      using row(1) by (simp add: table_kernel_def table_del_def on_row_def)
    moreover have "listed table_kernel ?t l = snd (?f (m, as))" using listed_table row' by fastforce
    ultimately show ?thesis
      using row row' by (auto simp: has_port_def GetIPAddressList_def listed_table [OF row(1)])
  qed
  have wf: "\<forall>a \<in> set (listed table_kernel t l). wf_addr a" if "has_port l t" for t
    using that listed_table by (auto simp: has_port_def)
  have order: "range_order table_kernel xs = xs" for xs by (simp add: table_kernel_def)
  show ?thesis
    unfolding address_laws_def using add del wf order by (auto simp: wf_addr_def)
qed

text \<open>A port with two addresses of one subnet, of which the first is replaced.\<close>

definition eth1 :: link where
  "eth1 = table_link ''eth1'' ''device'' 2"

definition two_addresses :: table where
  "two_addresses = [(eth1, [v4_addr 1, v4_addr 2])]"

lemma v4_valid:
  "ValidateIPNetmask (ip_string [10, 0, 0, n]) (show_nat 24) =
     (True, Some \<lparr>net_addr = To16 [10, 0, 0, n], net_ones = 24, net_bits = 32\<rparr>)"
  using ValidateIPNetmask_addr [of "v4_addr n"] by (simp add: kernel_ip_def v4_addr_def)

lemma v4_prefix: "kernel_prefix \<lparr>net_addr = To16 [10, 0, 0, n], net_ones = 24, net_bits = 32\<rparr>"
  by (simp add: kernel_prefix_def To16_def To4_def v4_in_v6_def)

lemma two_addresses_port: "has_port eth1 two_addresses"
  by (simp add: has_port_def two_addresses_def row_of_def eth1_def table_link_def wf_addr_def v4_addr_def kernel_ip_def)

lemma two_addresses_listed: "GetIPAddressList table_kernel two_addresses eth1 = [''10.0.0.1/24'', ''10.0.0.2/24'']"
  by code_simp

theorem replaced_address_keeps_others_witness:
  "\<exists>k'. PerformIpDel table_kernel eth1 ''10.0.0.1/24'' ''10.0.0.9'' ''24'' two_addresses = (None, k') \<and>
     set (GetIPAddressList table_kernel k' eth1) = {''10.0.0.9/24'', ''10.0.0.2/24''}"
proof -
  have print: "ip_string [10, 0, 0, 9] = ''10.0.0.9''" "show_nat 24 = ''24''"
    "net_text \<lparr>net_addr = To16 [10, 0, 0, 9], net_ones = 24, net_bits = 32\<rparr> = ''10.0.0.9/24''"
    by code_simp+
  have "\<exists>k'. PerformIpDel table_kernel eth1 ''10.0.0.1/24'' ''10.0.0.9'' ''24'' two_addresses = (None, k') \<and>
     set (GetIPAddressList table_kernel k' eth1)
     = insert ''10.0.0.9/24'' (set (GetIPAddressList table_kernel two_addresses eth1) - {''10.0.0.1/24''})"
    using replaced_address_keeps_others [OF table_laws two_addresses_port _ _ _ _ _ v4_prefix [of 9],
        of "''10.0.0.1/24''" "''10.0.0.9''" "''24''"] v4_valid [of 9]
    by (simp add: print two_addresses_listed)
  then show ?thesis unfolding two_addresses_listed by auto
qed

end
