(* ===== verification/Route_Props.thy ===== *)
theory Route_Props
  imports Route_Runs Interface_Props
begin

text \<open>
  Properties of the static routes over runs of requests: the stored lists refine tables, the routes stay
  valid, and what reaches the routing daemon.
\<close>

subsection \<open>Refinement\<close>

text \<open>What a step answers and stores, against its result \<open>r\<close> on the tables.\<close>

definition refines ::
  "('y, 'e) net_env_scheme \<Rightarrow> net_config \<Rightarrow> go_error + route_tables
   \<Rightarrow> (go_error + static_routes) \<times> 'y option \<Rightarrow> bool" where
  "refines env c r p \<longleftrightarrow> map_sum_r tables (fst p) = r
     \<and> (\<exists>s. net_holds env (snd p) (c\<lparr>StaticRoutes := s\<rparr>) \<and> unique_keys s
            \<and> tables s = tables_after r (tables (StaticRoutes c)))"

lemma refines_error:
  "net_holds env doc c \<Longrightarrow> unique_keys (StaticRoutes c) \<Longrightarrow> refines env c (Inl e) (Inl e, doc)"
  unfolding refines_def by (intro conjI exI [of _ "StaticRoutes c"]) (simp_all add: tables_after_def)

lemma refines_stored:
  assumes "net_works env" "net_holds env doc c" "unique_keys (StaticRoutes c)"
    "implements operation (StaticRoutes c) new r"
  shows "refines env c r (store_routes env operation caller new doc)"
proof (cases new)
  case (Inl e)
  then show ?thesis using assms(4) refines_error [OF assms(2,3)] by (simp add: implements_def)
next
  case (Inr s)
  let ?s = "merged_routes operation s (StaticRoutes c)"
  have r: "r = Inr (tables ?s)" and unique: "unique_keys ?s" using assms(4) Inr by (simp_all add: implements_def)
  obtain d where d: "store_routes env operation caller new doc = (Inr ?s, d)"
    "net_holds env d (c\<lparr>StaticRoutes := ?s\<rparr>)"
    using store_routes_works [OF assms(1,2)] Inr by blast
  show ?thesis
    unfolding refines_def d(1) r using d(2) unique
    by (intro conjI exI [of _ ?s]) (simp_all add: tables_after_def)
qed

lemma route_step_refines:
  assumes "net_works env" "net_holds env doc c" "unique_keys (StaticRoutes c)"
    "spec_step nl k op (tables (StaticRoutes c)) = Some r"
  shows "refines env c r (route_step env nl k op doc)"
proof -
  note fetch = FetchRouteConfig_works [OF assms(1,2)]
    and stored = refines_stored [OF assms(1-3)] and refused = refines_error [OF assms(2,3)]
  show ?thesis
  proof (cases op)
    case (CreateRoute req)
    then show ?thesis
      using assms(4) stored [OF implements_create [OF assms(3), of "trim_route req"]] refused
      by (auto simp: CreateStaticRoute_def fetch Let_def split: option.splits)
  next
    case (DeleteRoute req)
    then show ?thesis
      using assms(4) stored [OF implements_delete [OF assms(3), of req]]
      by (simp add: DeleteStaticRoute_def fetch)
  next
    case (ChangeRoute operation old new)
    then show ?thesis
      using assms(4) stored [OF implements_change [OF assms(3), of operation old new]] refused
      by (auto simp: UpdateStaticRoute_def fetch Let_def split: option.splits)
  next
    case (SetForward b)
    have "implements Type_STATIC (StaticRoutes c) (Inr ((StaticRoutes c)\<lparr>sr_forward := b\<rparr>)) r"
      using assms(3,4) SetForward
      by (auto simp: implements_def route_ops unique_keys_def Type_STATIC_def Type_IPV4_UNICAST_def
            Type_IPV6_UNICAST_def Type_MULTICAST_def)
    then show ?thesis using stored SetForward by (simp add: UpdateStaticGlobalConfig_def fetch)
  qed
qed

lemma runs_refine:
  assumes "net_works env" "net_holds env doc c" "unique_keys (StaticRoutes c)"
    "spec_run nl ops (tables (StaticRoutes c)) = Some (rs, t)"
  shows "\<exists>as d s. run_routes env nl ops doc = (as, d) \<and> map (map_sum_r tables) as = rs
    \<and> net_holds env d (c\<lparr>StaticRoutes := s\<rparr>) \<and> unique_keys s \<and> tables s = t"
  using assms(2-)
proof (induction ops arbitrary: doc c rs)
  case Nil
  then show ?case by (intro exI [of _ "[]"] exI [of _ doc] exI [of _ "StaticRoutes c"]) simp
next
  case (Cons x ops)
  obtain k op where x: "x = (k, op)" by (cases x)
  obtain r rs' where r: "spec_step nl k op (tables (StaticRoutes c)) = Some r"
    "spec_run nl ops (tables_after r (tables (StaticRoutes c))) = Some (rs', t)" "rs = r # rs'"
    using Cons.prems(3) x by (auto split: option.splits)
  obtain a d where run: "route_step env nl k op doc = (a, d)" by (cases "route_step env nl k op doc")
  then obtain s where step: "map_sum_r tables a = r" "net_holds env d (c\<lparr>StaticRoutes := s\<rparr>)" "unique_keys s"
    "tables s = tables_after r (tables (StaticRoutes c))"
    using route_step_refines [OF assms(1) Cons.prems(1,2) r(1)] by (auto simp: refines_def)
  obtain as d' s' where "run_routes env nl ops d = (as, d')" "map (map_sum_r tables) as = rs'"
    "net_holds env d' (c\<lparr>StaticRoutes := s\<rparr>\<lparr>StaticRoutes := s'\<rparr>)" "unique_keys s'" "tables s' = t"
    using Cons.IH [OF step(2)] step(3,4) r(2) by auto
  then show ?case
    using run step(1) r(3) x by (intro exI [of _ "a # as"] exI [of _ d'] exI [of _ s']) simp
qed

text \<open>An operation the tables say nothing about is a change that makes a key appear twice.\<close>

lemma route_step_collides:
  assumes "net_works env" "net_holds env doc c" "spec_step nl k op (tables (StaticRoutes c)) = None"
  shows "\<exists>operation old new a d s. op = ChangeRoute operation old new \<and> route_step env nl k op doc = (Inr a, d)
    \<and> net_holds env d (c\<lparr>StaticRoutes := s\<rparr>) \<and> \<not> unique_keys s"
proof -
  obtain operation old new where op: "op = ChangeRoute operation old new"
    and valid: "ValidateCreateStaticRouteRequest nl k \<lparr>rq_operation = operation, rq_route = new\<rparr> = None"
    and spec: "spec_change operation old new (tables (StaticRoutes c)) = None"
    using assms(3) by (cases op) (auto split: option.splits)
  obtain s where s: "changed_routes operation old new (StaticRoutes c) = Inr s"
    "\<not> unique_keys (merged_routes operation s (StaticRoutes c))"
    using change_collides [OF spec] by blast
  obtain d where "store_routes env operation ''STATIC_ROUTE_UPDATE'' (Inr s) doc =
      (Inr (merged_routes operation s (StaticRoutes c)), d)"
    "net_holds env d (c\<lparr>StaticRoutes := merged_routes operation s (StaticRoutes c)\<rparr>)"
    using store_routes_works [OF assms(1,2)] by blast
  then show ?thesis
    using s valid by (auto simp: op UpdateStaticRoute_def FetchRouteConfig_works [OF assms(1,2)] Let_def)
qed

text \<open>A run the tables say nothing about has a first such operation.\<close>

lemma spec_run_stops:
  "spec_run nl ops t = None \<Longrightarrow> \<exists>pre k op post rs t'. ops = pre @ (k, op) # post
     \<and> spec_run nl pre t = Some (rs, t') \<and> spec_step nl k op t' = None"
proof (induction ops arbitrary: t)
  case (Cons x ops)
  obtain k op where x: "x = (k, op)" by (cases x)
  show ?case
  proof (cases "spec_step nl k op t")
    case None
    then show ?thesis using x
      by (intro exI [of _ "[]"] exI [of _ k] exI [of _ op] exI [of _ ops] exI [of _ "[]"] exI [of _ t]) simp
  next
    case (Some r)
    then obtain pre k1 op1 post rs t' where "ops = pre @ (k1, op1) # post"
      "spec_run nl pre (tables_after r t) = Some (rs, t')" "spec_step nl k1 op1 t' = None"
      using Cons.IH [of "tables_after r t"] Cons.prems x by (auto split: option.splits)
    then have "x # ops = (x # pre) @ (k1, op1) # post" "spec_run nl (x # pre) t = Some (r # rs, t')"
      "spec_step nl k1 op1 t' = None"
      using x Some by simp_all
    then show ?thesis by blast
  qed
qed simp

lemma runs_collide:
  assumes "net_works env" "net_holds env doc c" "unique_keys (StaticRoutes c)"
    "spec_run nl ops (tables (StaticRoutes c)) = None"
  shows "\<exists>pre k operation old new post rs t as d s a d' s'. ops = pre @ (k, ChangeRoute operation old new) # post
    \<and> spec_run nl pre (tables (StaticRoutes c)) = Some (rs, t)
    \<and> run_routes env nl pre doc = (as, d) \<and> map (map_sum_r tables) as = rs
    \<and> net_holds env d (c\<lparr>StaticRoutes := s\<rparr>) \<and> unique_keys s \<and> tables s = t
    \<and> route_step env nl k (ChangeRoute operation old new) d = (Inr a, d')
    \<and> net_holds env d' (c\<lparr>StaticRoutes := s'\<rparr>) \<and> \<not> unique_keys s'"
proof -
  obtain pre k op post rs t where pre: "ops = pre @ (k, op) # post"
    "spec_run nl pre (tables (StaticRoutes c)) = Some (rs, t)" "spec_step nl k op t = None"
    using spec_run_stops [OF assms(4)] by blast
  obtain as d s where run: "run_routes env nl pre doc = (as, d)" "map (map_sum_r tables) as = rs"
    "net_holds env d (c\<lparr>StaticRoutes := s\<rparr>)" "unique_keys s" "tables s = t"
    using runs_refine [OF assms(1-3) pre(2)] by blast
  obtain operation old new a d' s' where "op = ChangeRoute operation old new"
    "route_step env nl k op d = (Inr a, d')" "net_holds env d' (c\<lparr>StaticRoutes := s'\<rparr>)" "\<not> unique_keys s'"
    using route_step_collides [OF assms(1) run(3), of nl k op] pre(3) run(5) by (simp del: route_step.simps) blast
  with pre(1,2) run show ?thesis by blast
qed

text \<open>C24: The static routes refine their specification over any run of creations, deletions, changes and
  switches of forwarding in which no change moves a route onto the key of another one: the stored lists
  behave as tables from the identifying fields to the route, every answer is the error or the listing the
  tables prescribe, keys stay unique and nothing else in the configuration file changes. In any other run
  this holds up to the first such change, which is accepted and stores two routes with one key.
\<close>

theorem static_routes_refine_tables:
  assumes "net_works env" "net_holds env doc c" "unique_keys (StaticRoutes c)"
  shows "case spec_run nl ops (tables (StaticRoutes c)) of
      Some (rs, t) \<Rightarrow>
        (\<exists>as d s. run_routes env nl ops doc = (as, d) \<and> map (map_sum_r tables) as = rs
          \<and> net_holds env d (c\<lparr>StaticRoutes := s\<rparr>) \<and> unique_keys s \<and> tables s = t)
    | None \<Rightarrow>
        (\<exists>pre k operation old new post rs t as d s a d' s'. ops = pre @ (k, ChangeRoute operation old new) # post
          \<and> spec_run nl pre (tables (StaticRoutes c)) = Some (rs, t)
          \<and> run_routes env nl pre doc = (as, d) \<and> map (map_sum_r tables) as = rs
          \<and> net_holds env d (c\<lparr>StaticRoutes := s\<rparr>) \<and> unique_keys s \<and> tables s = t
          \<and> route_step env nl k (ChangeRoute operation old new) d = (Inr a, d')
          \<and> net_holds env d' (c\<lparr>StaticRoutes := s'\<rparr>) \<and> \<not> unique_keys s')"
  using runs_refine [OF assms] runs_collide [OF assms] by (auto split: option.split)

subsection \<open>Valid routes\<close>

text \<open>An address text with a mask for it.\<close>

definition valid_prefix :: "string \<Rightarrow> string \<Rightarrow> ipnet \<Rightarrow> bool" where
  "valid_prefix ip netmask p \<longleftrightarrow> ValidateIPNetmask ip netmask = (True, Some p) \<and> net_ones p \<le> net_bits p
     \<and> net_bits p \<in> {32, 128}"

definition valid_gateway :: "string \<Rightarrow> bool" where
  "valid_gateway g \<longleftrightarrow> g = [] \<or> ParseIP g \<noteq> []"

definition valid4 :: "ipv4_route \<Rightarrow> bool" where
  "valid4 r \<longleftrightarrow> r4_interface r \<noteq> [] \<and> valid_gateway (r4_gateway r)
     \<and> (\<exists>p. valid_prefix (r4_destination r) (r4_netmask r) p \<and> To4 (net_addr p) \<noteq> [])
     \<and> 0 \<le> r4_metric r \<and> r4_metric r \<le> 255 \<and> 0 \<le> r4_distance r \<and> r4_distance r \<le> 255"

definition valid6 :: "ipv6_route \<Rightarrow> bool" where
  "valid6 r \<longleftrightarrow> r6_interface r \<noteq> [] \<and> valid_gateway (r6_gateway r)
     \<and> (\<exists>p. valid_prefix (r6_destination r) (r6_prefix r) p \<and> To4 (net_addr p) = [])
     \<and> 1 \<le> r6_metric r \<and> r6_metric r \<le> 255"

definition valid_multicast :: "multicast_route \<Rightarrow> bool" where
  "valid_multicast r \<longleftrightarrow> mr_source r \<noteq> [] \<and> mr_destination r \<noteq> [] \<and> mr_source r \<noteq> mr_destination r
     \<and> ParseIP (mr_source_ip r) \<noteq> [] \<and> To4 (ParseIP (mr_group r)) \<noteq> []
     \<and> 224 \<le> ParseIP (mr_group r) ! 12 \<and> ParseIP (mr_group r) ! 12 \<le> 239"

definition valid_routes :: "static_routes \<Rightarrow> bool" where
  "valid_routes s \<longleftrightarrow> (\<forall>r \<in> set (sr_ipv4 s). valid4 r) \<and> (\<forall>r \<in> set (sr_ipv6 s). valid6 r)
     \<and> (\<forall>r \<in> set (sr_multicast s). valid_multicast r)"

lemma ValidateIPNetmask_valid:
  assumes "ValidateIPNetmask ip m = (True, r)"
  obtains p where "r = Some p" "valid_prefix ip m p"
  using ValidateIPNetmask_some [OF assms] parse_cidr_mask_bound assms that
  by (metis (no_types, lifting) insert_iff ipnet.select_convs(2,3) valid_prefix_def)

lemma ValidateIP_parsed: "fst (ValidateIP ip) \<Longrightarrow> ParseIP ip \<noteq> []"
  by (auto simp: ValidateIP_def Let_def To4_def To16_def split: if_splits)

lemma validated4:
  assumes "validate_ipv4_route nl k r = None"
  shows "valid4 r"
proof -
  obtain ok n where v: "ValidateIPNetmask (r4_destination r) (r4_netmask r) = (ok, n)" by fastforce
  then have "ok" "is_ipv4 n" using assms by (auto simp: validate_ipv4_route_def validation_simps split: if_splits)
  then obtain p where "n = Some p" "valid_prefix (r4_destination r) (r4_netmask r) p"
    using v ValidateIPNetmask_valid by metis
  then show ?thesis
    using assms \<open>is_ipv4 n\<close> ValidateIP_parsed [of "r4_gateway r"]
    by (auto simp: valid4_def valid_gateway_def validate_ipv4_route_def validation_simps is_ipv4_def)
qed

lemma validated6:
  assumes "validate_ipv6_route nl k r = None"
  shows "valid6 r"
proof -
  obtain ok n where v: "ValidateIPNetmask (r6_destination r) (r6_prefix r) = (ok, n)" by fastforce
  then have "ok" "\<not> is_ipv4 n" using assms by (auto simp: validate_ipv6_route_def validation_simps split: if_splits)
  then obtain p where "n = Some p" "valid_prefix (r6_destination r) (r6_prefix r) p"
    using v ValidateIPNetmask_valid by metis
  then show ?thesis
    using assms \<open>\<not> is_ipv4 n\<close> ValidateIP_parsed [of "r6_gateway r"]
    by (auto simp: valid6_def valid_gateway_def validate_ipv6_route_def validation_simps is_ipv4_def)
qed

lemma validated_multicast:
  assumes "validate_multicast_route nl k r = None"
  shows "valid_multicast r"
  using assms ValidateIP_parsed [of "mr_source_ip r"]
  by (auto simp: valid_multicast_def validate_multicast_route_def validation_simps IsMulticastIPv4_def Let_def
        split: if_splits)

text \<open>What the steps store is valid.\<close>

lemma created_valid:
  assumes "ValidateCreateStaticRouteRequest nl k req = None" "valid_routes cur" "create_routes req cur = Inr s"
  shows "valid_routes (merged_routes (rq_operation req) s cur)"
  using assms validated4 validated6 validated_multicast
  by (auto simp: ValidateCreateStaticRouteRequest_def create_routes_def map_sum_r_Inr add_route_def valid_routes_def
        merged_routes_def split: if_splits)

lemma remaining_valid:
  assumes "valid_routes cur" "remaining_routes req cur = Inr s"
  shows "valid_routes (merged_routes (rq_operation req) s cur)"
  using assms
  by (auto simp: remaining_routes_def unless_missing_def map_sum_r_Inr drop_routes_def valid_routes_def
        merged_routes_def Let_def split: if_splits option.splits)

lemma changed_valid:
  assumes "ValidateCreateStaticRouteRequest nl k \<lparr>rq_operation = operation, rq_route = new\<rparr> = None"
    "valid_routes cur" "changed_routes operation old new cur = Inr s"
  shows "valid_routes (merged_routes operation s cur)"
  using assms validated4 validated6 validated_multicast
  by (auto simp: ValidateCreateStaticRouteRequest_def changed_routes_def unless_missing_def map_sum_r_Inr
        change_route_def valid_routes_def merged_routes_def update_where_def split: if_splits option.splits)

lemma store_keeps_valid:
  assumes "net_works env" "net_holds env doc c" "valid_routes (StaticRoutes c)"
    "\<And>s. new = Inr s \<Longrightarrow> valid_routes (merged_routes operation s (StaticRoutes c))"
  shows "\<exists>s. net_holds env (snd (store_routes env operation caller new doc)) (c\<lparr>StaticRoutes := s\<rparr>) \<and> valid_routes s"
proof (cases new)
  case (Inl e)
  then show ?thesis using assms(2,3) by (intro exI [of _ "StaticRoutes c"]) simp
next
  case (Inr s)
  then show ?thesis
    using store_routes_works [OF assms(1,2), of operation caller s] assms(4) by (metis snd_conv)
qed

lemma route_step_valid:
  assumes "net_works env" "net_holds env doc c" "valid_routes (StaticRoutes c)"
  shows "\<exists>s. net_holds env (snd (route_step env nl k op doc)) (c\<lparr>StaticRoutes := s\<rparr>) \<and> valid_routes s"
proof -
  note fetch = FetchRouteConfig_works [OF assms(1,2)] and store = store_keeps_valid [OF assms]
  have same: "\<exists>s. net_holds env doc (c\<lparr>StaticRoutes := s\<rparr>) \<and> valid_routes s"
    using assms(2,3) by (intro exI [of _ "StaticRoutes c"]) simp
  show ?thesis
  proof (cases op)
    case (CreateRoute req)
    then show ?thesis
      using same store created_valid [of nl k "trim_route req", OF _ assms(3)]
      by (cases "ValidateCreateStaticRouteRequest nl k (trim_route req)") (simp_all add: CreateStaticRoute_def fetch Let_def)
  next
    case (DeleteRoute req)
    then show ?thesis using store remaining_valid [OF assms(3)] by (simp add: DeleteStaticRoute_def fetch)
  next
    case (ChangeRoute operation old new)
    then show ?thesis
      using same store changed_valid [of nl k operation new, OF _ assms(3)]
      by (cases "ValidateCreateStaticRouteRequest nl k \<lparr>rq_operation = operation, rq_route = new\<rparr>")
         (simp_all add: UpdateStaticRoute_def fetch)
  next
    case (SetForward b)
    have "valid_routes (merged_routes Type_STATIC ((StaticRoutes c)\<lparr>sr_forward := b\<rparr>) (StaticRoutes c))"
      using assms(3) by (simp add: valid_routes_def merged_routes_def)
    then show ?thesis
      using store [of "Inr ((StaticRoutes c)\<lparr>sr_forward := b\<rparr>)" Type_STATIC] SetForward
      by (simp add: UpdateStaticGlobalConfig_def fetch)
  qed
qed

text \<open>C25: Every route in the configuration file is well-formed, over any run of requests on the static
  routes: its interface is named, its destination and mask parse to an address of its family with a mask
  within the bits of the text, its gateway is an address or absent, its metric and distance are in range,
  and a multicast group is one, between two different interfaces.
\<close>

theorem stored_routes_are_valid:
  assumes "net_works env" "net_holds env doc c" "valid_routes (StaticRoutes c)"
  shows "\<exists>s. net_holds env (snd (run_routes env nl ops doc)) (c\<lparr>StaticRoutes := s\<rparr>) \<and> valid_routes s"
  using assms(2,3)
proof (induction ops arbitrary: doc c)
  case Nil
  then show ?case by (intro exI [of _ "StaticRoutes c"]) simp
next
  case (Cons x ops)
  obtain k op where x: "x = (k, op)" by (cases x)
  obtain s where s: "net_holds env (snd (route_step env nl k op doc)) (c\<lparr>StaticRoutes := s\<rparr>)" "valid_routes s"
    using route_step_valid [OF assms(1) Cons.prems, of nl k op] by blast
  then show ?case
    using Cons.IH [OF s(1)] x by (auto simp: case_prod_beta Let_def)
qed

subsection \<open>Examples\<close>

text \<open>A host with one port, a request for a route through it, and that route.\<close>

definition one_port :: table where
  "one_port = [(table_link ''eth1'' ''device'' 2, [])]"

definition route10 :: ipv4_route where
  "route10 = \<lparr>r4_destination = ''10.0.0.0'', r4_netmask = ''8'', r4_gateway = [], r4_interface = ''eth1'',
              r4_distance = 0, r4_metric = 0\<rparr>"

definition request10 :: route_request where
  "request10 = \<lparr>rq_operation = Type_IPV4_UNICAST, rq_route = \<lparr>st_ipv4 = route10,
     st_ipv6 = \<lparr>r6_destination = [], r6_prefix = [], r6_gateway = [], r6_interface = [], r6_metric = 0\<rparr>,
     st_multicast = \<lparr>mr_source_ip = [], mr_source = [], mr_group = [], mr_destination = []\<rparr>\<rparr>\<rparr>"

definition ops10 :: "(table \<times> route_op) list" where
  "ops10 = [(one_port, CreateRoute request10), (one_port, CreateRoute request10), (one_port, SetForward True),
            (one_port, DeleteRoute request10), (one_port, DeleteRoute request10)]"

lemma prefix10:
  "ValidateIPNetmask ''10.0.0.0'' ''8'' =
     (True, Some \<lparr>net_addr = To16 [10, 0, 0, 0], net_ones = 8, net_bits = 32\<rparr>)"
proof -
  have "ip_string [10, 0, 0, 0] = ''10.0.0.0''" "show_nat 8 = ''8''" by code_simp+
  then show ?thesis
    using ValidateIPNetmask_addr [of "\<lparr>ad_ip = [10, 0, 0, 0], ad_ones = 8, ad_flags = 128, ad_label = []\<rparr>"]
    by (simp add: kernel_ip_def)
qed

lemma request10_accepted:
  "ValidateCreateStaticRouteRequest table_kernel one_port request10 = None" "trim_route request10 = request10"
  "missing4 route10 = None"
proof -
  have "known_link table_kernel one_port ''eth1''" "To4 (To16 [10, 0, 0, 0]) \<noteq> []" by code_simp+
  then show "ValidateCreateStaticRouteRequest table_kernel one_port request10 = None"
    by (simp add: ValidateCreateStaticRouteRequest_def request10_def route10_def validate_ipv4_route_def prefix10
          validation_simps is_ipv4_def)
  show "trim_route request10 = request10" "missing4 route10 = None" by code_simp+
qed

lemma zero_net_routes: "StaticRoutes zero_net = no_routes"
  by (simp add: zero_net_def)

lemma no_routes_ok: "unique_keys no_routes" "valid_routes no_routes"
  by (simp_all add: unique_keys_def valid_routes_def no_routes_def)

theorem static_routes_refine_tables_witness:
  "\<exists>as d s. run_routes plain_env table_kernel ops10 (Some zero_net) = (as, d)
     \<and> map (map_sum_r tables) as =
         [Inr ((tables no_routes)\<lparr>tb_ipv4 := [key4 route10 \<mapsto> route10]\<rparr>), Inl ErrRouteAlreadyExists,
          Inr ((tables no_routes)\<lparr>tb_ipv4 := [key4 route10 \<mapsto> route10], tb_forward := True\<rparr>),
          Inr ((tables no_routes)\<lparr>tb_forward := True\<rparr>), Inl ErrRouteNotFound]
     \<and> net_holds plain_env d (zero_net\<lparr>StaticRoutes := s\<rparr>) \<and> unique_keys s
     \<and> tables s = (tables no_routes)\<lparr>tb_forward := True\<rparr>"
proof -
  have unique: "unique_keys (StaticRoutes zero_net)" by (simp add: zero_net_routes no_routes_ok)
  have empty: "tb_ipv4 (tables no_routes) = Map.empty" by (simp add: tables_def no_routes_def table_of_def)
  have parts: "rq_operation request10 = Type_IPV4_UNICAST" "st_ipv4 (rq_route request10) = route10"
    by (simp_all add: request10_def)
  have run: "spec_run table_kernel ops10 (tables (StaticRoutes zero_net)) = Some
      ([Inr ((tables no_routes)\<lparr>tb_ipv4 := [key4 route10 \<mapsto> route10]\<rparr>), Inl ErrRouteAlreadyExists,
        Inr ((tables no_routes)\<lparr>tb_ipv4 := [key4 route10 \<mapsto> route10], tb_forward := True\<rparr>),
        Inr ((tables no_routes)\<lparr>tb_forward := True\<rparr>), Inl ErrRouteNotFound],
       (tables no_routes)\<lparr>tb_forward := True\<rparr>)"
    unfolding ops10_def zero_net_routes
    by (simp add: request10_accepted parts empty spec_create_def spec_delete_def on_ipv4_def insert_entry_def
          delete_entry_def tables_after_def Let_def)
  show ?thesis
    using static_routes_refine_tables [OF plain_works plain_holds unique, where nl = table_kernel and ops = ops10]
    unfolding run option.case prod.case .
qed

theorem stored_routes_are_valid_witness:
  "\<exists>s. net_holds plain_env (snd (run_routes plain_env table_kernel ops10 (Some zero_net)))
          (zero_net\<lparr>StaticRoutes := s\<rparr>) \<and> valid_routes s"
  by (rule stored_routes_are_valid [OF plain_works plain_holds]) (simp add: zero_net_routes no_routes_ok)

end
