(* ===== verification/Link_Props.thy ===== *)
theory Link_Props
  imports Interface_Props
begin

text \<open>
  Properties of creating and changing interfaces: what a failed creation leaves behind, and an update
  whose address is surrounded by blanks.
\<close>

subsection \<open>A failed bond is removed\<close>

text \<open>What Linux promises: adding that fails adds nothing, and a link that was deleted is not found.\<close>

definition link_laws :: "('k, 'e) netlink_scheme \<Rightarrow> bool" where
  "link_laws nl \<longleftrightarrow>
     (\<forall>m k e k'. LinkAdd nl m k = (Some e, k') \<longrightarrow> k' = k)
     \<and> (\<forall>n k k'. LinkDel nl n k = (None, k') \<longrightarrow> isl (LinkByName nl k' n))"

lemma undo_on_error_Err:
  "undo_on_error nl name pending m s = (Inl (Err e), s') \<Longrightarrow>
     \<exists>s1. m s = (Inl (Err e), s1) \<and> s' = s1\<lparr>kernel := snd (LinkDel nl name (kernel s1))\<rparr>"
  by (auto simp: undo_on_error_def split: prod.splits sum.splits go_error.splits if_splits)

text \<open>Deleted, or the deletion was tried last and failed.\<close>

lemma deleted_or_failed:
  assumes "link_laws nl" "s' = s1\<lparr>kernel := snd (LinkDel nl name (kernel s1))\<rparr>"
  shows "isl (LinkByName nl (kernel s') name) \<or> (\<exists>k d. LinkDel nl name k = (Some d, kernel s'))"
proof (cases "LinkDel nl name (kernel s1)")
  case (Pair d k)
  then show ?thesis using assms by (cases d) (auto simp: link_laws_def)
qed

text \<open>C27: A bond whose creation fails does not stay: when \<open>CreateBondedLink\<close> reports an error for a name that
  was free, there is no link of that name afterwards, whichever step failed, unless the deletion itself
  was refused: then its error is only printed.
\<close>

theorem failed_bond_leaves_no_link:
  assumes "link_laws nl" "isl (LinkByName nl (kernel s) (trim_space (bo_name req)))"
    "CreateBondedLink env nl req s = (Inl (Err e), s')"
  shows "isl (LinkByName nl (kernel s') (trim_space (bo_name req)))
    \<or> (\<exists>k d. LinkDel nl (trim_space (bo_name req)) k = (Some d, kernel s'))"
proof -
  have name: "bo_name (trim_bond req) = trim_space (bo_name req)" by (simp add: trim_bond_def)
  consider "s' = s" | k1 e1 where "LinkAdd nl \<lparr>nl_name = bo_name (trim_bond req), nl_kind = BOND_STRING,
        nl_parent = 0, nl_vlan = 0, nl_mode = bo_mode (trim_bond req)\<rparr> (kernel s) = (Some e1, k1)" "s' = s\<lparr>kernel := k1\<rparr>"
    | s1 where "s' = s1\<lparr>kernel := snd (LinkDel nl (bo_name (trim_bond req)) (kernel s1))\<rparr>"
    using assms(3) unfolding CreateBondedLink_def Let_def
    by (auto simp: act_Inl run_Inr dest!: undo_on_error_Err)
  then show ?thesis
  proof cases
    case (2 k1 e1)
    then have "kernel s' = kernel s" using assms(1) by (simp add: link_laws_def)
    then show ?thesis using assms(2) by simp
  next
    case (3 s1)
    from deleted_or_failed [OF assms(1) this] show ?thesis unfolding name .
  qed (simp add: assms(2))
qed

subsection \<open>A failed bridge stays\<close>

lemma bridge_guards_name:
  "bridge_guards nl req k = None \<Longrightarrow> ValidateInterfaceName (trim_space (br_name req)) BRIDGE_STRING = None"
  by (simp add: bridge_guards_def Let_def validation_simps)

text \<open>A bridge whose configuration fails after it was added stays, and its name cannot be used again: the
  request is answered with the error, the link is left as the failing step left it, and the same request
  is then refused because the bridge already exists.
\<close>

theorem failed_bridge_blocks_its_name:
  assumes "bridge_guards nl req (kernel s) = None"
    "LinkAdd nl \<lparr>nl_name = trim_space (br_name req), nl_kind = BRIDGE_STRING, nl_parent = 0, nl_vlan = 0, nl_mode = []\<rparr>
       (kernel s) = (None, k1)"
    "configure_bridge nl (trim_bridge req) (s\<lparr>kernel := k1\<rparr>) = (Inl e, s')"
    "LinkByName nl (kernel s') (trim_space (br_name req)) = Inr l"
  shows "CreateBridgeInterface env nl req s = (Inl e, s')
    \<and> CreateBridgeInterface env nl req s'
      = (Inl (Err (''Bridge interface '' @ trim_space (br_name req) @ '' already exists'')), s')"
proof -
  have name: "br_name (trim_bridge req) = trim_space (br_name req)" by (simp add: trim_bridge_def)
  have "CreateBridgeInterface env nl req s = (Inl e, s')"
    using assms(1-3)
    by (simp add: CreateBridgeInterface_def Let_def bind_act_def query_def andthen_run check_def or_error_def
          command_def name)
  moreover have "bridge_guards nl req (kernel s')
      = Some (Err (''Bridge interface '' @ trim_space (br_name req) @ '' already exists''))"
    using bridge_guards_name [OF assms(1)] assms(4)
    by (simp add: bridge_guards_def Let_def CheckInterfaceExists_def)
  ultimately show ?thesis
    by (simp add: CreateBridgeInterface_def Let_def bind_act_def query_def andthen_run check_def)
qed

subsection \<open>A blank too many\<close>

lemma update_addresses_panics:
  assumes laws: "address_laws nl l ok" "ok (kernel s)"
    and panics: "\<And>k. AddrAdd nl (lk_name l) None k = (Some nil_panic, k)"
    and on: "v4_on d4" "v4_mode (trim_v4 d4) = STATIC_STRING"
    and old: "GetPrimaryIPAddress nl (kernel s) l \<in> set (GetIPAddressList nl (kernel s) l)"
      "GetPrimaryIPAddress nl (kernel s) l \<noteq> []"
      "v4_address (trim_v4 d4) @ ''/'' @ v4_netmask (trim_v4 d4) \<noteq> GetPrimaryIPAddress nl (kernel s) l"
    and blank: "v4_address d4 \<noteq> []" "v4_netmask d4 \<noteq> []" "ValidateIPNetmask (v4_address d4) (v4_netmask d4) = (False, None)"
  obtains k' where "update_addresses nl l (trim_v4 d4) c6 d4 d6 msg s = (Inl nil_panic, s\<lparr>kernel := k'\<rparr>)"
    "GetPrimaryIPAddress nl (kernel s) l \<notin> set (GetIPAddressList nl k' l)"
proof -
  let ?old = "GetPrimaryIPAddress nl (kernel s) l"
  obtain k1 where k1: "delete_text nl l ?old (kernel s) = (None, k1)"
    "set (GetIPAddressList nl k1 l) \<subseteq> set (GetIPAddressList nl (kernel s) l) - {?old}"
    using delete_text_works [OF laws old(1)] by metis
  have "PerformIpDel nl l ?old (v4_address d4) (v4_netmask d4) (kernel s) = (Some nil_panic, k1)"
    using old(1,2) blank k1(1) panics
    by (simp add: PerformIpDel_def Let_def add_text_def annotate_def nil_panic_def)
  then have "update_addresses nl l (trim_v4 d4) c6 d4 d6 msg s = (Inl nil_panic, s\<lparr>kernel := k1\<rparr>)"
    using on old(3)
    by (simp add: update_addresses_def trim_v4_def only_if_def replace_primary_def bind_act_def query_def
          with_prefix_def command_def nil_panic_def)
  then show thesis using that k1(2) by blast
qed

text \<open>An update of a vlan whose new address is preceded or followed by blanks passes the validation, which
  sees the trimmed request, and then loses the primary address of the vlan: the old address is deleted,
  and the address that is added is that of the request before trimming, which is no address, so that the
  nil prefix panics.
\<close>

theorem blank_around_address_loses_primary:
  assumes laws: "address_laws nl l ok" "ok (kernel s)"
    and panics: "\<And>k. AddrAdd nl (lk_name l) None k = (Some nil_panic, k)"
    and vlan: "LinkByName nl (kernel s) name = Inr l" "lk_type l = VLAN_STRING" "name \<noteq> []"
    and accepted: "ValidateUpdateVlanRequest (trim_vlan_update req) = None"
    and on: "v4_on (vu_v4 req)" "v4_mode (trim_v4 (vu_v4 req)) = STATIC_STRING"
    and old: "GetPrimaryIPAddress nl (kernel s) l \<in> set (GetIPAddressList nl (kernel s) l)"
      "GetPrimaryIPAddress nl (kernel s) l \<noteq> []"
      "v4_address (trim_v4 (vu_v4 req)) @ ''/'' @ v4_netmask (trim_v4 (vu_v4 req)) \<noteq> GetPrimaryIPAddress nl (kernel s) l"
    and blank: "v4_address (vu_v4 req) \<noteq> []" "v4_netmask (vu_v4 req) \<noteq> []"
      "ValidateIPNetmask (v4_address (vu_v4 req)) (v4_netmask (vu_v4 req)) = (False, None)"
  shows "\<exists>k'. UpdateVlanInterface env nl name req s = (Inl nil_panic, s\<lparr>kernel := k'\<rparr>)
    \<and> GetPrimaryIPAddress nl (kernel s) l \<notin> set (GetIPAddressList nl k' l)"
proof -
  let ?msg = "''Failed to delete IP address from vlan interface '' @ name @ '' with error : ''"
  obtain k' where k': "update_addresses nl l (trim_v4 (vu_v4 req)) (trim_v6 (vu_v6 req)) (vu_v4 req) (vu_v6 req) ?msg s
      = (Inl nil_panic, s\<lparr>kernel := k'\<rparr>)"
    "GetPrimaryIPAddress nl (kernel s) l \<notin> set (GetIPAddressList nl k' l)"
    using update_addresses_panics [where s = s, OF laws panics on old blank] by blast
  have "UpdateVlanInterface env nl name req s = (Inl nil_panic, s\<lparr>kernel := k'\<rparr>)"
    using vlan accepted k'(1)
    by (simp add: UpdateVlanInterface_def trim_vlan_update_def Let_def andthen_run bind_act_def check_def
          fails_if_def the_link_def or_error_def query_def)
  then show ?thesis using k'(2) by blast
qed

text \<open>A host with a vlan that has one address, and an update of that address with a blank before it.\<close>

definition vlan1 :: link where
  "vlan1 = table_link ''VLAN_1'' ''vlan'' 3"

definition vlan_host :: "(table, net_config) host" where
  "vlan_host = \<lparr>kernel = [(vlan1, [v4_addr 1])], net_doc = Some zero_net\<rparr>"

definition blank_update :: vlan_update where
  "blank_update =
     \<lparr>vu_v4 = \<lparr>v4_on = True, v4_mode = ''static'', v4_address = '' 10.0.0.9'', v4_netmask = ''24'',
                v4_gateway_detail = [], v4_gateway_name = [], v4_gateway_ip = []\<rparr>,
      vu_v6 = \<lparr>v6_on = False, v6_mode = [], v6_address = [], v6_prefix = [],
                v6_gateway_detail = [], v6_gateway_name = [], v6_gateway_ip = []\<rparr>,
      vu_fields = no_fields\<lparr>cf_zone := ''lan''\<rparr>\<rparr>"

lemma parse_v4: "ParseIP (ip_string [10, 0, 0, n]) = To16 [10, 0, 0, n]"
  using parse_addr_print [of "[10, 0, 0, n]"] by (simp add: ParseIP_def kernel_ip_def)

lemma blank_update_accepted: "ValidateUpdateVlanRequest (trim_vlan_update blank_update) = None"
proof -
  have trimmed: "trim_v4 (vu_v4 blank_update) = (vu_v4 blank_update)\<lparr>v4_address := ''10.0.0.9''\<rparr>"
    by code_simp
  have "ip_string [10, 0, 0, 9] = ''10.0.0.9''" "show_nat 24 = ''24''" "To4 (To16 [10, 0, 0, 9]) \<noteq> []" by code_simp+
  then have "validateIPv4Details (trim_v4 (vu_v4 blank_update)) = None"
    unfolding trimmed using v4_valid [of 9] parse_v4 [of 9]
    by (simp add: validateIPv4Details_def blank_update_def StringOfTypeStaticOrDhcp_def STATIC_STRING_def
          ValidateIP_def validation_simps)
  moreover have "validateIPv6Details (trim_v6 (vu_v6 blank_update)) = None"
    "isValidNetworkZone (cf_zone (trim_fields (vu_fields blank_update))) = None"
    by code_simp+
  ultimately show ?thesis by (simp add: ValidateUpdateVlanRequest_def trim_vlan_update_def validation_simps)
qed

theorem blank_around_address_loses_primary_witness:
  "\<exists>k'. UpdateVlanInterface plain_env table_kernel ''VLAN_1'' blank_update vlan_host
       = (Inl nil_panic, vlan_host\<lparr>kernel := k'\<rparr>)
     \<and> ''10.0.0.1/24'' \<notin> set (GetIPAddressList table_kernel k' vlan1)"
proof -
  have primary: "GetPrimaryIPAddress table_kernel (kernel vlan_host) vlan1 = ''10.0.0.1/24''"
    "''10.0.0.1/24'' \<in> set (GetIPAddressList table_kernel (kernel vlan_host) vlan1)"
    by code_simp+
  have port: "has_port vlan1 (kernel vlan_host)"
    by (simp add: has_port_def vlan_host_def row_of_def vlan1_def table_link_def wf_addr_def v4_addr_def kernel_ip_def)
  have "ValidateIPNetmask '' 10.0.0.9'' ''24'' = (False, None)" by code_simp
  then have parts: "v4_on (vu_v4 blank_update)" "v4_mode (trim_v4 (vu_v4 blank_update)) = STATIC_STRING"
    "v4_address (trim_v4 (vu_v4 blank_update)) @ ''/'' @ v4_netmask (trim_v4 (vu_v4 blank_update)) \<noteq> ''10.0.0.1/24''"
    "v4_address (vu_v4 blank_update) \<noteq> []" "v4_netmask (vu_v4 blank_update) \<noteq> []"
    "ValidateIPNetmask (v4_address (vu_v4 blank_update)) (v4_netmask (vu_v4 blank_update)) = (False, None)"
    by (code_simp | simp add: blank_update_def)+
  have "\<And>t. AddrAdd table_kernel (lk_name vlan1) None t = (Some nil_panic, t)"
    by (simp add: table_kernel_def table_add_def)
  moreover have "LinkByName table_kernel (kernel vlan_host) ''VLAN_1'' = Inr vlan1" "lk_type vlan1 = VLAN_STRING"
    by (simp_all add: table_kernel_def vlan_host_def row_of_def vlan1_def table_link_def VLAN_STRING_def)
  ultimately show ?thesis
    using blank_around_address_loses_primary [where s = vlan_host and env = plain_env and name = "''VLAN_1''"
        and req = blank_update, OF table_laws port] blank_update_accepted parts primary
    by simp
qed

subsection \<open>Examples\<close>

text \<open>Two free ports, and a request for a bond of them; the configuration file cannot be written.\<close>

definition two_ports :: "(table, net_config) host" where
  "two_ports = \<lparr>kernel = [(eth1, []), (table_link ''eth2'' ''device'' 3, [])], net_doc = Some zero_net\<rparr>"

definition disk_full :: "net_config net_env" where
  "disk_full = plain_env\<lparr>net_write_error := Some (Err ''disk full'')\<rparr>"

definition no_v4 :: ipv4_details where
  "no_v4 = \<lparr>v4_on = False, v4_mode = [], v4_address = [], v4_netmask = [], v4_gateway_detail = [],
            v4_gateway_name = [], v4_gateway_ip = []\<rparr>"

definition no_v6 :: ipv6_details where
  "no_v6 = \<lparr>v6_on = False, v6_mode = [], v6_address = [], v6_prefix = [], v6_gateway_detail = [],
            v6_gateway_name = [], v6_gateway_ip = []\<rparr>"

definition bond_of_two :: bond_request where
  "bond_of_two =
     \<lparr>bo_name = ''LAG_1'', bo_user_name = [], bo_hardware = [], bo_slaves = [''eth1'', ''eth2''],
      bo_mode = ''802.3ad'', bo_v4 = no_v4, bo_v6 = no_v6, bo_mtu = 0,
      bo_mss = \<lparr>mss_override = False, mss_value = 0\<rparr>, bo_serving = [], bo_domain = [], bo_zone = ''lan''\<rparr>"

definition bridge_of_two :: bridge_request where
  "bridge_of_two =
     \<lparr>br_name = ''BR_1'', br_user_name = [], br_hardware = [], br_description = [], br_routing = False,
      br_members = [''eth1'', ''eth2''], br_v4 = no_v4, br_v6 = no_v6, br_mtu = 9000,
      br_mss = \<lparr>mss_override = False, mss_value = 0\<rparr>, br_stp = \<lparr>stp_on = False, stp_max_age = 0\<rparr>,
      br_arp = False, br_serving = [], br_domain = [], br_zone = ''lan''\<rparr>"

text \<open>A kernel that refuses the MTU of a bridge.\<close>

definition strict_kernel :: "table port_env" where
  "strict_kernel = table_kernel\<lparr>LinkSetMTU := \<lambda>n m t. (Some (Err ''invalid argument''), t)\<rparr>"

lemma table_link_laws: "link_laws table_kernel"
proof -
  have "find (\<lambda>r. lk_name (fst r) = n) (map (\<lambda>(l, as). (f l, as)) (filter (\<lambda>r. lk_name (fst r) \<noteq> n) t)) = None"
    if "\<And>l. lk_name (f l) = lk_name l" for f :: "link \<Rightarrow> link" and n and t :: table
    using that by (auto simp: find_None_iff)
  from this [of "\<lambda>l. if lk_master l = i then l\<lparr>lk_master := 0, lk_slave := None\<rparr> else l" for i]
  have "row_of (map (\<lambda>(l, as). (if lk_master l = i then l\<lparr>lk_master := 0, lk_slave := None\<rparr> else l, as))
      (filter (\<lambda>r. lk_name (fst r) \<noteq> n) t)) n = None" for i n t
    by (simp add: row_of_def)
  then show ?thesis by (simp add: link_laws_def table_kernel_def)
qed

theorem failed_bond_leaves_no_link_witness:
  "isl (LinkByName table_kernel (kernel (snd (CreateBondedLink disk_full table_kernel bond_of_two two_ports))) ''LAG_1'')"
proof -
  have "fst (LinkDel table_kernel n k) = None" for n k by (simp add: table_kernel_def)
  then have deleted: "LinkDel table_kernel n k \<noteq> (Some d, k')" for n k d k' by (metis fst_conv option.distinct(1))
  have "case fst (CreateBondedLink disk_full table_kernel bond_of_two two_ports) of
      Inl (Err e) \<Rightarrow> True | _ \<Rightarrow> False"
    by code_simp
  then obtain e where "fst (CreateBondedLink disk_full table_kernel bond_of_two two_ports) = Inl (Err e)"
    by (auto split: sum.splits go_error.splits)
  moreover have "trim_space (bo_name bond_of_two) = ''LAG_1''"
    "isl (LinkByName table_kernel (kernel two_ports) ''LAG_1'')"
    by code_simp+
  ultimately show ?thesis
    using failed_bond_leaves_no_link [OF table_link_laws, where s = two_ports and env = disk_full and req = bond_of_two]
      deleted by (metis prod.collapse)
qed

theorem failed_bridge_blocks_its_name_witness:
  "\<exists>s'. CreateBridgeInterface plain_env strict_kernel bridge_of_two two_ports
       = (Inl (Err ''Failed to set MTU for bridge interface BR_1''), s')
     \<and> CreateBridgeInterface plain_env strict_kernel bridge_of_two s'
       = (Inl (Err ''Bridge interface BR_1 already exists''), s')"
proof -
  let ?m = "\<lparr>nl_name = ''BR_1'', nl_kind = BRIDGE_STRING, nl_parent = 0, nl_vlan = 0, nl_mode = []\<rparr>"
  let ?r = "\<lambda>k. configure_bridge strict_kernel (trim_bridge bridge_of_two) (two_ports\<lparr>kernel := k\<rparr>)"
  let ?e = "Err ''Failed to set MTU for bridge interface BR_1''"
  have name: "trim_space (br_name bridge_of_two) = ''BR_1''" by code_simp
  have guards: "bridge_guards strict_kernel bridge_of_two (kernel two_ports) = None" by code_simp
  obtain k where k: "snd (LinkAdd strict_kernel ?m (kernel two_ports)) = k" by blast
  have "fst (LinkAdd strict_kernel ?m (kernel two_ports)) = None" by code_simp
  then have added: "LinkAdd strict_kernel ?m (kernel two_ports) = (None, k)" using k by (simp add: prod_eq_iff)
  have "fst (?r k) = Inl ?e" unfolding k [symmetric] by code_simp
  then obtain s' where s': "?r k = (Inl ?e, s')" by (cases "?r k") simp
  have "\<not> isl (LinkByName strict_kernel (kernel (snd (?r k))) ''BR_1'')" unfolding k [symmetric] by code_simp
  then obtain l where l: "LinkByName strict_kernel (kernel s') ''BR_1'' = Inr l"
    unfolding s' by (cases "LinkByName strict_kernel (kernel s') ''BR_1''") auto
  show ?thesis
    using failed_bridge_blocks_its_name [where nl = strict_kernel and env = plain_env and req = bridge_of_two,
        OF guards, unfolded name, OF added s' l]
    by auto
qed

end
