(* ===== verification/Ha_Props.thy ===== *)
theory Ha_Props
  imports Sample_Host
begin

text \<open>
  Properties of the high availability of two appliances: what a synchronisation checks, and what the
  handlers it relies on accept from anyone.
\<close>

subsection \<open>The password is checked\<close>

text \<open>A text that means the same inside a JSON string.\<close>

definition json_plain :: "string \<Rightarrow> bool" where
  "json_plain t \<longleftrightarrow> (\<forall>c \<in> set t. c \<noteq> CHR 0x22 \<and> c \<noteq> CHR 0x5C \<and> (32 :: nat) \<le> of_char c \<and> (of_char c :: nat) < 128)"

definition info_plain :: "device_info \<Rightarrow> bool" where
  "info_plain d \<longleftrightarrow> json_plain (di_serial d) \<and> json_plain (di_model d) \<and> json_plain (di_password d)"

text \<open>The JSON library reads the fields of such an object back.\<close>

definition json_works :: "'y ha_env \<Rightarrow> bool" where
  "json_works h \<longleftrightarrow> (\<forall>d. info_plain d \<longrightarrow> decode_info h (createPayload d) = Inr d)"

lemma FetchConfig_works:
  assumes "net_works env" "net_holds env doc c"
  shows "FetchConfig_net env t doc = (Inr (select_net t c), doc)"
  by (simp add: FetchConfig_net_def load_net_works [OF assms] map_sum_r_def)

lemma fetch_ha_works:
  assumes "net_works (st_env st)" "net_holds (st_env st) (net_doc s) c"
  shows "fetch_ha st s = (Inr (Ha_of c), s)"
  using FetchConfig_works [OF assms]
  by (simp add: fetch_ha_def bind_act_def file_query_def ret_def select_net_def HA_STRING_def DEVICE_def
        VLAN_STRING_def BRIDGE_STRING_def BOND_STRING_def)

lemma on_peer_Inr:
  "on_peer st path sending msg m s = (Inr x, s') \<Longrightarrow> \<exists>a. m (there s) = (Inr x, a) \<and> s' = s\<lparr>there := a\<rparr>"
  by (auto simp: on_peer_def split: option.splits prod.splits sum.splits)

lemma on_here_Inr: "on_here m s = (Inr x, s') \<longleftrightarrow> (\<exists>a. m (here s) = (Inr x, a) \<and> s' = s\<lparr>here := a\<rparr>)"
  by (auto simp: on_here_def split: prod.splits)

lemma compared_device:
  assumes "net_works (st_env peer)" "net_holds (st_env peer) (net_doc s) c"
    "CompareDeviceInfoFromAnotherAppliance peer d s = (Inr (), s')"
  shows "\<exists>content. device_file (st_ha peer) = Inr content \<and> di_model (parseDeviceInfo content) = di_model d
    \<and> ha_role (Ha_of c) = BACKUP_STRING \<and> ha_password (Ha_of c) = di_password d \<and> ha_peer (Ha_of c) \<noteq> []"
  using assms(3) fetch_ha_works [OF assms(1,2)]
  by (auto simp: CompareDeviceInfoFromAnotherAppliance_def run_Inr compareDevicesInfo_def validation_simps
        split: if_splits)

text \<open>C40: A synchronisation gets past its first step only with a peer that is set up for it: its role is
  backup, it knows a peer of its own, and its model and its high-availability password are those it reads
  in the payload it was sent. These are the model and the password of the appliance that started the
  synchronisation, provided its serial number, model and password are plain inside a JSON string: the
  payload is not escaped (see \<open>quoted_password_changes_payload\<close>).
\<close>

theorem sync_needs_matching_password:
  assumes "net_works (st_env st)" "net_holds (st_env st) (net_doc (here s)) mine"
    "net_works (st_env peer)" "net_holds (st_env peer) (net_doc (there s)) theirs"
    and content: "device_file (st_ha st) = Inr content"
    and sent: "sent = (parseDeviceInfo content)\<lparr>di_password := ha_password (Ha_of mine)\<rparr>"
    and sync: "IntializeSyncBackup st peer s = (Inr (), s')"
  shows "ha_role (Ha_of theirs) = BACKUP_STRING \<and> ha_peer (Ha_of theirs) \<noteq> []
    \<and> (\<exists>read other. decode_info (st_ha peer) (createPayload sent) = Inr read
         \<and> ha_password (Ha_of theirs) = di_password read
         \<and> device_file (st_ha peer) = Inr other \<and> di_model (parseDeviceInfo other) = di_model read)
    \<and> (json_works (st_ha peer) \<and> info_plain sent \<longrightarrow>
         ha_password (Ha_of theirs) = ha_password (Ha_of mine)
         \<and> (\<exists>other. device_file (st_ha peer) = Inr other
              \<and> di_model (parseDeviceInfo other) = di_model (parseDeviceInfo content)))"
proof -
  note mine = fetch_ha_works [OF assms(1,2)]
  obtain s1 where "CompareDeviceInfo st peer (ha_peer (Ha_of mine)) s = (Inr (), s1)"
    using sync mine by (auto simp: IntializeSyncBackup_def run_Inr on_here_def)
  then obtain a where "compare_handler peer (createPayload sent) (there s) = (Inr (), a)"
    using mine content sent
    by (auto simp: CompareDeviceInfo_def run_Inr on_here_def reachable_peer_def dest!: on_peer_Inr)
  then obtain read b where read: "decode_info (st_ha peer) (createPayload sent) = Inr read"
    "CompareDeviceInfoFromAnotherAppliance peer read (there s) = (Inr (), b)"
    by (auto simp: compare_handler_def run_Inr split: sum.splits)
  have plain: "read = sent" if "json_works (st_ha peer)" "info_plain sent"
    using that read(1) by (auto simp: json_works_def)
  from compared_device [OF assms(3,4) read(2)] read(1) plain show ?thesis by (auto simp: sent)
qed

text \<open>A password with quotes is part of the document: two appliances with different passwords send the same
  payload.\<close>

theorem quoted_password_changes_payload:
  assumes "sep = [CHR 0x22] @ '', '' @ [CHR 0x22] @ ''password'' @ [CHR 0x22] @ '': '' @ [CHR 0x22]"
  shows "createPayload \<lparr>di_serial = s, di_model = m, di_password = x @ sep @ y\<rparr> =
    createPayload \<lparr>di_serial = s, di_model = m @ sep @ x, di_password = y\<rparr>"
  by (simp add: createPayload_def assms)

text \<open>A reader of such objects, for the example.\<close>

definition read_info :: "string \<Rightarrow> go_error + device_info" where
  "read_info p =
     (case split_on (CHR 0x22) p of
        [_, _, _, x, _, _, _, y, _, _, _, z, _] \<Rightarrow> Inr \<lparr>di_serial = x, di_model = y, di_password = z\<rparr>
      | _ \<Rightarrow> Inl (Err ''invalid character''))"

lemma json_plain_no_quote: "json_plain t \<Longrightarrow> CHR 0x22 \<notin> set t"
  by (auto simp: json_plain_def)

lemma read_info_works: "info_plain d \<Longrightarrow> read_info (createPayload d) = Inr d"
  using split_on_field [OF json_plain_no_quote, of "di_serial d"] split_on_field [OF json_plain_no_quote, of "di_model d"]
    split_on_field [OF json_plain_no_quote, of "di_password d"]
  by (simp add: read_info_def createPayload_def info_plain_def)

definition sync_site :: "(table, net_config) site" where
  "sync_site = plain_site\<lparr>st_ha := plain_ha\<lparr>decode_info := read_info\<rparr>\<rparr>"

definition node :: "string \<Rightarrow> (table, net_config) appliance" where
  "node role =
     \<lparr>kernel = [], net_doc = Some (zero_net\<lparr>Ha_of := zero_ha\<lparr>ha_role := role, ha_peer := ''10.0.0.2'',
        ha_dedicated := ''eth1'', ha_password := ''secret''\<rparr>\<rparr>),
      PortMapping = Map.empty, merged_doc = None, keepalived_conf = []\<rparr>"

definition pair_of_nodes :: "(table, net_config) cluster" where
  "pair_of_nodes = \<lparr>here = node ''primary'', there = node ''backup''\<rparr>"

theorem sync_needs_matching_password_witness:
  "ha_role (Ha_of (the (net_doc (there pair_of_nodes)))) = BACKUP_STRING
   \<and> ha_password (Ha_of (the (net_doc (there pair_of_nodes)))) = ''secret''"
proof -
  have works: "net_works (st_env sync_site)" "net_holds (st_env sync_site) (Some c) c" for c
    using plain_works plain_holds by (simp_all add: sync_site_def plain_site_def)
  have "fst (IntializeSyncBackup sync_site sync_site pair_of_nodes) = Inr ()" by code_simp
  then obtain s' where sync: "IntializeSyncBackup sync_site sync_site pair_of_nodes = (Inr (), s')"
    by (cases "IntializeSyncBackup sync_site sync_site pair_of_nodes") simp
  have json: "json_works (st_ha sync_site)"
    using read_info_works by (simp add: json_works_def sync_site_def)
  have content: "device_file (st_ha sync_site) = Inr ''model_no = W10''"
    by (simp add: sync_site_def plain_site_def plain_ha_def)
  have plain: "info_plain ((parseDeviceInfo ''model_no = W10'')\<lparr>di_password := ''secret''\<rparr>)"
    unfolding info_plain_def json_plain_def by code_simp
  have mine: "net_doc (here pair_of_nodes) = Some (the (net_doc (here pair_of_nodes)))"
    "net_doc (there pair_of_nodes) = Some (the (net_doc (there pair_of_nodes)))"
    "ha_password (Ha_of (the (net_doc (here pair_of_nodes)))) = ''secret''"
    by (simp_all add: pair_of_nodes_def node_def)
  show ?thesis
    using sync_needs_matching_password [OF works(1) _ works(1) _ content refl sync,
        of "the (net_doc (here pair_of_nodes))" "the (net_doc (there pair_of_nodes))"]
      works(2) mine plain json by metis
qed

subsection \<open>What the handlers accept\<close>

text \<open>The configuration of an appliance can be replaced from outside: whatever document \<open>HaCopyConfig\<close>
  was sent last, the next \<open>SyncBackup\<close> takes it over. Neither handler asks for a session or the
  password, or whether high availability is enabled; the old configuration only contributes its role,
  peer, dedicated interface and that interface's address, the aliases of every interface are dropped, and
  a document with another number of interfaces is refused.
\<close>

theorem received_configuration_is_taken_over:
  assumes "dec_v2 (st_ha st) y = Inr new"
    and "net_doc s = Some d" "dec_v2 (st_ha st) d = Inr old"
    and files: "raw_read_error (st_ha st) = None" "raw_write_error (st_ha st) = None"
    and enc: "\<And>c. enc_v2 (st_ha st) c = Inr (out c)"
  shows "andthen (HaCopyConfig ''merged_config.yaml'' y) (SyncBackup st) s =
    (if length (PhysicalInterfaces old) = length (PhysicalInterfaces new) then
       (Inr (), s\<lparr>merged_doc := Some y,
          net_doc := Some (out (new
            \<lparr>Ha_of := (Ha_of new)\<lparr>ha_role := ha_role (Ha_of old), ha_peer := ha_peer (Ha_of old),
                                  ha_dedicated := ha_dedicated (Ha_of old)\<rparr>,
             PhysicalInterfaces :=
               map (\<lambda>(a, n). if pi_name n = ha_dedicated (Ha_of old) then n\<lparr>pi_ip := pi_ip a, pi_aliases := []\<rparr>
                              else n\<lparr>pi_aliases := []\<rparr>)
                 (zip (PhysicalInterfaces old) (PhysicalInterfaces new))\<rparr>))\<rparr>)
     else
       (Inl (Err ''Error writing interface config file: Error in updating interface config: Physical interfaces count mismatch''),
        s\<lparr>merged_doc := Some y\<rparr>))"
  using assms
  by (simp add: andthen_run HaCopyConfig_def SyncBackup_def bind_act_def raw_read_def annotate_def with_msg_def
        with_prefix_def writeInterfaceConfigFile_def bind_sum_def merge_synced_def keep_own_def keep_port_def
        case_prod_beta')

text \<open>An appliance without high availability, and a document that switches forwarding on.\<close>

definition plain_node :: "(table, net_config) appliance" where
  "plain_node = \<lparr>kernel = [], net_doc = Some zero_net, PortMapping = Map.empty, merged_doc = None,
                 keepalived_conf = []\<rparr>"

definition foreign :: net_config where
  "foreign = zero_net\<lparr>StaticRoutes := no_routes\<lparr>sr_forward := True\<rparr>\<rparr>"

theorem received_configuration_is_taken_over_witness:
  "andthen (HaCopyConfig ''merged_config.yaml'' foreign) (SyncBackup plain_site) plain_node
   = (Inr (), plain_node\<lparr>merged_doc := Some foreign, net_doc := Some foreign\<rparr>)"
proof -
  have "dec_v2 (st_ha plain_site) = Inr" "enc_v2 (st_ha plain_site) = Inr"
    "raw_read_error (st_ha plain_site) = None" "raw_write_error (st_ha plain_site) = None"
    by (simp_all add: plain_site_def plain_ha_def)
  then show ?thesis
    using received_configuration_is_taken_over [of plain_site foreign foreign plain_node zero_net zero_net "\<lambda>c. c"]
    by (simp add: plain_node_def foreign_def zero_net_def zero_ha_def)
qed

end
