(* ===== verification/Go_Text.thy ===== *)
theory Go_Text
  imports Go_Prelude
begin

text \<open>
  More of Go's library on strings: \<open>strings.Fields\<close>, \<open>SplitN\<close>, \<open>TrimPrefix\<close>, \<open>Trim\<close>,
  \<open>Replace\<close> and \<open>ReplaceAll\<close> with an empty replacement, \<open>bufio.Scanner\<close> line by line,
  \<open>url.QueryUnescape\<close>, \<open>hex.DecodeString\<close> and \<open>base64.StdEncoding\<close>, with the lemma that
  decoding undoes encoding. Bytes are characters.
\<close>

subsection \<open>Splitting and trimming\<close>

fun fields_from :: "string \<Rightarrow> string \<Rightarrow> string list" where
  "fields_from w [] = (if w = [] then [] else [rev w])"
| "fields_from w (c # s) =
     (if is_space c then (if w = [] then fields_from [] s else rev w # fields_from [] s)
      else fields_from (c # w) s)"

definition str_fields :: "string \<Rightarrow> string list" where
  "str_fields s = fields_from [] s"

text \<open>\<open>strings.SplitN(s, sep, 2)\<close>: one part without a separator, otherwise two.\<close>

fun split_two :: "char \<Rightarrow> string \<Rightarrow> string list" where
  "split_two d [] = [[]]"
| "split_two d (c # s) =
     (if c = d then [[], s]
      else (case split_two d s of [] \<Rightarrow> [[c]] | p # ps \<Rightarrow> (c # p) # ps))"

definition trim_prefix :: "string \<Rightarrow> string \<Rightarrow> string" where
  "trim_prefix s p = (if has_prefix s p then drop (length p) s else s)"

definition trim_char :: "char \<Rightarrow> string \<Rightarrow> string" where
  "trim_char c s = rev (dropWhile (\<lambda>x. x = c) (rev (dropWhile (\<lambda>x. x = c) s)))"

text \<open>\<open>strings.ReplaceAll(s, p, "")\<close> for a non-empty \<open>p\<close>.\<close>

function remove_all :: "string \<Rightarrow> string \<Rightarrow> string" where
  "remove_all p s =
     (if p = [] then s
      else case s of
        [] \<Rightarrow> []
      | c # r \<Rightarrow> if has_prefix s p then remove_all p (drop (length p) s) else c # remove_all p r)"
  by pat_completeness auto
termination by (relation "measure (\<lambda>(p, s). length s)") auto

declare remove_all.simps [simp del]

definition join_with :: "string \<Rightarrow> string list \<Rightarrow> string" where
  "join_with sep ps = (case ps of [] \<Rightarrow> [] | q # qs \<Rightarrow> q @ concat (map (\<lambda>r. sep @ r) qs))"

text \<open>
  The lines a \<open>bufio.Scanner\<close> returns: without the newline and a carriage return before it, and
  without an empty last line. Lines stay below the scanner's limit of 64 KB.
\<close>

abbreviation line_end :: char where "line_end \<equiv> CHR 0x0A"

definition drop_cr :: "string \<Rightarrow> string" where
  "drop_cr s = (if s \<noteq> [] \<and> last s = CHR 0x0D then butlast s else s)"

definition scan_lines :: "string \<Rightarrow> string list" where
  "scan_lines s =
     (let ls = split_on line_end s
      in map drop_cr (if last ls = [] then butlast ls else ls))"

subsection \<open>Hexadecimal digits\<close>

definition hex_digit_val :: "char \<Rightarrow> nat option" where
  "hex_digit_val c =
     (let n = of_char c :: nat in
      if 48 \<le> n \<and> n \<le> 57 then Some (n - 48)
      else if 97 \<le> n \<and> n \<le> 102 then Some (n - 87)
      else if 65 \<le> n \<and> n \<le> 70 then Some (n - 55)
      else None)"

fun hex_decode :: "string \<Rightarrow> string option" where
  "hex_decode [] = Some []"
| "hex_decode [c] = None"
| "hex_decode (c # d # s) =
     (case (hex_digit_val c, hex_digit_val d) of
        (Some a, Some b) \<Rightarrow> map_option (\<lambda>r. char_of (16 * a + b) # r) (hex_decode s)
      | _ \<Rightarrow> None)"

text \<open>\<open>url.QueryUnescape\<close>; \<open>None\<close> is a malformed escape.\<close>

fun query_unescape :: "string \<Rightarrow> string option" where
  "query_unescape [] = Some []"
| "query_unescape (c # s) =
     (if c = CHR ''%'' then
        (case s of
           x # y # r \<Rightarrow>
             (case (hex_digit_val x, hex_digit_val y) of
                (Some a, Some b) \<Rightarrow> map_option (\<lambda>t. char_of (16 * a + b) # t) (query_unescape r)
              | _ \<Rightarrow> None)
         | _ \<Rightarrow> None)
      else map_option (\<lambda>t. (if c = CHR ''+'' then CHR '' '' else c) # t) (query_unescape s))"

subsection \<open>Base 64\<close>

text \<open>The alphabet of \<open>base64.StdEncoding\<close> and its inverse.\<close>

definition b64_char :: "nat \<Rightarrow> char" where
  "b64_char n =
     (if n < 26 then char_of (65 + n)
      else if n < 52 then char_of (71 + n)
      else if n < 62 then char_of (n - 4)
      else if n = 62 then CHR ''+'' else CHR ''/'')"

definition b64_val :: "char \<Rightarrow> nat option" where
  "b64_val c =
     (let n = of_char c :: nat in
      if 65 \<le> n \<and> n \<le> 90 then Some (n - 65)
      else if 97 \<le> n \<and> n \<le> 122 then Some (n - 71)
      else if 48 \<le> n \<and> n \<le> 57 then Some (n + 4)
      else if n = 43 then Some 62
      else if n = 47 then Some 63
      else None)"

abbreviation pad_char :: char where "pad_char \<equiv> CHR ''=''"

fun base64_encode :: "string \<Rightarrow> string" where
  "base64_encode [] = []"
| "base64_encode [a] =
     (let x = of_char a :: nat
      in [b64_char (x div 4), b64_char (x mod 4 * 16), pad_char, pad_char])"
| "base64_encode [a, b] =
     (let x = of_char a :: nat; y = of_char b :: nat
      in [b64_char (x div 4), b64_char (x mod 4 * 16 + y div 16), b64_char (y mod 16 * 4), pad_char])"
| "base64_encode (a # b # c # s) =
     (let x = of_char a :: nat; y = of_char b :: nat; z = of_char c :: nat
      in b64_char (x div 4) # b64_char (x mod 4 * 16 + y div 16)
           # b64_char (y mod 16 * 4 + z div 64) # b64_char (z mod 64) # base64_encode s)"

text \<open>
  Decoding four characters at a time; padding is accepted in the last group only and its unused
  bits are not checked, and line breaks are skipped.
\<close>

fun b64_groups :: "string \<Rightarrow> string option" where
  "b64_groups [] = Some []"
| "b64_groups (p # q # r # s # rest) =
     (case (b64_val p, b64_val q) of
        (Some a, Some b) \<Rightarrow>
          if r = pad_char then
            (if s = pad_char \<and> rest = [] then Some [char_of (a * 4 + b div 16)] else None)
          else
            (case b64_val r of
               None \<Rightarrow> None
             | Some c \<Rightarrow>
                 if s = pad_char then
                   (if rest = []
                    then Some [char_of (a * 4 + b div 16), char_of (b mod 16 * 16 + c div 4)]
                    else None)
                 else
                   (case b64_val s of
                      None \<Rightarrow> None
                    | Some d \<Rightarrow>
                        map_option
                          (\<lambda>t. char_of (a * 4 + b div 16) # char_of (b mod 16 * 16 + c div 4)
                                # char_of (c mod 4 * 64 + d) # t)
                          (b64_groups rest)))
      | _ \<Rightarrow> None)"
| "b64_groups _ = None"

definition base64_decode :: "string \<Rightarrow> string option" where
  "base64_decode s = b64_groups (filter (\<lambda>c. c \<noteq> CHR 0x0A \<and> c \<noteq> CHR 0x0D) s)"

lemma of_char_b64_char:
  "n < 64 \<Longrightarrow> (of_char (b64_char n) :: nat) =
     (if n < 26 then 65 + n else if n < 52 then 71 + n else if n < 62 then n - 4
      else if n = 62 then 43 else 47)"
  by (simp add: b64_char_def)

lemma b64_val_char [simp]: "n < 64 \<Longrightarrow> b64_val (b64_char n) = Some n"
  unfolding b64_val_def Let_def
  by (cases "n < 26"; cases "n < 52"; cases "n < 62") (auto simp: of_char_b64_char)

lemma b64_char_plain:
  assumes "n < 64"
  shows "b64_char n \<noteq> pad_char" "b64_char n \<noteq> CHR 0x0A" "b64_char n \<noteq> CHR 0x0D"
proof -
  have code: "(of_char (b64_char n) :: nat) \<notin> {61, 10, 13}"
    using assms
    by (cases "n < 26"; cases "n < 52"; cases "n < 62") (auto simp: of_char_b64_char)
  have "of_char pad_char = (61 :: nat)" "of_char (CHR 0x0A) = (10 :: nat)"
    "of_char (CHR 0x0D) = (13 :: nat)"
    by simp_all
  with code show "b64_char n \<noteq> pad_char" "b64_char n \<noteq> CHR 0x0A" "b64_char n \<noteq> CHR 0x0D"
    by (metis insertI1 insertI2)+
qed

lemma byte_bound: "(of_char (c :: char) :: nat) < 256"
  using range_nat_of_char by (metis UNIV_I atLeastLessThan_iff imageI)

lemma packed:
  fixes a b n :: nat
  assumes "b < n"
  shows "(a * n + b) div n = a" "(a * n + b) mod n = b"
  using assms by simp_all

text \<open>How three bytes are spread over four sextets and read back.\<close>

lemma sextets:
  fixes x y z :: nat
  assumes "x < 256" "y < 256" "z < 256"
  shows "x div 4 < 64" "x mod 4 * 16 < 64" "x mod 4 * 16 + y div 16 < 64" "y mod 16 * 4 < 64"
    "y mod 16 * 4 + z div 64 < 64" "z mod 64 < 64"
    "x div 4 * 4 + (x mod 4 * 16 + y div 16) div 16 = x"
    "(x mod 4 * 16 + y div 16) mod 16 * 16 + (y mod 16 * 4 + z div 64) div 4 = y"
    "(y mod 16 * 4 + z div 64) mod 4 * 64 + z mod 64 = z"
    "x div 4 * 4 + (x mod 4 * 16) div 16 = x"
    "(x mod 4 * 16 + y div 16) mod 16 * 16 + (y mod 16 * 4) div 4 = y"
proof -
  have d: "y div 16 < 16" "z div 64 < 4" "x mod 4 < 4" "y mod 16 < 16" using assms by auto
  show "x div 4 < 64" "x mod 4 * 16 < 64" "x mod 4 * 16 + y div 16 < 64" "y mod 16 * 4 < 64"
    "y mod 16 * 4 + z div 64 < 64" "z mod 64 < 64"
    using assms(1) d by auto
  show "x div 4 * 4 + (x mod 4 * 16 + y div 16) div 16 = x"
    "(x mod 4 * 16 + y div 16) mod 16 * 16 + (y mod 16 * 4 + z div 64) div 4 = y"
    "(y mod 16 * 4 + z div 64) mod 4 * 64 + z mod 64 = z"
    using packed [OF d(1), of "x mod 4"] packed [OF d(2), of "y mod 16"] by simp_all
  show "x div 4 * 4 + (x mod 4 * 16) div 16 = x" by simp
  show "(x mod 4 * 16 + y div 16) mod 16 * 16 + (y mod 16 * 4) div 4 = y"
    using packed [OF d(1), of "x mod 4"] by simp
qed

lemmas char_sextets = sextets [OF byte_bound byte_bound byte_bound]

lemma high_parts:
  "of_char (b :: char) div 16 div 16 = (0 :: nat)"
  "of_char (b :: char) div 16 mod 16 = (of_char b div 16 :: nat)"
  "of_char (b :: char) div 64 div 4 = (0 :: nat)"
  "of_char (b :: char) div 64 mod 4 = (of_char b div 64 :: nat)"
proof -
  have d: "of_char b div 16 < (16 :: nat)" "of_char b div 64 < (4 :: nat)"
    using byte_bound [of b] by (simp_all add: less_mult_imp_div_less)
  show "of_char (b :: char) div 16 div 16 = (0 :: nat)"
    "of_char (b :: char) div 64 div 4 = (0 :: nat)"
    "of_char (b :: char) div 16 mod 16 = (of_char b div 16 :: nat)"
    "of_char (b :: char) div 64 mod 4 = (of_char b div 64 :: nat)"
    by (rule div_less mod_less, rule d)+
qed

lemma b64_groups_encode: "b64_groups (base64_encode s) = Some s"
  by (induction s rule: base64_encode.induct)
    (simp_all add: Let_def char_sextets b64_char_plain high_parts)

lemma base64_encode_plain:
  "filter (\<lambda>c. c \<noteq> CHR 0x0A \<and> c \<noteq> CHR 0x0D) (base64_encode s) = base64_encode s"
  by (induction s rule: base64_encode.induct) (simp_all add: Let_def char_sextets b64_char_plain)

lemma base64_roundtrip [simp]: "base64_decode (base64_encode s) = Some s"
  by (simp add: base64_decode_def base64_encode_plain b64_groups_encode)

end
