(* ===== verification/Job_Lists.thy ===== *)
theory Job_Lists
  imports Accounts Queue_Handlers Go_Text
begin

text \<open>
  \<open>service/getProfiles.go\<close>: the lists the web interface shows. \<open>FetchAllFODs\<close> reads the files
  with the status of the table they are in, \<open>FetchAllUODs\<close> the urls, \<open>GetAllProfiles\<close> makes a
  list for a model and an action of them, or of the configuration, the event log or the audit
  table.

  The parts of the source that are commented out are not modelled. \<open>show_time\<close> is
  \<open>Format(extras.TIME_FORMAT)\<close>. A value of a list entry is one of the constructors of \<open>cell\<close>; a
  duration is in nanoseconds, where the source prints seconds as a float, and \<open>None\<close> is its -1.
  The rows the queries give carry only the columns the queries name; the source never stores an
  empty status, so the empty string is the NULL of the status column.
\<close>

subsection \<open>Files and urls\<close>

text \<open>The columns that the queries of \<open>FetchAllFODs\<close> name.\<close>

definition named_columns :: "file_on_demand \<Rightarrow> file_on_demand" where
  "named_columns f = f\<lparr>fod_os_supported := [], fod_md5 := [], fod_sha := [], fod_sha256 := [],
     fod_client_ip := []\<rparr>"

definition with_status :: "string \<Rightarrow> file_on_demand \<Rightarrow> file_on_demand" where
  "with_status st f = (named_columns f)\<lparr>fod_status := st\<rparr>"

definition ALREADY_PROCESSING :: string where
  "ALREADY_PROCESSING = ''already processing the same file, waiting for its turn''"

text \<open>An inner join of the files with a task table: a file for every matching row.\<close>

definition join_fods :: "db \<Rightarrow> ('r \<Rightarrow> int) \<Rightarrow> (file_on_demand \<Rightarrow> 'r \<Rightarrow> string) \<Rightarrow> 'r list \<Rightarrow> file_on_demand list" where
  "join_fods d key status rows =
     concat (map (\<lambda>f. map (\<lambda>r. with_status (status f r) f) (filter (\<lambda>r. key r = fod_id f) rows)) (fods d))"

definition status_fods :: "db \<Rightarrow> file_on_demand list" where
  "status_fods d = map named_columns (filter (\<lambda>f. fod_status f \<noteq> []) (fods d))"

definition live_fods :: "db \<Rightarrow> file_on_demand list" where
  "live_fods d =
     join_fods d live_id (\<lambda>f r. if fod_status f = [] then live_status_col r else fod_status f) (lives d)"

definition finished_fods :: "db \<Rightarrow> file_on_demand list" where
  "finished_fods d = join_fods d fin_id (\<lambda>f r. Reported) (finished d)"

definition duplicate_fods :: "db \<Rightarrow> file_on_demand list" where
  "duplicate_fods d = join_fods d dup_id (\<lambda>f r. ALREADY_PROCESSING) (dups d)"

definition FetchAllFODs :: "('e) db_env_scheme \<Rightarrow> db \<Rightarrow> go_error + file_on_demand list" where
  "FetchAllFODs env d =
     (case run_select env SelStatusFods d (status_fods d) of
        Inl e \<Rightarrow> Inl e
      | Inr fs \<Rightarrow>
          (case run_select env SelLiveFods d (live_fods d) of
             Inl e \<Rightarrow> Inl e
           | Inr fs1 \<Rightarrow>
               (case run_select env SelFinishedFods d (finished_fods d) of
                  Inl e \<Rightarrow> Inl e
                | Inr fs2 \<Rightarrow>
                    (case run_select env SelDuplicateFods d (duplicate_fods d) of
                       Inl e \<Rightarrow> Inl e
                     | Inr fs3 \<Rightarrow>
                         Inr (sort_slice (\<lambda>a b. fod_id b < fod_id a) (fs @ fs1 @ fs2 @ fs3))))))"

definition FetchAllUODs :: "('e) db_env_scheme \<Rightarrow> db \<Rightarrow> go_error + url_on_demand list" where
  "FetchAllUODs env d =
     run_select env SelUods d (sort_slice (\<lambda>a b. uod_id b < uod_id a) (uods d))"

text \<open>The callers take the empty list that comes with an error.\<close>

definition or_empty :: "go_error + 'a list \<Rightarrow> 'a list" where
  "or_empty r = (case r of Inl e \<Rightarrow> [] | Inr xs \<Rightarrow> xs)"

subsection \<open>List entries\<close>

datatype cell = Text string | Number int | Time int | Span "int option" | Nothing

type_synonym entry = "(string \<times> cell) list"

definition PREVIOUSLY_SCANNED_URL :: string where
  "PREVIOUSLY_SCANNED_URL = ''url was previously scanned or sourced from preset data ''"

definition span :: "int option \<Rightarrow> int \<Rightarrow> cell" where
  "span finished_at submitted_at = Span (map_option (\<lambda>t. time_sub t submitted_at) finished_at)"

definition finish_text :: "(int \<Rightarrow> string) \<Rightarrow> int option \<Rightarrow> cell" where
  "finish_text show_time finished_at =
     Text (case finished_at of None \<Rightarrow> ''IN PROGRESS'' | Some t \<Rightarrow> show_time t)"

definition job_queue_file :: "(int \<Rightarrow> string) \<Rightarrow> file_on_demand \<Rightarrow> entry" where
  "job_queue_file show_time f =
     [(''job_id'', Number (fod_id f)),
      (''submitted_time'', Text (show_time (fod_submitted_time f))),
      (''file_name'', Text (fod_file_name f)),
      (''input_type'', Text (if fod_from_device f then ''DEVICE FILE CHECK'' else ''MANUAL FILE CHECK'')),
      (''file_type'', Text (fod_content_type f)),
      (''queued'', Text (fod_status f)),
      (''duration'', span (fod_finished_time f) (fod_submitted_time f)),
      (''finished_on'', finish_text show_time (fod_finished_time f))]"

definition job_queue_url :: "(int \<Rightarrow> string) \<Rightarrow> url_on_demand \<Rightarrow> entry" where
  "job_queue_url show_time u =
     [(''job_id'', Number (uod_id u)),
      (''submitted_time'', Text (show_time (uod_submitted_time u))),
      (''url'', Text (uod_url_name u)),
      (''input_type'', Text (if uod_from_device u then ''DEVICE URL CHECK'' else ''MANUAL URL CHECK'')),
      (''file_type'', Text ''URL''),
      (''queued'', Text (uod_status u)),
      (''duration'', span (uod_finished_time u) (uod_submitted_time u)),
      (''finished_on'', finish_text show_time (uod_finished_time u))]"

definition QUnescape :: "string \<Rightarrow> string" where
  "QUnescape filename = (case query_unescape filename of None \<Rightarrow> filename | Some name \<Rightarrow> name)"

definition file_job_entry :: "(int \<Rightarrow> string) \<Rightarrow> file_on_demand \<Rightarrow> entry" where
  "file_job_entry show_time f =
     [(''job_id'', Number (fod_id f)),
      (''submitted_time'', Text (show_time (fod_submitted_time f))),
      (''verdict'', Text (fod_rating f)),
      (''file_type'', Text (fod_content_type f)),
      (''file_name'', Text (QUnescape (fod_file_name f))),
      (''final_verdict'', Text (fod_final_verdict f)),
      (''duration'', span (fod_finished_time f) (fod_submitted_time f))]"

definition url_job_entry :: "(int \<Rightarrow> string) \<Rightarrow> url_on_demand \<Rightarrow> entry" where
  "url_job_entry show_time u =
     [(''job_id'', Number (uod_id u)),
      (''submitted_time'', Text (show_time (uod_submitted_time u))),
      (''verdict'', Text (uod_rating u)),
      (''url'', Text (uod_url_name u)),
      (''final_verdict'', Text (uod_final_verdict u)),
      (''duration'', span (uod_finished_time u) (uod_submitted_time u))]"

definition overridden_file_entry :: "file_on_demand \<Rightarrow> entry" where
  "overridden_file_entry f =
     [(''job_id'', Number (fod_id f)),
      (''submitted_time'', Time (fod_submitted_time f)),
      (''verdict'', Text (fod_rating f)),
      (''file_type'', Text (fod_content_type f)),
      (''file_name'', Text (fod_file_name f)),
      (''final_verdict'', Text (fod_final_verdict f)),
      (''duration'', span (fod_finished_time f) (fod_submitted_time f))]"

definition overridden_url_entry :: "url_on_demand \<Rightarrow> entry" where
  "overridden_url_entry u =
     [(''job_id'', Number (uod_id u)),
      (''submitted_time'', Time (uod_submitted_time u)),
      (''verdict'', Text (uod_rating u)),
      (''file_type'', Text ''URL''),
      (''url'', Text (uod_url_name u)),
      (''final_verdict'', Text (uod_final_verdict u)),
      (''duration'', span (uod_finished_time u) (uod_submitted_time u))]"

definition plain_file_entry :: "(int \<Rightarrow> string) \<Rightarrow> file_on_demand \<Rightarrow> entry" where
  "plain_file_entry show_time f =
     [(''job_id'', Number (fod_id f)), (''file_name'', Text (fod_file_name f)),
      (''comments'', Text (fod_comments f)), (''status'', Text (fod_status f)),
      (''rating'', Text (fod_rating f)),
      (''submitted_time'', Text (show_time (fod_submitted_time f))),
      (''submitted_by'', Text (fod_submitted_by f)), (''file_count'', Number (fod_file_count f))]"

definition plain_url_entry :: "(int \<Rightarrow> string) \<Rightarrow> url_on_demand \<Rightarrow> entry" where
  "plain_url_entry show_time u =
     [(''job_id'', Number (uod_id u)), (''url'', Text (uod_url_name u)),
      (''comments'', Text (uod_comments u)), (''status'', Text (uod_status u)),
      (''rating'', Text (uod_rating u)),
      (''submitted_time'', Text (show_time (uod_submitted_time u))),
      (''submitted_by'', Text (uod_submitted_by u)), (''url_count'', Number (uod_url_count u))]"

subsection \<open>Virtual machines\<close>

text \<open>
  \<open>ReadVmOs\<close>: lines \<open><number> <system>\<close>; a later line for the same machine wins, machines 1 to 8
  without a line run Windows 7.
\<close>

fun vm_lines :: "string list \<Rightarrow> (int \<Rightarrow> string option) \<Rightarrow> int \<Rightarrow> string option" where
  "vm_lines [] m = m"
| "vm_lines (line # ls) m =
     (if trim_space line = [] then vm_lines ls m
      else
        (case split_two (CHR '' '') line of
           p # q # r \<Rightarrow> (case atoi p of None \<Rightarrow> vm_lines ls m | Some n \<Rightarrow> vm_lines ls (m(n \<mapsto> q)))
         | _ \<Rightarrow> vm_lines ls m))"

definition ReadVmOs :: "go_error + string \<Rightarrow> int \<Rightarrow> string option" where
  "ReadVmOs platform_file =
     (let m = vm_lines (split_on line_end (case platform_file of Inl _ \<Rightarrow> [] | Inr s \<Rightarrow> s)) Map.empty
      in (\<lambda>i. if 1 \<le> i \<and> i \<le> 8 \<and> m i = None then Some ''windows7'' else m i))"

text \<open>The status of a machine as the sandbox reports it; \<open>None\<close> is null.\<close>

type_synonym machine_status = "string option"

definition vm_entry :: "(int \<Rightarrow> string option) \<Rightarrow> int \<Rightarrow> machine_status list \<Rightarrow> int \<Rightarrow> entry" where
  "vm_entry vm_os waiting machines i =
     (let status = (if i \<le> int (length machines)
                    then (case machines ! nat (i - 1) of None \<Rightarrow> Nothing | Some s \<Rightarrow> Text s)
                    else Text ''poweroff'');
          platform = (case vm_os i of None \<Rightarrow> ''windows7'' | Some p \<Rightarrow> p)
      in [(''machine_name'', Text (''Machine-'' @ show_int i)),
          (''machine_status'',
             if int (length machines) \<le> waiting then Text ''running'' else status),
          (''machine_platform'', Text platform)])"

definition vm_jobs ::
  "('e) sandbox_env_scheme \<Rightarrow> go_error + string \<Rightarrow> machine_status list \<Rightarrow> entry list" where
  "vm_jobs env platform_file machines =
     map (vm_entry (ReadVmOs platform_file) (FetchSandboxTaskCountWhichAreNotReported env) machines)
       [1, 2, 3, 4, 5, 6, 7, 8]"

subsection \<open>The event log\<close>

text \<open>The marks a message can start with, in the order they are looked for, and their events.\<close>

definition event_marks :: "(string \<times> string) list" where
  "event_marks = [(''taskLog:'', ''task-events''), (''sysLog:'', ''system-events''),
     (''vmLog:'', ''vm-events'')]"

definition event_action :: "string \<Rightarrow> bool" where
  "event_action action \<longleftrightarrow>
     action \<in> {''task-events'', ''system-events'', ''total-events'', ''vm-events''}"

text \<open>
  The three tests on one message: each that succeeds takes its mark off the message and appends the
  line's entry. There is one entry (a Go map) per line, so entries appended twice end up equal.
\<close>

fun match_marks ::
  "string \<Rightarrow> (string \<times> string) list \<Rightarrow> string \<times> string \<times> nat \<Rightarrow> string \<times> string \<times> nat" where
  "match_marks action [] acc = acc"
| "match_marks action ((mark, ev) # ms) (msg, flag, n) =
     (if has_prefix msg mark \<and> (action = ev \<or> action = ''total-events'')
      then match_marks action ms (trim_prefix msg mark, ev, Suc n)
      else match_marks action ms (msg, flag, n))"

abbreviation quote_text :: string where "quote_text \<equiv> [CHR 0x22]"

definition log_time :: "string list \<Rightarrow> string" where
  "log_time part =
     (if has_prefix (part ! 0) ''time=''
      then remove_all quote_text (trim_prefix (part ! 0) ''time='' @ '' '' @ part ! 1)
      else ''2006-01-02 15:04:05'')"

definition log_message :: "string list \<Rightarrow> string" where
  "log_message part =
     remove_all quote_text (join_with '' '' (trim_prefix (part ! 3) ''msg='' # drop 4 part))"

definition log_entries :: "string \<Rightarrow> string \<Rightarrow> entry list" where
  "log_entries action line =
     (let part = str_fields line in
      if length part < 4 then []
      else if has_prefix (part ! 3) ''msg='' then
        (case match_marks action event_marks (log_message part, [], 0) of
           (msg, flag, n) \<Rightarrow>
             replicate n [(''time_stamp'', Text (log_time part)), (''event_log'', Text msg),
                          (''flag'', Text flag)])
      else [])"

text \<open>Newest first, as the log is written at its end.\<close>

definition log_report :: "string \<Rightarrow> string \<Rightarrow> entry list" where
  "log_report action content = rev (concat (map (log_entries action) (split_on line_end content)))"

subsection \<open>The audit table\<close>

text \<open>\<open>ORDER BY audit_id DESC\<close> on a table in the order of its keys.\<close>

definition audit_entries :: "(int \<Rightarrow> string) \<Rightarrow> audit_row list \<Rightarrow> entry list" where
  "audit_entries show_time table =
     map (\<lambda>l. [(''admin_name'', Text (AdminName l)), (''audit_type'', Text (AuditType l)),
               (''timestamp'', Text (show_time (TimeStamp l))), (''message'', Text (Message l))])
       (rev table)"

subsection \<open>The request\<close>

text \<open>What the lists are made of besides the tables.\<close>

record list_env = sandbox_env +
  show_time :: "int \<Rightarrow> string"
  machine_list :: "go_error + machine_status list"
  platform_file :: "go_error + string"
  event_log :: "go_error + string"
  audit_select :: "go_error option"

datatype profile_data =
    Entries "entry list"
  | AdminList "admin list"
  | UserList "user_auth list"
  | FeatureList "feature list"
  | RoleList "role list"
  | RoleActionList "role_action list"
  | ScanProfileList "scan_profile list"
  | DeviceList "device list"
  | ConfigTime int

definition fetch_error :: "go_error \<Rightarrow> 'd api_response" where
  "fetch_error e = NewErrorResponse StatusBadRequest ''Error while fetching data'' e"

definition done_status :: "string \<Rightarrow> string \<Rightarrow> bool" where
  "done_status previously st \<longleftrightarrow> st = Reported \<or> st = Aborted \<or> st = previously"

definition overridden_status :: "string \<Rightarrow> string \<Rightarrow> bool" where
  "overridden_status previously st \<longleftrightarrow> st = Reported \<or> st = previously"

text \<open>The lists for the models \<open>FileOnDemand\<close> and \<open>UrlOnDemand\<close>.\<close>

definition entry_list :: "entry list \<Rightarrow> profile_data api_response" where
  "entry_list es = NewSuccessResponse ''Success'' (Some (Entries es))"

definition job_queue ::
  "(int \<Rightarrow> string) \<Rightarrow> file_on_demand list \<Rightarrow> url_on_demand list \<Rightarrow> entry list" where
  "job_queue show fs us = map (job_queue_file show) fs @ map (job_queue_url show) us"

definition vm_list :: "('e) list_env_scheme \<Rightarrow> profile_data api_response" where
  "vm_list env =
     (case machine_list env of
        Inl e \<Rightarrow> NewErrorResponse StatusBadRequest ''Error while fetching sandbox tasks'' e
      | Inr machines \<Rightarrow> entry_list (vm_jobs env (platform_file env) machines))"

definition file_job_search :: "(int \<Rightarrow> string) \<Rightarrow> file_on_demand list \<Rightarrow> entry list" where
  "file_job_search show fs =
     map (file_job_entry show) (filter (\<lambda>f. done_status PREVIOUSLY_SCANNED_FILE (fod_status f)) fs)"

definition url_job_search :: "(int \<Rightarrow> string) \<Rightarrow> url_on_demand list \<Rightarrow> entry list" where
  "url_job_search show us =
     map (url_job_entry show) (filter (\<lambda>u. done_status PREVIOUSLY_SCANNED_URL (uod_status u)) us)"

definition overridden_file_search :: "file_on_demand list \<Rightarrow> entry list" where
  "overridden_file_search fs =
     map overridden_file_entry
       (filter (\<lambda>f. fod_overridden_verdict f \<and>
                   overridden_status PREVIOUSLY_SCANNED_FILE (fod_status f)) fs)"

definition overridden_url_search :: "url_on_demand list \<Rightarrow> entry list" where
  "overridden_url_search us =
     map overridden_url_entry
       (filter (\<lambda>u. uod_overridden_verdict u \<and>
                   overridden_status PREVIOUSLY_SCANNED_URL (uod_status u)) us)"

definition task_list ::
  "('e) list_env_scheme \<Rightarrow> string \<Rightarrow> string \<Rightarrow> db \<Rightarrow> profile_data api_response" where
  "task_list env modelName action d =
     (let fs = or_empty (FetchAllFODs env d); us = or_empty (FetchAllUODs env d);
          show = show_time env
      in
      if action = ''job-queue'' then entry_list (job_queue show fs us)
      else if action = ''vm-job'' then vm_list env
      else if action = ''file-job-search'' then entry_list (file_job_search show fs)
      else if action = ''url-job-search'' then entry_list (url_job_search show us)
      else if action = ''overridden-file-search'' then entry_list (overridden_file_search fs)
      else if action = ''overridden-url-search'' then entry_list (overridden_url_search us)
      else if modelName = ''FileOnDemand'' then entry_list (map (plain_file_entry show) fs)
      else entry_list (map (plain_url_entry show) us))"

text \<open>The lists for the models of the configuration file.\<close>

definition config_list ::
  "('a \<Rightarrow> profile_data) \<Rightarrow> (go_error + 'a) \<times> 'st \<Rightarrow> profile_data outcome \<times> 'st" where
  "config_list wrap r =
     (case r of
        (Inl (Panic p), st) \<Rightarrow> (Inl (Panic p), st)
      | (Inl (Err t), st) \<Rightarrow> (Inr (fetch_error (Err t)), st)
      | (Inr x, st) \<Rightarrow> (Inr (NewSuccessResponse ''Success'' (Some (wrap x))), st))"

definition fetch_time where
  "fetch_time sel cenv st =
     (case FetchConfigData cenv st of (Inl e, st') \<Rightarrow> (Inl e, st') | (Inr c, st') \<Rightarrow> (Inr (sel c), st'))"

definition LogReports :: "('e) list_env_scheme \<Rightarrow> string \<Rightarrow> profile_data api_response" where
  "LogReports env action =
     (if event_action action then
        (case event_log env of
           Inl e \<Rightarrow> fetch_error e
         | Inr content \<Rightarrow>
             NewSuccessResponse ''Success'' (Some (Entries (log_report action content))))
      else NewSuccessResponse ''Success'' None)"

definition AuditLogs :: "('e) list_env_scheme \<Rightarrow> audit_row list \<Rightarrow> profile_data api_response" where
  "AuditLogs env table =
     (case audit_select env of
        Some e \<Rightarrow> fetch_error e
      | None \<Rightarrow> NewSuccessResponse ''Success'' (Some (Entries (audit_entries (show_time env) table))))"

text \<open>An unknown model is a success without data. The store changes when a missing file is created.\<close>

definition GetAllProfiles where
  "GetAllProfiles env cenv modelName action d table st =
     (if modelName = ''Admin'' then config_list AdminList (FetchAdminProfile cenv [] st)
      else if modelName = ''UserAuthentication'' then
        config_list UserList (FetchUserAuthProfile cenv [] st)
      else if modelName = ''Feature'' then config_list FeatureList (FetchFeatureProfile cenv [] st)
      else if modelName = ''Role'' then config_list RoleList (FetchRoleProfile cenv [] st)
      else if modelName = ''RoleAndAction'' then
        config_list RoleActionList (FetchRoleAndActionProfile cenv [] st)
      else if modelName = ''ScanProfile'' then
        config_list ScanProfileList (FetchScanProfile cenv [] st)
      else if modelName = ''Device'' then config_list DeviceList (FetchDeviceProfile cenv [] st)
      else if modelName = ''BackupTime'' then config_list ConfigTime (fetch_time BackupConfigTime cenv st)
      else if modelName = ''RestoreTime'' then
        config_list ConfigTime (fetch_time RestoreConfigTime cenv st)
      else if modelName = ''FileOnDemand'' \<or> modelName = ''UrlOnDemand'' then
        (Inr (task_list env modelName action d), st)
      else if modelName = ''LogReport'' then (Inr (LogReports env action), st)
      else if modelName = ''audit_tables'' then (Inr (AuditLogs env table), st)
      else (Inr (NewSuccessResponse ''Success'' None), st))"

end
