(* ===== verification/Dashboard.thy ===== *)
theory Dashboard
  imports Job_Lists
begin

text \<open>
  \<open>service/dashboard.go\<close>: how many scans ended in each hour, how many jobs there are by rating
  and by source, how many events were logged, and the description of the appliance.

  The loop that walks back hour by hour is a partial function: \<open>None\<close> is a loop that never ends.
  The system calls (\<open>free\<close>, \<open>top\<close>, \<open>statfs\<close>, the uptime) and the calendar are parameters.
\<close>

subsection \<open>Scans per hour\<close>

record scanned_counter =
  StartTime :: string
  ScanCount :: int

definition scanned_fods :: "db \<Rightarrow> file_on_demand list" where
  "scanned_fods d = map (with_status Reported) (filter (\<lambda>f. fod_status f \<noteq> []) (fods d))"

text \<open>The end times of the files, both queries, and of the urls that have a verdict.\<close>

definition scan_times :: "('e) db_env_scheme \<Rightarrow> db \<Rightarrow> int list" where
  "scan_times env d =
     (let fs = or_empty (run_select env SelScannedFods d
                 (sort_slice (\<lambda>a b. fod_id b < fod_id a) (scanned_fods d)));
          fs1 = or_empty (run_select env SelScannedFinished d
                 (sort_slice (\<lambda>a b. fod_id b < fod_id a) (finished_fods d)));
          us = or_empty (run_select env SelScannedUods d (uods d))
      in List.map_filter fod_finished_time (fs @ fs1)
         @ List.map_filter
             (\<lambda>u. if uod_status u = Reported \<or> uod_status u = PREVIOUSLY_SCANNED_URL
                  then uod_finished_time u else None) us)"

text \<open>The inner loop: it ends buckets until the time \<open>t\<close> lies in the current one.\<close>

partial_function (option) walk_back ::
  "int \<Rightarrow> int \<Rightarrow> (int \<times> int) list \<Rightarrow> int \<Rightarrow> int \<Rightarrow> ((int \<times> int) list \<times> int) option" where
  "walk_back duration t past count endTime =
     (let past' = past @ [(endTime, count)]; endTime' = endTime - duration in
      if endTime' < t then Some (past', endTime')
      else walk_back duration t past' 0 endTime')"

fun count_scans ::
  "int \<Rightarrow> int list \<Rightarrow> (int \<times> int) list \<Rightarrow> int \<Rightarrow> int \<Rightarrow> ((int \<times> int) list \<times> int \<times> int) option" where
  "count_scans duration [] past count endTime = Some (past, count, endTime)"
| "count_scans duration (t # ts) past count endTime =
     (if endTime < t then count_scans duration ts past (count + 1) endTime
      else
        (case walk_back duration t past count endTime of
           None \<Rightarrow> None
         | Some (past', endTime') \<Rightarrow> count_scans duration ts past' 1 endTime'))"

text \<open>The buckets as (start, count); the last one is kept when it is not empty.\<close>

definition scan_buckets :: "int \<Rightarrow> int \<Rightarrow> int list \<Rightarrow> (int \<times> int) list option" where
  "scan_buckets duration start ts =
     (case count_scans duration (sort_slice (\<lambda>a b. b < a) ts) [] 0 (start - duration) of
        None \<Rightarrow> None
      | Some (past, count, endTime) \<Rightarrow>
          Some (if 0 < count then past @ [(endTime, count)] else past))"

definition ScannedCount ::
  "('e) list_env_scheme \<Rightarrow> int \<Rightarrow> db \<Rightarrow> scanned_counter list api_response option" where
  "ScannedCount env duration d =
     (case scan_buckets duration (now env) (scan_times env d) of
        None \<Rightarrow> None
      | Some bs \<Rightarrow>
          Some (NewSuccessResponse ''Success''
            (Some (map (\<lambda>(t, n). \<lparr>StartTime = show_time env t, ScanCount = n\<rparr>) bs))))"

subsection \<open>Jobs by rating and source\<close>

record statistics =
  StPending :: int
  StProcessing :: int
  StLow :: int
  StMedium :: int
  StHigh :: int
  StCritical :: int
  StSafe :: int
  StTotal :: int

definition zero_statistics :: statistics where
  "zero_statistics = \<lparr>StPending = 0, StProcessing = 0, StLow = 0, StMedium = 0, StHigh = 0,
     StCritical = 0, StSafe = 0, StTotal = 0\<rparr>"

text \<open>The keys of the map of statistics, except \<open>all_sources\<close>.\<close>

datatype incoming_mode = DeviceFileCheck | DeviceUrlCheck | ManualFileCheck | ManualUrlCheck

record job =
  job_is_file :: bool
  job_time :: int
  job_rating :: string
  job_status :: string
  job_from_device :: bool

definition file_job :: "file_on_demand \<Rightarrow> job" where
  "file_job f = \<lparr>job_is_file = True, job_time = fod_submitted_time f, job_rating = fod_rating f,
     job_status = fod_status f, job_from_device = fod_from_device f\<rparr>"

definition url_job :: "url_on_demand \<Rightarrow> job" where
  "url_job u = \<lparr>job_is_file = False, job_time = uod_submitted_time u, job_rating = uod_rating u,
     job_status = uod_status u, job_from_device = uod_from_device u\<rparr>"

definition mode_of :: "job \<Rightarrow> incoming_mode" where
  "mode_of j =
     (if job_from_device j then (if job_is_file j then DeviceFileCheck else DeviceUrlCheck)
      else (if job_is_file j then ManualFileCheck else ManualUrlCheck))"

definition add_status :: "string \<Rightarrow> statistics \<Rightarrow> statistics" where
  "add_status status stat =
     (let stat1 = (if status = PendingInQueue \<or> status = PendingNotInQueue \<or> status = RunningNotInQueue
                   then stat\<lparr>StPending := StPending stat + 1\<rparr> else stat)
      in if status = RunningInQueue then stat1\<lparr>StProcessing := StProcessing stat1 + 1\<rparr> else stat1)"

definition add_rating :: "job \<Rightarrow> statistics \<Rightarrow> statistics" where
  "add_rating j stat =
     (let rating = job_rating j in
      if rating = ''Low'' then stat\<lparr>StLow := StLow stat + 1\<rparr>
      else if rating = ''Medium'' then stat\<lparr>StMedium := StMedium stat + 1\<rparr>
      else if rating = ''High'' then stat\<lparr>StHigh := StHigh stat + 1\<rparr>
      else if rating = ''Critical'' then stat\<lparr>StCritical := StCritical stat + 1\<rparr>
      else if rating = ''malicious'' then stat\<lparr>StCritical := StCritical stat + 1\<rparr>
      else if rating = ''Clean'' then stat\<lparr>StSafe := StSafe stat + 1\<rparr>
      else add_status (job_status j) stat)"

definition with_total :: "statistics \<Rightarrow> statistics" where
  "with_total stat =
     stat\<lparr>StTotal := StHigh stat + StLow stat + StCritical stat + StSafe stat + StMedium stat
                     + StPending stat + StProcessing stat\<rparr>"

type_synonym stat_table = "incoming_mode \<Rightarrow> statistics"

text \<open>The loop over the jobs, newest first; it stops after the first job that is too old.\<close>

fun tally :: "int \<Rightarrow> bool \<Rightarrow> job list \<Rightarrow> stat_table \<Rightarrow> stat_table" where
  "tally endTime forever [] table = table"
| "tally endTime forever (j # js) table =
     (let m = mode_of j; table' = table(m := with_total (add_rating j (table m))) in
      if \<not> endTime < job_time j \<and> \<not> forever then table'
      else tally endTime forever js table')"

definition all_jobs :: "('e) db_env_scheme \<Rightarrow> db \<Rightarrow> job list" where
  "all_jobs env d =
     sort_slice (\<lambda>a b. job_time b < job_time a)
       (map file_job (or_empty (FetchAllFODs env d)) @ map url_job (or_empty (FetchAllUODs env d)))"

definition sum_modes :: "(statistics \<Rightarrow> int) \<Rightarrow> stat_table \<Rightarrow> int" where
  "sum_modes sel table =
     sel (table DeviceUrlCheck) + sel (table ManualUrlCheck) + sel (table DeviceFileCheck)
       + sel (table ManualFileCheck)"

definition all_sources :: "stat_table \<Rightarrow> statistics" where
  "all_sources table =
     \<lparr>StPending = sum_modes StPending table, StProcessing = sum_modes StProcessing table,
      StLow = sum_modes StLow table, StMedium = sum_modes StMedium table,
      StHigh = sum_modes StHigh table, StCritical = sum_modes StCritical table,
      StSafe = sum_modes StSafe table, StTotal = sum_modes StTotal table\<rparr>"

definition ScanStatistics ::
  "('e) sandbox_env_scheme \<Rightarrow> int \<Rightarrow> bool \<Rightarrow> db \<Rightarrow> (stat_table \<times> statistics) api_response" where
  "ScanStatistics env duration forever d =
     (let endTime = now env - duration;
          table = tally endTime forever (all_jobs env d) (\<lambda>_. zero_statistics)
      in NewSuccessResponse ''Success'' (Some (table, all_sources table)))"

text \<open>The map's entries other than \<open>all_sources\<close>; their order does not matter to the sums.\<close>

definition modes :: "incoming_mode list" where
  "modes = [DeviceFileCheck, DeviceUrlCheck, ManualFileCheck, ManualUrlCheck]"

definition url_mode :: "incoming_mode \<Rightarrow> bool" where
  "url_mode m \<longleftrightarrow> m = DeviceUrlCheck \<or> m = ManualUrlCheck"

definition malwares :: "statistics \<Rightarrow> int" where
  "malwares stat = StHigh stat + StCritical stat + StMedium stat + StLow stat"

definition TotalMalwares ::
  "('e) sandbox_env_scheme \<Rightarrow> int \<Rightarrow> string \<Rightarrow> bool \<Rightarrow> db \<Rightarrow> int api_response" where
  "TotalMalwares env duration taskType forever d =
     (case resp_data (ScanStatistics env duration forever d) of
        None \<Rightarrow> NewErrorResponse StatusBadRequest ''invalid data type'' (Err ''invalid data type'')
      | Some (table, _) \<Rightarrow>
          NewSuccessResponse ''Success''
            (Some (sum_list (map (\<lambda>m.
               if taskType = ''UrlOnDemand'' then (if url_mode m then malwares (table m) else 0)
               else if taskType = ''FileOnDemand'' then (if url_mode m then 0 else malwares (table m))
               else malwares (table m)) modes))))"

record scanned_performance =
  ScannedUrlPercent :: int
  ScannedFilePercent :: int

definition scanned :: "statistics \<Rightarrow> int" where
  "scanned stat = StCritical stat + StHigh stat + StLow stat + StMedium stat + StSafe stat"

text \<open>What the fields call a percentage is the number of scanned jobs.\<close>

definition TotalScannedTasks ::
  "('e) sandbox_env_scheme \<Rightarrow> int \<Rightarrow> bool \<Rightarrow> db \<Rightarrow> scanned_performance api_response" where
  "TotalScannedTasks env duration forever d =
     (case resp_data (ScanStatistics env duration forever d) of
        None \<Rightarrow> NewErrorResponse StatusBadRequest ''invalid data type'' (Err ''invalid data type'')
      | Some (table, _) \<Rightarrow>
          (let urls = sum_list (map (\<lambda>m. if url_mode m then scanned (table m) else 0) modes);
               fs = sum_list (map (\<lambda>m. if url_mode m then 0 else scanned (table m)) modes)
           in NewSuccessResponse ''Success''
                (Some (if urls + fs = 0 then \<lparr>ScannedUrlPercent = 0, ScannedFilePercent = 0\<rparr>
                       else \<lparr>ScannedUrlPercent = urls, ScannedFilePercent = fs\<rparr>))))"

subsection \<open>Events\<close>

record dash_env = list_env +
  parse_stamp :: "string \<Rightarrow> int option"
  ram_info :: "go_error + rat"
  space_info :: "go_error + rat"
  cpu_info :: "go_error + rat"
  device_config :: "go_error + string"
  os_release :: "go_error + string"
  host_uptime :: "go_error + int"
  civil :: "int \<Rightarrow> int \<times> string \<times> int"
  show_stamp :: "int \<Rightarrow> string"

definition stamp_of :: "('e) dash_env_scheme \<Rightarrow> entry \<Rightarrow> int" where
  "stamp_of env e =
     (case map_of e ''time_stamp'' of
        Some (Text s) \<Rightarrow> (case parse_stamp env s of None \<Rightarrow> zero_time | Some t \<Rightarrow> t)
      | _ \<Rightarrow> zero_time)"

fun count_events :: "('e) dash_env_scheme \<Rightarrow> int \<Rightarrow> bool \<Rightarrow> entry list \<Rightarrow> int" where
  "count_events env endTime forever [] = 0"
| "count_events env endTime forever (e # es) =
     1 + (if \<not> endTime < stamp_of env e \<and> \<not> forever then 0 else count_events env endTime forever es)"

definition EventCount ::
  "('e) dash_env_scheme \<Rightarrow> int \<Rightarrow> string \<Rightarrow> bool \<Rightarrow> int api_response" where
  "EventCount env duration action forever =
     (let resp = LogReports env action in
      NewSuccessResponse ''Success''
        (Some (case resp_data resp of
                 Some (Entries es) \<Rightarrow>
                   if resp_status resp \<noteq> StatusOK then 0
                   else count_events env (now env - duration) forever (rev es)
               | _ \<Rightarrow> 0)))"

subsection \<open>The appliance\<close>

record hdwr_usage =
  RAM :: rat
  CPU :: rat
  Disk :: rat
  UsageTime :: string

definition GetHdwrData :: "('e) dash_env_scheme \<Rightarrow> hdwr_usage api_response" where
  "GetHdwrData env =
     (case ram_info env of
        Inl e \<Rightarrow> NewErrorResponse StatusBadRequest ''error getting RAM info'' e
      | Inr ram \<Rightarrow>
          (case space_info env of
             Inl e \<Rightarrow> NewErrorResponse StatusBadRequest ''error getting disk info'' e
           | Inr disk \<Rightarrow>
               (case cpu_info env of
                  Inl e \<Rightarrow> fetch_error e
                | Inr cpu \<Rightarrow>
                    NewSuccessResponse ''Success''
                      (Some \<lparr>RAM = ram, CPU = cpu, Disk = disk, UsageTime = show_stamp env (now env)\<rparr>))))"

text \<open>\<open>FormatWithOrdinal\<close> on a day, a month name and a year.\<close>

definition FormatWithOrdinal :: "int \<times> string \<times> int \<Rightarrow> string" where
  "FormatWithOrdinal date =
     (case date of (day, month, year) \<Rightarrow>
        let suffix = (if day \<in> {1, 21, 31} then ''st'' else if day \<in> {2, 22} then ''nd''
                      else if day \<in> {3, 23} then ''rd'' else ''th'')
        in show_int day @ suffix @ '' '' @ month @ '' '' @ show_int year)"

text \<open>The lines \<open>key=value\<close> of the device configuration: the serial and the model number.\<close>

definition config_value :: "string \<Rightarrow> string \<Rightarrow> string \<Rightarrow> string" where
  "config_value name line old =
     (let parts = split_on (CHR ''='') line
      in if length parts = 2 \<and> contains line name then parts ! 1 else old)"

fun last_value :: "string \<Rightarrow> string list \<Rightarrow> string \<Rightarrow> string" where
  "last_value name [] old = old"
| "last_value name (line # ls) old = last_value name ls (config_value name line old)"

definition serial_and_model :: "string \<Rightarrow> string \<times> string" where
  "serial_and_model content =
     (last_value ''serial_no'' (scan_lines content) [], last_value ''model_no'' (scan_lines content) [])"

definition pretty_prefix :: string where
  "pretty_prefix = ''PRETTY_NAME='' @ quote_text"

definition getOSVersion :: "go_error + string \<Rightarrow> go_error + string" where
  "getOSVersion output =
     (case output of
        Inl e \<Rightarrow> Inl e
      | Inr txt \<Rightarrow>
          (case find (\<lambda>l. has_prefix l ''PRETTY_NAME='') (split_on line_end txt) of
             None \<Rightarrow> Inl (Err ''PRETTY_NAME not found in /etc/os-release'')
           | Some line \<Rightarrow>
               (let version = trim_char (CHR 0x22) (trim_prefix line pretty_prefix)
                in if version = [] then Inl (Err ''PRETTY_NAME not found in /etc/os-release'')
                   else Inr version)))"

record device_specification =
  ModelNo :: string
  SerialNo :: string
  RegisteredEmail :: string
  OsVersion :: string
  LicenseValidTill :: string
  ApplianceUpSince :: string

definition GetDevice where
  "GetDevice env cenv st =
     (case device_config env of
        Inl e \<Rightarrow> (fetch_error e, st)
      | Inr content \<Rightarrow>
          (case getOSVersion (os_release env) of
             Inl e \<Rightarrow> (fetch_error e, st)
           | Inr osVersion \<Rightarrow>
               (case host_uptime env of
                  Inl e \<Rightarrow> (fetch_error e, st)
                | Inr uptime \<Rightarrow>
                    (case FetchLicenseKeyProfile cenv st of
                       (Inl e, st1) \<Rightarrow> (fetch_error e, st1)
                     | (Inr k, st1) \<Rightarrow>
                         (NewSuccessResponse ''Success''
                            (Some \<lparr>ModelNo = snd (serial_and_model content),
                                   SerialNo = fst (serial_and_model content),
                                   RegisteredEmail = kt_email k, OsVersion = osVersion,
                                   LicenseValidTill = FormatWithOrdinal (civil env (kt_expiry k)),
                                   ApplianceUpSince =
                                     show_stamp env (now env - go_int64 (uptime * go_second))\<rparr>),
                          st1)))))"

definition GetDeviceInfo where
  "GetDeviceInfo cenv st =
     (case FetchDeviceProfile cenv [] st of
        (Inl e, st1) \<Rightarrow> (fetch_failed StatusBadRequest ErrNoRecordForDevice e, st1)
      | (Inr ds, st1) \<Rightarrow> (Inr (NewSuccessResponse ''Success'' (Some ds)), st1))"

subsection \<open>The request\<close>

datatype dash_data =
    Buckets "scanned_counter list"
  | Stats "stat_table \<times> statistics"
  | Count int
  | Performance scanned_performance
  | Usage hdwr_usage
  | Specification device_specification

definition wrap_data :: "('a \<Rightarrow> 'b) \<Rightarrow> 'a api_response \<Rightarrow> 'b api_response" where
  "wrap_data c r =
     \<lparr>resp_data = map_option c (resp_data r), resp_status = resp_status r,
      resp_message = resp_message r, resp_error = resp_error r\<rparr>"

definition go_hour :: int where "go_hour = 60 * go_minute"

text \<open>\<open>None\<close> is a request that is never answered.\<close>

definition Dashboard where
  "Dashboard env cenv action d st =
     (let day = 24 * go_hour; pure = (\<lambda>r. Some (r, st)) in
      if action = ''scanned-count-per-hour'' then
        (case ScannedCount env go_hour d of None \<Rightarrow> None | Some r \<Rightarrow> pure (wrap_data Buckets r))
      else if action = ''scan-statistics'' then pure (wrap_data Stats (ScanStatistics env day True d))
      else if action = ''total-malwares'' then pure (wrap_data Count (TotalMalwares env day [] True d))
      else if action = ''url-malwares'' then
        pure (wrap_data Count (TotalMalwares env day ''UrlOnDemand'' True d))
      else if action = ''file-malwares'' then
        pure (wrap_data Count (TotalMalwares env day ''FileOnDemand'' True d))
      else if action = ''scan-performance'' then
        pure (wrap_data Performance (TotalScannedTasks env day True d))
      else if action \<in> {''system-events'', ''task-events'', ''vm-events'', ''total-events''} then
        pure (wrap_data Count (EventCount env day action True))
      else if action = ''hdwr-usage'' then pure (wrap_data Usage (GetHdwrData env))
      else if action = ''get-device'' then
        (case GetDevice env cenv st of (r, st1) \<Rightarrow> Some (wrap_data Specification r, st1))
      else pure (NewErrorResponse StatusBadRequest ''invalid action type'' (Err ''invalid action type'')))"

end
