(* ===== verification/Report.thy ===== *)
theory Report
  imports Dashboard
begin

text \<open>
  \<open>service/report.go\<close> and \<open>controller/report.go\<close>: the report on an analysed file or url, and its
  download as a PDF document.

  The PDF library is a parameter. A document is the list of the calls made to the library, and what
  is stored in the report directory is the document, or an error. The total scan time is in whole
  seconds: the source converts through a float, which is exact for durations of up to 97 days.
\<close>

subsection \<open>Reports\<close>

record job_summary =
  js_job_id :: string
  js_status :: string
  js_received :: string
  js_rated_by :: string
  js_submit_type :: string
  js_timeout :: int
  js_rating :: string
  js_final_verdict :: string

record job_detail =
  jd_filename :: string
  jd_start :: string
  jd_end :: string
  jd_total :: int
  jd_file_type :: string
  jd_md5 :: string
  jd_sha1 :: string
  jd_sha256 :: string
  jd_submitted_by :: string
  jd_submit_device :: string
  jd_submitted_device :: string
  jd_vm :: string
  jd_vm_reason :: string

record url_job_detail =
  ujd_url :: string
  ujd_type :: string
  ujd_start :: string
  ujd_end :: string
  ujd_total :: int
  ujd_submitted_by :: string
  ujd_submit_device :: string
  ujd_submitted_device :: string
  ujd_vm :: string
  ujd_vm_reason :: string

record job_info =
  ji_summary :: job_summary
  ji_details :: job_detail
  ji_filename :: string

record url_job_info =
  uji_summary :: job_summary
  uji_details :: url_job_detail
  uji_url :: string

datatype report = FileReport job_info | UrlReport url_job_info

definition submit_type :: "bool \<Rightarrow> string" where
  "submit_type from_device =
     (if from_device then ''WiJungle Firewall Device'' else ''WiJungle Anti-APT Dashboard'')"

definition seconds :: "int \<Rightarrow> int" where
  "seconds ns = (if 0 \<le> ns then ns div go_second else - ((- ns) div go_second))"

text \<open>The scan time and the machine: a known file or url was not scanned.\<close>

definition scan_duration :: "bool \<Rightarrow> int option \<Rightarrow> int \<Rightarrow> int" where
  "scan_duration known finished_at submitted_at =
     (if known then 1
      else (case finished_at of None \<Rightarrow> 0 | Some t \<Rightarrow> seconds (time_sub t submitted_at)))"

definition scan_vm :: "bool \<Rightarrow> string" where
  "scan_vm known = (if known then ''VM not assigned(found from hash)'' else ''WiJungle Sandbox'')"

definition end_text :: "(int \<Rightarrow> string) \<Rightarrow> int option \<Rightarrow> string" where
  "end_text show finished_at = show (case finished_at of None \<Rightarrow> zero_time | Some t \<Rightarrow> t)"

definition shown_verdict :: "bool \<Rightarrow> string \<Rightarrow> string \<Rightarrow> string" where
  "shown_verdict overridden verdict by_user =
     (if overridden then verdict @ '' ( overridden by '' @ by_user @ '' )'' else verdict)"

definition make_summary :: "string \<Rightarrow> string \<Rightarrow> string \<Rightarrow> string \<Rightarrow> string \<Rightarrow> job_summary" where
  "make_summary jobId received from rating verdict =
     \<lparr>js_job_id = jobId, js_status = ''reported'', js_received = received,
      js_rated_by = ''WiJungle Anti-APT'', js_submit_type = from, js_timeout = 100,
      js_rating = rating, js_final_verdict = verdict\<rparr>"

definition file_report :: "(int \<Rightarrow> string) \<Rightarrow> string \<Rightarrow> file_on_demand \<Rightarrow> job_info" where
  "file_report show jobId f =
     (let from = submit_type (fod_from_device f); known = (fod_status f = PREVIOUSLY_SCANNED_FILE) in
      \<lparr>ji_summary =
         make_summary jobId (show (fod_submitted_time f)) from (fod_rating f)
           (shown_verdict (fod_overridden_verdict f) (fod_final_verdict f) (fod_overridden_by f)),
       ji_details =
         \<lparr>jd_filename = fod_file_name f, jd_start = show (fod_submitted_time f),
          jd_end = end_text show (fod_finished_time f),
          jd_total = scan_duration known (fod_finished_time f) (fod_submitted_time f),
          jd_file_type = fod_content_type f, jd_md5 = fod_md5 f, jd_sha1 = fod_sha f,
          jd_sha256 = fod_sha256 f, jd_submitted_by = fod_submitted_by f, jd_submit_device = from,
          jd_submitted_device = ''WiJungle Anti-APT Sandbox'', jd_vm = scan_vm known,
          jd_vm_reason = ''APT Sandboxing PreFiltering''\<rparr>,
       ji_filename = fod_file_name f\<rparr>)"

definition url_report :: "(int \<Rightarrow> string) \<Rightarrow> string \<Rightarrow> url_on_demand \<Rightarrow> url_job_info" where
  "url_report show jobId u =
     (let from = submit_type (uod_from_device u); known = (uod_status u = PREVIOUSLY_SCANNED_URL) in
      \<lparr>uji_summary =
         make_summary jobId (show (uod_submitted_time u)) from (uod_rating u)
           (shown_verdict (uod_overridden_verdict u) (uod_final_verdict u) (uod_overridden_by u)),
       uji_details =
         \<lparr>ujd_url = uod_url_name u, ujd_type = ''URL'', ujd_start = show (uod_submitted_time u),
          ujd_end = end_text show (uod_finished_time u),
          ujd_total = scan_duration known (uod_finished_time u) (uod_submitted_time u),
          ujd_submitted_by = uod_submitted_by u, ujd_submit_device = from,
          ujd_submitted_device = ''WiJungle Anti-APT Sandbox'', ujd_vm = scan_vm known,
          ujd_vm_reason = ''APT Sandboxing PreFiltering''\<rparr>,
       uji_url = uod_url_name u\<rparr>)"

definition invalid_job_id :: "'d api_response" where
  "invalid_job_id = NewErrorResponse StatusBadRequest ''invalid job id'' (Err ''invalid job id'')"

definition still_analysing :: "'d api_response" where
  "still_analysing = NewErrorResponse StatusBadRequest ''still analysing the file'' ErrReportNotGenerated"

definition invalid_action_type :: "'d api_response" where
  "invalid_action_type =
     NewErrorResponse StatusBadRequest ''Invalid action type'' (Err ''invalid action type'')"

text \<open>A failing query is ignored: the zero row has no rating and no status.\<close>

definition get_file_report ::
  "('e) db_env_scheme \<Rightarrow> (int \<Rightarrow> string) \<Rightarrow> string \<Rightarrow> db \<Rightarrow> report api_response" where
  "get_file_report env show jobId d =
     (case atoi jobId of
        None \<Rightarrow> invalid_job_id
      | Some taskId \<Rightarrow>
          (let f = fod_or_zero (select_fod env d taskId) in
           if fod_rating f = [] then still_analysing
           else NewSuccessResponse ''Success'' (Some (FileReport (file_report show jobId f)))))"

definition get_url_report ::
  "('e) db_env_scheme \<Rightarrow> (int \<Rightarrow> string) \<Rightarrow> string \<Rightarrow> db \<Rightarrow> report api_response" where
  "get_url_report env show jobId d =
     (case atoi jobId of
        None \<Rightarrow> invalid_job_id
      | Some taskId \<Rightarrow>
          (let u = (case select_uod env d taskId of Inl e \<Rightarrow> zero_uod | Inr u \<Rightarrow> u) in
           if uod_status u \<noteq> Reported then still_analysing
           else NewSuccessResponse ''Success'' (Some (UrlReport (url_report show jobId u)))))"

definition GetReport ::
  "('e) db_env_scheme \<Rightarrow> (int \<Rightarrow> string) \<Rightarrow> string \<Rightarrow> string \<Rightarrow> db \<Rightarrow> report api_response" where
  "GetReport env show jobId actionType d =
     (if actionType = ''file'' then get_file_report env show jobId d
      else if actionType = ''url'' then get_url_report env show jobId d
      else invalid_action_type)"

subsection \<open>The document\<close>

text \<open>Calls to the library; a cell has width, height, text, border, line break, alignment, fill.\<close>

datatype pdf_call =
    SetFont string string nat
  | SetMargins int int int
  | AddPage
  | SetTextColor int int int
  | SetDrawColor int int int
  | SetFillColor int int int
  | CellFormat int int string string int string bool
  | Ln int

abbreviation black :: pdf_call where "black \<equiv> SetTextColor 0 0 0"
abbreviation heading_colour :: pdf_call where "heading_colour \<equiv> SetTextColor 0 64 128"

definition heading :: "int \<Rightarrow> string \<Rightarrow> pdf_call" where
  "heading h s = CellFormat 0 h s ''0'' 0 ''C'' False"

definition name_cell :: "string \<Rightarrow> pdf_call" where
  "name_cell n = CellFormat 40 8 (n @ '':'') ''1'' 0 ''L'' True"

definition value_cell :: "string \<Rightarrow> pdf_call" where
  "value_cell v = CellFormat 0 8 v ''1'' 1 ''L'' True"

definition rating_colour :: "string \<Rightarrow> pdf_call list" where
  "rating_colour rating =
     (if rating = ''Clean'' then [SetTextColor 0 128 0]
      else if rating = ''Low Risk'' then [SetTextColor 255 255 0]
      else if rating = ''Medium Risk'' then [SetTextColor 255 165 0]
      else if rating = ''High Risk'' then [SetTextColor 255 0 0]
      else [])"

definition summary_row :: "string \<times> string \<Rightarrow> pdf_call list" where
  "summary_row nv =
     (if fst nv = ''Rating''
      then [name_cell (fst nv)] @ rating_colour (snd nv) @ [value_cell (snd nv), black]
      else [name_cell (fst nv), value_cell (snd nv)])"

definition detail_row :: "string \<times> string \<Rightarrow> pdf_call list" where
  "detail_row nv = [name_cell (fst nv), value_cell (snd nv)]"

text \<open>The fields by name, as reflection lists them.\<close>

definition summary_fields :: "job_summary \<Rightarrow> (string \<times> string) list" where
  "summary_fields s =
     [(''JobID'', js_job_id s), (''Status'', js_status s), (''ReceivedTime'', js_received s),
      (''RatedBy'', js_rated_by s), (''SubmitType'', js_submit_type s),
      (''VmScanTimeout'', show_int (js_timeout s)), (''Rating'', js_rating s),
      (''FinalVerdict'', js_final_verdict s)]"

definition detail_fields :: "job_detail \<Rightarrow> (string \<times> string) list" where
  "detail_fields j =
     [(''Filename'', jd_filename j), (''ScanStartTime'', jd_start j), (''ScanEndTime'', jd_end j),
      (''TotalScanTime'', show_int (jd_total j)), (''FileType'', jd_file_type j),
      (''MD5'', jd_md5 j), (''SHA1'', jd_sha1 j), (''SHA256'', jd_sha256 j),
      (''SubmittedBy'', jd_submitted_by j), (''SubmitDevice'', jd_submit_device j),
      (''SubmittedDevice'', jd_submitted_device j), (''VM'', jd_vm j),
      (''VMReason'', jd_vm_reason j)]"

definition url_detail_fields :: "url_job_detail \<Rightarrow> (string \<times> string) list" where
  "url_detail_fields j =
     [(''Url'', ujd_url j), (''Type'', ujd_type j), (''ScanStartTime'', ujd_start j),
      (''ScanEndTime'', ujd_end j), (''TotalScanTime'', show_int (ujd_total j)),
      (''SubmittedBy'', ujd_submitted_by j), (''SubmitDevice'', ujd_submit_device j),
      (''SubmittedDevice'', ujd_submitted_device j), (''VM'', ujd_vm j),
      (''VMReason'', ujd_vm_reason j)]"

definition document ::
  "job_summary \<Rightarrow> (string \<times> string) list \<Rightarrow> string \<Rightarrow> string \<Rightarrow> pdf_call list" where
  "document summary details os_version generated =
     [SetFont ''Times'' ''B'' 20, SetMargins 10 10 10, AddPage,
      heading_colour, heading 8 ''WiJungle Anti-APT Detailed Report'', Ln 10,
      black, SetFont ''Times'' ''I'' 14,
      heading_colour, heading 8 ''Summary'', Ln 10,
      SetFont ''Times'' [] 10,
      black, SetDrawColor 0 0 0, SetFillColor 200 220 255]
     @ concat (map summary_row (summary_fields summary))
     @ [heading_colour, Ln 5, SetFont ''Times'' ''I'' 14,
        heading 8 ''Details'', Ln 10,
        SetFont ''Times'' [] 10, black, SetFillColor 220 230 255]
     @ concat (map detail_row details)
     @ [Ln 5, SetFont ''Times'' ''B'' 12, heading_colour,
        heading 10 (''OS Version: '' @ os_version), Ln 5,
        heading 10 (''Job ID: '' @ js_job_id summary), Ln 5,
        heading 10 (''Generated at: '' @ generated)]"

subsection \<open>Generating and downloading\<close>

record report_env = dash_env +
  mkdir_reports :: "go_error option"
  write_pdf :: "string \<Rightarrow> go_error option"
  remove_pdf :: "go_error option"

text \<open>The report directory: the documents by file name.\<close>

type_synonym report_dir = "string \<Rightarrow> pdf_call list option"

definition pdf_path :: "string \<Rightarrow> string" where
  "pdf_path jobId = ''/log/apt/reports/Report_'' @ jobId @ ''.pdf''"

text \<open>
  \<open>generatePDF\<close> and \<open>generatePDFurl\<close>, which differ in the detail fields only. A device description
  that fails has no data: asserting its type panics.
\<close>

definition generate where
  "generate env cenv summary details dir st =
     (case GetDevice env cenv st of (dev, st1) \<Rightarrow>
        (case resp_data dev of
           None \<Rightarrow> (Inl (Panic ''interface conversion''), dir, st1)
         | Some spec \<Rightarrow>
             (case mkdir_reports env of
                Some e \<Rightarrow> (Inr (Some e), dir, st1)
              | None \<Rightarrow>
                  (let path = pdf_path (js_job_id summary);
                       doc = document summary details (OsVersion spec) (show_stamp env (now env))
                   in case write_pdf env path of
                        Some e \<Rightarrow> (Inr (Some e), dir, st1)
                      | None \<Rightarrow> (Inr None, (dir :: report_dir)(path \<mapsto> doc), st1)))))"

definition generatePDF where
  "generatePDF env cenv j dir st =
     generate env cenv (ji_summary j) (detail_fields (ji_details j)) dir st"

definition generatePDFurl where
  "generatePDFurl env cenv j dir st =
     generate env cenv (uji_summary j) (url_detail_fields (uji_details j)) dir st"

definition DownloadReport where
  "DownloadReport env cenv jobId actionType d dir st =
     (let resp = GetReport env (show_time env) jobId actionType d in
      if resp_status resp \<noteq> StatusOK then
        (Inr (NewErrorResponse (resp_status resp) (resp_message resp) (Err (resp_error resp))), dir, st)
      else
        (case resp_data resp of
           None \<Rightarrow> (Inr still_analysing, dir, st)
         | Some r \<Rightarrow>
             (case (case r of FileReport j \<Rightarrow> generatePDF env cenv j dir st
                            | UrlReport j \<Rightarrow> generatePDFurl env cenv j dir st) of
                   (Inl e, w) \<Rightarrow> (Inl e, w)
                 | (Inr (Some e), w) \<Rightarrow>
                     (Inr (NewErrorResponse StatusBadRequest ''error while analysis'' e), w)
                 | (Inr None, w) \<Rightarrow>
                     (Inr (NewSuccessResponse ''Success'' (Some ''PDF generated successfully'')), w))))"

text \<open>
  The controllers. \<open>GetReport\<close> goes on after it answered an empty job id: the client gets two
  bodies. \<open>DownloadReport\<close> sends the file and removes it.
\<close>

definition GetReport_handler ::
  "('e) db_env_scheme \<Rightarrow> (int \<Rightarrow> string) \<Rightarrow> string \<Rightarrow> string \<Rightarrow> db \<Rightarrow> report api_response list" where
  "GetReport_handler env show job_id kind d =
     (let jobId = trim_space job_id; actionType = trim_space kind;
          resp = GetReport env show jobId actionType d
      in if jobId = [] then [invalid_job_id, resp] else [resp])"

datatype download = Failed "string api_response" | SentFile "pdf_call list option"

definition DownloadReport_handler where
  "DownloadReport_handler env cenv job_id kind d dir st =
     (let jobId = trim_space job_id; actionType = trim_space kind in
      if jobId = [] then (Inr (Failed invalid_job_id), dir, st)
      else
        (case DownloadReport env cenv jobId actionType d dir st of
           (Inl e, w) \<Rightarrow> (Inl e, w)
         | (Inr resp, dir1, st1) \<Rightarrow>
             if resp_status resp \<noteq> StatusOK then (Inr (Failed resp), dir1, st1)
             else
               (Inr (SentFile (dir1 (pdf_path jobId))),
                if remove_pdf env = None then dir1(pdf_path jobId := None) else dir1, st1)))"

end
