(* ===== verification/Dashboard_Laws.thy ===== *)
theory Dashboard_Laws
  imports Report Db_Invariant Slice_Sort
begin

text \<open>
  Facts about the lists and the dashboard: what sorting keeps, the hour by hour count against a
  direct definition of each bucket, the statistics against counting, and where \<open>FetchAllFODs\<close>
  finds a file.
\<close>

subsection \<open>Scans per hour\<close>

text \<open>How many of the times lie in the bucket that starts \<open>k\<close> steps before \<open>e\<close>; the first is open.\<close>

definition bucket_count :: "int \<Rightarrow> int \<Rightarrow> int list \<Rightarrow> nat \<Rightarrow> int" where
  "bucket_count duration e ts k =
     int (length (filter (\<lambda>t. e - int k * duration < t \<and> (k = 0 \<or> t \<le> e - (int k - 1) * duration)) ts))"

lemma bucket_count_Nil [simp]: "bucket_count duration e [] k = 0"
  by (simp add: bucket_count_def)

lemma bucket_count_sorted [simp]:
  "bucket_count duration e (sort_slice before ts) = bucket_count duration e ts"
  by (simp add: bucket_count_def fun_eq_iff)

text \<open>The inner loop ends, one step before the time it looks for.\<close>

lemma walk_back_steps:
  assumes "0 < duration" "t \<le> e"
  shows "\<exists>k. 0 < k \<and> e - int k * duration < t \<and> t \<le> e - (int k - 1) * duration \<and>
     walk_back duration t past c e =
       Some (past @ (e, c) # map (\<lambda>i. (e - int i * duration, 0)) [1..<k], e - int k * duration)"
  using assms(2)
proof (induction "nat (e - t)" arbitrary: past c e rule: less_induct)
  case less
  let ?e = "e - duration"
  show ?case
  proof (cases "?e < t")
    case True
    with less.prems show ?thesis
      by (intro exI [of _ 1]) (simp add: walk_back.simps [of duration t past c e] Let_def)
  next
    case False
    then have le: "t \<le> ?e" by simp
    have "nat (?e - t) < nat (e - t)" using assms(1) le by simp
    from less.hyps [OF this le, of "past @ [(e, c)]" 0] obtain k where
      k: "0 < k" "?e - int k * duration < t" "t \<le> ?e - (int k - 1) * duration" and
      w: "walk_back duration t (past @ [(e, c)]) 0 ?e =
        Some ((past @ [(e, c)]) @ (?e, 0) # map (\<lambda>i. (?e - int i * duration, 0)) [1..<k],
              ?e - int k * duration)"
      by blast
    have "[1..<Suc k] = 1 # map Suc [1..<k]"
      using k(1) by (simp add: map_Suc_upt upt_conv_Cons del: upt_Suc)
    then have "map (\<lambda>i. (e - int i * duration, 0 :: int)) [1..<Suc k] =
        (?e, 0) # map (\<lambda>i. (?e - int i * duration, 0)) [1..<k]"
      by (simp add: algebra_simps del: upt_Suc)
    then show ?thesis using False k w
      by (intro exI [of _ "Suc k"])
        (simp add: walk_back.simps [of duration t past c e] Let_def algebra_simps del: upt_Suc)
  qed
qed

lemma walk_back_total:
  assumes "0 < duration" "t \<le> e"
  shows "walk_back duration t past c e \<noteq> None"
  using walk_back_steps [OF assms] by (metis option.distinct(1))

text \<open>A time before the current bucket starts a run of empty buckets, then its own.\<close>

lemma bucket_count_before:
  assumes "\<forall>x \<in> set ts. x \<le> e - (int k - 1) * duration" "i < k" "0 < duration"
  shows "bucket_count duration e ts i = 0"
proof -
  have "\<not> e - int i * duration < x" if "x \<in> set ts" for x
  proof -
    have "int i * duration \<le> (int k - 1) * duration"
      using assms(2, 3) by (intro mult_right_mono) auto
    with assms(1) that show ?thesis by force
  qed
  then show ?thesis by (simp add: bucket_count_def filter_False)
qed

lemma bucket_count_shift:
  assumes "\<forall>x \<in> set ts. x \<le> e - (int k - 1) * duration" "0 < k"
  shows "bucket_count duration e ts (k + j) = bucket_count duration (e - int k * duration) ts j"
proof -
  have "e - int (k + j) * duration < x \<and> (k + j = 0 \<or> x \<le> e - (int (k + j) - 1) * duration) \<longleftrightarrow>
      e - int k * duration - int j * duration < x \<and>
      (j = 0 \<or> x \<le> e - int k * duration - (int j - 1) * duration)" if "x \<in> set ts" for x
    using assms that by (cases "j = 0") (auto simp: algebra_simps)
  then show ?thesis unfolding bucket_count_def by (auto intro!: arg_cong [of _ _ length] filter_cong)
qed

lemma bucket_count_Cons:
  "bucket_count duration e (t # ts) k =
     bucket_count duration e ts k
       + (if e - int k * duration < t \<and> (k = 0 \<or> t \<le> e - (int k - 1) * duration) then 1 else 0)"
  by (simp add: bucket_count_def)

lemma map_from: "map f [k..<k + m] = map (\<lambda>j. f (k + j)) [0..<m]"
  by (rule nth_equalityI) simp_all

lemma count_scans_spec:
  fixes ts :: "int list"
  assumes "0 < duration" "sorted_wrt (\<lambda>a b. b \<le> a) ts"
  shows "\<exists>m. count_scans duration ts past c e =
     Some (past @ map (\<lambda>k. (e - int k * duration, bucket_count duration e ts k + (if k = 0 then c else 0))) [0..<m],
           bucket_count duration e ts m + (if m = 0 then c else 0), e - int m * duration)"
  using assms(2)
proof (induction ts arbitrary: past c e)
  case Nil
  show ?case by (intro exI [of _ 0]) simp
next
  case (Cons t ts)
  have le: "\<forall>x \<in> set ts. x \<le> t" and sorted: "sorted_wrt (\<lambda>a b. b \<le> a) ts" using Cons.prems by auto
  let ?bc = "\<lambda>k. bucket_count duration e (t # ts) k + (if k = 0 then c else 0)"
  show ?case
  proof (cases "e < t")
    case True
    have "bucket_count duration e (t # ts) k = bucket_count duration e ts k + (if k = 0 then 1 else 0)" for k
    proof (cases "k = 0")
      case False
      then have "0 \<le> (int k - 1) * duration" using assms(1) by simp
      with True False show ?thesis by (simp add: bucket_count_Cons)
    qed (use True in \<open>simp add: bucket_count_Cons\<close>)
    then have bc: "?bc k = bucket_count duration e ts k + (if k = 0 then c + 1 else 0)" for k by simp
    from Cons.IH [OF sorted, of past "c + 1" e] True show ?thesis unfolding bc by simp
  next
    case False
    then obtain k where k: "0 < k" "e - int k * duration < t" "t \<le> e - (int k - 1) * duration" and
      w: "walk_back duration t past c e =
        Some (past @ (e, c) # map (\<lambda>i. (e - int i * duration, 0)) [1..<k], e - int k * duration)"
      using walk_back_steps [OF assms(1)] by (metis not_less)
    let ?e = "e - int k * duration"
    have below: "\<forall>x \<in> set (t # ts). x \<le> e - (int k - 1) * duration" using k(3) le by auto
    have before: "?bc i = (if i = 0 then c else 0)" if "i < k" for i
      using bucket_count_before [OF below that assms(1)] by simp
    have after: "?bc (k + j) = bucket_count duration ?e ts j + (if j = 0 then 1 else 0)" for j
    proof -
      have "bucket_count duration e (t # ts) (k + j) = bucket_count duration ?e (t # ts) j"
        by (rule bucket_count_shift [OF below k(1)])
      moreover have "0 \<le> (int j - 1) * duration" if "j \<noteq> 0" using that assms(1) by simp
      ultimately show ?thesis using k by (cases "j = 0") (auto simp: bucket_count_Cons)
    qed
    have "[0..<k] = 0 # [1..<k]" using k(1) by (simp add: upt_conv_Cons)
    then have front: "map (\<lambda>i. (e - int i * duration, ?bc i)) [0..<k] =
        (e, c) # map (\<lambda>i. (e - int i * duration, 0)) [1..<k]"
      using before k(1) by simp
    from Cons.IH [OF sorted, of "past @ (e, c) # map (\<lambda>i. (e - int i * duration, 0)) [1..<k]" 1 ?e]
    obtain m where m: "count_scans duration ts (past @ (e, c) # map (\<lambda>i. (e - int i * duration, 0)) [1..<k]) 1 ?e =
      Some ((past @ (e, c) # map (\<lambda>i. (e - int i * duration, 0)) [1..<k]) @
            map (\<lambda>j. (?e - int j * duration, ?bc (k + j))) [0..<m], ?bc (k + m), ?e - int m * duration)"
      unfolding after by blast
    have "map (\<lambda>i. (e - int i * duration, ?bc i)) [0..<k + m] =
        (e, c) # map (\<lambda>i. (e - int i * duration, 0)) [1..<k]
        @ map (\<lambda>j. (?e - int j * duration, ?bc (k + j))) [0..<m]"
      unfolding upt_add_eq_append [OF le0] map_append front map_from [of _ k m]
      by (simp add: algebra_simps)
    then show ?thesis using False w m by (intro exI [of _ "k + m"]) (simp add: algebra_simps)
  qed
qed

text \<open>No time is lost: the counts add up to the number of times.\<close>

lemma walk_back_sum:
  assumes "0 < duration" "t \<le> e" "walk_back duration t past c e = Some (past', e')"
  shows "sum_list (map snd past') = sum_list (map snd past) + c"
proof -
  obtain k where "past' = past @ (e, c) # map (\<lambda>i. (e - int i * duration, 0)) [1..<k]"
    using walk_back_steps [OF assms(1, 2), of past c] assms(3) by auto
  then show ?thesis by (simp add: o_def)
qed

lemma count_scans_sum:
  assumes "0 < duration" "count_scans duration ts past c e = Some (past', c', e')"
  shows "sum_list (map snd past') + c' = sum_list (map snd past) + c + int (length ts)"
  using assms(2)
proof (induction ts arbitrary: past c e)
  case (Cons t ts)
  show ?case
  proof (cases "e < t")
    case True
    with Cons.IH [of past "c + 1" e] Cons.prems show ?thesis by simp
  next
    case False
    with Cons.prems obtain past1 e1 where w: "walk_back duration t past c e = Some (past1, e1)"
      and r: "count_scans duration ts past1 1 e1 = Some (past', c', e')"
      by (auto split: option.splits)
    show ?thesis using Cons.IH [OF r] walk_back_sum [OF assms(1) _ w] False by simp
  qed
qed simp

lemma scan_buckets_spec:
  assumes "0 < duration"
  shows "\<exists>n. scan_buckets duration start ts =
      Some (map (\<lambda>k. (start - (int k + 1) * duration, bucket_count duration (start - duration) ts k)) [0..<n])
    \<and> sum_list (map (bucket_count duration (start - duration) ts) [0..<n]) = int (length ts)"
proof -
  let ?b = "bucket_count duration (start - duration) ts"
  let ?row = "\<lambda>k. (start - (int k + 1) * duration, ?b k)"
  let ?s = "sort_slice (\<lambda>a b. (b :: int) < a) ts"
  have start: "start - duration - int k * duration = start - (int k + 1) * duration" for k
    by (simp add: algebra_simps)
  have "sorted_wrt (\<lambda>a b. b \<le> a) ?s" using sorted_by_key [of "\<lambda>x. x" ts] by simp
  from count_scans_spec [OF assms this, of "[]" 0 "start - duration"] obtain m where
    m: "count_scans duration ?s [] 0 (start - duration) =
      Some (map ?row [0..<m], ?b m, start - (int m + 1) * duration)"
    by (auto simp: start cong: map_cong)
  have total: "sum_list (map ?b [0..<m]) + ?b m = int (length ts)"
    using count_scans_sum [OF assms m] by (simp add: o_def)
  show ?thesis
  proof (cases "0 < ?b m")
    case True
    then have "scan_buckets duration start ts = Some (map ?row [0..<Suc m])"
      by (simp add: scan_buckets_def m)
    with total show ?thesis by (intro exI [of _ "Suc m"]) simp
  next
    case False
    then have "?b m = 0" by (simp add: bucket_count_def)
    with total m show ?thesis by (intro exI [of _ m]) (simp add: scan_buckets_def)
  qed
qed

subsection \<open>Statistics\<close>

text \<open>The reference: every field counts the jobs of one kind.\<close>

definition critical_job :: "job \<Rightarrow> bool" where
  "critical_job j \<longleftrightarrow> job_rating j = ''Critical'' \<or> job_rating j = ''malicious''"

definition unrated_job :: "job \<Rightarrow> bool" where
  "unrated_job j \<longleftrightarrow>
     job_rating j \<notin> {''Low'', ''Medium'', ''High'', ''Critical'', ''malicious'', ''Clean''}"

definition pending_job :: "job \<Rightarrow> bool" where
  "pending_job j \<longleftrightarrow> unrated_job j \<and>
     job_status j \<in> {PendingInQueue, PendingNotInQueue, RunningNotInQueue}"

definition processing_job :: "job \<Rightarrow> bool" where
  "processing_job j \<longleftrightarrow> unrated_job j \<and> job_status j = RunningInQueue"

definition counted_job :: "job \<Rightarrow> bool" where
  "counted_job j \<longleftrightarrow> \<not> unrated_job j \<or> pending_job j \<or> processing_job j"

definition count_jobs :: "(job \<Rightarrow> bool) \<Rightarrow> job list \<Rightarrow> int" where
  "count_jobs P js = int (length (filter P js))"

definition job_statistics :: "job list \<Rightarrow> statistics" where
  "job_statistics js =
     \<lparr>StPending = count_jobs pending_job js, StProcessing = count_jobs processing_job js,
      StLow = count_jobs (\<lambda>j. job_rating j = ''Low'') js,
      StMedium = count_jobs (\<lambda>j. job_rating j = ''Medium'') js,
      StHigh = count_jobs (\<lambda>j. job_rating j = ''High'') js,
      StCritical = count_jobs critical_job js,
      StSafe = count_jobs (\<lambda>j. job_rating j = ''Clean'') js,
      StTotal = count_jobs counted_job js\<rparr>"

lemmas job_kinds = critical_job_def unrated_job_def pending_job_def processing_job_def counted_job_def

lemma count_jobs_simps [simp]:
  "count_jobs P [] = 0"
  "count_jobs P (js @ [j]) = count_jobs P js + (if P j then 1 else 0)"
  by (simp_all add: count_jobs_def)

lemma counted_job_sum:
  "count_jobs counted_job js =
     count_jobs (\<lambda>j. job_rating j = ''High'') js + count_jobs (\<lambda>j. job_rating j = ''Low'') js
     + count_jobs critical_job js + count_jobs (\<lambda>j. job_rating j = ''Clean'') js
     + count_jobs (\<lambda>j. job_rating j = ''Medium'') js + count_jobs pending_job js
     + count_jobs processing_job js"
proof (induction js rule: rev_induct)
  case (snoc j js)
  have "(if counted_job j then 1 else 0 :: int) =
      (if job_rating j = ''High'' then 1 else 0) + (if job_rating j = ''Low'' then 1 else 0)
      + (if critical_job j then 1 else 0) + (if job_rating j = ''Clean'' then 1 else 0)
      + (if job_rating j = ''Medium'' then 1 else 0) + (if pending_job j then 1 else 0)
      + (if processing_job j then 1 else 0)"
    by (auto simp: job_kinds)
  with snoc show ?case by simp
qed simp

lemma add_rating_step: "with_total (add_rating j (job_statistics js)) = job_statistics (js @ [j])"
  unfolding with_total_def job_statistics_def add_rating_def add_status_def
  by (simp only: counted_job_sum) (auto simp: job_kinds Let_def)

definition of_mode :: "incoming_mode \<Rightarrow> job list \<Rightarrow> job list" where
  "of_mode m js = filter (\<lambda>j. mode_of j = m) js"

lemma tally_counts:
  "tally e True js (\<lambda>m. job_statistics (of_mode m ks)) = (\<lambda>m. job_statistics (of_mode m (ks @ js)))"
proof (induction js arbitrary: ks)
  case (Cons j js)
  have "(\<lambda>m. job_statistics (of_mode m ks))
      (mode_of j := with_total (add_rating j (job_statistics (of_mode (mode_of j) ks)))) =
      (\<lambda>m. job_statistics (of_mode m (ks @ [j])))"
    unfolding add_rating_step by (auto simp: of_mode_def fun_eq_iff)
  with Cons.IH [of "ks @ [j]"] show ?case by (simp add: Let_def)
qed simp

lemma zero_job_statistics: "job_statistics [] = zero_statistics"
  by (simp add: job_statistics_def zero_statistics_def)

lemma tally_all: "tally e True js (\<lambda>_. zero_statistics) = (\<lambda>m. job_statistics (of_mode m js))"
  using tally_counts [of e js "[]"] by (simp add: of_mode_def zero_job_statistics)

lemma sum_of_modes:
  "count_jobs P (of_mode DeviceUrlCheck js) + count_jobs P (of_mode ManualUrlCheck js)
   + count_jobs P (of_mode DeviceFileCheck js) + count_jobs P (of_mode ManualFileCheck js)
   = count_jobs P js"
proof (induction js rule: rev_induct)
  case (snoc j js)
  then show ?case by (cases "mode_of j") (simp_all add: of_mode_def)
qed (simp add: of_mode_def)

lemma all_sources_counts: "all_sources (\<lambda>m. job_statistics (of_mode m js)) = job_statistics js"
  by (simp add: all_sources_def sum_modes_def job_statistics_def sum_of_modes)

subsection \<open>The listed files\<close>

text \<open>The status a file is listed with, by the table it is in.\<close>

definition stage_of :: "db \<Rightarrow> file_on_demand \<Rightarrow> string" where
  "stage_of d f =
     (if fod_status f \<noteq> [] then fod_status f
      else case find (\<lambda>r. live_id r = fod_id f) (lives d) of
        Some r \<Rightarrow> live_status_col r
      | None \<Rightarrow> if fod_id f \<in> fin_ids d then Reported else ALREADY_PROCESSING)"

text \<open>No file is in two places: the ids of the rows and of the files with a status are distinct.\<close>

definition places :: "db \<Rightarrow> int list" where
  "places d = map fod_id (filter (\<lambda>f. fod_status f \<noteq> []) (fods d)) @ map live_id (lives d)
     @ map fin_id (finished d) @ map dup_id (dups d)"

definition one_place :: "db \<Rightarrow> bool" where
  "one_place d \<longleftrightarrow> distinct (places d)"

lemma named_columns_id [simp]: "fod_id (named_columns f) = fod_id f"
  by (simp add: named_columns_def)

lemma with_status_id [simp]: "fod_id (with_status st f) = fod_id f"
  by (simp add: with_status_def)

lemma with_own_status: "named_columns f = with_status (fod_status f) f"
  by (simp add: named_columns_def with_status_def)

lemma filter_mset_disjoint:
  "i \<notin> A \<Longrightarrow> filter_mset (\<lambda>k. k = i \<or> k \<in> A) M =
     filter_mset (\<lambda>k. k = i) M + filter_mset (\<lambda>k. k \<in> A) M"
  by (induction M) auto

lemma ids_of_join:
  assumes "distinct is"
  shows "mset (concat (map (\<lambda>i. filter (\<lambda>k. k = i) ks) is)) = filter_mset (\<lambda>k. k \<in> set is) (mset ks)"
  using assms
proof (induction "is")
  case (Cons i "is")
  then show ?case by (simp add: filter_mset_disjoint)
qed simp

lemma join_fods_ids:
  assumes "distinct (map fod_id (fods d))" "key ` set rows \<subseteq> fod_ids d"
  shows "mset (map fod_id (join_fods d key st rows)) = mset (map key rows)"
proof -
  have "map fod_id (join_fods d key st rows) =
      concat (map (\<lambda>i. filter (\<lambda>k. k = i) (map key rows)) (map fod_id (fods d)))"
    unfolding join_fods_def map_concat map_map
    by (intro arg_cong [of _ _ concat] map_cong refl)
      (auto simp: filter_map o_def intro!: map_cong)
  then have "mset (map fod_id (join_fods d key st rows)) =
      filter_mset (\<lambda>k. k \<in> set (map fod_id (fods d))) (mset (map key rows))"
    using ids_of_join [OF assms(1)] by simp
  also have "\<dots> = mset (map key rows)"
    using assms(2) by (intro filter_mset_eq_conv [THEN iffD2]) (auto simp: fod_ids_def)
  finally show ?thesis .
qed

definition listed_fods :: "db \<Rightarrow> file_on_demand list" where
  "listed_fods d = status_fods d @ live_fods d @ finished_fods d @ duplicate_fods d"

lemma FetchAllFODs_listed:
  assumes "healthy env"
  shows "FetchAllFODs env d = Inr (sort_slice (\<lambda>a b. fod_id b < fod_id a) (listed_fods d))"
  using assms by (simp add: FetchAllFODs_def listed_fods_def)

lemma listed_places:
  assumes "keys_ok d"
  shows "mset (map fod_id (listed_fods d)) = mset (places d)"
proof -
  note keys = assms [unfolded keys_ok_def live_ids_def dup_ids_def fin_ids_def]
  have "map fod_id (status_fods d) = map fod_id (filter (\<lambda>f. fod_status f \<noteq> []) (fods d))"
    by (simp add: status_fods_def)
  moreover have "mset (map fod_id (live_fods d)) = mset (map live_id (lives d))"
    "mset (map fod_id (finished_fods d)) = mset (map fin_id (finished d))"
    "mset (map fod_id (duplicate_fods d)) = mset (map dup_id (dups d))"
    unfolding live_fods_def finished_fods_def duplicate_fods_def
    using keys by (blast intro: join_fods_ids)+
  ultimately show ?thesis by (simp add: listed_fods_def places_def)
qed

lemma map_filter_concat: "concat (map (\<lambda>x. if P x then [g x] else []) xs) = map g (filter P xs)"
  by (induction xs) auto

text \<open>With one row at most for a file, the joins are maps over the files.\<close>

definition one_row :: "db \<Rightarrow> ('r \<Rightarrow> int) \<Rightarrow> (file_on_demand \<Rightarrow> 'r \<Rightarrow> string) \<Rightarrow> 'r list \<Rightarrow> file_on_demand
   \<Rightarrow> file_on_demand list" where
  "one_row d key st rows f =
     (case find (\<lambda>r. key r = fod_id f) rows of None \<Rightarrow> [] | Some r \<Rightarrow> [with_status (st f r) f])"

lemma filter_key:
  "distinct (map key rows) \<Longrightarrow> filter (\<lambda>r. key r = i) rows =
     (case find (\<lambda>r. key r = i) rows of None \<Rightarrow> [] | Some r \<Rightarrow> [r])"
proof (induction rows)
  case (Cons r rows)
  show ?case
  proof (cases "key r = i")
    case True
    with Cons.prems have "filter (\<lambda>q. key q = i) rows = []"
      by (auto simp: filter_empty_conv) (metis image_eqI)
    with True show ?thesis by simp
  next
    case False
    with Cons show ?thesis by simp
  qed
qed simp

lemma join_one_row:
  "distinct (map key rows) \<Longrightarrow> join_fods d key st rows = concat (map (one_row d key st rows) (fods d))"
  unfolding join_fods_def one_row_def
  by (intro arg_cong [of _ _ concat] map_cong refl) (auto simp: filter_key split: option.splits)

lemma find_distinct_key:
  "distinct (map key xs) \<Longrightarrow> x \<in> set xs \<Longrightarrow> find (\<lambda>y. key y = key x) xs = Some x"
  by (induction xs) (auto simp: image_iff)

lemma find_key_None: "find (\<lambda>r. key r = i) rows = None \<longleftrightarrow> i \<notin> key ` set rows"
  by (auto simp: find_None_iff)

lemma four_lists:
  assumes "\<And>x. x \<in> set xs \<Longrightarrow> mset (a x) + mset (b x) + mset (c x) + mset (u x) = {#g x#}"
  shows "mset (concat (map a xs)) + mset (concat (map b xs)) + mset (concat (map c xs))
    + mset (concat (map u xs)) = mset (map g xs)"
  using assms
proof (induction xs)
  case (Cons x xs)
  have "mset (concat (map a (x # xs))) + mset (concat (map b (x # xs)))
      + mset (concat (map c (x # xs))) + mset (concat (map u (x # xs)))
      = (mset (a x) + mset (b x) + mset (c x) + mset (u x))
        + (mset (concat (map a xs)) + mset (concat (map b xs)) + mset (concat (map c xs))
           + mset (concat (map u xs)))"
    by (simp add: ac_simps)
  also have "\<dots> = {#g x#} + mset (map g xs)" using Cons by simp
  finally show ?case by simp
qed simp

lemma listed_once:
  assumes "keys_ok d" "accounted d" "one_place d"
  shows "mset (listed_fods d) = mset (map (\<lambda>f. with_status (stage_of d f) f) (fods d))"
proof -
  have dist: "distinct (map live_id (lives d))" "distinct (map fin_id (finished d))"
    "distinct (map dup_id (dups d))"
    using assms(3) by (simp_all add: one_place_def places_def)
  let ?s = "\<lambda>f. if fod_status f \<noteq> [] then [named_columns f] else []"
  let ?l = "one_row d live_id (\<lambda>f r. if fod_status f = [] then live_status_col r else fod_status f) (lives d)"
  let ?e = "one_row d fin_id (\<lambda>f r. Reported) (finished d)"
  let ?u = "one_row d dup_id (\<lambda>f r. ALREADY_PROCESSING) (dups d)"
  have one: "mset (?s f) + mset (?l f) + mset (?e f) + mset (?u f) = {#with_status (stage_of d f) f#}"
    if f: "f \<in> set (fods d)" for f
  proof -
    have there: "fod_status f \<noteq> [] \<or> fod_id f \<in> live_ids d \<or> fod_id f \<in> fin_ids d \<or> fod_id f \<in> dup_ids d"
      using assms(2) f by (auto simp: accounted_def tracked_def PREVIOUSLY_SCANNED_FILE_def)
    have apart: "fod_status f \<noteq> [] \<Longrightarrow> fod_id f \<notin> live_ids d \<union> fin_ids d \<union> dup_ids d"
      "live_ids d \<inter> fin_ids d = {}" "live_ids d \<inter> dup_ids d = {}" "fin_ids d \<inter> dup_ids d = {}"
      using assms(3) f by (auto simp: one_place_def places_def id_defs image_iff)
    have none: "i \<notin> live_ids d \<Longrightarrow> find (\<lambda>r. live_id r = i) (lives d) = None"
      "i \<notin> fin_ids d \<Longrightarrow> find (\<lambda>r. fin_id r = i) (finished d) = None"
      "i \<notin> dup_ids d \<Longrightarrow> find (\<lambda>r. dup_id r = i) (dups d) = None" for i
      by (simp_all add: find_key_None id_defs)
    have some: "i \<in> live_ids d \<Longrightarrow> \<exists>r. find (\<lambda>r. live_id r = i) (lives d) = Some r"
      "i \<in> fin_ids d \<Longrightarrow> \<exists>r. find (\<lambda>r. fin_id r = i) (finished d) = Some r"
      "i \<in> dup_ids d \<Longrightarrow> \<exists>r. find (\<lambda>r. dup_id r = i) (dups d) = Some r" for i
      using find_key_None [of live_id i "lives d"] find_key_None [of fin_id i "finished d"]
        find_key_None [of dup_id i "dups d"]
      by (auto simp: id_defs)
    from there consider "fod_status f \<noteq> []" | "fod_status f = []" "fod_id f \<in> live_ids d"
      | "fod_status f = []" "fod_id f \<in> fin_ids d" | "fod_status f = []" "fod_id f \<in> dup_ids d"
      by blast
    then show ?thesis
    proof cases
      case 1
      with apart none show ?thesis by (simp add: one_row_def stage_of_def with_own_status)
    next
      case 2
      then obtain r where "find (\<lambda>r. live_id r = fod_id f) (lives d) = Some r" using some by blast
      moreover have "fod_id f \<notin> fin_ids d" "fod_id f \<notin> dup_ids d" using 2 apart by blast+
      ultimately show ?thesis using 2 none by (simp add: one_row_def stage_of_def)
    next
      case 3
      then obtain r where "find (\<lambda>r. fin_id r = fod_id f) (finished d) = Some r" using some by blast
      moreover have "fod_id f \<notin> live_ids d" "fod_id f \<notin> dup_ids d" using 3 apart by blast+
      ultimately show ?thesis using 3 none by (simp add: one_row_def stage_of_def)
    next
      case 4
      then obtain r where "find (\<lambda>r. dup_id r = fod_id f) (dups d) = Some r" using some by blast
      moreover have "fod_id f \<notin> live_ids d" "fod_id f \<notin> fin_ids d" using 4 apart by blast+
      ultimately show ?thesis using 4 none by (simp add: one_row_def stage_of_def)
    qed
  qed
  have filter_s: "status_fods d = concat (map ?s (fods d))"
    by (simp only: status_fods_def map_filter_concat)
  have "mset (concat (map ?s (fods d))) + mset (concat (map ?l (fods d)))
      + mset (concat (map ?e (fods d))) + mset (concat (map ?u (fods d)))
      = mset (map (\<lambda>f. with_status (stage_of d f) f) (fods d))"
    by (rule four_lists) (rule one)
  then show ?thesis
    unfolding listed_fods_def live_fods_def finished_fods_def duplicate_fods_def
      join_one_row [OF dist(1)] join_one_row [OF dist(2)] join_one_row [OF dist(3)] filter_s
    by (simp add: add.assoc)
qed

end
