(* ===== verification/Dashboard_Props.thy ===== *)
theory Dashboard_Props
  imports Pipeline_Props Dashboard_Laws
begin

text \<open>
  Theorems on what the web interface shows: the scans per hour and the
  statistics are the counts they should be, the job list holds every upload, and every
  upload with a verdict has a report.
\<close>

subsection \<open>The dashboard\<close>

text \<open>C13: the hourly counter is exact: bucket k starts k + 1 hours ago and counts the scans that ended
  in that hour, the first one also those in the future, and no scan is left out.\<close>

theorem hourly_counts_are_exact:
  "\<exists>n. ScannedCount env go_hour d =
      Some (NewSuccessResponse ''Success''
        (Some (map (\<lambda>k. \<lparr>StartTime = show_time env (now env - (int k + 1) * go_hour),
                       ScanCount = bucket_count go_hour (now env - go_hour) (scan_times env d) k\<rparr>)
               [0..<n])))
    \<and> sum_list (map (bucket_count go_hour (now env - go_hour) (scan_times env d)) [0..<n])
        = int (length (scan_times env d))"
proof -
  have "0 < go_hour" by (simp add: go_hour_def go_minute_def)
  from scan_buckets_spec [OF this, of "now env" "scan_times env d"] obtain n where
    "scan_buckets go_hour (now env) (scan_times env d) =
       Some (map (\<lambda>k. (now env - (int k + 1) * go_hour,
                       bucket_count go_hour (now env - go_hour) (scan_times env d) k)) [0..<n])"
    "sum_list (map (bucket_count go_hour (now env - go_hour) (scan_times env d)) [0..<n])
       = int (length (scan_times env d))"
    by blast
  then show ?thesis by (intro exI [of _ n]) (simp add: ScannedCount_def o_def)
qed

text \<open>C12: the statistics, computed in one pass with a break and a running total, are the numbers of
  jobs of each kind, for each source and for all of them.\<close>

theorem statistics_count_every_job:
  "ScanStatistics env duration True d =
     NewSuccessResponse ''Success''
       (Some (\<lambda>m. job_statistics (filter (\<lambda>j. mode_of j = m) (all_jobs env d)),
              job_statistics (all_jobs env d)))"
  using tally_all [of "now env - duration" "all_jobs env d"] all_sources_counts [of "all_jobs env d"]
  by (simp add: ScanStatistics_def Let_def of_mode_def)

subsection \<open>The job list\<close>

text \<open>C2: in every reachable state the job list holds every uploaded file and nothing else, the
  latest first; when no file is in two tables each is listed once, with the stage it is in.\<close>

theorem every_upload_is_listed:
  assumes "reachable s" "healthy env"
  shows "\<exists>fs. FetchAllFODs env (sys_db s) = Inr fs
    \<and> fod_id ` set fs = fod_ids (sys_db s)
    \<and> sorted_wrt (\<lambda>a b. fod_id b \<le> fod_id a) fs
    \<and> (one_place (sys_db s) \<longrightarrow>
         mset fs = mset (map (\<lambda>f. with_status (stage_of (sys_db s) f) f) (fods (sys_db s))))"
proof (intro exI conjI impI)
  let ?d = "sys_db s"
  have ok: "keys_ok ?d" "accounted ?d"
    using pipe_ok_db_ok [OF reachable_ok [OF assms(1)]] by (simp_all add: db_ok_def)
  show "FetchAllFODs env ?d = Inr (sort_slice (\<lambda>a b. fod_id b < fod_id a) (listed_fods ?d))"
    using FetchAllFODs_listed [OF assms(2)] .
  have "fod_id ` set (listed_fods ?d) = set (places ?d)"
    using arg_cong [OF listed_places [OF ok(1)], of set_mset] by simp
  also have "\<dots> = fod_ids ?d"
    using ok by (auto simp: places_def keys_ok_def accounted_def tracked_def id_defs
        PREVIOUSLY_SCANNED_FILE_def)
  finally show "fod_id ` set (sort_slice (\<lambda>a b. fod_id b < fod_id a) (listed_fods ?d)) = fod_ids ?d"
    by simp
  show "sorted_wrt (\<lambda>a b. fod_id b \<le> fod_id a) (sort_slice (\<lambda>a b. fod_id b < fod_id a) (listed_fods ?d))"
    by (rule sorted_by_key)
  show "mset (sort_slice (\<lambda>a b. fod_id b < fod_id a) (listed_fods ?d)) =
      mset (map (\<lambda>f. with_status (stage_of ?d f) f) (fods ?d))" if "one_place ?d"
    using listed_once [OF ok that] by simp
qed

theorem every_upload_is_listed_witness:
  "\<exists>fs. FetchAllFODs sample_db_env (sys_db sample_state) = Inr fs
     \<and> mset fs = {#with_status PendingNotInQueue sample_fod#}"
proof -
  have healthy: "healthy sample_db_env" by (simp add: healthy_def sample_db_env_def)
  have "one_place (sys_db sample_state)"
    "map (\<lambda>f. with_status (stage_of (sys_db sample_state) f) f) (fods (sys_db sample_state)) =
      [with_status PendingNotInQueue sample_fod]"
    by (simp_all add: one_place_def places_def stage_of_def sample_state_def initial_state_def
        sample_db_def empty_db_def new_live_row_def sample_fod_def zero_fod_def)
  with every_upload_is_listed [OF sample_reachable healthy] show ?thesis by auto
qed

text \<open>
  A duplicate waiting for the file with its hash has neither a rating nor one of the statuses that
  are counted: it appears in no counter of the statistics.
\<close>

lemma duplicates_are_jobs:
  assumes "healthy env" "keys_ok d"
  shows "length (filter (\<lambda>j. \<not> counted_job j) (all_jobs env d)) \<ge>
    length (filter (\<lambda>f. \<not> counted_job (file_job f)) (duplicate_fods d))"
  by (simp add: all_jobs_def FetchAllFODs_listed [OF assms(1)] listed_fods_def or_empty_def
      filter_map o_def)

theorem waiting_duplicates_are_not_counted:
  assumes "healthy env" "keys_ok d" "\<forall>f \<in> set (fods d). fod_rating f = []"
  shows "StTotal (job_statistics (all_jobs env d)) + int (length (dups d)) \<le> int (length (all_jobs env d))"
proof -
  have "\<not> counted_job (file_job f)" if "f \<in> set (duplicate_fods d)" for f
    using that assms(3)
    by (auto simp: duplicate_fods_def join_fods_def with_status_def named_columns_def file_job_def
        job_kinds status_defs ALREADY_PROCESSING_def)
  then have "filter (\<lambda>f. \<not> counted_job (file_job f)) (duplicate_fods d) = duplicate_fods d"
    by (intro filter_True) blast
  moreover have "length (duplicate_fods d) = length (dups d)"
  proof -
    have "mset (map fod_id (duplicate_fods d)) = mset (map dup_id (dups d))"
      using assms(2) unfolding duplicate_fods_def keys_ok_def dup_ids_def by (blast intro: join_fods_ids)
    then show ?thesis by (metis length_map size_mset)
  qed
  ultimately have "length (dups d) \<le> length (filter (\<lambda>j. \<not> counted_job j) (all_jobs env d))"
    using duplicates_are_jobs [OF assms(1, 2)] by simp
  then show ?thesis
    using sum_length_filter_compl [of counted_job "all_jobs env d"]
    by (simp add: job_statistics_def count_jobs_def)
qed

subsection \<open>Reports\<close>

text \<open>In every reachable state each file that is finished or was known before has a report, and
  the report shows its rating and its final verdict, allow or block.\<close>

theorem every_verdict_has_a_report:
  assumes "reachable s" "healthy env" "f \<in> set (fods (sys_db s))"
    and "fod_id f \<in> fin_ids (sys_db s) \<or> fod_status f = PREVIOUSLY_SCANNED_FILE"
    and "atoi jobId = Some (fod_id f)"
  shows "\<exists>j. GetReport env show jobId ''file'' (sys_db s) =
      NewSuccessResponse ''Success'' (Some (FileReport j))
    \<and> js_rating (ji_summary j) = fod_rating f \<and> fod_rating f \<noteq> []
    \<and> fod_final_verdict f \<in> {ALLOW, BLOCK}
    \<and> js_final_verdict (ji_summary j) =
        shown_verdict (fod_overridden_verdict f) (fod_final_verdict f) (fod_overridden_by f)"
proof -
  have ok: "keys_ok (sys_db s)" "settled (sys_db s)"
    using pipe_ok_db_ok [OF reachable_ok [OF assms(1)]] by (simp_all add: db_ok_def)
  have verdict: "fod_final_verdict f \<in> {ALLOW, BLOCK}" "fod_rating f \<noteq> []"
    using ok(2) assms(3, 4) by (auto simp: settled_def has_verdict_def)
  have "find (\<lambda>g. fod_id g = fod_id f) (fods (sys_db s)) = Some f"
    using ok(1) assms(3) by (intro find_distinct_key) (simp_all add: keys_ok_def)
  then have "fod_or_zero (select_fod env (sys_db s) (fod_id f)) = f"
    using assms(2) by (simp add: select_fod_def lookup_fod_def fod_or_zero_def)
  with assms(5) verdict show ?thesis
    by (intro exI [of _ "file_report show jobId f"])
      (auto simp: GetReport_def get_file_report_def file_report_def make_summary_def Let_def)
qed

text \<open>The state after an upload whose hashes are on the preset list of malware.\<close>

definition preset_hashes :: file_hashes where
  "preset_hashes = \<lparr>fh_sha1 = ''bz'', fh_sha256 = ''cz'', fh_md5 = ''az''\<rparr>"

definition known_state :: pipeline where
  "known_state = snd (CreateFileOnDemand sample_submit (Inr [sample_profile]) sample_form ''ann'' []
     (initial_state (empty_db (\<lambda>s. s) [preset_hashes])))"

definition known_fod :: file_on_demand where
  "known_fod = hd (fods (sys_db known_state))"

lemma known_reachable: "reachable known_state"
  unfolding known_state_def by (rule reachable.Step [OF reachable.Init sys_step.Submit]) (rule prod.collapse [symmetric])

lemma known_fod_facts: "fods (sys_db known_state) = [known_fod]" "fod_id known_fod = 1"
  "fod_status known_fod = PREVIOUSLY_SCANNED_FILE" "fod_final_verdict known_fod = BLOCK"
  by code_simp+

theorem every_verdict_has_a_report_witness:
  "\<exists>j. GetReport sample_db_env (\<lambda>_. ''t'') ''1'' ''file'' (sys_db known_state) =
      NewSuccessResponse ''Success'' (Some (FileReport j)) \<and> fod_final_verdict known_fod \<in> {ALLOW, BLOCK}"
proof -
  have "healthy sample_db_env" by (simp add: healthy_def sample_db_env_def)
  moreover have "atoi ''1'' = Some (fod_id known_fod)" unfolding known_fod_facts by code_simp
  ultimately show ?thesis
    using every_verdict_has_a_report [OF known_reachable, of sample_db_env known_fod] known_fod_facts
    by fastforce
qed

end
