(* ===== verification/Key_Crypto.thy ===== *)
theory Key_Crypto
  imports Go_Text
begin

text \<open>
  \<open>Encrypt\<close> and \<open>Decrypt\<close> of \<open>util/utils.go\<close>: AES in CBC mode with PKCS7 padding and a random
  initial vector, written in base 64. Activation keys are decrypted with them.

  The block cipher (\<open>crypto/aes\<close>) is a parameter: what \<open>NewCipher\<close> makes of a key is two functions
  on blocks. That decrypting a block undoes encrypting it is the hypothesis \<open>block_cipher\<close>. What
  the source does itself, and the CBC mode, are definitions. A slice out of range and a text that is
  not made of full blocks panic.
\<close>

unbundle bit_operations_syntax

record aes_env =
  aes_encrypt :: "string \<Rightarrow> string \<Rightarrow> string"
  aes_decrypt :: "string \<Rightarrow> string \<Rightarrow> string"
  random_iv :: "go_error + string"

abbreviation block_size :: nat where "block_size \<equiv> 16"

definition key_hex :: string where
  "key_hex = ''33b04b7e103a0cd8b54763051cef082155abe02ffdebae5e1d417e2fdb1a11a3''"

text \<open>\<open>hex.DecodeString\<close> and the length check of \<open>aes.NewCipher\<close>.\<close>

definition cipher_key :: "string \<Rightarrow> go_error + string" where
  "cipher_key h =
     (case hex_decode h of
        None \<Rightarrow> Inl (Err ''encoding/hex: invalid byte'')
      | Some k \<Rightarrow> if length k \<in> {16, 24, 32} then Inr k else Inl (Err ''crypto/aes: invalid key size''))"

subsection \<open>Cipher block chaining\<close>

definition xor_char :: "char \<Rightarrow> char \<Rightarrow> char" where
  "xor_char a b = char_of ((of_char a :: nat) XOR of_char b)"

definition xor_bytes :: "string \<Rightarrow> string \<Rightarrow> string" where
  "xor_bytes s t = map2 xor_char s t"

fun cbc_encrypt :: "(string \<Rightarrow> string) \<Rightarrow> string \<Rightarrow> nat \<Rightarrow> string \<Rightarrow> string" where
  "cbc_encrypt enc prev 0 p = []"
| "cbc_encrypt enc prev (Suc n) p =
     (let c = enc (xor_bytes prev (take block_size p))
      in c @ cbc_encrypt enc c n (drop block_size p))"

fun cbc_decrypt :: "(string \<Rightarrow> string) \<Rightarrow> string \<Rightarrow> nat \<Rightarrow> string \<Rightarrow> string" where
  "cbc_decrypt dec prev 0 c = []"
| "cbc_decrypt dec prev (Suc n) c =
     xor_bytes prev (dec (take block_size c))
       @ cbc_decrypt dec (take block_size c) n (drop block_size c)"

text \<open>\<open>CryptBlocks\<close> works on full blocks only.\<close>

definition crypt_blocks :: "(nat \<Rightarrow> string \<Rightarrow> string) \<Rightarrow> string \<Rightarrow> go_error + string" where
  "crypt_blocks mode s =
     (if length s mod block_size = 0 then Inr (mode (length s div block_size) s)
      else Inl (Panic ''crypto/cipher: input not full blocks''))"

subsection \<open>Padding\<close>

definition pkcs7_pad :: "string \<Rightarrow> string" where
  "pkcs7_pad s =
     (let padding = block_size - length s mod block_size
      in s @ replicate padding (char_of padding))"

definition pkcs7_unpad :: "string \<Rightarrow> go_error + string" where
  "pkcs7_unpad s =
     (if s = [] then Inl (Err ''input is empty'')
      else
        let padding = (of_char (last s) :: nat) in
        if padding = 0 \<or> length s < padding then Inl (Err ''invalid padding'')
        else Inr (take (length s - padding) s))"

subsection \<open>The two operations\<close>

definition Encrypt :: "('e) aes_env_scheme \<Rightarrow> string \<Rightarrow> go_error + string" where
  "Encrypt env plaintext =
     (case cipher_key key_hex of
        Inl e \<Rightarrow> Inl e
      | Inr k \<Rightarrow>
          (case random_iv env of
             Inl e \<Rightarrow> Inl e
           | Inr iv \<Rightarrow>
               (case crypt_blocks (cbc_encrypt (aes_encrypt env k) iv) (pkcs7_pad plaintext) of
                  Inl e \<Rightarrow> Inl e
                | Inr ciphertext \<Rightarrow> Inr (base64_encode (iv @ ciphertext)))))"

definition Decrypt :: "('e) aes_env_scheme \<Rightarrow> string \<Rightarrow> go_error + string" where
  "Decrypt env ciphertextBase64 =
     (case base64_decode ciphertextBase64 of
        None \<Rightarrow> Inl (Err ''illegal base64 data'')
      | Some ciphertext \<Rightarrow>
          (case cipher_key key_hex of
             Inl e \<Rightarrow> Inl e
           | Inr k \<Rightarrow>
               if length ciphertext < block_size then Inl (Panic ''slice bounds out of range'')
               else
                 (case crypt_blocks (cbc_decrypt (aes_decrypt env k) (take block_size ciphertext))
                         (drop block_size ciphertext) of
                    Inl e \<Rightarrow> Inl e
                  | Inr decrypted \<Rightarrow> pkcs7_unpad decrypted)))"

subsection \<open>Decryption undoes encryption\<close>

text \<open>What AES is: under a key, a permutation of the blocks with its inverse.\<close>

definition block_cipher :: "('e) aes_env_scheme \<Rightarrow> bool" where
  "block_cipher env \<longleftrightarrow>
     (\<forall>k b. length b = block_size \<longrightarrow>
        length (aes_encrypt env k b) = block_size \<and> aes_decrypt env k (aes_encrypt env k b) = b)"

lemma cipher_key_ok: "\<exists>k. cipher_key key_hex = Inr k"
proof -
  have "\<not> isl (cipher_key key_hex)" by code_simp
  then show ?thesis by (cases "cipher_key key_hex") auto
qed

lemma xor_char_twice [simp]: "xor_char a (xor_char a b) = b"
proof -
  have byte: "of_char (c :: char) < (256 :: nat)" for c by (rule byte_bound)
  have "take_bit 8 ((of_char a :: nat) XOR of_char b) = of_char a XOR of_char b"
    using byte [of a] byte [of b] by (simp add: take_bit_xor take_bit_nat_eq_self)
  then have "((of_char a :: nat) XOR of_char b) mod 256 = of_char a XOR of_char b"
    by (simp add: take_bit_eq_mod)
  then have "xor_char a (xor_char a b) = char_of ((of_char a :: nat) XOR (of_char a XOR of_char b))"
    by (simp add: xor_char_def)
  also have "\<dots> = b" by (simp add: xor.assoc [symmetric])
  finally show ?thesis .
qed

lemma xor_bytes_length [simp]: "length (xor_bytes s t) = min (length s) (length t)"
  by (simp add: xor_bytes_def)

lemma xor_bytes_twice: "length s = length t \<Longrightarrow> xor_bytes s (xor_bytes s t) = t"
  unfolding xor_bytes_def by (induction s t rule: list_induct2) simp_all

lemma cbc_length:
  assumes "\<And>b. length b = block_size \<Longrightarrow> length (enc b) = block_size" "length prev = block_size"
    "length p = n * block_size"
  shows "length (cbc_encrypt enc prev n p) = n * block_size"
  using assms(2, 3)
proof (induction n arbitrary: prev p)
  case (Suc n)
  have "length (enc (xor_bytes prev (take block_size p))) = block_size"
    using Suc.prems by (intro assms(1)) simp
  with Suc show ?case by (simp add: Let_def)
qed simp

lemma cbc_roundtrip:
  assumes "\<And>b. length b = block_size \<Longrightarrow> length (enc b) = block_size \<and> dec (enc b) = b"
    and "length prev = block_size" "length p = n * block_size"
  shows "cbc_decrypt dec prev n (cbc_encrypt enc prev n p) = p"
  using assms(2, 3)
proof (induction n arbitrary: prev p)
  case (Suc n)
  let ?b = "xor_bytes prev (take block_size p)"
  have b: "length ?b = block_size" using Suc.prems by simp
  then have c: "length (enc ?b) = block_size" "dec (enc ?b) = ?b" using assms(1) by blast+
  have "cbc_decrypt dec (enc ?b) n (cbc_encrypt enc (enc ?b) n (drop block_size p)) = drop block_size p"
    using Suc.prems c by (intro Suc.IH) simp_all
  moreover have "xor_bytes prev ?b = take block_size p"
    using Suc.prems by (intro xor_bytes_twice) simp
  ultimately show ?case using c by (simp add: Let_def)
qed simp

lemma pad_length: "length (pkcs7_pad s) mod block_size = 0" "pkcs7_pad s \<noteq> []"
proof -
  define q r where "q = length s div block_size" and "r = length s mod block_size"
  have "length s = q * block_size + r" "r < block_size" by (simp_all add: q_def r_def)
  then have "length (pkcs7_pad s) = (q + 1) * block_size"
    by (simp add: pkcs7_pad_def Let_def flip: r_def)
  then show "length (pkcs7_pad s) mod block_size = 0" "pkcs7_pad s \<noteq> []" by auto
qed

lemma unpad_pad [simp]: "pkcs7_unpad (pkcs7_pad s) = Inr s"
proof -
  define n where "n = block_size - length s mod block_size"
  have "length s mod block_size < block_size" by simp
  then have n: "0 < n" "n < 256" by (simp_all add: n_def)
  have p: "pkcs7_pad s = s @ replicate n (char_of n)" by (simp add: pkcs7_pad_def Let_def n_def)
  have "last (pkcs7_pad s) = char_of n" using n by (simp add: p)
  moreover have "(of_char (char_of n :: char) :: nat) = n" using n by simp
  ultimately show ?thesis using n pad_length(2) [of s] by (simp add: pkcs7_unpad_def Let_def p)
qed

text \<open>C21: decrypting an encrypted text gives the text back, whatever the random vector is.\<close>

theorem decrypt_encrypt:
  assumes "block_cipher env" "random_iv env = Inr iv" "length iv = block_size"
  shows "\<exists>c. Encrypt env plaintext = Inr c \<and> Decrypt env c = Inr plaintext"
proof -
  obtain k where k: "cipher_key key_hex = Inr k" using cipher_key_ok by blast
  let ?p = "pkcs7_pad plaintext" and ?n = "length (pkcs7_pad plaintext) div block_size"
  let ?c = "cbc_encrypt (aes_encrypt env k) iv ?n ?p"
  have p: "length ?p = ?n * block_size" using pad_length(1) [of plaintext] by auto
  have block: "length b = block_size \<Longrightarrow> length (aes_encrypt env k b) = block_size
      \<and> aes_decrypt env k (aes_encrypt env k b) = b" for b
    using assms(1) by (simp add: block_cipher_def)
  have c: "length ?c = ?n * block_size" using block assms(3) p by (intro cbc_length) simp_all
  have "Encrypt env plaintext = Inr (base64_encode (iv @ ?c))"
    using assms(2) k pad_length(1) [of plaintext] by (simp add: Encrypt_def crypt_blocks_def)
  moreover have "cbc_decrypt (aes_decrypt env k) iv ?n ?c = ?p"
    using block assms(3) p by (intro cbc_roundtrip) simp_all
  then have "Decrypt env (base64_encode (iv @ ?c)) = Inr plaintext"
    using assms(3) k c by (simp add: Decrypt_def crypt_blocks_def)
  ultimately show ?thesis by blast
qed

text \<open>A function with the law of a block cipher: it reverses the block.\<close>

definition reversing_cipher :: aes_env where
  "reversing_cipher = \<lparr>aes_encrypt = \<lambda>k b. rev b, aes_decrypt = \<lambda>k b. rev b,
     random_iv = Inr (replicate 16 (CHR ''v''))\<rparr>"

theorem decrypt_encrypt_witness:
  "\<exists>c. Encrypt reversing_cipher ''AP-1;12 months;aa:bb;K;M'' = Inr c
     \<and> Decrypt reversing_cipher c = Inr ''AP-1;12 months;aa:bb;K;M''"
  by (rule decrypt_encrypt [where iv = "replicate 16 (CHR ''v'')"])
    (simp_all add: block_cipher_def reversing_cipher_def)

text \<open>A text of fewer than 16 bytes, the empty one included, is not refused: it panics.\<close>

theorem short_key_panics:
  assumes "base64_decode s = Some c" "length c < block_size"
  shows "Decrypt env s = Inl (Panic ''slice bounds out of range'')"
  using assms cipher_key_ok by (auto simp: Decrypt_def)

end
