(* ===== verification/Backup.thy ===== *)
theory Backup
  imports Config_Store
begin

text \<open>
  \<open>service/backup.go\<close> with \<open>MergeInterfaceAndConfigData\<close> of \<open>config/config.go\<close>: saving the
  configuration files under a second name, reading them back, and resetting the appliance to the
  factory defaults.

  The disk is a map from the files involved to their contents. YAML is a parameter: \<open>decode\<close> says what
  a document of a file means and \<open>encode\<close> what a value, or nil, is written as. File operations fail
  as the environment says; a file that is created is empty until it is written. The reboot that
  follows a reset runs in a goroutine and is not part of the operation.
\<close>

datatype disk_file =
    ConfigYaml | InterfaceYaml | TaskYaml
  | OldConfigYaml | OldInterfaceYaml | OldTaskYaml
  | FactoryYaml | EventLog

type_synonym 'y disk = "disk_file \<Rightarrow> 'y option"

record ('y, 'v) disk_env =
  disk_lock_free :: bool
  disk_create :: "disk_file \<Rightarrow> go_error option"
  disk_read :: "disk_file \<Rightarrow> go_error option"
  disk_write :: "disk_file \<Rightarrow> go_error option"
  disk_remove :: "disk_file \<Rightarrow> go_error option"
  blank :: 'y
  decode :: "disk_file \<Rightarrow> 'y \<Rightarrow> go_error + 'v"
  encode :: "'v option \<Rightarrow> go_error + 'y"

definition no_such_file :: go_error where "no_such_file = Err ''no such file or directory''"

subsection \<open>System calls\<close>

definition os_read :: "('y, 'v, 'e) disk_env_scheme \<Rightarrow> disk_file \<Rightarrow> 'y disk \<Rightarrow> go_error + 'y" where
  "os_read env f d =
     (case d f of
        None \<Rightarrow> Inl no_such_file
      | Some y \<Rightarrow> (case disk_read env f of Some e \<Rightarrow> Inl e | None \<Rightarrow> Inr y))"

definition os_create :: "('y, 'v, 'e) disk_env_scheme \<Rightarrow> disk_file \<Rightarrow> 'y disk \<Rightarrow> go_error option \<times> 'y disk" where
  "os_create env f d =
     (case disk_create env f of Some e \<Rightarrow> (Some e, d) | None \<Rightarrow> (None, d(f \<mapsto> blank env)))"

definition os_write ::
  "('y, 'v, 'e) disk_env_scheme \<Rightarrow> disk_file \<Rightarrow> 'y \<Rightarrow> 'y disk \<Rightarrow> go_error option \<times> 'y disk" where
  "os_write env f y d =
     (case disk_write env f of Some e \<Rightarrow> (Some e, d) | None \<Rightarrow> (None, d(f \<mapsto> y)))"

definition os_remove :: "('y, 'v, 'e) disk_env_scheme \<Rightarrow> disk_file \<Rightarrow> 'y disk \<Rightarrow> go_error option \<times> 'y disk" where
  "os_remove env f d =
     (if d f = None then (Some no_such_file, d)
      else case disk_remove env f of Some e \<Rightarrow> (Some e, d) | None \<Rightarrow> (None, d(f := None)))"

text \<open>\<open>yaml.NewEncoder(f).Encode(v)\<close> on a file that was just created.\<close>

definition write_yaml ::
  "('y, 'v, 'e) disk_env_scheme \<Rightarrow> disk_file \<Rightarrow> 'v option \<Rightarrow> 'y disk \<Rightarrow> go_error option \<times> 'y disk" where
  "write_yaml env f v d =
     (case encode env v of Inl e \<Rightarrow> (Some e, d) | Inr y \<Rightarrow> os_write env f y d)"

subsection \<open>Saving and reading back\<close>

definition ERASE :: string where "ERASE = ''erase''"
definition INITIAL_SETUP :: string where "INITIAL_SETUP = ''initial_setup''"

definition read_yaml :: "('y, 'v, 'e) disk_env_scheme \<Rightarrow> disk_file \<Rightarrow> 'y disk \<Rightarrow> 'v option" where
  "read_yaml env f d =
     (case os_read env f d of
        Inl e \<Rightarrow> None
      | Inr y \<Rightarrow> (case decode env f y of Inl e \<Rightarrow> None | Inr v \<Rightarrow> Some v))"

text \<open>
  The merged configuration, by file; every failure gives the nil map, on which a lookup gives nil.
\<close>

definition MergeInterfaceAndConfigData ::
  "('y, 'v, 'e) disk_env_scheme \<Rightarrow> string \<Rightarrow> 'y disk \<Rightarrow> disk_file \<rightharpoonup> 'v" where
  "MergeInterfaceAndConfigData env caller d =
     (if \<not> disk_lock_free env then Map.empty
      else
        case (read_yaml env ConfigYaml d, read_yaml env InterfaceYaml d) of
          (Some c, Some i) \<Rightarrow>
            (let merged = [ConfigYaml \<mapsto> c, InterfaceYaml \<mapsto> i] in
             if caller = ERASE then
               (case read_yaml env TaskYaml d of
                  None \<Rightarrow> Map.empty
                | Some t \<Rightarrow> merged(TaskYaml \<mapsto> t))
             else merged)
        | _ \<Rightarrow> Map.empty)"

definition server_side :: "go_error \<Rightarrow> 'd api_response" where
  "server_side e = NewErrorResponse StatusBadRequest ''Error from server side'' e"

definition copied :: "string api_response" where
  "copied = NewSuccessResponse ''Success'' None"

definition CopyOldConfigData ::
  "('y, 'v, 'e) disk_env_scheme \<Rightarrow> string \<Rightarrow> 'y disk \<Rightarrow> string api_response \<times> 'y disk" where
  "CopyOldConfigData env caller d =
     (case os_create env OldConfigYaml d of
        (Some e, d1) \<Rightarrow> (server_side e, d1)
      | (None, d1) \<Rightarrow>
          (case os_create env OldInterfaceYaml d1 of
             (Some e, d2) \<Rightarrow> (server_side e, d2)
           | (None, d2) \<Rightarrow>
               (let merged = MergeInterfaceAndConfigData env caller d2 in
                case write_yaml env OldConfigYaml (merged ConfigYaml) d2 of
                  (Some e, d3) \<Rightarrow> (server_side e, d3)
                | (None, d3) \<Rightarrow>
                    (case write_yaml env OldInterfaceYaml (merged InterfaceYaml) d3 of
                       (Some e, d4) \<Rightarrow> (server_side e, d4)
                     | (None, d4) \<Rightarrow>
                         if caller = ERASE then
                           (case os_create env OldTaskYaml d4 of
                              (Some e, d5) \<Rightarrow> (server_side e, d5)
                            | (None, d5) \<Rightarrow>
                                (case write_yaml env OldTaskYaml (merged TaskYaml) d5 of
                                   (Some e, d6) \<Rightarrow> (server_side e, d6)
                                 | (None, d6) \<Rightarrow> (copied, d6)))
                         else (copied, d4)))))"

definition RestoreOldConfigData ::
  "('y, 'v, 'e) disk_env_scheme \<Rightarrow> 'y disk \<Rightarrow> string api_response \<times> 'y disk" where
  "RestoreOldConfigData env d =
     (case (os_read env OldConfigYaml d, os_read env OldInterfaceYaml d, os_read env OldTaskYaml d) of
        (Inl e, _, _) \<Rightarrow> (server_side e, d)
      | (Inr _, Inl e, _) \<Rightarrow> (server_side e, d)
      | (Inr _, Inr _, Inl e) \<Rightarrow> (server_side e, d)
      | (Inr c, Inr i, Inr t) \<Rightarrow>
          (case os_write env ConfigYaml c d of
             (Some e, d1) \<Rightarrow> (server_side e, d1)
           | (None, d1) \<Rightarrow>
               (case os_write env InterfaceYaml i d1 of
                  (Some e, d2) \<Rightarrow> (server_side e, d2)
                | (None, d2) \<Rightarrow>
                    (case os_write env TaskYaml t d2 of
                       (Some e, d3) \<Rightarrow> (server_side e, d3)
                     | (None, d3) \<Rightarrow>
                         (NewSuccessResponse ''Success'' (Some ''Successfully restored data''), d3)))))"

subsection \<open>Factory defaults\<close>

definition erased :: "string api_response" where
  "erased = NewSuccessResponse ''Success''
     (Some ''Factory default settings has been successfully initiated. System will be rebooted in 3 seconds. Please wait for a while.'')"

text \<open>
  The steps after the copies were made; the flag says whether they succeeded. The deferred function
  reads the variable \<open>ok\<close>, which is true from the start and is never set to false.
\<close>

definition erase_steps ::
  "('y, 'v, 'e) disk_env_scheme \<Rightarrow> 'y \<Rightarrow> 'y disk \<Rightarrow> string api_response \<times> 'y disk" where
  "erase_steps env factory d =
     (case os_remove env ConfigYaml d of
        (Some e, d1) \<Rightarrow> (server_side e, d1)
      | (None, d1) \<Rightarrow>
          (case os_remove env TaskYaml d1 of
             (Some e, d2) \<Rightarrow> (server_side e, d2)
           | (None, d2) \<Rightarrow>
               (case os_write env EventLog (blank env) d2 of
                  (Some e, d3) \<Rightarrow> (server_side e, d3)
                | (None, d3) \<Rightarrow>
                    (case os_create env ConfigYaml d3 of
                       (Some e, d4) \<Rightarrow> (server_side e, d4)
                     | (None, d4) \<Rightarrow>
                         (case os_write env ConfigYaml factory d4 of
                            (Some e, d5) \<Rightarrow> (server_side e, d5)
                          | (None, d5) \<Rightarrow> (erased, d5))))))"

definition deferred_restore :: "('y, 'v, 'e) disk_env_scheme \<Rightarrow> bool \<Rightarrow> 'y disk \<Rightarrow> 'y disk" where
  "deferred_restore env ok d = (if ok then d else snd (RestoreOldConfigData env d))"

definition EraseConfig ::
  "('y, 'v, 'e) disk_env_scheme \<Rightarrow> 'y disk \<Rightarrow> string api_response \<times> 'y disk" where
  "EraseConfig env d =
     (case CopyOldConfigData env ERASE d of
        (resp, d1) \<Rightarrow>
          if resp_status resp \<noteq> StatusOK then (resp, d1)
          else
            (case os_read env FactoryYaml d1 of
               Inl e \<Rightarrow> (server_side e, d1)
             | Inr factory \<Rightarrow>
                 (let ok = True in
                  case erase_steps env factory d1 of
                    (resp', d2) \<Rightarrow> (resp', deferred_restore env ok d2))))"

subsection \<open>What a failed reset leaves\<close>

text \<open>A disk on which no operation on an existing file fails.\<close>

definition disk_works :: "('y, 'v, 'e) disk_env_scheme \<Rightarrow> bool" where
  "disk_works env \<longleftrightarrow> (\<forall>f. disk_create env f = None \<and> disk_read env f = None \<and>
     disk_write env f = None \<and> disk_remove env f = None) \<and> (\<forall>v. \<exists>y. encode env v = Inr y)"

lemma works_steps:
  assumes "disk_works env"
  shows "os_create env f d = (None, d(f \<mapsto> blank env))" "os_write env f y d = (None, d(f \<mapsto> y))"
    "os_read env f d = (case d f of None \<Rightarrow> Inl no_such_file | Some y \<Rightarrow> Inr y)"
    "os_remove env f d = (if d f = None then (Some no_such_file, d) else (None, d(f := None)))"
  using assms
  by (auto simp: disk_works_def os_create_def os_write_def os_read_def os_remove_def split: option.splits)

text \<open>C28: when the task configuration does not exist a reset to the factory defaults fails although
  no file operation does, and the configuration is gone: its file is removed, the copy holds the
  document of nil, and the deferred restore, whose flag is never cleared, does nothing.\<close>

theorem failed_reset_loses_configuration:
  assumes "disk_works env" "encode env None = Inr null_doc"
    and "d ConfigYaml = Some c" "d TaskYaml = None" "d FactoryYaml = Some y"
  shows "resp_status (fst (EraseConfig env d)) = StatusBadRequest
    \<and> snd (EraseConfig env d) ConfigYaml = None
    \<and> snd (EraseConfig env d) OldConfigYaml = Some null_doc"
proof -
  have none: "MergeInterfaceAndConfigData env ERASE
      (d(OldConfigYaml \<mapsto> blank env, OldInterfaceYaml \<mapsto> blank env)) = Map.empty"
    using assms(4)
    by (auto simp: MergeInterfaceAndConfigData_def read_yaml_def works_steps [OF assms(1)]
        split: option.splits sum.splits)
  have copy: "CopyOldConfigData env ERASE d =
      (copied, d(OldConfigYaml \<mapsto> null_doc, OldInterfaceYaml \<mapsto> null_doc, OldTaskYaml \<mapsto> null_doc))"
    using assms(2)
    by (auto simp: CopyOldConfigData_def works_steps [OF assms(1)] none write_yaml_def fun_eq_iff)
  show ?thesis
    using assms(3-5)
    by (simp add: EraseConfig_def copy copied_def works_steps [OF assms(1)] erase_steps_def
        deferred_restore_def server_side_def Let_def)
qed

definition text_disk_env :: "(string, string) disk_env" where
  "text_disk_env = \<lparr>disk_lock_free = True, disk_create = \<lambda>_. None, disk_read = \<lambda>_. None,
     disk_write = \<lambda>_. None, disk_remove = \<lambda>_. None, blank = [], decode = \<lambda>_ y. Inr y,
     encode = \<lambda>v. Inr (case v of None \<Rightarrow> ''null'' | Some y \<Rightarrow> y)\<rparr>"

theorem failed_reset_loses_configuration_witness:
  "resp_status (fst (EraseConfig text_disk_env [ConfigYaml \<mapsto> ''admins: []'', FactoryYaml \<mapsto> ''f''])) = StatusBadRequest
   \<and> snd (EraseConfig text_disk_env [ConfigYaml \<mapsto> ''admins: []'', FactoryYaml \<mapsto> ''f'']) ConfigYaml = None"
  using failed_reset_loses_configuration [of text_disk_env "''null''"
      "[ConfigYaml \<mapsto> ''admins: []'', FactoryYaml \<mapsto> ''f'']"]
  by (simp add: disk_works_def text_disk_env_def)

end
