(* ===== verification/Licensing.thy ===== *)
theory Licensing
  imports Dashboard Key_Crypto Backup
begin

text \<open>
  License keys and the sign-up: \<open>service/licenseKey.go\<close>, \<open>service/signup.go\<close> and their controllers,
  \<open>readDeviceConfig\<close> of \<open>main.go\<close> and \<open>IsInPermanentInterfaces\<close> of \<open>util/utils.go\<close>.

  The calendar (\<open>AddDate\<close>), the network interfaces of the host and the block cipher are parameters,
  beside those of the configuration store.
\<close>

record host_interface =
  hi_loopback :: bool
  hi_up :: bool
  hi_mac :: string

record 'y license_env = "'y auth_env" +
  device_file :: "go_error + string"
  cipher :: aes_env
  key_one_year :: string
  key_three_year :: string
  key_five_year :: string
  add_date :: "int \<Rightarrow> int \<Rightarrow> int \<Rightarrow> int \<Rightarrow> int"
  host_interfaces :: "go_error + host_interface list"

subsection \<open>The keys of the appliance\<close>

text \<open>
  \<open>readDeviceConfig\<close>: a line counts when it has exactly one equals sign; the value keeps the blank
  after it.
\<close>

record license_keys =
  lk_one :: string
  lk_three :: string
  lk_five :: string

definition readDeviceConfig :: "license_keys \<Rightarrow> go_error + string \<Rightarrow> license_keys" where
  "readDeviceConfig old content =
     (let ls = (case content of Inl _ \<Rightarrow> [] | Inr s \<Rightarrow> scan_lines s)
      in \<lparr>lk_one = last_value ''license_1year'' ls (lk_one old),
          lk_three = last_value ''license_3year'' ls (lk_three old),
          lk_five = last_value ''license_5year'' ls (lk_five old)\<rparr>)"

record device_config_file =
  DeviceName :: string
  DeviceID :: string
  ApplianceKey1yr :: string
  ApplianceKey3yr :: string
  ApplianceKey5yr :: string
  DeviceMAC :: string
  ModelName :: string
  OrganizationName :: string

definition config_line :: "string \<Rightarrow> string \<Rightarrow> string" where
  "config_line name v = name @ '' = '' @ v @ [line_end]"

text \<open>The text \<open>writeDeviceConfigToFile\<close> writes.\<close>

definition device_config_text :: "device_config_file \<Rightarrow> string" where
  "device_config_text c =
     config_line ''device_name'' (DeviceName c) @ config_line ''serial_no'' (DeviceID c)
     @ config_line ''model_name'' (ModelName c) @ config_line ''mac_address'' (DeviceMAC c)
     @ config_line ''license_1year'' (ApplianceKey1yr c)
     @ config_line ''license_3year'' (ApplianceKey3yr c)
     @ config_line ''license_5year'' (ApplianceKey5yr c)
     @ config_line ''org_name'' (OrganizationName c)"

definition trim_device_config :: "device_config_file \<Rightarrow> device_config_file" where
  "trim_device_config c =
     \<lparr>DeviceName = trim_space (DeviceName c), DeviceID = trim_space (DeviceID c),
      ApplianceKey1yr = trim_space (ApplianceKey1yr c), ApplianceKey3yr = trim_space (ApplianceKey3yr c),
      ApplianceKey5yr = trim_space (ApplianceKey5yr c), DeviceMAC = trim_space (DeviceMAC c),
      ModelName = trim_space (ModelName c), OrganizationName = trim_space (OrganizationName c)\<rparr>"

definition validateApplyDeviceConfigRequest :: "device_config_file \<Rightarrow> go_error option" where
  "validateApplyDeviceConfigRequest c =
     (if DeviceName c = [] \<or> DeviceID c = [] \<or> ModelName c = [] \<or> DeviceMAC c = []
         \<or> ApplianceKey1yr c = [] \<or> ApplianceKey3yr c = [] \<or> ApplianceKey5yr c = []
         \<or> OrganizationName c = []
      then Some (Err ''all fields are required'') else None)"

definition resetSystemToFactoryDefaults ::
  "('y, 'v, 'e) disk_env_scheme \<Rightarrow> 'y disk \<Rightarrow> go_error option \<times> 'y disk" where
  "resetSystemToFactoryDefaults denv d =
     (case EraseConfig denv d of
        (resp, d1) \<Rightarrow>
          (if resp_status resp \<noteq> StatusOK then Some (Err (''err : '' @ resp_error resp)) else None, d1))"

text \<open>The request writes the device file, whatever the reset does afterwards.\<close>

definition ApplyDeviceConfigFile ::
  "('y, 'v, 'e) disk_env_scheme \<Rightarrow> go_error option \<Rightarrow> device_config_file \<Rightarrow> string option \<Rightarrow> 'y disk
   \<Rightarrow> string api_response \<times> string option \<times> 'y disk" where
  "ApplyDeviceConfigFile denv write_err request file_text d =
     (let req = trim_device_config request in
      case validateApplyDeviceConfigRequest req of
        Some e \<Rightarrow> (NewErrorResponse StatusBadRequest ''Error from client side'' e, file_text, d)
      | None \<Rightarrow>
          (case write_err of
             Some e \<Rightarrow> (server_side e, file_text, d)
           | None \<Rightarrow>
               (case resetSystemToFactoryDefaults denv d of
                  (Some e, d1) \<Rightarrow> (server_side e, Some (device_config_text req), d1)
                | (None, d1) \<Rightarrow>
                    (NewSuccessResponse ''Success'' (Some ''Device config applied successfully.''),
                     Some (device_config_text req), d1))))"

subsection \<open>License keys\<close>

text \<open>
  \<open>IsInPermanentInterfaces\<close> skips the interfaces that are up, not the virtual ones. From the second
  round on the address it compares is already in lower case without colons.
\<close>

definition plain_mac :: "string \<Rightarrow> string" where
  "plain_mac m = to_lower (remove_all '':'' m)"

definition IsInPermanentInterfaces :: "go_error + host_interface list \<Rightarrow> string \<Rightarrow> bool" where
  "IsInPermanentInterfaces found macAddr =
     (case found of
        Inl _ \<Rightarrow> False
      | Inr ifs \<Rightarrow>
          (\<exists>i \<in> set ifs. \<not> hi_loopback i \<and> \<not> hi_up i \<and> plain_mac (hi_mac i) = plain_mac macAddr))"

definition ErrInvalidLicenseKey :: go_error where "ErrInvalidLicenseKey = Err ''invalid license key''"

definition invalid_key :: "'d api_response" where
  "invalid_key = NewErrorResponse StatusBadRequest ''Invalid license key'' ErrInvalidLicenseKey"

text \<open>The time of an activation key: months or days are added to the zero time.\<close>

definition key_expiry :: "('y, 'e) license_env_scheme \<Rightarrow> string \<Rightarrow> int option" where
  "key_expiry env date =
     (if contains date ''months'' then
        map_option (\<lambda>n. add_date env zero_time 0 n 0) (atoi (remove_all '' months'' date))
      else if contains date ''days'' then
        map_option (\<lambda>n. add_date env zero_time 0 0 n) (atoi (remove_all '' days'' date))
      else Some zero_time)"

definition activation_key ::
  "('y, 'e) license_env_scheme \<Rightarrow> string \<Rightarrow> ('y, 's) store_scheme
   \<Rightarrow> keys_table outcome \<times> ('y, 's) store_scheme" where
  "activation_key env applianceKey st =
     (case Decrypt (cipher env) (trim_prefix applianceKey ''hcwj'') of
        Inl (Panic p) \<Rightarrow> (Inl (Panic p), st)
      | Inl (Err e) \<Rightarrow> (Inr (bad ''error in decypting key'' (Err e)), st)
      | Inr decryptedKey \<Rightarrow>
          (case split_on (CHR '';'') decryptedKey of
             [serialNo, date, mac, license, modelName] \<Rightarrow>
               (case FetchLicenseKeyProfile env st of
                  (Inl e, st1) \<Rightarrow> (Inr (bad ''Error while fetching data'' e), st1)
                | (Inr lKey, st1) \<Rightarrow>
                    if \<not> IsInPermanentInterfaces (host_interfaces env) (to_lower mac) then
                      (Inr invalid_key, st1)
                    else
                      (case key_expiry env date of
                         None \<Rightarrow> (Inr invalid_key, st1)
                       | Some t \<Rightarrow>
                           (Inr (NewSuccessResponse ''Success''
                              (Some \<lparr>kt_shipping = kt_shipping lKey, kt_serial = serialNo,
                                     kt_appliance = license, kt_expiry = t, kt_model = modelName,
                                     kt_email = kt_email lKey\<rparr>)), st1)))
           | _ \<Rightarrow> (Inr invalid_key, st)))"

definition year_key ::
  "('y, 'e) license_env_scheme \<Rightarrow> string \<times> string \<Rightarrow> string \<Rightarrow> string \<Rightarrow> int \<Rightarrow> keys_table" where
  "year_key env device email key years =
     \<lparr>kt_shipping = clock env, kt_serial = fst device, kt_appliance = key,
      kt_expiry = add_date env (clock env) years 0 0, kt_model = snd device, kt_email = email\<rparr>"

definition CreateLicenseKey ::
  "('y, 'e) license_env_scheme \<Rightarrow> string \<Rightarrow> string \<Rightarrow> ('y, 's) store_scheme
   \<Rightarrow> keys_table outcome \<times> ('y, 's) store_scheme" where
  "CreateLicenseKey env key email st =
     (let applianceKey = trim_space key in
      case device_file env of
        Inl e \<Rightarrow> (Inr (bad ''Error while fetching data'' e), st)
      | Inr content \<Rightarrow>
          (let device = serial_and_model content;
               success = (\<lambda>k n. (Inr (NewSuccessResponse ''Success'' (Some (year_key env device email k n))), st))
           in
           if has_prefix applianceKey ''hcwj'' then activation_key env applianceKey st
           else if applianceKey = trim_space (key_one_year env) then success (key_one_year env) 1
           else if applianceKey = trim_space (key_three_year env) then success (key_three_year env) 3
           else if applianceKey = trim_space (key_five_year env) then success (key_five_year env) 5
           else (Inr invalid_key, st)))"

text \<open>The controllers: neither the creation nor the extension of a license stores anything.\<close>

definition CreateLicenseKey_handler where
  "CreateLicenseKey_handler env body st =
     (case body of
        Inl e \<Rightarrow> (Inr (NewErrorResponse StatusBadRequest ''Error from client side'' e), st)
      | Inr (k :: keys_table) \<Rightarrow> CreateLicenseKey env (kt_appliance k) [] st)"

definition ExtendLicense where
  "ExtendLicense env body st =
     (case body of
        Inl e \<Rightarrow> (Inr (NewErrorResponse StatusBadRequest ''Error from client side'' e), st)
      | Inr k \<Rightarrow> CreateLicenseKey env k [] st)"

text \<open>A missing license is answered with status 200.\<close>

definition CheckLicenseKeyAvailability ::
  "('y, 'e) conf_env_scheme \<Rightarrow> ('y, 's) store_scheme \<Rightarrow> string api_response \<times> ('y, 's) store_scheme" where
  "CheckLicenseKeyAvailability env st =
     (case FetchLicenseKeyProfile env st of
        (Inl e, st1) \<Rightarrow>
          (if e = ErrNoRecordForLicenseKey then NewErrorResponse StatusOK ''Record not found'' e
           else NewErrorResponse StatusBadRequest ''Error while fetching data'' e, st1)
      | (Inr _, st1) \<Rightarrow> (NewSuccessResponse ''Success'' (Some ''License key is present''), st1))"

subsection \<open>Sign-up\<close>

definition ErrLicenseKeyInUse :: go_error where "ErrLicenseKeyInUse = Err ''license key in use''"

definition zero_scan_profile :: scan_profile where
  "zero_scan_profile = \<lparr>PdfFile = False, OfficeFile = False, ExeFile = False, FlashFile = False,
     WebFile = False, CompressedArchieve = False, AudioFile = False, VideoFile = False,
     TextFile = False, ScriptFile = False, UserAuthenticationKey = []\<rparr>"

definition signup_role :: role where
  "signup_role = \<lparr>role_key = [], role_created = zero_time, role_name = ''SuperAdminRole'',
     role_description = [], role_custom = 0\<rparr>"

definition signup_profiles ::
  "('y, 'e) license_env_scheme \<Rightarrow> signup_request \<Rightarrow> string \<Rightarrow> keys_table \<Rightarrow> string \<Rightarrow> profile list
   \<Rightarrow> profile list" where
  "signup_profiles env r h licenseKey roleKey role_profiles =
     role_profiles
     @ [ScanProfileOf (zero_scan_profile\<lparr>UserAuthenticationKey := new_uuid env 0\<rparr>),
        UserProfile \<lparr>ua_key = new_uuid env 0, ua_created = zero_time, ua_username = sr_username r,
          ua_password = h, ua_type = TYPE_ADMIN, ua_invalid = 0, ua_holding = zero_time,
          ua_active = True, ua_super = True\<rparr>,
        KeysProfile licenseKey,
        AdminProfile \<lparr>adm_key = new_uuid env 1, adm_created = zero_time, adm_name = sr_name r,
          adm_email = sr_email r, adm_country = sr_country r, adm_phone = sr_phone r,
          adm_organization = [], adm_user = new_uuid env 0, adm_signed_up = True,
          adm_role = roleKey\<rparr>]"

text \<open>
  The request is validated before it is made a super administrator's: the format of the license key
  is checked only when the client asks for it. The keys of the role's profiles are the identifiers
  after the first two.
\<close>

definition Signup ::
  "('y, 'e) license_env_scheme \<Rightarrow> signup_request \<Rightarrow> ('y, 's) store_scheme
   \<Rightarrow> string outcome \<times> ('y, 's) store_scheme" where
  "Signup env r st =
     (let valid = ValidateSignupRequest env r in
      if resp_status valid \<noteq> StatusOK then (Inr valid, st)
      else
        (case FetchLicenseKeyProfile env st of
           (Inr _, st1) \<Rightarrow> (Inr (bad ''License key already exists'' ErrLicenseKeyInUse), st1)
         | (Inl _, st1) \<Rightarrow>
             (case name_taken env r st1 of
                (Some out, st2) \<Rightarrow> (out, st2)
              | (None, st2) \<Rightarrow>
                  (case HashPassword env (sr_password r) of
                     Inl e \<Rightarrow> (Inr (bad ''Error while hashing'' e), st2)
                   | Inr h \<Rightarrow>
                       (case CreateLicenseKey env (sr_license r) (sr_email r) st2 of
                          (Inl p, st3) \<Rightarrow> (Inl p, st3)
                        | (Inr lresp, st3) \<Rightarrow>
                            (case resp_data lresp of
                               None \<Rightarrow>
                                 (Inr (NewErrorResponse (resp_status lresp) (resp_message lresp)
                                    (Err (resp_error lresp))), st3)
                             | Some licenseKey \<Rightarrow>
                                 (case CreateRolePermission
                                        (env\<lparr>new_uuid := \<lambda>n. new_uuid env (n + 2)\<rparr>) signup_role True st3 of
                                    (Inl p, st4) \<Rightarrow> (Inl p, st4)
                                  | (Inr rresp, st4) \<Rightarrow>
                                      (case resp_data rresp of
                                         None \<Rightarrow>
                                           (Inr (NewErrorResponse (resp_status rresp)
                                              (resp_message rresp) (Err (resp_error rresp))), st4)
                                       | Some (roleKey, role_profiles) \<Rightarrow>
                                           (case SaveProfile env
                                                  (signup_profiles env r h licenseKey roleKey role_profiles)
                                                  st4 of
                                              (Some e, st5) \<Rightarrow> (Inr (bad ''Error while saving data'' e), st5)
                                            | (None, st5) \<Rightarrow>
                                                (Inr (NewSuccessResponse ''Success''
                                                   (Some ''Successfully signed up'')), st5))))))))))"

definition Signup_handler where
  "Signup_handler env body session st =
     (case body of
        Inl e \<Rightarrow> (Inr (NewErrorResponse StatusBadRequest ''Error from client side'' e), st)
      | Inr r \<Rightarrow>
          (case session of
             Some e \<Rightarrow> (Inr (bad ''Session invalid'' e), st)
           | None \<Rightarrow> Signup env r st))"

end
