(* ===== verification/Licensing_Props.thy ===== *)
theory Licensing_Props
  imports Licensing Account_Props
begin

text \<open>
  Theorems on licenses and the sign-up: at most one sign-up ever succeeds, the license key that the
  device configuration file was written with is read back and accepted unless it contains an equals
  sign, and an extension of the license stores nothing.
\<close>

subsection \<open>Sign-up\<close>

text \<open>The license file is written and read back.\<close>

definition license_works :: "('y, 'e) conf_env_scheme \<Rightarrow> bool" where
  "license_works env \<longleftrightarrow> (\<forall>k. \<exists>y. enc_license env k = Inr y \<and> dec_license env y = Inr k)"

definition licensed :: "('y, 'e) conf_env_scheme \<Rightarrow> ('y, 's) store_scheme \<Rightarrow> bool" where
  "licensed env st \<longleftrightarrow>
     (\<exists>y k. license_doc st = Some y \<and> dec_license env y = Inr k \<and> kt_appliance k \<noteq> [])"

lemma licensed_fetch:
  assumes "works env" "licensed env st"
  shows "\<exists>k. FetchLicenseKeyProfile env st = (Inr k, st)"
  using assms by (auto simp: licensed_def FetchLicenseKeyProfile_def read_works)

lemma update_license:
  assumes "works env" "license_works env" "kt_appliance k \<noteq> []"
    and "UpdateLicenseKeyData env k st = (None, st')"
  shows "licensed env st'"
proof -
  obtain y where y: "enc_license env k = Inr y" "dec_license env y = Inr k"
    using assms(2) unfolding license_works_def by blast
  have "write_error_of env LicenseFile = None" using assms(1) by (simp add: works_def)
  then show ?thesis
    using assms(3, 4) y
    by (auto simp: UpdateLicenseKeyData_def read_works [OF assms(1)] write_file_def licensed_def
        split: sum.splits)
qed

lemma store_config_license: "store_config env c st = (e, st') \<Longrightarrow> license_doc st' = license_doc st"
  by (auto simp: store_config_def split: sum.splits prod.splits)

lemma save_license:
  assumes "works env" "license_works env" "SaveProfile env ps st = (None, st')"
    and "kt_appliance (snd (fold add_profile ps (zero_config, zero_keys))) \<noteq> []"
  shows "licensed env st'"
proof -
  obtain nc k where nk: "fold add_profile ps (zero_config, zero_keys) = (nc, k)" by fastforce
  with assms(3) obtain c st1 where u: "UpdateLicenseKeyData env k (opened env st) = (None, st1)"
    and s: "store_config env c st1 = (None, st')"
    by (auto simp: SaveProfile_def UpdateConfig_def read_works [OF assms(1)] opened_def
        split: if_splits sum.splits option.splits prod.splits)
  have "licensed env st1"
    using update_license [OF assms(1, 2) _ u] assms(4) nk by simp
  with store_config_license [OF s] show ?thesis by (simp add: licensed_def)
qed

lemma add_role_profiles:
  "snd (fold add_profile (role_actions_for uuid rkey n fs) (c, k)) = k"
proof (induction fs arbitrary: n c)
  case (Cons f fs)
  then show ?case by simp
qed simp

lemma signup_keys:
  "snd (fold add_profile (signup_profiles env r h lic rk (RoleProfile role # role_actions_for uuid rkey n fs)) ck) = lic"
proof -
  obtain c k where "fold add_profile (RoleProfile role # role_actions_for uuid rkey n fs) ck = (c, k)"
    by fastforce
  then show ?thesis by (simp add: signup_profiles_def del: fold.simps(2)) simp
qed

text \<open>The keys a sign-up accepts: an activation key needs a license, so it is one of the three.\<close>

lemma unlicensed_key:
  assumes "CreateLicenseKey env key email st = (Inr lresp, st')" "resp_data lresp = Some k"
    and "\<not> (\<exists>k'. fst (FetchLicenseKeyProfile env st) = Inr k')"
    and "[] \<notin> {key_one_year env, key_three_year env, key_five_year env}"
  shows "kt_appliance k \<noteq> []"
  using assms
  by (auto simp: CreateLicenseKey_def activation_key_def year_key_def Let_def bad_def invalid_key_def
      split: sum.splits go_error.splits list.splits if_splits prod.splits)

text \<open>The queries of the sign-up leave the license file alone.\<close>

lemma config_license: "license_doc (snd (FetchConfigData env st)) = license_doc st"
  by (auto simp: FetchConfigData_def split: sum.splits prod.splits)

lemma fetch_table_license:
  "license_doc (snd (fetch_table tb fo fin none env q st)) = license_doc st"
  using config_license [of env st]
  by (auto simp: fetch_table_def split: sum.splits prod.splits list.splits)

lemma fetches_license [simp]:
  "license_doc (snd (FetchAdminProfile env q st)) = license_doc st"
  "license_doc (snd (FetchUserAuthProfile env q st)) = license_doc st"
  "license_doc (snd (FetchRoleProfile env q st)) = license_doc st"
  "license_doc (snd (FetchFeatureProfile env q st)) = license_doc st"
  by (simp_all add: FetchAdminProfile_def FetchUserAuthProfile_def FetchRoleProfile_def
      FetchFeatureProfile_def fetch_table_license)

lemma name_taken_license [simp]: "license_doc (snd (name_taken env r st)) = license_doc st"
  by (simp add: name_taken_def case_prod_beta split: option.splits)

text \<open>Whether a license is found depends on its file only.\<close>

lemma same_license:
  assumes "works env" "license_doc st' = license_doc (snd (FetchLicenseKeyProfile env st))"
  shows "fst (FetchLicenseKeyProfile env st') = fst (FetchLicenseKeyProfile env st)"
  using assms
  by (auto simp: FetchLicenseKeyProfile_def read_works split: sum.splits option.splits)

lemma refused_status:
  "taken msg none res = Some (Inr resp) \<Longrightarrow> resp_status resp \<noteq> StatusOK"
  by (auto simp: taken_def bad_def fetch_failed_def split: sum.splits go_error.splits if_splits)

lemma name_taken_status: "name_taken env r st = (Some (Inr resp), st') \<Longrightarrow> resp_status resp \<noteq> StatusOK"
  by (auto simp: name_taken_def case_prod_beta split: option.splits dest: refused_status)

lemma signup_role_profiles:
  assumes "CreateRolePermission env role True st = (Inr rresp, st')" "resp_data rresp = Some (rk, ps)"
  shows "\<exists>role' uuid rkey n fs. ps = RoleProfile role' # role_actions_for uuid rkey n fs"
  using assms
  by (auto simp: CreateRolePermission_def fetch_failed_def bad_def Let_def
      split: if_splits sum.splits prod.splits go_error.splits) blast

lemma no_key_status:
  "CreateLicenseKey env key email st = (Inr lresp, st') \<Longrightarrow> resp_data lresp = None \<Longrightarrow>
     resp_status lresp \<noteq> StatusOK"
  by (auto simp: CreateLicenseKey_def activation_key_def Let_def bad_def invalid_key_def
      split: sum.splits go_error.splits list.splits option.splits if_splits prod.splits)

lemma no_role_status:
  "CreateRolePermission env role True st = (Inr rresp, st') \<Longrightarrow> resp_data rresp = None \<Longrightarrow>
     resp_status rresp \<noteq> StatusOK"
  by (auto simp: CreateRolePermission_def fetch_failed_def bad_def Let_def
      split: if_splits sum.splits prod.splits go_error.splits)

text \<open>A sign-up that succeeds leaves a license behind.\<close>

lemma signup_licensed:
  assumes works: "works env" "license_works env"
    and keys: "[] \<notin> {key_one_year env, key_three_year env, key_five_year env}"
    and ok: "Signup env r st = (Inr resp, st')" "resp_status resp = StatusOK"
  shows "licensed env st'"
proof -
  have valid: "resp_status (ValidateSignupRequest env r :: string api_response) = StatusOK"
    using ok by (auto simp: Signup_def Let_def split: if_splits)
  obtain e st1 where l: "FetchLicenseKeyProfile env st = (Inl e, st1)"
    using ok valid
    by (cases "FetchLicenseKeyProfile env st"; cases "fst (FetchLicenseKeyProfile env st)")
      (auto simp: Signup_def Let_def bad_def)
  define nt where "nt = (name_taken env r st1 :: string outcome option \<times> _)"
  obtain st2 where n: "name_taken env r st1 = (None :: string outcome option, st2)"
  proof (cases nt)
    case (Pair out st2)
    then show ?thesis
      using ok valid l that name_taken_status [of env r st1 resp st2]
      by (cases out) (auto simp: Signup_def Let_def nt_def)
  qed
  obtain h where h: "HashPassword env (sr_password r) = Inr h"
    using ok valid l n by (cases "HashPassword env (sr_password r)") (auto simp: Signup_def Let_def bad_def)
  obtain lo st3 where lk: "CreateLicenseKey env (sr_license r) (sr_email r) st2 = (lo, st3)" by fastforce
  obtain lresp where lr: "lo = Inr lresp"
    using ok valid l n h lk by (cases lo) (auto simp: Signup_def Let_def)
  obtain k where k: "resp_data lresp = Some k"
    using ok valid l n h lk no_key_status [of env "sr_license r" "sr_email r" st2 lresp st3]
    by (cases "resp_data lresp") (auto simp: Signup_def Let_def lr)
  let ?env = "env\<lparr>new_uuid := \<lambda>n. new_uuid env (n + 2)\<rparr>"
  obtain ro st4 where rp: "CreateRolePermission ?env signup_role True st3 = (ro, st4)" by fastforce
  obtain rresp where rr: "ro = Inr rresp"
    using ok valid l n h lk k rp by (cases ro) (auto simp: Signup_def Let_def lr)
  obtain rk ps where rd: "resp_data rresp = Some (rk, ps)"
    using ok valid l n h lk k rp no_role_status [of ?env signup_role st3 rresp st4]
    by (cases "resp_data rresp") (auto simp: Signup_def Let_def lr rr)
  have save: "SaveProfile env (signup_profiles env r h k rk ps) st4 = (None, st')"
    using ok valid l n h lk k rp rd
    by (auto simp: Signup_def Let_def lr rr bad_def split: prod.splits option.splits)
  have "license_doc st2 = license_doc st1"
    using arg_cong [OF n, of "\<lambda>x. license_doc (snd x)"] by simp
  then have "fst (FetchLicenseKeyProfile env st2) = Inl e"
    using same_license [OF works(1), of st2 st] l by simp
  then have appliance: "kt_appliance k \<noteq> []"
    using unlicensed_key [OF lk [unfolded lr] k _ keys] by auto
  obtain role' uuid rkey m fs where "ps = RoleProfile role' # role_actions_for uuid rkey m fs"
    using signup_role_profiles [OF rp [unfolded rr] rd] by blast
  then show ?thesis
    using save_license [OF works save] appliance by (simp only: signup_keys) simp
qed

text \<open>C19: at most one sign-up succeeds. Once one has, every further request, whatever it asks for and
  whatever became of the other files, is refused and changes nothing, as long as the license file
  stands.
\<close>

theorem signup_succeeds_once:
  assumes "works env" "license_works env"
    and "[] \<notin> {key_one_year env, key_three_year env, key_five_year env}"
    and "Signup env r st = (Inr resp, st1)" "resp_status resp = StatusOK"
    and "works env'" "dec_license env' = dec_license env" "license_doc st2 = license_doc st1"
  shows "\<exists>resp'. Signup env' r' st2 = (Inr resp', st2) \<and> resp_status resp' \<noteq> StatusOK"
proof -
  have "licensed env' st2"
    using signup_licensed [OF assms(1-5)] assms(7, 8) by (simp add: licensed_def)
  then obtain k where "FetchLicenseKeyProfile env' st2 = (Inr k, st2)"
    using licensed_fetch [OF assms(6)] by blast
  then show ?thesis by (simp add: Signup_def Let_def bad_def)
qed

definition sample_signup_env :: "doc license_env" where
  "sample_signup_env =
     auth_env.extend sample_auth
       \<lparr>device_file = Inr (''serial_no = AP-1'' @ [line_end]), cipher = reversing_cipher,
        key_one_year = '' K1'', key_three_year = '' K3'', key_five_year = '' K5'',
        add_date = \<lambda>t y m d. t + y, host_interfaces = Inr []\<rparr>"

definition sample_signup :: signup_request where
  "sample_signup = \<lparr>sr_name = ''Ann'', sr_username = ''ann'', sr_password = ''p'', sr_confirm = ''p'',
     sr_country = ''IN'', sr_phone = ''1'', sr_email = ''ann@b.io'', sr_super = False,
     sr_license = ''K3'', sr_role = []\<rparr>"


lemma sample_signup_works [simp]: "works sample_signup_env" "license_works sample_signup_env"
  by (simp_all add: works_def license_works_def sample_signup_env_def sample_auth_def
      auth_env.defs)

definition fresh_store :: "doc store" where
  "fresh_store = \<lparr>config_doc = None, license_doc = None\<rparr>"

theorem signup_succeeds_once_witness:
  "\<exists>resp st. Signup sample_signup_env sample_signup fresh_store = (Inr resp, st)
     \<and> resp_status resp = StatusOK
     \<and> (\<exists>resp'. Signup sample_signup_env sample_signup st = (Inr resp', st) \<and> resp_status resp' \<noteq> StatusOK)"
proof -
  let ?out = "fst (Signup sample_signup_env sample_signup fresh_store)"
  have "\<not> isl ?out \<and> resp_status (projr ?out) = StatusOK" by code_simp
  then obtain resp st where
    first: "Signup sample_signup_env sample_signup fresh_store = (Inr resp, st)" "resp_status resp = StatusOK"
    by (cases "Signup sample_signup_env sample_signup fresh_store"; cases ?out) auto
  have "[] \<notin> {key_one_year sample_signup_env, key_three_year sample_signup_env, key_five_year sample_signup_env}"
    by (simp add: sample_signup_env_def auth_env.defs)
  from signup_succeeds_once [OF sample_signup_works this first sample_signup_works(1) refl refl]
  show ?thesis using first by blast
qed

subsection \<open>An extension stores nothing\<close>

lemma fetch_license_unchanged:
  "works env \<Longrightarrow> license_doc st \<noteq> None \<Longrightarrow> snd (FetchLicenseKeyProfile env st) = st"
  by (auto simp: FetchLicenseKeyProfile_def read_works split: sum.splits option.splits)

text \<open>
  The answer to an accepted extension carries the new license; the license file, and so the date
  every later check reads, is the old one.
\<close>

lemma create_key_unchanged:
  assumes "works env" "license_doc st \<noteq> None"
  shows "snd (CreateLicenseKey env key email st) = st"
proof -
  obtain res where "FetchLicenseKeyProfile env st = (res, st)"
    using fetch_license_unchanged [OF assms] by (metis prod.collapse)
  then have "snd (activation_key env k st) = st" for k
    by (simp add: activation_key_def Let_def split: sum.split go_error.split list.split option.split)
  then show ?thesis by (simp add: CreateLicenseKey_def Let_def split: sum.split)
qed

theorem extension_is_not_stored:
  assumes "works env" "license_doc st \<noteq> None"
  shows "snd (ExtendLicense env body st) = st"
  using create_key_unchanged [OF assms] by (simp add: ExtendLicense_def split: sum.split)

end
