(* ===== verification/Device_Keys.thy ===== *)
theory Device_Keys
  imports Licensing
begin

text \<open>
  The device configuration file, written and read back: \<open>writeDeviceConfigToFile\<close> and
  \<open>readDeviceConfig\<close>. The license keys of the file come back, with the blank after the equals sign,
  unless they contain an equals sign themselves.
\<close>

subsection \<open>Lines\<close>

text \<open>A line a scanner gives back as it was written.\<close>

definition line_ok :: "string \<Rightarrow> bool" where
  "line_ok l \<longleftrightarrow> line_end \<notin> set l \<and> (l = [] \<or> last l \<noteq> CHR 0x0D)"

lemma scan_written_lines:
  assumes "\<forall>l \<in> set ls. line_ok l"
  shows "scan_lines (concat (map (\<lambda>l. l @ [line_end]) ls)) = ls"
proof -
  have "map drop_cr ls = ls"
    using assms by (intro map_idI) (auto simp: drop_cr_def line_ok_def)
  moreover have "split_on line_end (concat (map (\<lambda>l. l @ [line_end]) ls)) = ls @ [[]]"
    using assms by (intro split_lines) (simp add: line_ok_def)
  ultimately show ?thesis by (simp add: scan_lines_def)
qed

definition config_entry :: "string \<Rightarrow> string \<Rightarrow> string" where
  "config_entry name v = name @ '' = '' @ v"

lemma config_line_entry: "config_line name v = config_entry name v @ [line_end]"
  by (simp add: config_line_def config_entry_def)

definition config_entries :: "device_config_file \<Rightarrow> string list" where
  "config_entries c =
     [config_entry ''device_name'' (DeviceName c), config_entry ''serial_no'' (DeviceID c),
      config_entry ''model_name'' (ModelName c), config_entry ''mac_address'' (DeviceMAC c),
      config_entry ''license_1year'' (ApplianceKey1yr c),
      config_entry ''license_3year'' (ApplianceKey3yr c),
      config_entry ''license_5year'' (ApplianceKey5yr c),
      config_entry ''org_name'' (OrganizationName c)]"

lemma device_config_entries:
  "device_config_text c = concat (map (\<lambda>l. l @ [line_end]) (config_entries c))"
  by (simp add: device_config_text_def config_entries_def config_line_entry)

text \<open>
  Values a request can carry: one line, without blanks around it, as the handler trims them, and
  without the name of one of the license lines.
\<close>

definition plain_value :: "string \<Rightarrow> bool" where
  "plain_value v \<longleftrightarrow> line_end \<notin> set v \<and> trim_space v = v \<and> \<not> contains v ''license_''"

lemma entry_ok:
  assumes "plain_value v" "line_end \<notin> set name"
  shows "line_ok (config_entry name v)"
proof -
  have "last v \<noteq> CHR 0x0D" if "v \<noteq> []"
  proof
    assume "last v = CHR 0x0D"
    then have "is_space (last v)" by (simp add: is_space_def)
    then have "dropWhile is_space (rev (dropWhile is_space v)) \<noteq> rev v"
      using that by (metis dropWhile_eq_Cons_conv hd_rev list.collapse rev_is_Nil_conv)
    then have "trim_space v \<noteq> v" unfolding trim_space_def by (metis rev_rev_ident)
    then show False using assms(1) by (simp add: plain_value_def)
  qed
  then show ?thesis using assms by (auto simp: line_ok_def config_entry_def plain_value_def)
qed

lemma scan_config:
  assumes "\<forall>v \<in> {DeviceName c, DeviceID c, ModelName c, DeviceMAC c, ApplianceKey1yr c,
      ApplianceKey3yr c, ApplianceKey5yr c, OrganizationName c}. plain_value v"
  shows "scan_lines (device_config_text c) = config_entries c"
  unfolding device_config_entries
  by (rule scan_written_lines) (use assms in \<open>simp add: config_entries_def entry_ok\<close>)

subsection \<open>Values\<close>

text \<open>A value counts when it has no equals sign; it keeps the blank before it.\<close>

definition loaded :: "string \<Rightarrow> string \<Rightarrow> string" where
  "loaded v old = (if CHR ''='' \<in> set v then old else CHR '' '' # v)"

lemma own_entry:
  assumes "CHR ''='' \<notin> set name" "contains (config_entry name v) name"
  shows "config_value name (config_entry name v) old = loaded v old"
proof -
  have "split_on (CHR ''='') (config_entry name v) = (name @ '' '') # split_on (CHR ''='') (CHR '' '' # v)"
    using split_on_field [of "CHR ''=''" "name @ '' ''" "CHR '' '' # v"] assms(1)
    by (simp add: config_entry_def)
  moreover have "length (split_on (CHR ''='') (CHR '' '' # v)) = Suc (count_list v (CHR ''=''))"
    unfolding split_on_length by simp
  ultimately show ?thesis
    using assms(2) split_on_one [of "CHR ''=''" "CHR '' '' # v"]
    by (auto simp: config_value_def loaded_def Let_def count_list_0_iff)
qed

lemma other_entry: "\<not> contains (config_entry other v) name \<Longrightarrow> config_value name (config_entry other v) old = old"
  by (simp add: config_value_def)

lemma has_prefix_append: "has_prefix s (p @ q) \<Longrightarrow> has_prefix s p"
proof -
  assume "has_prefix s (p @ q)"
  then have "take (length p) (take (length p + length q) s) = take (length p) (p @ q)"
    by (simp add: has_prefix_def)
  then show ?thesis by (simp add: has_prefix_def min_def)
qed

lemma contains_prefix: "contains s (p @ q) \<Longrightarrow> contains s p"
  by (induction s) (auto dest: has_prefix_append)

lemma plain_no_key:
  "plain_value v \<Longrightarrow> \<not> contains v ''license_1year''"
  "plain_value v \<Longrightarrow> \<not> contains v ''license_3year''"
  "plain_value v \<Longrightarrow> \<not> contains v ''license_5year''"
  using contains_prefix [of v "''license_''"] by (auto simp: plain_value_def)

lemma config_keys:
  assumes "\<forall>v \<in> {DeviceName c, DeviceID c, ModelName c, DeviceMAC c, ApplianceKey1yr c,
      ApplianceKey3yr c, ApplianceKey5yr c, OrganizationName c}. plain_value v"
  shows "last_value ''license_1year'' (config_entries c) old = loaded (ApplianceKey1yr c) old"
    and "last_value ''license_3year'' (config_entries c) old = loaded (ApplianceKey3yr c) old"
    and "last_value ''license_5year'' (config_entries c) old = loaded (ApplianceKey5yr c) old"
proof -
  note here = config_entries_def own_entry other_entry config_entry_def [THEN arg_cong, of contains]
    has_prefix_def plain_no_key
  show "last_value ''license_1year'' (config_entries c) old = loaded (ApplianceKey1yr c) old"
    using assms by (simp add: here)
  show "last_value ''license_3year'' (config_entries c) old = loaded (ApplianceKey3yr c) old"
    using assms by (simp add: here)
  show "last_value ''license_5year'' (config_entries c) old = loaded (ApplianceKey5yr c) old"
    using assms by (simp add: here)
qed

text \<open>What the handler writes from a request of such values.\<close>

definition plain_config :: "device_config_file \<Rightarrow> bool" where
  "plain_config c \<longleftrightarrow>
     (\<forall>v \<in> {DeviceName c, DeviceID c, ModelName c, DeviceMAC c, ApplianceKey1yr c,
        ApplianceKey3yr c, ApplianceKey5yr c, OrganizationName c}. plain_value v)"

lemma read_written_config:
  assumes "plain_config c"
  shows "readDeviceConfig old (Inr (device_config_text c)) =
     \<lparr>lk_one = loaded (ApplianceKey1yr c) (lk_one old), lk_three = loaded (ApplianceKey3yr c) (lk_three old),
      lk_five = loaded (ApplianceKey5yr c) (lk_five old)\<rparr>"
  using assms unfolding plain_config_def
  by (simp only: readDeviceConfig_def sum.case scan_config config_keys Let_def)

lemma loaded_key: "CHR ''='' \<notin> set k \<Longrightarrow> loaded k old = CHR '' '' # k"
  by (simp add: loaded_def)

lemma trim_loaded: "trim_space k = k \<Longrightarrow> trim_space (CHR '' '' # k) = k"
  by (simp add: trim_space_def is_space_def)

definition keys_of :: "('y, 'e) license_env_scheme \<Rightarrow> license_keys" where
  "keys_of env = \<lparr>lk_one = key_one_year env, lk_three = key_three_year env, lk_five = key_five_year env\<rparr>"

text \<open>C20: the license keys a factory configuration writes are read at the next start, and each of them is
  then accepted for its own term, whatever keys were in force before: one, three or five years, the
  shortest term when two keys are equal. The record keeps the blank the file has after the equals sign.
  Excluded are keys with an equals sign, a key that begins with hcwj, which is taken for an activation
  key, and configurations in which a value has a line break, blanks around it or the text license_.
\<close>

theorem configured_keys_are_accepted:
  assumes "plain_config c" and key: "k \<in> {ApplianceKey1yr c, ApplianceKey3yr c, ApplianceKey5yr c}"
    and "\<forall>k \<in> {ApplianceKey1yr c, ApplianceKey3yr c, ApplianceKey5yr c}. CHR ''='' \<notin> set k"
    and "\<not> has_prefix k ''hcwj''" "device_file env = Inr (device_config_text c)"
    and start: "keys_of env = readDeviceConfig old (device_file env)"
    and n: "n = (if k = ApplianceKey1yr c then 1 else if k = ApplianceKey3yr c then 3 else 5)"
  shows "CreateLicenseKey env k email st =
     (Inr (NewSuccessResponse ''Success''
        (Some (year_key env (serial_and_model (device_config_text c)) email (CHR '' '' # k) n))), st)"
proof -
  have "key_one_year env = CHR '' '' # ApplianceKey1yr c" "key_three_year env = CHR '' '' # ApplianceKey3yr c"
    "key_five_year env = CHR '' '' # ApplianceKey5yr c"
    using start assms(3, 5) read_written_config [OF assms(1), of old] by (auto simp: keys_of_def loaded_key)
  moreover have "trim_space (ApplianceKey1yr c) = ApplianceKey1yr c"
    "trim_space (ApplianceKey3yr c) = ApplianceKey3yr c" "trim_space (ApplianceKey5yr c) = ApplianceKey5yr c"
    using assms(1) by (simp_all add: plain_config_def plain_value_def)
  moreover have "trim_space k = k" using key calculation(4-6) by auto
  ultimately have "CreateLicenseKey env k email st =
     (if k = ApplianceKey1yr c \<or> k = ApplianceKey3yr c \<or> k = ApplianceKey5yr c
      then (Inr (NewSuccessResponse ''Success''
              (Some (year_key env (serial_and_model (device_config_text c)) email (CHR '' '' # k) n))), st)
      else (Inr invalid_key, st))"
    by (simp add: CreateLicenseKey_def Let_def trim_loaded assms(4, 5) n)
  then show ?thesis using key by (simp only: insert_iff empty_iff simp_thms if_True)
qed

definition factory_config :: device_config_file where
  "factory_config = \<lparr>DeviceName = ''APT'', DeviceID = ''AP-1'', ApplianceKey1yr = ''one'',
     ApplianceKey3yr = ''three'', ApplianceKey5yr = ''five'', DeviceMAC = ''aa:bb'', ModelName = ''M1'',
     OrganizationName = ''Org''\<rparr>"

definition factory_env :: "unit license_env" where
  "factory_env = \<lparr>lock_free = True, create_error_of = \<lambda>_. None, read_error_of = \<lambda>_. None,
     write_error_of = \<lambda>_. None, torn = \<lambda>_. None, empty_doc = (),
     enc_config = \<lambda>_. Inr (), dec_config = \<lambda>_. Inr zero_config, enc_license = \<lambda>_. Inr (),
     dec_license = \<lambda>_. Inr zero_keys, clock = 0, bcrypt_hash = Inr, bcrypt_compare = \<lambda>_ _. None,
     sign_token = \<lambda>k _. Inr k, parse_token = \<lambda>_ _ _. Inl (Err ''no token''), new_uuid = \<lambda>_. [],
     country_known = \<lambda>_. True, phone_valid = \<lambda>_ _. True, origin_os = [], origin_ip = [],
     device_file = Inr (device_config_text factory_config), cipher = reversing_cipher,
     key_one_year = '' one'', key_three_year = '' three'', key_five_year = '' five'',
     add_date = \<lambda>t y m d. t + y, host_interfaces = Inr []\<rparr>"

theorem configured_keys_are_accepted_witness:
  "CreateLicenseKey factory_env ''three'' ''a@b'' \<lparr>config_doc = None, license_doc = None\<rparr> =
     (Inr (NewSuccessResponse ''Success''
        (Some (year_key factory_env (serial_and_model (device_config_text factory_config)) ''a@b'' '' three'' 3))),
      \<lparr>config_doc = None, license_doc = None\<rparr>)"
proof (rule configured_keys_are_accepted [where old = "\<lparr>lk_one = ''1'', lk_three = ''3'', lk_five = ''5''\<rparr>"])
  show "plain_config factory_config" by code_simp
  show "keys_of factory_env =
      readDeviceConfig \<lparr>lk_one = ''1'', lk_three = ''3'', lk_five = ''5''\<rparr> (device_file factory_env)"
    by code_simp
  show "device_file factory_env = Inr (device_config_text factory_config)" by (simp add: factory_env_def)
  show "\<not> has_prefix ''three'' ''hcwj''" by code_simp
qed (simp_all add: factory_config_def)

text \<open>Keys of the usual form, in base 64 with its padding, are never loaded.\<close>

theorem key_with_equals_is_ignored:
  assumes "plain_config c" "CHR ''='' \<in> set (ApplianceKey1yr c)"
  shows "lk_one (readDeviceConfig old (Inr (device_config_text c))) = lk_one old"
  using read_written_config [OF assms(1), of old] assms(2) by (simp add: loaded_def)

end
