(* ===== verification/Sandbox_Client.thy ===== *)
theory Sandbox_Client
  imports Submission Go_Text
begin

text \<open>
  The client of the sandbox's REST service: \<open>service/cuckoo/\<close> and \<open>validation/cuckoo.go\<close>.

  A request is built, gets the token of the sandbox's configuration file and is given to the
  transport; the operations turn the reply into a value or an error. The transport, the file
  system's failures, the multipart writer and JSON are parameters. The token is cached in a package
  variable, the state of the operations. A reply without an error is never nil in \<open>net/http\<close>, so
  the branches for a nil reply are left out. \<open>client_sandbox\<close> is the environment of the queue handlers
  whose calls are this client's.
\<close>

record request =
  rq_method :: string
  rq_url :: string
  rq_content_type :: string
  rq_authorization :: "string list"
  rq_body :: string

record reply =
  rp_code :: int
  rp_body :: string

record cuckoo_machine =
  cm_status :: "string option"
  cm_locked :: bool
  cm_name :: string

record cuckoo_report =
  cr_score :: f32
  cr_file_name :: string

record client_env =
  cuckoo_conf :: "go_error + string"
  transport :: "request \<Rightarrow> go_error + reply"
  request_error :: "string \<Rightarrow> go_error option"
  stat_error :: "string \<Rightarrow> go_error option"
  open_error :: "string \<Rightarrow> go_error option"
  multipart_form :: "string \<Rightarrow> string \<Rightarrow> go_error + string \<times> string"
  form_urlencoded :: "string \<Rightarrow> string \<Rightarrow> string"
  json_task_id :: "string \<Rightarrow> go_error + int"
  json_task :: "string \<Rightarrow> go_error + cuckoo_task"
  json_tasks :: "string \<Rightarrow> go_error + cuckoo_task list"
  json_report :: "string \<Rightarrow> go_error + cuckoo_report"
  json_machine :: "string \<Rightarrow> go_error + cuckoo_machine"
  json_machines :: "string \<Rightarrow> go_error + cuckoo_machine list"
  file_row :: "string \<Rightarrow> go_error option"

definition ErrNotAuthorized :: go_error where "ErrNotAuthorized = Err ''not authorized''"
definition ErrTaskNotFound :: go_error where "ErrTaskNotFound = Err ''task not found''"
definition ErrReportNotFound :: go_error where "ErrReportNotFound = Err ''report not found''"
definition ErrMachineNotfound :: go_error where "ErrMachineNotfound = Err ''machine not found''"

definition bad_response_code :: "int \<Rightarrow> go_error" where
  "bad_response_code code = Err (''bad response code: '' @ show_int code)"

subsection \<open>The token\<close>

definition token_not_found :: go_error where
  "token_not_found = Err ''API token not found in the configuration file''"

text \<open>The first line with an equals sign that mentions \<open>api_token\<close> decides.\<close>

fun find_token :: "string list \<Rightarrow> go_error + string" where
  "find_token [] = Inl token_not_found"
| "find_token (line # ls) =
     (let parts = split_on (CHR ''='') line in
      if 2 \<le> length parts \<and> contains line ''api_token'' then Inr (trim_space (parts ! 1))
      else find_token ls)"

definition readAPIKeyFromFile :: "('e) client_env_scheme \<Rightarrow> go_error + string" where
  "readAPIKeyFromFile env =
     (case cuckoo_conf env of Inl e \<Rightarrow> Inl e | Inr s \<Rightarrow> find_token (scan_lines s))"

text \<open>The token in force: the cached one, or the file's; an error of reading it is ignored.\<close>

definition token :: "('e) client_env_scheme \<Rightarrow> string \<Rightarrow> string" where
  "token env key =
     (if key = [] then (case readAPIKeyFromFile env of Inl e \<Rightarrow> [] | Inr k \<Rightarrow> k) else key)"

definition with_token :: "string \<Rightarrow> request \<Rightarrow> request" where
  "with_token key req =
     req\<lparr>rq_authorization := rq_authorization req @ [''Bearer '' @ key]\<rparr>"

definition MakeRequest ::
  "('e) client_env_scheme \<Rightarrow> request \<Rightarrow> string \<Rightarrow> (go_error + reply) \<times> string" where
  "MakeRequest env req API_KEY =
     (let key = token env API_KEY in
      if key = [] then (Inl (Err ''API key not found''), key)
      else
        (case transport env (with_token key req) of
           Inl e \<Rightarrow> (Inl e, key)
         | Inr resp \<Rightarrow>
             (if rp_code resp = 401 then Inl ErrNotAuthorized else Inr resp, key)))"

subsection \<open>Requests\<close>

definition BASE_URL :: string where "BASE_URL = ''http://127.0.0.1:1337''"

definition get_request :: "string \<Rightarrow> request" where
  "get_request url = \<lparr>rq_method = ''GET'', rq_url = url, rq_content_type = [],
     rq_authorization = [], rq_body = []\<rparr>"

definition post_request :: "string \<Rightarrow> string \<Rightarrow> string \<Rightarrow> request" where
  "post_request url content_type body = \<lparr>rq_method = ''POST'', rq_url = url,
     rq_content_type = content_type, rq_authorization = [], rq_body = body\<rparr>"

text \<open>\<open>NewRequestWithContext\<close> and \<open>MakeRequest\<close>, and what is done with the reply.\<close>

definition call ::
  "('e) client_env_scheme \<Rightarrow> request \<Rightarrow> (reply \<Rightarrow> go_error + 'a) \<Rightarrow> string
   \<Rightarrow> (go_error + 'a) \<times> string" where
  "call env req handle API_KEY =
     (case request_error env (rq_url req) of
        Some e \<Rightarrow> (Inl e, API_KEY)
      | None \<Rightarrow>
          (case MakeRequest env req API_KEY of
             (Inl e, key) \<Rightarrow> (Inl e, key)
           | (Inr resp, key) \<Rightarrow> (handle resp, key)))"

definition base_name :: "string \<Rightarrow> string" where
  "base_name path =
     (if path = [] then ''.''
      else
        let p = rev (dropWhile (\<lambda>c. c = CHR ''/'') (rev path)) in
        if p = [] then ''/'' else last (split_on (CHR ''/'') p))"

subsection \<open>Submitting\<close>

text \<open>\<open>os.Stat\<close> on the files of the model: the content, unless the call fails.\<close>

definition max_file_size :: int where "max_file_size = 200 * 2 ^ 20"

definition ValidateFile ::
  "('e) client_env_scheme \<Rightarrow> string \<Rightarrow> string option \<Rightarrow> go_error option" where
  "ValidateFile env path content =
     (let fp = trim_space path in
      if fp = [] then Some (Err ''file path is required'')
      else
        (case content of
           None \<Rightarrow> Some ErrFileNotFound
         | Some c \<Rightarrow>
             (case stat_error env fp of
                Some e \<Rightarrow> Some e
              | None \<Rightarrow>
                  if max_file_size < int (length c)
                  then Some (Err (''size of file '' @ fp @ '' exceeds maximum allowed size(200 MB)''))
                  else None)))"

text \<open>The answer to a submission: a task id of 0 is an error.\<close>

definition submitted_id :: "('e) client_env_scheme \<Rightarrow> reply \<Rightarrow> go_error + int" where
  "submitted_id env resp =
     (if rp_code resp \<noteq> 200 then Inl (bad_response_code (rp_code resp))
      else
        (case json_task_id env (rp_body resp) of
           Inl e \<Rightarrow> Inl e
         | Inr i \<Rightarrow> if i = 0 then Inl (Err ''task id is 0'') else Inr i))"

definition CreateTaskFile ::
  "('e) client_env_scheme \<Rightarrow> string \<Rightarrow> string option \<Rightarrow> string \<Rightarrow> (go_error + int) \<times> string" where
  "CreateTaskFile env path content API_KEY =
     (let fp = trim_space path in
      case ValidateFile env fp content of
        Some e \<Rightarrow> (Inl e, API_KEY)
      | None \<Rightarrow>
          (case open_error env fp of
             Some e \<Rightarrow> (Inl e, API_KEY)
           | None \<Rightarrow>
               (case multipart_form env (base_name fp) (the content) of
                  Inl e \<Rightarrow> (Inl e, API_KEY)
                | Inr (content_type, body) \<Rightarrow>
                    call env (post_request (BASE_URL @ ''/tasks/create/file'') content_type body)
                      (submitted_id env) API_KEY)))"

definition CreateTaskUrl ::
  "('e) client_env_scheme \<Rightarrow> string \<Rightarrow> string \<Rightarrow> (go_error + int) \<times> string" where
  "CreateTaskUrl env url API_KEY =
     call env
       (post_request (BASE_URL @ ''/tasks/create/url'') ''application/x-www-form-urlencoded''
          (form_urlencoded env ''url'' (trim_space url)))
       (submitted_id env) API_KEY"

subsection \<open>Asking\<close>

definition TasksView ::
  "('e) client_env_scheme \<Rightarrow> int \<Rightarrow> string \<Rightarrow> (go_error + cuckoo_task) \<times> string" where
  "TasksView env taskID API_KEY =
     call env (get_request (BASE_URL @ ''/tasks/view/'' @ show_int taskID))
       (\<lambda>resp. if rp_code resp = 404 then Inl ErrTaskNotFound
               else if rp_code resp \<noteq> 200 then Inl (bad_response_code (rp_code resp))
               else json_task env (rp_body resp)) API_KEY"

text \<open>
  The report is decoded before the code is looked at; a failing query for the row of the file, which
  serves a log message only, is an error of the call.
\<close>

definition TasksReport ::
  "('e) client_env_scheme \<Rightarrow> int \<Rightarrow> string \<Rightarrow> (go_error + cuckoo_report) \<times> string" where
  "TasksReport env taskID API_KEY =
     call env (get_request (BASE_URL @ ''/tasks/report/'' @ show_int taskID))
       (\<lambda>resp. case json_report env (rp_body resp) of
          Inl e \<Rightarrow> Inl e
        | Inr report \<Rightarrow>
            if rp_code resp = 404 then Inl ErrReportNotFound
            else if rp_code resp = 400 then Inl (Err ''invalid report format'')
            else if rp_code resp \<noteq> 200 then Inl (bad_response_code (rp_code resp))
            else (case file_row env (cr_file_name report) of Some e \<Rightarrow> Inl e | None \<Rightarrow> Inr report)) API_KEY"

definition marshalling_error :: "go_error \<Rightarrow> go_error" where
  "marshalling_error e =
     (case e of Err t \<Rightarrow> Err (''response marshalling error: '' @ t) | Panic p \<Rightarrow> Panic p)"

definition ListMachines ::
  "('e) client_env_scheme \<Rightarrow> string \<Rightarrow> (go_error + cuckoo_machine list) \<times> string" where
  "ListMachines env API_KEY =
     call env (get_request (BASE_URL @ ''/machines/list''))
       (\<lambda>resp. if rp_code resp \<noteq> 200 then Inl (bad_response_code (rp_code resp))
               else (case json_machines env (rp_body resp) of
                       Inl e \<Rightarrow> Inl (marshalling_error e) | Inr ms \<Rightarrow> Inr ms)) API_KEY"

definition ViewMachine ::
  "('e) client_env_scheme \<Rightarrow> string \<Rightarrow> string \<Rightarrow> (go_error + cuckoo_machine) \<times> string" where
  "ViewMachine env machineName API_KEY =
     call env (get_request (BASE_URL @ ''/machines/view/'' @ machineName))
       (\<lambda>resp. if rp_code resp = 404 then Inl ErrMachineNotfound
               else if rp_code resp \<noteq> 200 then Inl (bad_response_code (rp_code resp))
               else (case json_machine env (rp_body resp) of
                       Inl e \<Rightarrow> Inl (marshalling_error e) | Inr m \<Rightarrow> Inr m)) API_KEY"

definition TasksDelete :: "('e) client_env_scheme \<Rightarrow> int \<Rightarrow> string \<Rightarrow> (go_error + unit) \<times> string" where
  "TasksDelete env taskID API_KEY =
     call env (get_request (BASE_URL @ ''/tasks/delete/'' @ show_int taskID))
       (\<lambda>resp. if rp_code resp = 404 then Inl ErrTaskNotFound
               else if rp_code resp = 500
               then Inl (Err (''unable to delete the task, body: '' @ take (1024 * 1024) (rp_body resp)))
               else if rp_code resp \<noteq> 200 then Inl (bad_response_code (rp_code resp))
               else Inr ()) API_KEY"

definition ListAllTasks ::
  "('e) client_env_scheme \<Rightarrow> string \<Rightarrow> (go_error + cuckoo_task list) \<times> string" where
  "ListAllTasks env API_KEY =
     call env (get_request (BASE_URL @ ''/tasks/list''))
       (\<lambda>resp. if rp_code resp \<noteq> 200 then Inl (bad_response_code (rp_code resp))
               else json_tasks env (rp_body resp)) API_KEY"

subsection \<open>The sandbox of the handlers\<close>

text \<open>Every call reads the token: with an unchanging configuration file the cache makes no difference.\<close>

definition map_result :: "('a \<Rightarrow> 'b) \<Rightarrow> (go_error + 'a) \<times> string \<Rightarrow> go_error + 'b" where
  "map_result f r = (case fst r of Inl e \<Rightarrow> Inl e | Inr x \<Rightarrow> Inr (f x))"

definition client_sandbox ::
  "('e) client_env_scheme \<Rightarrow> ('f) sandbox_env_scheme \<Rightarrow> ('f) sandbox_env_scheme" where
  "client_sandbox cenv env =
     env\<lparr>list_all_tasks := map_result id (ListAllTasks cenv []),
         list_machines := map_result (map cm_locked) (ListMachines cenv []),
         create_task_file := (\<lambda>path content. map_result id (CreateTaskFile cenv path content [])),
         tasks_report := (\<lambda>i. map_result (\<lambda>r. Some (cr_score r)) (TasksReport cenv i [])),
         tasks_delete := (\<lambda>i. case fst (TasksDelete cenv i []) of Inl e \<Rightarrow> Some e | Inr _ \<Rightarrow> None)\<rparr>"

lemma cached_token: "token env (token env key) = token env key"
  by (auto simp: token_def split: sum.splits)

lemma make_request_cached:
  "MakeRequest env req (token env key) = MakeRequest env req key"
  by (simp add: MakeRequest_def cached_token)

text \<open>Whether the token was cached by an earlier call makes no difference to what a call returns.\<close>

lemma call_cached: "fst (call env req handle (token env [])) = fst (call env req handle [])"
  by (simp add: call_def make_request_cached split: option.split)

lemma submission_id_nonzero: "fst (CreateTaskFile env path content key) = Inr i \<Longrightarrow> i \<noteq> 0"
  by (auto simp: CreateTaskFile_def call_def submitted_id_def Let_def split: option.splits sum.splits
      prod.splits if_splits)

lemma no_token_call:
  assumes "token env key = []"
  shows "\<exists>e. fst (call env req handle key) = Inl e"
  using assms by (simp add: call_def MakeRequest_def split: option.split)

lemma no_token_submission:
  assumes "token env key = []"
  shows "\<exists>e. fst (CreateTaskFile env path content key) = Inl e"
  using no_token_call [OF assms]
  by (auto simp: CreateTaskFile_def Let_def split: option.split sum.split)

end
