(* ===== verification/Sandbox_Props.thy ===== *)
theory Sandbox_Props
  imports Verdict_Props Sandbox_Client
begin

text \<open>
  Theorems on the client of the sandbox and the pipeline that uses it: what is sent carries the token,
  and without a token in the configuration file the pipeline allows every file.
\<close>

subsection \<open>The token\<close>

text \<open>Two transports that agree on what carries the token.\<close>

definition same_with_token :: "string \<Rightarrow> (request \<Rightarrow> go_error + reply) \<Rightarrow> (request \<Rightarrow> go_error + reply) \<Rightarrow> bool" where
  "same_with_token key t t' \<longleftrightarrow> (\<forall>req. rq_authorization req = [''Bearer '' @ key] \<longrightarrow> t req = t' req)"

lemma token_transport [simp]: "token (env\<lparr>transport := t\<rparr>) key = token env key"
  by (simp add: token_def readAPIKeyFromFile_def)

lemma rest_transport [simp]:
  "submitted_id (env\<lparr>transport := t\<rparr>) = submitted_id env"
  "ValidateFile (env\<lparr>transport := t\<rparr>) = ValidateFile env"
  by (simp_all add: fun_eq_iff submitted_id_def ValidateFile_def Let_def split: option.split)

lemma call_transport:
  assumes "same_with_token (token env key) (transport env) t" "rq_authorization req = []"
  shows "call (env\<lparr>transport := t\<rparr>) req handle key = call env req handle key"
proof -
  have "transport env (with_token (token env key) req) = t (with_token (token env key) req)"
    using assms by (simp add: same_with_token_def with_token_def)
  then have "MakeRequest (env\<lparr>transport := t\<rparr>) req key = MakeRequest env req key"
    by (simp add: MakeRequest_def Let_def)
  then show ?thesis by (simp add: call_def split: option.split)
qed

lemma request_authorization [simp]:
  "rq_authorization (get_request url) = []" "rq_authorization (post_request url c b) = []"
  by (simp_all add: get_request_def post_request_def)

text \<open>
  No request leaves the appliance without the token of the configuration file: what the transport
  would do with any other request makes no difference to any call of the client.
\<close>

theorem calls_carry_the_token:
  assumes "same_with_token (token env key) (transport env) t"
  shows "CreateTaskFile (env\<lparr>transport := t\<rparr>) path content key = CreateTaskFile env path content key
    \<and> CreateTaskUrl (env\<lparr>transport := t\<rparr>) url key = CreateTaskUrl env url key
    \<and> TasksReport (env\<lparr>transport := t\<rparr>) i key = TasksReport env i key
    \<and> TasksDelete (env\<lparr>transport := t\<rparr>) i key = TasksDelete env i key
    \<and> ListAllTasks (env\<lparr>transport := t\<rparr>) key = ListAllTasks env key
    \<and> ListMachines (env\<lparr>transport := t\<rparr>) key = ListMachines env key"
proof (intro conjI)
  note carried = call_transport [OF assms]
  show "CreateTaskFile (env\<lparr>transport := t\<rparr>) path content key = CreateTaskFile env path content key"
    by (simp add: CreateTaskFile_def carried Let_def split: option.split sum.split)
  show "TasksReport (env\<lparr>transport := t\<rparr>) i key = TasksReport env i key"
    by (simp add: TasksReport_def carried cong: if_cong option.case_cong sum.case_cong)
qed (simp_all add: call_transport [OF assms] CreateTaskUrl_def TasksDelete_def ListAllTasks_def
    ListMachines_def cong: if_cong sum.case_cong)

definition sample_client :: client_env where
  "sample_client = \<lparr>cuckoo_conf = Inr (''[cuckoo]'' @ [line_end] @ ''api_token = abc'' @ [line_end]),
     transport = \<lambda>req. (if rq_authorization req = [''Bearer abc''] then Inr \<lparr>rp_code = 200, rp_body = ''7''\<rparr>
                         else Inr \<lparr>rp_code = 401, rp_body = []\<rparr>),
     request_error = \<lambda>_. None, stat_error = \<lambda>_. None, open_error = \<lambda>_. None,
     multipart_form = \<lambda>name c. Inr (name, c), form_urlencoded = \<lambda>k v. k @ v,
     json_task_id = \<lambda>s. (case atoi s of None \<Rightarrow> Inl (Err ''json'') | Some n \<Rightarrow> Inr n),
     json_task = \<lambda>_. Inl (Err ''json''), json_tasks = \<lambda>_. Inr [],
     json_report = \<lambda>_. Inr \<lparr>cr_score = F 8, cr_file_name = ''1''\<rparr>, json_machine = \<lambda>_. Inl (Err ''json''),
     json_machines = \<lambda>_. Inr [], file_row = \<lambda>_. None\<rparr>"

theorem calls_carry_the_token_witness:
  "fst (CreateTaskFile (sample_client\<lparr>transport := \<lambda>_. Inr \<lparr>rp_code = 200, rp_body = ''7''\<rparr>\<rparr>)
     ''/f/1'' (Some ''z'') []) = fst (CreateTaskFile sample_client ''/f/1'' (Some ''z'') [])"
proof -
  have "token sample_client [] = ''abc''" by code_simp
  then have "same_with_token (token sample_client []) (transport sample_client)
      (\<lambda>_. Inr \<lparr>rp_code = 200, rp_body = ''7''\<rparr>)"
    by (simp add: same_with_token_def sample_client_def)
  from calls_carry_the_token [OF this] show ?thesis by simp
qed

subsection \<open>No token\<close>

lemma client_timeout [simp]: "pending_timeout (client_sandbox cenv env) = pending_timeout env"
  by (simp add: pending_timeout_def getTimeOut_def client_sandbox_def)

lemma client_gives_up [simp]:
  "pending_gives_up (client_sandbox cenv env) timeout t = pending_gives_up env timeout t"
  by (simp add: pending_gives_up_def client_sandbox_def)

lemma no_token_fails:
  assumes "token cenv [] = []"
  shows "sandbox_fails (client_sandbox cenv env)"
proof -
  have "\<exists>e. create_task_file (client_sandbox cenv env) p c = Inl e" for p c
    using no_token_submission [OF assms, of p c] by (auto simp: client_sandbox_def map_result_def)
  moreover have "\<exists>e. list_all_tasks (client_sandbox cenv env) = Inl e"
    using no_token_call [OF assms, of "get_request (BASE_URL @ ''/tasks/list'')"
        "\<lambda>resp. if rp_code resp \<noteq> 200 then Inl (bad_response_code (rp_code resp)) else json_tasks cenv (rp_body resp)"]
    by (auto simp: client_sandbox_def map_result_def ListAllTasks_def)
  ultimately show ?thesis
    by (auto simp: sandbox_fails_def FetchSandboxTaskCountWhichAreNotReported_def fetchAllTasksFromSandbox_def)
qed

text \<open>C8: without a token in the sandbox's configuration file no file is accepted by the sandbox, and every
  file passes: the only pending task of an otherwise idle pipeline, not yet sent to the sandbox, within its
  deadline and with retries left in the queue, stays there for four rounds of the handler and its
  goroutines; the fifth takes it out and logs it as aborted, the tables and the queue of running tasks stay
  as they were, and once that entry is handled the firewall is told that the hash of the file is clean,
  whatever the file contains.
\<close>

theorem missing_token_allows_every_file:
  assumes "token cenv [] = []" "healthy env" "healthy env'" "keys_ok (sys_db s)"
    and "pendingQ s = [t]" "logQ s = []" "goroutines s = []" "SandboxRetryCount t = 0"
    and "\<And>k. k < 5 \<Longrightarrow> \<not> pending_gives_up (envs k) (pending_timeout (envs k)) t"
    and "f \<in> set (fods (sys_db s))" "fod_id f = Id t" "trim_space h = fod_md5 f" "fod_md5 f \<noteq> []"
    and rounds: "after = (\<lambda>n. pending_rounds (\<lambda>k. client_sandbox cenv (envs k)) n s)"
    and aborted: "t' = t\<lparr>SandboxRetryCount := 5, Status := Aborted\<rparr>"
  shows "fst (sendToSandbox (client_sandbox cenv (envs k)) contents t0) = -1
    \<and> (n \<le> 4 \<longrightarrow> after n = s\<lparr>pendingQ := [t\<lparr>SandboxRetryCount := int n\<rparr>]\<rparr>)
    \<and> after 5 = s\<lparr>pendingQ := [], logQ := [t']\<rparr>
    \<and> FileFromFireWall env' (sys_db (processLogQueueTasks env t' (after 5))) h = FW_CLEAN"
proof (intro conjI impI)
  have fails: "sandbox_fails (client_sandbox cenv (envs k)) \<and> \<not> pending_gives_up (client_sandbox cenv (envs k))
      (pending_timeout (client_sandbox cenv (envs k))) t" if "k < 5" for k
    using no_token_fails [OF assms(1)] assms(9) [OF that] by simp
  obtain e where "create_task_file (client_sandbox cenv (envs k)) (file_path (Id t0)) (contents (Id t0)) = Inl e"
    using no_token_fails [OF assms(1), of "envs k"] unfolding sandbox_fails_def by blast
  then show "fst (sendToSandbox (client_sandbox cenv (envs k)) contents t0) = -1"
    by (simp add: sendToSandbox_def)
  show "after n = s\<lparr>pendingQ := [t\<lparr>SandboxRetryCount := int n\<rparr>]\<rparr>" if "n \<le> 4"
    unfolding rounds by (rule failing_task_waits) (use fails that assms(5-8) in auto)
  show five: "after 5 = s\<lparr>pendingQ := [], logQ := [t']\<rparr>"
    unfolding rounds aborted by (rule failing_task_gives_up) (use fails assms(5-8) in auto)
  have "FileFromFireWall env' (sys_db (finish_aborted env t' (after 5))) h = FW_CLEAN"
    using assms(4, 10-13) by (intro aborted_clean [OF assms(2, 3)]) (simp_all add: five aborted)
  then show "FileFromFireWall env' (sys_db (processLogQueueTasks env t' (after 5))) h = FW_CLEAN"
    by (simp add: five aborted processLogQueueTasks_def status_defs spawn_def)
qed

theorem missing_token_allows_every_file_witness:
  "FileFromFireWall sample_db_env (sys_db (processLogQueueTasks sample_env
       (pending_task\<lparr>SandboxRetryCount := 5, Status := Aborted\<rparr>)
       (pending_rounds (\<lambda>_. client_sandbox (sample_client\<lparr>cuckoo_conf := Inr []\<rparr>) sample_env) 5
          (sample_state\<lparr>pendingQ := [pending_task]\<rparr>)))) '' az'' = FW_CLEAN"
proof -
  let ?s = "sample_state\<lparr>pendingQ := [pending_task]\<rparr>"
  have token: "token (sample_client\<lparr>cuckoo_conf := Inr []\<rparr>) [] = []" by code_simp
  have keys: "keys_ok (sys_db ?s)" using sample_keys by simp
  have q: "pendingQ ?s = [pending_task]" "logQ ?s = []" "goroutines ?s = []" "SandboxRetryCount pending_task = 0"
    "sample_fod \<in> set (fods (sys_db ?s))" "fod_id sample_fod = Id pending_task"
    "trim_space '' az'' = fod_md5 sample_fod" "fod_md5 sample_fod \<noteq> []"
    by (simp_all add: sample_state_def initial_state_def sample_db_def pending_task_def sample_task_def
        sample_fod_def trim_space_def is_space_def)
  have "\<not> pending_gives_up sample_env (pending_timeout sample_env) pending_task"
    unfolding timeout_default
    by (simp add: pending_gives_up_def QUEUE_MAX_RETRIES_def go_minute_def pending_task_def sample_task_def sample_env_def)
  note run = missing_token_allows_every_file [OF token healthy_sample(1,2) keys q(1-4) this q(5-8) refl refl]
  show ?thesis by (rule run [THEN conjunct2, THEN conjunct2, THEN conjunct2])
qed

end
