(* ===== verification/Firmware.thy ===== *)
theory Firmware
  imports Dashboard Submission
begin

text \<open>
  \<open>service/firmware.go\<close> and \<open>service/firmwareUpdate.go\<close>: uploading a firmware image and installing it.

  The state is the files by path, the shell commands that ran and the number of reboots. What a
  command prints and whether it starts is a parameter, as are the directory listings and the failures
  of the file system. \<open>strings.Contains(s, sub)\<close> is \<open>contains s sub\<close>: the arguments are in the order
  the source gives them.
\<close>

record fw_state =
  fw_files :: "string \<Rightarrow> string option"
  fw_commands :: "string list"
  fw_reboots :: nat

record fw_env =
  bash_starts :: "string \<Rightarrow> nat \<Rightarrow> bool"
  bash_output :: "string \<Rightarrow> string"
  program_starts :: "string \<Rightarrow> bool"
  read_fails :: "string \<Rightarrow> bool"
  write_fails :: "string \<Rightarrow> go_error option"
  create_fails :: "string \<Rightarrow> go_error option"
  mkdir_fails :: "string \<Rightarrow> bool"
  list_dir :: "string \<Rightarrow> string list"
  log_size :: int
  boot_files :: "string list"
  time_text :: string

definition installStatusFilePath :: string where
  "installStatusFilePath = ''/var/www/html/data/firmware_install_status''"

definition FIRMWARE_FILE_PATH :: string where "FIRMWARE_FILE_PATH = ''/var/log/firmware/''"
definition firmware_path_file :: string where "firmware_path_file = ''/etc/firmware_path''"

subsection \<open>Commands and files\<close>

definition ran :: "string \<Rightarrow> fw_state \<Rightarrow> fw_state" where
  "ran c s = s\<lparr>fw_commands := fw_commands s @ [c]\<rparr>"

text \<open>
  \<open>ExecCmd\<close> calls \<open>Run\<close> and then \<open>Output\<close> on the same command. A command that was started cannot be
  started again, so there is output only when the first start failed and the second did not.
\<close>

definition ExecCmd :: "('e) fw_env_scheme \<Rightarrow> string \<Rightarrow> fw_state \<Rightarrow> string \<times> fw_state" where
  "ExecCmd env c s =
     (if bash_starts env c 0 then ([], ran c s)
      else if bash_starts env c 1 then (bash_output env c, ran c s)
      else ([], s))"

text \<open>\<open>execCmd\<close> takes the whole line for the name of a program.\<close>

definition execCmd :: "('e) fw_env_scheme \<Rightarrow> string \<Rightarrow> fw_state \<Rightarrow> fw_state" where
  "execCmd env c s = (if program_starts env c then ran c s else s)"

definition reboot :: "fw_state \<Rightarrow> fw_state" where
  "reboot s = s\<lparr>fw_reboots := Suc (fw_reboots s)\<rparr>"

definition fileExists :: "string \<Rightarrow> fw_state \<Rightarrow> bool" where
  "fileExists p s \<longleftrightarrow> fw_files s p \<noteq> None"

definition filePutContents :: "('e) fw_env_scheme \<Rightarrow> string \<Rightarrow> string \<Rightarrow> fw_state \<Rightarrow> fw_state" where
  "filePutContents env p content s =
     (if write_fails env p \<noteq> None then s else s\<lparr>fw_files := (fw_files s)(p \<mapsto> content)\<rparr>)"

definition fileGetContents :: "('e) fw_env_scheme \<Rightarrow> string \<Rightarrow> fw_state \<Rightarrow> string" where
  "fileGetContents env p s =
     (case fw_files s p of None \<Rightarrow> [] | Some c \<Rightarrow> if read_fails env p then [] else c)"

definition make_dir :: "('e) fw_env_scheme \<Rightarrow> string \<Rightarrow> fw_state \<Rightarrow> fw_state" where
  "make_dir env p s =
     (if fileExists p s \<or> mkdir_fails env p then s else s\<lparr>fw_files := (fw_files s)(p \<mapsto> [])\<rparr>)"

subsection \<open>The boot loader\<close>

definition path_base :: "string \<Rightarrow> string" where
  "path_base p = last (split_on (CHR ''/'') p)"

definition filterAndSortFiles :: "string list \<Rightarrow> string \<Rightarrow> string list" where
  "filterAndSortFiles paths prefix =
     sort_slice str_less (filter (\<lambda>f. has_prefix (path_base f) prefix) paths)"

text \<open>The last kernel and the last initial RAM disk by name; without one the index panics.\<close>

definition getLatestKernel :: "('e) fw_env_scheme \<Rightarrow> go_error + string \<times> string" where
  "getLatestKernel env =
     (let ks = filterAndSortFiles (boot_files env) ''vmlinuz-'';
          rds = filterAndSortFiles (boot_files env) ''initrd.img''
      in if ks = [] \<or> rds = [] then Inl (Panic ''index out of range'') else Inr (last ks, last rds))"

text \<open>The text of \<open>grub.cfg\<close>, written here by lines and with a back quote for the double quote.\<close>

definition quoted_lines :: "string list \<Rightarrow> string" where
  "quoted_lines ls =
     map (\<lambda>c. if c = CHR 0x60 then CHR 0x22 else c) (join_with [line_end] ls)"

definition BEGIN_STR :: string where
  "BEGIN_STR = quoted_lines
     [''default=0'', ''timeout=3'', '''', ''set ORDER=`A B`'', ''set A_OK=0'', ''set B_OK=0'',
      ''set A_TRY=0'', ''set B_TRY=0'', ''load_env'', '''', ''# select bootable slot'',
      ''for SLOT in $ORDER; do'',
      ''    if [ `$SLOT` == `A` ]; then'', ''        INDEX=1'', ''        OK=$A_OK'',
      ''        TRY=$A_TRY'', ''        A_TRY=1'', ''    fi'',
      ''    if [ `$SLOT` == `B` ]; then'', ''        INDEX=2'', ''        OK=$B_OK'',
      ''        TRY=$B_TRY'', ''        B_TRY=1'', ''    fi'',
      ''    if [ `$OK` -eq 1 -a `$TRY` -eq 0 ]; then'', ''        default=$INDEX'',
      ''        break'', ''    fi'', ''done'', '''', ''# reset booted flags'',
      ''if [ `$default` -eq 0 ]; then'',
      ''    if [ `$A_OK` -eq 1 -a `$A_TRY` -eq 1 ]; then'', ''        A_TRY=0'', ''    fi'',
      ''    if [ `$B_OK` -eq 1 -a `$B_TRY` -eq 1 ]; then'', ''        B_TRY=0'', ''    fi'',
      ''fi'', '''', ''save_env ORDER'', '''', '''']"

definition boot_options :: string where
  "boot_options = ''console=ttyS0,115200 console=tty12 net.ifnames=0 biosdevname=0 panic=60 quiet ''"

definition menu_entry_lines :: "string \<Rightarrow> string \<Rightarrow> string \<Rightarrow> string \<Rightarrow> string \<Rightarrow> string \<Rightarrow> string list" where
  "menu_entry_lines order slot dev vmlinuz initrd op =
     [''if [ `$ORDER` == `'' @ order @ ''` ]; then'',
      ''    menuentry `WiJungle OS Slot '' @ slot @ ''` {'',
      ''        linux (hd0,gpt1)/'' @ vmlinuz @ '' root=/dev/'' @ dev @ '' '' @ boot_options @ op
        @ '' rauc.slot='' @ slot,
      ''        initrd (hd0,gpt1)/'' @ initrd,
      ''    }'', ''fi'']"

definition grub_text :: "string \<Rightarrow> string \<Rightarrow> string \<Rightarrow> string" where
  "grub_text vmlinuz initrd op =
     BEGIN_STR
     @ quoted_lines ([''CMDLINE=`'' @ boot_options @ '' reboot=bios`'', '''', '''']
         @ menu_entry_lines ''A B'' ''A'' ''sda3'' vmlinuz initrd op @ ['''']
         @ menu_entry_lines ''B A'' ''B'' ''sda8'' vmlinuz initrd op)"

definition createGrubConfig :: "('e) fw_env_scheme \<Rightarrow> fw_state \<Rightarrow> (go_error + unit) \<times> fw_state" where
  "createGrubConfig env s =
     (case getLatestKernel env of
        Inl p \<Rightarrow> (Inl p, s)
      | Inr (vmlinuz, initrd) \<Rightarrow>
          (let op = (if fileExists ''/boot/grub/extra_options'' s
                     then fileGetContents env ''/boot/grub/extra_options'' s else []);
               s1 = filePutContents env ''/var/www/html/data/grub.cfg'' (grub_text vmlinuz initrd op) s
           in (Inr (), execCmd env ''sudo /bin/cp -f /var/www/html/data/grub.cfg /boot/grub/grub.cfg'' s1)))"

subsection \<open>Where the image is\<close>

definition device_serial :: "('e) fw_env_scheme \<Rightarrow> fw_state \<Rightarrow> string" where
  "device_serial env s = last_value ''serial_no'' (scan_lines (fileGetContents env ''/data/device_config'' s)) []"

definition put_if_missing ::
  "('e) fw_env_scheme \<Rightarrow> string \<Rightarrow> string \<Rightarrow> fw_state \<Rightarrow> fw_state" where
  "put_if_missing env p content s = (if fileExists p s then s else filePutContents env p content s)"

definition four_gb :: int where "four_gb = 4 * 1024 * 1024 * 1024"

definition initSpace :: "('e) fw_env_scheme \<Rightarrow> fw_state \<Rightarrow> string \<times> fw_state" where
  "initSpace env s =
     (let s1 = snd (ExecCmd env ''raucstatus mark-good'' s);
          s2 = put_if_missing env ''/etc/device_serial_id'' (device_serial env s1) s1;
          s3 = (if fileExists ''/dev/sda9'' s2
                then put_if_missing env firmware_path_file FIRMWARE_FILE_PATH s2 else s2);
          s4 = filePutContents env installStatusFilePath ''Idle'' s3;
          dir = (if four_gb < log_size env then ''/var/log/firmware'' else ''/var/www/firmware'');
          s5 = make_dir env dir s4
      in (dir @ ''/'', filePutContents env firmware_path_file (dir @ ''/'') s5))"

subsection \<open>Installing\<close>

datatype install_result = InstallFailed string | InstallSucceeded string

definition errorSanitization :: "string \<Rightarrow> string" where
  "errorSanitization str =
     (if contains ''Did you pass a valid RAUC bundle'' str then ''Invalid Firmware Image Uploaded''
      else if contains ''Installing'' str \<and> contains ''failed'' str then ''Installing Failed''
      else str)"

definition currentStatus :: "('e) fw_env_scheme \<Rightarrow> fw_state \<Rightarrow> int \<times> fw_state" where
  "currentStatus env s =
     (case ExecCmd env ''busctl get-property de.pengutronix.rauc / de.pengutronix.rauc.Installer Operation'' s of
        (res, s1) \<Rightarrow>
          (if contains ''idle'' res then -1 else if contains ''installing'' res then -2 else 0, s1))"

definition run_all :: "('e) fw_env_scheme \<Rightarrow> string list \<Rightarrow> fw_state \<Rightarrow> fw_state" where
  "run_all env cs s = fold (\<lambda>c s'. snd (ExecCmd env c s')) cs s"

abbreviation copy_grub :: string where "copy_grub \<equiv> ''sudo /bin/cp -f /etc/rauc/grub.conf /boot/grub/grub.conf''"

definition install_done :: string where "install_done = ''Installation done. Rebooting in 5 sec''"

definition installed_text :: "('e) fw_env_scheme \<Rightarrow> string" where
  "installed_text env = ''Installed '' @ time_text env"

definition install_rauc ::
  "('e) fw_env_scheme \<Rightarrow> string \<Rightarrow> fw_state \<Rightarrow> (go_error + install_result) \<times> fw_state" where
  "install_rauc env firmwarePath s =
     (case ExecCmd env (''rauc install '' @ firmwarePath) s of
        (res, s1) \<Rightarrow>
          if contains ''failed'' res then (Inr (InstallFailed (errorSanitization res)), s1)
          else
            (let res1 = (if contains ''Installing'' res \<and> contains ''succeeded'' res then install_done else res);
                 s2 = run_all env [copy_grub, ''rauc status mark-active other'', ''grub-install /dev/sda'',
                        ''update-grub''] s1;
                 s3 = filePutContents env installStatusFilePath (installed_text env) s2
             in case createGrubConfig env s3 of
                  (Inl p, s4) \<Rightarrow> (Inl p, s4)
                | (Inr _, s4) \<Rightarrow> (Inr (InstallSucceeded res1), reboot s4)))"

definition finish_install :: "('e) fw_env_scheme \<Rightarrow> fw_state \<Rightarrow> fw_state" where
  "finish_install env s =
     reboot (filePutContents env installStatusFilePath (installed_text env)
       (run_all env [copy_grub, ''rauc status mark-active other''] s))"

definition install_bundle :: "string \<Rightarrow> string" where
  "install_bundle firmwarePath =
     ''busctl call de.pengutronix.rauc / de.pengutronix.rauc.Installer InstallBundle sa{sv} ''
     @ firmwarePath @ '' 0''"

definition last_error :: string where
  "last_error = ''busctl get-property de.pengutronix.rauc / de.pengutronix.rauc.Installer LastError''"

definition install_idle ::
  "('e) fw_env_scheme \<Rightarrow> string \<Rightarrow> fw_state \<Rightarrow> install_result \<times> fw_state" where
  "install_idle env firmwarePath s =
     (if fileGetContents env installStatusFilePath s = ''Idle'' then
        (let s1 = filePutContents env installStatusFilePath (''Installing '' @ time_text env) s
         in (InstallSucceeded ''Installing'', snd (ExecCmd env (install_bundle firmwarePath) s1)))
      else
        (case ExecCmd env last_error s of
           (res, s1) \<Rightarrow>
             if res = ''s '' @ [CHR 0x22, CHR 0x22] then (InstallSucceeded install_done, finish_install env s1)
             else (InstallFailed (errorSanitization res), s1)))"

text \<open>The second word of a progress report that is a part of \<open>Copying\<close>: there is none.\<close>

definition install_running ::
  "('e) fw_env_scheme \<Rightarrow> string \<Rightarrow> fw_state \<Rightarrow> (go_error + install_result) \<times> fw_state" where
  "install_running env firmwarePath s =
     (case ExecCmd env (install_bundle firmwarePath) s of
        (res, s1) \<Rightarrow>
          if contains ''Already processing a different method'' res then
            (Inr (InstallSucceeded ''Still Installing ''), s1)
          else if contains ''Copying'' res then
            (case split_on (CHR '' '') res of
               w # v # ws \<Rightarrow> (Inr (InstallSucceeded (''Installing '' @ v @ ''%'')), s1)
             | _ \<Rightarrow> (Inl (Panic ''index out of range''), s1))
          else if contains ''Installing done'' res then
            (Inr (InstallSucceeded install_done), finish_install env s1)
          else if contains ''failed'' res then
            (Inr (InstallFailed (errorSanitization ''Installation Failed. Please try again'')),
             filePutContents env installStatusFilePath (''Error: '' @ res @ '' '' @ time_text env) s1)
          else
            (case ExecCmd env last_error s1 of
               (res1, s2) \<Rightarrow> (Inr (InstallFailed (errorSanitization res1)), s2)))"

definition install_image ::
  "('e) fw_env_scheme \<Rightarrow> int \<Rightarrow> string \<Rightarrow> string \<Rightarrow> fw_state \<Rightarrow> (go_error + install_result) \<times> fw_state" where
  "install_image env callType how firmwarePath s =
     (if \<not> fileExists firmwarePath s then (Inr (InstallFailed ''Firmware Image Not Found''), s)
      else if how = ''rauc'' then install_rauc env firmwarePath s
      else
        (case currentStatus env s of
           (status, s1) \<Rightarrow>
             (let s2 = (if callType = 0 then filePutContents env installStatusFilePath ''Idle'' s1 else s1) in
              if status = -1 then
                (case install_idle env firmwarePath s2 of (r, s3) \<Rightarrow> (Inr r, s3))
              else if status = -2 then install_running env firmwarePath s2
              else (Inr (InstallSucceeded []), s2))))"

definition install ::
  "('e) fw_env_scheme \<Rightarrow> int \<Rightarrow> string \<Rightarrow> fw_state \<Rightarrow> (go_error + install_result) \<times> fw_state" where
  "install env callType how s =
     (case (if fileExists firmware_path_file s then (fileGetContents env firmware_path_file s, s)
            else initSpace env s) of
        (dir, s1) \<Rightarrow>
          (case list_dir env dir of
             [name] \<Rightarrow> install_image env callType how (dir @ name) s1
           | _ \<Rightarrow> (Inr (InstallFailed ''Firmware Image Not Found or Multiple Firmware Images Found''), s1)))"

definition StartBoot :: "('e) fw_env_scheme \<Rightarrow> fw_state \<Rightarrow> (go_error + install_result) \<times> fw_state" where
  "StartBoot env s = install env 0 ''rauc'' s"

subsection \<open>Uploading\<close>

text \<open>The copy in chunks; what was written before a failure stays in the file.\<close>

fun copy_chunks :: "go_error option \<Rightarrow> (go_error + string) list \<Rightarrow> string \<Rightarrow> go_error option \<times> string" where
  "copy_chunks write_err [] written = (None, written)"
| "copy_chunks write_err (Inl e # rs) written = (Some e, written)"
| "copy_chunks write_err (Inr c # rs) written =
     (if c = [] then (None, written)
      else if write_err \<noteq> None then (write_err, written)
      else copy_chunks write_err rs (written @ c))"

definition FirmwareUpdate ::
  "('e) fw_env_scheme \<Rightarrow> multipart_file list \<Rightarrow> fw_state \<Rightarrow> string api_response \<times> fw_state" where
  "FirmwareUpdate env form s =
     (case form of
        [] \<Rightarrow> (NewErrorResponse StatusBadRequest ''Required field empty'' (Err ''required field is empty''), s)
      | f # _ \<Rightarrow>
          if filepath_ext (mf_filename f) \<noteq> ''.img'' then
            (NewErrorResponse StatusBadRequest ''extension not supported'' (Err ''extension not supported''), s)
          else
            (case mf_open_error f of
               Some e \<Rightarrow> (NewErrorResponse StatusBadRequest ''Error from client side'' e, s)
             | None \<Rightarrow>
                 (let p = FIRMWARE_FILE_PATH @ mf_filename f in
                  case create_fails env p of
                    Some e \<Rightarrow> (server_error e, s)
                  | None \<Rightarrow>
                      (case copy_chunks (write_fails env p) (mf_reads f) [] of
                         (err, written) \<Rightarrow>
                           (case err of
                              Some e \<Rightarrow> NewErrorResponse StatusBadRequest ''Error while fetching data'' e
                            | None \<Rightarrow> NewSuccessResponse ''Success'' (Some ''File uploaded successfully''),
                            s\<lparr>fw_files := (fw_files s)(p \<mapsto> written)\<rparr>)))))"

text \<open>The controller: the bodies it sends and whether it starts the installation three seconds later.\<close>

definition FirmwareUpdate_handler ::
  "('e) fw_env_scheme \<Rightarrow> bool \<Rightarrow> multipart_file list \<Rightarrow> fw_state
   \<Rightarrow> (string api_response list \<times> bool) \<times> fw_state" where
  "FirmwareUpdate_handler env parsed form s =
     (if \<not> parsed then
        (([NewErrorResponse StatusBadRequest ''error while parsing content''
             (Err ''error while parsing content'')], False), s)
      else
        (case FirmwareUpdate env form s of
           (resp, s1) \<Rightarrow>
             if resp_status resp \<noteq> StatusOK then (([resp], False), s1)
             else
               (([resp, NewSuccessResponse ''Firmware update started successfully.'' None], True), s1)))"

subsection \<open>No installation is ever completed\<close>

definition shell_works :: "('e) fw_env_scheme \<Rightarrow> bool" where
  "shell_works env \<longleftrightarrow> (\<forall>c. bash_starts env c 0)"

lemma command_output [simp]: "shell_works env \<Longrightarrow> ExecCmd env c s = ([], ran c s)"
  by (simp add: shell_works_def ExecCmd_def)

lemma contains_empty [simp]: "contains s []"
  by (cases s) (simp_all add: has_prefix_def)

lemma install_rauc_fails:
  assumes "shell_works env"
  shows "install_rauc env p s =
    (Inr (InstallFailed ''Invalid Firmware Image Uploaded''), ran (''rauc install '' @ p) s)"
  using assms by (simp add: install_rauc_def errorSanitization_def)

lemma other_steps [simp]:
  "fw_commands (filePutContents env p c s) = fw_commands s" "fw_reboots (filePutContents env p c s) = fw_reboots s"
  "fw_commands (put_if_missing env p c s) = fw_commands s" "fw_reboots (put_if_missing env p c s) = fw_reboots s"
  "fw_commands (make_dir env p s) = fw_commands s" "fw_reboots (make_dir env p s) = fw_reboots s"
  "fw_commands (ran k s) = fw_commands s @ [k]" "fw_reboots (ran k s) = fw_reboots s"
  by (simp_all add: filePutContents_def put_if_missing_def make_dir_def ran_def)

lemma initSpace_steps:
  assumes "shell_works env"
  shows "fw_commands (snd (initSpace env s)) = fw_commands s @ [''raucstatus mark-good'']
    \<and> fw_reboots (snd (initSpace env s)) = fw_reboots s"
  using assms by (simp add: initSpace_def Let_def)

text \<open>C29: no firmware update is ever completed while commands can be started, whatever the appliance and its
  files: it fails without an image, or the installer runs on the image, its output is lost, and an empty
  output counts as a failure and as an invalid image. Apart from the installer only the misspelt
  command of a fresh appliance is run, so the other slot is never made active, and there is no reboot.
\<close>

theorem firmware_update_never_completes:
  assumes "shell_works env"
  shows "\<exists>why cs s'. StartBoot env s = (Inr (InstallFailed why), s') \<and> fw_reboots s' = fw_reboots s
    \<and> fw_commands s' = fw_commands s @ cs
    \<and> cs \<in> {mark @ image | mark image. mark \<in> {[], [''raucstatus mark-good'']}
              \<and> (image = [] \<or> why = ''Invalid Firmware Image Uploaded'' \<and> (\<exists>p. image = [''rauc install '' @ p]))}"
proof -
  obtain dir s1 where start: "(if fileExists firmware_path_file s
      then (fileGetContents env firmware_path_file s, s) else initSpace env s) = (dir, s1)" by fastforce
  then obtain mark where s1: "fw_reboots s1 = fw_reboots s" "fw_commands s1 = fw_commands s @ mark"
    "mark \<in> {[], [''raucstatus mark-good'']}"
    using initSpace_steps [OF assms, of s] by (auto split: if_splits)
  have "StartBoot env s \<in> {(Inr (InstallFailed why), s1) | why. True}
      \<union> {(Inr (InstallFailed ''Invalid Firmware Image Uploaded''), ran (''rauc install '' @ p) s1) | p. True}"
    unfolding StartBoot_def install_def start prod.case install_image_def install_rauc_fails [OF assms]
    by (auto split: list.split)
  then obtain why image s' where "StartBoot env s = (Inr (InstallFailed why), s')" "fw_reboots s' = fw_reboots s1"
    "fw_commands s' = fw_commands s1 @ image"
    "image = [] \<or> why = ''Invalid Firmware Image Uploaded'' \<and> (\<exists>p. image = [''rauc install '' @ p])"
  proof (elim UnE CollectE exE conjE)
    fix why
    assume "StartBoot env s = (Inr (InstallFailed why), s1)"
    then show thesis by (intro that [of why s1 "[]"]) simp_all
  next
    fix p
    assume "StartBoot env s =
      (Inr (InstallFailed ''Invalid Firmware Image Uploaded''), ran (''rauc install '' @ p) s1)"
    then show thesis
      by (intro that [of "''Invalid Firmware Image Uploaded''" "ran (''rauc install '' @ p) s1"
          "[''rauc install '' @ p]"]) simp_all
  qed
  then show ?thesis
    using s1 by (intro exI [of _ why] exI [of _ "mark @ image"] exI [of _ s'] conjI) auto
qed

definition sample_fw_env :: fw_env where
  "sample_fw_env = \<lparr>bash_starts = \<lambda>_ _. True, bash_output = \<lambda>_. ''Installing succeeded'',
     program_starts = \<lambda>_. False, read_fails = \<lambda>_. False, write_fails = \<lambda>_. None,
     create_fails = \<lambda>_. None, mkdir_fails = \<lambda>_. False, list_dir = \<lambda>_. [''fw.img''], log_size = 0,
     boot_files = [''/boot/vmlinuz-6'', ''/boot/initrd.img-6''], time_text = ''now''\<rparr>"

theorem firmware_update_never_completes_witness:
  "fw_reboots (snd (StartBoot sample_fw_env \<lparr>fw_files = [''/var/www/firmware/fw.img'' \<mapsto> ''img''], fw_commands = [],
     fw_reboots = 0\<rparr>)) = 0"
proof -
  have "shell_works sample_fw_env" by (simp add: shell_works_def sample_fw_env_def)
  from firmware_update_never_completes [OF this, of "\<lparr>fw_files = [''/var/www/firmware/fw.img'' \<mapsto> ''img''],
      fw_commands = [], fw_reboots = 0\<rparr>"] show ?thesis by auto
qed

end
