(* ===== verification/Build_Upload.thy ===== *)
theory Build_Upload
  imports Task_Model Go_Text
begin

text \<open>
  \<open>service/uploadBuild.go\<close>: replacing the program by an uploaded build.

  The state is the files by path. File operations fail as the environment says; \<open>sha256sum\<close>, the new
  program and the service manager are parameters. A multipart file is read to its end by the first
  reader: the second one gets nothing. The deferred functions are written where they run; the
  goroutine that restarts the old build is recorded in \<open>old_restarts\<close> and runs later as
  \<open>execOldServiceRestart\<close>.
\<close>

record build_state =
  disk_files :: "string \<Rightarrow> string option"
  old_restarts :: "string list"

record build_env =
  build_lock_free :: bool
  work_dir :: "go_error + string"
  fails_open :: "string \<Rightarrow> go_error option"
  fails_create :: "string \<Rightarrow> go_error option"
  fails_write :: "string \<Rightarrow> go_error option"
  fails_read :: "string \<Rightarrow> go_error option"
  fails_remove :: "string \<Rightarrow> bool"
  sha256sum :: "string \<Rightarrow> go_error + string"
  sha256sum_check :: "string \<Rightarrow> string \<Rightarrow> go_error option"
  run_program :: "string \<Rightarrow> go_error + string"
  restart_service :: "go_error option"
  cp_works :: bool

definition CONFIG_BASE_PATH :: string where "CONFIG_BASE_PATH = ''/var/www/html/web/backend''"
definition temp_build :: "string \<Rightarrow> string" where "temp_build filename = ''/var/www/html/web/temp/'' @ filename"

subsection \<open>Files\<close>

definition put :: "string \<Rightarrow> string \<Rightarrow> build_state \<Rightarrow> build_state" where
  "put p c s = s\<lparr>disk_files := (disk_files s)(p \<mapsto> c)\<rparr>"

definition drop_file :: "('e) build_env_scheme \<Rightarrow> string \<Rightarrow> build_state \<Rightarrow> build_state" where
  "drop_file env p s = (if fails_remove env p then s else s\<lparr>disk_files := (disk_files s)(p := None)\<rparr>)"

definition open_write :: "('e) build_env_scheme \<Rightarrow> string \<Rightarrow> build_state \<Rightarrow> build_state" where
  "open_write env p s =
     (if fails_create env p \<noteq> None then s
      else case disk_files s p of None \<Rightarrow> put p [] s | Some _ \<Rightarrow> s)"

definition no_file :: go_error where "no_file = Err ''no such file or directory''"

text \<open>\<open>io.Copy\<close> of nothing writes nothing.\<close>

definition write_error :: "('e) build_env_scheme \<Rightarrow> string \<Rightarrow> string \<Rightarrow> go_error option" where
  "write_error env p c = (if c = [] then None else fails_write env p)"

definition read_file :: "('e) build_env_scheme \<Rightarrow> string \<Rightarrow> build_state \<Rightarrow> go_error + string" where
  "read_file env p s =
     (case disk_files s p of
        None \<Rightarrow> Inl no_file
      | Some c \<Rightarrow> (case fails_read env p of Some e \<Rightarrow> Inl e | None \<Rightarrow> Inr c))"

subsection \<open>The check of the upload\<close>

text \<open>\<open>sha256sum -c\<close> with the sum_text of the file that was just summed.\<close>

definition executeCommandForValidatingBinary ::
  "('e) build_env_scheme \<Rightarrow> string \<Rightarrow> string \<Rightarrow> go_error option" where
  "executeCommandForValidatingBinary env sum_text content = sha256sum_check env sum_text content"

text \<open>\<open>rest\<close> is what is left to read of the upload.\<close>

definition execSha256ChecksumValidation ::
  "('e) build_env_scheme \<Rightarrow> string \<Rightarrow> build_state \<Rightarrow> go_error option \<times> build_state" where
  "execSha256ChecksumValidation env rest s =
     (case work_dir env of
        Inl e \<Rightarrow> (Some e, s)
      | Inr dir \<Rightarrow>
          (let temp = dir @ ''/tempBuild''; sums_file = dir @ ''.sha256'' in
           case fails_create env temp of
             Some e \<Rightarrow> (Some e, s)
           | None \<Rightarrow>
               (case write_error env temp rest of
                  Some e \<Rightarrow> (Some e, put temp [] s)
                | None \<Rightarrow>
                    (let s1 = put temp rest s in
                     case fails_create env sums_file of
                       Some e \<Rightarrow> (Some e, s1)
                     | None \<Rightarrow>
                         (let cleaned = drop_file env temp (drop_file env sums_file (put sums_file [] s1)) in
                          case sha256sum env rest of
                            Inl e \<Rightarrow> (Some e, cleaned)
                          | Inr sum_text \<Rightarrow> (executeCommandForValidatingBinary env sum_text rest, cleaned))))))"

subsection \<open>Copying and restoring\<close>

definition program_path :: "string \<Rightarrow> string" where
  "program_path filename =
     (if filename = ''initSystem'' then CONFIG_BASE_PATH @ ''/InitSystem/initSystem''
      else CONFIG_BASE_PATH @ ''/'' @ filename)"

text \<open>The error of the write is overwritten by that of reading the file back.\<close>

definition CopyFileContent ::
  "('e) build_env_scheme \<Rightarrow> string \<Rightarrow> string \<Rightarrow> build_state \<Rightarrow> go_error option \<times> build_state" where
  "CopyFileContent env content filename s =
     (let p = program_path filename;
          s1 = drop_file env p s;
          s2 = (if fails_write env p = None then put p content s1 else s1)
      in (case read_file env p s2 of Inl e \<Rightarrow> Some e | Inr _ \<Rightarrow> None, s2))"

text \<open>
  The saved build is opened for writing only: reading it fails, the error is ignored and nothing is
  written to the new file. The path is that of \<open>main\<close> for every program.
\<close>

definition RestoreOldBuild :: "('e) build_env_scheme \<Rightarrow> string \<Rightarrow> build_state \<Rightarrow> build_state" where
  "RestoreOldBuild env filename s =
     (let p = CONFIG_BASE_PATH @ ''/'' @ filename;
          s1 = open_write env (temp_build filename) s
      in open_write env p (drop_file env p s1))"

definition execOldServiceRestart :: "('e) build_env_scheme \<Rightarrow> string \<Rightarrow> build_state \<Rightarrow> build_state" where
  "execOldServiceRestart env filename s =
     (let target = (if filename = ''initSystem'' then ''/var/www/html/'' else CONFIG_BASE_PATH @ ''/'') @ filename
      in case disk_files s (temp_build filename) of
           None \<Rightarrow> s
         | Some c \<Rightarrow> if cp_works env then put target c s else s)"

subsection \<open>Starting the new build\<close>

definition old_glibc :: "string \<Rightarrow> bool" where
  "old_glibc out \<longleftrightarrow>
     contains out ([CHR 0x60] @ ''GLIBC_2.34'' @ [CHR 0x27] @ '' not found'')
     \<or> contains out ([CHR 0x60] @ ''GLIBC_2.32'' @ [CHR 0x27] @ '' not found'')"

definition give_up :: "('e) build_env_scheme \<Rightarrow> string \<Rightarrow> build_state \<Rightarrow> build_state" where
  "give_up env filename s =
     (let s1 = RestoreOldBuild env filename s in s1\<lparr>old_restarts := old_restarts s1 @ [filename]\<rparr>)"

definition started_path :: "string \<Rightarrow> string" where
  "started_path filename =
     (if filename = ''initSystem'' then program_path filename else CONFIG_BASE_PATH @ ''/main'')"

definition execServiceRestart ::
  "('e) build_env_scheme \<Rightarrow> string \<Rightarrow> build_state \<Rightarrow> go_error option \<times> build_state" where
  "execServiceRestart env filename s =
     (case (case disk_files s (started_path filename) of None \<Rightarrow> Inl no_file | Some c \<Rightarrow> run_program env c) of
        Inl e \<Rightarrow> (Some e, give_up env filename s)
      | Inr out \<Rightarrow>
          if old_glibc out then (Some (Err ''incompatible GLIBC version''), give_up env filename s)
          else
            (case restart_service env of
               Some e \<Rightarrow> (Some e, give_up env filename s)
             | None \<Rightarrow> (None, s)))"

subsection \<open>The request\<close>

definition refused :: "go_error \<Rightarrow> string api_response" where
  "refused e = NewErrorResponse StatusBadRequest ''Error from server side'' e"

text \<open>
  Saving the running build, the steps with the deferred restore, and the whole. The comparison that
  guards \<open>execCopyCommand\<close> is between an absolute and a relative path: the command never runs. The
  answer does not depend on the restart.
\<close>

definition save_old ::
  "('e) build_env_scheme \<Rightarrow> string \<Rightarrow> build_state \<Rightarrow> go_error option \<times> build_state" where
  "save_old env filename s =
     (let p = program_path filename; t = temp_build filename in
      case disk_files s p of
        None \<Rightarrow> (Some no_file, s)
      | Some c \<Rightarrow>
          (case fails_open env p of
             Some e \<Rightarrow> (Some e, s)
           | None \<Rightarrow>
               (case fails_create env t of
                  Some e \<Rightarrow> (Some e, s)
                | None \<Rightarrow>
                    (let existing = (case fails_read env p of Some e \<Rightarrow> [] | None \<Rightarrow> c) in
                     case write_error env t existing of
                       Some e \<Rightarrow> (Some e, put t [] s)
                     | None \<Rightarrow> (None, put t existing s)))))"

definition install_build ::
  "('e) build_env_scheme \<Rightarrow> string \<Rightarrow> string \<Rightarrow> build_state \<Rightarrow> string api_response \<times> build_state" where
  "install_build env upload filename s =
     (case CopyFileContent env upload filename s of
        (Some e, s1) \<Rightarrow> (refused e, RestoreOldBuild env filename s1)
      | (None, s1) \<Rightarrow>
          (NewSuccessResponse ''Success'' (Some ''Build Uploaded Successfully''),
           snd (execServiceRestart env filename s1)))"

definition UploadBuild ::
  "('e) build_env_scheme \<Rightarrow> string \<Rightarrow> string \<Rightarrow> build_state \<Rightarrow> string api_response \<times> build_state" where
  "UploadBuild env upload filename s =
     (if \<not> build_lock_free env then (refused (Err ''timeout while acquiring lock''), s)
      else if filename \<noteq> ''main'' \<and> filename \<noteq> ''initSystem'' then (refused (Err ''invalid filename''), s)
      else
        (let rest = [] in
         case execSha256ChecksumValidation env rest s of
           (Some e, s1) \<Rightarrow> (refused e, s1)
         | (None, s1) \<Rightarrow>
             (case save_old env filename s1 of
                (Some e, s2) \<Rightarrow> (refused e, s2)
              | (None, s2) \<Rightarrow> install_build env upload filename s2)))"

text \<open>The controller.\<close>

definition UploadBuild_handler ::
  "('e) build_env_scheme \<Rightarrow> bool \<Rightarrow> go_error + string \<times> string \<Rightarrow> build_state
   \<Rightarrow> (go_error + string api_response) \<times> build_state" where
  "UploadBuild_handler env parsed form s =
     (if \<not> parsed then
        (Inr (NewErrorResponse StatusBadRequest ''error while parsing content''
           (Err ''error while parsing content'')), s)
      else
        (case form of
           Inl e \<Rightarrow> (Inl e, s)
         | Inr (filename, upload) \<Rightarrow>
             (case UploadBuild env upload filename s of (resp, s1) \<Rightarrow> (Inr resp, s1))))"

subsection \<open>What an upload leaves behind\<close>

text \<open>A disk that works, a service that restarts; about the checksum only that of the empty file counts.\<close>

definition build_works :: "('e) build_env_scheme \<Rightarrow> bool" where
  "build_works env \<longleftrightarrow> build_lock_free env \<and> (\<exists>dir. work_dir env = Inr dir)
     \<and> (\<forall>p. fails_open env p = None \<and> fails_create env p = None \<and> fails_write env p = None
           \<and> fails_read env p = None \<and> \<not> fails_remove env p)
     \<and> (\<exists>d. sha256sum env [] = Inr d \<and> sha256sum_check env d [] = None)"

lemma build_steps:
  assumes "build_works env"
  shows "write_error env p c = None" "drop_file env p s = s\<lparr>disk_files := (disk_files s)(p := None)\<rparr>"
    "open_write env p s = (case disk_files s p of None \<Rightarrow> put p [] s | Some _ \<Rightarrow> s)"
    "read_file env p s = (case disk_files s p of None \<Rightarrow> Inl no_file | Some c \<Rightarrow> Inr c)"
  using assms by (simp_all add: build_works_def write_error_def drop_file_def open_write_def read_file_def
      split: option.split)

text \<open>The files of the check are not those of the program.\<close>

lemma other_files:
  assumes "f = ''main'' \<or> f = ''initSystem''" "p \<in> {program_path f, temp_build f}"
  shows "p \<noteq> dir @ ''/tempBuild''" "p \<noteq> dir @ ''.sha256''"
proof -
  have "last p = CHR ''n'' \<or> last p = CHR ''m''"
    using assms by (auto simp: program_path_def temp_build_def)
  then show "p \<noteq> dir @ ''/tempBuild''" "p \<noteq> dir @ ''.sha256''" by auto
qed

lemma checksum_passes:
  assumes "build_works env" "f = ''main'' \<or> f = ''initSystem''"
  shows "\<exists>s1. execSha256ChecksumValidation env [] s = (None, s1) \<and> old_restarts s1 = old_restarts s
    \<and> (\<forall>p \<in> {program_path f, temp_build f}. disk_files s1 p = disk_files s p)"
proof -
  obtain dir d where dir: "work_dir env = Inr dir" and d: "sha256sum env [] = Inr d" "sha256sum_check env d [] = None"
    using assms(1) unfolding build_works_def by blast
  have "fails_create env p = None" "fails_write env p = None" for p
    using assms(1) by (simp_all add: build_works_def)
  then show ?thesis
    using other_files [OF assms(2)]
    by (simp add: execSha256ChecksumValidation_def dir d Let_def build_steps [OF assms(1)] put_def
        executeCommandForValidatingBinary_def)
qed

lemma separate_files:
  "f = ''main'' \<or> f = ''initSystem'' \<Longrightarrow> temp_build f \<noteq> program_path f"
  "temp_build f \<noteq> CONFIG_BASE_PATH @ ''/'' @ f"
  by (auto simp: temp_build_def program_path_def CONFIG_BASE_PATH_def)

lemma old_build_saved:
  assumes "build_works env" "disk_files s (program_path f) = Some old"
  shows "save_old env f s = (None, put (temp_build f) old s)"
proof -
  have "fails_open env p = None" "fails_create env p = None" "fails_read env p = None" for p
    using assms(1) by (simp_all add: build_works_def)
  then show ?thesis by (simp add: save_old_def Let_def assms(2) build_steps(1) [OF assms(1)])
qed

lemma content_copied:
  assumes "build_works env"
  shows "\<exists>s1. CopyFileContent env up f s = (None, s1) \<and> old_restarts s1 = old_restarts s
    \<and> disk_files s1 = (disk_files s)(program_path f \<mapsto> up)"
proof -
  have "fails_write env p = None" for p using assms by (simp add: build_works_def)
  then show ?thesis by (simp add: CopyFileContent_def Let_def build_steps [OF assms] put_def)
qed

lemma upload_reaches_start:
  assumes "build_works env" "f = ''main'' \<or> f = ''initSystem''" "disk_files s (program_path f) = Some old"
  shows "\<exists>s1. UploadBuild env up f s =
      (NewSuccessResponse ''Success'' (Some ''Build Uploaded Successfully''), snd (execServiceRestart env f s1))
    \<and> disk_files s1 (program_path f) = Some up \<and> disk_files s1 (temp_build f) = Some old
    \<and> old_restarts s1 = old_restarts s"
proof -
  obtain s1 where s1: "execSha256ChecksumValidation env [] s = (None, s1)" "old_restarts s1 = old_restarts s"
    "disk_files s1 (program_path f) = Some old"
    using checksum_passes [OF assms(1, 2), of s] assms(3) by auto
  let ?s2 = "put (temp_build f) old s1"
  obtain s3 where s3: "CopyFileContent env up f ?s2 = (None, s3)" "old_restarts s3 = old_restarts ?s2"
    "disk_files s3 = (disk_files ?s2)(program_path f \<mapsto> up)"
    using content_copied [OF assms(1), of up f ?s2] by blast
  have "UploadBuild env up f s =
      (NewSuccessResponse ''Success'' (Some ''Build Uploaded Successfully''), snd (execServiceRestart env f s3))"
    using assms(1, 2) s1(1) old_build_saved [OF assms(1) s1(3)] s3(1)
    by (auto simp: UploadBuild_def install_build_def build_works_def)
  moreover have "disk_files s3 (program_path f) = Some up" "disk_files s3 (temp_build f) = Some old"
    "old_restarts s3 = old_restarts s"
    using s1(2) s3(2, 3) separate_files(1) [OF assms(2)] by (simp_all add: put_def)
  ultimately show ?thesis by blast
qed

text \<open>Whatever bytes are uploaded become the program, if they start: the checksum that is verified is
  that of an empty file.
\<close>

theorem any_build_is_installed:
  assumes "build_works env" "f = ''main'' \<or> f = ''initSystem''" "disk_files s (program_path f) = Some old"
    and "run_program env up = Inr out" "\<not> old_glibc out" "restart_service env = None"
  shows "resp_status (fst (UploadBuild env up f s)) = StatusOK
    \<and> disk_files (snd (UploadBuild env up f s)) (program_path f) = Some up"
proof -
  have "started_path f = program_path f" using assms(2) by (auto simp: started_path_def program_path_def)
  with upload_reaches_start [OF assms(1-3), of up] assms(4-6) show ?thesis
    by (auto simp: execServiceRestart_def)
qed

text \<open>An upload of the main program that does not start is answered as a success. The deferred restore
  leaves an empty program, since it reads the saved build from a file opened for writing; only the
  goroutine three seconds later brings the saved build back.
\<close>

theorem failed_build_is_rolled_back_late:
  assumes "build_works env" "cp_works env" "disk_files s (program_path ''main'') = Some old"
    and "run_program env up = Inl e"
    and result: "UploadBuild env up ''main'' s = (resp, s')"
  shows "resp_status resp = StatusOK \<and> disk_files s' (program_path ''main'') = Some []
    \<and> old_restarts s' = old_restarts s @ [''main'']
    \<and> disk_files (execOldServiceRestart env ''main'' s') (program_path ''main'') = Some old"
proof -
  obtain s1 where s1: "UploadBuild env up ''main'' s =
      (NewSuccessResponse ''Success'' (Some ''Build Uploaded Successfully''), snd (execServiceRestart env ''main'' s1))"
    "disk_files s1 (program_path ''main'') = Some up" "disk_files s1 (temp_build ''main'') = Some old"
    "old_restarts s1 = old_restarts s"
    using upload_reaches_start [OF assms(1) _ assms(3), of up] by auto
  have paths: "started_path ''main'' = program_path ''main''" "CONFIG_BASE_PATH @ ''/main'' = program_path ''main''"
    by (simp_all add: started_path_def program_path_def)
  have "temp_build ''main'' \<noteq> program_path ''main''" by (rule separate_files(1)) simp
  then show ?thesis
    using s1 assms(2, 4) result
    by (auto simp: execServiceRestart_def paths give_up_def RestoreOldBuild_def execOldServiceRestart_def
        build_steps [OF assms(1)] put_def Let_def)
qed

text \<open>For the other program the restore and the goroutine both write elsewhere: the bad build stays.\<close>

theorem failed_init_build_stays:
  assumes "build_works env" "disk_files s (program_path ''initSystem'') = Some old"
    and "run_program env up = Inl e" "UploadBuild env up ''initSystem'' s = (resp, s')"
  shows "resp_status resp = StatusOK
    \<and> disk_files (execOldServiceRestart env ''initSystem'' s') (program_path ''initSystem'') = Some up"
proof -
  obtain s1 where s1: "UploadBuild env up ''initSystem'' s =
      (NewSuccessResponse ''Success'' (Some ''Build Uploaded Successfully''), snd (execServiceRestart env ''initSystem'' s1))"
    "disk_files s1 (program_path ''initSystem'') = Some up" "disk_files s1 (temp_build ''initSystem'') = Some old"
    using upload_reaches_start [OF assms(1) _ assms(2), of up] by auto
  have paths: "started_path ''initSystem'' = program_path ''initSystem''"
    "CONFIG_BASE_PATH @ ''/initSystem'' \<noteq> program_path ''initSystem''"
    "''/var/www/html/initSystem'' \<noteq> program_path ''initSystem''"
    "temp_build ''initSystem'' \<noteq> program_path ''initSystem''"
    by (simp_all add: started_path_def program_path_def CONFIG_BASE_PATH_def temp_build_def)
  then show ?thesis
    using s1 assms(3, 4)
    by (auto simp: execServiceRestart_def give_up_def RestoreOldBuild_def execOldServiceRestart_def
        build_steps [OF assms(1)] put_def Let_def split: option.splits)
qed

definition sample_build_env :: build_env where
  "sample_build_env = \<lparr>build_lock_free = True, work_dir = Inr ''/root'', fails_open = \<lambda>_. None,
     fails_create = \<lambda>_. None, fails_write = \<lambda>_. None, fails_read = \<lambda>_. None, fails_remove = \<lambda>_. False,
     sha256sum = \<lambda>c. Inr (CHR ''h'' # c), sha256sum_check = \<lambda>h c. (if h = CHR ''h'' # c then None else Some (Err [])),
     run_program = \<lambda>c. (if c = ''bad'' then Inl (Err ''exit status 2'') else Inr ''ok''),
     restart_service = None, cp_works = True\<rparr>"

definition running_build :: build_state where
  "running_build = \<lparr>disk_files = [program_path ''main'' \<mapsto> ''old''], old_restarts = []\<rparr>"

lemma sample_build_works [simp]: "build_works sample_build_env"
  by (simp add: build_works_def sample_build_env_def)

theorem any_build_is_installed_witness:
  "disk_files (snd (UploadBuild sample_build_env ''virus'' ''main'' running_build)) (program_path ''main'')
     = Some ''virus''"
  using any_build_is_installed [of sample_build_env "''main''" running_build "''old''" "''virus''" "''ok''"]
  by (simp add: running_build_def sample_build_env_def old_glibc_def has_prefix_def
      sample_build_works [unfolded sample_build_env_def])

theorem failed_build_is_rolled_back_late_witness:
  "\<exists>resp s'. UploadBuild sample_build_env ''bad'' ''main'' running_build = (resp, s')
     \<and> disk_files s' (program_path ''main'') = Some []
     \<and> disk_files (execOldServiceRestart sample_build_env ''main'' s') (program_path ''main'') = Some ''old''"
proof -
  obtain resp s' where r: "UploadBuild sample_build_env ''bad'' ''main'' running_build = (resp, s')" by fastforce
  have "disk_files running_build (program_path ''main'') = Some ''old''" by (simp add: running_build_def)
  from failed_build_is_rolled_back_late [OF sample_build_works _ this _ r] r
  show ?thesis by (simp add: sample_build_env_def)
qed

end
