(* ===== verification/Interface_Handlers.thy ===== *)
theory Interface_Handlers
  imports Bridges Vlans_Bonds Physical_Ports Static_Routes Session_Audit
begin

text \<open>
  \<open>controller/interface_handler/handler.go\<close>: the HTTP handlers in front of the bridge, vlan, bond, port
  and routing services. A handler reads the session where it needs the user, binds the body (a
  parameter: the bound request or the error of binding it), runs its service on the host and answers.
  A panic of the service is not answered by the handler.
\<close>

subsection \<open>Answers\<close>

type_synonym 'a reply = "go_error + 'a api_response"

definition client_side :: "go_error \<Rightarrow> 'a api_response" where
  "client_side e = NewErrorResponse StatusBadRequest ''Error from client side'' e"

definition StatusInternalServerError :: int where "StatusInternalServerError = 500"

definition answered :: "int \<Rightarrow> string \<Rightarrow> (go_error + 'a) \<times> 's \<Rightarrow> 'a reply \<times> 's" where
  "answered code msg r =
     (case r of
        (Inl (Panic p), s) \<Rightarrow> (Inl (Panic p), s)
      | (Inl (Err e), s) \<Rightarrow> (Inr (NewErrorResponse code msg (Err e)), s)
      | (Inr data, s) \<Rightarrow> (Inr (NewSuccessResponse ''Success'' (Some data)), s))"

definition bound_then :: "go_error + 'r \<Rightarrow> ('r \<Rightarrow> 's \<Rightarrow> 'a reply \<times> 's) \<Rightarrow> 's \<Rightarrow> 'a reply \<times> 's" where
  "bound_then req f s = (case req of Inl e \<Rightarrow> (Inr (client_side e), s) | Inr r \<Rightarrow> f r s)"

text \<open>The user of the session, or the answer without one.\<close>

definition with_user :: "session \<Rightarrow> ('s \<Rightarrow> 'a reply \<times> 's) \<Rightarrow> 's \<Rightarrow> 'a reply \<times> 's" where
  "with_user session f s =
     (case GetCurUsr session of
        (_, usrResp) \<Rightarrow> if resp_status usrResp \<noteq> StatusOK then (Inr usrResp, s) else f s)"

subsection \<open>Ports\<close>

definition GetPortMapping_handler ::
  "('k, 'e) netlink_scheme \<Rightarrow> ('k, 'y, 'm) host_scheme
   \<Rightarrow> (string \<times> string \<times> bool) list reply \<times> ('k, 'y, 'm) host_scheme" where
  "GetPortMapping_handler nl s =
     answered StatusInternalServerError ''Failed to fetch port mapping'' (GetPortMapping nl (kernel s), s)"

definition ListPhysicalInterfacesHandler ::
  "('y, 'f) net_env_scheme \<Rightarrow> ('k, 'e) port_env_scheme \<Rightarrow> string \<Rightarrow> ('k, 'y, 'm) host_scheme
   \<Rightarrow> physical_interface list reply \<times> ('k, 'y, 'm) host_scheme" where
  "ListPhysicalInterfacesHandler env nl name s =
     answered StatusInternalServerError ''Failed to fetch physical interfaces''
       (ListPhysicalInterfaces env nl (trim_space name) ''MAIN'' s)"

text \<open>The flag says that the back end is restarted five seconds later.\<close>

definition UpdatePhysicalInterfaceHandler ::
  "('y, 'f) net_env_scheme \<Rightarrow> ('k, 'e) port_env_scheme \<Rightarrow> session \<Rightarrow> string \<Rightarrow> go_error + physical_request
   \<Rightarrow> ('k, 'y, 'm) ports_scheme \<Rightarrow> (physical_interface list reply \<times> bool) \<times> ('k, 'y, 'm) ports_scheme" where
  "UpdatePhysicalInterfaceHandler env nl session name req s =
     (case with_user session
             (bound_then req (\<lambda>r s.
                answered StatusBadRequest ''Failed to update'' (UpdatePhysicalInterface env nl (trim_space name) r s))) s
      of (reply, s') \<Rightarrow>
        ((reply, (case (reply, req) of
                    (Inr resp, Inr r) \<Rightarrow> resp_status resp = StatusOK \<and> v4_on (pr_v4 r)
                  | _ \<Rightarrow> False)), s'))"

subsection \<open>Vlans\<close>

definition CreateVlanInterfaceHandler ::
  "('y, 'f) net_env_scheme \<Rightarrow> ('k, 'e) netlink_scheme \<Rightarrow> go_error + vlan_request \<Rightarrow> ('k, 'y, 'm) host_scheme
   \<Rightarrow> vlan_interface list reply \<times> ('k, 'y, 'm) host_scheme" where
  "CreateVlanInterfaceHandler env nl req =
     bound_then req (\<lambda>r s.
       answered StatusInternalServerError ''Failed to create VLAN interface'' (CreateVlanInterface env nl r s))"

definition ListVlanInterfacesHandler ::
  "('y, 'f) net_env_scheme \<Rightarrow> ('k, 'e) netlink_scheme \<Rightarrow> string \<Rightarrow> ('k, 'y, 'm) host_scheme
   \<Rightarrow> vlan_interface list reply \<times> ('k, 'y, 'm) host_scheme" where
  "ListVlanInterfacesHandler env nl name s =
     answered StatusInternalServerError ''Failed to fetch VLAN interfaces''
       (ListVlanInterfaces env nl (trim_space name) s)"

definition DeleteVlanInterfaceHandler ::
  "('y, 'f) net_env_scheme \<Rightarrow> ('k, 'e) netlink_scheme \<Rightarrow> string \<Rightarrow> ('k, 'y, 'm) host_scheme
   \<Rightarrow> vlan_interface list reply \<times> ('k, 'y, 'm) host_scheme" where
  "DeleteVlanInterfaceHandler env nl name s =
     answered StatusInternalServerError ''Failed to delete VLAN interface''
       (DeleteVlanInterface env nl (trim_space name) s)"

definition UpdateVlanInterfaceHandler ::
  "('y, 'f) net_env_scheme \<Rightarrow> ('k, 'e) netlink_scheme \<Rightarrow> string \<Rightarrow> go_error + vlan_update
   \<Rightarrow> ('k, 'y, 'm) host_scheme \<Rightarrow> vlan_interface list reply \<times> ('k, 'y, 'm) host_scheme" where
  "UpdateVlanInterfaceHandler env nl name req =
     bound_then req (\<lambda>r s.
       answered StatusInternalServerError ''Failed to update VLAN interface''
         (UpdateVlanInterface env nl (trim_space name) r s))"

subsection \<open>Bonds\<close>

definition CreateBondedLink_handler ::
  "('y, 'f) net_env_scheme \<Rightarrow> ('k, 'e) netlink_scheme \<Rightarrow> go_error + bond_request \<Rightarrow> ('k, 'y, 'm) host_scheme
   \<Rightarrow> bond_interface list reply \<times> ('k, 'y, 'm) host_scheme" where
  "CreateBondedLink_handler env nl req =
     bound_then req (\<lambda>r s.
       answered StatusInternalServerError ''Failed to create bonded link'' (CreateBondedLink env nl r s))"

definition UpdateBondInterface_handler ::
  "('y, 'f) net_env_scheme \<Rightarrow> ('k, 'e) netlink_scheme \<Rightarrow> string \<Rightarrow> go_error + bond_update
   \<Rightarrow> ('k, 'y, 'm) host_scheme \<Rightarrow> bond_interface list reply \<times> ('k, 'y, 'm) host_scheme" where
  "UpdateBondInterface_handler env nl name req =
     bound_then req (\<lambda>r s.
       answered StatusInternalServerError ''Failed to update bond interface''
         (UpdateBondInterface env nl (trim_space name) r s))"

definition ListBondInterfaces_handler ::
  "('y, 'f) net_env_scheme \<Rightarrow> ('k, 'e) netlink_scheme \<Rightarrow> string \<Rightarrow> ('k, 'y, 'm) host_scheme
   \<Rightarrow> bond_interface list reply \<times> ('k, 'y, 'm) host_scheme" where
  "ListBondInterfaces_handler env nl name s =
     answered StatusInternalServerError ''Failed to fetch bond interfaces''
       (ListBondInterfaces env nl (trim_space name) s)"

definition DeleteBondInterface_handler ::
  "('y, 'f) net_env_scheme \<Rightarrow> ('k, 'e) netlink_scheme \<Rightarrow> string \<Rightarrow> ('k, 'y, 'm) host_scheme
   \<Rightarrow> bond_interface list reply \<times> ('k, 'y, 'm) host_scheme" where
  "DeleteBondInterface_handler env nl name s =
     answered StatusInternalServerError ''Failed to delete bond interface''
       (DeleteBondInterface env nl (trim_space name) s)"

subsection \<open>Bridges\<close>

definition CreateBridgeInterfaceHandler ::
  "('y, 'f) net_env_scheme \<Rightarrow> ('k, 'e) netlink_scheme \<Rightarrow> go_error + bridge_request \<Rightarrow> ('k, 'y, 'm) host_scheme
   \<Rightarrow> bridge_interface list reply \<times> ('k, 'y, 'm) host_scheme" where
  "CreateBridgeInterfaceHandler env nl req =
     bound_then req (\<lambda>r s.
       answered StatusInternalServerError ''Failed to create bridge interface'' (CreateBridgeInterface env nl r s))"

definition ListBridgeInterfacesHandler ::
  "('y, 'f) net_env_scheme \<Rightarrow> ('k, 'e) netlink_scheme \<Rightarrow> string \<Rightarrow> ('k, 'y, 'm) host_scheme
   \<Rightarrow> bridge_interface list reply \<times> ('k, 'y, 'm) host_scheme" where
  "ListBridgeInterfacesHandler env nl name s =
     answered StatusInternalServerError ''Failed to fetch bridge interfaces''
       (ListBridgeInterfaces env nl (trim_space name) s)"

definition UpdateBridgeInterfaceHandler ::
  "('y, 'f) net_env_scheme \<Rightarrow> ('k, 'e) netlink_scheme \<Rightarrow> string \<Rightarrow> go_error + bridge_update
   \<Rightarrow> ('k, 'y, 'm) host_scheme \<Rightarrow> bridge_interface list reply \<times> ('k, 'y, 'm) host_scheme" where
  "UpdateBridgeInterfaceHandler env nl name req =
     bound_then req (\<lambda>r s.
       answered StatusInternalServerError ''Failed to update bridge interface''
         (UpdateBridgeInterface env nl (trim_space name) r s))"

definition DeleteBridgeInterfaceHandler ::
  "('y, 'f) net_env_scheme \<Rightarrow> ('k, 'e) netlink_scheme \<Rightarrow> string \<Rightarrow> ('k, 'y, 'm) host_scheme
   \<Rightarrow> bridge_interface list reply \<times> ('k, 'y, 'm) host_scheme" where
  "DeleteBridgeInterfaceHandler env nl name s =
     answered StatusInternalServerError ''Failed to delete bridge interface''
       (DeleteBridgeInterface env nl (trim_space name) s)"

subsection \<open>Static routes\<close>

definition ErrInvalidOperation :: go_error where "ErrInvalidOperation = Err ''invalid operation''"

definition route_operation :: "string \<Rightarrow> bool" where
  "route_operation op \<longleftrightarrow> op \<in> {Type_IPV4_UNICAST, Type_IPV6_UNICAST, Type_MULTICAST}"

definition only_operations :: "'a api_response" where
  "only_operations = NewErrorResponse StatusBadRequest
     ''only ipv4_unicast, ipv6_unicast & multicast operations are allowed'' ErrInvalidOperation"

definition CreateStaticRouteHandler ::
  "('y, 'f) net_env_scheme \<Rightarrow> ('k, 'e) netlink_scheme \<Rightarrow> session \<Rightarrow> go_error + route_request
   \<Rightarrow> ('k, 'y, 'm) host_scheme \<Rightarrow> static_routes reply \<times> ('k, 'y, 'm) host_scheme" where
  "CreateStaticRouteHandler env nl session req =
     with_user session (bound_then req (\<lambda>r s.
       answered StatusInternalServerError ''Failed to create static route''
         (file_query (CreateStaticRoute env nl (kernel s) r) s)))"

definition ListStaticRoutesHandler ::
  "('y, 'f) net_env_scheme \<Rightarrow> ('k, 'y, 'm) host_scheme \<Rightarrow> static_routes reply \<times> ('k, 'y, 'm) host_scheme" where
  "ListStaticRoutesHandler env s =
     answered StatusInternalServerError ''Failed to fetch static route configs''
       (file_query (ListStaticRoutes env) s)"

text \<open>The route to delete, from the parameters of the query.\<close>

definition no_route :: static_route where
  "no_route = \<lparr>st_ipv4 = \<lparr>r4_destination = [], r4_netmask = [], r4_gateway = [], r4_interface = [],
       r4_distance = 0, r4_metric = 0\<rparr>,
     st_ipv6 = \<lparr>r6_destination = [], r6_prefix = [], r6_gateway = [], r6_interface = [], r6_metric = 0\<rparr>,
     st_multicast = \<lparr>mr_source_ip = [], mr_source = [], mr_group = [], mr_destination = []\<rparr>\<rparr>"

definition queried_route :: "string \<Rightarrow> (string \<Rightarrow> string) \<Rightarrow> static_route" where
  "queried_route operation query_value =
     (let q = \<lambda>name. trim_space (query_value name) in
      if operation = Type_IPV4_UNICAST then
        no_route\<lparr>st_ipv4 := (st_ipv4 no_route)\<lparr>r4_interface := q ''interface'', r4_destination := q ''ip'',
                    r4_netmask := q ''netmask''\<rparr>\<rparr>
      else if operation = Type_IPV6_UNICAST then
        no_route\<lparr>st_ipv6 := (st_ipv6 no_route)\<lparr>r6_interface := q ''interface'', r6_destination := q ''ip'',
                    r6_prefix := q ''prefix''\<rparr>\<rparr>
      else
        no_route\<lparr>st_multicast := (st_multicast no_route)\<lparr>mr_source := q ''source'', mr_source_ip := q ''ip'',
                    mr_destination := q ''destination'', mr_group := q ''multicast''\<rparr>\<rparr>)"

definition DeleteStaticRouteHandler ::
  "('y, 'f) net_env_scheme \<Rightarrow> session \<Rightarrow> string \<Rightarrow> (string \<Rightarrow> string) \<Rightarrow> ('k, 'y, 'm) host_scheme
   \<Rightarrow> static_routes reply \<times> ('k, 'y, 'm) host_scheme" where
  "DeleteStaticRouteHandler env session param query_value =
     with_user session (\<lambda>s.
       let operation = trim_space param in
       if operation = [] then (Inr (client_side ErrInvalidOperation), s)
       else if \<not> route_operation operation then (Inr only_operations, s)
       else
         answered StatusInternalServerError ''Failed to delete static route config''
           (file_query (DeleteStaticRoute env
              \<lparr>rq_operation = operation, rq_route = queried_route operation query_value\<rparr>) s))"

definition UpdateStaticRouteHandler ::
  "('y, 'f) net_env_scheme \<Rightarrow> ('k, 'e) netlink_scheme \<Rightarrow> session \<Rightarrow> string \<Rightarrow> go_error + static_route \<times> static_route
   \<Rightarrow> ('k, 'y, 'm) host_scheme \<Rightarrow> static_routes reply \<times> ('k, 'y, 'm) host_scheme" where
  "UpdateStaticRouteHandler env nl session param req =
     bound_then req (\<lambda>(old, new). with_user session (\<lambda>s.
       let operation = trim_space param in
       if operation = [] then
         (Inr (NewErrorResponse StatusBadRequest ''Operation cannot be empty'' ErrInvalidOperation), s)
       else if \<not> route_operation operation then (Inr only_operations, s)
       else
         answered StatusInternalServerError ''Failed to update static route config''
           (file_query (UpdateStaticRoute env nl (kernel s) operation old new) s)))"

end
