(* ===== verification/Troubleshoot.thy ===== *)
theory Troubleshoot
  imports Job_Lists
begin

text \<open>
  \<open>service/troubleshoot.go\<close> with its controller: diagnostic commands an administrator runs on the
  appliance, and the file that says which system a virtual machine runs.

  Running a program is a parameter; the state is the text of the platform file and the programs that
  were run, with their arguments. The patterns of the source are anchored, so each is a predicate on
  the parts of a text. Iterating over a Go map is in any order: \<open>map_order\<close> lists the keys of the map
  in the order of the loop.
\<close>

record troubleshoot_request =
  tr_name :: string
  tr_type :: int
  tr_port :: string
  tr_ip :: string
  tr_command :: string

record troubleshoot_env =
  combined_output :: "string \<Rightarrow> string list \<Rightarrow> go_error + string"
  map_order :: "int list \<Rightarrow> int list"
  platform_unreadable :: "go_error option"
  platform_unwritable :: "go_error option"

record shell_state =
  platform_text :: "string option"
  programs_run :: "(string \<times> string list) list"

subsection \<open>Patterns\<close>

definition digit_upto :: "char \<Rightarrow> char \<Rightarrow> bool" where
  "digit_upto d c \<longleftrightarrow> is_digit c \<and> digit_val c \<le> digit_val d"

text \<open>\<open>25[0-5]|2[0-4][0-9]|[01]?[0-9][0-9]?\<close>\<close>

definition octet_pattern :: "string \<Rightarrow> bool" where
  "octet_pattern s =
     (case s of
        [a] \<Rightarrow> is_digit a
      | [a, b] \<Rightarrow> is_digit a \<and> is_digit b
      | [a, b, c] \<Rightarrow> (a = CHR ''2'' \<and> b = CHR ''5'' \<and> digit_upto (CHR ''5'') c)
          \<or> (a = CHR ''2'' \<and> digit_upto (CHR ''4'') b \<and> is_digit c)
          \<or> (digit_upto (CHR ''1'') a \<and> is_digit b \<and> is_digit c)
      | _ \<Rightarrow> False)"

definition validateIPAddress :: "string \<Rightarrow> bool" where
  "validateIPAddress value \<longleftrightarrow>
     (let parts = split_on (CHR ''.'') value in length parts = 4 \<and> list_all octet_pattern parts)"

definition label_char :: "char \<Rightarrow> bool" where
  "label_char c \<longleftrightarrow> is_letter c \<or> is_digit c \<or> c = CHR ''-''"

definition validateDomain :: "string \<Rightarrow> bool" where
  "validateDomain value \<longleftrightarrow>
     (let labels = split_on (CHR ''.'') value in
      2 \<le> length labels \<and> list_all (\<lambda>l. l \<noteq> [] \<and> list_all label_char l) (butlast labels)
      \<and> 2 \<le> length (last labels) \<and> list_all is_letter (last labels))"

definition validateDomainOrIPAddress :: "string \<Rightarrow> bool" where
  "validateDomainOrIPAddress value \<longleftrightarrow> validateIPAddress value \<or> validateDomain value"

definition digit_from_to :: "char \<Rightarrow> char \<Rightarrow> char \<Rightarrow> bool" where
  "digit_from_to a b c \<longleftrightarrow> is_digit c \<and> digit_val a \<le> digit_val c \<and> digit_val c \<le> digit_val b"

text \<open>\<open>[1-9]|[1-5][0-9]{0,4}|[6-9][0-9]{1,3}|[1-6][0-5][0-5][0-3][0-5]\<close>\<close>

definition validatePort :: "string \<Rightarrow> bool" where
  "validatePort value =
     (case value of
        [] \<Rightarrow> False
      | d # ds \<Rightarrow>
          (ds = [] \<and> digit_from_to (CHR ''1'') (CHR ''9'') d)
          \<or> (digit_from_to (CHR ''1'') (CHR ''5'') d \<and> length ds \<le> 4 \<and> list_all is_digit ds)
          \<or> (digit_from_to (CHR ''6'') (CHR ''9'') d \<and> 1 \<le> length ds \<and> length ds \<le> 3 \<and> list_all is_digit ds)
          \<or> (digit_from_to (CHR ''1'') (CHR ''6'') d
             \<and> (case ds of
                  [a, b, c, e] \<Rightarrow> digit_upto (CHR ''5'') a \<and> digit_upto (CHR ''5'') b
                    \<and> digit_upto (CHR ''3'') c \<and> digit_upto (CHR ''5'') e
                | _ \<Rightarrow> False)))"

definition validateSystemctlCommand :: "string \<Rightarrow> bool" where
  "validateSystemctlCommand value \<longleftrightarrow>
     value \<in> set [''status'', ''stop'', ''restart'', ''is-active'', ''is-enabled'', ''is-failed'',
                  ''list-units'', ''list-unit-files'']"

definition allowedCommands :: "string list" where
  "allowedCommands = [''ping'', ''nslookup'', ''traceroute'', ''nmap'', ''systemctl'', ''config'', ''ip'']"

definition isCommandAllowed :: "string \<Rightarrow> bool" where
  "isCommandAllowed command =
     (case split_on (CHR '' '') command of [] \<Rightarrow> False | p # _ \<Rightarrow> p \<in> set allowedCommands)"

subsection \<open>Programs\<close>

definition processCommand ::
  "('e) troubleshoot_env_scheme \<Rightarrow> string \<Rightarrow> string list \<Rightarrow> shell_state \<Rightarrow> string \<times> shell_state" where
  "processCommand env program args s =
     ((case combined_output env program args of
         Inl e \<Rightarrow> ''Error while executing command: '' @ err_text e
       | Inr out \<Rightarrow> out),
      s\<lparr>programs_run := programs_run s @ [(program, args)]\<rparr>)"

definition ping ::
  "('e) troubleshoot_env_scheme \<Rightarrow> string \<Rightarrow> shell_state \<Rightarrow> (go_error + string) \<times> shell_state" where
  "ping env host s =
     (if host = [] then (Inl (Err ''please add the required fields''), s)
      else if \<not> validateDomainOrIPAddress host then (Inl (Err ''Invalid domain or IP address''), s)
      else map_prod Inr id (processCommand env ''ping'' [''-c'', ''4'', host] s))"

definition nslookup ::
  "('e) troubleshoot_env_scheme \<Rightarrow> string \<Rightarrow> shell_state \<Rightarrow> (go_error + string) \<times> shell_state" where
  "nslookup env host s =
     (if host = [] then (Inl (Err ''please add the required fields''), s)
      else if \<not> validateDomain host then (Inl (Err ''Invalid domain name''), s)
      else map_prod Inr id (processCommand env ''nslookup'' [host] s))"

definition traceroute ::
  "('e) troubleshoot_env_scheme \<Rightarrow> string \<Rightarrow> shell_state \<Rightarrow> (go_error + string) \<times> shell_state" where
  "traceroute env host s =
     (if host = [] then (Inl (Err ''please add the required fields''), s)
      else if \<not> validateDomainOrIPAddress host then (Inl (Err ''Invalid domain or IP address''), s)
      else map_prod Inr id (processCommand env ''traceroute'' [host] s))"

definition portScan ::
  "('e) troubleshoot_env_scheme \<Rightarrow> string \<Rightarrow> string \<Rightarrow> shell_state \<Rightarrow> (go_error + string) \<times> shell_state" where
  "portScan env ipAddress port s =
     (if ipAddress = [] \<or> port = [] then (Inl (Err ''IP Address and Port are required''), s)
      else if \<not> validateIPAddress ipAddress \<or> \<not> validatePort port then
        (Inl (Err ''Invalid IP address or port''), s)
      else map_prod Inr id (processCommand env ''nmap'' [ipAddress, ''-p'', port] s))"

text \<open>The answer to a scan: \<open>strings.Contains\<close> is called with the output as the text to look for.\<close>

definition scan_answer :: "string \<Rightarrow> string" where
  "scan_answer out =
     (if contains ''unfiltered'' out then ''The port is unfiltered''
      else if contains ''filtered'' out then ''The port is filtered''
      else if contains ''closed'' out \<or> contains ''Host seems down'' out then ''The port is closed''
      else if contains ''open'' out then ''The port is open''
      else out)"

subsection \<open>The systems of the virtual machines\<close>

definition platform_error :: "go_error \<Rightarrow> go_error" where
  "platform_error e = Err (''failed to read config file: '' @ err_text e)"

text \<open>The machine numbers of the file, each once: the keys of the Go map.\<close>

definition line_entry :: "string \<Rightarrow> (int \<times> string) option" where
  "line_entry line =
     (if trim_space line = [] then None
      else (case split_two (CHR '' '') line of
              p # q # r \<Rightarrow> (case atoi p of None \<Rightarrow> None | Some n \<Rightarrow> Some (n, q))
            | _ \<Rightarrow> None))"

definition platform_entries :: "string \<Rightarrow> (int \<times> string) list" where
  "platform_entries content = List.map_filter line_entry (split_on line_end content)"

definition written_entry :: "int \<times> string \<Rightarrow> string" where
  "written_entry e = show_int (fst e) @ '' '' @ snd e @ [line_end]"

definition updateOSConfig ::
  "('e) troubleshoot_env_scheme \<Rightarrow> int \<Rightarrow> string \<Rightarrow> shell_state \<Rightarrow> go_error option \<times> shell_state" where
  "updateOSConfig env vmNumber osName s =
     (case (platform_text s, platform_unreadable env) of
        (Some _, Some e) \<Rightarrow> (Some (platform_error e), s)
      | _ \<Rightarrow>
          (let content = (case platform_text s of None \<Rightarrow> [] | Some t \<Rightarrow> t);
               entries = platform_entries content;
               configMap = (map_of (rev entries))(vmNumber \<mapsto> osName);
               keys = map_order env (remdups (map fst entries @ [vmNumber]));
               updated = concat (map (\<lambda>k. written_entry (k, the (configMap k))) keys)
           in (case platform_unwritable env of
                 Some e \<Rightarrow> (Some e, s)
               | None \<Rightarrow> (None, s\<lparr>platform_text := Some updated\<rparr>))))"

definition os_of_name :: "string \<Rightarrow> string option" where
  "os_of_name name =
     (let n = to_lower (trim_space name) in
      if n \<in> set [''windows_7'', ''windows-7'', ''windows7''] then Some ''Windows 7''
      else if n \<in> set [''ubuntu_20'', ''ubuntu-20'', ''ubuntu20''] then Some ''Ubuntu 20''
      else None)"

definition unsupported_os :: string where
  "unsupported_os = ''invalid operating system. Supported operating systems are '' @ [CHR 0x27]
     @ ''Windows 7'' @ [CHR 0x27] @ '' or '' @ [CHR 0x27] @ ''Ubuntu 20'' @ [CHR 0x27]"

definition AlterVmOs ::
  "('e) troubleshoot_env_scheme \<Rightarrow> string \<Rightarrow> string \<Rightarrow> shell_state \<Rightarrow> go_error option \<times> shell_state" where
  "AlterVmOs env vmNumberString osName s =
     (case atoi vmNumberString of
        None \<Rightarrow> (Some (Err ''invalid vm number''), s)
      | Some vmNumber \<Rightarrow>
          if vmNumber < 1 \<or> 8 < vmNumber then (Some (Err ''invalid vm number''), s)
          else
            (case os_of_name osName of
               None \<Rightarrow> (Some (Err unsupported_os), s)
             | Some os \<Rightarrow> updateOSConfig env vmNumber os s))"

subsection \<open>The request\<close>

definition ErrInvalidFieldFormat :: go_error where "ErrInvalidFieldFormat = Err ''invalid field format''"
definition ErrInvalidCommandInTroubleshoot :: go_error where
  "ErrInvalidCommandInTroubleshoot = Err ''invalid command in troubleshoot''"
definition ErrInvalidTypeInTroubleshoot :: go_error where
  "ErrInvalidTypeInTroubleshoot = Err ''invalid type in troubleshoot''"

type_synonym ts_answer = "(go_error + string api_response) \<times> shell_state"

definition invalid_command :: "string api_response" where
  "invalid_command = NewErrorResponse StatusBadRequest ''invalid command'' ErrInvalidCommandInTroubleshoot"

definition success_text :: "string \<Rightarrow> string api_response" where
  "success_text t = NewSuccessResponse ''Success'' (Some t)"

definition checked_answer :: "(string \<Rightarrow> string) \<Rightarrow> (go_error + string) \<times> shell_state \<Rightarrow> ts_answer" where
  "checked_answer f r =
     (case r of
        (Inl e, s) \<Rightarrow> (Inr (NewErrorResponse StatusBadRequest (err_text e) ErrInvalidFieldFormat), s)
      | (Inr out, s) \<Rightarrow> (Inr (success_text (f out)), s))"

definition supported_os :: string where
  "supported_os = ''Supported OS: Windows XP, Windows 7(default), Ubuntu 20''"

definition apt_sysinfo :: string where
  "apt_sysinfo = '' Files Per Hour - 12,100'' @ [line_end] @ '' IMIX Files Per Hour - 3,000'' @ [line_end]
     @ '' Virtual Machines - 8 '' @ [line_end] @ '' Supported OS: Windows XP, Windows 7(default), Ubuntu 20 '' @ [line_end]
     @ '' File size limit - 100 MB '' @ [line_end]
     @ '' Supported File Types : 70+ (EXE, DLL, Archives (ISO, ZIP,7Z, RAR, etc.), PDF, scripts & more)''"

definition config_command ::
  "('e) troubleshoot_env_scheme \<Rightarrow> string list \<Rightarrow> shell_state \<Rightarrow> string api_response \<times> shell_state" where
  "config_command env args s =
     (case args of
        [a, b] \<Rightarrow>
          if a = ''show'' \<and> b = ''supported-os'' then (success_text supported_os, s)
          else if a = ''show'' \<and> b = ''apt-sysinfo'' then (success_text apt_sysinfo, s)
          else (invalid_command, s)
      | [a, vm, os] \<Rightarrow>
          if a = ''os'' then
            (case AlterVmOs env vm os s of
               (Some e, s1) \<Rightarrow> (NewErrorResponse StatusBadRequest (err_text e) ErrInvalidCommandInTroubleshoot, s1)
             | (None, s1) \<Rightarrow> (success_text (''OS updated successfully for VM: '' @ vm), s1))
          else (invalid_command, s)
      | _ \<Rightarrow> (invalid_command, s))"

text \<open>The program and the arguments a command line stands for; \<open>Inl\<close> is an answer without a program.\<close>

definition run_program_line ::
  "('e) troubleshoot_env_scheme \<Rightarrow> string \<Rightarrow> string list \<Rightarrow> shell_state \<Rightarrow> ts_answer" where
  "run_program_line env program args s =
     (case processCommand env program args s of (out, s1) \<Rightarrow> (Inr (success_text out), s1))"

definition command_line ::
  "('e) troubleshoot_env_scheme \<Rightarrow> string \<Rightarrow> shell_state \<Rightarrow> ts_answer" where
  "command_line env text_line s =
     (let command = to_lower (trim_space text_line); parts = str_fields command in
      if parts = [] \<or> \<not> isCommandAllowed command then (Inr invalid_command, s)
      else
        let program = hd parts; args = tl parts in
        if program = ''ping'' then
          run_program_line env ''/bin/ping'' (case args of [host] \<Rightarrow> [''-c 4'', host] | _ \<Rightarrow> args) s
        else if program = ''nslookup'' then run_program_line env ''/usr/bin/nslookup'' args s
        else if program = ''traceroute'' then run_program_line env ''/usr/sbin/traceroute'' args s
        else if program = ''nmap'' then run_program_line env ''/usr/bin/nmap'' args s
        else if program = ''systemctl'' then
          (case args of
             [] \<Rightarrow> (Inl (Panic ''index out of range''), s)
           | verb # _ \<Rightarrow>
               if \<not> validateSystemctlCommand verb then (Inr invalid_command, s)
               else run_program_line env ''/bin/systemctl'' args s)
        else if program = ''config'' then map_prod Inr id (config_command env args s)
        else if program = ''ip'' then run_program_line env ''/sbin/ip'' args s
        else (Inr invalid_command, s))"

definition Troubleshoot ::
  "('e) troubleshoot_env_scheme \<Rightarrow> troubleshoot_request \<Rightarrow> shell_state \<Rightarrow> ts_answer" where
  "Troubleshoot env req s =
     (let name = trim_space (tr_name req) in
      if tr_type req = 1 then checked_answer id (ping env name s)
      else if tr_type req = 2 then checked_answer id (nslookup env name s)
      else if tr_type req = 3 then checked_answer id (traceroute env name s)
      else if tr_type req = 4 then
        checked_answer scan_answer (portScan env (trim_space (tr_ip req)) (trim_space (tr_port req)) s)
      else if tr_type req = 5 then command_line env (tr_command req) s
      else (Inr (NewErrorResponse StatusBadRequest ''invalid type in troubleshoot'' ErrInvalidTypeInTroubleshoot), s))"

text \<open>\<open>controller/troubleshoot.go\<close>: the request, or the error of binding it.\<close>

definition Troubleshoot_handler ::
  "('e) troubleshoot_env_scheme \<Rightarrow> go_error + troubleshoot_request \<Rightarrow> shell_state \<Rightarrow> ts_answer" where
  "Troubleshoot_handler env bound s =
     (case bound of
        Inl e \<Rightarrow> (Inr (NewErrorResponse StatusBadRequest ''Error from client side'' e), s)
      | Inr req \<Rightarrow> Troubleshoot env req s)"

end
