(* ===== verification/Controllers.thy ===== *)
theory Controllers
  imports Accounts Submission Session_Audit
begin

text \<open>
  The controllers of \<open>controller/\<close> in front of the account, device, profile and submission services.
  They bind the request (the bound request or an error is a parameter), read the session, write an
  audit record and run one service.

  A session is the values \<open>Store.Get\<close> returns; where the controller ignores its error the store gives
  a session without values. Reading a value as a string panics when it is missing. A deferred audit
  record is written after the service, also when it panics: then the response is still the zero value.
\<close>

subsection \<open>Audit records\<close>

definition zero_response :: "'d api_response" where
  "zero_response = \<lparr>resp_data = None, resp_status = 0, resp_message = [], resp_error = []\<rparr>"

record audit_env =
  audit_works :: bool
  audit_time :: int

definition recorded :: "('a) audit_env_scheme \<Rightarrow> 'd outcome \<Rightarrow> string \<Rightarrow> string \<Rightarrow> string \<Rightarrow> audit_row list \<Rightarrow> audit_row list" where
  "recorded aenv out message kind admin table =
     snd (CreateAuditLogs (audit_works aenv) (audit_time aenv)
       (case out of Inl p \<Rightarrow> zero_response | Inr r \<Rightarrow> r) message kind admin table)"

text \<open>
  \<open>defer CreateAuditLogs(&resp, ..., session.Values["admin_name"].(string))\<close> and then the service: the
  name is read first.
\<close>

definition audited ::
  "('a) audit_env_scheme \<Rightarrow> session_values \<Rightarrow> (string \<Rightarrow> string) \<Rightarrow> string \<Rightarrow> ('s \<Rightarrow> 'd outcome \<times> 's)
   \<Rightarrow> 's \<times> audit_row list \<Rightarrow> 'd outcome \<times> 's \<times> audit_row list" where
  "audited aenv session message kind service = (\<lambda>(st, table).
     (case as_string (session ''admin_name'') of
        Inl p \<Rightarrow> (Inl p, st, table)
      | Inr admin \<Rightarrow>
          (case service st of
             (out, st1) \<Rightarrow> (out, st1, recorded aenv out (message admin) kind admin table))))"

definition bind_failed :: "go_error \<Rightarrow> 'd outcome" where
  "bind_failed e = Inr (NewErrorResponse StatusBadRequest ''Error from client side'' e)"

subsection \<open>Devices\<close>

definition CreateDevice_handler ::
  "('y, 'e) auth_env_scheme \<Rightarrow> ('a) audit_env_scheme \<Rightarrow> session_values \<Rightarrow> go_error + device
   \<Rightarrow> ('y, 's) store_scheme \<times> audit_row list \<Rightarrow> string outcome \<times> ('y, 's) store_scheme \<times> audit_row list" where
  "CreateDevice_handler env aenv session body st =
     (case body of
        Inl e \<Rightarrow> (bind_failed e, st)
      | Inr req \<Rightarrow>
          audited aenv session (\<lambda>_. ''Added a new device '' @ dev_name req) ''DEVICE'' (CreateDevice env req) st)"

definition DeleteDevice_handler ::
  "('y, 'e) auth_env_scheme \<Rightarrow> ('a) audit_env_scheme \<Rightarrow> session_values \<Rightarrow> string
   \<Rightarrow> ('y, 's) store_scheme \<times> audit_row list \<Rightarrow> string outcome \<times> ('y, 's) store_scheme \<times> audit_row list" where
  "DeleteDevice_handler env aenv session key =
     audited aenv session (\<lambda>_. ''Successfully deleted a device'') ''DEVICE'' (DeleteDevice env key)"

definition UpdateDevice_handler ::
  "('y, 'e) auth_env_scheme \<Rightarrow> ('a) audit_env_scheme \<Rightarrow> session_values \<Rightarrow> go_error + device
   \<Rightarrow> ('y, 's) store_scheme \<times> audit_row list \<Rightarrow> string outcome \<times> ('y, 's) store_scheme \<times> audit_row list" where
  "UpdateDevice_handler env aenv session body =
     audited aenv session (\<lambda>_. ''Successfully updated a device'') ''DEVICE''
       (\<lambda>st. case body of Inl e \<Rightarrow> (bind_failed e, st) | Inr req \<Rightarrow> UpdateDevice env req st)"

subsection \<open>Accounts\<close>

definition ScanProfile_handler ::
  "('y, 'e) auth_env_scheme \<Rightarrow> ('a) audit_env_scheme \<Rightarrow> session_values \<Rightarrow> go_error + scan_profile
   \<Rightarrow> ('y, 's) store_scheme \<times> audit_row list \<Rightarrow> string outcome \<times> ('y, 's) store_scheme \<times> audit_row list" where
  "ScanProfile_handler env aenv session body st =
     (case body of
        Inl e \<Rightarrow> (bind_failed e, st)
      | Inr req \<Rightarrow>
          audited aenv session (\<lambda>admin. admin @ '' changed the scan profile permissions'') ''SCAN PROFILE''
            (\<lambda>st. case as_string (session ''user_id'') of
                    Inl p \<Rightarrow> (Inl p, st)
                  | Inr user \<Rightarrow> ScanProfile env req user st) st)"

definition ChangePassword_handler ::
  "('y, 'e) auth_env_scheme \<Rightarrow> ('a) audit_env_scheme \<Rightarrow> go_error + session_values \<Rightarrow> go_error + change_pass
   \<Rightarrow> ('y, 's) store_scheme \<times> audit_row list \<Rightarrow> string outcome \<times> ('y, 's) store_scheme \<times> audit_row list" where
  "ChangePassword_handler env aenv stored body st =
     (case body of
        Inl e \<Rightarrow> (Inr (bad ''Error from server side'' e), st)
      | Inr req \<Rightarrow>
          (case stored of
             Inl e \<Rightarrow> (Inr (bad ''Session invalid'' e), st)
           | Inr session \<Rightarrow>
               audited aenv session (\<lambda>admin. ''Password changed successfully for user '' @ admin) ''CHANGED PASSWORD''
                 (\<lambda>st. if session ''user_id'' = None then
                         (Inr (unauthorized ''Unauthorized user'' ErrUnauthorizedUser), st)
                       else
                         (case as_string (session ''user_id'') of
                            Inl p \<Rightarrow> (Inl p, st)
                          | Inr user \<Rightarrow> ChangePassword env req user st)) st))"

definition CreateChildAdmin_handler ::
  "('y, 'e) auth_env_scheme \<Rightarrow> go_error + signup_request \<Rightarrow> ('y, 's) store_scheme
   \<Rightarrow> string outcome \<times> ('y, 's) store_scheme" where
  "CreateChildAdmin_handler env body st =
     (case body of Inl e \<Rightarrow> (bind_failed e, st) | Inr req \<Rightarrow> CreateChildAdmin env req st)"

text \<open>The session is saved only after a success; the second component is what is saved.\<close>

definition UpdateAdminPersonalDetails_handler ::
  "('y, 'e) auth_env_scheme \<Rightarrow> session_values \<Rightarrow> go_error option \<Rightarrow> go_error + signup_request
   \<Rightarrow> ('y, 's) store_scheme \<Rightarrow> string outcome \<times> session_values option \<times> ('y, 's) store_scheme" where
  "UpdateAdminPersonalDetails_handler env session save_error body st =
     (case body of
        Inl e \<Rightarrow> (bind_failed e, None, st)
      | Inr req \<Rightarrow>
          (case UpdateAdminPersonalDetails env req session st of
             (Inl p, _, st1) \<Rightarrow> (Inl p, None, st1)
           | (Inr resp, session1, st1) \<Rightarrow>
               if resp_status resp = StatusOK then
                 (case save_error of
                    Some e \<Rightarrow> (Inr (bad ''Session not saved'' e), None, st1)
                  | None \<Rightarrow> (Inr resp, Some session1, st1))
               else (Inr resp, None, st1)))"

definition CreateRolePermission_handler ::
  "('y, 'e) auth_env_scheme \<Rightarrow> go_error + role \<Rightarrow> ('y, 's) store_scheme
   \<Rightarrow> (string \<times> profile list) outcome \<times> ('y, 's) store_scheme" where
  "CreateRolePermission_handler env body st =
     (case body of
        Inl e \<Rightarrow> (bind_failed e, st)
      | Inr role \<Rightarrow> CreateRolePermission env role False st)"

subsection \<open>Submissions of administrators\<close>

definition CreateFileOnDemand_handler ::
  "('e) submit_env_scheme \<Rightarrow> go_error + scan_profile list \<Rightarrow> go_error + session_values \<Rightarrow> go_error + upload_form
   \<Rightarrow> 's sys_scheme \<Rightarrow> string outcome \<times> 's sys_scheme" where
  "CreateFileOnDemand_handler env scanProfile stored form s =
     (case stored of
        Inl e \<Rightarrow> (Inr (bad ''Session invalid'' e), s)
      | Inr session \<Rightarrow>
          (case form of
             Inl e \<Rightarrow> (bind_failed e, s)
           | Inr f \<Rightarrow>
               (case (as_string (session ''admin_name''), as_string (session ''organization_id'')) of
                  (Inl p, _) \<Rightarrow> (Inl p, s)
                | (Inr _, Inl p) \<Rightarrow> (Inl p, s)
                | (Inr admin, Inr org) \<Rightarrow> CreateFileOnDemand env scanProfile f admin org s)))"

text \<open>The body of a url: its text and the comments.\<close>

definition CreateUrlOnDemand_handler ::
  "('e) url_env_scheme \<Rightarrow> session_values \<Rightarrow> go_error + string \<times> string \<Rightarrow> db \<Rightarrow> string outcome \<times> db" where
  "CreateUrlOnDemand_handler env session body d =
     (case body of
        Inl e \<Rightarrow> (bind_failed e, d)
      | Inr (url, comments) \<Rightarrow>
          (case (as_string (session ''admin_name''), as_string (session ''organization_id'')) of
             (Inl p, _) \<Rightarrow> (Inl p, d)
           | (Inr _, Inl p) \<Rightarrow> (Inl p, d)
           | (Inr admin, Inr org) \<Rightarrow>
               (case CreateUrlOnDemand env url comments admin org d of (resp, d1) \<Rightarrow> (Inr resp, d1))))"

subsection \<open>Requests of firewalls\<close>

text \<open>
  \<open>controller/firewall_calls.go\<close>: what is sent is a status with a job id, a whole response, a verdict,
  or nothing. \<open>resp.Data.(string)\<close> panics when the data of a successful response is no text.
\<close>

datatype fw_reply = JobId int string | WholeResponse "string api_response" | FwVerdict int | NoReply

definition job_reply :: "string outcome \<Rightarrow> go_error + fw_reply" where
  "job_reply out =
     (case out of
        Inl p \<Rightarrow> Inl p
      | Inr resp \<Rightarrow>
          if resp_status resp = StatusOK then
            (case resp_data resp of
               None \<Rightarrow> Inl (Panic ''interface conversion'')
             | Some job \<Rightarrow> Inr (JobId StatusOK job))
          else Inr (JobId (resp_status resp) []))"

definition CreateFileOnDemandForFirewall ::
  "('e) submit_env_scheme \<Rightarrow> go_error + scan_profile list \<Rightarrow> string \<Rightarrow> go_error + upload_form
   \<Rightarrow> 's sys_scheme \<Rightarrow> (go_error + fw_reply) \<times> 's sys_scheme" where
  "CreateFileOnDemandForFirewall env scanProfile client_ip form s =
     (case form of
        Inl e \<Rightarrow> (Inr (WholeResponse (client_error e)), s)
      | Inr f \<Rightarrow>
          (case CreateFileOnDemand env scanProfile f ''DEVICE'' client_ip s of
             (out, s1) \<Rightarrow> (job_reply out, s1)))"

definition CreateUrlOnDemandForFirewall ::
  "('e) url_env_scheme \<Rightarrow> go_error + string \<times> string \<Rightarrow> db \<Rightarrow> (go_error + fw_reply) \<times> db" where
  "CreateUrlOnDemandForFirewall env body d =
     (case body of
        Inl e \<Rightarrow> (Inr (WholeResponse (client_error e)), d)
      | Inr (url, comments) \<Rightarrow>
          (case CreateUrlOnDemand env url comments ''DEVICE'' [] d of
             (resp, d1) \<Rightarrow> (job_reply (Inr resp), d1)))"

definition CheckHashOnDemand :: "('e) db_env_scheme \<Rightarrow> string \<Rightarrow> db \<Rightarrow> fw_reply" where
  "CheckHashOnDemand env h d = FwVerdict (FileFromFireWall env d h)"

definition CreateJobForFw ::
  "('e) submit_env_scheme \<Rightarrow> ('f) url_env_scheme \<Rightarrow> go_error + scan_profile list \<Rightarrow> string \<Rightarrow> (string \<Rightarrow> string)
   \<Rightarrow> go_error + upload_form \<Rightarrow> go_error + string \<times> string \<Rightarrow> 's sys_scheme
   \<Rightarrow> (go_error + fw_reply) \<times> 's sys_scheme" where
  "CreateJobForFw env uenv scanProfile client_ip query_value form body s =
     (let kind = query_value ''req_type'' in
      if kind = ''1'' then (Inr (CheckHashOnDemand env (query_value ''hash'') (sys_db s)), s)
      else if kind = ''2'' then CreateFileOnDemandForFirewall env scanProfile client_ip form s
      else if kind = ''3'' then
        (case CreateUrlOnDemandForFirewall uenv body (sys_db s) of (r, d) \<Rightarrow> (r, s\<lparr>sys_db := d\<rparr>))
      else (Inr NoReply, s))"

text \<open>\<open>controller/sandbox.go\<close>.\<close>

definition FlushSandboxData_handler ::
  "('e) sandbox_env_scheme \<Rightarrow> 's sys_scheme \<Rightarrow> string api_response \<times> 's sys_scheme" where
  "FlushSandboxData_handler env s =
     (case FlushSandboxData env s of
        (Some e, s1) \<Rightarrow> (bad ''error while flushing sandbox data'' e, s1)
      | (None, s1) \<Rightarrow> (NewSuccessResponse ''Success'' (Some ''Sandbox data flushed successfully.''), s1))"

end
