(* ===== verification/Router.thy ===== *)
theory Router
  imports Admin_Props Interface_Handlers Troubleshoot Controllers
begin

text \<open>
  The HTTP interface of \<open>main.go\<close>: the routes in the order they are registered, with the group they
  belong to, and the way a request reaches a handler through the middleware of \<open>auth/authMiddleware.go\<close>
  and \<open>middlewares/cors.go\<close>.

  The router itself is the gin library. What the source relies on: a route matches a path segment by
  segment, a segment that starts with a colon matches any text but the empty one; the middleware of a
  group runs before the handler and can stop the request. Whether the CORS library lets a request pass
  is a parameter, given the list of trusted origins.
\<close>

subsection \<open>Routes\<close>

record route =
  rt_method :: string
  rt_path :: string
  rt_guarded :: bool
  rt_handler :: string

text \<open>Joining the path of a group with that of a route.\<close>

definition join_paths :: "string \<Rightarrow> string \<Rightarrow> string" where
  "join_paths base rel = base @ (if has_prefix rel ''/'' then rel else CHR ''/'' # rel)"

definition group_routes :: "bool \<Rightarrow> string \<Rightarrow> (string \<times> string \<times> string) list \<Rightarrow> route list" where
  "group_routes guarded base rs =
     map (\<lambda>(m, p, h). \<lparr>rt_method = m, rt_path = join_paths base p, rt_guarded = guarded, rt_handler = h\<rparr>) rs"

abbreviation GET :: string where
  "GET \<equiv> ''GET''"

abbreviation POST :: string where
  "POST \<equiv> ''POST''"

abbreviation PUT :: string where
  "PUT \<equiv> ''PUT''"

abbreviation DELETE :: string where
  "DELETE \<equiv> ''DELETE''"

text \<open>The routes registered on the router itself.\<close>

definition router_routes :: "(string \<times> string \<times> string) list" where
  "router_routes =
     [(PUT, ''/update-logging-enabled-flag'', ''UpdateLoggingEnabledFlag''),
      (DELETE, ''/flush-sandbox-data'', ''FlushSandboxData''),
      (GET, ''/test'', ''Test''),
      (POST, ''/login'', ''Login''),
      (POST, ''/signup'', ''Signup''),
      (POST, ''/create-key'', ''CreateLicenseKey''),
      (GET, ''/check-license'', ''CheckLicenseKeyAvailability''),
      (POST, ''/create-job-fw'', ''CreateJobForFw''),
      (POST, ''init-device-config'', ''ApplyDeviceConfigFile''),
      (POST, ''/ha'', ''CreateHa''),
      (POST, ''/ha/compareDeviceInfo'', ''CompareDeviceInfoFromAnotherAppliance''),
      (POST, ''/ha/copy-config'', ''HaCopyConfig''),
      (POST, ''/ha/sync-backup'', ''SyncBackup''),
      (POST, ''/ha/generate-keepalived-config-for-backup'', ''GenerateKeepalivedConfigForBackup''),
      (POST, ''/ha/disable'', ''DisableHaInAnotherAppliance''),
      (POST, ''/ha/update-last-synced-at'', ''UpdateLastSyncedAt''),
      (POST, ''/api/v1/checkhash'', ''TestAPTFw'')]"

text \<open>The group \<open>/wijungle\<close>, behind the token middleware.\<close>

definition wijungle_routes :: "(string \<times> string \<times> string) list" where
  "wijungle_routes =
     [(POST, ''/update-personal-info'', ''UpdateAdminPersonalDetails''),
      (POST, ''/role-permission'', ''CreateRolePermission''),
      (POST, ''/scan-profile'', ''ScanProfile''),
      (POST, ''/file-on-demand'', ''CreateFileOnDemand''),
      (POST, ''/create-child-admin'', ''CreateChildAdmin''),
      (POST, ''/url-on-demand'', ''CreateUrlOnDemand''),
      (GET, ''/get-profiles'', ''GetAllProfiles''),
      (POST, ''/device'', ''CreateDevice''),
      (DELETE, ''/device'', ''DeleteDevice''),
      (''PATCH'', ''/device'', ''UpdateDevice''),
      (POST, ''/change-password'', ''ChangePassword''),
      (GET, ''/check-hash'', ''CheckHashOnDemand''),
      (POST, ''/extend-license'', ''ExtendLicense'')]"

text \<open>The second guarded group, without a path of its own.\<close>

definition auth_routes :: "(string \<times> string \<times> string) list" where
  "auth_routes =
     [(PUT, ''/override-verdict'', ''OverrideVerdict''),
      (GET, ''/overridden-audit-logs'', ''GetOverriddenVerdictLogs''),
      (POST, ''/update-build'', ''UploadBuild''),
      (POST, ''/firmware-update'', ''FirmwareUpdate''),
      (GET, ''/backup'', ''Backup''),
      (POST, ''/restore'', ''Restore''),
      (GET, ''/erase'', ''Erase''),
      (GET, ''wijungle/dashboard'', ''Dashboard''),
      (GET, ''/report'', ''GetReport''),
      (GET, ''/report/download'', ''DownloadReport''),
      (GET, ''/portmapping'', ''GetPortMapping''),
      (POST, ''/troubleshoot'', ''Troubleshoot''),
      (GET, ''/ha'', ''GetHa''),
      (GET, ''/physical_link'', ''ListPhysicalInterfacesHandler''),
      (GET, ''/physical_link/:physical_interface_name'', ''ListPhysicalInterfacesHandler''),
      (PUT, ''/physical_link/:physical_interface_name'', ''UpdatePhysicalInterfaceHandler''),
      (POST, ''/vlan'', ''CreateVlanInterfaceHandler''),
      (GET, ''/vlan'', ''ListVlanInterfacesHandler''),
      (GET, ''/vlan/:vlan_interface_name'', ''ListVlanInterfacesHandler''),
      (PUT, ''/vlan/:vlan_interface_name'', ''UpdateVlanInterfaceHandler''),
      (DELETE, ''/vlan/:vlan_interface_name'', ''DeleteVlanInterfaceHandler''),
      (POST, ''/bond'', ''CreateBondedLink''),
      (GET, ''/bond'', ''ListBondInterfaces''),
      (GET, ''/bond/:bond_interface_name'', ''ListBondInterfaces''),
      (PUT, ''/bond/:bond_interface_name'', ''UpdateBondInterface''),
      (DELETE, ''/bond/:bond_interface_name'', ''DeleteBondInterface''),
      (POST, ''/bridge'', ''CreateBridgeInterfaceHandler''),
      (GET, ''/bridge/:bridge_interface_name'', ''ListBridgeInterfacesHandler''),
      (GET, ''/bridge'', ''ListBridgeInterfacesHandler''),
      (PUT, ''/bridge/:bridge_interface_name'', ''UpdateBridgeInterfaceHandler''),
      (DELETE, ''/bridge/:bridge_interface_name'', ''DeleteBridgeInterfaceHandler''),
      (POST, ''/routing/static_routing'', ''CreateStaticRouteHandler''),
      (GET, ''/routing/static_routing'', ''ListStaticRoutesHandler''),
      (DELETE, ''/routing/static_routing/:operation'', ''DeleteStaticRouteHandler''),
      (PUT, ''/routing/static_routing/:operation'', ''UpdateStaticRouteHandler'')]"

text \<open>The form of the factory is registered only when its files are there.\<close>

definition factory_routes :: "(string \<times> string \<times> string) list" where
  "factory_routes = [(GET, ''/vHausTY1&skiuLnBGySnS10nsoOnsd'', ''DeviceConfigUiForm'')]"

definition routes :: "bool \<Rightarrow> route list" where
  "routes device_form =
     group_routes False [] router_routes @ group_routes True ''/wijungle'' wijungle_routes
     @ group_routes True [] auth_routes @ (if device_form then group_routes False [] factory_routes else [])"

subsection \<open>Requests\<close>

text \<open>
  A request with the values of its session and its body, which the handlers bind; \<open>'b\<close> is the type of
  bodies.
\<close>

record 'b web_request =
  wq_method :: string
  wq_path :: string
  wq_header :: string
  wq_session :: session_values
  wq_query :: "string \<Rightarrow> string"
  wq_body :: 'b

fun segments_match :: "string list \<Rightarrow> string list \<Rightarrow> bool" where
  "segments_match [] [] = True"
| "segments_match (p # ps) (s # ss) =
     ((if has_prefix p '':'' then s \<noteq> [] else p = s) \<and> segments_match ps ss)"
| "segments_match _ _ = False"

definition path_segments :: "string \<Rightarrow> string list" where
  "path_segments p = split_on (CHR ''/'') p"

definition route_matches :: "'b web_request \<Rightarrow> route \<Rightarrow> bool" where
  "route_matches req r \<longleftrightarrow> rt_method r = wq_method req
     \<and> segments_match (path_segments (rt_path r)) (path_segments (wq_path req))"

text \<open>The value of the path parameter: every route has at most one, in its last segment.\<close>

definition path_param :: "route \<Rightarrow> 'b web_request \<Rightarrow> string" where
  "path_param r req =
     (if has_prefix (last (path_segments (rt_path r))) '':'' then last (path_segments (wq_path req)) else [])"

datatype served =
    NotFound
  | OriginRefused
  | Refused "string api_response"
  | Crashed go_error
  | Handled int

text \<open>
  Serving a request: \<open>cors\<close> is the decision of the CORS middleware, \<open>run\<close> runs a handler on the path
  parameter, the request, the session after the middleware and the state of the appliance, and gives
  the status it answers or a panic.
\<close>

definition serve ::
  "('y, 'e) auth_env_scheme \<Rightarrow> go_error option \<Rightarrow> bool \<Rightarrow> ('b web_request \<Rightarrow> bool)
   \<Rightarrow> (string \<Rightarrow> string \<Rightarrow> 'b web_request \<Rightarrow> session_values \<Rightarrow> 'w \<Rightarrow> (go_error + int) \<times> 'w)
   \<Rightarrow> 'b web_request \<Rightarrow> 'w \<Rightarrow> served \<times> 'w" where
  "serve env save_error device_form cors run req w =
     (if \<not> cors req then (OriginRefused, w)
      else
        (case find (route_matches req) (routes device_form) of
           None \<Rightarrow> (NotFound, w)
         | Some r \<Rightarrow>
             (let handle = (\<lambda>session.
                    case run (rt_handler r) (path_param r req) req session w of
                      (Inl p, w') \<Rightarrow> (Crashed p, w')
                    | (Inr code, w') \<Rightarrow> (Handled code, w'))
              in if rt_guarded r then
                   (case JWTAuthMiddleware env save_error (wq_header req) (wq_session req) of
                      (Inl p, _) \<Rightarrow> (Crashed p, w)
                    | (Inr (Some resp), _) \<Rightarrow> (Refused resp, w)
                    | (Inr None, session) \<Rightarrow> handle session)
                 else handle (wq_session req))))"

subsection \<open>Trusted origins\<close>

definition fixed_origins :: "string list" where
  "fixed_origins =
     [''https://127.0.0.1'', ''http://192.168.198.65:4200'', ''https://localhost:4200'', ''http://localhost:4200'',
      ''https://192.168.199.163:444'', ''https://192.168.0.107'', ''https://192.168.199.163'',
      ''https://192.168.199.163:443'', ''https://192.168.199.163:8082'']"

definition trusted_origins :: "string list \<Rightarrow> string list" where
  "trusted_origins ips = fixed_origins @ map (\<lambda>ip. ''https://'' @ ip) ips"

text \<open>\<open>HandleCors\<close> on the addresses of the ports; \<open>allows\<close> is the library on a list of origins.\<close>

definition HandleCors :: "(string list \<Rightarrow> 'b web_request \<Rightarrow> bool) \<Rightarrow> string list \<Rightarrow> 'b web_request \<Rightarrow> bool" where
  "HandleCors allows ips = allows (trusted_origins ips)"

subsection \<open>The appliance behind the router\<close>

text \<open>
  The handlers of the network, of the diagnostic commands and of the sandbox, on the parts of the
  appliance they work on; the other handlers are a parameter. \<open>bodies\<close> binds a request body.
\<close>

record 'b bodies =
  bind_port :: "'b \<Rightarrow> go_error + physical_request"
  bind_vlan :: "'b \<Rightarrow> go_error + vlan_request"
  bind_vlan_change :: "'b \<Rightarrow> go_error + vlan_update"
  bind_bond :: "'b \<Rightarrow> go_error + bond_request"
  bind_bond_change :: "'b \<Rightarrow> go_error + bond_update"
  bind_bridge :: "'b \<Rightarrow> go_error + bridge_request"
  bind_bridge_change :: "'b \<Rightarrow> go_error + bridge_update"
  bind_route :: "'b \<Rightarrow> go_error + route_request"
  bind_route_change :: "'b \<Rightarrow> go_error + static_route \<times> static_route"
  bind_command :: "'b \<Rightarrow> go_error + troubleshoot_request"

record ('k, 'y, 'w) web_state =
  net_part :: "('k, 'y) ports"
  shell_part :: shell_state
  rest_part :: 'w

definition answer_code :: "'a reply \<Rightarrow> go_error + int" where
  "answer_code r = (case r of Inl p \<Rightarrow> Inl p | Inr resp \<Rightarrow> Inr (resp_status resp))"

definition text_values :: "session_values \<Rightarrow> session" where
  "text_values vals = Inr (\<lambda>k. case vals k of Some (AStr s) \<Rightarrow> Some s | _ \<Rightarrow> None)"

definition on_net ::
  "(('k, 'y) ports \<Rightarrow> 'a reply \<times> ('k, 'y) ports) \<Rightarrow> ('k, 'y, 'w) web_state
   \<Rightarrow> (go_error + int) \<times> ('k, 'y, 'w) web_state" where
  "on_net f w = (case f (net_part w) of (r, n) \<Rightarrow> (answer_code r, w\<lparr>net_part := n\<rparr>))"

definition on_shell ::
  "(shell_state \<Rightarrow> 'a reply \<times> shell_state) \<Rightarrow> ('k, 'y, 'w) web_state
   \<Rightarrow> (go_error + int) \<times> ('k, 'y, 'w) web_state" where
  "on_shell f w = (case f (shell_part w) of (r, n) \<Rightarrow> (answer_code r, w\<lparr>shell_part := n\<rparr>))"

definition on_rest ::
  "('w \<Rightarrow> (go_error + int) \<times> 'w) \<Rightarrow> ('k, 'y, 'w) web_state \<Rightarrow> (go_error + int) \<times> ('k, 'y, 'w) web_state" where
  "on_rest f w = (case f (rest_part w) of (r, n) \<Rightarrow> (r, w\<lparr>rest_part := n\<rparr>))"

definition drop_restart :: "('a \<times> bool) \<times> 's \<Rightarrow> 'a \<times> 's" where
  "drop_restart r = (fst (fst r), snd r)"

definition run_network ::
  "('y, 'f) net_env_scheme \<Rightarrow> ('k, 'e) port_env_scheme \<Rightarrow> ('t) troubleshoot_env_scheme \<Rightarrow> 'b bodies
   \<Rightarrow> (string \<Rightarrow> string \<Rightarrow> 'b web_request \<Rightarrow> session_values \<Rightarrow> 'w \<Rightarrow> (go_error + int) \<times> 'w)
   \<Rightarrow> string \<Rightarrow> string \<Rightarrow> 'b web_request \<Rightarrow> session_values \<Rightarrow> ('k, 'y, 'w) web_state
   \<Rightarrow> (go_error + int) \<times> ('k, 'y, 'w) web_state" where
  "run_network nenv kern tenv bs other h param req vals =
     (let body = wq_body req; user = text_values vals in
      if h = ''GetPortMapping'' then on_net (GetPortMapping_handler kern)
      else if h = ''ListPhysicalInterfacesHandler'' then on_net (ListPhysicalInterfacesHandler nenv kern param)
      else if h = ''UpdatePhysicalInterfaceHandler'' then
        on_net (\<lambda>s. drop_restart (UpdatePhysicalInterfaceHandler nenv kern user param (bind_port bs body) s))
      else if h = ''CreateVlanInterfaceHandler'' then
        on_net (CreateVlanInterfaceHandler nenv kern (bind_vlan bs body))
      else if h = ''ListVlanInterfacesHandler'' then on_net (ListVlanInterfacesHandler nenv kern param)
      else if h = ''UpdateVlanInterfaceHandler'' then
        on_net (UpdateVlanInterfaceHandler nenv kern param (bind_vlan_change bs body))
      else if h = ''DeleteVlanInterfaceHandler'' then on_net (DeleteVlanInterfaceHandler nenv kern param)
      else if h = ''CreateBondedLink'' then on_net (CreateBondedLink_handler nenv kern (bind_bond bs body))
      else if h = ''ListBondInterfaces'' then on_net (ListBondInterfaces_handler nenv kern param)
      else if h = ''UpdateBondInterface'' then
        on_net (UpdateBondInterface_handler nenv kern param (bind_bond_change bs body))
      else if h = ''DeleteBondInterface'' then on_net (DeleteBondInterface_handler nenv kern param)
      else if h = ''CreateBridgeInterfaceHandler'' then
        on_net (CreateBridgeInterfaceHandler nenv kern (bind_bridge bs body))
      else if h = ''ListBridgeInterfacesHandler'' then on_net (ListBridgeInterfacesHandler nenv kern param)
      else if h = ''UpdateBridgeInterfaceHandler'' then
        on_net (UpdateBridgeInterfaceHandler nenv kern param (bind_bridge_change bs body))
      else if h = ''DeleteBridgeInterfaceHandler'' then on_net (DeleteBridgeInterfaceHandler nenv kern param)
      else if h = ''CreateStaticRouteHandler'' then
        on_net (CreateStaticRouteHandler nenv kern user (bind_route bs body))
      else if h = ''ListStaticRoutesHandler'' then on_net (ListStaticRoutesHandler nenv)
      else if h = ''DeleteStaticRouteHandler'' then
        on_net (DeleteStaticRouteHandler nenv user param (wq_query req))
      else if h = ''UpdateStaticRouteHandler'' then
        on_net (UpdateStaticRouteHandler nenv kern user param (bind_route_change bs body))
      else if h = ''Troubleshoot'' then on_shell (Troubleshoot_handler tenv (bind_command bs body))
      else on_rest (other h param req vals))"

text \<open>
  The handlers that submit to the pipeline or flush the sandbox. The scan profiles are those of the
  configuration; \<open>client_ip\<close> is the address of the client.
\<close>

record 'b submissions =
  bind_form :: "'b \<Rightarrow> go_error + upload_form"
  bind_url :: "'b \<Rightarrow> go_error + string \<times> string"
  stored_session :: "session_values \<Rightarrow> go_error + session_values"

definition fw_code :: "go_error + fw_reply \<Rightarrow> go_error + int" where
  "fw_code r =
     (case r of
        Inl p \<Rightarrow> Inl p
      | Inr (JobId code _) \<Rightarrow> Inr code
      | Inr (WholeResponse resp) \<Rightarrow> Inr (resp_status resp)
      | Inr _ \<Rightarrow> Inr StatusOK)"

definition run_pipeline ::
  "('e) submit_env_scheme \<Rightarrow> ('f) url_env_scheme \<Rightarrow> go_error + scan_profile list \<Rightarrow> string \<Rightarrow> 'b submissions
   \<Rightarrow> (string \<Rightarrow> string \<Rightarrow> 'b web_request \<Rightarrow> session_values \<Rightarrow> sys \<Rightarrow> (go_error + int) \<times> sys)
   \<Rightarrow> string \<Rightarrow> string \<Rightarrow> 'b web_request \<Rightarrow> session_values \<Rightarrow> sys \<Rightarrow> (go_error + int) \<times> sys" where
  "run_pipeline senv uenv profiles client_ip bs other h param req vals s =
     (if h = ''FlushSandboxData'' then
        (case FlushSandboxData_handler senv s of (resp, s1) \<Rightarrow> (Inr (resp_status resp), s1))
      else if h = ''CreateJobForFw'' then
        (case CreateJobForFw senv uenv profiles client_ip (wq_query req) (bind_form bs (wq_body req))
                (bind_url bs (wq_body req)) s of (r, s1) \<Rightarrow> (fw_code r, s1))
      else if h = ''CreateFileOnDemand'' then
        (case CreateFileOnDemand_handler senv profiles (stored_session bs vals) (bind_form bs (wq_body req)) s of
           (r, s1) \<Rightarrow> (answer_code r, s1))
      else if h = ''CreateUrlOnDemand'' then
        (case CreateUrlOnDemand_handler uenv vals (bind_url bs (wq_body req)) (sys_db s) of
           (r, d) \<Rightarrow> (answer_code r, s\<lparr>sys_db := d\<rparr>))
      else other h param req vals s)"

end
