(* ===== verification/Troubleshoot_Props.thy ===== *)
theory Troubleshoot_Props
  imports Troubleshoot Net_Addr
begin

text \<open>
  What the diagnostic commands guarantee: the patterns against the values they describe, the programs
  that are run, and that the system of a virtual machine is listed as it was last set.
\<close>

subsection \<open>Patterns and the values they describe\<close>

lemma digit_val_range: "is_digit c \<longleftrightarrow> 0 \<le> digit_val c \<and> digit_val c \<le> 9"
  by (auto simp: is_digit_def digit_val_def Let_def)

lemma digit_val_inj: "digit_val a = digit_val b \<longleftrightarrow> a = b"
  by (simp add: digit_val_def)

lemma digit_constants [simp]:
  "digit_val (CHR ''0'') = 0" "digit_val (CHR ''1'') = 1" "digit_val (CHR ''2'') = 2"
  "digit_val (CHR ''3'') = 3" "digit_val (CHR ''4'') = 4" "digit_val (CHR ''5'') = 5"
  "digit_val (CHR ''6'') = 6" "digit_val (CHR ''9'') = 9"
  by (simp_all add: digit_val_def)

lemma char_digit: "a = CHR ''2'' \<longleftrightarrow> digit_val a = 2" "a = CHR ''5'' \<longleftrightarrow> digit_val a = 5"
  by (simp_all flip: digit_val_inj)

text \<open>The pattern of an octet is the numbers up to 255, with at most three digits.\<close>

lemma octet_pattern_value:
  "octet_pattern s \<longleftrightarrow> s \<noteq> [] \<and> length s \<le> 3 \<and> (\<exists>v. digits_val 0 s = Some v \<and> v \<le> 255)"
proof (cases "length s \<le> 3")
  case True
  then consider "s = []" | a where "s = [a]" | a b where "s = [a, b]" | a b c where "s = [a, b, c]"
    by (cases s; cases "tl s"; cases "tl (tl s)"; cases "tl (tl (tl s))") auto
  then show ?thesis
    by cases (auto simp: octet_pattern_def digit_upto_def digit_val_range char_digit)
next
  case False
  then show ?thesis by (auto simp: octet_pattern_def split: list.split)
qed

lemma digits_val_bounds:
  "digits_val acc ds = Some v \<Longrightarrow> acc * 10 ^ length ds \<le> v \<and> v < (acc + 1) * 10 ^ length ds"
proof (induction acc ds rule: digits_val.induct)
  case (2 acc c s)
  then have d: "is_digit c" "digits_val (acc * 10 + digit_val c) s = Some v" by (auto split: if_splits)
  with 2 have ih: "(acc * 10 + digit_val c) * 10 ^ length s \<le> v"
    "v < (acc * 10 + digit_val c + 1) * 10 ^ length s" by auto
  have "acc * 10 * 10 ^ length s \<le> (acc * 10 + digit_val c) * 10 ^ length s"
    "(acc * 10 + digit_val c + 1) * 10 ^ length s \<le> (acc + 1) * 10 * 10 ^ length s"
    using d(1) by (intro mult_right_mono; simp add: digit_val_range)+
  with ih have "acc * 10 * 10 ^ length s \<le> v \<and> v < (acc + 1) * 10 * 10 ^ length s" by linarith
  then show ?case by (simp add: algebra_simps)
qed simp

lemma digits_val_digits: "list_all is_digit ds \<Longrightarrow> \<exists>v. digits_val acc ds = Some v"
  by (induction ds arbitrary: acc) auto

lemma leading_digit_bounds:
  assumes "digits_val 0 (d # ds) = Some v"
  shows "is_digit d" "digit_val d * 10 ^ length ds \<le> v" "v < (digit_val d + 1) * 10 ^ length ds"
  using assms digits_val_bounds [of "digit_val d" ds v] by (auto split: if_splits)

lemma port_range:
  assumes "validatePort p"
  shows "\<exists>n. digits_val 0 p = Some n \<and> 1 \<le> n \<and> n \<le> 65535"
proof -
  obtain d ds where p: "p = d # ds" using assms by (cases p) (auto simp: validatePort_def)
  have digits: "is_digit d" "list_all is_digit ds" "length ds \<le> 4" "1 \<le> digit_val d"
    using assms
    by (auto simp: p validatePort_def digit_from_to_def digit_upto_def split: list.splits)
  then obtain n where n: "digits_val 0 p = Some n"
    using digits_val_digits [of "d # ds" 0] p by auto
  note b = leading_digit_bounds [OF n [unfolded p]]
  have "(1::int) * 1 \<le> digit_val d * 10 ^ length ds"
    using digits(4) by (intro mult_mono) simp_all
  with b(2) have "1 \<le> n" by linarith
  moreover have "n \<le> 65535"
  proof (cases "length ds = 4 \<and> 6 \<le> digit_val d")
    case True
    with assms obtain a1 a2 a3 a4 where "ds = [a1, a2, a3, a4]" "digit_val d \<le> 6" "digit_val a1 \<le> 5"
      "digit_val a2 \<le> 5" "digit_val a3 \<le> 3" "digit_val a4 \<le> 5"
      by (auto simp: p validatePort_def digit_from_to_def digit_upto_def split: list.splits)
    with n digits show ?thesis by (auto simp: p)
  next
    case False
    then consider "length ds \<le> 3" | "length ds = 4" "digit_val d \<le> 5" using digits(3) by linarith
    then show ?thesis
    proof cases
      case 1
      then have "(10::int) ^ length ds \<le> 10 ^ 3" by (rule power_increasing) simp
      moreover have "digit_val d \<le> 9" using digits(1) by (simp add: digit_val_range)
      ultimately have "(digit_val d + 1) * 10 ^ length ds \<le> 10 * 10 ^ 3"
        using digits(4) by (intro mult_mono) simp_all
      with b(3) show ?thesis by simp
    qed (use b(3) in simp)
  qed
  ultimately show ?thesis using n by blast
qed

lemma port_accepted:
  assumes "1 \<le> n" "n < 60000"
  shows "validatePort (show_nat n)"
proof -
  obtain d ds where p: "show_nat n = d # ds" using show_nat_nonempty [of n] by (cases "show_nat n") auto
  have n: "digits_val 0 (d # ds) = Some (int n)" using digits_val_show_nat [of n] p by simp
  note b = leading_digit_bounds [OF n]
  have digits: "list_all is_digit (d # ds)" using show_nat_digits [of _ n] p by (auto simp: list_all_iff)
  have lead: "1 \<le> digit_val d"
  proof -
    have "d \<noteq> digit_char 0" using show_nat_no_zero [of n] assms(1) p by simp
    then have "digit_val d \<noteq> digit_val (digit_char 0)" by (simp only: digit_val_inj not_False_eq_True)
    then show ?thesis using digits by (simp add: digit_char_props digit_val_range)
  qed
  have "length ds \<le> 4"
  proof (rule ccontr)
    assume "\<not> ?thesis"
    then have "(10::int) ^ 5 \<le> 10 ^ length ds" by (intro power_increasing) simp_all
    also have "\<dots> \<le> digit_val d * 10 ^ length ds" using lead by simp
    finally show False using b(2) assms(2) by simp
  qed
  moreover have "digit_val d \<le> 5" if "length ds = 4"
    using that b(2) assms(2) by simp
  moreover have "digit_val d \<le> 9" using digits by (simp add: digit_val_range)
  ultimately show ?thesis
    using digits lead unfolding p
    by (cases "length ds = 4"; cases "ds = []"; cases "digit_val d \<le> 5")
      (auto simp: validatePort_def digit_from_to_def Suc_le_eq)
qed

text \<open>The ports a scan accepts are ports: a text the pattern accepts is a number from 1 to 65535, and
  every number below 60000 is accepted. Of the numbers above, the pattern refuses some, as 60006.
\<close>

theorem accepted_ports:
  "(validatePort p \<longrightarrow> (\<exists>n. digits_val 0 p = Some n \<and> 1 \<le> n \<and> n \<le> 65535))
   \<and> (1 \<le> n \<and> n < 60000 \<longrightarrow> validatePort (show_nat n)) \<and> \<not> validatePort ''60006''"
proof (intro conjI impI)
  show "validatePort p \<Longrightarrow> \<exists>n. digits_val 0 p = Some n \<and> 1 \<le> n \<and> n \<le> 65535" by (rule port_range)
  show "1 \<le> n \<and> n < 60000 \<Longrightarrow> validatePort (show_nat n)" by (rule port_accepted) simp_all
  show "\<not> validatePort ''60006''" by code_simp
qed

theorem accepted_ports_witness:
  "(\<exists>n. digits_val 0 ''443'' = Some n \<and> 1 \<le> n \<and> n \<le> 65535) \<and> validatePort (show_nat 8080)"
proof -
  have "validatePort ''443''" by code_simp
  with accepted_ports [of "''443''" 8080] show ?thesis by simp
qed

subsection \<open>The systems of the virtual machines\<close>

lemma vm_lines_step:
  "vm_lines (line # ls) m =
     vm_lines ls (case line_entry line of None \<Rightarrow> m | Some (n, q) \<Rightarrow> m(n \<mapsto> q))"
  by (simp add: line_entry_def split: list.split option.split)

lemma vm_lines_entries: "vm_lines ls m = m ++ map_of (rev (List.map_filter line_entry ls))"
proof (induction ls arbitrary: m)
  case (Cons line ls)
  then show ?case
    by (cases "line_entry line") (auto simp del: vm_lines.simps simp: vm_lines_step List.map_filter_simps)
qed (simp add: List.map_filter_simps)

lemma split_two_one: "d \<notin> set x \<Longrightarrow> split_two d (x @ d # y) = [x, y]"
  by (induction x) auto

lemma split_two_parts: "split_two d s = p # q # r \<Longrightarrow> set q \<subseteq> set s \<and> r = []"
proof (induction s arbitrary: p q r)
  case (Cons c s)
  show ?case
  proof (cases "c = d")
    case False
    then obtain x xs where "split_two d s = x # xs" using Cons.prems by (cases "split_two d s") auto
    with Cons False show ?thesis by (cases xs) auto
  qed (use Cons in auto)
qed simp

definition writable_entry :: "int \<times> string \<Rightarrow> bool" where
  "writable_entry e \<longleftrightarrow> min_int64 \<le> fst e \<and> fst e \<le> max_int64 \<and> line_end \<notin> set (snd e)"

lemma atoi_range: "atoi p = Some n \<Longrightarrow> min_int64 \<le> n \<and> n \<le> max_int64"
  by (auto simp: atoi_def in_int64_def split: list.splits if_splits bind_splits)

lemma entries_writable: "e \<in> set (platform_entries content) \<Longrightarrow> writable_entry e"
proof -
  assume "e \<in> set (platform_entries content)"
  then obtain line where line: "line \<in> set (split_on line_end content)" "line_entry line = Some e"
    by (auto simp: platform_entries_def List.map_filter_def)
  then obtain p q r n where "split_two (CHR '' '') line = p # q # r" "atoi p = Some n" "e = (n, q)"
    by (auto simp: line_entry_def split: if_splits list.splits option.splits)
  with split_on_parts [OF line(1)] split_two_parts atoi_range show "writable_entry e"
    by (fastforce simp: writable_entry_def)
qed

lemma show_int_no_space: "CHR '' '' \<notin> set (show_int n) \<and> line_end \<notin> set (show_int n)"
proof -
  have "\<not> is_digit (CHR '' '')" "\<not> is_digit line_end" by (simp_all add: is_digit_def)
  then show ?thesis using show_nat_digits by (auto simp: show_int_def)
qed

lemma digit_no_space: "is_digit c \<Longrightarrow> \<not> is_space c"
  by (auto simp: is_digit_def is_space_def Let_def)

lemma line_entry_written:
  assumes "writable_entry e"
  shows "line_entry (show_int (fst e) @ CHR '' '' # snd e) = Some e"
proof -
  obtain n where "show_int (fst e) = show_nat n \<or> show_int (fst e) = CHR ''-'' # show_nat n"
    by (cases "fst e < 0") (simp_all add: show_int_def, blast+)
  moreover obtain c where "c \<in> set (show_nat n)" "\<not> is_space c"
    using digit_no_space show_nat_digits hd_in_set [OF show_nat_nonempty] by blast
  ultimately have "\<exists>c \<in> set (show_int (fst e)). \<not> is_space c" by auto
  then have "trim_space (show_int (fst e) @ '' '' @ snd e) \<noteq> []"
    by (auto simp: trim_space_blank list_all_iff)
  moreover have "split_two (CHR '' '') (show_int (fst e) @ '' '' @ snd e) = [show_int (fst e), snd e]"
    using split_two_one [of "CHR '' ''"] show_int_no_space by simp
  ultimately show ?thesis
    using assms atoi_show_int [of "fst e"] by (simp add: line_entry_def writable_entry_def)
qed

lemma written_entries:
  assumes "\<forall>e \<in> set es. writable_entry e"
  shows "platform_entries (concat (map written_entry es)) = es"
proof -
  let ?line = "\<lambda>e. show_int (fst e) @ '' '' @ snd e"
  have "concat (map written_entry es) = concat (map (\<lambda>l. l @ [line_end]) (map ?line es))"
    by (rule arg_cong [of _ _ concat]) (simp add: written_entry_def)
  moreover have "\<forall>l \<in> set (map ?line es). line_end \<notin> set l"
    using assms show_int_no_space by (auto simp: writable_entry_def)
  ultimately have "split_on line_end (concat (map written_entry es)) = map ?line es @ [[]]"
    by (simp only: split_lines)
  moreover have "List.map_filter line_entry (map ?line es @ [[]]) = es"
    using assms
    by (induction es) (simp_all add: List.map_filter_simps line_entry_written,
        simp add: line_entry_def trim_space_def)
  ultimately show ?thesis by (simp add: platform_entries_def)
qed

text \<open>The platform file as \<open>ReadVmOs\<close> finds it.\<close>

definition platform_input :: "shell_state \<Rightarrow> go_error + string" where
  "platform_input s =
     (case platform_text s of None \<Rightarrow> Inl (Err ''no such file or directory'') | Some t \<Rightarrow> Inr t)"

definition listed_entries :: "shell_state \<Rightarrow> (int \<times> string) list" where
  "listed_entries s = platform_entries (case platform_text s of None \<Rightarrow> [] | Some t \<Rightarrow> t)"

lemma ReadVmOs_entries:
  "ReadVmOs (platform_input s) =
     (\<lambda>i. if 1 \<le> i \<and> i \<le> 8 \<and> map_of (rev (listed_entries s)) i = None then Some ''windows7''
          else map_of (rev (listed_entries s)) i)"
proof -
  have "vm_lines (split_on line_end (case platform_input s of Inl _ \<Rightarrow> [] | Inr t \<Rightarrow> t)) Map.empty =
      map_of (rev (listed_entries s))"
    unfolding vm_lines_entries listed_entries_def platform_entries_def platform_input_def
    by (simp split: option.split)
  then show ?thesis by (simp only: ReadVmOs_def Let_def)
qed

lemma map_of_keys: "map_of (map (\<lambda>k. (k, f k)) ks) = (\<lambda>k. if k \<in> set ks then Some (f k) else None)"
  by (induction ks) auto

lemma updated_entries:
  assumes "\<And>xs. set (map_order env xs) = set xs" "min_int64 \<le> n" "n \<le> max_int64" "line_end \<notin> set os"
    and "updateOSConfig env n os s = (None, s')"
  shows "map_of (rev (listed_entries s')) = (map_of (rev (listed_entries s)))(n \<mapsto> os)"
proof -
  let ?es = "listed_entries s"
  let ?m = "(map_of (rev ?es))(n \<mapsto> os)"
  let ?keys = "map_order env (remdups (map fst ?es @ [n]))"
  let ?new = "map (\<lambda>k. (k, the (?m k))) ?keys"
  have keys: "set ?keys = dom ?m"
    unfolding assms(1) by (auto simp: dom_map_of_conv_image_fst)
  have "\<forall>e \<in> set ?new. writable_entry e"
  proof
    fix e assume "e \<in> set ?new"
    then obtain k v where e: "e = (k, v)" "?m k = Some v" using keys by force
    then show "writable_entry e"
      using assms(2-4) map_of_SomeD [of "rev ?es" k v]
      by (auto simp: writable_entry_def listed_entries_def split: if_splits dest: entries_writable)
  qed
  then have "platform_entries (concat (map written_entry ?new)) = ?new" by (rule written_entries)
  moreover have "platform_text s' = Some (concat (map written_entry ?new))"
    using assms(5)
    by (auto simp: updateOSConfig_def listed_entries_def Let_def comp_def split: option.splits)
  ultimately have "listed_entries s' = ?new" by (simp add: listed_entries_def)
  moreover have "map_of (rev ?new) = ?m"
    unfolding rev_map map_of_keys set_rev keys by (auto simp: fun_eq_iff domIff)
  ultimately show ?thesis by simp
qed

text \<open>C33: the system set for a virtual machine is the one listed for it afterwards, and the other machines
  keep theirs, whatever the order in which the map is written and whatever the file held.
\<close>

theorem altered_os_is_listed:
  assumes "\<And>xs. set (map_order env xs) = set xs" "AlterVmOs env vm name s = (None, s')"
  shows "\<exists>n os. atoi vm = Some n \<and> 1 \<le> n \<and> n \<le> 8 \<and> os_of_name name = Some os
    \<and> ReadVmOs (platform_input s') = (ReadVmOs (platform_input s))(n \<mapsto> os)"
proof -
  obtain n os where n: "atoi vm = Some n" "1 \<le> n" "n \<le> 8" "os_of_name name = Some os"
    "updateOSConfig env n os s = (None, s')"
    using assms(2) by (auto simp: AlterVmOs_def split: option.splits if_splits)
  then have "line_end \<notin> set os" by (auto simp: os_of_name_def Let_def split: if_splits)
  then have "map_of (rev (listed_entries s')) = (map_of (rev (listed_entries s)))(n \<mapsto> os)"
    using n by (intro updated_entries [OF assms(1)]) simp_all
  then have "ReadVmOs (platform_input s') = (ReadVmOs (platform_input s))(n \<mapsto> os)"
    by (auto simp: ReadVmOs_entries fun_eq_iff)
  with n show ?thesis by blast
qed

definition sample_shell :: troubleshoot_env where
  "sample_shell = \<lparr>combined_output = \<lambda>_ _. Inr ''done'', map_order = rev, platform_unreadable = None,
     platform_unwritable = None\<rparr>"

theorem altered_os_is_listed_witness:
  "ReadVmOs (platform_input (snd (AlterVmOs sample_shell ''3'' ''Ubuntu20''
       \<lparr>platform_text = Some ''2 Ubuntu 20'', programs_run = []\<rparr>))) =
   (ReadVmOs (Inr ''2 Ubuntu 20''))(3 \<mapsto> ''Ubuntu 20'')"
proof -
  let ?s = "\<lparr>platform_text = Some ''2 Ubuntu 20'', programs_run = []\<rparr>"
  have "set (map_order sample_shell xs) = set xs" for xs by (simp add: sample_shell_def)
  moreover have "fst (AlterVmOs sample_shell ''3'' ''Ubuntu20'' ?s) = None" by code_simp
  moreover have "atoi ''3'' = Some 3" "os_of_name ''Ubuntu20'' = Some ''Ubuntu 20''" by code_simp+
  ultimately show ?thesis
    using altered_os_is_listed [of sample_shell "''3''" "''Ubuntu20''" ?s]
    by (cases "AlterVmOs sample_shell ''3'' ''Ubuntu20'' ?s") (simp add: platform_input_def)
qed

subsection \<open>The programs that are run\<close>

text \<open>What a request of a type may run, with the checks its arguments have passed.\<close>

definition checked_call :: "int \<Rightarrow> string \<Rightarrow> string list \<Rightarrow> bool" where
  "checked_call t program args \<longleftrightarrow>
     (t = 1 \<and> program = ''ping'' \<and> (\<exists>host. args = [''-c'', ''4'', host] \<and> validateDomainOrIPAddress host))
     \<or> (t = 2 \<and> program = ''nslookup'' \<and> (\<exists>host. args = [host] \<and> validateDomain host))
     \<or> (t = 3 \<and> program = ''traceroute'' \<and> (\<exists>host. args = [host] \<and> validateDomainOrIPAddress host))
     \<or> (t = 4 \<and> program = ''nmap''
        \<and> (\<exists>ip port. args = [ip, ''-p'', port] \<and> validateIPAddress ip \<and> validatePort port))
     \<or> (t = 5 \<and> program \<in> {''/bin/ping'', ''/usr/bin/nslookup'', ''/usr/sbin/traceroute'', ''/usr/bin/nmap'', ''/sbin/ip''})
     \<or> (t = 5 \<and> program = ''/bin/systemctl''
        \<and> (\<exists>verb rest. args = verb # rest \<and> validateSystemctlCommand verb))"

definition ran_checked :: "int \<Rightarrow> shell_state \<Rightarrow> shell_state \<Rightarrow> bool" where
  "ran_checked t s s' \<longleftrightarrow> programs_run s' = programs_run s
     \<or> (\<exists>program args. s' = s\<lparr>programs_run := programs_run s @ [(program, args)]\<rparr> \<and> checked_call t program args)"

lemma ran_same [simp]: "ran_checked t s s" by (simp add: ran_checked_def)

lemma processCommand_ran:
  "checked_call t program args \<Longrightarrow> ran_checked t s (snd (processCommand env program args s))"
  by (auto simp: ran_checked_def processCommand_def)

lemma run_line_ran:
  "checked_call t program args \<Longrightarrow> ran_checked t s (snd (run_program_line env program args s))"
  using processCommand_ran [of t program args s env]
  by (cases "processCommand env program args s") (simp add: run_program_line_def)

lemma checked_answer_state [simp]: "snd (checked_answer f r) = snd r"
  by (simp add: checked_answer_def split: prod.splits sum.splits)

lemma AlterVmOs_programs: "programs_run (snd (AlterVmOs env vm name s)) = programs_run s"
  by (simp add: AlterVmOs_def updateOSConfig_def Let_def split: option.split)

lemma config_programs: "programs_run (snd (config_command env args s)) = programs_run s"
proof -
  have "programs_run s1 = programs_run s" if "AlterVmOs env vm os s = (r, s1)" for vm os r s1
    using AlterVmOs_programs [of env vm os s] that by simp
  then show ?thesis by (simp add: config_command_def split: list.split prod.split option.split)
qed

lemma command_line_ran: "ran_checked 5 s (snd (command_line env text_line s))"
proof -
  have "ran_checked 5 s (snd (config_command env args s))" for args
    by (simp add: ran_checked_def config_programs)
  then show ?thesis
    by (auto simp: command_line_def Let_def checked_call_def intro!: run_line_ran split: list.split)
qed

text \<open>C32: a request runs at most one program, a request that runs one changes nothing else, and the program
  and its arguments have passed the checks of the request's type: hosts are domain names or addresses,
  ports are ports, a command line runs one of six programs and of \<open>systemctl\<close> only the listed verbs.
\<close>

theorem troubleshoot_runs_checked_programs:
  "ran_checked (tr_type req) s (snd (Troubleshoot env req s))"
proof -
  have "ran_checked 1 s (snd (ping env h s))" "ran_checked 2 s (snd (nslookup env h s))"
    "ran_checked 3 s (snd (traceroute env h s))" "ran_checked 4 s (snd (portScan env h p s))" for h p
    by (auto simp: ping_def nslookup_def traceroute_def portScan_def checked_call_def
        intro!: processCommand_ran)
  then show ?thesis by (simp add: Troubleshoot_def command_line_ran Let_def)
qed

text \<open>
  The arguments of a command line are not checked: \<open>ip\<close> takes any words, so \<open>ip netns exec\<close> runs any
  program of the appliance.
\<close>

definition word_ok :: "string \<Rightarrow> bool" where
  "word_ok w \<longleftrightarrow> w \<noteq> [] \<and> list_all (\<lambda>c. \<not> is_space c \<and> lower_char c = c) w"

lemma fields_word: "list_all (\<lambda>c. \<not> is_space c) w \<Longrightarrow> fields_from u (w @ s) = fields_from (rev w @ u) s"
  by (induction w arbitrary: u) auto

lemma fields_words:
  assumes "u \<noteq> []" "\<forall>w \<in> set ws. word_ok w"
  shows "fields_from u (concat (map (\<lambda>w. CHR '' '' # w) ws)) = rev u # ws"
  using assms
proof (induction ws arbitrary: u)
  case (Cons w ws)
  have "is_space (CHR '' '')" by (simp add: is_space_def)
  moreover have "fields_from [] (w @ concat (map (\<lambda>w. CHR '' '' # w) ws)) = w # ws"
    using Cons fields_word [of w "[]"] by (simp add: word_ok_def list_all_iff)
  ultimately show ?case using Cons.prems(1) by simp
qed simp

lemma trim_space_same: "s \<noteq> [] \<Longrightarrow> \<not> is_space (hd s) \<Longrightarrow> \<not> is_space (last s) \<Longrightarrow> trim_space s = s"
proof -
  assume "s \<noteq> []" "\<not> is_space (hd s)" "\<not> is_space (last s)"
  moreover from this have "rev s \<noteq> []" "\<not> is_space (hd (rev s))" by (simp_all add: hd_rev)
  ultimately have "dropWhile is_space s = s" "dropWhile is_space (rev s) = rev s"
    by (metis dropWhile.simps(2) list.collapse)+
  then show "trim_space s = s" by (simp add: trim_space_def)
qed

theorem any_arguments_reach_ip:
  assumes "tr_type req = 5" "\<forall>w \<in> set ws. word_ok w"
    and "tr_command req = ''ip'' @ concat (map (\<lambda>w. CHR '' '' # w) ws)"
  shows "programs_run (snd (Troubleshoot env req s)) = programs_run s @ [(''/sbin/ip'', ws)]"
proof -
  let ?c = "''ip'' @ concat (map (\<lambda>w. CHR '' '' # w) ws)"
  have i: "\<not> is_space (CHR ''i'')" "\<not> is_space (CHR ''p'')" by (simp_all add: is_space_def)
  have "\<not> is_space (last ?c)"
  proof (cases ws rule: rev_cases)
    case (snoc vs w)
    with assms(2) have "w \<noteq> []" "\<not> is_space (last w)" by (auto simp: word_ok_def list_all_iff)
    with snoc show ?thesis by simp
  qed (use i in simp)
  then have trim: "trim_space ?c = ?c" using i by (intro trim_space_same) simp_all
  have "map lower_char (concat (map (\<lambda>w. CHR '' '' # w) ws)) = concat (map (\<lambda>w. CHR '' '' # w) ws)"
    using assms(2) by (induction ws) (auto simp: word_ok_def list_all_iff lower_char_def intro: map_idI)
  then have lower: "to_lower ?c = ?c" by (simp add: to_lower_def lower_char_def)
  have "split_on (CHR '' '') ?c = ''ip'' # (case ws of [] \<Rightarrow> [] | _ \<Rightarrow> tl (split_on (CHR '' '') ?c))"
    by (cases ws) simp_all
  then have allowed: "isCommandAllowed ?c"
    by (simp add: isCommandAllowed_def allowedCommands_def split: list.splits)
  have "str_fields ?c = ''ip'' # ws"
    using fields_words [of "''pi''" ws] assms(2) i by (simp add: str_fields_def)
  then show ?thesis
    using allowed
    by (simp add: Troubleshoot_def command_line_def assms(1, 3) trim lower run_program_line_def
        processCommand_def Let_def del: append.simps)
qed

end
