(* ===== verification/Router_Props.thy ===== *)
theory Router_Props
  imports Router Sample_Host Troubleshoot_Props
begin

text \<open>
  What the HTTP interface guarantees and what it leaves open: which handlers a client without a session
  reaches, that a session can be made from the constants of the source, and that the permissions of a
  role do not restrict what its users can do to the network.
\<close>

subsection \<open>Guarded routes\<close>

text \<open>The handlers that run for anybody.\<close>

definition open_handlers :: "string list" where
  "open_handlers =
     [''UpdateLoggingEnabledFlag'', ''FlushSandboxData'', ''Test'', ''Login'', ''Signup'', ''CreateLicenseKey'',
      ''CheckLicenseKeyAvailability'', ''CreateJobForFw'', ''ApplyDeviceConfigFile'', ''CreateHa'',
      ''CompareDeviceInfoFromAnotherAppliance'', ''HaCopyConfig'', ''SyncBackup'',
      ''GenerateKeepalivedConfigForBackup'', ''DisableHaInAnotherAppliance'', ''UpdateLastSyncedAt'',
      ''TestAPTFw'', ''DeviceConfigUiForm'']"

lemma unguarded_open: "r \<in> set (routes f) \<Longrightarrow> \<not> rt_guarded r \<Longrightarrow> rt_handler r \<in> set open_handlers"
  by (auto simp: routes_def group_routes_def router_routes_def factory_routes_def open_handlers_def)

lemma found_route: "find P rs = Some r \<Longrightarrow> r \<in> set rs"
  by (auto simp: find_Some_iff)

text \<open>The tokens a guarded request needs: those of its session, valid, and the access token as its header.\<close>

definition carries_tokens :: "('y, 'e) auth_env_scheme \<Rightarrow> 'b web_request \<Rightarrow> bool" where
  "carries_tokens env req \<longleftrightarrow>
     (\<exists>scheme access refresh ca cr. split_on (CHR '' '') (wq_header req) = [scheme, access]
        \<and> wq_session req ''refresh_token'' = Some (AStr refresh)
        \<and> parse_token env Access_key (clock env) access = Inr (True, ca)
        \<and> parse_token env Refresh_key (clock env) refresh = Inr (True, cr))"

lemma passed_carries:
  "JWTAuthMiddleware env save_error (wq_header req) (wq_session req) = (Inr None, vals) \<Longrightarrow> carries_tokens env req"
  using middleware_passed [of env save_error "wq_header req" "wq_session req" vals]
  unfolding carries_tokens_def by blast

text \<open>C30: a request that reaches a handler, or changes anything, either carries the tokens of a session or
  is for one of the open handlers, whatever the handlers do.
\<close>

theorem handled_requests_are_authorized:
  assumes "serve env save_error form cors run req w = (ans, w')"
    and "w' \<noteq> w \<or> (\<exists>code. ans = Handled code)"
  shows "carries_tokens env req
    \<or> (\<exists>r. find (route_matches req) (routes form) = Some r \<and> rt_handler r \<in> set open_handlers)"
proof -
  obtain r where r: "find (route_matches req) (routes form) = Some r"
    using assms by (auto simp: serve_def split: if_splits option.splits)
  note in_routes = found_route [OF r]
  show ?thesis
  proof (cases "rt_guarded r")
    case True
    then have "\<exists>vals. JWTAuthMiddleware env save_error (wq_header req) (wq_session req) = (Inr None, vals)"
      using assms r
      by (cases "JWTAuthMiddleware env save_error (wq_header req) (wq_session req)")
        (auto simp: serve_def split: if_splits sum.splits option.splits)
    then show ?thesis using passed_carries by blast
  next
    case False
    with in_routes r show ?thesis by (auto dest: unguarded_open)
  qed
qed

subsection \<open>Forged sessions\<close>

text \<open>
  The keys of the tokens and of the cookie are constants of the source. A session made with them, for a
  user that need not exist, passes the middleware.
\<close>

definition forged_session :: "string \<Rightarrow> string \<Rightarrow> int \<Rightarrow> session_values" where
  "forged_session access refresh expiry =
     [''access_token'' \<mapsto> AStr access, ''refresh_token'' \<mapsto> AStr refresh, ''exp'' \<mapsto> AInt expiry,
      ''admin_name'' \<mapsto> AStr ''nobody'']"

text \<open>
  What is assumed of the token library: a token signed with a key and not expired verifies under it.
\<close>

definition jwt_works :: "('y, 'e) auth_env_scheme \<Rightarrow> bool" where
  "jwt_works env \<longleftrightarrow> (\<forall>key claims tok. sign_token env key claims = Inr tok
     \<longrightarrow> unix_time (clock env) \<le> ExpiresAt claims \<longrightarrow> (\<exists>c. parse_token env key (clock env) tok = Inr (True, c)))"

text \<open>Whoever knows the keys in the source makes a session that every guarded route accepts: a token
  signed with a constant key verifies, and the middleware asks neither for a user nor for a log-in.
\<close>

theorem forged_session_passes:
  assumes "jwt_works env" "sign_token env Access_key claims = Inr access"
    and "sign_token env Refresh_key claims = Inr refresh" "CHR '' '' \<notin> set access"
    and "unix_time (clock env) \<le> ExpiresAt claims"
  shows "JWTAuthMiddleware env save_error (''Bearer '' @ access) (forged_session access refresh (ExpiresAt claims))
    = (Inr None, forged_session access refresh (ExpiresAt claims))"
proof -
  have "split_on (CHR '' '') (''Bearer '' @ access) = [''Bearer'', access]"
    using split_on_one [OF assms(4)] by simp
  moreover obtain ca cr where "parse_token env Access_key (clock env) access = Inr (True, ca)"
    "parse_token env Refresh_key (clock env) refresh = Inr (True, cr)"
    using assms(1-3, 5) unfolding jwt_works_def by blast
  ultimately show ?thesis
    using assms(5)
    by (simp add: JWTAuthMiddleware_def renew_access_def check_tokens_def expired_def forged_session_def
        as_int_def as_string_def AuthenticateToken_def)
qed

theorem forged_session_passes_witness:
  "JWTAuthMiddleware sample_auth None (''Bearer '' @ Access_key @ ''nobody'')
      (forged_session (Access_key @ ''nobody'') (Refresh_key @ ''nobody'') 5)
    = (Inr None, forged_session (Access_key @ ''nobody'') (Refresh_key @ ''nobody'') 5)"
proof -
  have "jwt_works sample_auth" by (auto simp: jwt_works_def sample_auth_def)
  from forged_session_passes [OF this, of "\<lparr>ExpiresAt = 5, IssuedAt = 0, Issuer = ''nobody''\<rparr>"
      "Access_key @ ''nobody''" "Refresh_key @ ''nobody''" None]
  show ?thesis by (simp add: sample_auth_def Access_key_def unix_time_def go_second_def)
qed

subsection \<open>Roles\<close>

text \<open>
  Everything the middleware and these handlers read of a session, without the role: what a log-in stores
  as the role has no influence.
\<close>

definition with_role :: "string \<Rightarrow> 'b web_request \<Rightarrow> 'b web_request" where
  "with_role role req = req\<lparr>wq_session := (wq_session req)(''admin_role'' \<mapsto> AStr role)\<rparr>"

lemma renew_role:
  "renew_access env (vals(''admin_role'' \<mapsto> AStr role)) =
     map_sum id (map_sum id (\<lambda>v. v(''admin_role'' \<mapsto> AStr role))) (renew_access env vals)"
  by (simp add: renew_access_def fun_upd_twist split: sum.split prod.split option.split)

lemma check_role: "check_tokens env header (vals(''admin_role'' \<mapsto> AStr role)) = check_tokens env header vals"
  by (simp add: check_tokens_def cong: sum.case_cong prod.case_cong)

lemma middleware_role:
  "JWTAuthMiddleware env save_error header (vals(''admin_role'' \<mapsto> AStr role)) =
     map_prod id (\<lambda>v. v(''admin_role'' \<mapsto> AStr role)) (JWTAuthMiddleware env save_error header vals)"
  by (simp add: JWTAuthMiddleware_def renew_role check_role expired_def split: sum.split option.split)

definition network_handlers :: "string list" where
  "network_handlers =
     [''GetPortMapping'', ''ListPhysicalInterfacesHandler'', ''UpdatePhysicalInterfaceHandler'',
      ''CreateVlanInterfaceHandler'', ''ListVlanInterfacesHandler'', ''UpdateVlanInterfaceHandler'',
      ''DeleteVlanInterfaceHandler'', ''CreateBondedLink'', ''ListBondInterfaces'', ''UpdateBondInterface'',
      ''DeleteBondInterface'', ''CreateBridgeInterfaceHandler'', ''ListBridgeInterfacesHandler'',
      ''UpdateBridgeInterfaceHandler'', ''DeleteBridgeInterfaceHandler'', ''CreateStaticRouteHandler'',
      ''ListStaticRoutesHandler'', ''DeleteStaticRouteHandler'', ''UpdateStaticRouteHandler'', ''Troubleshoot'']"

lemma text_values_role:
  "GetCurUsr (text_values (vals(''admin_role'' \<mapsto> AStr role))) = GetCurUsr (text_values vals)"
  by (simp add: text_values_def GetCurUsr_def)

lemma user_role:
  "with_user (text_values (vals(''admin_role'' \<mapsto> AStr role))) f = with_user (text_values vals) f"
  by (simp add: with_user_def text_values_role fun_eq_iff)

lemma run_network_role:
  assumes "h \<in> set network_handlers"
  shows "run_network nenv kern tenv bs other h param (with_role role req) (vals(''admin_role'' \<mapsto> AStr role)) =
    run_network nenv kern tenv bs other h param req vals"
proof -
  note handlers = UpdatePhysicalInterfaceHandler_def CreateStaticRouteHandler_def DeleteStaticRouteHandler_def
    UpdateStaticRouteHandler_def
  have body: "wq_body (with_role role req) = wq_body req" "wq_query (with_role role req) = wq_query req"
    by (simp_all add: with_role_def)
  show ?thesis
    unfolding run_network_def handlers user_role body Let_def
    by (intro if_cong [OF refl refl]) (use assms in \<open>simp add: network_handlers_def\<close>)
qed

text \<open>C31: the permissions of a role are not enforced: what a user can do to the network and with the
  diagnostic commands does not depend on the role of the session. Permissions shape the menu only, and
  so does the read-only access an expired license leaves.
\<close>

theorem role_is_not_enforced:
  assumes "find (route_matches req) (routes form) = Some r" "rt_handler r \<in> set network_handlers"
    and "cors (with_role role req) = cors req"
  shows "serve env save_error form cors (run_network nenv kern tenv bs other) (with_role role req) w =
    serve env save_error form cors (run_network nenv kern tenv bs other) req w"
proof -
  have req: "route_matches (with_role role req) = route_matches req" "wq_header (with_role role req) = wq_header req"
    "path_param r (with_role role req) = path_param r req"
    "wq_session (with_role role req) = (wq_session req)(''admin_role'' \<mapsto> AStr role)"
    by (simp_all add: with_role_def route_matches_def path_param_def fun_eq_iff)
  have "set network_handlers \<inter> set open_handlers = {}"
    by (simp add: network_handlers_def open_handlers_def)
  with assms(2) found_route [OF assms(1)] have guarded: "rt_guarded r" by (auto dest: unguarded_open)
  show ?thesis
    using guarded assms
    by (auto simp: serve_def req middleware_role run_network_role Let_def
        split: sum.split option.split prod.split)
qed

subsection \<open>Flushing the sandbox\<close>

text \<open>
  Flushing needs no session: one request deletes every task in the sandbox, also those that running
  files wait for.
\<close>

theorem anyone_flushes_the_sandbox:
  assumes "find (route_matches req) (routes form) = Some r" "rt_handler r = ''FlushSandboxData''"
    and "\<not> rt_guarded r" "cors req" "fetchAllTasksFromSandbox senv = Inr ts"
  shows "\<exists>s'. serve env save_error form cors (run_pipeline senv uenv profiles ip bs other) req s = (Handled StatusOK, s')
    \<and> sandbox_deletes s' = sandbox_deletes s @ filter (\<lambda>i. i \<noteq> 0) (map SandboxTaskId ts)"
  using assms
  by (simp add: serve_def run_pipeline_def FlushSandboxData_handler_def FlushSandboxData_def flush_deletes Let_def)

subsection \<open>Sample requests\<close>

definition command_request :: "troubleshoot_request web_request" where
  "command_request =
     \<lparr>wq_method = ''POST'', wq_path = ''/troubleshoot'', wq_header = ''Bearer '' @ Access_key @ ''ann'',
      wq_session = sample_session(''admin_role'' \<mapsto> AStr ''super''), wq_query = \<lambda>_. [],
      wq_body = \<lparr>tr_name = [], tr_type = 5, tr_port = [], tr_ip = [], tr_command = ''ip link''\<rparr>\<rparr>"

definition flush_request :: "troubleshoot_request web_request" where
  "flush_request = command_request\<lparr>wq_method := ''DELETE'', wq_path := ''/flush-sandbox-data'', wq_header := [],
     wq_session := Map.empty\<rparr>"

lemma command_route:
  "find (route_matches command_request) (routes False) =
     Some \<lparr>rt_method = ''POST'', rt_path = ''/troubleshoot'', rt_guarded = True, rt_handler = ''Troubleshoot''\<rparr>"
  by code_simp

lemma flush_route:
  "find (route_matches flush_request) (routes False) =
     Some \<lparr>rt_method = ''DELETE'', rt_path = ''/flush-sandbox-data'', rt_guarded = False,
           rt_handler = ''FlushSandboxData''\<rparr>"
  by code_simp

theorem handled_requests_are_authorized_witness:
  "carries_tokens sample_auth flush_request
    \<or> (\<exists>r. find (route_matches flush_request) (routes False) = Some r \<and> rt_handler r \<in> set open_handlers)"
  by (rule handled_requests_are_authorized
        [of sample_auth None False "\<lambda>_. True" "\<lambda>_ _ _ _ n. (Inr 200, Suc n)" _ 0 "Handled 200" 1])
    (simp_all add: serve_def flush_route)

definition no_bodies :: "troubleshoot_request bodies" where
  "no_bodies = (let e = \<lambda>_. Inl (Err ''EOF'') in
     \<lparr>bind_port = e, bind_vlan = \<lambda>_. Inl (Err ''EOF''), bind_vlan_change = \<lambda>_. Inl (Err ''EOF''),
      bind_bond = \<lambda>_. Inl (Err ''EOF''), bind_bond_change = \<lambda>_. Inl (Err ''EOF''),
      bind_bridge = \<lambda>_. Inl (Err ''EOF''), bind_bridge_change = \<lambda>_. Inl (Err ''EOF''),
      bind_route = \<lambda>_. Inl (Err ''EOF''), bind_route_change = \<lambda>_. Inl (Err ''EOF''), bind_command = Inr\<rparr>)"

definition idle_appliance :: "(table, net_config, unit) web_state" where
  "idle_appliance =
     \<lparr>net_part = \<lparr>kernel = [], net_doc = None, PortMapping = Map.empty\<rparr>,
      shell_part = \<lparr>platform_text = None, programs_run = []\<rparr>, rest_part = ()\<rparr>"

theorem role_is_not_enforced_witness:
  "serve sample_auth None False (\<lambda>_. True) (run_network plain_env table_kernel sample_shell no_bodies
       (\<lambda>_ _ _ _ w. (Inr 200, w))) (with_role ''viewer'' command_request) idle_appliance =
   serve sample_auth None False (\<lambda>_. True) (run_network plain_env table_kernel sample_shell no_bodies
       (\<lambda>_ _ _ _ w. (Inr 200, w))) command_request idle_appliance"
  by (rule role_is_not_enforced [OF command_route]) (simp_all add: network_handlers_def)

end
