(* ===== verification/Restore.thy ===== *)
theory Restore
  imports Backup Router Store_Laws Sample_Host
begin

text \<open>
  Downloading the configuration and restoring an uploaded one: \<open>Restore\<close> of \<open>service/backup.go\<close> and the
  handlers of \<open>controller/backup.go\<close>. A restore goes through three components: the copies of
  \<open>Backup\<close>, the configuration of \<open>Config_Store\<close> and the addresses of \<open>Physical_Ports\<close>. Here they work on
  one appliance, whose files are the disk of \<open>Backup\<close>; the license file and the kernel lie beside it.
\<close>

record ('k, 'y) box =
  bx_disk :: "'y disk"
  bx_license :: "'y option"
  bx_kernel :: 'k

record ('k, 'y, 'v) box_env =
  be_disk :: "('y, 'v) disk_env"
  be_conf :: "'y conf_env"
  be_net :: "'y net_env"
  be_kernel :: "'k port_env"
  be_stat :: "go_error option"
  be_marshal :: "(disk_file \<rightharpoonup> 'v) \<Rightarrow> go_error + 'y"
  be_uploaded :: "'y \<Rightarrow> go_error + (disk_file \<rightharpoonup> 'v)"
  be_send :: "go_error option"

subsection \<open>The components on one appliance\<close>

definition on_store :: "('y store \<Rightarrow> 'r \<times> 'y store) \<Rightarrow> ('k, 'y) box \<Rightarrow> 'r \<times> ('k, 'y) box" where
  "on_store f s =
     (case f \<lparr>config_doc = bx_disk s ConfigYaml, license_doc = bx_license s\<rparr> of
        (r, st) \<Rightarrow> (r, s\<lparr>bx_disk := (bx_disk s)(ConfigYaml := config_doc st), bx_license := license_doc st\<rparr>))"

definition on_disk :: "('y disk \<Rightarrow> 'r \<times> 'y disk) \<Rightarrow> ('k, 'y) box \<Rightarrow> 'r \<times> ('k, 'y) box" where
  "on_disk f s = (case f (bx_disk s) of (r, d) \<Rightarrow> (r, s\<lparr>bx_disk := d\<rparr>))"

definition on_host :: "(('k, 'y) host \<Rightarrow> 'r \<times> ('k, 'y) host) \<Rightarrow> ('k, 'y) box \<Rightarrow> 'r \<times> ('k, 'y) box" where
  "on_host f s =
     (case f \<lparr>kernel = bx_kernel s, net_doc = bx_disk s InterfaceYaml\<rparr> of
        (r, h) \<Rightarrow> (r, s\<lparr>bx_disk := (bx_disk s)(InterfaceYaml := net_doc h), bx_kernel := kernel h\<rparr>))"

text \<open>The times kept in the configuration.\<close>

definition FetchBackupConfigTime ::
  "('y, 'e) conf_env_scheme \<Rightarrow> ('y, 's) store_scheme \<Rightarrow> (go_error + int) \<times> ('y, 's) store_scheme" where
  "FetchBackupConfigTime env st =
     (case FetchConfigData env st of
        (Inl e, st1) \<Rightarrow> (Inl e, st1) | (Inr c, st1) \<Rightarrow> (Inr (BackupConfigTime c), st1))"

text \<open>A step that only reports an error, as an action.\<close>

definition step_act :: "('s \<Rightarrow> go_error option \<times> 's) \<Rightarrow> ('s, unit) act" where
  "step_act f s = (case f s of (None, s') \<Rightarrow> (Inr (), s') | (Some e, s') \<Rightarrow> (Inl e, s'))"

subsection \<open>Restoring\<close>

text \<open>
  The files that are created, then written, and the addresses set anew, up to the first error. The
  configuration is marshalled by the encoder that writes it.
\<close>

definition restore_steps ::
  "('k, 'y, 'v) box_env \<Rightarrow> app_config \<Rightarrow> 'v option \<Rightarrow> (('k, 'y) box, unit) act" where
  "restore_steps env config ifaces =
     all_of
       [step_act (on_disk (os_create (be_disk env) ConfigYaml)),
        step_act (on_disk (os_create (be_disk env) InterfaceYaml)),
        step_act (on_disk (\<lambda>d. case enc_config (be_conf env) config of
                                 Inl e \<Rightarrow> (Some e, d)
                               | Inr y \<Rightarrow> os_write (be_disk env) ConfigYaml y d)),
        step_act (on_disk (write_yaml (be_disk env) InterfaceYaml ifaces)),
        on_host (RestoreInterfaceSettings (be_net env) (be_kernel env))]"

definition server_failed :: "go_error \<Rightarrow> go_error + string api_response" where
  "server_failed e = (case e of Panic p \<Rightarrow> Inl (Panic p) | Err t \<Rightarrow> Inr (server_side (Err t)))"

definition restored :: "string api_response" where
  "restored = NewSuccessResponse ''Success'' (Some ''Data restored successfully'')"

definition ErrExtensionNotSupported :: go_error where
  "ErrExtensionNotSupported = Err ''extension not supported''"

text \<open>
  \<open>form\<close> are the uploaded files, each a name with the error of opening it or its bytes; \<open>tm\<close> is the
  time of the restore.
\<close>

definition Restore ::
  "('k, 'y, 'v) box_env \<Rightarrow> int \<Rightarrow> (string \<times> (go_error + 'y)) list \<Rightarrow> ('k, 'y) box
   \<Rightarrow> (go_error + string api_response) \<times> ('k, 'y) box" where
  "Restore env tm form s =
     (case form of
        [] \<Rightarrow> (Inr (bad ''Required field empty'' ErrRequiredFieldEmpty), s)
      | (name, content) # _ \<Rightarrow>
          if filepath_ext name \<noteq> ''.yaml'' then (Inr (bad ''extension not supported'' ErrExtensionNotSupported), s)
          else
            (case on_store (FetchBackupConfigTime (be_conf env)) s of
               (Inl e, s1) \<Rightarrow> (Inr (bad ''Error while fetching data'' e), s1)
             | (Inr backupTime, s1) \<Rightarrow>
                 (case content of
                    Inl e \<Rightarrow> (Inr (bad ''Error from client side'' e), s1)
                  | Inr bytes \<Rightarrow>
                      (case be_uploaded env bytes of
                         Inl e \<Rightarrow> (Inr (server_side e), s1)
                       | Inr uploaded \<Rightarrow>
                           (case on_disk (CopyOldConfigData (be_disk env) ''RESTORE'') s1 of
                              (resp, s2) \<Rightarrow>
                                if resp_status resp \<noteq> StatusOK then (Inr resp, s2)
                                else
                                  (case encode (be_disk env) (uploaded ConfigYaml) of
                                     Inl e \<Rightarrow> (Inr (server_side e), s2)
                                   | Inr y \<Rightarrow>
                                       (case dec_config (be_conf env) y of
                                          Inl e \<Rightarrow> (Inr (server_side e), s2)
                                        | Inr c \<Rightarrow>
                                            (case restore_steps env
                                                    (MergeConfigAndUploadedData (be_conf env) c (bx_disk s2 ConfigYaml))
                                                    (uploaded InterfaceYaml) s2 of
                                               (Inl e, s3) \<Rightarrow> (server_failed e, s3)
                                             | (Inr _, s3) \<Rightarrow>
                                                 (case on_store (SaveProfile (be_conf env)
                                                         [RestoreProfile tm, BackupProfile backupTime]) s3 of
                                                    (Some e, s4) \<Rightarrow> (Inr (bad ''Error while saving data'' e), s4)
                                                  | (None, s4) \<Rightarrow> (Inr restored, s4))))))))))"

subsection \<open>The handlers\<close>

text \<open>
  A download is sent as the body, so the answer is a response or the bytes. The size of the file is read
  from the result of \<open>Stat\<close>, which is nil when \<open>Stat\<close> failed for another reason than a missing file.
\<close>

definition Backup_handler ::
  "('k, 'y, 'v) box_env \<Rightarrow> int \<Rightarrow> ('k, 'y) box \<Rightarrow> (go_error + (string api_response + 'y)) \<times> ('k, 'y) box" where
  "Backup_handler env tm s =
     (if bx_disk s ConfigYaml = None then (Inr (Inl (bad ''file not found'' ErrFileNotFound)), s)
      else
        (case on_store (SaveProfile (be_conf env) [BackupProfile tm]) s of
           (Some e, s1) \<Rightarrow> (Inr (Inl (bad ''Error while saving data'' e)), s1)
         | (None, s1) \<Rightarrow>
             (let merged = MergeInterfaceAndConfigData (be_disk env) ''BACKUP'' (bx_disk s1) in
              if be_stat env \<noteq> None then (Inl nil_panic, s1)
              else
                (case be_marshal env merged of
                   Inl e \<Rightarrow> (Inr (Inl (server_side e)), s1)
                 | Inr y \<Rightarrow>
                     (case be_send env of
                        Some e \<Rightarrow> (Inr (Inl (bad ''file not found'' e)), s1)
                      | None \<Rightarrow> (Inr (Inr y), s1))))))"

definition ErrWhileParsingContent :: go_error where
  "ErrWhileParsingContent = Err ''error while parsing content''"

text \<open>\<open>form\<close> is the error of parsing the multipart form or its files.\<close>

definition Restore_handler ::
  "('k, 'y, 'v) box_env \<Rightarrow> ('a) audit_env_scheme \<Rightarrow> int \<Rightarrow> session_values
   \<Rightarrow> go_error + (string \<times> (go_error + 'y)) list \<Rightarrow> ('k, 'y) box \<times> audit_row list
   \<Rightarrow> string outcome \<times> ('k, 'y) box \<times> audit_row list" where
  "Restore_handler env aenv tm vals form st =
     (case GetCurUsr (text_values vals) of
        (_, usrResp) \<Rightarrow>
          if resp_status usrResp \<noteq> StatusOK then (Inr usrResp, st)
          else
            (case form of
               Inl e \<Rightarrow> (Inr (bad ''error while parsing content'' ErrWhileParsingContent), st)
             | Inr uploads \<Rightarrow>
                 audited aenv vals (\<lambda>admin. admin @ '' restored configuration from backup'') ''RESTORE''
                   (Restore env tm uploads) st))"

definition Erase_handler ::
  "('k, 'y, 'v) box_env \<Rightarrow> session_values \<Rightarrow> ('k, 'y) box \<Rightarrow> string outcome \<times> ('k, 'y) box" where
  "Erase_handler env vals s =
     (case GetCurUsr (text_values vals) of
        (_, usrResp) \<Rightarrow>
          if resp_status usrResp \<noteq> StatusOK then (Inr usrResp, s)
          else (case on_disk (EraseConfig (be_disk env)) s of (resp, s1) \<Rightarrow> (Inr resp, s1)))"

end
