(* ===== verification/Restore_Props.thy ===== *)
theory Restore_Props
  imports Restore Account_Props
begin

text \<open>
  What a restore does to the configuration: a downloaded configuration is brought back, accounts that
  exist keep their present rows, and a restore that fails half-way leaves what it has done so far.
\<close>

text \<open>
  A working appliance: no file operation fails, and the YAML library reads back what it wrote, typed
  or untyped.
\<close>

definition box_works :: "('k, 'y, 'v) box_env \<Rightarrow> bool" where
  "box_works env \<longleftrightarrow> works (be_conf env) \<and> disk_works (be_disk env) \<and> disk_lock_free (be_disk env)
     \<and> be_stat env = None \<and> be_send env = None
     \<and> (\<forall>y c. dec_config (be_conf env) y = Inr c \<longrightarrow>
          (\<exists>v y'. decode (be_disk env) ConfigYaml y = Inr v \<and> encode (be_disk env) (Some v) = Inr y'
             \<and> dec_config (be_conf env) y' = Inr c))
     \<and> (\<forall>m. \<exists>y. be_marshal env m = Inr y \<and> be_uploaded env y = Inr m)"

text \<open>The configuration in force.\<close>

definition box_config :: "('k, 'y, 'v) box_env \<Rightarrow> ('k, 'y) box \<Rightarrow> app_config \<Rightarrow> bool" where
  "box_config env s c \<longleftrightarrow>
     holds (be_conf env) \<lparr>config_doc = bx_disk s ConfigYaml, license_doc = bx_license s\<rparr> c"

text \<open>The addresses of an interface document can be set.\<close>

definition addresses_set :: "('k, 'y, 'v) box_env \<Rightarrow> 'k \<Rightarrow> 'y \<Rightarrow> bool" where
  "addresses_set env k y \<longleftrightarrow>
     fst (RestoreInterfaceSettings (be_net env) (be_kernel env) \<lparr>kernel = k, net_doc = Some y\<rparr>) = Inr ()"

text \<open>The uploaded configuration merged with the one in force, with its times.\<close>

definition restored_config :: "int \<Rightarrow> app_config \<Rightarrow> app_config \<Rightarrow> app_config" where
  "restored_config tm c before =
     (merge_uploaded c before)
       \<lparr>BackupConfigTime := (if BackupConfigTime before = zero_time then BackupConfigTime c
                             else BackupConfigTime before),
        RestoreConfigTime := (if tm = zero_time then RestoreConfigTime c else tm)\<rparr>"

lemma merge_times:
  "merge_config (collected [RestoreProfile tm, BackupProfile b]) c =
     c\<lparr>BackupConfigTime := (if b = zero_time then BackupConfigTime c else b),
       RestoreConfigTime := (if tm = zero_time then RestoreConfigTime c else tm)\<rparr>"
  "merge_config (collected [BackupProfile b]) c =
     c\<lparr>BackupConfigTime := (if b = zero_time then BackupConfigTime c else b)\<rparr>"
  by (simp_all add: merge_config_def collected_def zero_config_def upsert_def upsert_each_def)

lemma merge_restored:
  "merge_config (collected [RestoreProfile tm, BackupProfile (BackupConfigTime before)]) (merge_uploaded c before) =
     restored_config tm c before"
  by (simp add: merge_times restored_config_def merge_uploaded_def)

lemma merge_uploaded_same: "merge_uploaded c c = c"
  by (simp add: merge_uploaded_def append_new_def)

subsection \<open>The steps\<close>

lemma copy_works:
  assumes "disk_works denv" "caller \<noteq> ERASE"
  shows "\<exists>d'. CopyOldConfigData denv caller d = (copied, d') \<and> d' ConfigYaml = d ConfigYaml"
proof -
  have "\<exists>y. encode denv v = Inr y" for v using assms(1) by (simp add: disk_works_def)
  then obtain enc where "encode denv v = Inr (enc v)" for v by metis
  then show ?thesis
    using assms(2) by (simp add: CopyOldConfigData_def works_steps [OF assms(1)] write_yaml_def Let_def)
qed

lemma steps_run:
  assumes "box_works env" "encode (be_disk env) ifaces = Inr yi"
  shows "\<exists>yc. dec_config (be_conf env) yc = Inr c \<and>
    restore_steps env c ifaces s =
      on_host (RestoreInterfaceSettings (be_net env) (be_kernel env))
        (s\<lparr>bx_disk := (bx_disk s)(ConfigYaml \<mapsto> yc, InterfaceYaml \<mapsto> yi)\<rparr>)"
proof -
  have disk: "disk_works (be_disk env)" using assms(1) by (simp add: box_works_def)
  obtain yc where yc: "enc_config (be_conf env) c = Inr yc" "dec_config (be_conf env) yc = Inr c"
    using assms(1) unfolding box_works_def works_def by blast
  have "(case r of (Inl e, s') \<Rightarrow> (Inl e, s') | (Inr x, s') \<Rightarrow> ret x s') = r" for r :: "(go_error + unit) \<times> ('k, 'y) box"
    by (auto simp: ret_def split: prod.split sum.split)
  then show ?thesis
    by (intro exI [of _ yc])
      (simp add: yc assms(2) restore_steps_def andthen_def bind_act_def step_act_def on_disk_def
        works_steps [OF disk] write_yaml_def fun_upd_twist)
qed

lemma restore_until_steps:
  assumes "box_works env" "filepath_ext name = ''.yaml''" "box_config env s before"
    "be_uploaded env bytes = Inr up" "encode (be_disk env) (up ConfigYaml) = Inr y"
    "dec_config (be_conf env) y = Inr c" "encode (be_disk env) (up InterfaceYaml) = Inr yi"
  shows "\<exists>s2 yc. dec_config (be_conf env) yc = Inr (merge_uploaded c before) \<and> bx_kernel s2 = bx_kernel s
    \<and> bx_disk s2 ConfigYaml = Some yc \<and> bx_disk s2 InterfaceYaml = Some yi
    \<and> Restore env tm [(name, Inr bytes)] s =
       (case on_host (RestoreInterfaceSettings (be_net env) (be_kernel env)) s2 of
          (Inl e, s3) \<Rightarrow> (server_failed e, s3)
        | (Inr _, s3) \<Rightarrow>
            (case on_store (SaveProfile (be_conf env)
                    [RestoreProfile tm, BackupProfile (BackupConfigTime before)]) s3 of
               (Some e, s4) \<Rightarrow> (Inr (bad ''Error while saving data'' e), s4)
             | (None, s4) \<Rightarrow> (Inr restored, s4)))"
proof -
  have w: "works (be_conf env)" "disk_works (be_disk env)" using assms(1) by (simp_all add: box_works_def)
  define y0 where "y0 = (case bx_disk s ConfigYaml of None \<Rightarrow> empty_doc (be_conf env) | Some y \<Rightarrow> y)"
  define s1 where "s1 = s\<lparr>bx_disk := (bx_disk s)(ConfigYaml \<mapsto> y0)\<rparr>"
  have k: "bx_kernel s1 = bx_kernel s" by (simp add: s1_def)
  have y0: "dec_config (be_conf env) y0 = Inr before"
    using assms(3) by (simp add: box_config_def holds_def y0_def)
  then have fetch: "on_store (FetchBackupConfigTime (be_conf env)) s = (Inr (BackupConfigTime before), s1)"
    by (simp add: on_store_def FetchBackupConfigTime_def FetchConfigData_def read_works [OF w(1)] y0_def s1_def)
  obtain d where d: "CopyOldConfigData (be_disk env) ''RESTORE'' (bx_disk s1) = (copied, d)" "d ConfigYaml = Some y0"
    using copy_works [OF w(2), of "''RESTORE''" "bx_disk s1"] by (auto simp: ERASE_def s1_def)
  have "MergeConfigAndUploadedData (be_conf env) c (Some y0) = merge_uploaded c before"
    using w(1) y0 by (simp add: MergeConfigAndUploadedData_def works_def)
  moreover obtain yc where "dec_config (be_conf env) yc = Inr (merge_uploaded c before)"
    "restore_steps env (merge_uploaded c before) (up InterfaceYaml) (s1\<lparr>bx_disk := d\<rparr>) =
      on_host (RestoreInterfaceSettings (be_net env) (be_kernel env))
        (s1\<lparr>bx_disk := d(ConfigYaml \<mapsto> yc, InterfaceYaml \<mapsto> yi)\<rparr>)"
    using steps_run [OF assms(1,7), of "merge_uploaded c before" "s1\<lparr>bx_disk := d\<rparr>"] by auto
  ultimately show ?thesis
    by (intro exI [of _ "s1\<lparr>bx_disk := d(ConfigYaml \<mapsto> yc, InterfaceYaml \<mapsto> yi)\<rparr>"] exI [of _ yc])
      (simp add: Restore_def assms(2,4-6) fetch on_disk_def [of "CopyOldConfigData _ _"] d copied_def k)
qed

lemma restore_works:
  assumes "box_works env" "filepath_ext name = ''.yaml''" "box_config env s before"
    "be_uploaded env bytes = Inr up" "encode (be_disk env) (up ConfigYaml) = Inr y"
    "dec_config (be_conf env) y = Inr c" "encode (be_disk env) (up InterfaceYaml) = Inr yi"
    "addresses_set env (bx_kernel s) yi"
  shows "\<exists>s'. Restore env tm [(name, Inr bytes)] s = (Inr restored, s')
    \<and> box_config env s' (restored_config tm c before)"
proof -
  obtain s2 yc where s2: "dec_config (be_conf env) yc = Inr (merge_uploaded c before)"
    "bx_kernel s2 = bx_kernel s" "bx_disk s2 ConfigYaml = Some yc" "bx_disk s2 InterfaceYaml = Some yi"
    "Restore env tm [(name, Inr bytes)] s =
       (case on_host (RestoreInterfaceSettings (be_net env) (be_kernel env)) s2 of
          (Inl e, s3) \<Rightarrow> (server_failed e, s3)
        | (Inr _, s3) \<Rightarrow>
            (case on_store (SaveProfile (be_conf env)
                    [RestoreProfile tm, BackupProfile (BackupConfigTime before)]) s3 of
               (Some e, s4) \<Rightarrow> (Inr (bad ''Error while saving data'' e), s4)
             | (None, s4) \<Rightarrow> (Inr restored, s4)))"
    using restore_until_steps [OF assms(1-7), of tm] by blast
  obtain s3 where s3: "on_host (RestoreInterfaceSettings (be_net env) (be_kernel env)) s2 = (Inr (), s3)"
    "bx_disk s3 ConfigYaml = Some yc"
    using assms(8) s2(2-4)
    by (cases "RestoreInterfaceSettings (be_net env) (be_kernel env) \<lparr>kernel = bx_kernel s, net_doc = Some yi\<rparr>")
      (auto simp: on_host_def addresses_set_def)
  have "holds (be_conf env) \<lparr>config_doc = Some yc, license_doc = bx_license s3\<rparr> (merge_uploaded c before)"
    using s2(1) by (simp add: holds_def)
  from save_works [OF _ this, of "[RestoreProfile tm, BackupProfile (BackupConfigTime before)]"]
  obtain st where "SaveProfile (be_conf env) [RestoreProfile tm, BackupProfile (BackupConfigTime before)]
      \<lparr>config_doc = Some yc, license_doc = bx_license s3\<rparr> = (None, st)"
    "holds (be_conf env) st (restored_config tm c before)"
    using assms(1) by (auto simp: box_works_def merge_restored)
  then show ?thesis
    using s3 by (auto simp: s2(5) on_store_def box_config_def holds_def)
qed

text \<open>
  A restore whose addresses cannot be set answers an error, and the uploaded configuration is in force.
\<close>

theorem failed_restore_is_in_force:
  assumes "box_works env" "filepath_ext name = ''.yaml''" "box_config env s before"
    "be_uploaded env bytes = Inr up" "encode (be_disk env) (up ConfigYaml) = Inr y"
    "dec_config (be_conf env) y = Inr c" "encode (be_disk env) (up InterfaceYaml) = Inr yi"
    "fst (RestoreInterfaceSettings (be_net env) (be_kernel env)
       \<lparr>kernel = bx_kernel s, net_doc = Some yi\<rparr>) = Inl (Err t)"
  shows "\<exists>s'. Restore env tm [(name, Inr bytes)] s = (Inr (server_side (Err t)), s')
    \<and> box_config env s' (merge_uploaded c before)"
proof -
  obtain s2 yc where s2: "dec_config (be_conf env) yc = Inr (merge_uploaded c before)"
    "bx_kernel s2 = bx_kernel s" "bx_disk s2 ConfigYaml = Some yc" "bx_disk s2 InterfaceYaml = Some yi"
    "Restore env tm [(name, Inr bytes)] s =
       (case on_host (RestoreInterfaceSettings (be_net env) (be_kernel env)) s2 of
          (Inl e, s3) \<Rightarrow> (server_failed e, s3)
        | (Inr _, s3) \<Rightarrow>
            (case on_store (SaveProfile (be_conf env)
                    [RestoreProfile tm, BackupProfile (BackupConfigTime before)]) s3 of
               (Some e, s4) \<Rightarrow> (Inr (bad ''Error while saving data'' e), s4)
             | (None, s4) \<Rightarrow> (Inr restored, s4)))"
    using restore_until_steps [OF assms(1-7), of tm] by blast
  show ?thesis
    using assms(8) s2(1-4)
    by (cases "RestoreInterfaceSettings (be_net env) (be_kernel env) \<lparr>kernel = bx_kernel s, net_doc = Some yi\<rparr>")
      (auto simp: s2(5) on_host_def server_failed_def box_config_def holds_def)
qed

subsection \<open>Downloading and restoring\<close>

text \<open>A download holds the configuration in force, with its time.\<close>

lemma backup_works:
  assumes "box_works env" "box_config env s c" "bx_disk s ConfigYaml \<noteq> None" "tm \<noteq> zero_time"
    and "bx_disk s InterfaceYaml = Some yi" "decode (be_disk env) InterfaceYaml yi = Inr vi"
  shows "\<exists>s1 v y dl. Backup_handler env tm s = (Inr (Inr dl), s1)
    \<and> be_uploaded env dl = Inr [ConfigYaml \<mapsto> v, InterfaceYaml \<mapsto> vi]
    \<and> encode (be_disk env) (Some v) = Inr y \<and> dec_config (be_conf env) y = Inr (c\<lparr>BackupConfigTime := tm\<rparr>)
    \<and> box_config env s1 (c\<lparr>BackupConfigTime := tm\<rparr>)"
proof -
  let ?c = "c\<lparr>BackupConfigTime := tm\<rparr>"
  have w: "works (be_conf env)" "disk_works (be_disk env)" "disk_lock_free (be_disk env)"
    "be_stat env = None" "be_send env = None" using assms(1) by (simp_all add: box_works_def)
  obtain st where st: "SaveProfile (be_conf env) [BackupProfile tm]
      \<lparr>config_doc = bx_disk s ConfigYaml, license_doc = bx_license s\<rparr> = (None, st)" "holds (be_conf env) st ?c"
    using save_works [OF w(1), of "\<lparr>config_doc = bx_disk s ConfigYaml, license_doc = bx_license s\<rparr>" c "[BackupProfile tm]"]
      assms(2,4) by (auto simp: box_config_def merge_times)
  from st(1) obtain y0 where y0: "config_doc st = Some y0"
    using w(1) assms(3)
    by (auto simp: SaveProfile_def UpdateConfig_def store_config_def write_file_def works_def Let_def
        split: if_splits sum.splits prod.splits option.splits)
  with st(2) have "dec_config (be_conf env) y0 = Inr ?c" by (simp add: holds_def)
  then obtain v y where v: "decode (be_disk env) ConfigYaml y0 = Inr v" "encode (be_disk env) (Some v) = Inr y"
    "dec_config (be_conf env) y = Inr ?c"
    using assms(1) unfolding box_works_def by blast
  obtain dl where dl: "be_marshal env [ConfigYaml \<mapsto> v, InterfaceYaml \<mapsto> vi] = Inr dl"
    "be_uploaded env dl = Inr [ConfigYaml \<mapsto> v, InterfaceYaml \<mapsto> vi]"
    using assms(1) unfolding box_works_def by blast
  have "MergeInterfaceAndConfigData (be_disk env) ''BACKUP'' ((bx_disk s)(ConfigYaml := Some y0)) =
      [ConfigYaml \<mapsto> v, InterfaceYaml \<mapsto> vi]"
    using assms(5,6) v(1) w(3)
    by (simp add: MergeInterfaceAndConfigData_def read_yaml_def works_steps [OF w(2)] ERASE_def)
  then have "Backup_handler env tm s = (Inr (Inr dl),
      s\<lparr>bx_disk := (bx_disk s)(ConfigYaml := Some y0), bx_license := license_doc st\<rparr>)"
    using assms(3) by (simp add: Backup_handler_def on_store_def st(1) y0 dl(1) w(4,5) Let_def)
  with v dl st y0 show ?thesis by (auto simp: box_config_def holds_def)
qed

text \<open>
  A table after a restore: the present rows, followed by the rows of the download whose key is not among
  them.
\<close>

definition rows_restored :: "('a \<Rightarrow> 'b) \<Rightarrow> 'a list \<Rightarrow> 'a list \<Rightarrow> 'a list \<Rightarrow> bool" where
  "rows_restored key downloaded present r \<longleftrightarrow>
     (\<exists>new. r = present @ new \<and> set new = {x \<in> set downloaded. key x \<notin> key ` set present})"

lemma append_new_restores: "rows_restored key up olds (append_new key up olds)"
  by (auto simp: rows_restored_def append_new_def)

lemma restored_parts:
  fixes c before :: app_config and t0 t1 :: int
  defines "r \<equiv> restored_config t1 (c\<lparr>BackupConfigTime := t0\<rparr>) before"
  shows "rows_restored ua_key (UserAuthentications c) (UserAuthentications before) (UserAuthentications r)"
    "rows_restored adm_key (Admins c) (Admins before) (Admins r)"
    "rows_restored role_key (Roles c) (Roles before) (Roles r)"
    "rows_restored ft_key (Features c) (Features before) (Features r)"
    "rows_restored ra_key (RoleAndActions c) (RoleAndActions before) (RoleAndActions r)"
    "ScanProfiles r = ScanProfiles c" "Devices r = Devices c" "ViewLogs r = ViewLogs c"
    "BackupConfigTime r = (if BackupConfigTime before = zero_time then t0 else BackupConfigTime before)"
    "RestoreConfigTime r = (if t1 = zero_time then RestoreConfigTime c else t1)"
  by (simp_all add: r_def restored_config_def merge_uploaded_def append_new_restores)

lemma restored_at_once:
  assumes "t0 \<noteq> zero_time" "t1 \<noteq> zero_time"
  shows "restored_config t1 (c\<lparr>BackupConfigTime := t0\<rparr>) (c\<lparr>BackupConfigTime := t0\<rparr>) =
    c\<lparr>BackupConfigTime := t0, RestoreConfigTime := t1\<rparr>"
  using assms by (simp add: restored_config_def merge_uploaded_same)

text \<open>C34: a downloaded configuration can be restored later, whatever was changed in between: profiles and
  devices are those of the download again, users, administrators, roles, features and permissions that
  are missing come back, and those that exist keep their present rows. Restored at once, the download
  changes nothing but the time of the restore. No file operation fails, the YAML library reads back what it
  wrote, and the addresses of the interfaces can be set.
\<close>

theorem backup_is_restored:
  assumes "box_works env" "box_config env s c" "bx_disk s ConfigYaml \<noteq> None" "t0 \<noteq> zero_time" "t1 \<noteq> zero_time"
    and "bx_disk s InterfaceYaml = Some yi" "decode (be_disk env) InterfaceYaml yi = Inr vi"
    and "encode (be_disk env) (Some vi) = Inr yi'" "addresses_set env (bx_kernel s') yi'"
    and "filepath_ext name = ''.yaml''" "box_config env s' before"
  shows "\<exists>dl s1 s2. Backup_handler env t0 s = (Inr (Inr dl), s1)
    \<and> box_config env s1 (c\<lparr>BackupConfigTime := t0\<rparr>)
    \<and> Restore env t1 [(name, Inr dl)] s' = (Inr restored, s2)
    \<and> (\<exists>r. box_config env s2 r
         \<and> rows_restored ua_key (UserAuthentications c) (UserAuthentications before) (UserAuthentications r)
         \<and> rows_restored adm_key (Admins c) (Admins before) (Admins r)
         \<and> rows_restored role_key (Roles c) (Roles before) (Roles r)
         \<and> rows_restored ft_key (Features c) (Features before) (Features r)
         \<and> rows_restored ra_key (RoleAndActions c) (RoleAndActions before) (RoleAndActions r)
         \<and> ScanProfiles r = ScanProfiles c \<and> Devices r = Devices c \<and> ViewLogs r = ViewLogs c
         \<and> BackupConfigTime r = (if BackupConfigTime before = zero_time then t0 else BackupConfigTime before)
         \<and> RestoreConfigTime r = t1
         \<and> (before = c\<lparr>BackupConfigTime := t0\<rparr> \<longrightarrow> r = before\<lparr>RestoreConfigTime := t1\<rparr>))"
proof -
  obtain s1 v y dl where b: "Backup_handler env t0 s = (Inr (Inr dl), s1)"
    "be_uploaded env dl = Inr [ConfigYaml \<mapsto> v, InterfaceYaml \<mapsto> vi]"
    "encode (be_disk env) (Some v) = Inr y" "dec_config (be_conf env) y = Inr (c\<lparr>BackupConfigTime := t0\<rparr>)"
    "box_config env s1 (c\<lparr>BackupConfigTime := t0\<rparr>)"
    using backup_works [OF assms(1-4,6,7)] by blast
  moreover obtain s2 where "Restore env t1 [(name, Inr dl)] s' = (Inr restored, s2)"
    "box_config env s2 (restored_config t1 (c\<lparr>BackupConfigTime := t0\<rparr>) before)"
    using restore_works [OF assms(1,10,11) b(2), of y _ yi' t1] b(3,4) assms(8,9) by auto
  ultimately have "Backup_handler env t0 s = (Inr (Inr dl), s1)" "box_config env s1 (c\<lparr>BackupConfigTime := t0\<rparr>)"
    "Restore env t1 [(name, Inr dl)] s' = (Inr restored, s2)"
    "box_config env s2 (restored_config t1 (c\<lparr>BackupConfigTime := t0\<rparr>) before)" by blast+
  then show ?thesis
    using assms(5) restored_at_once [OF assms(4,5), of c]
    by (intro exI [of _ dl] exI [of _ s1] exI [of _ s2] conjI
          exI [of _ "restored_config t1 (c\<lparr>BackupConfigTime := t0\<rparr>) before"]) (auto simp: restored_parts)
qed

subsection \<open>A full disk\<close>





subsection \<open>A concrete appliance\<close>

datatype box_doc = NoDoc | ConfDoc app_config | NetDoc net_config | Download "disk_file \<Rightarrow> box_doc option"

definition sample_box_env :: "(table, box_doc, box_doc) box_env" where
  "sample_box_env =
     \<lparr>be_disk = \<lparr>disk_lock_free = True, disk_create = \<lambda>_. None, disk_read = \<lambda>_. None, disk_write = \<lambda>_. None,
        disk_remove = \<lambda>_. None, blank = NoDoc, decode = \<lambda>_ y. Inr y,
        encode = \<lambda>v. Inr (case v of None \<Rightarrow> NoDoc | Some y \<Rightarrow> y)\<rparr>,
      be_conf = \<lparr>lock_free = True, create_error_of = \<lambda>_. None, read_error_of = \<lambda>_. None,
        write_error_of = \<lambda>_. None, torn = \<lambda>_. None, empty_doc = NoDoc, enc_config = \<lambda>c. Inr (ConfDoc c),
        dec_config = \<lambda>y. (case y of ConfDoc c \<Rightarrow> Inr c | _ \<Rightarrow> Inr zero_config),
        enc_license = \<lambda>k. Inr NoDoc, dec_license = \<lambda>y. Inr zero_keys\<rparr>,
      be_net = \<lparr>net_lock_free = True, net_create_error = None, net_read_error = None, net_write_error = None,
        net_torn = None, net_empty = NoDoc, enc_net = \<lambda>n. Inr (NetDoc n),
        dec_net = \<lambda>y. (case y of NetDoc n \<Rightarrow> Inr n | _ \<Rightarrow> Inr zero_net), re_all = Inr, re_physical = Inr,
        re_vlan = Inr, re_bridge = Inr, re_bond = Inr, re_ha = Inr, re_routes = Inr\<rparr>,
      be_kernel = table_kernel, be_stat = None, be_marshal = \<lambda>m. Inr (Download m),
      be_uploaded = \<lambda>y. (case y of Download m \<Rightarrow> Inr m | _ \<Rightarrow> Inr Map.empty), be_send = None\<rparr>"

lemma sample_box_works: "box_works sample_box_env"
  by (simp add: box_works_def sample_box_env_def works_def disk_works_def)

definition box_port :: physical_interface where
  "box_port = \<lparr>pi_name = ''enp1s0'', pi_hardware = [],
     pi_ip = \<lparr>ipr_address = [], ipr_netmask = 0, ipr_protocol = STATIC_STRING\<rparr>, pi_aliases = [],
     pi_mtu = 1500, pi_state = ''up'', pi_speed = [], pi_duplex = [], pi_autoneg = [], pi_stats = no_stats,
     pi_attached = [], pi_editable = True, pi_deletable = False, pi_fields = no_fields\<rparr>"

definition sample_box :: "(table, box_doc) box" where
  "sample_box = \<lparr>bx_disk = [ConfigYaml \<mapsto> ConfDoc sample_config,
     InterfaceYaml \<mapsto> NetDoc (zero_net\<lparr>PhysicalInterfaces := [box_port]\<rparr>)], bx_license = None,
     bx_kernel = [(table_link ''enp1s0'' ''device'' 2, [])]\<rparr>"

lemma sample_addresses:
  "addresses_set sample_box_env (bx_kernel sample_box) (NetDoc (zero_net\<lparr>PhysicalInterfaces := [box_port]\<rparr>))"
  unfolding addresses_set_def by code_simp

lemma sample_box_config: "box_config sample_box_env sample_box sample_config"
  by (simp add: box_config_def holds_def sample_box_env_def sample_box_def)

text \<open>The same appliance after its configuration was replaced by the empty one.\<close>

definition cleared_box :: "(table, box_doc) box" where
  "cleared_box = sample_box\<lparr>bx_disk := (bx_disk sample_box)(ConfigYaml \<mapsto> NoDoc)\<rparr>"

lemma cleared_box_config: "box_config sample_box_env cleared_box zero_config"
  by (simp add: box_config_def holds_def sample_box_env_def cleared_box_def)

theorem backup_is_restored_witness:
  "\<exists>dl s2. fst (Backup_handler sample_box_env 3 sample_box) = Inr (Inr dl)
    \<and> Restore sample_box_env 4 [(''b.yaml'', Inr dl)] cleared_box = (Inr restored, s2)
    \<and> (\<exists>r. box_config sample_box_env s2 r \<and> set (UserAuthentications r) = {sample_user}
         \<and> set (Admins r) = {sample_admin})"
proof -
  have ext: "filepath_ext ''b.yaml'' = ''.yaml''" by code_simp
  have times: "(3 :: int) \<noteq> zero_time" "(4 :: int) \<noteq> zero_time" by (simp_all add: zero_time_def go_second_def)
  have docs: "bx_disk sample_box ConfigYaml \<noteq> None"
    "bx_disk sample_box InterfaceYaml = Some (NetDoc (zero_net\<lparr>PhysicalInterfaces := [box_port]\<rparr>))"
    "\<And>f y. decode (be_disk sample_box_env) f y = Inr y" "\<And>y. encode (be_disk sample_box_env) (Some y) = Inr y"
    "bx_kernel cleared_box = bx_kernel sample_box"
    by (simp_all add: sample_box_def sample_box_env_def cleared_box_def)
  obtain dl s1 s2 r where "Backup_handler sample_box_env 3 sample_box = (Inr (Inr dl), s1)"
    "Restore sample_box_env 4 [(''b.yaml'', Inr dl)] cleared_box = (Inr restored, s2)" "box_config sample_box_env s2 r"
    "rows_restored ua_key (UserAuthentications sample_config) [] (UserAuthentications r)"
    "rows_restored adm_key (Admins sample_config) [] (Admins r)"
    using backup_is_restored [OF sample_box_works sample_box_config docs(1) times docs(2,3,4) _ ext cleared_box_config]
      sample_addresses docs(5) by (auto simp: zero_config_def)
  then show ?thesis by (auto simp: rows_restored_def sample_config_def)
qed


end
