(* ===== verification/Start_Up.thy ===== *)
theory Start_Up
  imports Store_Laws Verdict_Props Device_Keys
begin

text \<open>
  The files the program makes when it starts (\<open>initFiles\<close> of \<open>main.go\<close>) and the logger
  (\<open>logger/logger.go\<close>, \<open>logger/file_oprs.go\<close>). The file system is a map from clean paths to directories
  and texts; a system call fails where the tree makes it fail or where the environment says so.
\<close>

subsection \<open>A file tree\<close>

datatype tree_node = Dir | Content string

type_synonym tree = "string \<Rightarrow> tree_node option"

text \<open>\<open>fails\<close> is the error of creating or writing a path that the tree itself would allow.\<close>

type_synonym faults = "string \<Rightarrow> go_error option"

definition clean_path :: "string \<Rightarrow> string" where
  "clean_path p = rev (dropWhile (\<lambda>c. c = CHR ''/'') (rev p))"

text \<open>The directories a clean absolute path lies in, from the outside; the root always exists.\<close>

definition parent_dirs :: "string \<Rightarrow> string list" where
  "parent_dirs p = map (\<lambda>n. take n p) (filter (\<lambda>n. p ! n = CHR ''/'') [1..<length p])"

text \<open>\<open>os.IsNotExist\<close> of the error of \<open>os.Stat\<close>; a file in the place of a directory is another error.\<close>

definition is_file :: "tree \<Rightarrow> string \<Rightarrow> bool" where
  "is_file t p = (case t p of Some (Content s) \<Rightarrow> True | _ \<Rightarrow> False)"

definition missing :: "tree \<Rightarrow> string \<Rightarrow> bool" where
  "missing t p \<longleftrightarrow> t (clean_path p) = None \<and> \<not> list_ex (is_file t) (parent_dirs (clean_path p))"

definition ErrNotDir :: go_error where "ErrNotDir = Err ''not a directory''"
definition ErrIsDir :: go_error where "ErrIsDir = Err ''is a directory''"
definition ErrNoEntry :: go_error where "ErrNoEntry = Err ''no such file or directory''"

fun make_dirs :: "faults \<Rightarrow> string list \<Rightarrow> tree \<Rightarrow> go_error option \<times> tree" where
  "make_dirs fails [] t = (None, t)"
| "make_dirs fails (q # qs) t =
     (case t q of
        Some Dir \<Rightarrow> make_dirs fails qs t
      | Some (Content s) \<Rightarrow> (Some ErrNotDir, t)
      | None \<Rightarrow> (case fails q of Some e \<Rightarrow> (Some e, t) | None \<Rightarrow> make_dirs fails qs (t(q \<mapsto> Dir))))"

definition MkdirAll :: "faults \<Rightarrow> string \<Rightarrow> tree \<Rightarrow> go_error option \<times> tree" where
  "MkdirAll fails p t = make_dirs fails (parent_dirs (clean_path p) @ [clean_path p]) t"

text \<open>\<open>os.WriteFile\<close>; with the empty text also \<open>os.Create\<close>.\<close>

definition write_text :: "faults \<Rightarrow> string \<Rightarrow> string \<Rightarrow> tree \<Rightarrow> go_error option \<times> tree" where
  "write_text fails p s t =
     (if t p = Some Dir then (Some ErrIsDir, t)
      else if parent_dirs p \<noteq> [] \<and> t (last (parent_dirs p)) \<noteq> Some Dir then (Some ErrNoEntry, t)
      else (case fails p of Some e \<Rightarrow> (Some e, t) | None \<Rightarrow> (None, t(p \<mapsto> Content s))))"

text \<open>The text of a file; a directory is opened, and reading it gives an error.\<close>

definition content_of :: "tree \<Rightarrow> string \<Rightarrow> string option" where
  "content_of t p = (case t p of Some (Content s) \<Rightarrow> Some s | _ \<Rightarrow> None)"

subsection \<open>The files of the program\<close>

definition DEVICE_CONFIG_PATH :: string where "DEVICE_CONFIG_PATH = ''/data/device_config''"
definition DEVICE_REBOOTED_FLAG_PATH :: string where "DEVICE_REBOOTED_FLAG_PATH = ''/etc/device_rebooted''"
definition LOGGING_ENABLED_FLAG_PATH :: string where "LOGGING_ENABLED_FLAG_PATH = ''/etc/logging_enabled''"
definition TASK_LOGS_PATH :: string where "TASK_LOGS_PATH = ''/home/wijungle/task_logs/''"

definition init_directories :: "string list" where
  "init_directories =
     [DEVICE_CONFIG_PATH, ''/var/www/html/data/'', TASK_LOGS_PATH, ''/log/apt/reports/'',
      ''/var/www/html/web/database/files/'']"

definition init_paths :: "string list" where
  "init_paths =
     [DEVICE_CONFIG_PATH, ''/var/www/html/data/hastate'', ''/etc/os_support'', DEVICE_REBOOTED_FLAG_PATH,
      LOGGING_ENABLED_FLAG_PATH]"

text \<open>Errors are printed; closing the nil file of a failed \<open>OpenFile\<close> is an error that is ignored.\<close>

definition initFiles :: "faults \<Rightarrow> tree \<Rightarrow> tree" where
  "initFiles fails t =
     (let made = fold (\<lambda>dir t. if missing t dir then snd (MkdirAll fails dir t) else t) init_directories t
      in fold (\<lambda>p t. if missing t p then snd (write_text fails p [] t) else t) init_paths made)"

subsection \<open>The logging flag\<close>

text \<open>The variable \<open>LoggingEnabled\<close>, the files, and what was printed.\<close>

record log_state =
  LoggingEnabled :: bool
  log_tree :: tree
  printed :: "string list"

text \<open>The flag file is opened with \<open>os.Create\<close>, which empties it, and then read.\<close>

definition IsLoggingEnabled :: "faults \<Rightarrow> tree \<Rightarrow> bool \<times> tree" where
  "IsLoggingEnabled fails t =
     (case write_text fails LOGGING_ENABLED_FLAG_PATH [] t of
        (Some e, t1) \<Rightarrow> (False, t1)
      | (None, t1) \<Rightarrow>
          (case content_of t1 LOGGING_ENABLED_FLAG_PATH of
             None \<Rightarrow> (False, t1)
           | Some s \<Rightarrow> (list_ex (\<lambda>line. trim_space line = ''1'') (scan_lines s), t1)))"

definition UpdateLoggingEnabledFlag :: "faults \<Rightarrow> log_state \<Rightarrow> go_error option \<times> log_state" where
  "UpdateLoggingEnabledFlag fails s =
     (case write_text fails LOGGING_ENABLED_FLAG_PATH [] (log_tree s) of
        (Some e, t1) \<Rightarrow> (Some e, s\<lparr>log_tree := t1\<rparr>)
      | (None, t1) \<Rightarrow>
          (let enabled = \<not> LoggingEnabled s;
               (err, t2) = write_text fails LOGGING_ENABLED_FLAG_PATH (if enabled then ''1'' else ''0'') t1
           in (err, s\<lparr>LoggingEnabled := enabled, log_tree := t2\<rparr>)))"

definition Print :: "string \<Rightarrow> log_state \<Rightarrow> log_state" where
  "Print msg s = (if LoggingEnabled s then s\<lparr>printed := printed s @ [msg]\<rparr> else s)"

text \<open>
  The log of one task: a line is appended; \<open>stamp\<close> is the time the logger puts before it and \<open>caller\<close> the
  place in the source.
\<close>

definition task_log_path :: "int \<Rightarrow> string" where
  "task_log_path taskId = TASK_LOGS_PATH @ ''task_'' @ show_int taskId @ ''.log''"

definition LogAccToTaskId ::
  "faults \<Rightarrow> string \<Rightarrow> string \<Rightarrow> int \<Rightarrow> string \<Rightarrow> tree \<Rightarrow> tree" where
  "LogAccToTaskId fails stamp caller taskId message t =
     (let p = task_log_path taskId;
          old = (case content_of t p of None \<Rightarrow> [] | Some s \<Rightarrow> s)
      in snd (write_text fails p (old @ stamp @ caller @ '': '' @ message @ [line_end]) t))"

subsection \<open>The event log\<close>

text \<open>
  \<open>LoggerFunc\<close> on the values it is given: with a second value the call logs only when that is true; a
  second value that is no boolean panics. A fatal message ends the program, a panic panics.
\<close>

datatype log_end = Goes_on | Exits | Panics

fun write_values :: "string \<Rightarrow> any list \<Rightarrow> (string \<times> any) list \<Rightarrow> log_end \<times> (string \<times> any) list" where
  "write_values level [] ls = (Goes_on, ls)"
| "write_values level (v # vs) ls =
     (if level \<in> set [''debug'', ''info'', ''warn'', ''error''] then write_values level vs (ls @ [(level, v)])
      else if level = ''fatal'' then (Exits, ls @ [(level, v)])
      else if level = ''panic'' then (Panics, ls @ [(level, v)])
      else write_values level vs ls)"

definition LoggerFunc ::
  "go_error + bool \<Rightarrow> string \<Rightarrow> any list \<Rightarrow> (string \<times> any) list \<Rightarrow> log_end \<times> (string \<times> any) list" where
  "LoggerFunc viewLog level vs ls =
     (case viewLog of
        Inl e \<Rightarrow> (Goes_on, ls)
      | Inr enabled \<Rightarrow>
          if \<not> enabled then (Goes_on, ls)
          else
            (case vs of
               [_, ANil] \<Rightarrow> (Goes_on, ls)
             | [_, ABool b] \<Rightarrow> if b then write_values level vs ls else (Goes_on, ls)
             | [_, _] \<Rightarrow> (Panics, ls)
             | _ \<Rightarrow> write_values level vs ls))"

definition FetchViewLogs ::
  "('y, 'e) conf_env_scheme \<Rightarrow> ('y, 's) store_scheme \<Rightarrow> (go_error + bool) \<times> ('y, 's) store_scheme" where
  "FetchViewLogs env st =
     (case FetchConfigData env st of
        (Inl e, st1) \<Rightarrow> (Inl e, st1) | (Inr c, st1) \<Rightarrow> (Inr (ViewLogs c), st1))"

subsection \<open>What starting does\<close>

lemma write_text_simps:
  "t p = Some Dir \<Longrightarrow> write_text fails p s t = (Some ErrIsDir, t)"
  by (simp add: write_text_def)

lemma written_content: "write_text fails p s t = (None, t1) \<Longrightarrow> t1 = t(p \<mapsto> Content s)"
  by (auto simp: write_text_def split: if_splits option.splits)

text \<open>
  Logging is off after every start, whatever was written to the flag file: reading the flag empties it.
\<close>

theorem logging_is_off_after_start:
  "\<not> fst (IsLoggingEnabled fails t)
   \<and> (fails LOGGING_ENABLED_FLAG_PATH = None \<and> content_of t LOGGING_ENABLED_FLAG_PATH = Some ''1''
        \<and> t ''/etc'' = Some Dir \<longrightarrow>
      content_of (snd (IsLoggingEnabled fails t)) LOGGING_ENABLED_FLAG_PATH = Some [])"
proof -
  have "parent_dirs LOGGING_ENABLED_FLAG_PATH = [''/etc'']" by code_simp
  moreover have "scan_lines [] = []" by (simp add: scan_lines_def)
  ultimately show ?thesis
    by (auto simp: IsLoggingEnabled_def write_text_def content_of_def split: option.splits)
qed

subsection \<open>The files after the start\<close>

definition no_faults :: faults where "no_faults = (\<lambda>_. None)"

text \<open>\<open>t'\<close> is \<open>t\<close> with some directories made where there was nothing.\<close>

definition dirs_added :: "tree \<Rightarrow> tree \<Rightarrow> bool" where
  "dirs_added t t' \<longleftrightarrow> (\<forall>p. t' p = t p \<or> t p = None \<and> t' p = Some Dir)"

lemma dirs_added_refl [simp]: "dirs_added t t" by (simp add: dirs_added_def)

lemma dirs_added_trans: "dirs_added t t' \<Longrightarrow> dirs_added t' t'' \<Longrightarrow> dirs_added t t''"
  by (metis dirs_added_def)

lemma dirs_added_keeps: "dirs_added t t' \<Longrightarrow> t p = Some v \<Longrightarrow> t' p = Some v"
  by (auto simp: dirs_added_def dest: spec [of _ p])

lemma dirs_added_files: "dirs_added t t' \<Longrightarrow> is_file t' p = is_file t p"
proof -
  assume "dirs_added t t'"
  then have "t' p = t p \<or> t p = None \<and> t' p = Some Dir" by (simp add: dirs_added_def)
  then show ?thesis by (auto simp: is_file_def)
qed

lemma make_dirs_adds:
  assumes "\<forall>q \<in> set qs. \<not> is_file t q"
  shows "\<exists>t'. make_dirs no_faults qs t = (None, t') \<and> dirs_added t t' \<and> (\<forall>q \<in> set qs. t' q = Some Dir)"
  using assms
proof (induction qs arbitrary: t)
  case (Cons q qs)
  define t1 where "t1 = t(q := Some Dir)"
  have q: "t q = None \<or> t q = Some Dir"
    using Cons.prems by (auto simp: is_file_def split: option.splits tree_node.splits)
  then have t1: "dirs_added t t1" "t1 q = Some Dir" by (auto simp: dirs_added_def t1_def)
  then obtain t' where t': "make_dirs no_faults qs t1 = (None, t')" "dirs_added t1 t'"
    "\<forall>q \<in> set qs. t' q = Some Dir"
    using Cons.IH [of t1] Cons.prems dirs_added_files [OF t1(1)] by auto
  have "make_dirs no_faults (q # qs) t = make_dirs no_faults qs t1"
    using q by (auto simp: t1_def no_faults_def fun_upd_idem)
  moreover have "t' q = Some Dir" using dirs_added_keeps [OF t'(2) t1(2)] .
  ultimately show ?case using t' dirs_added_trans [OF t1(1)] by auto
qed simp

abbreviation made_dir :: "string \<Rightarrow> tree \<Rightarrow> tree" where
  "made_dir dir t \<equiv> (if missing t dir then snd (MkdirAll no_faults dir t) else t)"

lemma made_dirs:
  assumes "\<forall>d \<in> set ds. \<forall>q \<in> set (parent_dirs (clean_path d) @ [clean_path d]). \<not> is_file t q"
  shows "dirs_added t (fold made_dir ds t) \<and> (\<forall>d \<in> set ds. fold made_dir ds t (clean_path d) = Some Dir)"
  using assms
proof (induction ds arbitrary: t)
  case (Cons d ds)
  let ?qs = "parent_dirs (clean_path d) @ [clean_path d]"
  have free: "\<forall>q \<in> set ?qs. \<not> is_file t q" using Cons.prems by auto
  have step: "dirs_added t (made_dir d t) \<and> made_dir d t (clean_path d) = Some Dir"
  proof (cases "missing t d")
    case True
    then show ?thesis using make_dirs_adds [OF free] by (auto simp: MkdirAll_def)
  next
    case False
    then have "t (clean_path d) \<noteq> None" using free by (auto simp: missing_def list_ex_iff)
    moreover have "\<not> is_file t (clean_path d)" using free by simp
    ultimately have "t (clean_path d) = Some Dir" by (auto simp: is_file_def split: tree_node.splits)
    then show ?thesis using False by simp
  qed
  let ?t1 = "made_dir d t"
  have rest: "dirs_added ?t1 (fold made_dir ds ?t1)
      \<and> (\<forall>d' \<in> set ds. fold made_dir ds ?t1 (clean_path d') = Some Dir)"
    using Cons.prems step dirs_added_files [of t ?t1] by (intro Cons.IH) auto
  then have "fold made_dir ds ?t1 (clean_path d) = Some Dir"
    using step dirs_added_keeps [of ?t1 "fold made_dir ds ?t1"] by blast
  moreover have "dirs_added t (fold made_dir ds ?t1)" using rest step dirs_added_trans [of t ?t1] by blast
  ultimately show ?case using rest unfolding fold_simps comp_apply list.set ball_simps by blast
qed simp

abbreviation made_file :: "string \<Rightarrow> tree \<Rightarrow> tree" where
  "made_file p t \<equiv> (if missing t p then snd (write_text no_faults p [] t) else t)"

lemma made_files:
  assumes "\<forall>p \<in> set ps. clean_path p = p \<and> parent_dirs p \<noteq> [] \<and> (\<forall>q \<in> set (parent_dirs p). \<not> is_file t q)"
    and "\<forall>p \<in> set ps. t p = None \<longrightarrow> t (last (parent_dirs p)) = Some Dir"
    and "\<forall>p \<in> set ps. \<forall>r \<in> set ps. p \<notin> set (parent_dirs r)"
  shows "(\<forall>p. t p \<noteq> None \<longrightarrow> fold made_file ps t p = t p) \<and> (\<forall>p \<in> set ps. fold made_file ps t p \<noteq> None)"
  using assms
proof (induction ps arbitrary: t)
  case (Cons p ps)
  let ?t1 = "made_file p t"
  have p: "clean_path p = p" "parent_dirs p \<noteq> []" "\<not> list_ex (is_file t) (parent_dirs p)"
    using Cons.prems(1) by (auto simp: list_ex_iff)
  have t1: "?t1 = (if t p = None then t(p \<mapsto> Content []) else t)"
    using p Cons.prems(2) by (simp add: missing_def write_text_def no_faults_def)
  have other: "?t1 q = t q" if "r \<in> set ps" "q \<in> set (parent_dirs r)" for q r
    using that Cons.prems(3) by (auto simp: t1)
  have IH: "(\<forall>q. ?t1 q \<noteq> None \<longrightarrow> fold made_file ps ?t1 q = ?t1 q) \<and> (\<forall>q \<in> set ps. fold made_file ps ?t1 q \<noteq> None)"
  proof (rule Cons.IH)
    show "\<forall>r \<in> set ps. clean_path r = r \<and> parent_dirs r \<noteq> [] \<and> (\<forall>q \<in> set (parent_dirs r). \<not> is_file ?t1 q)"
      using Cons.prems(1) other by (simp add: is_file_def)
    show "\<forall>r \<in> set ps. ?t1 r = None \<longrightarrow> ?t1 (last (parent_dirs r)) = Some Dir"
      using Cons.prems(1,2) other by (auto simp: t1 split: if_splits)
  qed (use Cons.prems(3) in simp)
  then have "\<forall>q. t q \<noteq> None \<longrightarrow> fold made_file ps ?t1 q = t q" by (simp add: t1)
  moreover have "fold made_file ps ?t1 p \<noteq> None" using IH by (simp add: t1)
  ultimately show ?case using IH unfolding fold_simps comp_apply list.set ball_simps by blast
qed simp

text \<open>Where nothing may be a file when the program starts for the first time.\<close>

definition start_dirs :: "string list" where
  "start_dirs = concat (map (\<lambda>d. parent_dirs (clean_path d) @ [clean_path d]) init_directories)"

lemma init_paths_shape:
  "list_all (\<lambda>p. clean_path p = p \<and> parent_dirs p \<noteq> []
     \<and> list_all (\<lambda>q. q = ''/etc'' \<or> q \<in> set start_dirs) (parent_dirs p)) init_paths"
  "list_all (\<lambda>p. p = DEVICE_CONFIG_PATH \<or> last (parent_dirs p) = ''/etc''
     \<or> last (parent_dirs p) = clean_path ''/var/www/html/data/'') init_paths"
  "list_all (\<lambda>p. list_all (\<lambda>r. p \<notin> set (parent_dirs r)) init_paths) init_paths"
  "clean_path DEVICE_CONFIG_PATH = DEVICE_CONFIG_PATH"
  by code_simp+

text \<open>What exists is not touched, whatever fails.\<close>

lemma make_dirs_keeps: "t p = Some v \<Longrightarrow> snd (make_dirs fails qs t) p = Some v"
proof (induction qs arbitrary: t)
  case (Cons q qs)
  then have "t q = None \<Longrightarrow> (t(q \<mapsto> Dir)) p = Some v" by auto
  with Cons show ?case by (auto split: option.split tree_node.split)
qed simp

lemma fold_keeps:
  assumes "\<And>x t. x \<in> set xs \<Longrightarrow> t p = Some v \<Longrightarrow> f x t p = Some v"
  shows "t p = Some v \<Longrightarrow> fold f xs t p = Some v"
  using assms by (induction xs arbitrary: t) auto

lemma initFiles_keeps: "t p = Some v \<Longrightarrow> initFiles fails t p = Some v"
  unfolding initFiles_def Let_def
proof (intro fold_keeps)
  fix x and t :: tree
  assume "x \<in> set init_paths" "t p = Some v"
  moreover from this have "clean_path x = x" using init_paths_shape(1) by (auto simp: list_all_iff)
  ultimately show "(if missing t x then snd (write_text fails x [] t) else t) p = Some v"
    by (auto simp: missing_def write_text_def split: option.split)
qed (auto simp: MkdirAll_def intro: make_dirs_keeps)

text \<open>
  After a start on a tree in which no directory of the program is a file, every directory and every
  file of the program exists, and nothing that was there is changed. The path of the device
  configuration is among the directories that are made, so where it was missing it is a directory now,
  and a factory configuration can no longer be written.
\<close>

theorem start_makes_its_files:
  assumes "\<forall>q \<in> set start_dirs. \<not> is_file t q" "t ''/etc'' = Some Dir"
  shows "(\<forall>d \<in> set init_directories. initFiles no_faults t (clean_path d) = Some Dir)
    \<and> (\<forall>p \<in> set init_paths. initFiles no_faults t p \<noteq> None)
    \<and> (\<forall>p. t p \<noteq> None \<longrightarrow> initFiles no_faults t p = t p)
    \<and> write_text no_faults DEVICE_CONFIG_PATH s (initFiles no_faults t) = (Some ErrIsDir, initFiles no_faults t)"
proof -
  define t1 where "t1 = fold made_dir init_directories t"
  have d: "dirs_added t t1" "\<forall>d \<in> set init_directories. t1 (clean_path d) = Some Dir"
    using made_dirs [of init_directories t] assms(1) unfolding t1_def by (auto simp: start_dirs_def)
  have etc: "t1 ''/etc'' = Some Dir" using dirs_added_keeps [OF d(1) assms(2)] .
  have free: "\<not> is_file t1 q" if "q = ''/etc'' \<or> q \<in> set start_dirs" for q
  proof (cases "q = ''/etc''")
    case True
    then show ?thesis by (simp add: is_file_def etc)
  next
    case False
    then show ?thesis using that assms(1) dirs_added_files [OF d(1)] by simp
  qed
  have made: "DEVICE_CONFIG_PATH \<in> set init_directories" "''/var/www/html/data/'' \<in> set init_directories"
    by (simp_all add: init_directories_def)
  have dev: "t1 DEVICE_CONFIG_PATH = Some Dir" "t1 (clean_path ''/var/www/html/data/'') = Some Dir"
    using bspec [OF d(2) made(1)] bspec [OF d(2) made(2)] by (simp_all add: init_paths_shape(4))
  note shape = init_paths_shape(1-3) [unfolded list_all_iff]
  have f: "(\<forall>p. t1 p \<noteq> None \<longrightarrow> fold made_file init_paths t1 p = t1 p)
      \<and> (\<forall>p \<in> set init_paths. fold made_file init_paths t1 p \<noteq> None)"
  proof (rule made_files)
    show "\<forall>p \<in> set init_paths. clean_path p = p \<and> parent_dirs p \<noteq> [] \<and> (\<forall>q \<in> set (parent_dirs p). \<not> is_file t1 q)"
      using shape(1) free by blast
    show "\<forall>p \<in> set init_paths. t1 p = None \<longrightarrow> t1 (last (parent_dirs p)) = Some Dir"
    proof (intro ballI impI)
      fix p assume "p \<in> set init_paths" "t1 p = None"
      with shape(2) dev(1) have "last (parent_dirs p) = ''/etc''
          \<or> last (parent_dirs p) = clean_path ''/var/www/html/data/''" by (metis option.distinct(1))
      then show "t1 (last (parent_dirs p)) = Some Dir" using dev(2) etc by (elim disjE) simp_all
    qed
  qed (rule shape(3))
  have init: "initFiles no_faults t = fold made_file init_paths t1" by (simp add: initFiles_def t1_def Let_def)
  have "initFiles no_faults t p = t p" if "t p \<noteq> None" for p
    using that initFiles_keeps by auto
  moreover have "initFiles no_faults t (clean_path d) = Some Dir" if "d \<in> set init_directories" for d
    using that f d(2) by (simp add: init)
  moreover have "write_text no_faults DEVICE_CONFIG_PATH s (initFiles no_faults t) =
      (Some ErrIsDir, initFiles no_faults t)"
    using f dev by (intro write_text_simps) (simp add: init)
  ultimately show ?thesis using f by (simp add: init)
qed

theorem start_makes_its_files_witness:
  "initFiles no_faults [''/etc'' \<mapsto> Dir, ''/data'' \<mapsto> Dir] ''/var/www/html/data/hastate'' \<noteq> None
   \<and> write_text no_faults DEVICE_CONFIG_PATH ''license_1year = k'' (initFiles no_faults [''/etc'' \<mapsto> Dir, ''/data'' \<mapsto> Dir])
     = (Some ErrIsDir, initFiles no_faults [''/etc'' \<mapsto> Dir, ''/data'' \<mapsto> Dir])"
proof -
  let ?t = "[''/etc'' \<mapsto> Dir, ''/data'' \<mapsto> Dir] :: tree"
  have "\<forall>q \<in> set start_dirs. \<not> is_file ?t q" by (auto simp: is_file_def)
  moreover have "''/var/www/html/data/hastate'' \<in> set init_paths" by (simp add: init_paths_def)
  ultimately show ?thesis
    using start_makes_its_files [of ?t "''license_1year = k''"] by simp
qed

end
