(* ===== verification/Init_System.thy ===== *)
theory Init_System
  imports Start_Up Sample_Host Sample
begin

text \<open>
  \<open>InitSystem/initSystem.go\<close>, the program that runs once after the device has booted: it leaves the flag
  for the back end, stops the services, sets the addresses, reads the configuration of the sandbox,
  prepares the host for it and starts the services again. Its state is the host, with the files, the
  commands that were run, each with its arguments, and its own copy of the sandbox settings.
\<close>

record ('k, 'y) boot_state = "('k, 'y) host" +
  boot_tree :: tree
  boot_ran :: "string list list"
  boot_settings :: "string \<Rightarrow> any"

text \<open>
  \<open>command_error\<close> is the error of a command, \<open>cuckoo_conf\<close> the text of the sandbox configuration or the
  error of opening it.
\<close>

record boot_env =
  boot_faults :: faults
  command_error :: "string list \<Rightarrow> go_error option"
  cuckoo_conf :: "go_error + string"

subsection \<open>Flag and services\<close>

definition setDeviceRebootedFlagTo1 :: "faults \<Rightarrow> tree \<Rightarrow> tree" where
  "setDeviceRebootedFlagTo1 fails t =
     (if list_ex (is_file t) (parent_dirs DEVICE_REBOOTED_FLAG_PATH) then t
      else
        (case (if t DEVICE_REBOOTED_FLAG_PATH = None then write_text fails DEVICE_REBOOTED_FLAG_PATH [] t
               else (None, t)) of
           (Some e, t1) \<Rightarrow> t1
         | (None, t1) \<Rightarrow> snd (write_text fails DEVICE_REBOOTED_FLAG_PATH ''1'' t1)))"

definition boot_services :: "string list" where
  "boot_services = [''apache2'', ''backend'', ''cuckoo-rooter'', ''cuckoo'', ''RestAPI'']"

definition run_program ::
  "('e) boot_env_scheme \<Rightarrow> string list \<Rightarrow> ('k, 'y, 'm) boot_state_scheme
   \<Rightarrow> go_error option \<times> ('k, 'y, 'm) boot_state_scheme" where
  "run_program env cmd s = (command_error env cmd, s\<lparr>boot_ran := boot_ran s @ [cmd]\<rparr>)"

text \<open>The errors of these commands are logged.\<close>

definition systemctl_all ::
  "('e) boot_env_scheme \<Rightarrow> string \<Rightarrow> ('k, 'y, 'm) boot_state_scheme \<Rightarrow> ('k, 'y, 'm) boot_state_scheme" where
  "systemctl_all env verb s =
     fold (\<lambda>service s. snd (run_program env [''/bin/systemctl'', verb, service] s)) boot_services s"

definition stopServices ::
  "('e) boot_env_scheme \<Rightarrow> ('k, 'y, 'm) boot_state_scheme \<Rightarrow> ('k, 'y, 'm) boot_state_scheme" where
  "stopServices env = systemctl_all env ''stop''"

definition startServices ::
  "('e) boot_env_scheme \<Rightarrow> ('k, 'y, 'm) boot_state_scheme \<Rightarrow> ('k, 'y, 'm) boot_state_scheme" where
  "startServices env = systemctl_all env ''start''"

definition enableService ::
  "('e) boot_env_scheme \<Rightarrow> ('k, 'y, 'm) boot_state_scheme \<Rightarrow> ('k, 'y, 'm) boot_state_scheme" where
  "enableService env s = snd (run_program env [''systemctl'', ''enable'', ''backend''] s)"

subsection \<open>The configuration of the sandbox\<close>

text \<open>
  The words looked for in a line, the variable of \<open>extras/enum.go\<close> that takes the value, and for numbers the
  value taken when the text is none.
\<close>

definition conf_keys :: "(string \<times> string \<times> int option) list" where
  "conf_keys =
     [(''version_check'', ''VERSION_CHECK'', None),
      (''ignore_vulnerabilities'', ''IGNORE_VULNERABLILITY'', None),
      (''delete_original'', ''DELETE_ORIGINAL'', None),
      (''delete_bin_copy'', ''DELETE_BIN_COPY'', None),
      (''machinery'', ''MACHINERY'', None),
      (''memory_dump'', ''MEMORY_DUMP'', None),
      (''terminate_processes'', ''TERMINATE_PROCESSES'', None),
      (''reschedule'', ''RESCHEDULE'', None),
      (''process_results'', ''PROCESS_RESULTS'', None),
      (''max_analysis_count'', ''MAX_ANALYSIS_COUNT'', Some 10),
      (''max_machines_count'', ''MAX_MACHINES_COUNT'', Some 8),
      (''max_vmstartup_count'', ''MAX_VM_STARTUP_COUNT'', Some 8),
      (''freespace'', ''FREESPACE'', Some 8),
      (''tmppath'', ''TMP_PATH'', None),
      (''rooter'', ''ROOTER'', None),
      (''ip'', ''SOURCE_IP'', None),
      (''port'', ''SOURCE_PORT'', Some 2042),
      (''upload_max_size'', ''MAX_ALLOWED_FILE_SIZE'', Some 10485760),
      (''vm_state'', ''VM_STATE'', Some 60),
      (''critical'', ''CRITICAL_TIMEOUT'', Some 60),
      (''analysis_size_limit'', ''ANALYSIS_SIZE_LIMIT'', Some 134217728)]"

definition conf_value :: "int option \<Rightarrow> string \<Rightarrow> any" where
  "conf_value fallback text_value =
     (case fallback of
        None \<Rightarrow> AStr (trim_space text_value)
      | Some n \<Rightarrow> AInt (case atoi (trim_space text_value) of None \<Rightarrow> n | Some i \<Rightarrow> i))"

definition conf_line :: "string \<Rightarrow> (string \<Rightarrow> any) \<Rightarrow> (string \<Rightarrow> any)" where
  "conf_line l vars =
     (case split_on (CHR ''='') l of
        _ # v # _ \<Rightarrow>
          fold (\<lambda>(key, var, fallback) vars.
                  if contains l key then vars(var := conf_value fallback v) else vars) conf_keys vars
      | _ \<Rightarrow> vars)"

definition readCuckooConf :: "go_error + string \<Rightarrow> (string \<Rightarrow> any) \<Rightarrow> (string \<Rightarrow> any)" where
  "readCuckooConf conf vars =
     (case conf of Inl e \<Rightarrow> vars | Inr content \<Rightarrow> fold conf_line (scan_lines content) vars)"

subsection \<open>The interface of the sandbox\<close>

definition readInterfaceConfig :: "('y, 'f) net_env_scheme \<Rightarrow> 'y option \<Rightarrow> go_error + net_config" where
  "readInterfaceConfig env doc =
     (case doc of
        None \<Rightarrow> Inl ErrNoEntry
      | Some y \<Rightarrow> (case net_read_error env of Some e \<Rightarrow> Inl e | None \<Rightarrow> dec_net env y))"

definition last_or_none :: "string list \<Rightarrow> string" where
  "last_or_none ns = (if ns = [] then [] else last ns)"

text \<open>
  The last interface that qualifies. Of the configured ones those are skipped that are neither named
  like a port nor disabled; without a configuration the links are taken.
\<close>

definition getLastInterfaceName ::
  "('y, 'f) net_env_scheme \<Rightarrow> ('k, 'e) netlink_scheme \<Rightarrow> ('k, 'y, 'm) host_scheme \<Rightarrow> string" where
  "getLastInterfaceName nenv kern s =
     (case readInterfaceConfig nenv (net_doc s) of
        Inl e \<Rightarrow>
          last_or_none (filter (\<lambda>n. has_prefix n ''e'' \<and> n \<noteq> LOOP_BACK_DEVICE)
            (case LinkList kern (kernel s) of Inl e \<Rightarrow> [] | Inr ls \<Rightarrow> map lk_name ls))
      | Inr c \<Rightarrow>
          last_or_none (map pi_name
            (filter (\<lambda>p. has_prefix (pi_name p) ''e'' \<or> cf_disabled (pi_fields p)) (PhysicalInterfaces c))))"

definition vmcloak_command :: string where
  "vmcloak_command =
     ''sudo su wijungle -c '' @ [CHR 0x22]
     @ ''source /usr/share/virtualenvwrapper/virtualenvwrapper.sh && source /home/wijungle/.virtualenvs/cuckoo-test/bin/activate && bash -c ''
     @ [CHR 0x27] @ ''vmcloak-vboxnet0'' @ [CHR 0x27] @ [CHR 0x22]"

definition init_commands :: "string \<Rightarrow> string list" where
  "init_commands lastInterface =
     [''/bin/systemctl restart systemd-resolved'',
      ''mount -o ro,loop /log/iso/win7ultimate.iso /mnt/win7'',
      vmcloak_command,
      ''sysctl -w net.ipv4.conf.vboxnet0.forwarding=1'',
      ''sysctl -w net.ipv4.conf.vboxnet0.forwarding=1'',
      ''iptables -w -t nat -A POSTROUTING -o '' @ lastInterface @ '' -s 192.168.56.0/24 -j MASQUERADE'',
      ''iptables -w -P FORWARD DROP'',
      ''iptables -w -A FORWARD -m state --state RELATED,ESTABLISHED -j ACCEPT'',
      ''iptables -w -A FORWARD -s 192.168.56.0/24 -j ACCEPT'',
      ''service cuckoo-rooter start'',
      ''/bin/systemctl daemon-reload'',
      ''service cuckoo start'',
      ''service RestAPI start'']"

definition bash :: "string \<Rightarrow> string list" where "bash cmd = [''bash'', ''-c'', cmd]"

text \<open>A command that fails ends the program, but for the one that mounts; the flag says that all went on.\<close>

fun run_commands ::
  "('e) boot_env_scheme \<Rightarrow> string list \<Rightarrow> ('k, 'y, 'm) boot_state_scheme
   \<Rightarrow> bool \<times> ('k, 'y, 'm) boot_state_scheme" where
  "run_commands env [] s = (True, s)"
| "run_commands env (c # cs) s =
     (case run_program env (bash c) s of
        (None, s1) \<Rightarrow> run_commands env cs s1
      | (Some e, s1) \<Rightarrow> if contains c ''mount'' then run_commands env cs s1 else (False, s1))"

definition configureCuckoo where
  "configureCuckoo env nenv kern s = run_commands env (init_commands (getLastInterfaceName nenv kern s)) s"

subsection \<open>The program\<close>

datatype boot_end = Booted | Fatal | Crash

definition init_main ::
  "('e) boot_env_scheme \<Rightarrow> ('y, 'f) net_env_scheme \<Rightarrow> ('k, 'g) netlink_scheme
   \<Rightarrow> ('k, 'y, 'm) boot_state_scheme \<Rightarrow> boot_end \<times> ('k, 'y, 'm) boot_state_scheme" where
  "init_main env nenv kern s =
     (let s1 = s\<lparr>boot_tree := setDeviceRebootedFlagTo1 (boot_faults env) (boot_tree s)\<rparr>;
          s2 = enableService env (stopServices env s1)
      in case RestoreInterfaceSettings nenv kern s2 of
           (Inl (Panic p), s3) \<Rightarrow> (Crash, s3)
         | (_, s3) \<Rightarrow>
             (let s4 = s3\<lparr>boot_settings := readCuckooConf (cuckoo_conf env) (boot_settings s3)\<rparr>
              in case configureCuckoo env nenv kern s4 of
                   (False, s5) \<Rightarrow> (Fatal, s5)
                 | (True, s5) \<Rightarrow> (Booted, startServices env s5)))"

text \<open>
  \<open>setIPAddresses\<close>, whose call is commented out: the addresses of the static ports, those of a monitored
  port by the role in the pair. A port without an address is not set up.
\<close>

definition set_port_addresses ::
  "('k, 'e) netlink_scheme \<Rightarrow> ha \<Rightarrow> physical_interface \<Rightarrow> (('k, 'y, 'm) host_scheme, unit) act" where
  "set_port_addresses kern h p =
     (let name = pi_name p; own = ipr_address (pi_ip p); netmask = ipr_netmask (pi_ip p);
          (base, peer) = FetchHaIps name h; up = command (LinkSetUp kern name);
          found = bind_act (query (\<lambda>k. LinkByName kern k name)) (\<lambda>_. ret ())
      in only_if (has_prefix name ''e'' \<and> ipr_protocol (pi_ip p) = STATIC_STRING)
           (andthen (command (PerformIpFlush kern name))
             (if IsHaMonitored name h then
                all_of [only_if (IsHaPrimary h \<and> base \<noteq> []) (command (SetIP kern name base netmask)),
                        only_if (\<not> (IsHaPrimary h \<and> base \<noteq> []) \<and> IsHaBackup h \<and> peer \<noteq> [])
                          (command (SetIP kern name peer netmask)),
                        found, up]
              else only_if (own \<noteq> []) (all_of [command (SetIP kern name own netmask), found, up]))))"

definition setIPAddresses ::
  "('k, 'e) netlink_scheme \<Rightarrow> net_config option \<Rightarrow> ha \<Rightarrow> (('k, 'y, 'm) host_scheme, unit) act" where
  "setIPAddresses kern interfaceConfig h =
     (case interfaceConfig of
        None \<Rightarrow> fail (Err ''interface config is nil'')
      | Some c \<Rightarrow> for_each (PhysicalInterfaces c) (set_port_addresses kern h))"

subsection \<open>After a reboot\<close>

lemma rebooted_path: "parent_dirs DEVICE_REBOOTED_FLAG_PATH = [''/etc'']"
  by code_simp

lemma flag_is_set:
  assumes "t ''/etc'' = Some Dir" "t DEVICE_REBOOTED_FLAG_PATH \<noteq> Some Dir" "fails DEVICE_REBOOTED_FLAG_PATH = None"
  shows "content_of (setDeviceRebootedFlagTo1 fails t) DEVICE_REBOOTED_FLAG_PATH = Some ''1''"
  using assms
  by (auto simp: setDeviceRebootedFlagTo1_def rebooted_path write_text_def content_of_def is_file_def)

lemma run_program_tree [simp]: "boot_tree (snd (run_program env cmd s)) = boot_tree s"
  by (simp add: run_program_def)

lemma systemctl_tree [simp]: "boot_tree (systemctl_all env verb s) = boot_tree s"
  by (simp add: systemctl_all_def boot_services_def)

text \<open>Actions on the host leave the rest of a state alone.\<close>

definition host_only :: "(('k, 'y, 'm) host_scheme, 'a) act \<Rightarrow> bool" where
  "host_only m \<longleftrightarrow> (\<forall>s. host.more (snd (m s)) = host.more s)"

lemma host_only_act [intro]:
  "host_only (ret x)" "host_only (query f)" "host_only (command g)" "host_only (file_query h)"
  by (auto simp: host_only_def ret_def query_def command_def file_query_def Let_def split: prod.split option.split)

lemma host_only_bind [intro]: "host_only m \<Longrightarrow> (\<And>x. host_only (f x)) \<Longrightarrow> host_only (bind_act m f)"
proof (unfold host_only_def, intro allI)
  fix s
  assume m: "\<forall>s. host.more (snd (m s)) = host.more s" and f: "\<And>x. \<forall>s. host.more (snd (f x s)) = host.more s"
  obtain r s' where r: "m s = (r, s')" by fastforce
  then have "host.more s' = host.more s" using m by (metis snd_conv)
  then show "host.more (snd (bind_act m f s)) = host.more s"
    using f by (cases r) (simp_all add: bind_act_def r)
qed

lemma host_only_andthen [intro]: "host_only m \<Longrightarrow> host_only n \<Longrightarrow> host_only (andthen m n)"
  unfolding andthen_def by (rule host_only_bind)

lemma host_onlyD: "host_only m \<Longrightarrow> m s = (r, s') \<Longrightarrow> host.more s' = host.more s"
  by (metis host_only_def snd_conv)

lemma host_only_pass [intro]:
  "host_only m \<Longrightarrow> host_only (only_if b m)" "host_only m \<Longrightarrow> host_only (with_prefix msg m)"
  "host_only n \<Longrightarrow> host_only (only_print n)"
  by (auto simp: host_only_def [of "only_if b m"] host_only_def [of "with_prefix msg m"]
      host_only_def [of "only_print n"] only_if_def ret_def with_prefix_def only_print_def dest: host_onlyD
      split: prod.split sum.split go_error.split)

lemma host_only_all [intro]: "\<forall>m \<in> set ms. host_only m \<Longrightarrow> host_only (all_of ms)"
  by (induction ms) (auto simp: andthen_def)

lemma addIp_host_only [intro]: "host_only (addIp kern name ip netmask)"
  unfolding addIp_def by (intro host_only_pass host_only_act)

lemma restore_host_only: "host_only (RestoreInterfaceSettings kenv kern)"
proof -
  have "host_only (restore_port kern p)" for p
    unfolding restore_port_def
    by (intro host_only_bind host_only_act)
      (auto intro!: host_only_andthen host_only_pass host_only_all host_only_act addIp_host_only split: sum.split)
  then show ?thesis
    unfolding RestoreInterfaceSettings_def for_each_def
    by (intro host_only_bind host_only_act host_only_all) auto
qed

lemma more_kept:
  assumes "host_only m" "m s = (r, s')"
  shows "boot_tree s' = boot_tree s" "boot_ran s' = boot_ran s"
proof -
  have "host.more s' = host.more s" using assms by (metis host_only_def snd_conv)
  then show "boot_tree s' = boot_tree s" "boot_ran s' = boot_ran s"
    by (cases s; cases s'; simp)+
qed

text \<open>What the commands before and after add to the list of commands.\<close>

lemma systemctl_ran:
  "boot_ran (systemctl_all env verb s) = boot_ran s @ map (\<lambda>v. [''/bin/systemctl'', verb, v]) boot_services"
  by (simp add: systemctl_all_def boot_services_def run_program_def)

lemma run_commands_tree: "boot_tree (snd (run_commands env cs s)) = boot_tree s"
  by (induction env cs s rule: run_commands.induct) (auto simp: run_program_def split: option.split)

definition command_ok :: "('e) boot_env_scheme \<Rightarrow> string \<Rightarrow> bool" where
  "command_ok env c \<longleftrightarrow> command_error env (bash c) = None \<or> contains c ''mount''"

lemma run_commands_step:
  "run_commands env (c # cs) s =
     (if command_ok env c then run_commands env cs (s\<lparr>boot_ran := boot_ran s @ [bash c]\<rparr>)
      else (False, s\<lparr>boot_ran := boot_ran s @ [bash c]\<rparr>))"
  by (auto simp: run_program_def command_ok_def split: option.split)

lemma run_commands_ran:
  assumes "run_commands env cs s = (ok, s')"
  shows "ok \<and> boot_ran s' = boot_ran s @ map bash cs \<and> list_all (command_ok env) cs
    \<or> \<not> ok \<and> (\<exists>pre c post. cs = pre @ c # post \<and> boot_ran s' = boot_ran s @ map bash (pre @ [c])
        \<and> list_all (command_ok env) pre \<and> \<not> command_ok env c)"
  using assms
proof (induction cs arbitrary: s)
  case (Cons c cs)
  let ?s1 = "s\<lparr>boot_ran := boot_ran s @ [bash c]\<rparr>"
  show ?case
  proof (cases "command_ok env c")
    case True
    then have "run_commands env cs ?s1 = (ok, s')" using Cons.prems by (simp only: run_commands_step if_True)
    from Cons.IH [OF this] show ?thesis
    proof (elim disjE conjE exE)
      fix pre d post
      assume "\<not> ok" "cs = pre @ d # post" "boot_ran s' = boot_ran ?s1 @ map bash (pre @ [d])"
        "list_all (command_ok env) pre" "\<not> command_ok env d"
      then show ?thesis using True
        by (intro disjI2 conjI exI [of _ "c # pre"] exI [of _ d] exI [of _ post]) simp_all
    qed (simp add: True)
  next
    case False
    then have "ok = False" "s' = ?s1" using Cons.prems by (simp_all only: run_commands_step if_False prod.inject)
    then show ?thesis using False by (intro disjI2 conjI exI [of _ "[]"] exI [of _ c] exI [of _ cs]) simp_all
  qed
qed simp

text \<open>The parts of a run: what is done before the commands, and how they end.\<close>

lemma init_main_parts:
  assumes "init_main env nenv kern s = (r, s')"
    and "before = boot_ran s @ map (\<lambda>v. [''/bin/systemctl'', ''stop'', v]) boot_services
      @ [[''systemctl'', ''enable'', ''backend'']]"
    and "flagged = setDeviceRebootedFlagTo1 (boot_faults env) (boot_tree s)"
  obtains (crash) "r = Crash" "boot_ran s' = before" "boot_tree s' = flagged"
  | (commands) i ok s4 s5 where "run_commands env (init_commands i) s4 = (ok, s5)" "boot_ran s4 = before"
      "boot_tree s4 = flagged" "r = (if ok then Booted else Fatal)"
      "s' = (if ok then startServices env s5 else s5)"
proof -
  define s2 where "s2 = enableService env (stopServices env (s\<lparr>boot_tree := flagged\<rparr>))"
  obtain q s3 where q: "RestoreInterfaceSettings nenv kern s2 = (q, s3)" by fastforce
  have s3: "boot_ran s3 = before" "boot_tree s3 = flagged"
    using more_kept [OF restore_host_only q]
    by (simp_all add: s2_def stopServices_def enableService_def run_program_def systemctl_ran assms(2))
  show thesis
  proof (cases "\<exists>p. q = Inl (Panic p)")
    case True
    then have "r = Crash" "s' = s3" using assms(1,3) q by (auto simp: init_main_def s2_def Let_def)
    then show ?thesis using s3 crash by simp
  next
    case False
    define s4 where "s4 = s3\<lparr>boot_settings := readCuckooConf (cuckoo_conf env) (boot_settings s3)\<rparr>"
    define i where "i = getLastInterfaceName nenv kern s4"
    obtain ok s5 where c: "run_commands env (init_commands i) s4 = (ok, s5)" by fastforce
    have "init_main env nenv kern s =
        (case (ok, s5) of (False, s5) \<Rightarrow> (Fatal, s5) | (True, s5) \<Rightarrow> (Booted, startServices env s5))"
      using False q c [unfolded s4_def i_def]
      by (simp add: init_main_def assms(3) [symmetric] s2_def [symmetric] configureCuckoo_def Let_def
          split: sum.split go_error.split)
    then have "r = (if ok then Booted else Fatal)" "s' = (if ok then startServices env s5 else s5)"
      using assms(1) by (simp_all split: bool.splits)
    with c s3 show ?thesis by (intro commands [of i s4 ok s5]) (simp_all add: s4_def)
  qed
qed

text \<open>
  What a command asks of a service: to start, to stop, or nothing, and what a list of commands asked of it
  last.
\<close>

definition stop_cmd :: "string \<Rightarrow> string list" where "stop_cmd v = [''/bin/systemctl'', ''stop'', v]"
definition start_cmd :: "string \<Rightarrow> string list" where "start_cmd v = [''/bin/systemctl'', ''start'', v]"
definition service_start :: "string \<Rightarrow> string" where "service_start v = ''service '' @ v @ '' start''"

definition asks :: "string \<Rightarrow> string list \<Rightarrow> bool option" where
  "asks v cmd =
     (if cmd = start_cmd v \<or> cmd = bash (service_start v) then Some True
      else if cmd = stop_cmd v then Some False else None)"

definition last_asked :: "string \<Rightarrow> string list list \<Rightarrow> bool option" where
  "last_asked v cmds = fold (\<lambda>cmd r. case asks v cmd of None \<Rightarrow> r | Some b \<Rightarrow> Some b) cmds None"

lemma asked_by_commands:
  "fold (\<lambda>cmd r. case asks v cmd of None \<Rightarrow> r | Some b \<Rightarrow> Some b) (map bash cs) (Some b) =
     Some (b \<or> service_start v \<in> set cs)"
  by (induction cs arbitrary: b) (auto simp: asks_def bash_def start_cmd_def stop_cmd_def)

lemma asked_to_stop:
  assumes "v \<in> set boot_services"
  shows "last_asked v (map stop_cmd boot_services @ [''systemctl'', ''enable'', ''backend''] # map bash cs) =
    Some (service_start v \<in> set cs)"
proof -
  have "fold (\<lambda>cmd r. case asks v cmd of None \<Rightarrow> r | Some b \<Rightarrow> Some b)
      (map stop_cmd boot_services @ [[''systemctl'', ''enable'', ''backend'']]) None = Some False"
    using assms by (auto simp: boot_services_def asks_def stop_cmd_def start_cmd_def bash_def)
  with asked_by_commands [of v cs False] show ?thesis by (simp add: last_asked_def)
qed

lemma asked_to_start:
  assumes "v \<in> set boot_services"
  shows "last_asked v (cmds @ map start_cmd boot_services) = Some True"
proof -
  have "fold (\<lambda>cmd r. case asks v cmd of None \<Rightarrow> r | Some b \<Rightarrow> Some b) (map start_cmd boot_services) r = Some True" for r
    using assms by (auto simp: boot_services_def asks_def stop_cmd_def start_cmd_def)
  then show ?thesis by (simp add: last_asked_def)
qed

lemma not_among_the_commands:
  "service_start ''apache2'' \<notin> set (init_commands i)" "service_start ''backend'' \<notin> set (init_commands i)"
  by (simp_all add: service_start_def init_commands_def vmcloak_command_def)

text \<open>C37: the program stops the five services and runs the commands that prepare the host in order; when each
  succeeds, but for the mount, all five are asked to start. The first command that fails ends the program
  with the web server and the back end stopped; the three services of the sandbox are then asked to start
  exactly when the command that starts them is among those that were run.
\<close>

theorem services_start_unless_a_command_fails:
  assumes "init_main env nenv kern s = (r, s')"
    and pre_run: "stopped = map stop_cmd boot_services @ [[''systemctl'', ''enable'', ''backend'']]"
  shows "\<exists>run i. boot_ran s' = boot_ran s @ stopped @ run
    \<and> (r = Booted \<longrightarrow> list_all (command_ok env) (init_commands i)
         \<and> run = map bash (init_commands i) @ map start_cmd boot_services
         \<and> (\<forall>v \<in> set boot_services. last_asked v (stopped @ run) = Some True))
    \<and> (r = Fatal \<longrightarrow> (\<exists>pre c post. init_commands i = pre @ c # post
         \<and> list_all (command_ok env) pre \<and> \<not> command_ok env c \<and> run = map bash (pre @ [c])
         \<and> last_asked ''apache2'' (stopped @ run) = Some False \<and> last_asked ''backend'' (stopped @ run) = Some False
         \<and> (\<forall>v \<in> set boot_services. last_asked v (stopped @ run) = Some (service_start v \<in> set (pre @ [c])))))
    \<and> (r = Crash \<longrightarrow> run = [] \<and> (\<forall>v \<in> set boot_services. last_asked v (stopped @ run) = Some False))"
proof (rule init_main_parts [OF assms(1) refl refl], goal_cases crash commands)
  case crash
  have "last_asked v stopped = Some False" if "v \<in> set boot_services" for v
    using asked_to_stop [OF that, of "[]"] by (simp add: pre_run)
  with crash show ?case by (intro exI [of _ "[]"]) (simp add: pre_run stop_cmd_def)
next
  case (commands i ok s4 s5)
  from run_commands_ran [OF commands(1)] show ?case
  proof (elim disjE conjE exE)
    assume "ok" "boot_ran s5 = boot_ran s4 @ map bash (init_commands i)" "list_all (command_ok env) (init_commands i)"
    then show ?thesis
      using commands(2-) asked_to_start [of _ "stopped @ map bash (init_commands i)"]
      by (intro exI [of _ "map bash (init_commands i) @ map start_cmd boot_services"] exI [of _ i])
        (simp add: startServices_def systemctl_ran pre_run stop_cmd_def start_cmd_def)
  next
    fix pre c post
    assume c: "\<not> ok" "init_commands i = pre @ c # post" "boot_ran s5 = boot_ran s4 @ map bash (pre @ [c])"
      "list_all (command_ok env) pre" "\<not> command_ok env c"
    have asked: "last_asked v (stopped @ map bash (pre @ [c])) = Some (service_start v \<in> set (pre @ [c]))"
      if "v \<in> set boot_services" for v
      using asked_to_stop [OF that, of "pre @ [c]"] by (simp add: pre_run)
    have "service_start v \<notin> set (pre @ [c])" if "v = ''apache2'' \<or> v = ''backend''" for v
      using not_among_the_commands [of i] that by (auto simp: c(2))
    then have "last_asked ''apache2'' (stopped @ map bash (pre @ [c])) = Some False"
      "last_asked ''backend'' (stopped @ map bash (pre @ [c])) = Some False"
      using asked [of "''apache2''"] asked [of "''backend''"] by (simp_all add: boot_services_def)
    moreover have "boot_ran s' = boot_ran s @ stopped @ map bash (pre @ [c])" "r = Fatal"
      using commands(2-) c(1,3) by (simp_all add: pre_run stop_cmd_def)
    ultimately show ?thesis
      using asked c(2,4,5) by (intro exI [of _ "map bash (pre @ [c])"] exI [of _ i]) (simp, blast)
  qed
qed

text \<open>C38: after the device has booted every live task starts again from the beginning: the flag this program
  leaves makes the back end put all of them back among the tasks that wait, whatever state the sandbox
  had brought them to.
\<close>

theorem reboot_requeues_every_task:
  assumes "init_main env nenv kern s = (r, s')" "healthy denv"
    and "boot_tree s ''/etc'' = Some Dir" "boot_tree s DEVICE_REBOOTED_FLAG_PATH \<noteq> Some Dir"
    and "boot_faults env DEVICE_REBOOTED_FLAG_PATH = None"
  shows "\<forall>row \<in> set (lives (fst (ResetQueueDb denv True
             (content_of (initFiles fails (boot_tree s')) DEVICE_REBOOTED_FLAG_PATH) d))).
           0 < live_id row \<longrightarrow> live_status_col row = PendingNotInQueue"
proof -
  have "boot_tree s' = setDeviceRebootedFlagTo1 (boot_faults env) (boot_tree s)"
  proof (rule init_main_parts [OF assms(1) refl refl], goal_cases crash commands)
    case (commands i ok s4 s5)
    then show ?thesis
      using run_commands_tree [of env "init_commands i" s4] by (simp add: startServices_def)
  qed
  then have "content_of (boot_tree s') DEVICE_REBOOTED_FLAG_PATH = Some ''1''"
    using flag_is_set [of "boot_tree s" "boot_faults env"] assms(3-5) by simp
  then have "boot_tree s' DEVICE_REBOOTED_FLAG_PATH = Some (Content ''1'')"
    by (auto simp: content_of_def split: option.splits tree_node.splits)
  then have "initFiles fails (boot_tree s') DEVICE_REBOOTED_FLAG_PATH = Some (Content ''1'')"
    by (rule initFiles_keeps)
  then have "content_of (initFiles fails (boot_tree s')) DEVICE_REBOOTED_FLAG_PATH = Some ''1''"
    by (simp add: content_of_def)
  moreover have "readDeviceRebootedFlag (Some ''1'') = (True, None)" by code_simp
  ultimately show ?thesis
    using assms(2) by (auto simp: ResetQueueDb_def healthy_exec update_where_def)
qed

subsection \<open>A concrete boot\<close>

text \<open>A device whose back end was running a file in the sandbox; the rule that needs an interface fails.\<close>

definition nat_fails :: "string list \<Rightarrow> go_error option" where
  "nat_fails cmd = (if contains (last cmd) ''MASQUERADE'' then Some (Err ''exit status 2'') else None)"

definition sample_boot_env :: "(string list \<Rightarrow> go_error option) \<Rightarrow> boot_env" where
  "sample_boot_env fails = \<lparr>boot_faults = no_faults, command_error = fails,
     cuckoo_conf = Inr ''machinery = kvm''\<rparr>"

definition sample_boot :: "(table, net_config) boot_state" where
  "sample_boot = \<lparr>kernel = [], net_doc = Some zero_net, boot_tree = [''/etc'' \<mapsto> Dir], boot_ran = [],
     boot_settings = \<lambda>_. ANil\<rparr>"

theorem services_start_unless_a_command_fails_witness:
  "fst (init_main (sample_boot_env nat_fails) plain_env table_kernel sample_boot) = Fatal
   \<and> last_asked ''backend'' (boot_ran (snd (init_main (sample_boot_env nat_fails) plain_env table_kernel sample_boot)))
       = Some False"
proof -
  let ?m = "init_main (sample_boot_env nat_fails) plain_env table_kernel sample_boot"
  have fatal: "fst ?m = Fatal" by code_simp
  then have "?m = (Fatal, snd ?m)" by (simp add: prod_eq_iff)
  from services_start_unless_a_command_fails [OF this refl] fatal show ?thesis
    by (auto simp: sample_boot_def [THEN arg_cong [where f = boot_ran]])
qed

theorem reboot_requeues_every_task_witness:
  "filter (\<lambda>row. 0 < live_id row \<and> live_status_col row \<noteq> PendingNotInQueue)
    (lives (fst (ResetQueueDb sample_db_env True
      (content_of (initFiles no_faults (boot_tree (snd (init_main (sample_boot_env nat_fails) plain_env table_kernel
         sample_boot)))) DEVICE_REBOOTED_FLAG_PATH) (sys_db lost_state)))) = []"
proof -
  let ?m = "init_main (sample_boot_env nat_fails) plain_env table_kernel sample_boot"
  have "?m = (fst ?m, snd ?m)" by simp
  moreover have "boot_tree sample_boot ''/etc'' = Some Dir" "boot_tree sample_boot DEVICE_REBOOTED_FLAG_PATH \<noteq> Some Dir"
    "boot_faults (sample_boot_env nat_fails) DEVICE_REBOOTED_FLAG_PATH = None"
    by (simp_all add: sample_boot_def DEVICE_REBOOTED_FLAG_PATH_def sample_boot_env_def no_faults_def)
  ultimately show ?thesis
    unfolding filter_empty_conv using reboot_requeues_every_task healthy_sample(2) by blast
qed

end
