(* ===== verification/Hash_Cache.thy ===== *)
theory Hash_Cache
  imports Task_Db "HOL-Library.List_Lexorder" "HOL-Library.Char_ord"
begin

text \<open>
  \<open>hash/hash.go\<close>: the verdicts kept by hash in two YAML files and in memory, the cache of urls, and the
  list of the files being processed. Only \<open>CalculateHash\<close> has callers that run: the start of \<open>main.go\<close> has
  the calls that load the files commented out, and the one caller of \<open>SaveVerdict\<close> has no caller.
  A nil map is the empty one: it is made before it is written to.
\<close>

subsection \<open>State\<close>

datatype hash_file = BlockedFile | AllowedFile | UrlCacheFile

record url_cache_row =
  uc_verdict :: int
  uc_time :: int

record 'y hash_state =
  blockedHashes :: "string \<rightharpoonup> bool"
  allowedHashes :: "string \<rightharpoonup> bool"
  urlCaches :: "string \<rightharpoonup> url_cache_row"
  fileQueue :: "string list"
  hash_docs :: "hash_file \<rightharpoonup> 'y"

text \<open>
  Files, YAML and the hash functions of the standard library. \<open>torn_doc\<close> is what a failed write leaves,
  \<open>opened_file\<close> a file with what reading it gives.
\<close>

record 'y hash_env =
  doc_create :: "hash_file \<Rightarrow> go_error option"
  doc_read :: "hash_file \<Rightarrow> go_error option"
  doc_write :: "hash_file \<Rightarrow> go_error option"
  torn_doc :: "hash_file \<Rightarrow> 'y option"
  no_doc :: 'y
  enc_hashes :: "(string \<rightharpoonup> bool) \<Rightarrow> go_error + 'y"
  dec_hashes :: "'y \<Rightarrow> go_error + (string \<rightharpoonup> bool)"
  enc_urls :: "(string \<rightharpoonup> url_cache_row) \<Rightarrow> go_error + 'y"
  dec_urls :: "'y \<Rightarrow> go_error + (string \<rightharpoonup> url_cache_row)"
  opened_file :: "string \<Rightarrow> go_error + (go_error + string)"
  digest :: "string \<Rightarrow> string \<Rightarrow> string"

subsection \<open>Hashes of files\<close>

definition CalculateHash :: "('y, 'e) hash_env_scheme \<Rightarrow> string \<Rightarrow> string \<Rightarrow> string \<times> go_error option" where
  "CalculateHash env path hashType =
     (case opened_file env path of
        Inl e \<Rightarrow> ([], Some e)
      | Inr reads \<Rightarrow>
          if hashType \<notin> set [''md5'', ''sha1'', ''sha256''] then ([], Some (Err ''unsupported hash type''))
          else (case reads of Inl e \<Rightarrow> ([], Some e) | Inr content \<Rightarrow> (digest env hashType content, None)))"

definition IsFileBeingProcessed :: "('y, 'e) hash_env_scheme \<Rightarrow> string \<Rightarrow> ('y, 's) hash_state_scheme \<Rightarrow> bool" where
  "IsFileBeingProcessed env path s \<longleftrightarrow> fst (CalculateHash env path ''md5'') \<in> set (fileQueue s)"

definition AddFileToQueue ::
  "('y, 'e) hash_env_scheme \<Rightarrow> string \<Rightarrow> ('y, 's) hash_state_scheme \<Rightarrow> ('y, 's) hash_state_scheme" where
  "AddFileToQueue env path s = s\<lparr>fileQueue := fileQueue s @ [fst (CalculateHash env path ''md5'')]\<rparr>"

definition RemoveFileFromQueue ::
  "('y, 'e) hash_env_scheme \<Rightarrow> string \<Rightarrow> ('y, 's) hash_state_scheme \<Rightarrow> ('y, 's) hash_state_scheme" where
  "RemoveFileFromQueue env path s = s\<lparr>fileQueue := remove1 (fst (CalculateHash env path ''md5'')) (fileQueue s)\<rparr>"

subsection \<open>Verdicts\<close>

definition IsMalwareHash :: "string \<Rightarrow> ('y, 's) hash_state_scheme \<Rightarrow> bool" where
  "IsMalwareHash h s \<longleftrightarrow> blockedHashes s h = Some True"

definition IsCleanHash :: "string \<Rightarrow> ('y, 's) hash_state_scheme \<Rightarrow> bool" where
  "IsCleanHash h s \<longleftrightarrow> allowedHashes s h = Some True"

definition IsAllowedHash :: "('y, 'e) hash_env_scheme \<Rightarrow> string \<Rightarrow> ('y, 's) hash_state_scheme \<Rightarrow> bool" where
  "IsAllowedHash env path s = IsCleanHash (fst (CalculateHash env path ''md5'')) s"

definition IsBlockedHash :: "('y, 'e) hash_env_scheme \<Rightarrow> string \<Rightarrow> ('y, 's) hash_state_scheme \<Rightarrow> bool" where
  "IsBlockedHash env path s =
     IsMalwareHash (if path = [] then [] else fst (CalculateHash env path ''md5'')) s"

text \<open>The callers ignore the error.\<close>

definition WriteHashesFile ::
  "('y, 'e) hash_env_scheme \<Rightarrow> hash_file \<Rightarrow> go_error + 'y \<Rightarrow> (hash_file \<rightharpoonup> 'y)
   \<Rightarrow> go_error option \<times> (hash_file \<rightharpoonup> 'y)" where
  "WriteHashesFile env f encoded docs =
     (case encoded of
        Inl e \<Rightarrow> (Some e, docs)
      | Inr y \<Rightarrow>
          (case (docs f, doc_create env f) of
             (None, Some e) \<Rightarrow> (Some e, docs)
           | _ \<Rightarrow> (case doc_write env f of
                     Some e \<Rightarrow> (Some e, docs(f := torn_doc env f))
                   | None \<Rightarrow> (None, docs(f \<mapsto> y)))))"

definition SaveVerdict ::
  "('y, 'e) hash_env_scheme \<Rightarrow> string \<Rightarrow> string \<Rightarrow> ('y, 's) hash_state_scheme
   \<Rightarrow> go_error option \<times> ('y, 's) hash_state_scheme" where
  "SaveVerdict env h verdict s =
     (if h = [] then (None, s)
      else if verdict \<noteq> BLOCK \<and> verdict \<noteq> ALLOW then (Some (Err ''invalid verdict''), s)
      else
        let finalVerdict = (verdict = ALLOW);
            s1 = s\<lparr>blockedHashes := (blockedHashes s)(h \<mapsto> \<not> finalVerdict),
                   allowedHashes := (allowedHashes s)(h \<mapsto> finalVerdict)\<rparr>;
            docs1 = snd (WriteHashesFile env BlockedFile (enc_hashes env (blockedHashes s1)) (hash_docs s1));
            docs2 = snd (WriteHashesFile env AllowedFile (enc_hashes env (allowedHashes s1)) docs1)
        in (None, s1\<lparr>hash_docs := docs2\<rparr>))"

subsection \<open>Urls\<close>

definition ANALYSING_url :: int where "ANALYSING_url = 0"

definition GetUrlCaches :: "int \<Rightarrow> string \<Rightarrow> ('y, 's) hash_state_scheme \<Rightarrow> url_cache_row option" where
  "GetUrlCaches time_now url s =
     (case urlCaches s url of
        None \<Rightarrow> None
      | Some row \<Rightarrow>
          if \<not> uc_time row + 24 * 3600 * go_second < time_now \<and> uc_verdict row = ANALYSING_url then None else Some row)"

definition ReplaceUrlCache ::
  "('y, 'e) hash_env_scheme \<Rightarrow> int \<Rightarrow> string \<Rightarrow> int \<Rightarrow> ('y, 's) hash_state_scheme \<Rightarrow> ('y, 's) hash_state_scheme" where
  "ReplaceUrlCache env time_now url status s =
     (let s1 = s\<lparr>urlCaches := (urlCaches s)(url \<mapsto> \<lparr>uc_verdict = status, uc_time = time_now\<rparr>)\<rparr>
      in s1\<lparr>hash_docs := snd (WriteHashesFile env UrlCacheFile (enc_urls env (urlCaches s1)) (hash_docs s1))\<rparr>)"

subsection \<open>Loading\<close>

text \<open>A missing file is created; a file that cannot be read counts as an empty document.\<close>

definition created_docs ::
  "('y, 'e) hash_env_scheme \<Rightarrow> hash_file \<Rightarrow> (hash_file \<rightharpoonup> 'y) \<Rightarrow> (hash_file \<rightharpoonup> 'y)" where
  "created_docs env f docs =
     (if docs f = None \<and> doc_create env f = None then docs(f \<mapsto> no_doc env) else docs)"

definition read_doc :: "('y, 'e) hash_env_scheme \<Rightarrow> hash_file \<Rightarrow> (hash_file \<rightharpoonup> 'y) \<Rightarrow> 'y" where
  "read_doc env f docs =
     (case docs f of
        None \<Rightarrow> no_doc env
      | Some y \<Rightarrow> if doc_read env f = None then y else no_doc env)"

definition or_no_rows :: "go_error + ('a \<rightharpoonup> 'b) \<Rightarrow> ('a \<rightharpoonup> 'b)" where
  "or_no_rows r = (case r of Inl e \<Rightarrow> Map.empty | Inr m \<Rightarrow> m)"

definition InitHashes ::
  "('y, 'e) hash_env_scheme \<Rightarrow> ('y, 's) hash_state_scheme \<Rightarrow> ('y, 's) hash_state_scheme" where
  "InitHashes env s =
     (let docs = created_docs env AllowedFile (created_docs env BlockedFile (hash_docs s))
      in s\<lparr>hash_docs := docs,
           blockedHashes := or_no_rows (dec_hashes env (read_doc env BlockedFile docs)),
           allowedHashes := or_no_rows (dec_hashes env (read_doc env AllowedFile docs))\<rparr>)"

definition InitUrlCache ::
  "('y, 'e) hash_env_scheme \<Rightarrow> ('y, 's) hash_state_scheme \<Rightarrow> ('y, 's) hash_state_scheme" where
  "InitUrlCache env s =
     (let docs = created_docs env UrlCacheFile (hash_docs s)
      in s\<lparr>hash_docs := docs, urlCaches := or_no_rows (dec_urls env (read_doc env UrlCacheFile docs))\<rparr>)"

subsection \<open>The verdicts as one map\<close>

text \<open>What the two tables are for: the last verdict of each hash, over any run of verdicts and restarts.\<close>

datatype hash_op = Save string string | Restart

fun run_hashes :: "('y, 'e) hash_env_scheme \<Rightarrow> hash_op list \<Rightarrow> ('y, 's) hash_state_scheme \<Rightarrow> ('y, 's) hash_state_scheme" where
  "run_hashes env [] s = s"
| "run_hashes env (Save h v # os) s = run_hashes env os (snd (SaveVerdict env h v s))"
| "run_hashes env (Restart # os) s = run_hashes env os (InitHashes env s)"

fun last_verdicts :: "hash_op list \<Rightarrow> (string \<rightharpoonup> string) \<Rightarrow> (string \<rightharpoonup> string)" where
  "last_verdicts [] m = m"
| "last_verdicts (Save h v # os) m =
     last_verdicts os (if h = [] \<or> v \<notin> {ALLOW, BLOCK} then m else m(h \<mapsto> v))"
| "last_verdicts (Restart # os) m = last_verdicts os m"

text \<open>No file operation fails, and the YAML library reads back what it wrote of a finite map.\<close>

definition hash_files_work :: "('y, 'e) hash_env_scheme \<Rightarrow> bool" where
  "hash_files_work env \<longleftrightarrow> (\<forall>f. doc_create env f = None \<and> doc_read env f = None \<and> doc_write env f = None)
     \<and> dec_hashes env (no_doc env) = Inr Map.empty
     \<and> (\<forall>m. finite (dom m) \<longrightarrow> (\<exists>y. enc_hashes env m = Inr y \<and> dec_hashes env y = Inr m))"

definition verdict_is :: "string \<Rightarrow> (string \<rightharpoonup> string) \<Rightarrow> (string \<rightharpoonup> bool)" where
  "verdict_is v m = (\<lambda>h. map_option (\<lambda>w. w = v) (m h))"

text \<open>A table in memory and its file: a missing file stands for the empty table.\<close>

definition stored_as :: "('y, 'e) hash_env_scheme \<Rightarrow> (hash_file \<rightharpoonup> 'y) \<Rightarrow> hash_file \<Rightarrow> (string \<rightharpoonup> bool) \<Rightarrow> bool" where
  "stored_as env docs f m \<longleftrightarrow> dec_hashes env (case docs f of None \<Rightarrow> no_doc env | Some y \<Rightarrow> y) = Inr m"

definition keeps_verdicts :: "('y, 'e) hash_env_scheme \<Rightarrow> (string \<rightharpoonup> string) \<Rightarrow> ('y, 's) hash_state_scheme \<Rightarrow> bool" where
  "keeps_verdicts env m s \<longleftrightarrow> finite (dom m) \<and> ran m \<subseteq> {ALLOW, BLOCK}
     \<and> blockedHashes s = verdict_is BLOCK m \<and> allowedHashes s = verdict_is ALLOW m
     \<and> stored_as env (hash_docs s) BlockedFile (verdict_is BLOCK m)
     \<and> stored_as env (hash_docs s) AllowedFile (verdict_is ALLOW m)"

lemma verdict_is_upd: "verdict_is v (m(h \<mapsto> w)) = (verdict_is v m)(h \<mapsto> (w = v))"
  by (auto simp: verdict_is_def)

lemma write_works: "hash_files_work env \<Longrightarrow> snd (WriteHashesFile env f (Inr y) docs) = docs(f \<mapsto> y)"
  by (cases "docs f") (simp_all add: WriteHashesFile_def hash_files_work_def)

lemma verdict_is_dom [simp]: "dom (verdict_is v m) = dom m"
  by (auto simp: verdict_is_def)

lemma enc_works: "hash_files_work env \<Longrightarrow> finite (dom m) \<Longrightarrow> \<exists>y. enc_hashes env m = Inr y \<and> dec_hashes env y = Inr m"
  by (simp add: hash_files_work_def)

lemma save_keeps:
  assumes "hash_files_work env" "keeps_verdicts env m s"
  shows "keeps_verdicts env (if h = [] \<or> v \<notin> {ALLOW, BLOCK} then m else m(h \<mapsto> v)) (snd (SaveVerdict env h v s))"
proof (cases "h = [] \<or> v \<notin> {ALLOW, BLOCK}")
  case False
  then have block: "(v \<noteq> ALLOW) = (v = BLOCK)" by (auto simp: ALLOW_def BLOCK_def)
  let ?b = "verdict_is BLOCK (m(h \<mapsto> v))" and ?a = "verdict_is ALLOW (m(h \<mapsto> v))"
  obtain y1 y2 where y: "enc_hashes env ?b = Inr y1" "dec_hashes env y1 = Inr ?b"
    "enc_hashes env ?a = Inr y2" "dec_hashes env y2 = Inr ?a"
    using enc_works [OF assms(1), of ?b] enc_works [OF assms(1), of ?a] assms(2)
    by (auto simp: keeps_verdicts_def)
  have "snd (SaveVerdict env h v s) = s\<lparr>blockedHashes := ?b, allowedHashes := ?a,
      hash_docs := (hash_docs s)(BlockedFile \<mapsto> y1, AllowedFile \<mapsto> y2)\<rparr>"
    using False assms(2) block y(1,3)
    by (simp add: SaveVerdict_def Let_def write_works [OF assms(1)] verdict_is_upd keeps_verdicts_def)
  then show ?thesis
    using False assms(2) y(2,4) by (auto simp: keeps_verdicts_def stored_as_def ran_def)
qed (use assms in \<open>auto simp: SaveVerdict_def\<close>)

lemma restart_keeps:
  assumes "hash_files_work env" "keeps_verdicts env m s"
  shows "keeps_verdicts env m (InitHashes env s)"
  using assms
  by (auto simp: keeps_verdicts_def InitHashes_def Let_def stored_as_def created_docs_def read_doc_def or_no_rows_def
      hash_files_work_def split: option.splits)

lemma run_keeps:
  assumes "hash_files_work env"
  shows "keeps_verdicts env m t \<Longrightarrow> keeps_verdicts env (last_verdicts ops m) (run_hashes env ops t)"
proof (induction ops m arbitrary: t rule: last_verdicts.induct)
  case (2 h v ops m)
  have "keeps_verdicts env (if h = [] \<or> v \<notin> {ALLOW, BLOCK} then m else m(h \<mapsto> v)) (snd (SaveVerdict env h v t))"
    using assms "2.prems" by (rule save_keeps)
  from "2.IH" [OF this] show ?case by (simp only: last_verdicts.simps run_hashes.simps)
next
  case (3 ops m)
  from "3.IH" [OF restart_keeps [OF assms "3.prems"]] show ?case by simp
qed simp

text \<open>C39: over any run of verdicts and restarts from empty tables without files, while no file operation fails,
  the two tables and their files are one map from hashes to the last verdict: a hash is known as malware
  exactly when its last verdict was block, as clean exactly when it was allow, never as both, and a restart
  forgets none.
\<close>

theorem hash_tables_refine_map:
  assumes "hash_files_work env" "blockedHashes s = Map.empty" "allowedHashes s = Map.empty"
    and "hash_docs s BlockedFile = None" "hash_docs s AllowedFile = None"
  shows "(IsMalwareHash h (run_hashes env ops s) \<longleftrightarrow> last_verdicts ops Map.empty h = Some BLOCK)
    \<and> (IsCleanHash h (run_hashes env ops s) \<longleftrightarrow> last_verdicts ops Map.empty h = Some ALLOW)
    \<and> IsMalwareHash h (InitHashes env (run_hashes env ops s)) = IsMalwareHash h (run_hashes env ops s)
    \<and> IsCleanHash h (InitHashes env (run_hashes env ops s)) = IsCleanHash h (run_hashes env ops s)"
proof -
  have "keeps_verdicts env Map.empty s"
    using assms by (simp add: keeps_verdicts_def verdict_is_def stored_as_def hash_files_work_def)
  note kept = run_keeps [OF assms(1) this, of ops]
  from kept restart_keeps [OF assms(1) kept] show ?thesis
    by (auto simp: keeps_verdicts_def IsMalwareHash_def IsCleanHash_def verdict_is_def)
qed

text \<open>The queue of files: what was added and removed again leaves no trace while its hash was not queued.\<close>

lemma queue_add_remove:
  "\<not> IsFileBeingProcessed env path s \<Longrightarrow> RemoveFileFromQueue env path (AddFileToQueue env path s) = s"
  by (simp add: IsFileBeingProcessed_def RemoveFileFromQueue_def AddFileToQueue_def remove1_append)

text \<open>A file that cannot be opened has the empty hash, so all of them are one file to the queue.\<close>

theorem unreadable_files_share_a_hash:
  assumes "opened_file env p = Inl e" "opened_file env q = Inl e'"
  shows "IsFileBeingProcessed env q (AddFileToQueue env p s)"
  using assms by (simp add: IsFileBeingProcessed_def AddFileToQueue_def CalculateHash_def)

text \<open>Documents that list the entries of a table in the order of their keys, as YAML does.\<close>

datatype table_doc = EmptyDoc | TableDoc "(string \<times> bool) list" | UrlDoc "(string \<times> url_cache_row) list"

definition entries_of :: "(string \<rightharpoonup> 'a) \<Rightarrow> (string \<times> 'a) list" where
  "entries_of m = map (\<lambda>k. (k, the (m k))) (sorted_list_of_set (dom m))"

lemma map_of_entries: "finite (dom m) \<Longrightarrow> map_of (entries_of m) = m"
  by (auto simp: entries_of_def map_of_map_restrict restrict_map_def fun_eq_iff domIff)

definition sample_hash_env :: "table_doc hash_env" where
  "sample_hash_env = \<lparr>doc_create = \<lambda>_. None, doc_read = \<lambda>_. None, doc_write = \<lambda>_. None, torn_doc = \<lambda>_. None,
     no_doc = EmptyDoc, enc_hashes = \<lambda>m. Inr (TableDoc (entries_of m)),
     dec_hashes = \<lambda>y. (case y of TableDoc es \<Rightarrow> Inr (map_of es) | _ \<Rightarrow> Inr Map.empty),
     enc_urls = \<lambda>m. Inr (UrlDoc (entries_of m)),
     dec_urls = \<lambda>y. (case y of UrlDoc es \<Rightarrow> Inr (map_of es) | _ \<Rightarrow> Inr Map.empty),
     opened_file = \<lambda>_. Inr (Inr ''content''), digest = \<lambda>t c. t @ c\<rparr>"

definition no_hashes :: "table_doc hash_state" where
  "no_hashes = \<lparr>blockedHashes = Map.empty, allowedHashes = Map.empty, urlCaches = Map.empty, fileQueue = [],
     hash_docs = Map.empty\<rparr>"

theorem hash_tables_refine_map_witness:
  "IsCleanHash ''h'' (run_hashes sample_hash_env [Save ''h'' BLOCK, Restart, Save ''h'' ALLOW, Restart] no_hashes)
   \<and> \<not> IsMalwareHash ''h'' (run_hashes sample_hash_env [Save ''h'' BLOCK, Restart, Save ''h'' ALLOW, Restart] no_hashes)"
proof -
  have "hash_files_work sample_hash_env" by (simp add: hash_files_work_def sample_hash_env_def map_of_entries)
  moreover have "blockedHashes no_hashes = Map.empty" "allowedHashes no_hashes = Map.empty"
    "hash_docs no_hashes BlockedFile = None" "hash_docs no_hashes AllowedFile = None"
    by (simp_all add: no_hashes_def)
  moreover have "last_verdicts [Save ''h'' BLOCK, Restart, Save ''h'' ALLOW, Restart] Map.empty ''h'' = Some ALLOW"
    "ALLOW \<noteq> BLOCK" by (simp_all add: ALLOW_def BLOCK_def)
  ultimately show ?thesis
    using hash_tables_refine_map [where h = "''h''" and ops = "[Save ''h'' BLOCK, Restart, Save ''h'' ALLOW, Restart]"]
    by (metis option.inject)
qed

end
