(* ===== verification/System_Info.thy ===== *)
theory System_Info
  imports Dashboard Net_Addr Auth_Api
begin

text \<open>
  The measurements of \<open>util/utils.go\<close> for the dashboard: processor, memory and disk, read from the output of
  \<open>top\<close> and \<open>free\<close> and from \<open>statfs\<close>, with the packages that are installed when a command is missing;
  further the address and comparison helpers of the same file. The programs and the parser of floating
  point numbers are parameters; floating point numbers are rationals, without their rounding, and
  \<open>None\<close> is a quotient by zero.
\<close>

record measure_env =
  in_path :: "string \<Rightarrow> bool"
  install_error :: "string \<Rightarrow> go_error option"
  output_of :: "string list \<Rightarrow> go_error + string"
  parse_float :: "string \<Rightarrow> go_error + rat"
  statfs_root :: "go_error + 64 word \<times> 64 word \<times> 64 word"

subsection \<open>Missing commands\<close>

definition FreeCmd :: string where "FreeCmd = ''free''"
definition DmiDecodeCmd :: string where "DmiDecodeCmd = ''dmidecode''"

definition installFree :: "('e) measure_env_scheme \<Rightarrow> go_error option" where
  "installFree env =
     (case install_error env ''procps'' of
        None \<Rightarrow> None | Some e \<Rightarrow> Some (Err (''failed to install free: '' @ err_text e)))"

definition installDmiDecode :: "('e) measure_env_scheme \<Rightarrow> go_error option" where
  "installDmiDecode env =
     (case install_error env ''dmidecode'' of
        None \<Rightarrow> None | Some e \<Rightarrow> Some (Err (''failed to install dmidecode: '' @ err_text e)))"

definition InstallCommandIfMissing :: "('e) measure_env_scheme \<Rightarrow> string \<Rightarrow> go_error option" where
  "InstallCommandIfMissing env command =
     (if in_path env command then None
      else if command = DmiDecodeCmd then installDmiDecode env
      else if command = FreeCmd then installFree env
      else Some (Err (''unknown command: '' @ command)))"

subsection \<open>Processor, memory and disk\<close>

text \<open>A field of a line; the index may be out of range.\<close>

definition field_at :: "string list \<Rightarrow> nat \<Rightarrow> go_error + string" where
  "field_at fs n = (if n < length fs then Inr (fs ! n) else Inl (Panic ''index out of range''))"

definition float_field :: "('e) measure_env_scheme \<Rightarrow> string list \<Rightarrow> nat \<Rightarrow> go_error + rat" where
  "float_field env fs n = (case field_at fs n of Inl p \<Rightarrow> Inl p | Inr s \<Rightarrow> parse_float env s)"

definition first_line :: "string \<Rightarrow> string \<Rightarrow> string option" where
  "first_line start out = find (\<lambda>l. has_prefix l start) (split_on line_end out)"

definition GetCpuInfo :: "('e) measure_env_scheme \<Rightarrow> go_error + rat" where
  "GetCpuInfo env =
     (case InstallCommandIfMissing env FreeCmd of
        Some e \<Rightarrow> Inl e
      | None \<Rightarrow>
          (case output_of env [''top'', ''-bn'', ''1''] of
             Inl e \<Rightarrow> Inl e
           | Inr out \<Rightarrow>
               (case first_line ''%Cpu(s):'' out of
                  None \<Rightarrow> Inr 0
                | Some l \<Rightarrow>
                    (case float_field env (str_fields l) 7 of
                       Inl e \<Rightarrow> Inl e
                     | Inr idleTime \<Rightarrow> Inr (100 - idleTime)))))"

text \<open>\<open>math.Round(x * 100) / 100\<close>: halves go away from zero.\<close>

definition round_cents :: "rat \<Rightarrow> rat" where
  "round_cents x =
     (if 0 \<le> x then of_int (floor (x * 100 + 1 / 2)) / 100 else - of_int (floor (- x * 100 + 1 / 2)) / 100)"

definition GetRamInfo :: "('e) measure_env_scheme \<Rightarrow> go_error + rat option" where
  "GetRamInfo env =
     (case InstallCommandIfMissing env FreeCmd of
        Some e \<Rightarrow> Inl e
      | None \<Rightarrow>
          (case output_of env [''free'', ''-m''] of
             Inl e \<Rightarrow> Inl e
           | Inr out \<Rightarrow>
               (case first_line ''Mem:'' out of
                  None \<Rightarrow> Inr (Some 0)
                | Some l \<Rightarrow>
                    (case float_field env (str_fields l) 1 of
                       Inl e \<Rightarrow> Inl e
                     | Inr totalRam \<Rightarrow>
                         (case float_field env (str_fields l) 6 of
                            Inl e \<Rightarrow> Inl e
                          | Inr availableRam \<Rightarrow>
                              Inr (if totalRam = 0 then None
                                   else Some (round_cents ((totalRam - availableRam) / totalRam * 100))))))))"

text \<open>\<open>statfs_root\<close> are the blocks, the block size and the available blocks: 64-bit words that wrap.\<close>

definition GetSpaceInfo :: "('e) measure_env_scheme \<Rightarrow> go_error + rat option" where
  "GetSpaceInfo env =
     (case InstallCommandIfMissing env DmiDecodeCmd of
        Some e \<Rightarrow> Inl e
      | None \<Rightarrow>
          (case statfs_root env of
             Inl e \<Rightarrow> Inl e
           | Inr (blocks, bsize, bavail) \<Rightarrow>
               (let total = blocks * bsize; available = bavail * bsize
                in Inr (if total = 0 then None
                        else Some (round_cents (of_nat (unat (total - available)) / of_nat (unat total) * 100))))))"

subsection \<open>Addresses and names\<close>

text \<open>\<open>GetLocalIP\<close> on the addresses of the interfaces: the first that is no loopback address and is IPv4.\<close>

definition is_loopback :: "net_ip \<Rightarrow> bool" where
  "is_loopback ip =
     (if To4 ip \<noteq> [] then hd (To4 ip) = 127 else ip = replicate 15 0 @ [1])"

definition GetLocalIP :: "go_error + net_ip list \<Rightarrow> string" where
  "GetLocalIP addrs =
     (case addrs of
        Inl e \<Rightarrow> []
      | Inr ips \<Rightarrow>
          (case find (\<lambda>ip. \<not> is_loopback ip \<and> To4 ip \<noteq> []) ips of None \<Rightarrow> [] | Some ip \<Rightarrow> ip_string ip))"

text \<open>\<open>^[A-Za-z0-9_][-A-Za-z0-9_]{2,35}$\<close>\<close>

definition word_char :: "char \<Rightarrow> bool" where
  "word_char c \<longleftrightarrow> is_letter c \<or> is_digit c \<or> c = CHR ''_''"

definition IsValidName :: "string \<Rightarrow> bool" where
  "IsValidName name =
     (case name of
        [] \<Rightarrow> False
      | c # cs \<Rightarrow> word_char c \<and> 2 \<le> length cs \<and> length cs \<le> 35
          \<and> list_all (\<lambda>c. word_char c \<or> c = CHR ''-'') cs)"

text \<open>
  \<open>CompareIPs\<close>: the parts as numbers without a check of their characters; Go's \<open>int\<close> wraps at 64 bits. The
  comparison looks at four parts and panics when there are fewer, unless it has ended before.
\<close>

definition ip_part :: "string \<Rightarrow> 64 word" where
  "ip_part p = fold (\<lambda>c n. n * 10 + word_of_int (int (of_char c) - 48)) p 0"

fun compare_parts :: "nat \<Rightarrow> string list \<Rightarrow> string list \<Rightarrow> go_error + int" where
  "compare_parts 0 ps qs = Inr 0"
| "compare_parts (Suc n) (p # ps) (q # qs) =
     (if ip_part p <s ip_part q then Inr (-1)
      else if ip_part q <s ip_part p then Inr 1
      else compare_parts n ps qs)"
| "compare_parts (Suc n) _ _ = Inl (Panic ''index out of range'')"

definition CompareIPs :: "string \<Rightarrow> string \<Rightarrow> go_error + int" where
  "CompareIPs ip1 ip2 = compare_parts 4 (split_on (CHR ''.'') ip1) (split_on (CHR ''.'') ip2)"

subsection \<open>An idle processor\<close>

text \<open>
  What \<open>top\<close> prints for a processor that is idle: the number of a field with three digits before the point
  fills its column, so there is no blank before it.
\<close>

definition idle_line :: string where
  "idle_line = ''%Cpu(s):  0.0 us,  0.0 sy,  0.0 ni,100.0 id,  0.0 wa,  0.0 hi,  0.0 si,  0.0 st''"

text \<open>
  While the processor is idle the dashboard gets no hardware data at all: the word taken for the idle time
  is its label, which is no number.
\<close>

theorem idle_processor_has_no_data:
  assumes "InstallCommandIfMissing menv FreeCmd = None" "output_of menv [''top'', ''-bn'', ''1''] = Inr out"
    and "first_line ''%Cpu(s):'' out = Some idle_line" "parse_float menv ''id,'' = Inl e"
    and "cpu_info env = GetCpuInfo menv"
  shows "GetCpuInfo menv = Inl e \<and> resp_status (GetHdwrData env) = StatusBadRequest \<and> resp_data (GetHdwrData env) = None"
proof -
  have "field_at (str_fields idle_line) 7 = Inr ''id,''" by code_simp
  then have cpu: "GetCpuInfo menv = Inl e"
    using assms(1-4) by (simp add: GetCpuInfo_def float_field_def)
  then show ?thesis
    using assms(5) by (simp add: GetHdwrData_def fetch_error_def split: sum.split)
qed

text \<open>On a line with blanks between all fields the load is what is not idle.\<close>

definition busy_line :: string where
  "busy_line = ''%Cpu(s):  1.5 us,  0.5 sy,  0.0 ni, 98.0 id,  0.0 wa,  0.0 hi,  0.0 si,  0.0 st''"

lemma busy_processor:
  assumes "InstallCommandIfMissing menv FreeCmd = None" "output_of menv [''top'', ''-bn'', ''1''] = Inr out"
    and "first_line ''%Cpu(s):'' out = Some busy_line" "parse_float menv ''98.0'' = Inr 98"
  shows "GetCpuInfo menv = Inr 2"
proof -
  have "field_at (str_fields busy_line) 7 = Inr ''98.0''" by code_simp
  then show ?thesis using assms by (simp add: GetCpuInfo_def float_field_def)
qed

lemma round_cents_range: "0 \<le> x \<Longrightarrow> x \<le> 100 \<Longrightarrow> 0 \<le> round_cents x \<and> round_cents x \<le> 100"
proof -
  assume x: "0 \<le> x" "x \<le> 100"
  then have "0 \<le> floor (x * 100 + 1 / 2)" by simp
  moreover have "floor (x * 100 + 1 / 2) < 10001" using x by (simp add: floor_less_iff)
  ultimately have "0 \<le> (of_int (floor (x * 100 + 1 / 2)) :: rat)" "(of_int (floor (x * 100 + 1 / 2)) :: rat) \<le> 10000"
    by simp_all
  with x show ?thesis by (simp add: round_cents_def)
qed

text \<open>
  The used share of a disk is between 0 and 100 when no more is available than there is and the sizes fit
  in 64 bits.
\<close>

theorem used_space_is_a_percentage:
  assumes "InstallCommandIfMissing menv DmiDecodeCmd = None" "statfs_root menv = Inr (blocks, bsize, bavail)"
    and "bavail \<le> blocks" "unat blocks * unat bsize < 2 ^ 64" "blocks * bsize \<noteq> 0"
  shows "\<exists>p. GetSpaceInfo menv = Inr (Some p) \<and> 0 \<le> p \<and> p \<le> 100"
proof -
  let ?t = "blocks * bsize" and ?a = "bavail * bsize"
  have t: "unat ?t = unat blocks * unat bsize" using assms(4) by (simp add: unat_mult_lem [symmetric])
  have le: "unat bavail * unat bsize \<le> unat blocks * unat bsize"
    using assms(3) by (simp add: word_le_nat_alt)
  have "unat bavail * unat bsize < 2 ^ LENGTH(64)" using order.strict_trans1 [OF le assms(4)] by simp
  then have a: "unat ?a = unat bavail * unat bsize" by (rule iffD1 [OF unat_mult_lem])
  have "unat (?t - ?a) = unat ?t - unat ?a" using t a le by (intro unat_sub) (simp add: word_le_nat_alt)
  then have "unat (?t - ?a) \<le> unat ?t" by simp
  moreover have "0 < unat ?t" using assms(5) by (simp add: unat_gt_0)
  moreover have "of_nat m / of_nat n * 100 \<le> (100 :: rat)" if "m \<le> n" "0 < n" for m n :: nat
    using that by (simp add: divide_le_eq)
  ultimately have "of_nat (unat (?t - ?a)) / of_nat (unat ?t) * 100 \<le> (100 :: rat)" by blast
  moreover have "0 \<le> of_nat (unat (?t - ?a)) / of_nat (unat ?t) * (100 :: rat)"
    by (intro mult_nonneg_nonneg divide_nonneg_nonneg of_nat_0_le_iff) simp
  ultimately have "0 \<le> round_cents (of_nat (unat (?t - ?a)) / of_nat (unat ?t) * 100)
      \<and> round_cents (of_nat (unat (?t - ?a)) / of_nat (unat ?t) * 100) \<le> 100"
    by (intro round_cents_range)
  then show ?thesis
    using assms(1,2,5) by (simp add: GetSpaceInfo_def Let_def)
qed

end
