(* ===== verification/Ha_Handlers.thy ===== *)
theory Ha_Handlers
  imports Router Ha_Props Sample_Host Account_Props
begin

text \<open>
  The handlers of \<open>controller/ha.go\<close> behind the router, and the functions of \<open>service/ha.go\<close> without a
  caller. All of these routes but that of \<open>GetHa\<close> are registered on the router itself.
\<close>

subsection \<open>Handlers\<close>











subsection \<open>Behind the router\<close>




subsection \<open>Functions without a caller\<close>

text \<open>\<open>ServiceActions\<close> and \<open>restartServices\<close> run one command per service; errors are logged.\<close>

datatype services_action = Start | Stop | Do_restart

definition action_string :: "services_action \<Rightarrow> string" where
  "action_string a = (case a of Start \<Rightarrow> ''start'' | Stop \<Rightarrow> ''stop'' | Do_restart \<Rightarrow> ''restart'')"

definition ServiceActions :: "string list \<Rightarrow> services_action \<Rightarrow> string list list" where
  "ServiceActions services a = map (\<lambda>s. [''/bin/systemctl'', action_string a, s]) services"

definition restartServices :: "string list \<Rightarrow> string list list" where
  "restartServices services = map (\<lambda>s. [''/bin/systemctl'', ''restart'', s]) services"

text \<open>The file that is replaced, its copy and the received file.\<close>

record 'y replaced =
  original_doc :: "'y option"
  backup_doc :: "'y option"
  received_doc :: "'y option"

definition createBackup :: "('k, 'y) site \<Rightarrow> 'y replaced \<Rightarrow> (go_error + unit) \<times> 'y replaced" where
  "createBackup st s =
     (case raw_read st ''Error reading config file while ha sync backup: '' (original_doc s) of
        Inl e \<Rightarrow> (Inl e, s)
      | Inr y \<Rightarrow>
          (case annotate ''Error creating backup file: '' (raw_write_error (st_ha st)) of
             Some e \<Rightarrow> (Inl e, s)
           | None \<Rightarrow> (Inr (), s\<lparr>backup_doc := Some y\<rparr>)))"

definition overwriteConfigFile :: "('k, 'y) site \<Rightarrow> 'y replaced \<Rightarrow> (go_error + unit) \<times> 'y replaced" where
  "overwriteConfigFile st s =
     (case bind_sum (raw_read st ''Error reading original config file: '' (original_doc s)) (\<lambda>y.
           bind_sum (raw_read st ''Error reading received config file: '' (received_doc s)) (\<lambda>z.
           bind_sum (with_msg ''Error unmarshalling original config file: '' (dec_v2 (st_ha st) y)) (\<lambda>c.
           bind_sum (with_msg ''Error unmarshalling received config file: '' (dec_v2 (st_ha st) z)) (\<lambda>d.
             Inr (d\<lparr>Ha_of := (Ha_of d)\<lparr>ha_role := ha_role (Ha_of c), ha_peer := ha_peer (Ha_of c)\<rparr>\<rparr>))))) of
        Inl e \<Rightarrow> (Inl e, s)
      | Inr new \<Rightarrow>
          (case with_prefix ''Error creating backup of the original config file: '' (createBackup st) s of
             (Inl e, s1) \<Rightarrow> (Inl e, s1)
           | (Inr _, s1) \<Rightarrow>
               (case with_msg ''Error marshalling modified config content: '' (enc_v2 (st_ha st) new) of
                  Inl e \<Rightarrow> (Inl e, s1)
                | Inr y \<Rightarrow>
                    (case annotate ''Error overwriting the original config file: '' (raw_write_error (st_ha st)) of
                       Some e \<Rightarrow> (Inl e, s1)
                     | None \<Rightarrow> (Inr (), s1\<lparr>original_doc := Some y\<rparr>)))))"

text \<open>Asking the peer to switch high availability off; an answer that is no success is an error with its body.\<close>

definition DisableHaInAnotherAppliance ::
  "('k, 'y) site \<Rightarrow> ('k, 'y) site \<Rightarrow> string \<Rightarrow> (('k, 'y) cluster, unit) act" where
  "DisableHaInAnotherAppliance st peer peerIp =
     andthen (reachable_peer st peerIp)
       (on_peer st ''/ha/disable'' ''Error'' ''Error while disabling HA: ''
          (bind_act (DisableHa peer) (\<lambda>r.
             if resp_status r \<noteq> StatusOK then fail (Err (resp_message r)) else ret ())))"

subsection \<open>The configuration of another appliance\<close>









end
