(* ===== verification/Spec2Isabelle.thy ===== *)
theory Spec2Isabelle
  imports Pipeline_Props Verdict_Props Override_Props Admin_Props Route_Props Link_Props Ha_Props
    Dashboard_Props Licensing_Props Device_Keys Sandbox_Props Firmware Build_Upload Router_Props
    Restore_Props Init_System Hash_Cache System_Info Ha_Handlers
begin

text \<open>
  \<^bold>\<open>APT-Defender\<close> is the back end of an anti-APT appliance, written in Go. Files and urls are submitted by
  administrators and by firewalls, scanned by ClamAV, Qu1cksc0pe and a Cuckoo sandbox, and their
  verdicts are answered to the firewalls. Around that core the program keeps the accounts of the
  administrators, the network configuration of the appliance and a high-availability pair.
  This development models the program in Isabelle/HOL and proves what makes its parts correct, or
  shows by theorems where they are not. Paths below are relative to \<open>src/\<close>.

  \<^bold>\<open>Conventions.\<close> Definitions have the names of the Go functions; a suffix tells apart functions of
  different packages with one name (\<open>UpdateConfig_net\<close>). An operation is a function from an environment,
  its arguments and the state to its answer and the new state. \<open>go_error\<close> (\<open>Go_Prelude\<close>) is an error
  value or a panic; every early return and every panic of the source is a branch. Strings are lists of
  bytes; Go's \<open>int\<close> is \<open>int\<close>, wrapped to 64 bits where a value can leave the range (durations, the
  fields of VLANs and routes, uptime); IPv4 and IPv6 addresses, masks and AES blocks are bytes or words
  with their bit operations. \<open>Go_Text\<close>, \<open>Net_Addr\<close> and \<open>Slice_Sort\<close> define what the source uses of the
  standard library: splitting and trimming, \<open>bufio.Scanner\<close>, base 64, query unescaping, \<open>net.ParseIP\<close>,
  \<open>net.IP.String\<close>, \<open>sort.Slice\<close>.

  \<^bold>\<open>The task pipeline.\<close> \<open>Task_Model\<close> and \<open>Task_Db\<close> are the tables of \<open>model/task_model.go\<close> and the SQL
  of \<open>dao/task_crud.go\<close> and \<open>dao/filehash.go\<close>: the state \<open>db\<close>, its statements and its queries, which fail
  when the environment says so. \<open>Work_Queue\<close> holds the channels of \<open>service/queue/queue.go\<close> (capacity 5000),
  \<open>Queue_Db\<close> is \<open>service/queue/db.go\<close>, \<open>Scanners\<close> is \<open>clamd.go\<close> and \<open>quick_scope.go\<close>, \<open>Sandbox_Api\<close>
  is \<open>sandbox.go\<close> with the shared state \<open>sys\<close>, and \<open>Queue_Handlers\<close> the four handlers: one function per
  decision, composed to one pass over a batch. \<open>Pipeline\<close> lets them interleave: \<open>handler_step\<close> and
  \<open>sys_step\<close> take one message, one poll, one goroutine or one upload at a time, and \<open>reachable\<close> states
  are those of any interleaving from any start. \<open>Submission\<close> is \<open>service/fileOnDemand.go\<close> and
  \<open>urlOnDemand.go\<close>, \<open>Override\<close> is \<open>service/overrideVerdict.go\<close>, the firewall's query and the audit table.
  \<open>Db_Invariant\<close> and \<open>Handler_Contract\<close> prove what statements and handlers keep, \<open>Pipeline_Inv\<close>
  lifts it to reachable states, \<open>Pipeline_Props\<close>, \<open>Verdict_Props\<close>, \<open>Submission_Props\<close> and
  \<open>Override_Props\<close> hold the properties: no upload is forgotten by the tables, a verdict reaches every
  duplicate, an override every copy; \<open>Lost_Task\<close> is a trace of the race that loses a task, with
  the proof that no handler ever finds it again. The handlers are written over a record of sandbox
  calls; \<open>Sandbox_Client\<close> is \<open>service/cuckoo\<close>, whose calls over a transport are such a record
  (\<open>client_sandbox\<close>), and \<open>Sandbox_Props\<close> shows what the pipeline does without a token.

  \<^bold>\<open>What the pipeline shows to people.\<close> \<open>Job_Lists\<close> is \<open>service/getProfiles.go\<close>, \<open>Dashboard\<close> is
  \<open>service/dashboard.go\<close> (its loop that walks back hour by hour is a \<open>partial_function\<close>; that it ends
  is a theorem), \<open>Report\<close> is \<open>service/report.go\<close> with the calls to the PDF library as a list.
  \<open>Dashboard_Laws\<close> and \<open>Dashboard_Props\<close> relate them to the reachable states of the pipeline.

  \<^bold>\<open>Accounts and configuration.\<close> \<open>Config_Store\<close> is \<open>config/config.go\<close> and the \<open>dao\<close> files on it: two YAML
  documents, read, changed and written under a lock. \<open>Store_Laws\<close> proves what the operations do when
  files work (\<open>works\<close>). \<open>Auth_Api\<close> is \<open>auth/\<close> and \<open>validation/\<close>; \<open>Accounts\<close>, \<open>Login\<close> and
  \<open>Session_Audit\<close> the log-in with its attempt limiter, password changes, children accounts, roles,
  menus, scan profiles and devices; \<open>Account_Props\<close> proves that the limiter refines an abstract
  attempt counter, \<open>Admin_Props\<close> the rest. \<open>Key_Crypto\<close> is the encryption of \<open>util/utils.go\<close>,
  \<open>Licensing\<close> and \<open>Device_Keys\<close> the license keys and the sign-up with \<open>Licensing_Props\<close>, \<open>Backup\<close>
  the copies and the factory reset of \<open>service/backup.go\<close>. \<open>Restore\<close> is the download and the restore of a
  configuration over disk, store and network together; \<open>Restore_Props\<close> shows that they cancel out, and what a
  restore that stops halfway leaves. \<open>Firmware\<close> is \<open>service/firmware.go\<close> and
  \<open>firmwareUpdate.go\<close>, \<open>Build_Upload\<close> is \<open>service/uploadBuild.go\<close>: files and shell commands are their state.

  \<^bold>\<open>Network.\<close> \<open>Interface_Model\<close> has the structs, \<open>Interface_Utils\<close>, \<open>Interface_Validations\<close> and
  \<open>Routing_Validations\<close> the checks, \<open>Interface_Config\<close> the YAML file, \<open>Host_Actions\<close> the host: a kernel
  behind the interface \<open>netlink\<close>, the configuration file, and a small state monad of actions.
  \<open>Static_Routes\<close>, \<open>Bridges\<close>, \<open>Vlans_Bonds\<close> and \<open>Physical_Ports\<close> are the services. \<open>Net_Roundtrip\<close>
  proves that printed addresses are parsed back, \<open>Interface_Props\<close> and \<open>Link_Props\<close> what happens to
  links and addresses, \<open>Route_Runs\<close> and \<open>Route_Props\<close> that stored routes behave as tables over any run
  of requests. \<open>High_Availability\<close> and \<open>Ha_Sync\<close> are \<open>service/ha.go\<close>, \<open>Ha_Props\<close> its properties.
  \<open>Troubleshoot\<close> is \<open>service/troubleshoot.go\<close>, whose checks of arguments \<open>Troubleshoot_Props\<close> relates to the
  program that is run.

  \<^bold>\<open>The surface of the program.\<close> \<open>Interface_Handlers\<close> is \<open>controller/interface_handler\<close>, \<open>Controllers\<close> the
  other handlers of \<open>controller/\<close>, \<open>Ha_Handlers\<close> \<open>controller/ha.go\<close>. \<open>Router\<close> is \<open>main.go\<close>: the table
  \<open>routes\<close>, and \<open>serve\<close>, which finds the route of a request, lets the CORS and token middleware answer
  and otherwise runs the handler. \<open>serve\<close> takes the handlers as an argument; \<open>run_network\<close>, \<open>run_pipeline\<close> and
  \<open>run_ha\<close> are those of three groups of routes over their state. \<open>Router_Props\<close> shows, for any handlers, who
  reaches one, and for these what a role or the lack of a session changes.

  \<^bold>\<open>Start.\<close> \<open>Start_Up\<close> is \<open>initFiles\<close> of \<open>main.go\<close> and \<open>logger/\<close> over a tree of files, \<open>Init_System\<close> is
  \<open>InitSystem/initSystem.go\<close>, the program systemd runs at boot, with the flag it leaves for the queues;
  \<open>Hash_Cache\<close> is \<open>hash/hash.go\<close>, whose tables and files refine one map from hashes to verdicts, and
  \<open>System_Info\<close> the measurements of \<open>util/utils.go\<close>. \<open>Sample\<close> and \<open>Sample_Host\<close> hold the concrete environments and states of the witnesses.

  \<^bold>\<open>Interfaces.\<close> Where a component relies on another, or operations share a contract, the laws are a
  locale, interpreted on the model's definitions: \<open>bounded_queue\<close> (the channels), \<open>tx_invariant\<close> (what a
  transaction keeps when each of its statements does; used for the keys, the live rows, the verdicts and
  the lost task), \<open>handler_contract\<close> (what a handler keeps when the messages it takes are well-formed),
  \<open>keyed_rows\<close> (the rows of the configuration file) and \<open>comparison\<close> (the order given to \<open>sort.Slice\<close>).

  \<^bold>\<open>Parameters.\<close> Not under \<open>src/\<close>, and so arguments of the definitions (records named \<open>_env\<close>,
  \<open>netlink\<close> and \<open>site\<close>): the database engine's failures, ClamAV and Qu1cksc0pe, the sandbox's replies, hashing,
  bcrypt, JWT and the cookie store, YAML and JSON, AES, the calendar and the clock, url and phone number
  parsing, netlink, ethtool, ping, systemctl and the other programs that are run, the binding of requests,
  the decision of the CORS library, the order in which a map is iterated, HTTP between the appliances,
  the PDF library. What a theorem needs of them is a named hypothesis (\<open>healthy\<close>, \<open>works\<close>, \<open>license_works\<close>,
  \<open>block_cipher\<close>, the kernel's laws), and its witness instantiates them with functions.

  \<^bold>\<open>Bounds.\<close> Channels hold 5000 tasks, at most 50 goroutines send to the sandbox, the poll
  keeps at most 5 live tasks in it, a task is given up after 5 attempts or 300 seconds, an account after 5
  wrong passwords for 5 minutes. No definition uses fuel: recursion is structural or has a measure,
  and the loops that may not end are the partial function above and the step relation.

  \<^bold>\<open>Abstractions.\<close> A transaction and a locked update are one step; a handler takes one task of its batch
  per step. The statements of SQL are constructors with their meaning on the tables: the text of a
  query, and so what unescaped input does to it, is not modelled. Log messages are left out.

  \<^bold>\<open>Not modelled.\<close> \<open>service/cron.go\<close> and large parts of other files are commented out; the functions on
  the task configuration in \<open>config/config.go\<close> have no caller left. \<open>service/queue/cuckoo.go\<close> is a mock client
  with random answers. TLS, the profiler, the sockets, opening the database and the format of log lines
  are calls of libraries; two controllers only pass query parameters on. The manifest says so component
  by component.
\<close>

end
